(* ===== verification/Prelude.thy ===== *)
theory Prelude
  imports Main "HOL-Library.Word"
begin

unbundle bit_operations_syntax

text \<open>
  Shared vocabulary of the development: the fixed-width integers of the sources, the
  result type of \<^verbatim>\<open>src/src/include/result.hh\<close>, the two control macros of that header as
  operations on state-passing computations, a small Hoare calculus for such computations,
  and generic facts on byte buffers and words that several components use.

  \<^item> \<open>serde\<close> collects the rewrite rules for reads after writes in a byte buffer;
  \<^item> \<open>hoare\<close> collects the introduction rules of the calculus.
\<close>

named_theorems serde \<open>reads after writes in byte buffers\<close>
named_theorems hoare \<open>introduction rules for triples over result computations\<close>

section \<open>Machine integers\<close>

type_synonym u8 = "8 word"
type_synonym u16 = "16 word"
type_synonym u32 = "32 word"
type_synonym u64 = "64 word"
type_synonym i32 = "32 word"

text \<open>\<open>UINT32_MAX\<close> and \<open>UINT64_MAX\<close> of \<^verbatim>\<open><stdint.h>\<close>, and \<open>INT32_MAX\<close> as an unsigned value.\<close>

abbreviation UINT32_MAX :: u32 where "UINT32_MAX \<equiv> 0xffffffff"
abbreviation UINT64_MAX :: u64 where "UINT64_MAX \<equiv> 0xffffffffffffffff"
abbreviation INT32_MAX :: u32 where "INT32_MAX \<equiv> 0x7fffffff"

section \<open>Results\<close>

text \<open>
  \<open>ErrorCode\<close> of \<^verbatim>\<open>result.hh\<close>. The class \<open>Result<T>\<close> holds a value or an \<open>Error\<close>; the model
  keeps the error's code. The message next to it is diagnostic text.
\<close>

datatype ErrorCode =
  kInvalidArgument | kUnsupported | kRuntime | kRa | kVerbs | kTransport | kProtocol

type_synonym 'a result = "ErrorCode + 'a"

definition ok :: "'a result \<Rightarrow> bool" where
  "ok r = (case r of Inl _ \<Rightarrow> False | Inr _ \<Rightarrow> True)"

lemma ok_simps [simp]: "ok (Inr x)" "\<not> ok (Inl e)"
  by (simp_all add: ok_def)

lemma ok_iff: "ok r \<longleftrightarrow> (\<exists>x. r = Inr x)"
  by (cases r) simp_all

text \<open>
  A stateful function of the sources takes a state and returns its result with the state it
  leaves behind, on the error path as well. \<open>rbind\<close> is \<open>NDS_ASSIGN_OR_RETURN\<close>
  (and \<open>NDS_RETURN_IF_ERROR\<close> at type unit): run the first computation, return its error at
  once or pass its value on.
\<close>

type_synonym ('s, 'a) comp = "'s \<Rightarrow> 'a result \<times> 's"

definition rret :: "'a \<Rightarrow> ('s, 'a) comp" where
  "rret x s = (Inr x, s)"

definition rfail :: "ErrorCode \<Rightarrow> ('s, 'a) comp" where
  "rfail e s = (Inl e, s)"

definition rbind :: "('s, 'a) comp \<Rightarrow> ('a \<Rightarrow> ('s, 'b) comp) \<Rightarrow> ('s, 'b) comp" where
  "rbind m f s = (case m s of (Inl e, s') \<Rightarrow> (Inl e, s') | (Inr x, s') \<Rightarrow> f x s')"

lemma rret_apply [simp]: "rret x s = (Inr x, s)"
  by (simp add: rret_def)

lemma rfail_apply [simp]: "rfail e s = (Inl e, s)"
  by (simp add: rfail_def)

lemma rbind_Inr: "m s = (Inr x, s') \<Longrightarrow> rbind m f s = f x s'"
  by (simp add: rbind_def)

lemma rbind_Inl: "m s = (Inl e, s') \<Longrightarrow> rbind m f s = (Inl e, s')"
  by (simp add: rbind_def)

lemma rbind_eq_Inr_iff:
  "rbind m f s = (Inr y, t) \<longleftrightarrow> (\<exists>x s'. m s = (Inr x, s') \<and> f x s' = (Inr y, t))"
  by (auto simp: rbind_def split: prod.splits sum.splits)

lemma rbind_rret [simp]: "rbind (rret x) f = f x"
  by (rule ext) (simp add: rbind_def)

text \<open>A loop whose body may return early: \<open>for (x : xs) NDS_RETURN_IF_ERROR(body(x))\<close>.\<close>

fun rfor :: "'a list \<Rightarrow> ('a \<Rightarrow> ('s, unit) comp) \<Rightarrow> ('s, unit) comp" where
  "rfor [] body = rret ()"
| "rfor (x # xs) body = rbind (body x) (\<lambda>_. rfor xs body)"

text \<open>The same with one value collected per element.\<close>

fun rcollect :: "'a list \<Rightarrow> ('a \<Rightarrow> ('s, 'b) comp) \<Rightarrow> ('s, 'b list) comp" where
  "rcollect [] body = rret []"
| "rcollect (x # xs) body = rbind (body x) (\<lambda>y. rbind (rcollect xs body) (\<lambda>ys. rret (y # ys)))"

subsection \<open>Triples\<close>

text \<open>
  \<open>triple P m Q E\<close>: from a state in \<open>P\<close>, a value \<open>x\<close> comes with a state in \<open>Q x\<close> and an
  error with a state in \<open>E\<close>. Computations are total functions, so this is total correctness.
\<close>

definition triple :: "('s \<Rightarrow> bool) \<Rightarrow> ('s, 'a) comp \<Rightarrow> ('a \<Rightarrow> 's \<Rightarrow> bool) \<Rightarrow> ('s \<Rightarrow> bool) \<Rightarrow> bool" where
  "triple P m Q E \<longleftrightarrow> (\<forall>s. P s \<longrightarrow> (case m s of (Inl e, t) \<Rightarrow> E t | (Inr x, t) \<Rightarrow> Q x t))"

lemma tripleI:
  assumes "\<And>s x t. P s \<Longrightarrow> m s = (Inr x, t) \<Longrightarrow> Q x t"
    and "\<And>s e t. P s \<Longrightarrow> m s = (Inl e, t) \<Longrightarrow> E t"
  shows "triple P m Q E"
  using assms by (auto simp: triple_def split: prod.splits sum.splits)

lemma tripleD:
  assumes "triple P m Q E" and "P s"
  shows "m s = (Inr x, t) \<Longrightarrow> Q x t" and "m s = (Inl e, t) \<Longrightarrow> E t"
  using assms by (fastforce simp: triple_def)+

lemma triple_ret [hoare]: "(\<And>s. P s \<Longrightarrow> Q x s) \<Longrightarrow> triple P (rret x) Q E"
  by (simp add: triple_def)

lemma triple_fail [hoare]: "(\<And>s. P s \<Longrightarrow> E s) \<Longrightarrow> triple P (rfail e) Q E"
  by (simp add: triple_def)

lemma triple_bind:
  assumes "triple P m R E" and "\<And>x. triple (R x) (f x) Q E"
  shows "triple P (rbind m f) Q E"
  using assms by (fastforce simp: triple_def rbind_def split: prod.splits sum.splits)

lemma triple_conseq:
  assumes "triple P m Q E" and "\<And>s. P' s \<Longrightarrow> P s"
    and "\<And>x s. Q x s \<Longrightarrow> Q' x s" and "\<And>s. E s \<Longrightarrow> E' s"
  shows "triple P' m Q' E'"
  using assms by (fastforce simp: triple_def split: prod.splits sum.splits)

lemma triple_if [hoare]:
  assumes "b \<Longrightarrow> triple P m Q E" and "\<not> b \<Longrightarrow> triple P n Q E"
  shows "triple P (if b then m else n) Q E"
  using assms by simp

text \<open>Invariants: a computation keeps \<open>I\<close> on both paths.\<close>

abbreviation keeps :: "('s \<Rightarrow> bool) \<Rightarrow> ('s, 'a) comp \<Rightarrow> bool" where
  "keeps I m \<equiv> triple I m (\<lambda>_. I) I"

lemma keepsI: "(\<And>s. I s \<Longrightarrow> I (snd (m s))) \<Longrightarrow> keeps I m"
  by (force simp: triple_def split: prod.splits sum.splits)

lemma keeps_bind [hoare]:
  "keeps I m \<Longrightarrow> (\<And>x. keeps I (f x)) \<Longrightarrow> keeps I (rbind m f)"
  by (rule triple_bind)

lemma keeps_for [hoare]: "(\<And>x. x \<in> set xs \<Longrightarrow> keeps I (body x)) \<Longrightarrow> keeps I (rfor xs body)"
  by (induction xs) (auto intro!: triple_ret keeps_bind)

lemma keeps_collect [hoare]:
  "(\<And>x. x \<in> set xs \<Longrightarrow> keeps I (body x)) \<Longrightarrow> keeps I (rcollect xs body)"
  by (induction xs) (auto intro!: triple_ret keeps_bind)

lemma rcollect_length: "rcollect xs body s = (Inr ys, t) \<Longrightarrow> length ys = length xs"
  by (induction xs arbitrary: s ys) (auto simp: rbind_eq_Inr_iff)

subsection \<open>Computations that may run forever\<close>

text \<open>
  A function with a loop that need not end returns an \<open>option\<close> of a result and a state;
  \<open>None\<close> means that it does not return. \<open>pbind\<close> is \<open>rbind\<close> for such functions, \<open>plift\<close> runs
  a terminating computation.
\<close>

type_synonym ('s, 'a) pcomp = "'s \<Rightarrow> ('a result \<times> 's) option"

definition plift :: "('s, 'a) comp \<Rightarrow> ('s, 'a) pcomp" where
  "plift m s = Some (m s)"

definition pbind :: "('s, 'a) pcomp \<Rightarrow> ('a \<Rightarrow> ('s, 'b) pcomp) \<Rightarrow> ('s, 'b) pcomp" where
  "pbind m f s = (case m s of None \<Rightarrow> None | Some (Inl e, t) \<Rightarrow> Some (Inl e, t) | Some (Inr x, t) \<Rightarrow> f x t)"

abbreviation pret :: "'a \<Rightarrow> ('s, 'a) pcomp" where "pret x \<equiv> plift (rret x)"
abbreviation pfail :: "ErrorCode \<Rightarrow> ('s, 'a) pcomp" where "pfail e \<equiv> plift (rfail e)"

fun pcollect :: "'a list \<Rightarrow> ('a \<Rightarrow> ('s, 'b) pcomp) \<Rightarrow> ('s, 'b list) pcomp" where
  "pcollect [] body = pret []"
| "pcollect (x # xs) body = pbind (body x) (\<lambda>y. pbind (pcollect xs body) (\<lambda>ys. pret (y # ys)))"

fun pfor :: "'a list \<Rightarrow> ('a \<Rightarrow> ('s, unit) pcomp) \<Rightarrow> ('s, unit) pcomp" where
  "pfor [] body = pret ()"
| "pfor (x # xs) body = pbind (body x) (\<lambda>_. pfor xs body)"

lemma plift_apply [simp]: "plift m s = Some (m s)"
  by (simp add: plift_def)

lemma pbind_plift [simp]: "pbind (plift m) f s = (case m s of (Inl e, t) \<Rightarrow> Some (Inl e, t) | (Inr x, t) \<Rightarrow> f x t)"
  by (simp add: pbind_def split: prod.splits sum.splits)

lemma pbind_eq_Inr_iff:
  "pbind m f s = Some (Inr y, t) \<longleftrightarrow> (\<exists>x s'. m s = Some (Inr x, s') \<and> f x s' = Some (Inr y, t))"
  by (auto simp: pbind_def split: option.splits prod.splits sum.splits)

lemma pbind_eq_Inl_iff:
  "pbind m f s = Some (Inl e, t) \<longleftrightarrow>
     m s = Some (Inl e, t) \<or> (\<exists>x s'. m s = Some (Inr x, s') \<and> f x s' = Some (Inl e, t))"
  by (auto simp: pbind_def split: option.splits prod.splits sum.splits)

lemma pcollect_length: "pcollect xs body s = Some (Inr ys, t) \<Longrightarrow> length ys = length xs"
  by (induction xs arbitrary: s ys) (auto simp: pbind_eq_Inr_iff split: prod.splits sum.splits)

text \<open>Partial correctness of such a function: what holds whenever it returns.\<close>

definition ptriple :: "('s \<Rightarrow> bool) \<Rightarrow> ('s, 'a) pcomp \<Rightarrow> ('a \<Rightarrow> 's \<Rightarrow> bool) \<Rightarrow> ('s \<Rightarrow> bool) \<Rightarrow> bool" where
  "ptriple P m Q E \<longleftrightarrow>
     (\<forall>s. P s \<longrightarrow> (case m s of None \<Rightarrow> True | Some (Inl e, t) \<Rightarrow> E t | Some (Inr x, t) \<Rightarrow> Q x t))"

lemma ptriple_lift [hoare]: "triple P m Q E \<Longrightarrow> ptriple P (plift m) Q E"
  by (simp add: triple_def ptriple_def)

lemma ptriple_if [hoare]:
  assumes "b \<Longrightarrow> ptriple P m Q E" and "\<not> b \<Longrightarrow> ptriple P n Q E"
  shows "ptriple P (if b then m else n) Q E"
  using assms by simp

text \<open>The rule for a computation of which only the final state matters.\<close>

lemma pkeepsI: "(\<And>s r t. I s \<Longrightarrow> m s = Some (r, t) \<Longrightarrow> I t) \<Longrightarrow> ptriple I m (\<lambda>_. I) I"
  by (force simp: ptriple_def split: option.splits prod.splits sum.splits)

lemma ptriple_bind:
  assumes "ptriple P m R E" and "\<And>x. ptriple (R x) (f x) Q E"
  shows "ptriple P (pbind m f) Q E"
  using assms by (fastforce simp: ptriple_def pbind_def split: option.splits prod.splits sum.splits)

lemma ptripleD:
  assumes "ptriple P m Q E" and "P s"
  shows "m s = Some (Inr x, t) \<Longrightarrow> Q x t" and "m s = Some (Inl e, t) \<Longrightarrow> E t"
  using assms by (fastforce simp: ptriple_def)+

abbreviation pkeeps :: "('s \<Rightarrow> bool) \<Rightarrow> ('s, 'a) pcomp \<Rightarrow> bool" where
  "pkeeps I m \<equiv> ptriple I m (\<lambda>_. I) I"

lemma pkeeps_bind [hoare]:
  "pkeeps I m \<Longrightarrow> (\<And>x. pkeeps I (f x)) \<Longrightarrow> pkeeps I (pbind m f)"
  by (rule ptriple_bind)

lemma pkeeps_for [hoare]: "(\<And>x. x \<in> set xs \<Longrightarrow> pkeeps I (body x)) \<Longrightarrow> pkeeps I (pfor xs body)"
  by (induction xs) (auto intro!: ptriple_lift triple_ret pkeeps_bind)

lemma pkeeps_collect [hoare]:
  "(\<And>x. x \<in> set xs \<Longrightarrow> pkeeps I (body x)) \<Longrightarrow> pkeeps I (pcollect xs body)"
  by (induction xs) (auto intro!: ptriple_lift triple_ret pkeeps_bind)

text \<open>What each call of a loop returns, whatever the state: the results of the loop, element by element.\<close>

abbreviation yields :: "('s, 'a) pcomp \<Rightarrow> ('a \<Rightarrow> bool) \<Rightarrow> bool" where
  "yields m Q \<equiv> ptriple (\<lambda>_. True) m (\<lambda>x _. Q x) (\<lambda>_. True)"

lemma yields_bind: "yields m R \<Longrightarrow> (\<And>x. R x \<Longrightarrow> yields (f x) Q) \<Longrightarrow> yields (pbind m f) Q"
  by (fastforce simp: ptriple_def pbind_def split: option.splits prod.splits sum.splits)

lemma yields_collect:
  assumes "\<And>x. x \<in> set xs \<Longrightarrow> yields (body x) (Q x)"
  shows "yields (pcollect xs body) (list_all2 Q xs)"
  using assms
proof (induction xs)
  case (Cons x xs)
  have rest: "yields (pcollect xs body) (list_all2 Q xs)" using Cons by simp
  have first: "yields (body x) (Q x)" using Cons.prems by simp
  show ?case
    unfolding pcollect.simps
    by (rule yields_bind [OF first], rule yields_bind [OF rest]) (simp add: ptriple_def)
qed (simp add: ptriple_def)

text \<open>Computations that always return.\<close>

definition returns :: "('s, 'a) pcomp \<Rightarrow> bool" where
  "returns m \<longleftrightarrow> (\<forall>s. m s \<noteq> None)"

named_theorems total_rules \<open>computations that always return\<close>

lemma returns_lift [total_rules]: "returns (plift m)"
  by (simp add: returns_def)

lemma returns_bind [total_rules]: "returns m \<Longrightarrow> (\<And>x. returns (f x)) \<Longrightarrow> returns (pbind m f)"
  by (fastforce simp: returns_def pbind_def split: option.splits prod.splits sum.splits)

lemma returns_for [total_rules]: "(\<And>x. returns (body x)) \<Longrightarrow> returns (pfor xs body)"
  by (induction xs) (simp_all add: returns_lift returns_bind)

lemma returns_collect [total_rules]: "(\<And>x. returns (body x)) \<Longrightarrow> returns (pcollect xs body)"
  by (induction xs) (simp_all add: returns_lift returns_bind)

lemma returns_if [total_rules]: "returns m \<Longrightarrow> returns n \<Longrightarrow> returns (if b then m else n)"
  by simp

lemma returnsI: "(\<And>s. m s \<noteq> None) \<Longrightarrow> returns m"
  by (simp add: returns_def)

lemma returnsD: "returns m \<Longrightarrow> m s \<noteq> None"
  by (simp add: returns_def)

section \<open>Words\<close>

lemma unat_less_64: "unat (a :: u64) < 2 ^ 64"
  using unsigned_less [of a] by simp

lemma unat_less_32: "unat (a :: u32) < 2 ^ 32"
  using unsigned_less [of a] by simp

lemma unat_less_16: "unat (a :: u16) < 2 ^ 16"
  using unsigned_less [of a] by simp

lemma word_le_mask_sub:
  fixes a b :: "'a::len word"
  assumes "a \<le> b"
  shows "unat (b - a) = unat b - unat a"
  using assms by (simp add: unat_sub word_le_nat_alt)

text \<open>The sources' guard for a subrange: an offset and a length inside a size, no wrap-around.\<close>

lemma range_guard_unat:
  fixes off len size :: u64
  shows "off \<le> size \<and> len \<le> size - off \<longleftrightarrow> unat off + unat len \<le> unat size"
proof
  assume "off \<le> size \<and> len \<le> size - off"
  then show "unat off + unat len \<le> unat size"
    using word_le_mask_sub [of off size] by (simp add: word_le_nat_alt) linarith
next
  assume a: "unat off + unat len \<le> unat size"
  then have "off \<le> size" by (simp add: word_le_nat_alt)
  with a show "off \<le> size \<and> len \<le> size - off"
    using word_le_mask_sub [of off size] by (simp add: word_le_nat_alt)
qed

lemma add_guard_unat:
  fixes a b :: u64
  shows "a \<le> UINT64_MAX - b \<longleftrightarrow> unat a + unat b < 2 ^ 64"
proof -
  have "b \<le> UINT64_MAX" using unat_less_64 [of b] by (simp add: word_le_nat_alt)
  then have "unat (UINT64_MAX - b) = 2 ^ 64 - 1 - unat b"
    using word_le_mask_sub [of b UINT64_MAX] by simp
  then show ?thesis
    using unat_less_64 [of b] by (auto simp: word_le_nat_alt)
qed

lemma unat_add_small:
  fixes a b :: u64
  assumes "unat a + unat b < 2 ^ 64"
  shows "unat (a + b) = unat a + unat b"
  using assms by (simp add: unat_word_ariths)

text \<open>Widening keeps the value.\<close>

lemma unat_ucast_u32_u64 [simp]: "unat (ucast (a :: u32) :: u64) = unat a"
  using unat_less_32 [of a] by (simp add: unsigned_ucast_eq take_bit_nat_eq_self)

lemma unat_ucast_u16_u32 [simp]: "unat (ucast (a :: u16) :: u32) = unat a"
  using unat_less_16 [of a] by (simp add: unsigned_ucast_eq take_bit_nat_eq_self)

end
