(* ===== verification/Storage_Wire.thy ===== *)
theory Storage_Wire
  imports Prelude
begin

text \<open>
  The byte primitives of \<^verbatim>\<open>src/src/include/storage_protocol.hh\<close> (namespace
  \<open>storage_serde_detail\<close>): big-endian stores and loads at a byte offset of a buffer. A
  C++ pointer \<open>bytes + k\<close> is the buffer with the offset \<open>k\<close>. The lemmas give the algebra of
  reads after writes; they are collected in \<open>serde\<close>, so that the record codecs are proved by
  rewriting alone.
\<close>

section \<open>Definitions\<close>

text \<open>\<open>clear\<close>: the loop over the indices below \<open>size\<close>.\<close>

primrec clear :: "u8 list \<Rightarrow> nat \<Rightarrow> u8 list" where
  "clear bytes 0 = bytes"
| "clear bytes (Suc index) = (clear bytes index)[index := 0]"

definition write_u16 :: "u8 list \<Rightarrow> nat \<Rightarrow> u16 \<Rightarrow> u8 list" where
  "write_u16 bytes k value = bytes[k := ucast (drop_bit 8 value), k + 1 := ucast value]"

definition write_u32 :: "u8 list \<Rightarrow> nat \<Rightarrow> u32 \<Rightarrow> u8 list" where
  "write_u32 bytes k value =
     bytes[k := ucast (drop_bit 24 value), k + 1 := ucast (drop_bit 16 value),
           k + 2 := ucast (drop_bit 8 value), k + 3 := ucast value]"

definition write_u64 :: "u8 list \<Rightarrow> nat \<Rightarrow> u64 \<Rightarrow> u8 list" where
  "write_u64 bytes k value =
     write_u32 (write_u32 bytes k (ucast (drop_bit 32 value))) (k + 4) (ucast value)"

definition read_u16 :: "u8 list \<Rightarrow> nat \<Rightarrow> u16" where
  "read_u16 bytes k = push_bit 8 (ucast (bytes ! k)) OR ucast (bytes ! (k + 1))"

definition read_u32 :: "u8 list \<Rightarrow> nat \<Rightarrow> u32" where
  "read_u32 bytes k =
     push_bit 24 (ucast (bytes ! k)) OR push_bit 16 (ucast (bytes ! (k + 1))) OR
     push_bit 8 (ucast (bytes ! (k + 2))) OR ucast (bytes ! (k + 3))"

definition read_u64 :: "u8 list \<Rightarrow> nat \<Rightarrow> u64" where
  "read_u64 bytes k = push_bit 32 (ucast (read_u32 bytes k)) OR ucast (read_u32 bytes (k + 4))"

section \<open>Lengths and frames\<close>

lemma length_clear [simp]: "length (clear bytes n) = length bytes"
  by (induction n) simp_all

lemma length_write [simp]:
  "length (write_u16 bytes k a) = length bytes"
  "length (write_u32 bytes k b) = length bytes"
  "length (write_u64 bytes k c) = length bytes"
  by (simp_all add: write_u16_def write_u32_def write_u64_def)

lemma nth_clear: "i < length bytes \<Longrightarrow> clear bytes n ! i = (if i < n then 0 else bytes ! i)"
  by (induction n) (auto simp: nth_list_update less_Suc_eq)

lemma nth_write_u16: "i < k \<or> k + 2 \<le> i \<Longrightarrow> write_u16 bytes k a ! i = bytes ! i"
  by (auto simp: write_u16_def)

lemma nth_write_u32: "i < k \<or> k + 4 \<le> i \<Longrightarrow> write_u32 bytes k a ! i = bytes ! i"
  by (auto simp: write_u32_def)

lemma nth_write_u64: "i < k \<or> k + 8 \<le> i \<Longrightarrow> write_u64 bytes k a ! i = bytes ! i"
  by (auto simp: write_u64_def nth_write_u32)

lemma drop_write:
  "k + 2 \<le> n \<Longrightarrow> drop n (write_u16 bytes k a) = drop n bytes"
  "k + 4 \<le> n \<Longrightarrow> drop n (write_u32 bytes k b) = drop n bytes"
  "k + 8 \<le> n \<Longrightarrow> drop n (write_u64 bytes k c) = drop n bytes"
  by (simp_all add: write_u16_def write_u32_def write_u64_def drop_update_swap)

lemma drop_clear: "drop n (clear bytes n) = drop n bytes"
  by (rule nth_equalityI) (auto simp: nth_clear)

section \<open>Reads after writes\<close>

lemma join_bytes_u16: "push_bit 8 (ucast (ucast (drop_bit 8 a) :: u8)) OR ucast (ucast a :: u8) = (a :: u16)"
  by (rule bit_word_eqI) (auto simp: bit_simps not_less dest: less_imp_Suc_add)

lemma join_bytes_u32:
  "push_bit 24 (ucast (ucast (drop_bit 24 a) :: u8)) OR push_bit 16 (ucast (ucast (drop_bit 16 a) :: u8)) OR
   push_bit 8 (ucast (ucast (drop_bit 8 a) :: u8)) OR ucast (ucast a :: u8) = (a :: u32)"
proof (rule bit_word_eqI)
  fix n
  assume "n < LENGTH(32)"
  then consider "n < 8" | "8 \<le> n" "n < 16" | "16 \<le> n" "n < 24" | "24 \<le> n" "n < 32"
    by fastforce
  then show "bit (push_bit 24 (ucast (ucast (drop_bit 24 a) :: u8)) OR push_bit 16 (ucast (ucast (drop_bit 16 a) :: u8)) OR
      push_bit 8 (ucast (ucast (drop_bit 8 a) :: u8)) OR ucast (ucast a :: u8) :: u32) n = bit a n"
    by cases (auto simp: bit_simps)
qed

lemma join_halves_u64: "push_bit 32 (ucast (ucast (drop_bit 32 a) :: u32)) OR ucast (ucast a :: u32) = (a :: u64)"
  by (rule bit_word_eqI) (auto simp: bit_simps not_less)

lemma read_write_same [serde]:
  "k + 2 \<le> length bytes \<Longrightarrow> read_u16 (write_u16 bytes k a) k = a"
  "k + 4 \<le> length bytes \<Longrightarrow> read_u32 (write_u32 bytes k b) k = b"
  by (simp_all add: read_u16_def write_u16_def read_u32_def write_u32_def join_bytes_u16 join_bytes_u32)

lemma read_u16_write_other [serde]:
  "j + 2 \<le> k \<or> k + 2 \<le> j \<Longrightarrow> read_u16 (write_u16 bytes k a) j = read_u16 bytes j"
  "j + 2 \<le> k \<or> k + 4 \<le> j \<Longrightarrow> read_u16 (write_u32 bytes k b) j = read_u16 bytes j"
  "j + 2 \<le> k \<or> k + 8 \<le> j \<Longrightarrow> read_u16 (write_u64 bytes k c) j = read_u16 bytes j"
  by (auto simp: read_u16_def nth_write_u16 nth_write_u32 nth_write_u64)

lemma read_u32_write_other [serde]:
  "j + 4 \<le> k \<or> k + 2 \<le> j \<Longrightarrow> read_u32 (write_u16 bytes k a) j = read_u32 bytes j"
  "j + 4 \<le> k \<or> k + 4 \<le> j \<Longrightarrow> read_u32 (write_u32 bytes k b) j = read_u32 bytes j"
  "j + 4 \<le> k \<or> k + 8 \<le> j \<Longrightarrow> read_u32 (write_u64 bytes k c) j = read_u32 bytes j"
  by (auto simp: read_u32_def nth_write_u16 nth_write_u32 nth_write_u64)

lemma read_u64_write_other [serde]:
  "j + 8 \<le> k \<or> k + 2 \<le> j \<Longrightarrow> read_u64 (write_u16 bytes k a) j = read_u64 bytes j"
  "j + 8 \<le> k \<or> k + 4 \<le> j \<Longrightarrow> read_u64 (write_u32 bytes k b) j = read_u64 bytes j"
  "j + 8 \<le> k \<or> k + 8 \<le> j \<Longrightarrow> read_u64 (write_u64 bytes k c) j = read_u64 bytes j"
  by (auto simp: read_u64_def read_u32_write_other)

lemma read_u64_write_same [serde]:
  "k + 8 \<le> length bytes \<Longrightarrow> read_u64 (write_u64 bytes k a) k = a"
  by (simp add: read_u64_def write_u64_def serde join_halves_u64)

lemma read_clear [serde]:
  "j + 2 \<le> n \<Longrightarrow> n \<le> length bytes \<Longrightarrow> read_u16 (clear bytes n) j = 0"
  "j + 4 \<le> n \<Longrightarrow> n \<le> length bytes \<Longrightarrow> read_u32 (clear bytes n) j = 0"
  "j + 8 \<le> n \<Longrightarrow> n \<le> length bytes \<Longrightarrow> read_u64 (clear bytes n) j = 0"
  by (simp_all add: read_u16_def read_u32_def read_u64_def nth_clear)

text \<open>A read depends on the bytes it covers only.\<close>

lemma read_cong_take:
  assumes "take n bytes = take n bytes'"
  shows "j + 2 \<le> n \<Longrightarrow> read_u16 bytes j = read_u16 bytes' j"
    and "j + 4 \<le> n \<Longrightarrow> read_u32 bytes j = read_u32 bytes' j"
    and "j + 8 \<le> n \<Longrightarrow> read_u64 bytes j = read_u64 bytes' j"
proof -
  have nth: "i < n \<Longrightarrow> bytes ! i = bytes' ! i" for i
    by (metis assms nth_take)
  show "j + 2 \<le> n \<Longrightarrow> read_u16 bytes j = read_u16 bytes' j"
    and "j + 4 \<le> n \<Longrightarrow> read_u32 bytes j = read_u32 bytes' j"
    and "j + 8 \<le> n \<Longrightarrow> read_u64 bytes j = read_u64 bytes' j"
    by (simp_all add: read_u16_def read_u32_def read_u64_def nth)
qed

end
