(* ===== verification/Storage_Protocol.thy ===== *)
theory Storage_Protocol
  imports Storage_Wire
begin

text \<open>
  The storage records of \<^verbatim>\<open>src/src/include/storage_protocol.hh\<close> with their serializers and
  deserializers. A pointer argument is an \<open>option\<close> whose \<open>None\<close> is \<open>nullptr\<close>; a function
  that writes through a pointer returns the new pointee. The two fields of a completion
  that are C++ enumerations over \<open>uint16_t\<close> are kept as their \<open>uint16_t\<close> value, because a
  deserializer casts before it validates. The locales at the end state the contract of a
  record codec; every record of the header is an interpretation.
\<close>

section \<open>Constants and records\<close>

definition kStorageBootstrapBytes :: u32 where "kStorageBootstrapBytes = 96"
definition kStorageNamespaceBytes :: u32 where "kStorageNamespaceBytes = 16"
definition kStorageCommandBytes :: u32 where "kStorageCommandBytes = 64"
definition kStorageBatchEntryBytes :: u32 where "kStorageBatchEntryBytes = 40"
definition kStorageCompletionBytes :: u32 where "kStorageCompletionBytes = 32"
definition kStorageMaxBatchEntries :: u32 where "kStorageMaxBatchEntries = 1024"

definition kBootstrapMagic :: u32 where "kBootstrapMagic = 0x4e445342"
definition kCommandMagic :: u32 where "kCommandMagic = 0x4e445343"
definition kCompletionMagic :: u32 where "kCompletionMagic = 0x4e445344"
definition kNamespaceMagic :: u32 where "kNamespaceMagic = 0x4e44534e"
definition kVersion :: u16 where "kVersion = 3"
definition kBootstrapVersion :: u16 where "kBootstrapVersion = 5"
definition kStorageSlotDescriptorBytes :: u32 where "kStorageSlotDescriptorBytes = 56"
definition kRemoteWrite :: u32 where "kRemoteWrite = 2"
definition kRemoteRead :: u32 where "kRemoteRead = 4"

lemmas storage_consts =
  kStorageBootstrapBytes_def kStorageNamespaceBytes_def kStorageCommandBytes_def
  kStorageBatchEntryBytes_def kStorageCompletionBytes_def kStorageMaxBatchEntries_def
  kBootstrapMagic_def kCommandMagic_def kCompletionMagic_def kNamespaceMagic_def kVersion_def
  kBootstrapVersion_def kStorageSlotDescriptorBytes_def kRemoteWrite_def kRemoteRead_def

datatype StorageOperation = OpRead | OpWrite | OpBatchRead | OpBatchWrite

fun operation_code :: "StorageOperation \<Rightarrow> u16" where
  "operation_code OpRead = 1"
| "operation_code OpWrite = 2"
| "operation_code OpBatchRead = 3"
| "operation_code OpBatchWrite = 4"

definition operation_of_code :: "u16 \<Rightarrow> StorageOperation" where
  "operation_of_code v =
     (if v = 1 then OpRead else if v = 2 then OpWrite else if v = 3 then OpBatchRead else OpBatchWrite)"

type_synonym StorageCompletionState = u16
type_synonym StorageStatus = u16

definition StatePending :: StorageCompletionState where "StatePending = 0"
definition StateComplete :: StorageCompletionState where "StateComplete = 1"

definition StatusSuccess :: StorageStatus where "StatusSuccess = 0"
definition StatusInvalidCommand :: StorageStatus where "StatusInvalidCommand = 1"
definition StatusRangeError :: StorageStatus where "StatusRangeError = 2"
definition StatusTransportError :: StorageStatus where "StatusTransportError = 3"
definition StatusInternalError :: StorageStatus where "StatusInternalError = 4"

lemmas storage_status_defs =
  StatePending_def StateComplete_def StatusSuccess_def StatusInvalidCommand_def
  StatusRangeError_def StatusTransportError_def StatusInternalError_def

datatype StorageSerdeResult = SerdeOk | SerdeInvalidArgument | SerdeInvalidRecord

record StorageMemory =
  m_address :: u64
  m_length :: u64
  m_remote_key :: u32

record StorageReadCommand =
  r_command_id :: u64
  r_offset :: u64
  r_length :: u64
  r_data :: StorageMemory
  r_slot_index :: u32

record StorageWriteCommand =
  w_command_id :: u64
  w_offset :: u64
  w_length :: u64
  w_data :: StorageMemory
  w_slot_index :: u32

record StorageBatchReadCommand =
  br_command_id :: u64
  br_entry_count :: u64
  br_total_length :: u64
  br_entries :: StorageMemory
  br_slot_index :: u32

record StorageBatchWriteCommand =
  bw_command_id :: u64
  bw_entry_count :: u64
  bw_total_length :: u64
  bw_entries :: StorageMemory
  bw_slot_index :: u32

record StorageBatchReadEntry =
  bre_offset :: u64
  bre_length :: u64
  bre_data :: StorageMemory

record StorageBatchWriteEntry =
  bwe_offset :: u64
  bwe_length :: u64
  bwe_data :: StorageMemory

record StorageCompletion =
  c_command_id :: u64
  c_state :: StorageCompletionState
  c_status :: StorageStatus
  c_bytes_transferred :: u64

record StorageBootstrap =
  b_completion :: StorageMemory
  b_namespace_response :: StorageMemory
  b_slots :: StorageMemory
  b_slot_count :: u32

record StorageSlot =
  s_command :: StorageMemory
  s_completion :: StorageMemory
  s_qp_index :: u32
  s_reserved :: u32

record StorageNamespace =
  ns_capacity :: u64

text \<open>The pointees of \<open>deserialize_command\<close>'s five output pointers.\<close>

record CommandOut =
  d_command_id :: u64
  d_offset :: u64
  d_length :: u64
  d_data :: StorageMemory
  d_slot_index :: u32

text \<open>The pointees of \<open>deserialize_batch_entry\<close>'s three output pointers.\<close>

record EntryOut =
  e_offset :: u64
  e_length :: u64
  e_data :: StorageMemory

section \<open>Commands\<close>

definition memory_valid :: "StorageMemory \<Rightarrow> u64 \<Rightarrow> bool" where
  "memory_valid memory required_length \<longleftrightarrow>
     m_address memory \<noteq> 0 \<and> m_length memory \<ge> required_length \<and> m_remote_key memory \<noteq> 0"

definition put_command :: "StorageOperation \<Rightarrow> u64 \<Rightarrow> u64 \<Rightarrow> u64 \<Rightarrow> StorageMemory \<Rightarrow> u32 \<Rightarrow> u32 \<Rightarrow>
    u8 list \<Rightarrow> u8 list" where
  "put_command operation command_id offset len data access slot_index bytes =
     (let bytes = clear bytes (unat kStorageCommandBytes);
          bytes = write_u32 bytes 0 kCommandMagic;
          bytes = write_u16 bytes 4 kVersion;
          bytes = write_u16 bytes 6 (operation_code operation);
          bytes = write_u64 bytes 8 command_id;
          bytes = write_u64 bytes 16 offset;
          bytes = write_u64 bytes 24 len;
          bytes = write_u64 bytes 32 (m_address data);
          bytes = write_u64 bytes 40 (m_length data);
          bytes = write_u32 bytes 48 (m_remote_key data);
          bytes = write_u32 bytes 52 access;
          bytes = write_u32 bytes 56 slot_index
      in bytes)"

definition serialize_command :: "StorageOperation \<Rightarrow> u64 \<Rightarrow> u64 \<Rightarrow> u64 \<Rightarrow> StorageMemory \<Rightarrow> u64 \<Rightarrow> u32 \<Rightarrow> u32 \<Rightarrow>
    u8 list option \<Rightarrow> u32 \<Rightarrow> StorageSerdeResult \<times> u8 list option" where
  "serialize_command operation command_id offset len data required_data_length access slot_index bytes sz =
     (case bytes of
        None \<Rightarrow> (SerdeInvalidArgument, None)
      | Some buf \<Rightarrow>
          if sz < kStorageCommandBytes then (SerdeInvalidArgument, Some buf)
          else if command_id = 0 \<or> len = 0 \<or> \<not> memory_valid data required_data_length
          then (SerdeInvalidRecord, Some buf)
          else (SerdeOk, Some (put_command operation command_id offset len data access slot_index buf)))"

definition deserialize_command :: "u8 list option \<Rightarrow> u32 \<Rightarrow> StorageOperation \<Rightarrow> u32 \<Rightarrow> CommandOut option \<Rightarrow>
    StorageSerdeResult \<times> CommandOut option" where
  "deserialize_command bytes sz expected_operation required_access out =
     (case (bytes, out) of
        (Some buf, Some old) \<Rightarrow>
          if sz < kStorageCommandBytes then (SerdeInvalidArgument, Some old)
          else if read_u32 buf 0 \<noteq> kCommandMagic \<or> read_u16 buf 4 \<noteq> kVersion
            \<or> read_u16 buf 6 \<noteq> operation_code expected_operation
            \<or> read_u32 buf 52 AND required_access \<noteq> required_access
          then (SerdeInvalidRecord, Some old)
          else
            (let new = \<lparr>d_command_id = read_u64 buf 8, d_offset = read_u64 buf 16, d_length = read_u64 buf 24,
                        d_data = \<lparr>m_address = read_u64 buf 32, m_length = read_u64 buf 40,
                                  m_remote_key = read_u32 buf 48\<rparr>,
                        d_slot_index = read_u32 buf 56\<rparr>
             in if d_command_id new = 0 \<or> d_length new = 0 \<or> \<not> memory_valid (d_data new) 0
                  \<or> read_u32 buf 60 \<noteq> 0
                then (SerdeInvalidRecord, Some new) else (SerdeOk, Some new))
      | _ \<Rightarrow> (SerdeInvalidArgument, out))"

definition put_batch_entry :: "u64 \<Rightarrow> u64 \<Rightarrow> StorageMemory \<Rightarrow> u32 \<Rightarrow> u8 list \<Rightarrow> u8 list" where
  "put_batch_entry offset len data access bytes =
     (let bytes = clear bytes (unat kStorageBatchEntryBytes);
          bytes = write_u64 bytes 0 offset;
          bytes = write_u64 bytes 8 len;
          bytes = write_u64 bytes 16 (m_address data);
          bytes = write_u64 bytes 24 (m_length data);
          bytes = write_u32 bytes 32 (m_remote_key data);
          bytes = write_u32 bytes 36 access
      in bytes)"

definition serialize_batch_entry :: "u64 \<Rightarrow> u64 \<Rightarrow> StorageMemory \<Rightarrow> u32 \<Rightarrow> u8 list option \<Rightarrow> u32 \<Rightarrow>
    StorageSerdeResult \<times> u8 list option" where
  "serialize_batch_entry offset len data access bytes sz =
     (case bytes of
        None \<Rightarrow> (SerdeInvalidArgument, None)
      | Some buf \<Rightarrow>
          if sz < kStorageBatchEntryBytes then (SerdeInvalidArgument, Some buf)
          else if len = 0 \<or> \<not> memory_valid data len then (SerdeInvalidRecord, Some buf)
          else (SerdeOk, Some (put_batch_entry offset len data access buf)))"

definition deserialize_batch_entry :: "u8 list option \<Rightarrow> u32 \<Rightarrow> u32 \<Rightarrow> EntryOut option \<Rightarrow>
    StorageSerdeResult \<times> EntryOut option" where
  "deserialize_batch_entry bytes sz required_access out =
     (case (bytes, out) of
        (Some buf, Some old) \<Rightarrow>
          if sz < kStorageBatchEntryBytes then (SerdeInvalidArgument, Some old)
          else if read_u32 buf 36 AND required_access \<noteq> required_access
          then (SerdeInvalidRecord, Some old)
          else
            (let new = \<lparr>e_offset = read_u64 buf 0, e_length = read_u64 buf 8,
                        e_data = \<lparr>m_address = read_u64 buf 16, m_length = read_u64 buf 24,
                                  m_remote_key = read_u32 buf 32\<rparr>\<rparr>
             in if e_length new = 0 \<or> \<not> memory_valid (e_data new) (e_length new)
                then (SerdeInvalidRecord, Some new) else (SerdeOk, Some new))
      | _ \<Rightarrow> (SerdeInvalidArgument, out))"

definition serialize_storage_read :: "StorageReadCommand \<Rightarrow> u8 list option \<Rightarrow> u32 \<Rightarrow>
    StorageSerdeResult \<times> u8 list option" where
  "serialize_storage_read command bytes sz =
     serialize_command OpRead (r_command_id command) (r_offset command) (r_length command) (r_data command)
       (r_length command) kRemoteWrite (r_slot_index command) bytes sz"

definition read_of_out :: "CommandOut \<Rightarrow> StorageReadCommand" where
  "read_of_out d = \<lparr>r_command_id = d_command_id d, r_offset = d_offset d, r_length = d_length d,
     r_data = d_data d, r_slot_index = d_slot_index d\<rparr>"

definition out_of_read :: "StorageReadCommand \<Rightarrow> CommandOut" where
  "out_of_read c = \<lparr>d_command_id = r_command_id c, d_offset = r_offset c, d_length = r_length c,
     d_data = r_data c, d_slot_index = r_slot_index c\<rparr>"

definition deserialize_storage_read :: "u8 list option \<Rightarrow> u32 \<Rightarrow> StorageReadCommand option \<Rightarrow>
    StorageSerdeResult \<times> StorageReadCommand option" where
  "deserialize_storage_read bytes sz command =
     (case command of
        None \<Rightarrow> (SerdeInvalidArgument, None)
      | Some old \<Rightarrow>
          (case deserialize_command bytes sz OpRead kRemoteWrite (Some (out_of_read old)) of
             (SerdeOk, Some out) \<Rightarrow>
               (let new = read_of_out out
                in (if m_length (r_data new) \<ge> r_length new then SerdeOk else SerdeInvalidRecord, Some new))
           | (result, out) \<Rightarrow> (result, map_option read_of_out out)))"

definition serialize_storage_write :: "StorageWriteCommand \<Rightarrow> u8 list option \<Rightarrow> u32 \<Rightarrow>
    StorageSerdeResult \<times> u8 list option" where
  "serialize_storage_write command bytes sz =
     serialize_command OpWrite (w_command_id command) (w_offset command) (w_length command) (w_data command)
       (w_length command) kRemoteRead (w_slot_index command) bytes sz"

definition write_of_out :: "CommandOut \<Rightarrow> StorageWriteCommand" where
  "write_of_out d = \<lparr>w_command_id = d_command_id d, w_offset = d_offset d, w_length = d_length d,
     w_data = d_data d, w_slot_index = d_slot_index d\<rparr>"

definition out_of_write :: "StorageWriteCommand \<Rightarrow> CommandOut" where
  "out_of_write c = \<lparr>d_command_id = w_command_id c, d_offset = w_offset c, d_length = w_length c,
     d_data = w_data c, d_slot_index = w_slot_index c\<rparr>"

definition deserialize_storage_write :: "u8 list option \<Rightarrow> u32 \<Rightarrow> StorageWriteCommand option \<Rightarrow>
    StorageSerdeResult \<times> StorageWriteCommand option" where
  "deserialize_storage_write bytes sz command =
     (case command of
        None \<Rightarrow> (SerdeInvalidArgument, None)
      | Some old \<Rightarrow>
          (case deserialize_command bytes sz OpWrite kRemoteRead (Some (out_of_write old)) of
             (SerdeOk, Some out) \<Rightarrow>
               (let new = write_of_out out
                in (if m_length (w_data new) \<ge> w_length new then SerdeOk else SerdeInvalidRecord, Some new))
           | (result, out) \<Rightarrow> (result, map_option write_of_out out)))"

definition serialize_storage_batch_read :: "StorageBatchReadCommand \<Rightarrow> u8 list option \<Rightarrow> u32 \<Rightarrow>
    StorageSerdeResult \<times> u8 list option" where
  "serialize_storage_batch_read command bytes sz =
     (if br_entry_count command = 0 \<or> br_entry_count command > ucast kStorageMaxBatchEntries
        \<or> m_length (br_entries command) < br_entry_count command * ucast kStorageBatchEntryBytes
      then (SerdeInvalidRecord, bytes)
      else serialize_command OpBatchRead (br_command_id command) (br_entry_count command)
             (br_total_length command) (br_entries command)
             (br_entry_count command * ucast kStorageBatchEntryBytes) kRemoteRead
             (br_slot_index command) bytes sz)"

definition batch_read_of_out :: "CommandOut \<Rightarrow> StorageBatchReadCommand" where
  "batch_read_of_out d = \<lparr>br_command_id = d_command_id d, br_entry_count = d_offset d,
     br_total_length = d_length d, br_entries = d_data d, br_slot_index = d_slot_index d\<rparr>"

definition out_of_batch_read :: "StorageBatchReadCommand \<Rightarrow> CommandOut" where
  "out_of_batch_read c = \<lparr>d_command_id = br_command_id c, d_offset = br_entry_count c,
     d_length = br_total_length c, d_data = br_entries c, d_slot_index = br_slot_index c\<rparr>"

definition deserialize_storage_batch_read :: "u8 list option \<Rightarrow> u32 \<Rightarrow> StorageBatchReadCommand option \<Rightarrow>
    StorageSerdeResult \<times> StorageBatchReadCommand option" where
  "deserialize_storage_batch_read bytes sz command =
     (case command of
        None \<Rightarrow> (SerdeInvalidArgument, None)
      | Some old \<Rightarrow>
          (case deserialize_command bytes sz OpBatchRead kRemoteRead (Some (out_of_batch_read old)) of
             (SerdeOk, Some out) \<Rightarrow>
               (let new = batch_read_of_out out
                in (if br_entry_count new \<le> ucast kStorageMaxBatchEntries
                       \<and> m_length (br_entries new) \<ge> br_entry_count new * ucast kStorageBatchEntryBytes
                    then SerdeOk else SerdeInvalidRecord, Some new))
           | (result, out) \<Rightarrow> (result, map_option batch_read_of_out out)))"

definition serialize_storage_batch_write :: "StorageBatchWriteCommand \<Rightarrow> u8 list option \<Rightarrow> u32 \<Rightarrow>
    StorageSerdeResult \<times> u8 list option" where
  "serialize_storage_batch_write command bytes sz =
     (if bw_entry_count command = 0 \<or> bw_entry_count command > ucast kStorageMaxBatchEntries
        \<or> m_length (bw_entries command) < bw_entry_count command * ucast kStorageBatchEntryBytes
      then (SerdeInvalidRecord, bytes)
      else serialize_command OpBatchWrite (bw_command_id command) (bw_entry_count command)
             (bw_total_length command) (bw_entries command)
             (bw_entry_count command * ucast kStorageBatchEntryBytes) kRemoteRead
             (bw_slot_index command) bytes sz)"

definition batch_write_of_out :: "CommandOut \<Rightarrow> StorageBatchWriteCommand" where
  "batch_write_of_out d = \<lparr>bw_command_id = d_command_id d, bw_entry_count = d_offset d,
     bw_total_length = d_length d, bw_entries = d_data d, bw_slot_index = d_slot_index d\<rparr>"

definition out_of_batch_write :: "StorageBatchWriteCommand \<Rightarrow> CommandOut" where
  "out_of_batch_write c = \<lparr>d_command_id = bw_command_id c, d_offset = bw_entry_count c,
     d_length = bw_total_length c, d_data = bw_entries c, d_slot_index = bw_slot_index c\<rparr>"

definition deserialize_storage_batch_write :: "u8 list option \<Rightarrow> u32 \<Rightarrow> StorageBatchWriteCommand option \<Rightarrow>
    StorageSerdeResult \<times> StorageBatchWriteCommand option" where
  "deserialize_storage_batch_write bytes sz command =
     (case command of
        None \<Rightarrow> (SerdeInvalidArgument, None)
      | Some old \<Rightarrow>
          (case deserialize_command bytes sz OpBatchWrite kRemoteRead (Some (out_of_batch_write old)) of
             (SerdeOk, Some out) \<Rightarrow>
               (let new = batch_write_of_out out
                in (if bw_entry_count new \<le> ucast kStorageMaxBatchEntries
                       \<and> m_length (bw_entries new) \<ge> bw_entry_count new * ucast kStorageBatchEntryBytes
                    then SerdeOk else SerdeInvalidRecord, Some new))
           | (result, out) \<Rightarrow> (result, map_option batch_write_of_out out)))"

definition serialize_storage_batch_read_entry :: "StorageBatchReadEntry \<Rightarrow> u8 list option \<Rightarrow> u32 \<Rightarrow>
    StorageSerdeResult \<times> u8 list option" where
  "serialize_storage_batch_read_entry entry bytes sz =
     serialize_batch_entry (bre_offset entry) (bre_length entry) (bre_data entry) kRemoteWrite bytes sz"

definition read_entry_of_out :: "EntryOut \<Rightarrow> StorageBatchReadEntry" where
  "read_entry_of_out e = \<lparr>bre_offset = e_offset e, bre_length = e_length e, bre_data = e_data e\<rparr>"

definition out_of_read_entry :: "StorageBatchReadEntry \<Rightarrow> EntryOut" where
  "out_of_read_entry e = \<lparr>e_offset = bre_offset e, e_length = bre_length e, e_data = bre_data e\<rparr>"

definition deserialize_storage_batch_read_entry :: "u8 list option \<Rightarrow> u32 \<Rightarrow> StorageBatchReadEntry option \<Rightarrow>
    StorageSerdeResult \<times> StorageBatchReadEntry option" where
  "deserialize_storage_batch_read_entry bytes sz entry =
     (case entry of
        None \<Rightarrow> (SerdeInvalidArgument, None)
      | Some old \<Rightarrow>
          (case deserialize_batch_entry bytes sz kRemoteWrite (Some (out_of_read_entry old)) of
             (result, out) \<Rightarrow> (result, map_option read_entry_of_out out)))"

definition serialize_storage_batch_write_entry :: "StorageBatchWriteEntry \<Rightarrow> u8 list option \<Rightarrow> u32 \<Rightarrow>
    StorageSerdeResult \<times> u8 list option" where
  "serialize_storage_batch_write_entry entry bytes sz =
     serialize_batch_entry (bwe_offset entry) (bwe_length entry) (bwe_data entry) kRemoteRead bytes sz"

definition write_entry_of_out :: "EntryOut \<Rightarrow> StorageBatchWriteEntry" where
  "write_entry_of_out e = \<lparr>bwe_offset = e_offset e, bwe_length = e_length e, bwe_data = e_data e\<rparr>"

definition out_of_write_entry :: "StorageBatchWriteEntry \<Rightarrow> EntryOut" where
  "out_of_write_entry e = \<lparr>e_offset = bwe_offset e, e_length = bwe_length e, e_data = bwe_data e\<rparr>"

definition deserialize_storage_batch_write_entry :: "u8 list option \<Rightarrow> u32 \<Rightarrow> StorageBatchWriteEntry option \<Rightarrow>
    StorageSerdeResult \<times> StorageBatchWriteEntry option" where
  "deserialize_storage_batch_write_entry bytes sz entry =
     (case entry of
        None \<Rightarrow> (SerdeInvalidArgument, None)
      | Some old \<Rightarrow>
          (case deserialize_batch_entry bytes sz kRemoteRead (Some (out_of_write_entry old)) of
             (result, out) \<Rightarrow> (result, map_option write_entry_of_out out)))"

definition deserialize_storage_operation :: "u8 list option \<Rightarrow> u32 \<Rightarrow> StorageOperation option \<Rightarrow>
    StorageSerdeResult \<times> StorageOperation option" where
  "deserialize_storage_operation bytes sz operation =
     (case (bytes, operation) of
        (Some buf, Some old) \<Rightarrow>
          if sz < kStorageCommandBytes then (SerdeInvalidArgument, Some old)
          else if read_u32 buf 0 \<noteq> kCommandMagic \<or> read_u16 buf 4 \<noteq> kVersion
          then (SerdeInvalidRecord, Some old)
          else
            (let val = read_u16 buf 6
             in if val < operation_code OpRead \<or> val > operation_code OpBatchWrite
                then (SerdeInvalidRecord, Some old)
                else (SerdeOk, Some (operation_of_code val)))
      | _ \<Rightarrow> (SerdeInvalidArgument, operation))"

section \<open>Completions\<close>

text \<open>The condition under which both directions reject a completion.\<close>

definition completion_invalid :: "StorageCompletion \<Rightarrow> bool" where
  "completion_invalid completion \<longleftrightarrow>
     c_command_id completion = 0 \<or> c_status completion > StatusInternalError
     \<or> (c_state completion \<noteq> StatePending \<and> c_state completion \<noteq> StateComplete)
     \<or> (c_state completion = StatePending
        \<and> (c_status completion \<noteq> StatusSuccess \<or> c_bytes_transferred completion \<noteq> 0))"

definition put_completion :: "StorageCompletion \<Rightarrow> u8 list \<Rightarrow> u8 list" where
  "put_completion completion bytes =
     (let bytes = clear bytes (unat kStorageCompletionBytes);
          bytes = write_u32 bytes 0 kCompletionMagic;
          bytes = write_u16 bytes 4 kVersion;
          bytes = write_u16 bytes 6 (c_state completion);
          bytes = write_u16 bytes 8 (c_status completion);
          bytes = write_u64 bytes 12 (c_command_id completion);
          bytes = write_u64 bytes 20 (c_bytes_transferred completion)
      in bytes)"

definition serialize_storage_completion :: "StorageCompletion \<Rightarrow> u8 list option \<Rightarrow> u32 \<Rightarrow>
    StorageSerdeResult \<times> u8 list option" where
  "serialize_storage_completion completion bytes sz =
     (case bytes of
        None \<Rightarrow> (SerdeInvalidArgument, None)
      | Some buf \<Rightarrow>
          if sz < kStorageCompletionBytes then (SerdeInvalidArgument, Some buf)
          else if completion_invalid completion then (SerdeInvalidRecord, Some buf)
          else (SerdeOk, Some (put_completion completion buf)))"

definition deserialize_storage_completion :: "u8 list option \<Rightarrow> u32 \<Rightarrow> StorageCompletion option \<Rightarrow>
    StorageSerdeResult \<times> StorageCompletion option" where
  "deserialize_storage_completion bytes sz completion =
     (case (bytes, completion) of
        (Some buf, Some old) \<Rightarrow>
          if sz < kStorageCompletionBytes then (SerdeInvalidArgument, Some old)
          else if read_u32 buf 0 \<noteq> kCompletionMagic \<or> read_u16 buf 4 \<noteq> kVersion
          then (SerdeInvalidRecord, Some old)
          else
            (let new = \<lparr>c_command_id = read_u64 buf 12, c_state = read_u16 buf 6, c_status = read_u16 buf 8,
                        c_bytes_transferred = read_u64 buf 20\<rparr>
             in if completion_invalid new then (SerdeInvalidRecord, Some new) else (SerdeOk, Some new))
      | _ \<Rightarrow> (SerdeInvalidArgument, completion))"

section \<open>Bootstrap and namespace\<close>

definition bootstrap_valid :: "StorageBootstrap \<Rightarrow> bool" where
  "bootstrap_valid bootstrap \<longleftrightarrow>
     memory_valid (b_completion bootstrap) (ucast kStorageCompletionBytes)
     \<and> memory_valid (b_namespace_response bootstrap) (ucast kStorageNamespaceBytes)
     \<and> b_slot_count bootstrap \<noteq> 0
     \<and> b_slot_count bootstrap \<le> UINT32_MAX div kStorageSlotDescriptorBytes
     \<and> memory_valid (b_slots bootstrap) (ucast (b_slot_count bootstrap) * ucast kStorageSlotDescriptorBytes)"

definition put_bootstrap :: "StorageBootstrap \<Rightarrow> u8 list \<Rightarrow> u8 list" where
  "put_bootstrap bootstrap bytes =
     (let bytes = clear bytes (unat kStorageBootstrapBytes);
          bytes = write_u32 bytes 0 kBootstrapMagic;
          bytes = write_u16 bytes 4 kBootstrapVersion;
          bytes = write_u64 bytes 8 (m_address (b_completion bootstrap));
          bytes = write_u64 bytes 16 (m_length (b_completion bootstrap));
          bytes = write_u32 bytes 24 (m_remote_key (b_completion bootstrap));
          bytes = write_u32 bytes 28 kRemoteWrite;
          bytes = write_u64 bytes 32 (m_address (b_namespace_response bootstrap));
          bytes = write_u64 bytes 40 (m_length (b_namespace_response bootstrap));
          bytes = write_u32 bytes 48 (m_remote_key (b_namespace_response bootstrap));
          bytes = write_u32 bytes 52 kRemoteWrite;
          bytes = write_u64 bytes 56 (m_address (b_slots bootstrap));
          bytes = write_u64 bytes 64 (m_length (b_slots bootstrap));
          bytes = write_u32 bytes 72 (m_remote_key (b_slots bootstrap));
          bytes = write_u32 bytes 76 kRemoteRead;
          bytes = write_u32 bytes 80 (b_slot_count bootstrap)
      in bytes)"

definition serialize_storage_bootstrap :: "StorageBootstrap \<Rightarrow> u8 list option \<Rightarrow> u32 \<Rightarrow>
    StorageSerdeResult \<times> u8 list option" where
  "serialize_storage_bootstrap bootstrap bytes sz =
     (case bytes of
        None \<Rightarrow> (SerdeInvalidArgument, None)
      | Some buf \<Rightarrow>
          if sz < kStorageBootstrapBytes then (SerdeInvalidArgument, Some buf)
          else if \<not> bootstrap_valid bootstrap then (SerdeInvalidRecord, Some buf)
          else (SerdeOk, Some (put_bootstrap bootstrap buf)))"

definition deserialize_storage_bootstrap :: "u8 list option \<Rightarrow> u32 \<Rightarrow> StorageBootstrap option \<Rightarrow>
    StorageSerdeResult \<times> StorageBootstrap option" where
  "deserialize_storage_bootstrap bytes sz bootstrap =
     (case (bytes, bootstrap) of
        (Some buf, Some old) \<Rightarrow>
          if sz < kStorageBootstrapBytes then (SerdeInvalidArgument, Some old)
          else if read_u32 buf 0 \<noteq> kBootstrapMagic \<or> read_u16 buf 4 \<noteq> kBootstrapVersion
            \<or> read_u32 buf 28 AND kRemoteWrite = 0 \<or> read_u32 buf 76 AND kRemoteRead = 0
          then (SerdeInvalidRecord, Some old)
          else
            (let new = \<lparr>b_completion = \<lparr>m_address = read_u64 buf 8, m_length = read_u64 buf 16,
                                         m_remote_key = read_u32 buf 24\<rparr>,
                        b_namespace_response = \<lparr>m_address = read_u64 buf 32, m_length = read_u64 buf 40,
                                                 m_remote_key = read_u32 buf 48\<rparr>,
                        b_slots = \<lparr>m_address = read_u64 buf 56, m_length = read_u64 buf 64,
                                    m_remote_key = read_u32 buf 72\<rparr>,
                        b_slot_count = read_u32 buf 80\<rparr>;
                 namespace_access = read_u32 buf 52
             in (if namespace_access AND kRemoteWrite \<noteq> 0 \<and> bootstrap_valid new
                 then SerdeOk else SerdeInvalidRecord, Some new))
      | _ \<Rightarrow> (SerdeInvalidArgument, bootstrap))"

definition put_namespace :: "StorageNamespace \<Rightarrow> u8 list \<Rightarrow> u8 list" where
  "put_namespace storage_namespace bytes =
     (let bytes = clear bytes (unat kStorageNamespaceBytes);
          bytes = write_u32 bytes 0 kNamespaceMagic;
          bytes = write_u16 bytes 4 kVersion;
          bytes = write_u64 bytes 8 (ns_capacity storage_namespace)
      in bytes)"

definition serialize_storage_namespace :: "StorageNamespace \<Rightarrow> u8 list option \<Rightarrow> u32 \<Rightarrow>
    StorageSerdeResult \<times> u8 list option" where
  "serialize_storage_namespace storage_namespace bytes sz =
     (case bytes of
        None \<Rightarrow> (SerdeInvalidArgument, None)
      | Some buf \<Rightarrow>
          if sz < kStorageNamespaceBytes then (SerdeInvalidArgument, Some buf)
          else if ns_capacity storage_namespace = 0 then (SerdeInvalidRecord, Some buf)
          else (SerdeOk, Some (put_namespace storage_namespace buf)))"

definition deserialize_storage_namespace :: "u8 list option \<Rightarrow> u32 \<Rightarrow> StorageNamespace option \<Rightarrow>
    StorageSerdeResult \<times> StorageNamespace option" where
  "deserialize_storage_namespace bytes sz storage_namespace =
     (case (bytes, storage_namespace) of
        (Some buf, Some old) \<Rightarrow>
          if sz < kStorageNamespaceBytes then (SerdeInvalidArgument, Some old)
          else if read_u32 buf 0 \<noteq> kNamespaceMagic \<or> read_u16 buf 4 \<noteq> kVersion
          then (SerdeInvalidRecord, Some old)
          else
            (let new = \<lparr>ns_capacity = read_u64 buf 8\<rparr>
             in (if ns_capacity new \<noteq> 0 then SerdeOk else SerdeInvalidRecord, Some new))
      | _ \<Rightarrow> (SerdeInvalidArgument, storage_namespace))"

end
