(* ===== verification/Storage_Codec.thy ===== *)
theory Storage_Codec
  imports Storage_Protocol
begin

text \<open>
  The contract of a storage record codec as a locale, its extension for codecs whose decoder
  accepts encodable records only, and the interpretations for the nine records of
  \<^verbatim>\<open>storage_protocol.hh\<close>. The properties of the wire protocol are instances of the locales'
  lemmas.
\<close>

section \<open>The contract\<close>

locale wire_codec =
  fixes nbytes :: u32
    and enc :: "'a \<Rightarrow> u8 list option \<Rightarrow> u32 \<Rightarrow> StorageSerdeResult \<times> u8 list option"
    and dec :: "u8 list option \<Rightarrow> u32 \<Rightarrow> 'a option \<Rightarrow> StorageSerdeResult \<times> 'a option"
    and valid :: "'a \<Rightarrow> bool"
    and put :: "'a \<Rightarrow> u8 list \<Rightarrow> u8 list"
  assumes enc_some: "valid x \<Longrightarrow> nbytes \<le> sz \<Longrightarrow> enc x (Some b) sz = (SerdeOk, Some (put x b))"
    and enc_reject: "\<not> valid x \<or> sz < nbytes \<or> bytes = None \<Longrightarrow>
      fst (enc x bytes sz) \<noteq> SerdeOk \<and> snd (enc x bytes sz) = bytes"
    and dec_put: "valid x \<Longrightarrow> unat nbytes \<le> length b \<Longrightarrow> nbytes \<le> sz \<Longrightarrow>
      dec (Some (put x b)) sz (Some old) = (SerdeOk, Some x)"
    and dec_cong: "take (unat nbytes) b = take (unat nbytes) b' \<Longrightarrow>
      dec (Some b) sz out = dec (Some b') sz out"
    and put_frame: "length (put x b) = length b \<and> drop (unat nbytes) (put x b) = drop (unat nbytes) b"
begin

lemma enc_ok_iff:
  "fst (enc x bytes sz) = SerdeOk \<longleftrightarrow> valid x \<and> nbytes \<le> sz \<and> bytes \<noteq> None"
proof (cases "valid x \<and> nbytes \<le> sz \<and> bytes \<noteq> None")
  case True
  then show ?thesis using enc_some [of x sz] by auto
next
  case False
  then have "\<not> valid x \<or> sz < nbytes \<or> bytes = None" by (auto simp: not_le)
  with False show ?thesis using enc_reject [of x sz bytes] by blast
qed

lemma enc_okD:
  assumes "enc x bytes sz = (SerdeOk, bytes')"
  obtains b where "bytes = Some b" and "bytes' = Some (put x b)" and "valid x" and "nbytes \<le> sz"
proof -
  from assms have ok: "valid x" "nbytes \<le> sz" and "bytes \<noteq> None"
    using enc_ok_iff [of x bytes sz] by auto
  then obtain b where b: "bytes = Some b" by blast
  with assms ok have "bytes' = Some (put x b)" by (simp add: enc_some)
  with b show ?thesis using ok by (rule that)
qed

lemma roundtrip:
  assumes "enc x (Some b) sz = (SerdeOk, bytes')" and "unat nbytes \<le> length b"
  shows "dec bytes' sz (Some old) = (SerdeOk, Some x)"
  using assms(1)
proof (rule enc_okD)
  fix b0
  assume "Some b = Some b0" "bytes' = Some (put x b0)" "valid x" "nbytes \<le> sz"
  with assms(2) show ?thesis by (simp add: dec_put)
qed

text \<open>The first \<open>nbytes\<close> bytes determine the record, wherever the decoder's copy came from.\<close>

lemma dec_of_prefix:
  assumes "valid x" and "unat nbytes \<le> length b" and "nbytes \<le> sz"
    and "take (unat nbytes) c = take (unat nbytes) (put x b)"
  shows "dec (Some c) sz (Some old) = (SerdeOk, Some x)"
  using dec_cong [OF assms(4)] dec_put [OF assms(1-3)] by simp

lemma valid_roundtrip:
  assumes "valid x" and "unat nbytes \<le> length b" and "nbytes \<le> sz"
  shows "\<exists>b'. enc x (Some b) sz = (SerdeOk, Some b') \<and> drop (unat nbytes) b' = drop (unat nbytes) b
    \<and> dec (Some b') sz (Some old) = (SerdeOk, Some x)"
  using assms by (auto simp: enc_some dec_put put_frame)

lemma put_inj:
  assumes "valid x" and "valid y" and "unat nbytes \<le> length b" and "unat nbytes \<le> length b'"
    and "take (unat nbytes) (put x b) = take (unat nbytes) (put y b')"
  shows "x = y"
proof -
  have "dec (Some (put x b)) nbytes (Some x) = (SerdeOk, Some y)"
    by (rule dec_of_prefix [OF assms(2,4) order.refl assms(5)])
  with dec_put [OF assms(1,3) order.refl] show ?thesis by simp
qed

end

text \<open>A decoder that accepts only what the encoder would have written.\<close>

locale strict_codec = wire_codec +
  assumes dec_valid: "dec bytes sz out = (SerdeOk, Some x) \<Longrightarrow> valid x \<and> nbytes \<le> sz \<and> bytes \<noteq> None"
begin

lemma reencode:
  assumes "dec bytes sz out = (SerdeOk, Some x)" and "unat nbytes \<le> length b"
  shows "\<exists>b'. enc x (Some b) sz = (SerdeOk, Some b') \<and> dec (Some b') sz (Some old) = (SerdeOk, Some x)"
  using dec_valid [OF assms(1)] assms(2) by (auto simp: enc_some dec_put)

end

section \<open>Valid records\<close>

definition read_valid :: "StorageReadCommand \<Rightarrow> bool" where
  "read_valid c \<longleftrightarrow> r_command_id c \<noteq> 0 \<and> r_length c \<noteq> 0 \<and> memory_valid (r_data c) (r_length c)"

definition write_valid :: "StorageWriteCommand \<Rightarrow> bool" where
  "write_valid c \<longleftrightarrow> w_command_id c \<noteq> 0 \<and> w_length c \<noteq> 0 \<and> memory_valid (w_data c) (w_length c)"

definition batch_read_valid :: "StorageBatchReadCommand \<Rightarrow> bool" where
  "batch_read_valid c \<longleftrightarrow> br_command_id c \<noteq> 0 \<and> br_total_length c \<noteq> 0
     \<and> br_entry_count c \<noteq> 0 \<and> br_entry_count c \<le> 1024
     \<and> memory_valid (br_entries c) (br_entry_count c * 40)"

definition batch_write_valid :: "StorageBatchWriteCommand \<Rightarrow> bool" where
  "batch_write_valid c \<longleftrightarrow> bw_command_id c \<noteq> 0 \<and> bw_total_length c \<noteq> 0
     \<and> bw_entry_count c \<noteq> 0 \<and> bw_entry_count c \<le> 1024
     \<and> memory_valid (bw_entries c) (bw_entry_count c * 40)"

definition read_entry_valid :: "StorageBatchReadEntry \<Rightarrow> bool" where
  "read_entry_valid e \<longleftrightarrow> bre_length e \<noteq> 0 \<and> memory_valid (bre_data e) (bre_length e)"

definition write_entry_valid :: "StorageBatchWriteEntry \<Rightarrow> bool" where
  "write_entry_valid e \<longleftrightarrow> bwe_length e \<noteq> 0 \<and> memory_valid (bwe_data e) (bwe_length e)"

lemmas valid_defs = read_valid_def write_valid_def batch_read_valid_def batch_write_valid_def
  read_entry_valid_def write_entry_valid_def

abbreviation "put_read c \<equiv> put_command OpRead (r_command_id c) (r_offset c) (r_length c) (r_data c)
  kRemoteWrite (r_slot_index c)"
abbreviation "put_write c \<equiv> put_command OpWrite (w_command_id c) (w_offset c) (w_length c) (w_data c)
  kRemoteRead (w_slot_index c)"
abbreviation "put_batch_read c \<equiv> put_command OpBatchRead (br_command_id c) (br_entry_count c)
  (br_total_length c) (br_entries c) kRemoteRead (br_slot_index c)"
abbreviation "put_batch_write c \<equiv> put_command OpBatchWrite (bw_command_id c) (bw_entry_count c)
  (bw_total_length c) (bw_entries c) kRemoteRead (bw_slot_index c)"
abbreviation "put_read_entry e \<equiv> put_batch_entry (bre_offset e) (bre_length e) (bre_data e) kRemoteWrite"
abbreviation "put_write_entry e \<equiv> put_batch_entry (bwe_offset e) (bwe_length e) (bwe_data e) kRemoteRead"

section \<open>The two generic records\<close>

lemma memory_eta [simp]:
  "\<lparr>m_address = m_address d, m_length = m_length d, m_remote_key = m_remote_key d\<rparr> = d"
  by simp

lemma put_command_frame:
  "length (put_command op cid off len data acc slot b) = length b
   \<and> drop 64 (put_command op cid off len data acc slot b) = drop 64 b"
  using drop_clear [of 64 b] by (simp add: put_command_def storage_consts Let_def drop_write)

lemma put_command_reads:
  fixes op cid off len data acc slot b
  assumes "64 \<le> length b"
  defines "b' \<equiv> put_command op cid off len data acc slot b"
  shows "read_u32 b' 0 = kCommandMagic" "read_u16 b' 4 = kVersion" "read_u16 b' 6 = operation_code op"
    "read_u64 b' 8 = cid" "read_u64 b' 16 = off" "read_u64 b' 24 = len"
    "read_u64 b' 32 = m_address data" "read_u64 b' 40 = m_length data" "read_u32 b' 48 = m_remote_key data"
    "read_u32 b' 52 = acc" "read_u32 b' 56 = slot" "read_u32 b' 60 = 0"
  using assms(1) unfolding b'_def put_command_def Let_def storage_consts by (simp_all add: serde)

text \<open>What \<open>deserialize_command\<close> does with a serialized command of any operation.\<close>

lemma deserialize_put_command:
  assumes "64 \<le> length b" and "kStorageCommandBytes \<le> sz"
  shows "deserialize_command (Some (put_command op cid off len data acc slot b)) sz op' acc' (Some old) =
    (if op \<noteq> op' \<or> acc AND acc' \<noteq> acc' then (SerdeInvalidRecord, Some old)
     else (if cid = 0 \<or> len = 0 \<or> \<not> memory_valid data 0 then SerdeInvalidRecord else SerdeOk,
       Some \<lparr>d_command_id = cid, d_offset = off, d_length = len, d_data = data, d_slot_index = slot\<rparr>))"
proof -
  have "operation_code op = operation_code op' \<longleftrightarrow> op = op'"
    by (cases op; cases op') simp_all
  moreover from assms(2) have "\<not> sz < kStorageCommandBytes" by simp
  ultimately show ?thesis
    by (simp add: deserialize_command_def put_command_reads [OF assms(1)] Let_def)
qed

lemma deserialize_command_ok_iff:
  "deserialize_command bytes sz op acc out = (SerdeOk, Some d) \<longleftrightarrow>
   (\<exists>b old. bytes = Some b \<and> out = Some old \<and> kStorageCommandBytes \<le> sz
     \<and> read_u32 b 0 = kCommandMagic \<and> read_u16 b 4 = kVersion \<and> read_u16 b 6 = operation_code op
     \<and> read_u32 b 52 AND acc = acc \<and> read_u32 b 60 = 0
     \<and> d = \<lparr>d_command_id = read_u64 b 8, d_offset = read_u64 b 16, d_length = read_u64 b 24,
          d_data = \<lparr>m_address = read_u64 b 32, m_length = read_u64 b 40, m_remote_key = read_u32 b 48\<rparr>,
          d_slot_index = read_u32 b 56\<rparr>
     \<and> d_command_id d \<noteq> 0 \<and> d_length d \<noteq> 0 \<and> memory_valid (d_data d) 0)"
  by (auto simp: deserialize_command_def Let_def not_less split: option.splits if_splits)

lemma deserialize_command_okD:
  assumes "deserialize_command bytes sz op acc out = (SerdeOk, Some d)"
  shows "d_command_id d \<noteq> 0 \<and> d_length d \<noteq> 0 \<and> memory_valid (d_data d) 0
    \<and> kStorageCommandBytes \<le> sz \<and> bytes \<noteq> None"
  using assms by (auto simp: deserialize_command_ok_iff)

lemma deserialize_command_cong:
  assumes "take 64 b = take 64 b'"
  shows "deserialize_command (Some b) sz op acc out = deserialize_command (Some b') sz op acc out"
  by (simp add: deserialize_command_def Let_def read_cong_take [OF assms] cong: if_cong option.case_cong)

lemma put_batch_entry_frame:
  "length (put_batch_entry off len data acc b) = length b
   \<and> drop 40 (put_batch_entry off len data acc b) = drop 40 b"
  using drop_clear [of 40 b] by (simp add: put_batch_entry_def storage_consts Let_def drop_write)

lemma put_batch_entry_reads:
  fixes off len data acc b
  assumes "40 \<le> length b"
  defines "b' \<equiv> put_batch_entry off len data acc b"
  shows "read_u64 b' 0 = off" "read_u64 b' 8 = len" "read_u64 b' 16 = m_address data"
    "read_u64 b' 24 = m_length data" "read_u32 b' 32 = m_remote_key data" "read_u32 b' 36 = acc"
  using assms(1) unfolding b'_def put_batch_entry_def Let_def storage_consts by (simp_all add: serde)

lemma deserialize_put_batch_entry:
  assumes "40 \<le> length b" and "kStorageBatchEntryBytes \<le> sz" and "acc AND acc' = acc'"
    and "len \<noteq> 0" and "memory_valid data len"
  shows "deserialize_batch_entry (Some (put_batch_entry off len data acc b)) sz acc' (Some old) =
    (SerdeOk, Some \<lparr>e_offset = off, e_length = len, e_data = data\<rparr>)"
proof -
  from assms(2) have "\<not> sz < kStorageBatchEntryBytes" by simp
  with assms(3-5) show ?thesis
    by (simp add: deserialize_batch_entry_def put_batch_entry_reads [OF assms(1)] Let_def)
qed

lemma deserialize_batch_entry_okD:
  assumes "deserialize_batch_entry bytes sz acc out = (SerdeOk, Some d)"
  shows "e_length d \<noteq> 0 \<and> memory_valid (e_data d) (e_length d)
    \<and> kStorageBatchEntryBytes \<le> sz \<and> bytes \<noteq> None"
  using assms by (auto simp: deserialize_batch_entry_def Let_def not_less split: option.splits if_splits)

lemma deserialize_batch_entry_cong:
  assumes "take 40 b = take 40 b'"
  shows "deserialize_batch_entry (Some b) sz acc out = deserialize_batch_entry (Some b') sz acc out"
  by (simp add: deserialize_batch_entry_def Let_def read_cong_take [OF assms] cong: if_cong option.case_cong)

section \<open>Interpretations\<close>

text \<open>
  \<open>enc_simps\<close> unfolds a typed serializer to the generic ones, \<open>out_defs\<close> the conversions of
  a decoder's outputs; each interpretation is then rewriting with the facts above.
\<close>

lemmas enc_simps =
  serialize_storage_read_def serialize_storage_write_def serialize_storage_batch_read_def
  serialize_storage_batch_write_def serialize_storage_batch_read_entry_def
  serialize_storage_batch_write_entry_def serialize_storage_completion_def
  serialize_storage_bootstrap_def serialize_storage_namespace_def
  serialize_command_def serialize_batch_entry_def

lemmas out_defs = read_of_out_def write_of_out_def batch_read_of_out_def batch_write_of_out_def
  read_entry_of_out_def write_entry_of_out_def

lemma memory_valid_0: "memory_valid data len \<Longrightarrow> memory_valid data 0"
  by (simp add: memory_valid_def)

lemma ucast_consts:
  "ucast kStorageMaxBatchEntries = (1024 :: u64)" "ucast kStorageBatchEntryBytes = (40 :: u64)"
  "unat kStorageCommandBytes = 64" "unat kStorageBatchEntryBytes = 40"
  "unat kStorageCompletionBytes = 32" "unat kStorageBootstrapBytes = 96" "unat kStorageNamespaceBytes = 16"
  by (simp_all add: storage_consts)

lemma deserialize_storage_read_ok_iff:
  "deserialize_storage_read bytes sz out = (SerdeOk, Some x) \<longleftrightarrow>
   (\<exists>old d. out = Some old \<and> x = read_of_out d \<and> r_length x \<le> m_length (r_data x)
     \<and> deserialize_command bytes sz OpRead kRemoteWrite (Some (out_of_read old)) = (SerdeOk, Some d))"
  by (auto simp: deserialize_storage_read_def ucast_consts Let_def
      split: option.splits prod.splits StorageSerdeResult.splits if_splits)

interpretation read_codec: strict_codec kStorageCommandBytes serialize_storage_read deserialize_storage_read read_valid put_read
proof unfold_locales
  fix x :: StorageReadCommand and sz :: u32 and b b' :: "u8 list" and bytes old out
  show "read_valid x \<Longrightarrow> kStorageCommandBytes \<le> sz \<Longrightarrow>
      serialize_storage_read x (Some b) sz = (SerdeOk, Some (put_read x b))"
    by (auto simp: enc_simps valid_defs ucast_consts memory_valid_def)
  show "\<not> read_valid x \<or> sz < kStorageCommandBytes \<or> bytes = None \<Longrightarrow>
      fst (serialize_storage_read x bytes sz) \<noteq> SerdeOk \<and> snd (serialize_storage_read x bytes sz) = bytes"
    by (auto simp: enc_simps valid_defs ucast_consts not_less memory_valid_def split: option.splits)
  show "read_valid x \<Longrightarrow> unat kStorageCommandBytes \<le> length b \<Longrightarrow> kStorageCommandBytes \<le> sz \<Longrightarrow>
      deserialize_storage_read (Some (put_read x b)) sz (Some old) = (SerdeOk, Some x)"
    by (simp add: deserialize_storage_read_ok_iff deserialize_put_command ucast_consts out_defs valid_defs
        memory_valid_def)
  show "take (unat kStorageCommandBytes) b = take (unat kStorageCommandBytes) b' \<Longrightarrow>
      deserialize_storage_read (Some b) sz out = deserialize_storage_read (Some b') sz out"
    by (cases out) (simp_all add: deserialize_storage_read_def ucast_consts deserialize_command_cong [of b b'])
  show "length (put_read x b) = length b
      \<and> drop (unat kStorageCommandBytes) (put_read x b) = drop (unat kStorageCommandBytes) b"
    by (simp add: ucast_consts put_command_frame)
  show "deserialize_storage_read bytes sz out = (SerdeOk, Some x) \<Longrightarrow>
      read_valid x \<and> kStorageCommandBytes \<le> sz \<and> bytes \<noteq> None"
    by (auto simp: deserialize_storage_read_ok_iff out_defs valid_defs memory_valid_def
        dest!: deserialize_command_okD)
qed

lemma deserialize_storage_write_ok_iff:
  "deserialize_storage_write bytes sz out = (SerdeOk, Some x) \<longleftrightarrow>
   (\<exists>old d. out = Some old \<and> x = write_of_out d \<and> w_length x \<le> m_length (w_data x)
     \<and> deserialize_command bytes sz OpWrite kRemoteRead (Some (out_of_write old)) = (SerdeOk, Some d))"
  by (auto simp: deserialize_storage_write_def ucast_consts Let_def
      split: option.splits prod.splits StorageSerdeResult.splits if_splits)

interpretation write_codec: strict_codec kStorageCommandBytes serialize_storage_write deserialize_storage_write write_valid put_write
proof unfold_locales
  fix x :: StorageWriteCommand and sz :: u32 and b b' :: "u8 list" and bytes old out
  show "write_valid x \<Longrightarrow> kStorageCommandBytes \<le> sz \<Longrightarrow>
      serialize_storage_write x (Some b) sz = (SerdeOk, Some (put_write x b))"
    by (auto simp: enc_simps valid_defs ucast_consts memory_valid_def)
  show "\<not> write_valid x \<or> sz < kStorageCommandBytes \<or> bytes = None \<Longrightarrow>
      fst (serialize_storage_write x bytes sz) \<noteq> SerdeOk \<and> snd (serialize_storage_write x bytes sz) = bytes"
    by (auto simp: enc_simps valid_defs ucast_consts not_less memory_valid_def split: option.splits)
  show "write_valid x \<Longrightarrow> unat kStorageCommandBytes \<le> length b \<Longrightarrow> kStorageCommandBytes \<le> sz \<Longrightarrow>
      deserialize_storage_write (Some (put_write x b)) sz (Some old) = (SerdeOk, Some x)"
    by (simp add: deserialize_storage_write_ok_iff deserialize_put_command ucast_consts out_defs valid_defs
        memory_valid_def)
  show "take (unat kStorageCommandBytes) b = take (unat kStorageCommandBytes) b' \<Longrightarrow>
      deserialize_storage_write (Some b) sz out = deserialize_storage_write (Some b') sz out"
    by (cases out) (simp_all add: deserialize_storage_write_def ucast_consts deserialize_command_cong [of b b'])
  show "length (put_write x b) = length b
      \<and> drop (unat kStorageCommandBytes) (put_write x b) = drop (unat kStorageCommandBytes) b"
    by (simp add: ucast_consts put_command_frame)
  show "deserialize_storage_write bytes sz out = (SerdeOk, Some x) \<Longrightarrow>
      write_valid x \<and> kStorageCommandBytes \<le> sz \<and> bytes \<noteq> None"
    by (auto simp: deserialize_storage_write_ok_iff out_defs valid_defs memory_valid_def
        dest!: deserialize_command_okD)
qed

lemma deserialize_storage_batch_read_ok_iff:
  "deserialize_storage_batch_read bytes sz out = (SerdeOk, Some x) \<longleftrightarrow>
   (\<exists>old d. out = Some old \<and> x = batch_read_of_out d \<and> br_entry_count x \<le> 1024 \<and> br_entry_count x * 40 \<le> m_length (br_entries x)
     \<and> deserialize_command bytes sz OpBatchRead kRemoteRead (Some (out_of_batch_read old)) = (SerdeOk, Some d))"
  by (auto simp: deserialize_storage_batch_read_def ucast_consts Let_def
      split: option.splits prod.splits StorageSerdeResult.splits if_splits)

interpretation batch_read_codec: wire_codec kStorageCommandBytes serialize_storage_batch_read deserialize_storage_batch_read batch_read_valid put_batch_read
proof unfold_locales
  fix x :: StorageBatchReadCommand and sz :: u32 and b b' :: "u8 list" and bytes old out
  show "batch_read_valid x \<Longrightarrow> kStorageCommandBytes \<le> sz \<Longrightarrow>
      serialize_storage_batch_read x (Some b) sz = (SerdeOk, Some (put_batch_read x b))"
    by (auto simp: enc_simps valid_defs ucast_consts memory_valid_def)
  show "\<not> batch_read_valid x \<or> sz < kStorageCommandBytes \<or> bytes = None \<Longrightarrow>
      fst (serialize_storage_batch_read x bytes sz) \<noteq> SerdeOk \<and> snd (serialize_storage_batch_read x bytes sz) = bytes"
    by (auto simp: enc_simps valid_defs ucast_consts not_less memory_valid_def split: option.splits)
  show "batch_read_valid x \<Longrightarrow> unat kStorageCommandBytes \<le> length b \<Longrightarrow> kStorageCommandBytes \<le> sz \<Longrightarrow>
      deserialize_storage_batch_read (Some (put_batch_read x b)) sz (Some old) = (SerdeOk, Some x)"
    by (simp add: deserialize_storage_batch_read_ok_iff deserialize_put_command ucast_consts out_defs valid_defs
        memory_valid_def)
  show "take (unat kStorageCommandBytes) b = take (unat kStorageCommandBytes) b' \<Longrightarrow>
      deserialize_storage_batch_read (Some b) sz out = deserialize_storage_batch_read (Some b') sz out"
    by (cases out) (simp_all add: deserialize_storage_batch_read_def ucast_consts deserialize_command_cong [of b b'])
  show "length (put_batch_read x b) = length b
      \<and> drop (unat kStorageCommandBytes) (put_batch_read x b) = drop (unat kStorageCommandBytes) b"
    by (simp add: ucast_consts put_command_frame)
qed

lemma deserialize_storage_batch_write_ok_iff:
  "deserialize_storage_batch_write bytes sz out = (SerdeOk, Some x) \<longleftrightarrow>
   (\<exists>old d. out = Some old \<and> x = batch_write_of_out d \<and> bw_entry_count x \<le> 1024 \<and> bw_entry_count x * 40 \<le> m_length (bw_entries x)
     \<and> deserialize_command bytes sz OpBatchWrite kRemoteRead (Some (out_of_batch_write old)) = (SerdeOk, Some d))"
  by (auto simp: deserialize_storage_batch_write_def ucast_consts Let_def
      split: option.splits prod.splits StorageSerdeResult.splits if_splits)

interpretation batch_write_codec: wire_codec kStorageCommandBytes serialize_storage_batch_write deserialize_storage_batch_write batch_write_valid put_batch_write
proof unfold_locales
  fix x :: StorageBatchWriteCommand and sz :: u32 and b b' :: "u8 list" and bytes old out
  show "batch_write_valid x \<Longrightarrow> kStorageCommandBytes \<le> sz \<Longrightarrow>
      serialize_storage_batch_write x (Some b) sz = (SerdeOk, Some (put_batch_write x b))"
    by (auto simp: enc_simps valid_defs ucast_consts memory_valid_def)
  show "\<not> batch_write_valid x \<or> sz < kStorageCommandBytes \<or> bytes = None \<Longrightarrow>
      fst (serialize_storage_batch_write x bytes sz) \<noteq> SerdeOk \<and> snd (serialize_storage_batch_write x bytes sz) = bytes"
    by (auto simp: enc_simps valid_defs ucast_consts not_less memory_valid_def split: option.splits)
  show "batch_write_valid x \<Longrightarrow> unat kStorageCommandBytes \<le> length b \<Longrightarrow> kStorageCommandBytes \<le> sz \<Longrightarrow>
      deserialize_storage_batch_write (Some (put_batch_write x b)) sz (Some old) = (SerdeOk, Some x)"
    by (simp add: deserialize_storage_batch_write_ok_iff deserialize_put_command ucast_consts out_defs valid_defs
        memory_valid_def)
  show "take (unat kStorageCommandBytes) b = take (unat kStorageCommandBytes) b' \<Longrightarrow>
      deserialize_storage_batch_write (Some b) sz out = deserialize_storage_batch_write (Some b') sz out"
    by (cases out) (simp_all add: deserialize_storage_batch_write_def ucast_consts deserialize_command_cong [of b b'])
  show "length (put_batch_write x b) = length b
      \<and> drop (unat kStorageCommandBytes) (put_batch_write x b) = drop (unat kStorageCommandBytes) b"
    by (simp add: ucast_consts put_command_frame)
qed

interpretation read_entry_codec: strict_codec kStorageBatchEntryBytes serialize_storage_batch_read_entry
  deserialize_storage_batch_read_entry read_entry_valid put_read_entry
proof unfold_locales
  fix x :: StorageBatchReadEntry and sz :: u32 and b b' :: "u8 list" and bytes old out
  show "read_entry_valid x \<Longrightarrow> kStorageBatchEntryBytes \<le> sz \<Longrightarrow>
      serialize_storage_batch_read_entry x (Some b) sz = (SerdeOk, Some (put_read_entry x b))"
    by (auto simp: enc_simps valid_defs)
  show "\<not> read_entry_valid x \<or> sz < kStorageBatchEntryBytes \<or> bytes = None \<Longrightarrow>
      fst (serialize_storage_batch_read_entry x bytes sz) \<noteq> SerdeOk
      \<and> snd (serialize_storage_batch_read_entry x bytes sz) = bytes"
    by (auto simp: enc_simps valid_defs not_less split: option.splits)
  show "read_entry_valid x \<Longrightarrow> unat kStorageBatchEntryBytes \<le> length b \<Longrightarrow> kStorageBatchEntryBytes \<le> sz \<Longrightarrow>
      deserialize_storage_batch_read_entry (Some (put_read_entry x b)) sz (Some old) = (SerdeOk, Some x)"
    by (simp add: deserialize_storage_batch_read_entry_def deserialize_put_batch_entry ucast_consts out_defs valid_defs)
  show "take (unat kStorageBatchEntryBytes) b = take (unat kStorageBatchEntryBytes) b' \<Longrightarrow>
      deserialize_storage_batch_read_entry (Some b) sz out = deserialize_storage_batch_read_entry (Some b') sz out"
    by (cases out) (simp_all add: deserialize_storage_batch_read_entry_def ucast_consts deserialize_batch_entry_cong [of b b'])
  show "length (put_read_entry x b) = length b
      \<and> drop (unat kStorageBatchEntryBytes) (put_read_entry x b) = drop (unat kStorageBatchEntryBytes) b"
    by (simp add: ucast_consts put_batch_entry_frame)
  show "deserialize_storage_batch_read_entry bytes sz out = (SerdeOk, Some x) \<Longrightarrow>
      read_entry_valid x \<and> kStorageBatchEntryBytes \<le> sz \<and> bytes \<noteq> None"
    by (auto simp: deserialize_storage_batch_read_entry_def out_defs valid_defs
        split: option.splits prod.splits dest!: deserialize_batch_entry_okD)
qed

interpretation write_entry_codec: strict_codec kStorageBatchEntryBytes serialize_storage_batch_write_entry
  deserialize_storage_batch_write_entry write_entry_valid put_write_entry
proof unfold_locales
  fix x :: StorageBatchWriteEntry and sz :: u32 and b b' :: "u8 list" and bytes old out
  show "write_entry_valid x \<Longrightarrow> kStorageBatchEntryBytes \<le> sz \<Longrightarrow>
      serialize_storage_batch_write_entry x (Some b) sz = (SerdeOk, Some (put_write_entry x b))"
    by (auto simp: enc_simps valid_defs)
  show "\<not> write_entry_valid x \<or> sz < kStorageBatchEntryBytes \<or> bytes = None \<Longrightarrow>
      fst (serialize_storage_batch_write_entry x bytes sz) \<noteq> SerdeOk
      \<and> snd (serialize_storage_batch_write_entry x bytes sz) = bytes"
    by (auto simp: enc_simps valid_defs not_less split: option.splits)
  show "write_entry_valid x \<Longrightarrow> unat kStorageBatchEntryBytes \<le> length b \<Longrightarrow> kStorageBatchEntryBytes \<le> sz \<Longrightarrow>
      deserialize_storage_batch_write_entry (Some (put_write_entry x b)) sz (Some old) = (SerdeOk, Some x)"
    by (simp add: deserialize_storage_batch_write_entry_def deserialize_put_batch_entry ucast_consts out_defs valid_defs)
  show "take (unat kStorageBatchEntryBytes) b = take (unat kStorageBatchEntryBytes) b' \<Longrightarrow>
      deserialize_storage_batch_write_entry (Some b) sz out = deserialize_storage_batch_write_entry (Some b') sz out"
    by (cases out) (simp_all add: deserialize_storage_batch_write_entry_def ucast_consts deserialize_batch_entry_cong [of b b'])
  show "length (put_write_entry x b) = length b
      \<and> drop (unat kStorageBatchEntryBytes) (put_write_entry x b) = drop (unat kStorageBatchEntryBytes) b"
    by (simp add: ucast_consts put_batch_entry_frame)
  show "deserialize_storage_batch_write_entry bytes sz out = (SerdeOk, Some x) \<Longrightarrow>
      write_entry_valid x \<and> kStorageBatchEntryBytes \<le> sz \<and> bytes \<noteq> None"
    by (auto simp: deserialize_storage_batch_write_entry_def out_defs valid_defs
        split: option.splits prod.splits dest!: deserialize_batch_entry_okD)
qed

lemma put_completion_reads:
  fixes x b
  assumes "32 \<le> length b"
  defines "b' \<equiv> put_completion x b"
  shows "read_u32 b' 0 = kCompletionMagic" "read_u16 b' 4 = kVersion" "read_u16 b' 6 = c_state x"
    "read_u16 b' 8 = c_status x" "read_u64 b' 12 = c_command_id x" "read_u64 b' 20 = c_bytes_transferred x"
  using assms(1) unfolding b'_def put_completion_def Let_def storage_consts by (simp_all add: serde)

lemma completion_eta [simp]:
  "\<lparr>c_command_id = c_command_id x, c_state = c_state x, c_status = c_status x,
    c_bytes_transferred = c_bytes_transferred x\<rparr> = (x :: StorageCompletion)"
  by simp

abbreviation "completion_valid x \<equiv> \<not> completion_invalid x"

interpretation completion_codec: strict_codec kStorageCompletionBytes serialize_storage_completion
  deserialize_storage_completion completion_valid put_completion
proof unfold_locales
  fix x :: StorageCompletion and sz :: u32 and b b' :: "u8 list" and bytes old out
  show "completion_valid x \<Longrightarrow> kStorageCompletionBytes \<le> sz \<Longrightarrow>
      serialize_storage_completion x (Some b) sz = (SerdeOk, Some (put_completion x b))"
    by (auto simp: enc_simps)
  show "\<not> completion_valid x \<or> sz < kStorageCompletionBytes \<or> bytes = None \<Longrightarrow>
      fst (serialize_storage_completion x bytes sz) \<noteq> SerdeOk \<and> snd (serialize_storage_completion x bytes sz) = bytes"
    by (auto simp: enc_simps split: option.splits)
  show "completion_valid x \<Longrightarrow> unat kStorageCompletionBytes \<le> length b \<Longrightarrow> kStorageCompletionBytes \<le> sz \<Longrightarrow>
      deserialize_storage_completion (Some (put_completion x b)) sz (Some old) = (SerdeOk, Some x)"
    by (auto simp: deserialize_storage_completion_def put_completion_reads ucast_consts)
  show "take (unat kStorageCompletionBytes) b = take (unat kStorageCompletionBytes) b' \<Longrightarrow>
      deserialize_storage_completion (Some b) sz out = deserialize_storage_completion (Some b') sz out"
    by (simp add: deserialize_storage_completion_def Let_def ucast_consts read_cong_take [of 32 b b']
        cong: if_cong option.case_cong)
  show "length (put_completion x b) = length b
      \<and> drop (unat kStorageCompletionBytes) (put_completion x b) = drop (unat kStorageCompletionBytes) b"
    using drop_clear [of 32 b] by (simp add: put_completion_def storage_consts Let_def drop_write)
  show "deserialize_storage_completion bytes sz out = (SerdeOk, Some x) \<Longrightarrow>
      completion_valid x \<and> kStorageCompletionBytes \<le> sz \<and> bytes \<noteq> None"
    by (auto simp: deserialize_storage_completion_def Let_def not_less split: option.splits if_splits)
qed

lemma put_bootstrap_reads:
  fixes x b
  assumes "96 \<le> length b"
  defines "b' \<equiv> put_bootstrap x b"
  shows "read_u32 b' 0 = kBootstrapMagic" "read_u16 b' 4 = kBootstrapVersion"
    "read_u64 b' 8 = m_address (b_completion x)" "read_u64 b' 16 = m_length (b_completion x)"
    "read_u32 b' 24 = m_remote_key (b_completion x)" "read_u32 b' 28 = kRemoteWrite"
    "read_u64 b' 32 = m_address (b_namespace_response x)" "read_u64 b' 40 = m_length (b_namespace_response x)"
    "read_u32 b' 48 = m_remote_key (b_namespace_response x)" "read_u32 b' 52 = kRemoteWrite"
    "read_u64 b' 56 = m_address (b_slots x)" "read_u64 b' 64 = m_length (b_slots x)"
    "read_u32 b' 72 = m_remote_key (b_slots x)" "read_u32 b' 76 = kRemoteRead"
    "read_u32 b' 80 = b_slot_count x"
  using assms(1) unfolding b'_def put_bootstrap_def Let_def storage_consts by (simp_all add: serde)

lemma bootstrap_eta [simp]:
  "\<lparr>b_completion = b_completion x, b_namespace_response = b_namespace_response x, b_slots = b_slots x,
    b_slot_count = b_slot_count x\<rparr> = (x :: StorageBootstrap)"
  by simp

interpretation bootstrap_codec: strict_codec kStorageBootstrapBytes serialize_storage_bootstrap
  deserialize_storage_bootstrap bootstrap_valid put_bootstrap
proof unfold_locales
  fix x :: StorageBootstrap and sz :: u32 and b b' :: "u8 list" and bytes old out
  show "bootstrap_valid x \<Longrightarrow> kStorageBootstrapBytes \<le> sz \<Longrightarrow>
      serialize_storage_bootstrap x (Some b) sz = (SerdeOk, Some (put_bootstrap x b))"
    by (auto simp: enc_simps)
  show "\<not> bootstrap_valid x \<or> sz < kStorageBootstrapBytes \<or> bytes = None \<Longrightarrow>
      fst (serialize_storage_bootstrap x bytes sz) \<noteq> SerdeOk \<and> snd (serialize_storage_bootstrap x bytes sz) = bytes"
    by (auto simp: enc_simps split: option.splits)
  show "bootstrap_valid x \<Longrightarrow> unat kStorageBootstrapBytes \<le> length b \<Longrightarrow> kStorageBootstrapBytes \<le> sz \<Longrightarrow>
      deserialize_storage_bootstrap (Some (put_bootstrap x b)) sz (Some old) = (SerdeOk, Some x)"
    by (auto simp: deserialize_storage_bootstrap_def put_bootstrap_reads ucast_consts Let_def kRemoteWrite_def
        kRemoteRead_def)
  show "take (unat kStorageBootstrapBytes) b = take (unat kStorageBootstrapBytes) b' \<Longrightarrow>
      deserialize_storage_bootstrap (Some b) sz out = deserialize_storage_bootstrap (Some b') sz out"
    by (simp add: deserialize_storage_bootstrap_def Let_def ucast_consts read_cong_take [of 96 b b']
        cong: if_cong option.case_cong)
  show "length (put_bootstrap x b) = length b
      \<and> drop (unat kStorageBootstrapBytes) (put_bootstrap x b) = drop (unat kStorageBootstrapBytes) b"
    using drop_clear [of 96 b] by (simp add: put_bootstrap_def storage_consts Let_def drop_write)
  show "deserialize_storage_bootstrap bytes sz out = (SerdeOk, Some x) \<Longrightarrow>
      bootstrap_valid x \<and> kStorageBootstrapBytes \<le> sz \<and> bytes \<noteq> None"
    by (auto simp: deserialize_storage_bootstrap_def Let_def not_less split: option.splits if_splits)
qed

lemma put_namespace_reads:
  fixes x b
  assumes "16 \<le> length b"
  defines "b' \<equiv> put_namespace x b"
  shows "read_u32 b' 0 = kNamespaceMagic" "read_u16 b' 4 = kVersion" "read_u64 b' 8 = ns_capacity x"
  using assms(1) unfolding b'_def put_namespace_def Let_def storage_consts by (simp_all add: serde)

abbreviation "namespace_valid x \<equiv> ns_capacity x \<noteq> 0"

interpretation namespace_codec: strict_codec kStorageNamespaceBytes serialize_storage_namespace
  deserialize_storage_namespace namespace_valid put_namespace
proof unfold_locales
  fix x :: StorageNamespace and sz :: u32 and b b' :: "u8 list" and bytes old out
  show "namespace_valid x \<Longrightarrow> kStorageNamespaceBytes \<le> sz \<Longrightarrow>
      serialize_storage_namespace x (Some b) sz = (SerdeOk, Some (put_namespace x b))"
    by (auto simp: enc_simps)
  show "\<not> namespace_valid x \<or> sz < kStorageNamespaceBytes \<or> bytes = None \<Longrightarrow>
      fst (serialize_storage_namespace x bytes sz) \<noteq> SerdeOk \<and> snd (serialize_storage_namespace x bytes sz) = bytes"
    by (auto simp: enc_simps split: option.splits)
  show "namespace_valid x \<Longrightarrow> unat kStorageNamespaceBytes \<le> length b \<Longrightarrow> kStorageNamespaceBytes \<le> sz \<Longrightarrow>
      deserialize_storage_namespace (Some (put_namespace x b)) sz (Some old) = (SerdeOk, Some x)"
    by (auto simp: deserialize_storage_namespace_def put_namespace_reads ucast_consts)
  show "take (unat kStorageNamespaceBytes) b = take (unat kStorageNamespaceBytes) b' \<Longrightarrow>
      deserialize_storage_namespace (Some b) sz out = deserialize_storage_namespace (Some b') sz out"
    by (simp add: deserialize_storage_namespace_def Let_def ucast_consts read_cong_take [of 16 b b']
        cong: if_cong option.case_cong)
  show "length (put_namespace x b) = length b
      \<and> drop (unat kStorageNamespaceBytes) (put_namespace x b) = drop (unat kStorageNamespaceBytes) b"
    using drop_clear [of 16 b] by (simp add: put_namespace_def storage_consts Let_def drop_write)
  show "deserialize_storage_namespace bytes sz out = (SerdeOk, Some x) \<Longrightarrow>
      namespace_valid x \<and> kStorageNamespaceBytes \<le> sz \<and> bytes \<noteq> None"
    by (auto simp: deserialize_storage_namespace_def Let_def not_less split: option.splits if_splits)
qed

text \<open>The operation field of an encoded command.\<close>

lemma operation_of_put_command:
  assumes "64 \<le> length b" and "kStorageCommandBytes \<le> sz"
  shows "deserialize_storage_operation (Some (put_command op cid off len data acc slot b)) sz (Some op0) = (SerdeOk, Some op)"
  using assms by (cases op) (simp_all add: deserialize_storage_operation_def put_command_reads operation_of_code_def Let_def)

section \<open>Properties\<close>

text \<open>
  C10: every well-formed command of the four operations is accepted by its serializer, which
  writes 64 bytes and no other, and its deserializer returns the same command.
\<close>

theorem storage_command_roundtrip:
  assumes "64 \<le> length b" and "64 \<le> sz"
    and "read_valid r" and "write_valid w" and "batch_read_valid br" and "batch_write_valid bw"
  shows "\<exists>b1 b2 b3 b4.
    serialize_storage_read r (Some b) sz = (SerdeOk, Some b1)
      \<and> drop 64 b1 = drop 64 b \<and> deserialize_storage_read (Some b1) sz (Some r0) = (SerdeOk, Some r) \<and>
    serialize_storage_write w (Some b) sz = (SerdeOk, Some b2)
      \<and> drop 64 b2 = drop 64 b \<and> deserialize_storage_write (Some b2) sz (Some w0) = (SerdeOk, Some w) \<and>
    serialize_storage_batch_read br (Some b) sz = (SerdeOk, Some b3)
      \<and> drop 64 b3 = drop 64 b \<and> deserialize_storage_batch_read (Some b3) sz (Some br0) = (SerdeOk, Some br) \<and>
    serialize_storage_batch_write bw (Some b) sz = (SerdeOk, Some b4)
      \<and> drop 64 b4 = drop 64 b \<and> deserialize_storage_batch_write (Some b4) sz (Some bw0) = (SerdeOk, Some bw)"
proof -
  have n: "unat kStorageCommandBytes \<le> length b" "kStorageCommandBytes \<le> sz"
    using assms(1,2) by (simp_all add: storage_consts)
  note rt = read_codec.valid_roundtrip [OF assms(3) n] write_codec.valid_roundtrip [OF assms(4) n]
    batch_read_codec.valid_roundtrip [OF assms(5) n] batch_write_codec.valid_roundtrip [OF assms(6) n]
  show ?thesis
    using rt(1) [of r0] rt(2) [of w0] rt(3) [of br0] rt(4) [of bw0] unfolding ucast_consts by blast
qed

definition sample_memory :: StorageMemory where
  "sample_memory = \<lparr>m_address = 0x1000, m_length = 4096, m_remote_key = 9\<rparr>"

definition sample_read :: StorageReadCommand where
  "sample_read = \<lparr>r_command_id = 1, r_offset = 512, r_length = 4096, r_data = sample_memory, r_slot_index = 0\<rparr>"

definition sample_write :: StorageWriteCommand where
  "sample_write = \<lparr>w_command_id = 2, w_offset = 0, w_length = 100, w_data = sample_memory, w_slot_index = 1\<rparr>"

definition sample_batch_read :: StorageBatchReadCommand where
  "sample_batch_read = \<lparr>br_command_id = 3, br_entry_count = 2, br_total_length = 64, br_entries = sample_memory,
     br_slot_index = 2\<rparr>"

definition sample_batch_write :: StorageBatchWriteCommand where
  "sample_batch_write = \<lparr>bw_command_id = 4, bw_entry_count = 100, bw_total_length = 6400, bw_entries = sample_memory,
     bw_slot_index = 3\<rparr>"

lemmas sample_defs = sample_memory_def sample_read_def sample_write_def sample_batch_read_def sample_batch_write_def

lemma sample_commands_valid:
  "read_valid sample_read" "write_valid sample_write"
  "batch_read_valid sample_batch_read" "batch_write_valid sample_batch_write"
  by (simp_all add: valid_defs sample_defs memory_valid_def)

theorem storage_command_roundtrip_witness:
  "\<exists>b1 b2 b3 b4.
    serialize_storage_read sample_read (Some (replicate 70 1)) 70 = (SerdeOk, Some b1)
      \<and> drop 64 b1 = replicate 6 1
      \<and> deserialize_storage_read (Some b1) 70 (Some sample_read) = (SerdeOk, Some sample_read) \<and>
    serialize_storage_write sample_write (Some (replicate 70 1)) 70 = (SerdeOk, Some b2)
      \<and> drop 64 b2 = replicate 6 1
      \<and> deserialize_storage_write (Some b2) 70 (Some sample_write) = (SerdeOk, Some sample_write) \<and>
    serialize_storage_batch_read sample_batch_read (Some (replicate 70 1)) 70 = (SerdeOk, Some b3)
      \<and> drop 64 b3 = replicate 6 1
      \<and> deserialize_storage_batch_read (Some b3) 70 (Some sample_batch_read) = (SerdeOk, Some sample_batch_read) \<and>
    serialize_storage_batch_write sample_batch_write (Some (replicate 70 1)) 70 = (SerdeOk, Some b4)
      \<and> drop 64 b4 = replicate 6 1
      \<and> deserialize_storage_batch_write (Some b4) 70 (Some sample_batch_write) = (SerdeOk, Some sample_batch_write)"
proof -
  have d: "drop 64 (replicate 70 (1 :: u8)) = replicate 6 1" by (simp add: drop_replicate)
  show ?thesis
    unfolding d [symmetric] by (rule storage_command_roundtrip [OF _ _ sample_commands_valid]) simp_all
qed

text \<open>
  Completion, bootstrap and namespace records: a well-formed record is accepted by its
  serializer and decoded to the same record from the bytes it wrote.
\<close>

theorem storage_response_roundtrip:
  assumes "96 \<le> length b" and "96 \<le> sz"
    and "\<not> completion_invalid c" and "bootstrap_valid s" and "ns_capacity n \<noteq> 0"
  shows "\<exists>b1 b2 b3.
    serialize_storage_completion c (Some b) sz = (SerdeOk, Some b1)
      \<and> deserialize_storage_completion (Some b1) sz (Some c0) = (SerdeOk, Some c) \<and>
    serialize_storage_bootstrap s (Some b) sz = (SerdeOk, Some b2)
      \<and> deserialize_storage_bootstrap (Some b2) sz (Some s0) = (SerdeOk, Some s) \<and>
    serialize_storage_namespace n (Some b) sz = (SerdeOk, Some b3)
      \<and> deserialize_storage_namespace (Some b3) sz (Some n0) = (SerdeOk, Some n)"
proof -
  have n: "unat kStorageCompletionBytes \<le> length b" "kStorageCompletionBytes \<le> sz"
    "unat kStorageBootstrapBytes \<le> length b" "kStorageBootstrapBytes \<le> sz"
    "unat kStorageNamespaceBytes \<le> length b" "kStorageNamespaceBytes \<le> sz"
    using assms(1,2) by (simp_all add: storage_consts word_le_nat_alt)
  show ?thesis
    using completion_codec.valid_roundtrip [OF assms(3) n(1,2), of c0]
      bootstrap_codec.valid_roundtrip [OF assms(4) n(3,4), of s0]
      namespace_codec.valid_roundtrip [OF assms(5) n(5,6), of n0] by blast
qed

definition sample_completion :: StorageCompletion where
  "sample_completion = \<lparr>c_command_id = 5, c_state = StateComplete, c_status = StatusSuccess, c_bytes_transferred = 4096\<rparr>"

definition sample_bootstrap :: StorageBootstrap where
  "sample_bootstrap = \<lparr>b_completion = sample_memory, b_namespace_response = sample_memory, b_slots = sample_memory,
     b_slot_count = 4\<rparr>"

theorem storage_response_roundtrip_witness:
  "\<exists>b1 b2 b3.
    serialize_storage_completion sample_completion (Some (replicate 96 0)) 96 = (SerdeOk, Some b1)
      \<and> deserialize_storage_completion (Some b1) 96 (Some sample_completion) = (SerdeOk, Some sample_completion) \<and>
    serialize_storage_bootstrap sample_bootstrap (Some (replicate 96 0)) 96 = (SerdeOk, Some b2)
      \<and> deserialize_storage_bootstrap (Some b2) 96 (Some sample_bootstrap) = (SerdeOk, Some sample_bootstrap) \<and>
    serialize_storage_namespace \<lparr>ns_capacity = 1048576\<rparr> (Some (replicate 96 0)) 96 = (SerdeOk, Some b3)
      \<and> deserialize_storage_namespace (Some b3) 96 (Some \<lparr>ns_capacity = 0\<rparr>) = (SerdeOk, Some \<lparr>ns_capacity = 1048576\<rparr>)"
  by (rule storage_response_roundtrip)
    (simp_all add: completion_invalid_def storage_status_defs sample_completion_def bootstrap_valid_def
      sample_bootstrap_def sample_memory_def memory_valid_def storage_consts)

text \<open>
  The server picks the decoder by the operation field. A serialized command of any
  operation is classified as that operation, and the decoders of the other operations refuse it.
\<close>

theorem storage_operation_dispatch:
  assumes "serialize_command op cid off len data req acc slot (Some b) sz = (SerdeOk, bytes)" and "64 \<le> length b"
  shows "deserialize_storage_operation bytes sz (Some op0) = (SerdeOk, Some op)
    \<and> (op \<noteq> OpRead \<longrightarrow> fst (deserialize_storage_read bytes sz (Some r0)) = SerdeInvalidRecord)
    \<and> (op \<noteq> OpWrite \<longrightarrow> fst (deserialize_storage_write bytes sz (Some w0)) = SerdeInvalidRecord)
    \<and> (op \<noteq> OpBatchRead \<longrightarrow> fst (deserialize_storage_batch_read bytes sz (Some br0)) = SerdeInvalidRecord)
    \<and> (op \<noteq> OpBatchWrite \<longrightarrow> fst (deserialize_storage_batch_write bytes sz (Some bw0)) = SerdeInvalidRecord)"
proof -
  from assms(1) have sz: "kStorageCommandBytes \<le> sz"
    and b: "bytes = Some (put_command op cid off len data acc slot b)"
    by (auto simp: serialize_command_def not_less split: if_splits)
  have "deserialize_storage_operation bytes sz (Some op0) = (SerdeOk, Some op)"
    using operation_of_put_command [OF assms(2) sz] by (simp add: b)
  then show ?thesis
    using sz assms(2)
    by (simp add: b deserialize_put_command deserialize_storage_read_def deserialize_storage_write_def
        deserialize_storage_batch_read_def deserialize_storage_batch_write_def)
qed

theorem storage_operation_dispatch_witness:
  "\<exists>bytes. serialize_storage_write sample_write (Some (replicate 64 0)) 64 = (SerdeOk, bytes)
    \<and> deserialize_storage_operation bytes 64 (Some OpRead) = (SerdeOk, Some OpWrite)
    \<and> fst (deserialize_storage_read bytes 64 (Some sample_read)) = SerdeInvalidRecord"
proof -
  obtain bytes where "serialize_command OpWrite 2 0 100 sample_memory 100 kRemoteRead 1 (Some (replicate 64 0)) 64 =
      (SerdeOk, bytes)"
    by (simp add: serialize_command_def memory_valid_def sample_memory_def kStorageCommandBytes_def)
  with storage_operation_dispatch [OF this] show ?thesis
    by (auto simp: serialize_storage_write_def sample_write_def)
qed

text \<open>
  C17: what the server may rely on after decoding, whatever bytes a client placed in the slot: a
  read or write names a nonzero command and a nonempty range covered by the client's data
  memory; a batch names at most 1024 entries, and its descriptor array is covered by the memory
  of the command.
\<close>

theorem storage_decode_sound:
  "(deserialize_storage_read bytes sz out1 = (SerdeOk, Some r) \<longrightarrow> read_valid r)
   \<and> (deserialize_storage_write bytes sz out2 = (SerdeOk, Some w) \<longrightarrow> write_valid w)
   \<and> (deserialize_storage_batch_read bytes sz out3 = (SerdeOk, Some br) \<longrightarrow>
        br_command_id br \<noteq> 0 \<and> unat (br_entry_count br) \<le> 1024
        \<and> unat (br_entry_count br) * 40 \<le> unat (m_length (br_entries br)))
   \<and> (deserialize_storage_batch_write bytes sz out4 = (SerdeOk, Some bw) \<longrightarrow>
        bw_command_id bw \<noteq> 0 \<and> unat (bw_entry_count bw) \<le> 1024
        \<and> unat (bw_entry_count bw) * 40 \<le> unat (m_length (bw_entries bw)))"
proof -
  have m: "c \<le> (1024 :: u64) \<Longrightarrow> c * 40 \<le> n \<Longrightarrow> unat c \<le> 1024 \<and> unat c * 40 \<le> unat n" for c n :: u64
    by (simp add: word_le_nat_alt unat_word_ariths)
  show ?thesis
    using read_codec.dec_valid [of bytes sz out1 r] write_codec.dec_valid [of bytes sz out2 w]
    by (auto simp: deserialize_storage_batch_read_ok_iff deserialize_storage_batch_write_ok_iff
        out_defs intro: m [THEN conjunct1] m [THEN conjunct2] dest: deserialize_command_okD)
qed

theorem storage_decode_sound_witness:
  "\<exists>b. deserialize_storage_batch_read (Some b) 64 (Some sample_batch_read) = (SerdeOk, Some sample_batch_read)
     \<and> unat (br_entry_count sample_batch_read) * 40 \<le> unat (m_length (br_entries sample_batch_read))"
proof -
  obtain b where "deserialize_storage_batch_read (Some b) 64 (Some sample_batch_read) = (SerdeOk, Some sample_batch_read)"
    using batch_read_codec.valid_roundtrip [OF sample_commands_valid(3), of "replicate 64 0" 64 sample_batch_read]
    by (auto simp: storage_consts)
  then show ?thesis
    using storage_decode_sound [of "Some b" 64 None sample_read None sample_write "Some sample_batch_read"
        sample_batch_read None sample_batch_write]
    by blast
qed

text \<open>
  The deserializers of the two batch commands accept an entry count of zero, which the
  serializers refuse.
\<close>

theorem storage_batch_zero_entries:
  "\<exists>bytes. deserialize_storage_batch_read (Some bytes) 64 (Some sample_batch_read) =
        (SerdeOk, Some (sample_batch_read\<lparr>br_entry_count := 0\<rparr>))
      \<and> fst (serialize_storage_batch_read (sample_batch_read\<lparr>br_entry_count := 0\<rparr>) (Some bytes) 64) = SerdeInvalidRecord"
proof -
  let ?b = "put_command OpBatchRead 3 0 64 sample_memory kRemoteRead 2 (replicate 64 0)"
  show ?thesis
    by (intro exI [of _ ?b])
      (simp add: deserialize_storage_batch_read_def deserialize_put_command serialize_storage_batch_read_def
        out_defs memory_valid_def sample_defs storage_consts)
qed

end
