(* ===== verification/Device_Abi.thy ===== *)
theory Device_Abi
  imports Storage_Codec
begin

text \<open>
  The device ABI the three client backends share: the descriptors and work requests of
  \<^verbatim>\<open>src/src/client/include/backend_verbs.h\<close>, the transport state and its credit functions of
  \<^verbatim>\<open>backend_transport.h\<close>, the storage descriptors and slot identifiers of
  \<^verbatim>\<open>backend_storage.h\<close>, and the HNS queue functions of
  \<^verbatim>\<open>src/src/client/backends/common/hns_hw.h\<close>.

  Device global memory is the record \<open>dmem\<close>, one heap per type of object and an address as
  the key: an object of one type is never overlaid with one of another. Arrays are indexed with
  the size of their element. What other agents do to the memory is a parameter of the operations
  that poll, indexed by the number of polls so far, \<open>g_tick\<close>: the network adapter writes
  completion entries and, on behalf of the remote server, bytes of registered buffers.
\<close>

section \<open>Verbs descriptors\<close>

definition NDS_MAX_COMPLETIONS :: u32 where "NDS_MAX_COMPLETIONS = 16"

definition NDS_QP_MODE_NORMAL :: i32 where "NDS_QP_MODE_NORMAL = 0"

definition NDS_WR_SEND :: u32 where "NDS_WR_SEND = 0"
definition NDS_WR_RDMA_READ :: u32 where "NDS_WR_RDMA_READ = 1"
definition NDS_WR_RDMA_WRITE :: u32 where "NDS_WR_RDMA_WRITE = 2"

lemmas wr_opcode_defs = NDS_WR_SEND_def NDS_WR_RDMA_READ_def NDS_WR_RDMA_WRITE_def

type_synonym NdsOperationStatus = u32

definition NDS_OPERATION_SUCCESS :: NdsOperationStatus where "NDS_OPERATION_SUCCESS = 0"
definition NDS_OPERATION_INVALID_ARGUMENT :: NdsOperationStatus where "NDS_OPERATION_INVALID_ARGUMENT = 1"
definition NDS_OPERATION_SYMBOL_UNAVAILABLE :: NdsOperationStatus where "NDS_OPERATION_SYMBOL_UNAVAILABLE = 2"
definition NDS_OPERATION_PROVIDER_FAILED :: NdsOperationStatus where "NDS_OPERATION_PROVIDER_FAILED = 3"
definition NDS_OPERATION_QUEUE_FULL :: NdsOperationStatus where "NDS_OPERATION_QUEUE_FULL = 4"
definition NDS_OPERATION_UNSUPPORTED :: NdsOperationStatus where "NDS_OPERATION_UNSUPPORTED = 5"

lemmas op_status_defs = NDS_OPERATION_SUCCESS_def NDS_OPERATION_INVALID_ARGUMENT_def
  NDS_OPERATION_SYMBOL_UNAVAILABLE_def NDS_OPERATION_PROVIDER_FAILED_def NDS_OPERATION_QUEUE_FULL_def
  NDS_OPERATION_UNSUPPORTED_def

definition NDS_SEND_SIGNALED :: u32 where "NDS_SEND_SIGNALED = 1"
definition NDS_WC_SUCCESS :: i32 where "NDS_WC_SUCCESS = 0"

record NdsWorkQueueDescriptor =
  q_number :: u32
  q_depth :: u32
  q_entry_size :: u32
  q_doorbell_mode :: u32
  q_buffer_address :: u64
  q_head_address :: u64
  q_tail_address :: u64
  q_doorbell_address :: u64
  q_wr_id_address :: u64

record NdsCqDescriptor =
  cq_number :: u32
  cq_depth :: u32
  cq_entry_size :: u32
  cq_doorbell_mode :: u32
  cq_buffer_address :: u64
  cq_consumer_address :: u64
  cq_doorbell_address :: u64

record NdsQpDescriptor =
  qd_flags :: u32
  qd_qp_mode :: i32
  qd_service_level :: u32
  qd_reserved :: u32
  qd_provider_qp_address :: u64
  qd_provider_send_cq_address :: u64
  qd_provider_receive_cq_address :: u64
  qd_send_queue :: NdsWorkQueueDescriptor
  qd_receive_queue :: NdsWorkQueueDescriptor
  qd_send_cq :: NdsCqDescriptor
  qd_receive_cq :: NdsCqDescriptor
  qd_host_runtime_address :: u64
  qd_host_qp_address :: u64

record NdsSge =
  sg_address :: u64
  sg_length :: u32
  sg_local_key :: u32

record NdsSendWr =
  sw_wr_id :: u64
  sw_opcode :: u32
  sw_flags :: u32
  sw_local :: NdsSge
  sw_remote_address :: u64
  sw_remote_key :: u32

record NdsRecvWr =
  rw_wr_id :: u64
  rw_local :: NdsSge

record NdsWc =
  wc_wr_id :: u64
  wc_status :: i32
  wc_opcode :: i32
  wc_vendor_error :: u32
  wc_byte_length :: u32
  wc_qp_number :: u32
  wc_flags :: u32
  wc_immediate_data_or_invalidated_rkey :: u32
  wc_reserved :: u32

section \<open>Transport descriptors\<close>

record NdsTransportQpState =
  st_signal_interval :: u32
  st_unsignaled_count :: u32
  st_send_credits :: u32
  st_receive_credits :: u32

record NdsTransportDescriptor =
  td_qp_descriptors_address :: u64
  td_qp_states_address :: u64
  td_qp_count :: u32
  td_reserved :: u32

section \<open>Storage descriptors\<close>

record NdsStorageDescriptor =
  sd_transport :: NdsTransportDescriptor
  sd_slot_descriptors_address :: u64
  sd_storage_states_address :: u64
  sd_slot_count :: u32
  sd_reserved :: u32
  sd_capacity :: u64

record NdsStorageBootstrapDescriptor =
  bd_transport :: NdsTransportDescriptor
  bd_bootstrap :: NdsSge

record NdsStorageSlotDescriptor =
  sl_command_buffer :: NdsSge
  sl_completion_buffer :: NdsSge
  sl_qp_index :: u32
  sl_reserved :: u32

record NdsStorageState =
  ss_command_id :: u64
  ss_expected_bytes :: u32
  ss_in_flight :: u32
  ss_status :: i32

record NdsStorageOperation =
  so_slot_id :: u32
  so_reserved :: u32
  so_server_offset :: u64
  so_buffer_address :: u64
  so_buffer_key :: u32
  so_length :: u32

record NdsStorageBatchOperation =
  sb_slot_id :: u32
  sb_entry_count :: u32
  sb_entries_address :: u64
  sb_entries_key :: u32
  sb_reserved :: u32

record NdsStorageOperationArgs =
  oa_storage :: NdsStorageDescriptor
  oa_operation :: NdsStorageOperation

record NdsStorageBatchOperationArgs =
  ba_storage :: NdsStorageDescriptor
  ba_operation :: NdsStorageBatchOperation

section \<open>HNS hardware layouts\<close>

record NdsHnsHwWqeDataSeg =
  seg_length :: u32
  seg_local_key :: u32
  seg_address :: u64

record NdsHnsHwCqe =
  cqe_byte_4 :: u32
  cqe_immediate_data :: u32
  cqe_byte_12 :: u32
  cqe_byte_16 :: u32
  cqe_byte_count :: u32

definition NDS_HNS_HW_SQ_SEND :: u32 where "NDS_HNS_HW_SQ_SEND = 0"
definition NDS_HNS_HW_SQ_RDMA_WRITE :: u32 where "NDS_HNS_HW_SQ_RDMA_WRITE = 3"
definition NDS_HNS_HW_SQ_RDMA_READ :: u32 where "NDS_HNS_HW_SQ_RDMA_READ = 5"
definition NDS_HNS_HW_SQ_INVALID :: u32 where "NDS_HNS_HW_SQ_INVALID = 0xffffffff"
definition NDS_HNS_HW_SQ_SIGNALED :: u32 where "NDS_HNS_HW_SQ_SIGNALED = 0x100"

definition NDS_HNS_HW_SQ_OPCODE_FROM_DEVICE :: "u32 \<Rightarrow> u32" where
  "NDS_HNS_HW_SQ_OPCODE_FROM_DEVICE opcode =
     (if opcode = NDS_WR_SEND then NDS_HNS_HW_SQ_SEND
      else if opcode = NDS_WR_RDMA_WRITE then NDS_HNS_HW_SQ_RDMA_WRITE
      else if opcode = NDS_WR_RDMA_READ then NDS_HNS_HW_SQ_RDMA_READ
      else NDS_HNS_HW_SQ_INVALID)"

definition nds_hns_hw_queue_has_space :: "u32 \<Rightarrow> u32 \<Rightarrow> u32 \<Rightarrow> u32 \<Rightarrow> bool" where
  "nds_hns_hw_queue_has_space head tail depth reserved_entries \<longleftrightarrow>
     depth > reserved_entries \<and> head - tail < depth - reserved_entries"

definition nds_hns_hw_encode_wqe_data_seg :: "u64 \<Rightarrow> u32 \<Rightarrow> u32 \<Rightarrow> NdsHnsHwWqeDataSeg" where
  "nds_hns_hw_encode_wqe_data_seg address len local_key =
     \<lparr>seg_length = len, seg_local_key = local_key, seg_address = address\<rparr>"

definition cqe_owner :: "NdsHnsHwCqe \<Rightarrow> u32" where
  "cqe_owner cqe = drop_bit 7 (cqe_byte_4 cqe) AND 1"

definition nds_hns_hw_cqe_is_ready :: "NdsHnsHwCqe \<Rightarrow> u32 \<Rightarrow> u32 \<Rightarrow> bool" where
  "nds_hns_hw_cqe_is_ready cqe consumer depth \<longleftrightarrow>
     depth \<noteq> 0 \<and> (cqe_owner cqe XOR (if consumer AND depth \<noteq> 0 then 1 else 0)) \<noteq> 0"

definition nds_hns_hw_send_tail_for_cqe :: "u32 \<Rightarrow> u32 \<Rightarrow> NdsHnsHwCqe \<Rightarrow> u32" where
  "nds_hns_hw_send_tail_for_cqe tail depth cqe =
     (let wqe_index = drop_bit 16 (cqe_byte_4 cqe)
      in tail + ((wqe_index - tail) AND (depth - 1)))"

definition nds_hns_hw_decode_cqe :: "NdsHnsHwCqe \<Rightarrow> u64 \<Rightarrow> NdsWc" where
  "nds_hns_hw_decode_cqe cqe wr_id =
     \<lparr>wc_wr_id = wr_id,
      wc_status = drop_bit 8 (cqe_byte_4 cqe) AND 0xff,
      wc_opcode = cqe_byte_4 cqe AND 0x1f,
      wc_vendor_error = drop_bit 24 (cqe_byte_16 cqe) AND 0xff,
      wc_byte_length = cqe_byte_count cqe,
      wc_qp_number = cqe_byte_12 cqe AND 0x00ffffff,
      wc_flags = 0,
      wc_immediate_data_or_invalidated_rkey = cqe_immediate_data cqe,
      wc_reserved = 0\<rparr>"

text \<open>The raw send work queue entry the AIV backend writes, with the data segment behind it.\<close>

record HnsRoceRcSqWqe =
  sq_byte_4 :: u32
  sq_message_length :: u32
  sq_immediate_data :: u32
  sq_sge_count :: u32
  sq_start_sge_index :: u32
  sq_remote_key :: u32
  sq_remote_address :: u64

section \<open>Device memory\<close>

record dmem =
  g_u32 :: "u64 \<Rightarrow> u32"
  g_u64 :: "u64 \<Rightarrow> u64"
  g_byte :: "u64 \<Rightarrow> u8"
  g_sqe :: "u64 \<Rightarrow> HnsRoceRcSqWqe"
  g_seg :: "u64 \<Rightarrow> NdsHnsHwWqeDataSeg"
  g_cqe :: "u64 \<Rightarrow> NdsHnsHwCqe"
  g_wr :: "u64 \<Rightarrow> NdsSendWr"
  g_qp :: "u64 \<Rightarrow> NdsQpDescriptor"
  g_qp_state :: "u64 \<Rightarrow> NdsTransportQpState"
  g_slot :: "u64 \<Rightarrow> NdsStorageSlotDescriptor"
  g_storage_state :: "u64 \<Rightarrow> NdsStorageState"
  g_tick :: nat

definition put_u32 :: "u64 \<Rightarrow> u32 \<Rightarrow> dmem \<Rightarrow> dmem" where
  "put_u32 address v m = m\<lparr>g_u32 := (g_u32 m)(address := v)\<rparr>"

definition put_u64 :: "u64 \<Rightarrow> u64 \<Rightarrow> dmem \<Rightarrow> dmem" where
  "put_u64 address v m = m\<lparr>g_u64 := (g_u64 m)(address := v)\<rparr>"

definition put_qp_state :: "u64 \<Rightarrow> NdsTransportQpState \<Rightarrow> dmem \<Rightarrow> dmem" where
  "put_qp_state address v m = m\<lparr>g_qp_state := (g_qp_state m)(address := v)\<rparr>"

definition put_storage_state :: "u64 \<Rightarrow> NdsStorageState \<Rightarrow> dmem \<Rightarrow> dmem" where
  "put_storage_state address v m = m\<lparr>g_storage_state := (g_storage_state m)(address := v)\<rparr>"

text \<open>A loop that copies bytes to or from consecutive addresses.\<close>

fun put_bytes :: "u64 \<Rightarrow> u8 list \<Rightarrow> dmem \<Rightarrow> dmem" where
  "put_bytes address [] m = m"
| "put_bytes address (b # bs) m = put_bytes (address + 1) bs (m\<lparr>g_byte := (g_byte m)(address := b)\<rparr>)"

definition get_bytes :: "dmem \<Rightarrow> u64 \<Rightarrow> nat \<Rightarrow> u8 list" where
  "get_bytes m address n = map (\<lambda>i. g_byte m (address + of_nat i)) [0..<n]"

type_synonym adapter = "nat \<Rightarrow> dmem \<Rightarrow> (u64 \<Rightarrow> NdsHnsHwCqe) \<times> (u64 \<Rightarrow> u8)"

definition nic_step :: "adapter \<Rightarrow> dmem \<Rightarrow> dmem" where
  "nic_step nic m = (case nic (g_tick m) m of (cqes, bytes) \<Rightarrow> m\<lparr>g_cqe := cqes, g_byte := bytes, g_tick := Suc (g_tick m)\<rparr>)"

text \<open>The element at an index of an array of 4- or 8-byte integers.\<close>

definition u64_at :: "u64 \<Rightarrow> u32 \<Rightarrow> u64" where
  "u64_at base index = base + 8 * ucast index"

section \<open>Transport state functions\<close>

definition nds_transport_qp :: "NdsTransportDescriptor option \<Rightarrow> u32 \<Rightarrow> u64 option" where
  "nds_transport_qp transport queue_index =
     (case transport of
        None \<Rightarrow> None
      | Some t \<Rightarrow>
          if queue_index \<ge> td_qp_count t \<or> td_qp_descriptors_address t = 0 then None
          else Some (td_qp_descriptors_address t + 248 * ucast queue_index))"

definition nds_transport_qp_state :: "NdsTransportDescriptor option \<Rightarrow> u32 \<Rightarrow> u64 option" where
  "nds_transport_qp_state transport queue_index =
     (case transport of
        None \<Rightarrow> None
      | Some t \<Rightarrow>
          if queue_index \<ge> td_qp_count t \<or> td_qp_states_address t = 0 then None
          else Some (td_qp_states_address t + 16 * ucast queue_index))"

definition nds_transport_should_signal :: "NdsTransportQpState option \<Rightarrow> u32" where
  "nds_transport_should_signal state =
     (case state of
        None \<Rightarrow> 0
      | Some s \<Rightarrow>
          if st_signal_interval s = 0 then 0
          else if st_unsignaled_count s + 1 \<ge> st_signal_interval s then 1 else 0)"

definition nds_transport_record_send :: "NdsTransportQpState option \<Rightarrow> u32 \<Rightarrow> u32 \<times> NdsTransportQpState option" where
  "nds_transport_record_send state signaled =
     (case state of
        None \<Rightarrow> (0, None)
      | Some s \<Rightarrow>
          if st_send_credits s = 0 then (0, Some s)
          else (1, Some (s\<lparr>st_send_credits := st_send_credits s - 1,
                  st_unsignaled_count := (if signaled \<noteq> 0 then 0 else st_unsignaled_count s + 1)\<rparr>)))"

definition nds_transport_record_receive :: "NdsTransportQpState option \<Rightarrow> u32 \<times> NdsTransportQpState option" where
  "nds_transport_record_receive state =
     (case state of
        None \<Rightarrow> (0, None)
      | Some s \<Rightarrow>
          if st_receive_credits s = 0 then (0, Some s)
          else (1, Some (s\<lparr>st_receive_credits := st_receive_credits s - 1\<rparr>)))"

definition nds_transport_reclaim_send :: "NdsTransportQpState option \<Rightarrow> u32 \<Rightarrow> NdsTransportQpState option" where
  "nds_transport_reclaim_send state completion_count =
     (case state of
        None \<Rightarrow> None
      | Some s \<Rightarrow>
          if st_signal_interval s = 0 then Some s
          else Some (s\<lparr>st_send_credits := st_send_credits s + completion_count * st_signal_interval s\<rparr>))"

definition nds_transport_reclaim_receive :: "NdsTransportQpState option \<Rightarrow> u32 \<Rightarrow> NdsTransportQpState option" where
  "nds_transport_reclaim_receive state completion_count =
     (case state of
        None \<Rightarrow> None
      | Some s \<Rightarrow> Some (s\<lparr>st_receive_credits := st_receive_credits s + completion_count\<rparr>))"

section \<open>Storage descriptor functions\<close>

definition nds_storage_slot_id :: "u32 \<Rightarrow> u32 \<Rightarrow> u32" where
  "nds_storage_slot_id queue_index slot_index = push_bit 16 queue_index OR (slot_index AND 0xffff)"

definition nds_storage_slot_id_queue :: "u32 \<Rightarrow> u32" where
  "nds_storage_slot_id_queue slot_id = drop_bit 16 slot_id"

definition nds_storage_slot_id_index :: "u32 \<Rightarrow> u32" where
  "nds_storage_slot_id_index slot_id = slot_id AND 0xffff"

definition nds_storage_descriptor_valid :: "NdsStorageDescriptor option \<Rightarrow> bool" where
  "nds_storage_descriptor_valid descriptor =
     (case descriptor of
        None \<Rightarrow> False
      | Some d \<Rightarrow>
          sd_slot_descriptors_address d \<noteq> 0 \<and> sd_storage_states_address d \<noteq> 0 \<and> sd_slot_count d \<noteq> 0
          \<and> td_qp_count (sd_transport d) \<noteq> 0 \<and> sd_capacity d \<noteq> 0 \<and> sd_reserved d = 0
          \<and> td_reserved (sd_transport d) = 0 \<and> td_qp_descriptors_address (sd_transport d) \<noteq> 0
          \<and> td_qp_states_address (sd_transport d) \<noteq> 0)"

definition nds_storage_state :: "NdsStorageDescriptor option \<Rightarrow> u32 \<Rightarrow> u64 option" where
  "nds_storage_state descriptor slot_index =
     (case descriptor of
        None \<Rightarrow> None
      | Some d \<Rightarrow>
          if \<not> nds_storage_descriptor_valid descriptor \<or> slot_index \<ge> sd_slot_count d then None
          else Some (sd_storage_states_address d + 24 * ucast slot_index))"

definition nds_storage_slot :: "NdsStorageDescriptor option \<Rightarrow> u32 \<Rightarrow> u64 option" where
  "nds_storage_slot descriptor slot_index =
     (case descriptor of
        None \<Rightarrow> None
      | Some d \<Rightarrow>
          if \<not> nds_storage_descriptor_valid descriptor \<or> slot_index \<ge> sd_slot_count d then None
          else Some (sd_slot_descriptors_address d + 40 * ucast slot_index))"

definition slot_record_valid :: "NdsStorageDescriptor \<Rightarrow> NdsStorageSlotDescriptor \<Rightarrow> bool" where
  "slot_record_valid d slot \<longleftrightarrow>
     sl_reserved slot = 0 \<and> sl_qp_index slot < td_qp_count (sd_transport d)
     \<and> sg_address (sl_command_buffer slot) \<noteq> 0 \<and> sg_local_key (sl_command_buffer slot) \<noteq> 0
     \<and> sg_length (sl_command_buffer slot) \<ge> kStorageCommandBytes
     \<and> sg_address (sl_completion_buffer slot) \<noteq> 0 \<and> sg_local_key (sl_completion_buffer slot) \<noteq> 0
     \<and> sg_length (sl_completion_buffer slot) \<ge> kStorageCompletionBytes"

definition nds_storage_slot_valid :: "dmem \<Rightarrow> NdsStorageDescriptor option \<Rightarrow> u32 \<Rightarrow> bool" where
  "nds_storage_slot_valid m descriptor slot_index =
     (case (descriptor, nds_storage_slot descriptor slot_index) of
        (Some d, Some address) \<Rightarrow> slot_record_valid d (g_slot m address)
      | _ \<Rightarrow> False)"

definition nds_storage_slot_id_valid :: "dmem \<Rightarrow> NdsStorageDescriptor option \<Rightarrow> u32 \<Rightarrow> bool" where
  "nds_storage_slot_id_valid m descriptor slot_id =
     (let slot_index = nds_storage_slot_id_index slot_id; queue_index = nds_storage_slot_id_queue slot_id
      in nds_storage_slot_valid m descriptor slot_index
         \<and> (case nds_storage_slot descriptor slot_index of
              None \<Rightarrow> False | Some address \<Rightarrow> sl_qp_index (g_slot m address) = queue_index))"

text \<open>The accessors the AICore compiler uses test less than the host ones.\<close>

definition nds_storage_slot_global :: "NdsStorageDescriptor option \<Rightarrow> u32 \<Rightarrow> u64 option" where
  "nds_storage_slot_global descriptor slot_index =
     (case descriptor of
        None \<Rightarrow> None
      | Some d \<Rightarrow>
          if sd_slot_descriptors_address d = 0 \<or> slot_index \<ge> sd_slot_count d then None
          else Some (sd_slot_descriptors_address d + 40 * ucast slot_index))"

definition nds_storage_state_global :: "NdsStorageDescriptor option \<Rightarrow> u32 \<Rightarrow> u64 option" where
  "nds_storage_state_global descriptor slot_index =
     (case descriptor of
        None \<Rightarrow> None
      | Some d \<Rightarrow>
          if sd_storage_states_address d = 0 \<or> slot_index \<ge> sd_slot_count d then None
          else Some (sd_storage_states_address d + 24 * ucast slot_index))"

definition nds_storage_read_valid :: "dmem \<Rightarrow> NdsStorageDescriptor option \<Rightarrow> StorageReadCommand option \<Rightarrow> bool" where
  "nds_storage_read_valid m descriptor command =
     (case (descriptor, command) of
        (Some d, Some c) \<Rightarrow>
          nds_storage_slot_valid m descriptor (r_slot_index c)
          \<and> r_command_id c \<noteq> 0 \<and> r_length c \<noteq> 0 \<and> m_address (r_data c) \<noteq> 0 \<and> m_remote_key (r_data c) \<noteq> 0
          \<and> m_length (r_data c) \<ge> r_length c \<and> r_offset c \<le> sd_capacity d
          \<and> r_length c \<le> sd_capacity d - r_offset c \<and> r_length c \<le> 0xffffffff
      | _ \<Rightarrow> False)"

definition nds_storage_write_valid :: "dmem \<Rightarrow> NdsStorageDescriptor option \<Rightarrow> StorageWriteCommand option \<Rightarrow> bool" where
  "nds_storage_write_valid m descriptor command =
     (case (descriptor, command) of
        (Some d, Some c) \<Rightarrow>
          nds_storage_slot_valid m descriptor (w_slot_index c)
          \<and> w_command_id c \<noteq> 0 \<and> w_length c \<noteq> 0 \<and> m_address (w_data c) \<noteq> 0 \<and> m_remote_key (w_data c) \<noteq> 0
          \<and> m_length (w_data c) \<ge> w_length c \<and> w_offset c \<le> sd_capacity d
          \<and> w_length c \<le> sd_capacity d - w_offset c \<and> w_length c \<le> 0xffffffff
      | _ \<Rightarrow> False)"

definition nds_storage_batch_read_valid :: "dmem \<Rightarrow> NdsStorageDescriptor option \<Rightarrow> StorageBatchReadCommand option \<Rightarrow> bool" where
  "nds_storage_batch_read_valid m descriptor command =
     (case (descriptor, command) of
        (Some d, Some c) \<Rightarrow>
          nds_storage_slot_valid m descriptor (br_slot_index c)
          \<and> br_command_id c \<noteq> 0 \<and> br_entry_count c \<noteq> 0 \<and> br_entry_count c \<le> ucast kStorageMaxBatchEntries
          \<and> br_total_length c \<noteq> 0 \<and> m_address (br_entries c) \<noteq> 0 \<and> m_remote_key (br_entries c) \<noteq> 0
          \<and> m_length (br_entries c) \<ge> br_entry_count c * ucast kStorageBatchEntryBytes
      | _ \<Rightarrow> False)"

definition nds_storage_batch_write_valid :: "dmem \<Rightarrow> NdsStorageDescriptor option \<Rightarrow> StorageBatchWriteCommand option \<Rightarrow> bool" where
  "nds_storage_batch_write_valid m descriptor command =
     (case (descriptor, command) of
        (Some d, Some c) \<Rightarrow>
          nds_storage_slot_valid m descriptor (bw_slot_index c)
          \<and> bw_command_id c \<noteq> 0 \<and> bw_entry_count c \<noteq> 0 \<and> bw_entry_count c \<le> ucast kStorageMaxBatchEntries
          \<and> bw_total_length c \<noteq> 0 \<and> m_address (bw_entries c) \<noteq> 0 \<and> m_remote_key (bw_entries c) \<noteq> 0
          \<and> m_length (bw_entries c) \<ge> bw_entry_count c * ucast kStorageBatchEntryBytes
      | _ \<Rightarrow> False)"

definition nds_storage_wait_valid :: "dmem \<Rightarrow> NdsStorageDescriptor option \<Rightarrow> u32 \<Rightarrow> bool" where
  "nds_storage_wait_valid m descriptor slot_id = nds_storage_slot_id_valid m descriptor slot_id"

end
