(* ===== verification/Device_Queues.thy ===== *)
theory Device_Queues
  imports Device_Abi
begin

text \<open>
  Facts on the device ABI that the three backends rely on: slot identifiers, the arithmetic of
  the hardware rings with free-running 32-bit indices, and the send-credit protocol. The
  protocol is a locale over the three operations a backend uses (whether the next request is
  signaled, charging a posted request, refunding reclaimed completions); its interpretation on
  the functions of \<^verbatim>\<open>backend_transport.h\<close> is here, the one for the AIV backend's own arithmetic is
  in the theory of that backend.
\<close>

lemma op_status_distinct [simp]:
  "NDS_OPERATION_INVALID_ARGUMENT \<noteq> NDS_OPERATION_SUCCESS" "NDS_OPERATION_SYMBOL_UNAVAILABLE \<noteq> NDS_OPERATION_SUCCESS"
  "NDS_OPERATION_PROVIDER_FAILED \<noteq> NDS_OPERATION_SUCCESS" "NDS_OPERATION_QUEUE_FULL \<noteq> NDS_OPERATION_SUCCESS"
  "NDS_OPERATION_UNSUPPORTED \<noteq> NDS_OPERATION_SUCCESS"
  by (simp_all add: op_status_defs)

section \<open>Slot identifiers\<close>

lemma mask16: "(0xffff :: u32) = mask 16"
  by (simp add: mask_eq_exp_minus_1)

lemma slot_id_parts:
  "nds_storage_slot_id_queue (nds_storage_slot_id q i) = q AND 0xffff"
  "nds_storage_slot_id_index (nds_storage_slot_id q i) = i AND 0xffff"
  unfolding nds_storage_slot_id_queue_def nds_storage_slot_id_index_def nds_storage_slot_id_def mask16
  by (rule bit_word_eqI; auto simp: bit_simps)+

lemma slot_id_roundtrip:
  assumes "q < 0x10000" and "i < 0x10000"
  shows "nds_storage_slot_id_queue (nds_storage_slot_id q i) = q"
    and "nds_storage_slot_id_index (nds_storage_slot_id q i) = i"
  using assms less_mask_eq [of q 16] less_mask_eq [of i 16] by (simp_all add: slot_id_parts mask16)

lemma slot_id_of_parts:
  "nds_storage_slot_id (nds_storage_slot_id_queue s) (nds_storage_slot_id_index s) = s"
  unfolding nds_storage_slot_id_queue_def nds_storage_slot_id_index_def nds_storage_slot_id_def mask16
  by (rule bit_word_eqI) (auto simp: bit_simps)

section \<open>Rings\<close>

text \<open>
  A ring has \<open>2 ^ n\<close> entries; its indices count all requests ever posted, modulo \<open>2 ^ 32\<close>. The
  owner bit of a completion entry changes on every lap.
\<close>

lemma pow2_mask: "n < 32 \<Longrightarrow> (2 ^ n :: u32) - 1 = mask n"
  by (simp add: mask_eq_exp_minus_1)

lemma and_pow2_nonzero_iff: "c AND 2 ^ n \<noteq> 0 \<longleftrightarrow> n < 32 \<and> bit (c :: u32) n"
  by (simp add: and_exp_eq_0_iff_not_bit) (auto dest: bit_imp_le_length)

lemma cqe_ready_iff:
  assumes "n < 32"
  shows "nds_hns_hw_cqe_is_ready cqe c (2 ^ n) \<longleftrightarrow> bit (cqe_byte_4 cqe) 7 \<noteq> bit c n"
proof -
  have o: "cqe_owner cqe = (if bit (cqe_byte_4 cqe) 7 then 1 else 0)"
    unfolding cqe_owner_def by (simp add: and_one_eq bit_iff_odd_drop_bit mod_2_eq_odd)
  have "(2 ^ n :: u32) \<noteq> 0" using assms by simp
  then show ?thesis
    using assms and_pow2_nonzero_iff [of c n] by (simp add: nds_hns_hw_cqe_is_ready_def o)
qed

lemma bit_unat_iff: "bit (unat (c :: u32)) n \<longleftrightarrow> bit c n"
  by (simp add: bit_unsigned_iff)

lemma unat_pow2:
  assumes "n < 32"
  shows "unat (2 ^ n :: u32) = 2 ^ n"
proof -
  have "(2 :: nat) ^ n < 2 ^ 32" using assms by (intro power_strict_increasing) simp_all
  then show ?thesis using unat_of_nat [where 'a = 32, of "2 ^ n"] by simp
qed

lemma bit_add_pow2:
  assumes "n < 32"
  shows "bit ((c :: u32) + 2 ^ n) n \<longleftrightarrow> \<not> bit c n"
proof -
  have "unat (c + 2 ^ n) = take_bit 32 (unat c + 2 ^ n)"
    using assms by (simp add: unat_word_ariths unat_pow2 take_bit_eq_mod)
  then have "bit (c + 2 ^ n) n \<longleftrightarrow> bit (unat c + 2 ^ n) n"
    using assms by (metis bit_take_bit_iff bit_unat_iff)
  also have "\<dots> \<longleftrightarrow> \<not> bit (unat c) n"
    by (simp add: bit_iff_odd div_add_self2)
  finally show ?thesis by (simp add: bit_unat_iff)
qed

text \<open>An entry that is ready now is not taken again when the consumer index comes back one lap later.\<close>

lemma cqe_ready_next_lap:
  "n < 32 \<Longrightarrow> nds_hns_hw_cqe_is_ready cqe (c + 2 ^ n) (2 ^ n) \<longleftrightarrow> \<not> nds_hns_hw_cqe_is_ready cqe c (2 ^ n)"
  by (simp add: cqe_ready_iff bit_add_pow2)

text \<open>The send tail jumps to the request a completion names, over unsignaled ones.\<close>

lemma and_mask_add_multiple:
  fixes p t :: u32
  assumes "n < 32" and "unat (p - t) < 2 ^ n" and "idx AND mask n = p AND mask n"
  shows "(idx - t) AND mask n = p - t"
proof -
  have "(idx - t) AND mask n = (p - t) AND mask n"
    by (metis assms(3) mask_eqs(3))
  also have "\<dots> = p - t"
    using assms(1,2) by (intro less_mask_eq) (simp add: word_less_nat_alt unat_pow2)
  finally show ?thesis .
qed

lemma send_tail_for_cqe_eq:
  assumes "n < 32" and "unat (p - tail) < 2 ^ n"
    and "drop_bit 16 (cqe_byte_4 cqe) AND mask n = p AND mask n"
  shows "nds_hns_hw_send_tail_for_cqe tail (2 ^ n) cqe = p"
  using and_mask_add_multiple [OF assms] assms(1)
  by (simp add: nds_hns_hw_send_tail_for_cqe_def Let_def pow2_mask)

text \<open>Space in a ring: the number of requests in flight is below the usable depth.\<close>

lemma queue_has_space_iff:
  "nds_hns_hw_queue_has_space head tail depth reserved \<longleftrightarrow> unat (head - tail) + unat reserved < unat depth"
proof (cases "reserved \<le> depth")
  case True
  then show ?thesis
    using word_le_mask_sub [OF True]
    by (auto simp: nds_hns_hw_queue_has_space_def word_less_nat_alt word_le_nat_alt)
next
  case False
  then show ?thesis by (simp add: nds_hns_hw_queue_has_space_def word_less_nat_alt word_le_nat_alt)
qed

section \<open>Send credits\<close>

text \<open>
  A queue of \<open>D\<close> credits with a signal interval \<open>i\<close>: a request takes one credit; every \<open>i\<close>-th
  request is signaled; a completion of a signaled request gives \<open>i\<close> credits back. \<open>k\<close> counts
  the signaled requests whose completion has not been reclaimed; the invariant says that no
  credit is lost or made up.
\<close>

definition credit_inv :: "nat \<Rightarrow> nat \<Rightarrow> NdsTransportQpState \<Rightarrow> bool" where
  "credit_inv D k s \<longleftrightarrow>
     unat (st_unsignaled_count s) < unat (st_signal_interval s) \<and> D < 2 ^ 32 \<and>
     unat (st_send_credits s) + unat (st_unsignaled_count s) + k * unat (st_signal_interval s) = D"

lemma credit_inv_zero:
  assumes "credit_inv D k s" and "st_send_credits s = 0" and "unat (st_signal_interval s) \<le> D"
  shows "0 < k"
  using assms by (cases k) (auto simp: credit_inv_def)

lemma credit_inv_bound: "credit_inv D k s \<Longrightarrow> unat (st_send_credits s) \<le> D"
  by (auto simp: credit_inv_def)

locale send_credits =
  fixes signal :: "NdsTransportQpState \<Rightarrow> bool"
    and charge :: "NdsTransportQpState \<Rightarrow> bool \<Rightarrow> NdsTransportQpState"
    and refund :: "NdsTransportQpState \<Rightarrow> u32 \<Rightarrow> NdsTransportQpState"
  assumes signal_iff: "st_signal_interval s \<noteq> 0 \<Longrightarrow>
      signal s \<longleftrightarrow> st_unsignaled_count s + 1 \<ge> st_signal_interval s"
    and charge_eq: "st_send_credits s \<noteq> 0 \<Longrightarrow> charge s b =
      s\<lparr>st_send_credits := st_send_credits s - 1, st_unsignaled_count := (if b then 0 else st_unsignaled_count s + 1)\<rparr>"
    and refund_eq: "st_signal_interval s \<noteq> 0 \<Longrightarrow> refund s n =
      s\<lparr>st_send_credits := st_send_credits s + n * st_signal_interval s\<rparr>"
begin

lemma charge_inv:
  assumes inv: "credit_inv D k s" and c: "st_send_credits s \<noteq> 0"
  shows "credit_inv D (if signal s then Suc k else k) (charge s (signal s))"
proof -
  let ?u = "unat (st_unsignaled_count s)" and ?i = "unat (st_signal_interval s)"
  from inv have u: "?u < ?i" by (simp add: credit_inv_def)
  then have i: "st_signal_interval s \<noteq> 0" and su: "unat (st_unsignaled_count s + 1) = Suc ?u"
    using unat_less_32 [of "st_signal_interval s"] by (auto simp: unat_word_ariths)
  have sig: "signal s \<longleftrightarrow> Suc ?u = ?i"
    using signal_iff [OF i] su u by (auto simp: word_le_nat_alt)
  have "unat (st_send_credits s - 1) = unat (st_send_credits s) - 1"
    using c by (simp add: unat_minus_one)
  moreover have "0 < unat (st_send_credits s)" using c by (simp add: unat_gt_0)
  ultimately show ?thesis
    using inv u su sig by (auto simp: charge_eq [OF c] credit_inv_def)
qed

lemma refund_inv:
  assumes inv: "credit_inv D k s" and n: "unat n \<le> k"
  shows "credit_inv D (k - unat n) (refund s n)"
proof -
  let ?i = "unat (st_signal_interval s)"
  from inv have i: "st_signal_interval s \<noteq> 0" by (auto simp: credit_inv_def)
  have le: "unat n * ?i \<le> k * ?i" using n by (rule mult_le_mono1)
  with inv have b: "unat (st_send_credits s) + unat n * ?i < 2 ^ 32" unfolding credit_inv_def by linarith
  then have m: "unat (n * st_signal_interval s) = unat n * ?i" by (simp add: unat_word_ariths)
  with b have "unat (st_send_credits s + n * st_signal_interval s) = unat (st_send_credits s) + unat n * ?i"
    by (simp add: unat_word_ariths)
  then show ?thesis
    using inv le by (simp add: refund_eq [OF i] credit_inv_def diff_mult_distrib)
qed

end

text \<open>The functions of the shared header, with the null checks resolved.\<close>

definition header_signal :: "NdsTransportQpState \<Rightarrow> bool" where
  "header_signal s \<longleftrightarrow> nds_transport_should_signal (Some s) \<noteq> 0"

definition header_charge :: "NdsTransportQpState \<Rightarrow> bool \<Rightarrow> NdsTransportQpState" where
  "header_charge s b = the (snd (nds_transport_record_send (Some s) (if b then 1 else 0)))"

definition header_refund :: "NdsTransportQpState \<Rightarrow> u32 \<Rightarrow> NdsTransportQpState" where
  "header_refund s n = the (nds_transport_reclaim_send (Some s) n)"

interpretation header_credits: send_credits header_signal header_charge header_refund
  by unfold_locales
    (simp_all add: header_signal_def header_charge_def header_refund_def nds_transport_should_signal_def
      nds_transport_record_send_def nds_transport_reclaim_send_def)

section \<open>Steps of the scheduling state\<close>

text \<open>
  The steps of the transport scheduling state of one queue pair, with the number of signaled
  requests in flight.
\<close>

inductive credit_step :: "NdsTransportQpState \<times> nat \<Rightarrow> NdsTransportQpState \<times> nat \<Rightarrow> bool" where
  credit_send:
    "nds_transport_record_send (Some s) (nds_transport_should_signal (Some s)) = (1, Some s') \<Longrightarrow>
     credit_step (s, k) (s', if nds_transport_should_signal (Some s) \<noteq> 0 then Suc k else k)"
| credit_reclaim:
    "unat n \<le> k \<Longrightarrow> nds_transport_reclaim_send (Some s) n = Some s' \<Longrightarrow> credit_step (s, k) (s', k - unat n)"

inductive_cases credit_stepE: "credit_step (s, k) (s', k')"

lemma credit_step_inv:
  assumes "credit_step (s, k) (s', k')" and inv: "credit_inv D k s"
  shows "credit_inv D k' s'"
  using assms(1)
proof (rule credit_stepE)
  assume r: "nds_transport_record_send (Some s) (nds_transport_should_signal (Some s)) = (1, Some s')"
    and k': "k' = (if nds_transport_should_signal (Some s) \<noteq> 0 then Suc k else k)"
  from r have c: "st_send_credits s \<noteq> 0" by (auto simp: nds_transport_record_send_def split: if_splits)
  from r have "header_charge s (header_signal s) = s'"
    by (auto simp: header_charge_def header_signal_def nds_transport_record_send_def split: if_splits)
  with header_credits.charge_inv [OF inv c] k' show ?thesis by (simp add: header_signal_def)
next
  fix n
  assume n: "unat n \<le> k" "nds_transport_reclaim_send (Some s) n = Some s'" and "k' = k - unat n"
  with header_credits.refund_inv [OF inv n(1)] show ?thesis by (simp add: header_refund_def)
qed

lemma credit_steps_inv:
  assumes "credit_step\<^sup>*\<^sup>* a b" and "credit_inv D (snd a) (fst a)"
  shows "credit_inv D (snd b) (fst b)"
  using assms by (induction rule: rtranclp_induct) (auto intro: credit_step_inv)

lemma put_states [simp]:
  "g_qp_state (put_u32 a v m) = g_qp_state m" "g_qp_state (put_u64 a w m) = g_qp_state m"
  "g_qp_state (put_qp_state a s m) = (g_qp_state m)(a := s)" "g_qp_state (nic_step nic m) = g_qp_state m"
  "g_qp (put_u32 a v m) = g_qp m" "g_qp (put_u64 a w m) = g_qp m"
  "g_qp (put_qp_state a s m) = g_qp m" "g_qp (nic_step nic m) = g_qp m"
  by (simp_all add: put_u32_def put_u64_def put_qp_state_def nic_step_def split: prod.splits)

section \<open>A sample device\<close>

text \<open>
  One queue pair in device memory, with a signal interval of 32 and eight credits, and one
  storage slot whose command and completion buffers are at 0x8000 and 0x9000.
\<close>

definition sample_wq :: "u64 \<Rightarrow> NdsWorkQueueDescriptor" where
  "sample_wq base = \<lparr>q_number = 7, q_depth = 64, q_entry_size = 64, q_doorbell_mode = 2,
     q_buffer_address = base, q_head_address = base + 0x2000, q_tail_address = base + 0x2008,
     q_doorbell_address = base + 0x2010, q_wr_id_address = base + 0x3000\<rparr>"

definition sample_cq :: "u64 \<Rightarrow> NdsCqDescriptor" where
  "sample_cq base = \<lparr>cq_number = 8, cq_depth = 64, cq_entry_size = 32, cq_doorbell_mode = 1,
     cq_buffer_address = base, cq_consumer_address = base + 0x2000, cq_doorbell_address = base + 0x2008\<rparr>"

definition sample_qp :: NdsQpDescriptor where
  "sample_qp = \<lparr>qd_flags = 0, qd_qp_mode = 0, qd_service_level = 3, qd_reserved = 0, qd_provider_qp_address = 0x7000,
     qd_provider_send_cq_address = 0, qd_provider_receive_cq_address = 0,
     qd_send_queue = sample_wq 0x100000, qd_receive_queue = sample_wq 0x200000,
     qd_send_cq = sample_cq 0x300000, qd_receive_cq = sample_cq 0x400000,
     qd_host_runtime_address = 0, qd_host_qp_address = 0\<rparr>"

definition sample_sge :: "u64 \<Rightarrow> u32 \<Rightarrow> NdsSge" where
  "sample_sge address len = \<lparr>sg_address = address, sg_length = len, sg_local_key = 5\<rparr>"

definition sample_send_wr :: NdsSendWr where
  "sample_send_wr = \<lparr>sw_wr_id = 99, sw_opcode = NDS_WR_SEND, sw_flags = 0, sw_local = sample_sge 0x8000 64,
     sw_remote_address = 0, sw_remote_key = 0\<rparr>"

definition sample_transport :: NdsTransportDescriptor where
  "sample_transport = \<lparr>td_qp_descriptors_address = 0x5000, td_qp_states_address = 0x6000, td_qp_count = 1, td_reserved = 0\<rparr>"

definition sample_dmem :: dmem where
  "sample_dmem = \<lparr>g_u32 = (\<lambda>_. 0), g_u64 = (\<lambda>_. 0), g_byte = (\<lambda>_. 0),
     g_sqe = (\<lambda>_. \<lparr>sq_byte_4 = 0, sq_message_length = 0, sq_immediate_data = 0, sq_sge_count = 0,
        sq_start_sge_index = 0, sq_remote_key = 0, sq_remote_address = 0\<rparr>),
     g_seg = (\<lambda>_. \<lparr>seg_length = 0, seg_local_key = 0, seg_address = 0\<rparr>),
     g_cqe = (\<lambda>_. \<lparr>cqe_byte_4 = 0, cqe_immediate_data = 0, cqe_byte_12 = 0, cqe_byte_16 = 0, cqe_byte_count = 0\<rparr>),
     g_wr = (\<lambda>_. sample_send_wr), g_qp = (\<lambda>_. sample_qp),
     g_qp_state = (\<lambda>_. \<lparr>st_signal_interval = 32, st_unsignaled_count = 0, st_send_credits = 8, st_receive_credits = 8\<rparr>),
     g_slot = (\<lambda>_. \<lparr>sl_command_buffer = sample_sge 0x8000 64, sl_completion_buffer = sample_sge 0x9000 32,
        sl_qp_index = 0, sl_reserved = 0\<rparr>),
     g_storage_state = (\<lambda>_. \<lparr>ss_command_id = 77, ss_expected_bytes = 0, ss_in_flight = 0, ss_status = 0\<rparr>),
     g_tick = 0\<rparr>"

definition idle_nic :: adapter where
  "idle_nic k m = (g_cqe m, g_byte m)"

lemmas sample_device_defs = sample_wq_def sample_cq_def sample_qp_def sample_sge_def sample_send_wr_def
  sample_transport_def sample_dmem_def idle_nic_def

section \<open>Properties\<close>

text \<open>
  C11: send credits are conserved. Starting from \<open>D\<close> credits, after any interleaving of posted
  requests and reclaimed completions the free credits, the unsignaled requests since the last
  signaled one and the interval times the signaled requests in flight add up to \<open>D\<close>: the
  32-bit counter neither wraps nor exceeds the depth, and when the interval does not exceed
  the depth, an exhausted queue has a completion to wait for.
\<close>

theorem send_credits_conserved:
  assumes "credit_step\<^sup>*\<^sup>* (s0, 0) (s, k)" and "st_unsignaled_count s0 = 0" and "st_signal_interval s0 \<noteq> 0"
  shows "unat (st_send_credits s) + unat (st_unsignaled_count s) + k * unat (st_signal_interval s) = unat (st_send_credits s0)
    \<and> unat (st_unsignaled_count s) < unat (st_signal_interval s)
    \<and> (st_send_credits s = 0 \<and> unat (st_signal_interval s) \<le> unat (st_send_credits s0) \<longrightarrow> 0 < k)"
proof -
  have "credit_inv (unat (st_send_credits s0)) 0 s0"
    using assms(2,3) unat_less_32 [of "st_send_credits s0"] by (simp add: credit_inv_def unat_gt_0)
  with credit_steps_inv [OF assms(1)] have inv: "credit_inv (unat (st_send_credits s0)) k s" by simp
  with credit_inv_zero [OF inv] show ?thesis by (simp add: credit_inv_def)
qed

definition sample_qp_state :: "u32 \<Rightarrow> u32 \<Rightarrow> NdsTransportQpState" where
  "sample_qp_state unsignaled credits = \<lparr>st_signal_interval = 2, st_unsignaled_count = unsignaled,
     st_send_credits = credits, st_receive_credits = 4\<rparr>"

lemma sample_credit_run: "credit_step\<^sup>*\<^sup>* (sample_qp_state 0 2, 0) (sample_qp_state 0 0, 1)"
proof (rule converse_rtranclp_into_rtranclp)
  show "credit_step (sample_qp_state 0 2, 0) (sample_qp_state 1 1, 0)"
    using credit_send [of "sample_qp_state 0 2" "sample_qp_state 1 1" 0]
    by (simp add: sample_qp_state_def nds_transport_record_send_def nds_transport_should_signal_def word_le_nat_alt)
  show "credit_step\<^sup>*\<^sup>* (sample_qp_state 1 1, 0) (sample_qp_state 0 0, 1)"
    using credit_send [of "sample_qp_state 1 1" "sample_qp_state 0 0" 0]
    by (intro r_into_rtranclp)
      (simp add: sample_qp_state_def nds_transport_record_send_def nds_transport_should_signal_def word_le_nat_alt)
qed

theorem send_credits_conserved_witness:
  "credit_step\<^sup>*\<^sup>* (sample_qp_state 0 2, 0) (sample_qp_state 0 0, 1) \<and>
   unat (st_send_credits (sample_qp_state 0 0)) + unat (st_unsignaled_count (sample_qp_state 0 0))
     + 1 * unat (st_signal_interval (sample_qp_state 0 0)) = unat (st_send_credits (sample_qp_state 0 2))"
  using send_credits_conserved [OF sample_credit_run] sample_credit_run by (simp add: sample_qp_state_def)

text \<open>
  C31: completions are consumed exactly once. In a completion ring of \<open>2 ^ n\<close> entries an entry
  that is ready for the consumer index is not ready for the index one lap later, until the
  adapter writes it again with the other owner bit.
\<close>

theorem cqe_consumed_once:
  assumes "n < 32" and "nds_hns_hw_cqe_is_ready cqe consumer (2 ^ n)"
  shows "\<not> nds_hns_hw_cqe_is_ready cqe (consumer + 2 ^ n) (2 ^ n) \<and>
    nds_hns_hw_cqe_is_ready (cqe\<lparr>cqe_byte_4 := cqe_byte_4 cqe XOR 2 ^ 7\<rparr>) (consumer + 2 ^ n) (2 ^ n)"
  using assms cqe_ready_next_lap [OF assms(1), of cqe consumer]
  by (auto simp: cqe_ready_iff bit_add_pow2 bit_xor_iff bit_exp_iff)

theorem cqe_consumed_once_witness:
  "\<exists>cqe. nds_hns_hw_cqe_is_ready cqe 5 (2 ^ 3) \<and> \<not> nds_hns_hw_cqe_is_ready cqe (5 + 2 ^ 3) (2 ^ 3) \<and>
    nds_hns_hw_cqe_is_ready (cqe\<lparr>cqe_byte_4 := cqe_byte_4 cqe XOR 2 ^ 7\<rparr>) (5 + 2 ^ 3) (2 ^ 3)"
proof -
  let ?cqe = "\<lparr>cqe_byte_4 = 0x80, cqe_immediate_data = 0, cqe_byte_12 = 0, cqe_byte_16 = 0, cqe_byte_count = 0\<rparr>"
  have r: "nds_hns_hw_cqe_is_ready ?cqe 5 (2 ^ 3)"
    by (simp add: nds_hns_hw_cqe_is_ready_def cqe_owner_def drop_bit_eq_div)
  show ?thesis using cqe_consumed_once [OF _ r] r by (intro exI [of _ ?cqe]) simp
qed

text \<open>
  A send completion is attributed to its own request. Unsignaled requests produce no
  completion, so the tail of the send ring jumps; when the completion carries the low bits of
  the index \<open>p\<close> of a request at most one ring behind the tail, the computed tail is exactly \<open>p\<close>,
  also across the wrap-around of the 32-bit index.
\<close>

theorem send_tail_jumps_to_request:
  assumes "n \<le> 16" and "unat (p - tail) < 2 ^ n"
    and "drop_bit 16 (cqe_byte_4 cqe) = p AND 0xffff"
  shows "nds_hns_hw_send_tail_for_cqe tail (2 ^ n) cqe = p"
proof (rule send_tail_for_cqe_eq)
  show "drop_bit 16 (cqe_byte_4 cqe) AND mask n = p AND mask n"
    unfolding assms(3) mask16 using assms(1) by (intro bit_word_eqI) (auto simp: bit_simps)
qed (use assms in simp_all)

theorem send_tail_jumps_to_request_witness:
  "\<exists>cqe. drop_bit 16 (cqe_byte_4 cqe) = (2 :: u32) AND 0xffff \<and>
     nds_hns_hw_send_tail_for_cqe 0xfffffffe (2 ^ 4) cqe = 2"
proof -
  let ?cqe = "\<lparr>cqe_byte_4 = 0x20080, cqe_immediate_data = 0, cqe_byte_12 = 0, cqe_byte_16 = 0, cqe_byte_count = 0\<rparr>"
  have "drop_bit 16 (cqe_byte_4 ?cqe) = (2 :: u32) AND 0xffff" by (simp add: drop_bit_eq_div)
  with send_tail_jumps_to_request [of 4 2 "0xfffffffe" ?cqe] show ?thesis
    by (intro exI [of _ ?cqe]) simp
qed

text \<open>
  Slot identifiers. Queue and slot indices below 65536 survive packing, distinct pairs give
  distinct identifiers, and every identifier is the packing of its parts.
\<close>

theorem storage_slot_id_bijective:
  assumes "q < 0x10000" and "i < 0x10000"
  shows "nds_storage_slot_id_queue (nds_storage_slot_id q i) = q
    \<and> nds_storage_slot_id_index (nds_storage_slot_id q i) = i
    \<and> nds_storage_slot_id (nds_storage_slot_id_queue s) (nds_storage_slot_id_index s) = s"
  using slot_id_roundtrip [OF assms] slot_id_of_parts by blast

theorem storage_slot_id_bijective_witness:
  "nds_storage_slot_id_queue (nds_storage_slot_id 3 0xffff) = 3
    \<and> nds_storage_slot_id_index (nds_storage_slot_id 3 0xffff) = 0xffff
    \<and> nds_storage_slot_id (nds_storage_slot_id_queue 0x30007) (nds_storage_slot_id_index 0x30007) = 0x30007"
  by (rule storage_slot_id_bijective) simp_all

end
