(* ===== verification/Aicpu_Verbs.thy ===== *)
theory Aicpu_Verbs
  imports Device_Queues
begin

text \<open>
  The AICPU device verbs of \<^verbatim>\<open>src/src/client/backends/aicpu/device/verbs.cc\<close>. The provider's
  \<open>ibv_exp_post_send\<close>, resolved at run time, and the activity of the network adapter are
  parameters; \<open>None\<close> is an unresolved symbol. The provider returns the cells of its own producer
  index and doorbells; the adapter acts whenever a completion queue is polled. Each function returns its own result, the
  value behind \<open>return_value\<close> and the memory; memory barriers have no effect on a sequential
  model.
\<close>

section \<open>Provider ABI\<close>

record NdsHnsSge =
  hs_addr :: u64
  hs_length :: u32
  hs_lkey :: u32

record NdsHnsSendWr =
  hw_wr_id :: u64
  hw_sg_list :: "NdsHnsSge list"
  hw_num_sge :: i32
  hw_opcode :: i32
  hw_send_flags :: u32
  hw_remote_addr :: u64
  hw_rkey :: u32

definition NDS_HNS_WR_RDMA_WRITE :: i32 where "NDS_HNS_WR_RDMA_WRITE = 0"
definition NDS_HNS_WR_SEND :: i32 where "NDS_HNS_WR_SEND = 2"
definition NDS_HNS_WR_RDMA_READ :: i32 where "NDS_HNS_WR_RDMA_READ = 4"
definition NDS_HNS_SEND_SIGNALED :: u32 where "NDS_HNS_SEND_SIGNALED = 2"

definition kNdsAicpuSuccess :: u32 where "kNdsAicpuSuccess = 0"
definition kNdsAicpuInvalidArgument :: u32 where "kNdsAicpuInvalidArgument = 1"

record aicpu_env =
  ae_post_send :: "(u64 \<Rightarrow> NdsHnsSendWr \<Rightarrow> dmem \<Rightarrow> i32 \<times> (u64 \<Rightarrow> u32)) option"
  ae_nic :: adapter

definition NdsAicpuSetReturnValue :: "i32 option \<Rightarrow> u32 \<Rightarrow> i32 option" where
  "NdsAicpuSetReturnValue return_value status =
     map_option (\<lambda>_. if status = NDS_OPERATION_SUCCESS then 0 else - status) return_value"

definition provider_opcode :: "u32 \<Rightarrow> i32" where
  "provider_opcode opcode =
     (if opcode = NDS_WR_SEND then NDS_HNS_WR_SEND
      else if opcode = NDS_WR_RDMA_READ then NDS_HNS_WR_RDMA_READ
      else if opcode = NDS_WR_RDMA_WRITE then NDS_HNS_WR_RDMA_WRITE
      else -1)"

section \<open>Posting\<close>

definition nds_aicpu_post_send :: "aicpu_env \<Rightarrow> NdsQpDescriptor option \<Rightarrow> NdsSendWr option \<Rightarrow> i32 option \<Rightarrow> dmem \<Rightarrow>
    u32 \<times> i32 option \<times> dmem" where
  "nds_aicpu_post_send env qp wr return_value m =
     (if return_value = None then (kNdsAicpuInvalidArgument, return_value, m)
      else case (qp, wr) of
        (Some qp, Some wr) \<Rightarrow>
          (let opcode = provider_opcode (sw_opcode wr);
               fail = (\<lambda>status. (kNdsAicpuSuccess, NdsAicpuSetReturnValue return_value status, m))
           in if sint opcode < 0 then fail NDS_OPERATION_UNSUPPORTED
              else if qd_qp_mode qp \<noteq> NDS_QP_MODE_NORMAL then fail NDS_OPERATION_UNSUPPORTED
              else case ae_post_send env of
                None \<Rightarrow> fail NDS_OPERATION_SYMBOL_UNAVAILABLE
              | Some post \<Rightarrow>
                  (let q = qd_send_queue qp
                   in if q_wr_id_address q = 0 \<or> q_head_address q = 0 \<or> q_depth q = 0
                      then fail NDS_OPERATION_INVALID_ARGUMENT
                      else
                        (let producer = g_u32 m (q_head_address q);
                             m = put_u64 (u64_at (q_wr_id_address q) (producer mod q_depth q)) (sw_wr_id wr) m;
                             sge = \<lparr>hs_addr = sg_address (sw_local wr), hs_length = sg_length (sw_local wr),
                                    hs_lkey = sg_local_key (sw_local wr)\<rparr>;
                             provider_wr = \<lparr>hw_wr_id = sw_wr_id wr, hw_sg_list = [sge], hw_num_sge = 1,
                                    hw_opcode = opcode,
                                    hw_send_flags = (if sw_flags wr AND NDS_SEND_SIGNALED \<noteq> 0
                                                     then NDS_HNS_SEND_SIGNALED else 0),
                                    hw_remote_addr = sw_remote_address wr, hw_rkey = sw_remote_key wr\<rparr>;
                             (provider_result, cells) = post (qd_provider_qp_address qp) provider_wr m;
                             m = m\<lparr>g_u32 := cells\<rparr>
                         in (kNdsAicpuSuccess,
                             NdsAicpuSetReturnValue return_value
                               (if provider_result = 0 then NDS_OPERATION_SUCCESS else NDS_OPERATION_PROVIDER_FAILED),
                             m))))
      | _ \<Rightarrow> (kNdsAicpuSuccess, NdsAicpuSetReturnValue return_value NDS_OPERATION_INVALID_ARGUMENT, m))"

definition nds_aicpu_post_recv :: "NdsQpDescriptor option \<Rightarrow> NdsRecvWr option \<Rightarrow> i32 option \<Rightarrow> dmem \<Rightarrow>
    u32 \<times> i32 option \<times> dmem" where
  "nds_aicpu_post_recv qp wr return_value m =
     (if return_value = None then (kNdsAicpuInvalidArgument, return_value, m)
      else case (qp, wr) of
        (Some qp, Some wr) \<Rightarrow>
          (let queue = qd_receive_queue qp;
               fail = (\<lambda>status. (kNdsAicpuSuccess, NdsAicpuSetReturnValue return_value status, m))
           in if q_buffer_address queue = 0 \<or> q_head_address queue = 0 \<or> q_tail_address queue = 0
                \<or> q_doorbell_address queue = 0 \<or> q_wr_id_address queue = 0 \<or> q_depth queue = 0
                \<or> q_entry_size queue < 16
              then fail NDS_OPERATION_INVALID_ARGUMENT
              else
                (let producer = g_u32 m (q_head_address queue); consumer = g_u32 m (q_tail_address queue)
                 in if producer - consumer \<ge> q_depth queue then fail NDS_OPERATION_QUEUE_FULL
                    else
                      (let segment = q_buffer_address queue + ucast (q_entry_size queue) * ucast (producer mod q_depth queue);
                           m = m\<lparr>g_seg := (g_seg m)(segment := nds_hns_hw_encode_wqe_data_seg
                                  (sg_address (rw_local wr)) (sg_length (rw_local wr)) (sg_local_key (rw_local wr)))\<rparr>;
                           m = put_u64 (u64_at (q_wr_id_address queue) (producer mod q_depth queue)) (rw_wr_id wr) m;
                           m = put_u32 (q_doorbell_address queue) ((producer + 1) AND 0xffff) m;
                           m = put_u32 (q_head_address queue) (producer + 1) m
                       in (kNdsAicpuSuccess, NdsAicpuSetReturnValue return_value NDS_OPERATION_SUCCESS, m))))
      | _ \<Rightarrow> (kNdsAicpuSuccess, NdsAicpuSetReturnValue return_value NDS_OPERATION_INVALID_ARGUMENT, m))"

section \<open>Polling\<close>

definition cqe_address :: "NdsCqDescriptor \<Rightarrow> u32 \<Rightarrow> u64" where
  "cqe_address cq consumer = cq_buffer_address cq + ucast (cq_entry_size cq) * ucast (consumer mod cq_depth cq)"

text \<open>The polling loop with \<open>n\<close> completions still allowed; the results are collected in \<open>wc\<close>.\<close>

fun aicpu_poll_loop :: "dmem \<Rightarrow> NdsCqDescriptor \<Rightarrow> NdsWorkQueueDescriptor \<Rightarrow> bool \<Rightarrow> nat \<Rightarrow> u32 \<Rightarrow> u32 \<Rightarrow> NdsWc list \<Rightarrow>
    u32 \<times> u32 \<times> NdsWc list" where
  "aicpu_poll_loop m cq wq is_send_cq 0 consumer tail wc = (consumer, tail, wc)"
| "aicpu_poll_loop m cq wq is_send_cq (Suc n) consumer tail wc =
     (let cqe = g_cqe m (cqe_address cq consumer)
      in if \<not> nds_hns_hw_cqe_is_ready cqe consumer (cq_depth cq) then (consumer, tail, wc)
         else
           (let tail = (if is_send_cq then nds_hns_hw_send_tail_for_cqe tail (q_depth wq) cqe else tail);
                completion = nds_hns_hw_decode_cqe cqe (g_u64 m (u64_at (q_wr_id_address wq) (tail mod q_depth wq)))
            in aicpu_poll_loop m cq wq is_send_cq n (consumer + 1) (tail + 1) (wc @ [completion])))"

definition nds_aicpu_poll_cq :: "aicpu_env \<Rightarrow> NdsQpDescriptor option \<Rightarrow> u32 \<Rightarrow> u32 \<Rightarrow> bool \<Rightarrow> i32 option \<Rightarrow> dmem \<Rightarrow>
    u32 \<times> i32 option \<times> NdsWc list \<times> dmem" where
  "nds_aicpu_poll_cq env qp is_send_cq_value max_completions wc_given return_value m =
     (if return_value = None then (kNdsAicpuInvalidArgument, return_value, [], m)
      else case qp of
        None \<Rightarrow> (kNdsAicpuSuccess, NdsAicpuSetReturnValue return_value NDS_OPERATION_INVALID_ARGUMENT, [], m)
      | Some qp \<Rightarrow>
          if is_send_cq_value > 1 \<or> \<not> wc_given \<or> max_completions = 0
          then (kNdsAicpuSuccess, NdsAicpuSetReturnValue return_value NDS_OPERATION_INVALID_ARGUMENT, [], m)
          else
            (let is_send_cq = is_send_cq_value \<noteq> 0;
                 limit = (if max_completions < NDS_MAX_COMPLETIONS then max_completions else NDS_MAX_COMPLETIONS);
                 cq = (if is_send_cq then qd_send_cq qp else qd_receive_cq qp);
                 wq = (if is_send_cq then qd_send_queue qp else qd_receive_queue qp)
             in if cq_buffer_address cq = 0 \<or> cq_consumer_address cq = 0 \<or> cq_depth cq = 0
                  \<or> cq_entry_size cq < 32 \<or> q_tail_address wq = 0 \<or> q_wr_id_address wq = 0
                then (kNdsAicpuSuccess, NdsAicpuSetReturnValue return_value NDS_OPERATION_INVALID_ARGUMENT, [], m)
                else
                  (let m = nic_step (ae_nic env) m;
                       (consumer, tail, wc) = aicpu_poll_loop m cq wq is_send_cq (unat limit)
                          (g_u32 m (cq_consumer_address cq)) (g_u32 m (q_tail_address wq)) [];
                       m = (if wc = [] then m
                            else
                              (let m = put_u32 (cq_consumer_address cq) consumer m;
                                   m = put_u32 (q_tail_address wq) tail m
                               in if cq_doorbell_address cq \<noteq> 0
                                  then put_u32 (cq_doorbell_address cq) (consumer AND 0x00ffffff) m else m))
                   in (kNdsAicpuSuccess, Some (of_nat (length wc)), wc, m))))"

section \<open>Lemmas\<close>

lemma set_return_value:
  "NdsAicpuSetReturnValue None status = None"
  "NdsAicpuSetReturnValue (Some v) status = Some (if status = NDS_OPERATION_SUCCESS then 0 else - status)"
  by (simp_all add: NdsAicpuSetReturnValue_def)

lemma set_return_value_zero [simp]: "NdsAicpuSetReturnValue (Some v) status = Some 0 \<longleftrightarrow> status = NDS_OPERATION_SUCCESS"
  by (simp add: set_return_value NDS_OPERATION_SUCCESS_def)

text \<open>Properties of the elements of a list at consecutive ring indices.\<close>

definition along :: "(u32 \<Rightarrow> 'a \<Rightarrow> bool) \<Rightarrow> u32 \<Rightarrow> 'a list \<Rightarrow> bool" where
  "along P c xs \<longleftrightarrow> (\<forall>i < length xs. P (c + of_nat i) (xs ! i))"

lemma along_simps [simp]:
  "along P c []" "along P c (x # xs) \<longleftrightarrow> P c x \<and> along P (c + 1) xs"
proof -
  show "along P c (x # xs) \<longleftrightarrow> P c x \<and> along P (c + 1) xs"
    unfolding along_def length_Cons All_less_Suc2 by (simp add: add.assoc)
qed (simp add: along_def)

text \<open>The loop takes the longest run of ready entries within its limit, in ring order.\<close>

definition polled :: "dmem \<Rightarrow> NdsCqDescriptor \<Rightarrow> u32 \<Rightarrow> NdsWc \<Rightarrow> bool" where
  "polled m cq c w \<longleftrightarrow>
     (let cqe = g_cqe m (cqe_address cq c)
      in nds_hns_hw_cqe_is_ready cqe c (cq_depth cq) \<and> w = nds_hns_hw_decode_cqe cqe (wc_wr_id w))"

lemma decode_wr_id [simp]: "wc_wr_id (nds_hns_hw_decode_cqe cqe i) = i"
  by (simp add: nds_hns_hw_decode_cqe_def)

lemma aicpu_poll_loop_spec:
  assumes "aicpu_poll_loop m cq wq b n c t acc = (c', t', wc)"
  shows "\<exists>new. wc = acc @ new \<and> length new \<le> n \<and> c' = c + of_nat (length new) \<and> along (polled m cq) c new
    \<and> (length new < n \<longrightarrow> \<not> nds_hns_hw_cqe_is_ready (g_cqe m (cqe_address cq c')) c' (cq_depth cq))"
  using assms
proof (induction n arbitrary: c t acc)
  case 0
  then show ?case by (intro exI [of _ "[]"]) simp
next
  case (Suc n)
  let ?cqe = "g_cqe m (cqe_address cq c)"
  show ?case
  proof (cases "nds_hns_hw_cqe_is_ready ?cqe c (cq_depth cq)")
    case False
    with Suc.prems show ?thesis by (intro exI [of _ "[]"]) (simp add: Let_def)
  next
    case True
    let ?t = "if b then nds_hns_hw_send_tail_for_cqe t (q_depth wq) ?cqe else t"
    let ?w = "nds_hns_hw_decode_cqe ?cqe (g_u64 m (u64_at (q_wr_id_address wq) (?t mod q_depth wq)))"
    from Suc.prems True have "aicpu_poll_loop m cq wq b n (c + 1) (?t + 1) (acc @ [?w]) = (c', t', wc)"
      by (simp add: Let_def)
    from Suc.IH [OF this] obtain new where new: "wc = (acc @ [?w]) @ new" "length new \<le> n"
      "c' = c + 1 + of_nat (length new)" "along (polled m cq) (c + 1) new"
      "length new < n \<longrightarrow> \<not> nds_hns_hw_cqe_is_ready (g_cqe m (cqe_address cq c')) c' (cq_depth cq)"
      by blast
    moreover have "polled m cq c ?w" using True by (simp add: polled_def Let_def)
    ultimately show ?thesis by (intro exI [of _ "?w # new"]) (simp add: add.assoc)
  qed
qed

text \<open>The receive tail and the reported receive identifiers follow the order of posting.\<close>

lemma aicpu_poll_loop_receive:
  assumes "aicpu_poll_loop m cq wq False n c t acc = (c', t', acc @ new)"
  shows "t' = t + of_nat (length new)
    \<and> along (\<lambda>k w. wc_wr_id w = g_u64 m (u64_at (q_wr_id_address wq) (k mod q_depth wq))) t new"
  using assms
proof (induction n arbitrary: c t acc new)
  case (Suc n)
  let ?cqe = "g_cqe m (cqe_address cq c)"
  let ?w = "nds_hns_hw_decode_cqe ?cqe (g_u64 m (u64_at (q_wr_id_address wq) (t mod q_depth wq)))"
  show ?case
  proof (cases "nds_hns_hw_cqe_is_ready ?cqe c (cq_depth cq)")
    case False
    with Suc.prems show ?thesis by (simp add: Let_def)
  next
    case True
    with Suc.prems have run: "aicpu_poll_loop m cq wq False n (c + 1) (t + 1) (acc @ [?w]) = (c', t', acc @ new)"
      by (simp add: Let_def)
    from aicpu_poll_loop_spec [OF run] obtain rest where "new = ?w # rest" by auto
    with run Suc.IH [of "c + 1" "t + 1" "acc @ [?w]" rest] show ?thesis by (simp add: add.assoc)
  qed
qed simp

end
