(* ===== verification/Send_Runs.thy ===== *)
theory Send_Runs
  imports Device_Queues
begin

text \<open>
  What a send does on a queue pair, as a sequence of events. An event is a call of the verbs layer with its outcome: a
  poll of the send completion queue, or a post. A run replays the events on the memory: only a poll gives credits back,
  a signal interval for each completion it returned, and only an accepted post takes one. The backends' sends are shown
  to be such runs; the wait for a signaled request, which all of them have, is a locale.
\<close>

section \<open>Events\<close>

datatype send_event = Polled u32 | PollFailed | Posted NdsSendWr | Refused NdsSendWr

text \<open>The verbs layer of a backend, on a memory with the scheduling state of one queue pair. Idle steps only take time.\<close>

record 'm send_ops =
  so_state :: "'m \<Rightarrow> NdsTransportQpState"
  so_store :: "NdsTransportQpState \<Rightarrow> 'm \<Rightarrow> 'm"
  so_poll :: "'m \<Rightarrow> u32 option \<times> 'm"
  so_post :: "NdsSendWr \<Rightarrow> 'm \<Rightarrow> bool \<times> 'm"
  so_idle :: "'m \<Rightarrow> 'm \<Rightarrow> bool"

text \<open>Every \<open>interval\<close>-th request is signaled.\<close>

definition due :: "NdsTransportQpState \<Rightarrow> bool" where
  "due s \<longleftrightarrow> st_unsignaled_count s + 1 \<ge> st_signal_interval s"

definition scheduled :: "NdsTransportQpState \<Rightarrow> NdsSendWr \<Rightarrow> NdsSendWr" where
  "scheduled s wr = wr\<lparr>sw_flags := (if due s then NDS_SEND_SIGNALED else 0)\<rparr>"

definition charged :: "NdsTransportQpState \<Rightarrow> NdsTransportQpState" where
  "charged s = s\<lparr>st_send_credits := st_send_credits s - 1, st_unsignaled_count := (if due s then 0 else st_unsignaled_count s + 1)\<rparr>"

definition credited :: "u32 \<Rightarrow> NdsTransportQpState \<Rightarrow> NdsTransportQpState" where
  "credited n s = s\<lparr>st_send_credits := st_send_credits s + n * st_signal_interval s\<rparr>"

inductive send_run :: "'m send_ops \<Rightarrow> NdsSendWr \<Rightarrow> 'm \<Rightarrow> send_event list \<Rightarrow> 'm \<Rightarrow> bool" for ops request where
  run_end: "send_run ops request m [] m"
| run_idle: "so_idle ops m m1 \<Longrightarrow> send_run ops request m1 es m' \<Longrightarrow> send_run ops request m es m'"
| run_polled: "so_poll ops m = (Some n, m1) \<Longrightarrow> send_run ops request (so_store ops (credited n (so_state ops m1)) m1) es m' \<Longrightarrow>
    send_run ops request m (Polled n # es) m'"
| run_poll_failed: "so_poll ops m = (None, m1) \<Longrightarrow> send_run ops request m1 es m' \<Longrightarrow> send_run ops request m (PollFailed # es) m'"
| run_posted: "st_send_credits (so_state ops m) \<noteq> 0 \<Longrightarrow> wr = scheduled (so_state ops m) request \<Longrightarrow> so_post ops wr m = (True, m1) \<Longrightarrow>
    send_run ops request (so_store ops (charged (so_state ops m)) m1) es m' \<Longrightarrow> send_run ops request m (Posted wr # es) m'"
| run_refused: "st_send_credits (so_state ops m) \<noteq> 0 \<Longrightarrow> wr = scheduled (so_state ops m) request \<Longrightarrow> so_post ops wr m = (False, m1) \<Longrightarrow> send_run ops request m1 es m' \<Longrightarrow>
    send_run ops request m (Refused wr # es) m'"

declare send_run.intros [intro]

text \<open>Runs of a single event.\<close>

lemma run_one:
  "so_poll ops m = (None, m') \<Longrightarrow> send_run ops request m [PollFailed] m'"
  "so_poll ops m = (Some n, m2) \<Longrightarrow> m' = so_store ops (credited n (so_state ops m2)) m2 \<Longrightarrow> send_run ops request m [Polled n] m'"
  "st_send_credits (so_state ops m) \<noteq> 0 \<Longrightarrow> so_post ops (scheduled (so_state ops m) request) m = (False, m') \<Longrightarrow>
   send_run ops request m [Refused (scheduled (so_state ops m) request)] m'"
  "st_send_credits (so_state ops m) \<noteq> 0 \<Longrightarrow> so_post ops (scheduled (so_state ops m) request) m = (True, m2) \<Longrightarrow>
   m' = so_store ops (charged (so_state ops m)) m2 \<Longrightarrow> send_run ops request m [Posted (scheduled (so_state ops m) request)] m'"
  by auto

lemma send_run_append:
  "send_run ops request m es m1 \<Longrightarrow> send_run ops request m1 fs m2 \<Longrightarrow> send_run ops request m (es @ fs) m2"
  by (induction rule: send_run.induct) auto

text \<open>Polls only, and the shape of a single send: a poll at most, then at most one post, and polls again if it was
  accepted and signaled. Success is reported only after an accepted post.\<close>

fun is_poll :: "send_event \<Rightarrow> bool" where
  "is_poll (Polled n) = True"
| "is_poll PollFailed = True"
| "is_poll (Posted wr) = False"
| "is_poll (Refused wr) = False"

definition polling :: "send_event list \<Rightarrow> bool" where
  "polling es = list_all is_poll es"

lemma polling_simps [simp]: "polling []" "polling (e # es) \<longleftrightarrow> is_poll e \<and> polling es" "polling (es @ fs) \<longleftrightarrow> polling es \<and> polling fs"
  by (simp_all add: polling_def)

definition single_send :: "bool \<Rightarrow> send_event list \<Rightarrow> bool" where
  "single_send success es \<longleftrightarrow>
     (\<exists>pre post. polling pre \<and> length pre \<le> 1 \<and> polling post \<and>
        (es = pre \<and> \<not> success \<or> (\<exists>wr. es = pre @ [Refused wr] \<and> \<not> success) \<or> (\<exists>wr. es = pre @ Posted wr # post \<and> (sw_flags wr = NDS_SEND_SIGNALED \<or> post = []))))"

lemma single_send_none: "polling es \<Longrightarrow> length es \<le> 1 \<Longrightarrow> single_send False es"
  unfolding single_send_def by (metis polling_simps(1))

lemma single_send_refused: "polling pre \<Longrightarrow> length pre \<le> 1 \<Longrightarrow> single_send False (pre @ [Refused wr])"
  unfolding single_send_def by (metis polling_simps(1))

lemma single_send_posted: "polling pre \<Longrightarrow> length pre \<le> 1 \<Longrightarrow> polling post \<Longrightarrow> sw_flags wr = NDS_SEND_SIGNALED \<or> post = [] \<Longrightarrow> single_send success (pre @ Posted wr # post)"
  unfolding single_send_def by blast

lemma scheduled_signaled [simp]: "sw_flags (scheduled s wr) = NDS_SEND_SIGNALED \<longleftrightarrow> due s"
  by (simp add: scheduled_def NDS_SEND_SIGNALED_def)

text \<open>A send that polled and then posted: what the post decides.\<close>

lemma refused_send:
  assumes "send_run ops request m0 pre m" and "polling pre" and "length pre \<le> 1" and "st_send_credits (so_state ops m) \<noteq> 0"
    and "so_post ops (scheduled (so_state ops m) request) m = (False, m')" and "\<not> success"
  shows "\<exists>es. send_run ops request m0 es m' \<and> single_send success es"
  using send_run_append [OF assms(1) run_one(3) [OF assms(4,5)]] single_send_refused [OF assms(2,3)] assms(6) by auto

lemma posted_send:
  assumes "send_run ops request m0 pre m" and "polling pre" and "length pre \<le> 1" and "st_send_credits (so_state ops m) \<noteq> 0"
    and "so_post ops (scheduled (so_state ops m) request) m = (True, m2)"
    and "polling post" and "send_run ops request (so_store ops (charged (so_state ops m)) m2) post m'" and "due (so_state ops m) \<or> post = []"
  shows "\<exists>es. send_run ops request m0 es m' \<and> single_send success es"
proof -
  let ?wr = "scheduled (so_state ops m) request"
  have "send_run ops request m0 (pre @ Posted ?wr # post) m'"
    using send_run_append [OF assms(1) send_run_append [OF run_one(4) [OF assms(4,5) refl] assms(7)]] by simp
  moreover have "single_send success (pre @ Posted ?wr # post)"
    using single_send_posted [OF assms(2,3,6), of ?wr] assms(8) by simp
  ultimately show ?thesis by blast
qed

text \<open>
  The signaled requests in flight after the events, from \<open>k\<close> before them; \<open>None\<close> if a poll returned more completions than there
  were signaled requests.
\<close>

fun in_flight :: "nat \<Rightarrow> send_event list \<Rightarrow> nat option" where
  "in_flight k [] = Some k"
| "in_flight k (Polled n # es) = (if unat n \<le> k then in_flight (k - unat n) es else None)"
| "in_flight k (Posted wr # es) = in_flight (if sw_flags wr = NDS_SEND_SIGNALED then Suc k else k) es"
| "in_flight k (e # es) = in_flight k es"

section \<open>Credits\<close>

lemma charged_inv:
  assumes "credit_inv D k s" and "st_send_credits s \<noteq> 0"
  shows "credit_inv D (if due s then Suc k else k) (charged s)"
proof -
  have i: "st_signal_interval s \<noteq> 0" using assms(1) by (auto simp: credit_inv_def)
  have "header_signal s = due s" using header_credits.signal_iff [OF i] by (simp add: due_def)
  moreover have "header_charge s (due s) = charged s"
    using header_credits.charge_eq [OF assms(2)] by (simp add: charged_def)
  ultimately show ?thesis using header_credits.charge_inv [OF assms] by simp
qed

lemma credited_inv:
  assumes "credit_inv D k s" and "unat n \<le> k"
  shows "credit_inv D (k - unat n) (credited n s)"
proof -
  have i: "st_signal_interval s \<noteq> 0" using assms(1) by (auto simp: credit_inv_def)
  show ?thesis using header_credits.refund_inv [OF assms] header_credits.refund_eq [OF i, of n] by (simp add: credited_def)
qed

locale send_queue =
  fixes ops :: "'m send_ops"
  assumes state_store: "so_state ops (so_store ops s m) = s"
    and state_poll: "so_poll ops m = (r, m1) \<Longrightarrow> so_state ops m1 = so_state ops m"
    and state_post: "so_post ops wr m = (b, m1) \<Longrightarrow> so_state ops m1 = so_state ops m"
    and state_idle: "so_idle ops m m1 \<Longrightarrow> so_state ops m1 = so_state ops m"
begin

text \<open>A run keeps the credit invariant, whatever it does, if the adapter completes only what was signaled.\<close>

lemma run_inv:
  "send_run ops request m es m' \<Longrightarrow> credit_inv D k (so_state ops m) \<Longrightarrow> in_flight k es = Some k' \<Longrightarrow>
   credit_inv D k' (so_state ops m')"
proof (induction arbitrary: k rule: send_run.induct)
  case (run_polled m n m1 es m')
  with credited_inv [of D k "so_state ops m" n] state_poll [OF run_polled.hyps(1)] show ?case
    by (auto simp: state_store split: if_splits)
next
  case (run_posted m wr m1 es m')
  with charged_inv [of D k "so_state ops m"] show ?case by (simp add: state_store)
qed (auto simp: state_poll state_post state_idle)

lemma run_interval: "send_run ops request m es m' \<Longrightarrow> st_signal_interval (so_state ops m') = st_signal_interval (so_state ops m)"
proof (induction rule: send_run.induct)
  case (run_polled m n m1 es m')
  with state_poll [OF run_polled.hyps(1)] show ?case by (simp add: state_store credited_def)
next
  case (run_posted m wr m1 es m')
  then show ?case by (simp add: state_store charged_def)
qed (auto simp: state_poll state_post state_idle)

end

section \<open>Waiting\<close>

text \<open>
  Every backend waits for a signaled request by reclaiming completions until the credits reach
  a target. \<open>waits\<close> is that loop as a relation over a reclaim operation; a backend's own loop
  refines it.
\<close>

inductive waits :: "('m \<Rightarrow> u32 \<times> 'm) \<Rightarrow> ('m \<Rightarrow> NdsTransportQpState) \<Rightarrow> u32 \<Rightarrow> 'm \<Rightarrow> u32 \<Rightarrow> 'm \<Rightarrow> bool"
  for reclaim st target where
  waits_done: "target \<le> st_send_credits (st m) \<Longrightarrow> waits reclaim st target m NDS_OPERATION_SUCCESS m"
| waits_failed: "st_send_credits (st m) < target \<Longrightarrow> reclaim m = (status, m') \<Longrightarrow> status \<noteq> NDS_OPERATION_SUCCESS \<Longrightarrow>
    waits reclaim st target m status m'"
| waits_again: "st_send_credits (st m) < target \<Longrightarrow> reclaim m = (NDS_OPERATION_SUCCESS, m1) \<Longrightarrow>
    waits reclaim st target m1 status m' \<Longrightarrow> waits reclaim st target m status m'"

locale credit_wait = send_queue +
  fixes reclaim :: "'a \<Rightarrow> u32 \<times> 'a"
    and wait :: "u32 \<Rightarrow> 'a \<Rightarrow> (u32 \<times> 'a) option"
  assumes reclaim_polls: "reclaim m = (status, m') \<Longrightarrow> \<exists>es. polling es \<and> length es \<le> 1 \<and> send_run ops request m es m'"
    and wait_refines: "wait target m = Some (status, m') \<Longrightarrow> waits reclaim (so_state ops) target m status m'"
begin

text \<open>Waiting only polls, and reports success only at the target.\<close>

lemma waits_polls:
  "waits reclaim (so_state ops) target m status m' \<Longrightarrow>
   (\<exists>es. polling es \<and> send_run ops request m es m') \<and> (status = NDS_OPERATION_SUCCESS \<longrightarrow> target \<le> st_send_credits (so_state ops m'))"
proof (induction rule: waits.induct)
  case (waits_done m)
  have "polling [] \<and> send_run ops request m [] m" by auto
  with waits_done show ?case by blast
next
  case (waits_failed m status m')
  with reclaim_polls [of m status m' request] show ?case by blast
next
  case (waits_again m m1 status m')
  from waits_again(4) obtain fs where fs: "polling fs" "send_run ops request m1 fs m'" by blast
  from reclaim_polls [OF waits_again(2)] obtain es where "polling es" "send_run ops request m es m1" by blast
  with fs send_run_append have "polling (es @ fs)" "send_run ops request m (es @ fs) m'" by auto
  with waits_again(4) show ?case by blast
qed

lemma wait_polls:
  assumes "wait target m = Some (status, m')"
  shows "\<exists>es. polling es \<and> send_run ops request m es m'"
    and "status = NDS_OPERATION_SUCCESS \<Longrightarrow> target \<le> st_send_credits (so_state ops m')"
  using waits_polls [OF wait_refines [OF assms]] by blast+

end

end
