(* ===== verification/Aicpu_Transport.thy ===== *)
theory Aicpu_Transport
  imports Aicpu_Verbs Send_Runs
begin

text \<open>
  The AICPU transport of \<^verbatim>\<open>src/src/client/backends/aicpu/device/transport.cc\<close>: signaling and credit
  management over the device verbs. The wait for a signaled completion polls until the credits
  are back, so it may not return; it is a partial function.
\<close>

section \<open>Operations\<close>

definition aicpu_reclaim :: "aicpu_env \<Rightarrow> NdsQpDescriptor option \<Rightarrow> u64 option \<Rightarrow> bool \<Rightarrow> dmem \<Rightarrow> u32 \<times> dmem" where
  "aicpu_reclaim env qp state send_cq m =
     (case (qp, state) of
        (Some qp, Some state) \<Rightarrow>
          (case nds_aicpu_poll_cq env (Some qp) (if send_cq then 1 else 0) NDS_MAX_COMPLETIONS True
                  (Some (- NDS_OPERATION_INVALID_ARGUMENT)) m of
             (provider_result, poll_result, completions, m) \<Rightarrow>
               (let poll_result = the poll_result
                in if provider_result \<noteq> kNdsAicpuSuccess \<or> sint poll_result < 0
                   then (if sint poll_result < 0 then - poll_result else NDS_OPERATION_PROVIDER_FAILED, m)
                   else
                     (let completion_failed = (\<exists>w \<in> set completions. wc_status w \<noteq> NDS_WC_SUCCESS);
                          s = (if send_cq then nds_transport_reclaim_send (Some (g_qp_state m state)) poll_result
                               else nds_transport_reclaim_receive (Some (g_qp_state m state)) poll_result)
                      in (if completion_failed then NDS_OPERATION_PROVIDER_FAILED else NDS_OPERATION_SUCCESS,
                          put_qp_state state (the s) m))))
      | _ \<Rightarrow> (NDS_OPERATION_INVALID_ARGUMENT, m))"

definition aicpu_reclaim_if_needed :: "aicpu_env \<Rightarrow> NdsQpDescriptor option \<Rightarrow> u64 \<Rightarrow> bool \<Rightarrow> dmem \<Rightarrow> u32 \<times> dmem" where
  "aicpu_reclaim_if_needed env qp state send_cq m =
     (let credits = (if send_cq then st_send_credits (g_qp_state m state) else st_receive_credits (g_qp_state m state))
      in if credits = 0 then aicpu_reclaim env qp (Some state) send_cq m else (NDS_OPERATION_SUCCESS, m))"

partial_function (option) aicpu_wait_for_send_completion ::
    "aicpu_env \<Rightarrow> NdsQpDescriptor option \<Rightarrow> u64 \<Rightarrow> u32 \<Rightarrow> dmem \<Rightarrow> (u32 \<times> dmem) option" where
  "aicpu_wait_for_send_completion env qp state target_credits m =
     (if st_send_credits (g_qp_state m state) < target_credits
      then (case aicpu_reclaim env qp (Some state) True m of
              (status, m) \<Rightarrow>
                if status \<noteq> NDS_OPERATION_SUCCESS then Some (status, m)
                else aicpu_wait_for_send_completion env qp state target_credits m)
      else Some (NDS_OPERATION_SUCCESS, m))"

text \<open>The tail of the static function \<open>post_send\<close>, from the post of the scheduled request on.\<close>

definition aicpu_post_scheduled :: "aicpu_env \<Rightarrow> NdsQpDescriptor \<Rightarrow> u64 \<Rightarrow> NdsSendWr \<Rightarrow> i32 option \<Rightarrow> dmem \<Rightarrow>
    (u32 \<times> i32 option \<times> dmem) option" where
  "aicpu_post_scheduled env qp state wr return_value m =
     (let nxt = g_qp_state m state;
          signaled = nds_transport_should_signal (Some nxt);
          scheduled = wr\<lparr>sw_flags := (if signaled \<noteq> 0 then NDS_SEND_SIGNALED else 0)\<rparr>
      in case nds_aicpu_post_send env (Some qp) (Some scheduled) (Some (- NDS_OPERATION_PROVIDER_FAILED)) m of
           (provider, post_result, m) \<Rightarrow>
             (let post_result = the post_result
              in if provider \<noteq> kNdsAicpuSuccess \<or> post_result \<noteq> 0
                 then Some (kNdsAicpuSuccess,
                        NdsAicpuSetReturnValue return_value
                          (if sint post_result < 0 then - post_result else NDS_OPERATION_PROVIDER_FAILED), m)
                 else case nds_transport_record_send (Some nxt) signaled of (recorded, nxt) \<Rightarrow>
                   if recorded = 0
                   then Some (kNdsAicpuSuccess, NdsAicpuSetReturnValue return_value NDS_OPERATION_QUEUE_FULL, m)
                   else
                     (let nxt = the nxt; m = put_qp_state state nxt m
                      in case (if signaled \<noteq> 0
                               then aicpu_wait_for_send_completion env (Some qp) state
                                      (st_send_credits nxt + st_signal_interval nxt) m
                               else Some (NDS_OPERATION_SUCCESS, m)) of
                           None \<Rightarrow> None
                         | Some (status, m) \<Rightarrow>
                             Some (kNdsAicpuSuccess, NdsAicpuSetReturnValue return_value status, m))))"

definition aicpu_transport_post_send :: "aicpu_env \<Rightarrow> NdsTransportDescriptor option \<Rightarrow> u32 \<Rightarrow> NdsSendWr option \<Rightarrow>
    i32 option \<Rightarrow> dmem \<Rightarrow> (u32 \<times> i32 option \<times> dmem) option" where
  "aicpu_transport_post_send env transport queue_index wr return_value m =
     (case (transport, wr) of
        (Some transport, Some wr) \<Rightarrow>
          (case (nds_transport_qp (Some transport) queue_index, nds_transport_qp_state (Some transport) queue_index) of
             (Some qp_address, Some state) \<Rightarrow>
               if st_signal_interval (g_qp_state m state) = 0
               then Some (kNdsAicpuSuccess, NdsAicpuSetReturnValue return_value NDS_OPERATION_INVALID_ARGUMENT, m)
               else
                 (let qp = g_qp m qp_address in
                  case aicpu_reclaim_if_needed env (Some qp) state True m of (status, m) \<Rightarrow>
                  if status \<noteq> NDS_OPERATION_SUCCESS
                  then Some (kNdsAicpuSuccess, NdsAicpuSetReturnValue return_value status, m)
                  else if st_send_credits (g_qp_state m state) = 0
                  then Some (kNdsAicpuSuccess, NdsAicpuSetReturnValue return_value NDS_OPERATION_QUEUE_FULL, m)
                  else aicpu_post_scheduled env qp state wr return_value m)
           | _ \<Rightarrow> Some (kNdsAicpuSuccess, NdsAicpuSetReturnValue return_value NDS_OPERATION_INVALID_ARGUMENT, m))
      | _ \<Rightarrow> Some (kNdsAicpuInvalidArgument, return_value, m))"

definition nds_aicpu_rdma_send :: "aicpu_env \<Rightarrow> NdsTransportDescriptor option \<Rightarrow> u32 \<Rightarrow> NdsSendWr option \<Rightarrow>
    i32 option \<Rightarrow> dmem \<Rightarrow> (u32 \<times> i32 option \<times> dmem) option" where
  "nds_aicpu_rdma_send env transport queue_index wr return_value m =
     aicpu_transport_post_send env transport queue_index wr return_value m"

definition nds_aicpu_rdma_recv :: "aicpu_env \<Rightarrow> NdsTransportDescriptor option \<Rightarrow> u32 \<Rightarrow> NdsRecvWr option \<Rightarrow>
    i32 option \<Rightarrow> dmem \<Rightarrow> u32 \<times> i32 option \<times> dmem" where
  "nds_aicpu_rdma_recv env transport queue_index wr return_value m =
     (case (transport, wr, return_value) of
        (Some transport, Some wr, Some _) \<Rightarrow>
          (case (nds_transport_qp (Some transport) queue_index, nds_transport_qp_state (Some transport) queue_index) of
             (Some qp_address, Some state) \<Rightarrow>
               (let qp = g_qp m qp_address in
                case aicpu_reclaim_if_needed env (Some qp) state False m of (status, m) \<Rightarrow>
                (let status = (if status = NDS_OPERATION_SUCCESS \<and> st_receive_credits (g_qp_state m state) = 0
                               then NDS_OPERATION_QUEUE_FULL else status)
                 in if status \<noteq> NDS_OPERATION_SUCCESS
                    then (kNdsAicpuSuccess, NdsAicpuSetReturnValue return_value status, m)
                    else case nds_aicpu_post_recv (Some qp) (Some wr) (Some (- NDS_OPERATION_PROVIDER_FAILED)) m of
                      (provider, post_result, m) \<Rightarrow>
                        (let post_result = the post_result
                         in if provider \<noteq> kNdsAicpuSuccess \<or> post_result \<noteq> 0
                            then (kNdsAicpuSuccess,
                                  NdsAicpuSetReturnValue return_value
                                    (if sint post_result < 0 then - post_result else NDS_OPERATION_PROVIDER_FAILED), m)
                            else case nds_transport_record_receive (Some (g_qp_state m state)) of (recorded, s) \<Rightarrow>
                              (kNdsAicpuSuccess,
                               NdsAicpuSetReturnValue return_value
                                 (if recorded = 0 then NDS_OPERATION_QUEUE_FULL else NDS_OPERATION_SUCCESS),
                               put_qp_state state (the s) m))))
           | _ \<Rightarrow> (kNdsAicpuSuccess, NdsAicpuSetReturnValue return_value NDS_OPERATION_INVALID_ARGUMENT, m))
      | _ \<Rightarrow> (kNdsAicpuInvalidArgument, return_value, m))"

definition nds_aicpu_rdma_read :: "aicpu_env \<Rightarrow> NdsTransportDescriptor option \<Rightarrow> u32 \<Rightarrow> NdsSendWr option \<Rightarrow>
    i32 option \<Rightarrow> dmem \<Rightarrow> (u32 \<times> i32 option \<times> dmem) option" where
  "nds_aicpu_rdma_read env transport queue_index wr return_value m =
     aicpu_transport_post_send env transport queue_index wr return_value m"

definition nds_aicpu_rdma_write :: "aicpu_env \<Rightarrow> NdsTransportDescriptor option \<Rightarrow> u32 \<Rightarrow> NdsSendWr option \<Rightarrow>
    i32 option \<Rightarrow> dmem \<Rightarrow> (u32 \<times> i32 option \<times> dmem) option" where
  "nds_aicpu_rdma_write env transport queue_index wr return_value m =
     aicpu_transport_post_send env transport queue_index wr return_value m"

section \<open>Credit accounting\<close>

lemma aicpu_poll_state:
  assumes "nds_aicpu_poll_cq env qp b n w rv m = (r, rv', wc, m')"
  shows "g_qp_state m' = g_qp_state m"
  using assms by (auto simp: nds_aicpu_poll_cq_def Let_def split: if_splits option.splits prod.splits)

lemma aicpu_post_send_state:
  assumes "nds_aicpu_post_send env qp wr rv m = (r, rv', m')"
  shows "g_qp_state m' = g_qp_state m"
  using assms by (auto simp: nds_aicpu_post_send_def Let_def split: if_splits option.splits prod.splits)

lemma aicpu_wait_refines:
  assumes "aicpu_wait_for_send_completion env qp a target m = Some (status, m')"
  shows "waits (aicpu_reclaim env qp (Some a) True) (\<lambda>m. g_qp_state m a) target m status m'"
proof -
  have "case r of (status, m') \<Rightarrow> waits (aicpu_reclaim env qp (Some a) True) (\<lambda>m. g_qp_state m a) target m status m'"
    if "aicpu_wait_for_send_completion env qp a target m = Some r" for r
    using that
  proof (rule aicpu_wait_for_send_completion.raw_induct [rotated])
    fix wait :: "aicpu_env \<Rightarrow> NdsQpDescriptor option \<Rightarrow> u64 \<Rightarrow> u32 \<Rightarrow> dmem \<Rightarrow> (u32 \<times> dmem) option"
    fix env qp a target m r
    assume IH: "\<And>env qp a target m r. wait env qp a target m = Some r \<Longrightarrow>
        case r of (status, m') \<Rightarrow> waits (aicpu_reclaim env qp (Some a) True) (\<lambda>m. g_qp_state m a) target m status m'"
      and step: "(if st_send_credits (g_qp_state m a) < target
          then case aicpu_reclaim env qp (Some a) True m of
                 (status, m) \<Rightarrow> if status \<noteq> NDS_OPERATION_SUCCESS then Some (status, m) else wait env qp a target m
          else Some (NDS_OPERATION_SUCCESS, m)) = Some r"
    show "case r of (status, m') \<Rightarrow> waits (aicpu_reclaim env qp (Some a) True) (\<lambda>m. g_qp_state m a) target m status m'"
    proof (cases "st_send_credits (g_qp_state m a) < target")
      case False
      with step show ?thesis by (auto simp: not_less intro: waits.waits_done)
    next
      case True
      obtain status1 m1 where "aicpu_reclaim env qp (Some a) True m = (status1, m1)" by fastforce
      with True step IH show ?thesis
        by (cases "status1 = NDS_OPERATION_SUCCESS") (auto intro: waits.waits_failed waits.waits_again)
    qed
  qed
  with assms show ?thesis by fastforce
qed

text \<open>The device verbs of one queue pair, as the transport calls them for a send.\<close>

definition aicpu_send_ops :: "aicpu_env \<Rightarrow> NdsQpDescriptor \<Rightarrow> u64 \<Rightarrow> dmem send_ops" where
  "aicpu_send_ops env qp a = \<lparr>
     so_state = (\<lambda>m. g_qp_state m a),
     so_store = put_qp_state a,
     so_poll = (\<lambda>m. case nds_aicpu_poll_cq env (Some qp) 1 NDS_MAX_COMPLETIONS True (Some (- NDS_OPERATION_INVALID_ARGUMENT)) m of
        (r, rv, _, m1) \<Rightarrow> (if r \<noteq> kNdsAicpuSuccess \<or> sint (the rv) < 0 then None else Some (the rv), m1)),
     so_post = (\<lambda>wr m. case nds_aicpu_post_send env (Some qp) (Some wr) (Some (- NDS_OPERATION_PROVIDER_FAILED)) m of
        (r, rv, m1) \<Rightarrow> (r = kNdsAicpuSuccess \<and> the rv = 0, m1)),
     so_idle = (\<lambda>_ _. False)\<rparr>"

lemma aicpu_send_state [simp]: "so_state (aicpu_send_ops env qp a) = (\<lambda>m. g_qp_state m a)"
  "so_store (aicpu_send_ops env qp a) = put_qp_state a"
  by (simp_all add: aicpu_send_ops_def)

interpretation aicpu_queue: send_queue "aicpu_send_ops env qp a" for env qp a
  by unfold_locales
    (auto simp: aicpu_send_ops_def dest!: aicpu_poll_state aicpu_post_send_state split: prod.splits if_splits)

lemma aicpu_reclaim_polls:
  assumes "aicpu_reclaim env (Some qp) (Some a) True m = (status, m')"
  shows "\<exists>es. polling es \<and> length es \<le> 1 \<and> send_run (aicpu_send_ops env qp a) request m es m'"
proof -
  obtain r rv wc m1 where p: "nds_aicpu_poll_cq env (Some qp) 1 NDS_MAX_COMPLETIONS True
      (Some (- NDS_OPERATION_INVALID_ARGUMENT)) m = (r, rv, wc, m1)" by (metis prod_cases4)
  from aicpu_poll_state [OF p] have eq: "g_qp_state m1 = g_qp_state m" .
  show ?thesis
  proof (cases "r \<noteq> kNdsAicpuSuccess \<or> sint (the rv) < 0")
    case True
    with assms(1) p have "m' = m1" by (auto simp: aicpu_reclaim_def Let_def split: if_splits)
    moreover have "so_poll (aicpu_send_ops env qp a) m = (None, m1)" using True p by (simp add: aicpu_send_ops_def)
    ultimately have "send_run (aicpu_send_ops env qp a) request m [PollFailed] m'" by (auto intro: run_one)
    then show ?thesis by (intro exI [of _ "[PollFailed]"]) simp
  next
    case False
    have "so_poll (aicpu_send_ops env qp a) m = (Some (the rv), m1)" using False p by (simp add: aicpu_send_ops_def)
    moreover have "m' = so_store (aicpu_send_ops env qp a) (credited (the rv) (so_state (aicpu_send_ops env qp a) m1)) m1"
      using False assms p eq
      by (auto simp: aicpu_reclaim_def Let_def nds_transport_reclaim_send_def aicpu_send_ops_def credited_def split: if_splits)
    ultimately have "send_run (aicpu_send_ops env qp a) request m [Polled (the rv)] m'" by (rule run_one)
    then show ?thesis by (intro exI [of _ "[Polled (the rv)]"]) simp
  qed
qed

interpretation aicpu_credits: credit_wait
  "aicpu_send_ops env qp a" "aicpu_reclaim env (Some qp) (Some a) True" "aicpu_wait_for_send_completion env (Some qp) a"
  for env qp a
  by unfold_locales (simp_all only: aicpu_reclaim_polls aicpu_wait_refines aicpu_send_state)

lemma aicpu_reclaim_if_needed_polls:
  assumes "aicpu_reclaim_if_needed env (Some qp) a True m = (status, m')"
  shows "\<exists>es. polling es \<and> length es \<le> 1 \<and> send_run (aicpu_send_ops env qp a) request m es m'"
proof (cases "st_send_credits (g_qp_state m a) = 0")
  case True
  with assms show ?thesis using aicpu_reclaim_polls [of env qp a m status m'] by (simp add: aicpu_reclaim_if_needed_def)
next
  case False
  with assms have "m' = m" by (simp add: aicpu_reclaim_if_needed_def)
  then show ?thesis by (intro exI [of _ "[]"]) auto
qed

lemma aicpu_post_scheduled_run:
  assumes run: "aicpu_post_scheduled env qp a wr (Some v) m = Some (r, rv, m')"
    and i: "st_signal_interval (g_qp_state m a) \<noteq> 0" and c: "st_send_credits (g_qp_state m a) \<noteq> 0"
    and pre: "send_run (aicpu_send_ops env qp a) wr m0 pre m" "polling pre" "length pre \<le> 1"
  shows "\<exists>es. send_run (aicpu_send_ops env qp a) wr m0 es m' \<and> single_send (rv = Some 0) es"
proof -
  let ?ops = "aicpu_send_ops env qp a" and ?s = "g_qp_state m a"
  let ?wr = "scheduled ?s wr" and ?sig = "nds_transport_should_signal (Some ?s)"
  have sig: "?sig \<noteq> 0 \<longleftrightarrow> due ?s" using i by (simp add: nds_transport_should_signal_def due_def)
  have wr: "wr\<lparr>sw_flags := if ?sig \<noteq> 0 then NDS_SEND_SIGNALED else 0\<rparr> = ?wr" by (simp add: scheduled_def sig)
  obtain p pr m2 where ps: "nds_aicpu_post_send env (Some qp) (Some ?wr) (Some (- NDS_OPERATION_PROVIDER_FAILED)) m = (p, pr, m2)"
    by (metis prod_cases3)
  note run' = run [unfolded aicpu_post_scheduled_def Let_def wr ps]
  show ?thesis
  proof (cases "p \<noteq> kNdsAicpuSuccess \<or> the pr \<noteq> 0")
    case True
    then have "(if sint (the pr) < 0 then - the pr else NDS_OPERATION_PROVIDER_FAILED) \<noteq> NDS_OPERATION_SUCCESS"
      by (auto simp: op_status_defs)
    with True run' have m': "m' = m2" and rv: "rv \<noteq> Some 0" by (auto simp del: de_Morgan_disj)
    have "so_post ?ops ?wr m = (False, m2)" using True by (auto simp: aicpu_send_ops_def ps)
    with refused_send [OF pre] c m' rv show ?thesis by simp
  next
    case False
    have rec: "nds_transport_record_send (Some ?s) ?sig = (1, Some (charged ?s))"
      using c sig by (auto simp: nds_transport_record_send_def charged_def)
    let ?m3 = "put_qp_state a (charged ?s) m2"
    from run' False sig obtain status where
      w: "(if due ?s then aicpu_wait_for_send_completion env (Some qp) a
             (st_send_credits (charged ?s) + st_signal_interval (charged ?s)) ?m3 else Some (NDS_OPERATION_SUCCESS, ?m3)) = Some (status, m')"
      by (auto simp: rec cong: if_cong split: option.splits)
    have "\<exists>post. polling post \<and> send_run ?ops wr ?m3 post m' \<and> (due ?s \<or> post = [])"
    proof (cases "due ?s")
      case True
      with w aicpu_credits.wait_polls(1) [of env qp a _ ?m3 status m' wr] show ?thesis by auto
    next
      case False
      with w have "send_run ?ops wr ?m3 [] m'" by auto
      then show ?thesis by (intro exI [of _ "[]"]) auto
    qed
    then obtain post where post: "polling post" "send_run ?ops wr ?m3 post m'" "due ?s \<or> post = []" by blast
    have "so_post ?ops ?wr m = (True, m2)" using False by (auto simp: aicpu_send_ops_def ps)
    with posted_send [OF pre] c post show ?thesis by simp
  qed
qed

lemma aicpu_send_run:
  assumes run: "aicpu_transport_post_send env (Some t) qi (Some wr) (Some v) m = Some (r, rv, m')"
    and q: "nds_transport_qp (Some t) qi = Some q" and st: "nds_transport_qp_state (Some t) qi = Some a"
  shows "\<exists>es. send_run (aicpu_send_ops env (g_qp m q) a) wr m es m' \<and> single_send (rv = Some 0) es"
proof (cases "st_signal_interval (g_qp_state m a) = 0")
  case True
  with run q st have "m' = m" "rv \<noteq> Some 0" by (auto simp: aicpu_transport_post_send_def)
  with single_send_none [of "[]"] show ?thesis by (intro exI [of _ "[]"]) auto
next
  case i: False
  obtain s1 m1 where ri: "aicpu_reclaim_if_needed env (Some (g_qp m q)) a True m = (s1, m1)" by fastforce
  obtain pre where pre: "polling pre" "length pre \<le> 1" "send_run (aicpu_send_ops env (g_qp m q) a) wr m pre m1"
    using aicpu_reclaim_if_needed_polls [OF ri] by blast
  have i1: "st_signal_interval (g_qp_state m1 a) = st_signal_interval (g_qp_state m a)"
    using aicpu_queue.run_interval [OF pre(3)] by (simp add: aicpu_send_ops_def)
  show ?thesis
  proof (cases "s1 = NDS_OPERATION_SUCCESS \<and> st_send_credits (g_qp_state m1 a) \<noteq> 0")
    case False
    with run q st i have "m' = m1" "rv \<noteq> Some 0" by (auto simp: aicpu_transport_post_send_def ri split: if_splits)
    with pre single_send_none show ?thesis by auto
  next
    case True
    with run q st i have "aicpu_post_scheduled env (g_qp m q) a wr (Some v) m1 = Some (r, rv, m')"
      by (simp add: aicpu_transport_post_send_def ri)
    from aicpu_post_scheduled_run [OF this _ _ pre(3,1,2)] True i i1 show ?thesis by simp
  qed
qed

section \<open>Properties\<close>

text \<open>
  C21: the AICPU transport accounts for every credit. Whenever a send returns, on success and on every error
  path, what it did to the device memory is a run of at most one poll, at most one post, and polls again after
  an accepted signaled post. A request is posted only with a credit in hand, and signaled exactly when it is
  due; a credit is taken and the signal counter advanced only for the post that the provider accepted, and a
  signal interval given back only for each completion a poll returned. Success is reported only for a posted
  request. So if the polls return no more completions than signaled requests are in flight, the credits stay
  conserved.
\<close>

theorem aicpu_rdma_send_accounting:
  assumes "nds_aicpu_rdma_send env (Some t) qi (Some wr) (Some v) m = Some (r, rv, m')"
    and "nds_transport_qp (Some t) qi = Some q" and "nds_transport_qp_state (Some t) qi = Some a"
  shows "\<exists>es. send_run (aicpu_send_ops env (g_qp m q) a) wr m es m' \<and> single_send (rv = Some 0) es \<and>
    (\<forall>D k k'. credit_inv D k (g_qp_state m a) \<longrightarrow> in_flight k es = Some k' \<longrightarrow> credit_inv D k' (g_qp_state m' a))"
proof -
  obtain es where es: "send_run (aicpu_send_ops env (g_qp m q) a) wr m es m'" "single_send (rv = Some 0) es"
    using aicpu_send_run [of env t qi wr v m r rv m' q a] assms by (auto simp: nds_aicpu_rdma_send_def)
  with aicpu_queue.run_inv [OF es(1)] show ?thesis by (auto simp: aicpu_send_ops_def)
qed

definition sample_aicpu_env :: aicpu_env where
  "sample_aicpu_env = \<lparr>ae_post_send = Some (\<lambda>_ _ m. (0, (g_u32 m)(0x102000 := g_u32 m 0x102000 + 1))), ae_nic = idle_nic\<rparr>"

lemma sample_aicpu_send:
  "\<exists>m'. nds_aicpu_rdma_send sample_aicpu_env (Some sample_transport) 0 (Some sample_send_wr) (Some 1) sample_dmem
     = Some (0, Some 0, m')"
  by (simp add: nds_aicpu_rdma_send_def aicpu_transport_post_send_def aicpu_reclaim_if_needed_def
      aicpu_post_scheduled_def nds_transport_qp_def nds_transport_qp_state_def nds_transport_should_signal_def
      nds_aicpu_post_send_def nds_transport_record_send_def provider_opcode_def wr_opcode_defs
      NDS_HNS_WR_SEND_def kNdsAicpuSuccess_def NDS_QP_MODE_NORMAL_def sample_device_defs sample_aicpu_env_def
      word_le_nat_alt set_return_value op_status_defs Let_def)

theorem aicpu_rdma_send_accounting_witness:
  "\<exists>m' es. nds_aicpu_rdma_send sample_aicpu_env (Some sample_transport) 0 (Some sample_send_wr) (Some 1) sample_dmem = Some (0, Some 0, m') \<and>
     send_run (aicpu_send_ops sample_aicpu_env sample_qp 0x6000) sample_send_wr sample_dmem es m' \<and> single_send True es"
proof -
  obtain m' where m': "nds_aicpu_rdma_send sample_aicpu_env (Some sample_transport) 0 (Some sample_send_wr) (Some 1) sample_dmem
     = Some (0, Some 0, m')" using sample_aicpu_send by blast
  have "g_qp sample_dmem 0x5000 = sample_qp" by (simp add: sample_dmem_def)
  with aicpu_rdma_send_accounting [OF m', of "0x5000" "0x6000"] m' show ?thesis
    by (auto simp: nds_transport_qp_def nds_transport_qp_state_def sample_transport_def)
qed

end
