(* ===== verification/Device_Storage.thy ===== *)
theory Device_Storage
  imports Device_Queues
begin

text \<open>
  What the storage layers of the device backends have in common: byte buffers in device memory,
  the decoding of a batch descriptor array and the sum of its lengths
  (the loop of \<open>batch_bytes\<close> in \<^verbatim>\<open>src/src/client/backends/aicpu/device/storage.cc\<close> and \<open>BatchTotal\<close> of
  \<^verbatim>\<open>src/src/client/backends/aiv/device/storage.cc\<close> share this loop), and the verdict on an observed
  completion.
\<close>

section \<open>Batch descriptors\<close>

definition zero_memory :: StorageMemory where
  "zero_memory = \<lparr>m_address = 0, m_length = 0, m_remote_key = 0\<rparr>"

text \<open>The length an encoded entry names, for a batch write or a batch read.\<close>

definition entry_length :: "bool \<Rightarrow> u8 list \<Rightarrow> u64 option" where
  "entry_length is_write bytes =
     (if is_write
      then (case deserialize_storage_batch_write_entry (Some bytes) kStorageBatchEntryBytes
                   (Some \<lparr>bwe_offset = 0, bwe_length = 0, bwe_data = zero_memory\<rparr>) of
              (SerdeOk, Some entry) \<Rightarrow> Some (bwe_length entry) | _ \<Rightarrow> None)
      else (case deserialize_storage_batch_read_entry (Some bytes) kStorageBatchEntryBytes
                   (Some \<lparr>bre_offset = 0, bre_length = 0, bre_data = zero_memory\<rparr>) of
              (SerdeOk, Some entry) \<Rightarrow> Some (bre_length entry) | _ \<Rightarrow> None))"

text \<open>The summing loop from \<open>index\<close> on with \<open>n\<close> entries to go; \<open>None\<close> is the early \<open>return 0\<close>.\<close>

fun batch_sum :: "dmem \<Rightarrow> u64 \<Rightarrow> bool \<Rightarrow> nat \<Rightarrow> u32 \<Rightarrow> u64 \<Rightarrow> u64 option" where
  "batch_sum m entries_address is_write 0 index tot = Some tot"
| "batch_sum m entries_address is_write (Suc n) index tot =
     (case entry_length is_write
             (get_bytes m (entries_address + ucast (index * kStorageBatchEntryBytes)) (unat kStorageBatchEntryBytes)) of
        None \<Rightarrow> None
      | Some len \<Rightarrow>
          if len = 0 \<or> tot > 0xffffffff - len then None
          else batch_sum m entries_address is_write n (index + 1) (tot + len))"

section \<open>Observed completions\<close>

definition zero_completion :: StorageCompletion where
  "zero_completion = \<lparr>c_command_id = 0, c_state = StatePending, c_status = StatusSuccess, c_bytes_transferred = 0\<rparr>"

text \<open>The status a device \<open>wait\<close> reports for the bytes found in the completion buffer.\<close>

definition completion_verdict :: "NdsStorageState \<Rightarrow> u8 list \<Rightarrow> u32" where
  "completion_verdict state observed =
     (case deserialize_storage_completion (Some observed) kStorageCompletionBytes (Some zero_completion) of
        (SerdeOk, Some completion) \<Rightarrow>
          if c_state completion \<noteq> StateComplete then NDS_OPERATION_QUEUE_FULL
          else if c_command_id completion \<noteq> ss_command_id state
            \<or> c_bytes_transferred completion \<noteq> ucast (ss_expected_bytes state)
          then NDS_OPERATION_INVALID_ARGUMENT
          else if c_status completion = StatusSuccess then NDS_OPERATION_SUCCESS
          else NDS_OPERATION_PROVIDER_FAILED
      | _ \<Rightarrow> NDS_OPERATION_QUEUE_FULL)"

section \<open>Requests\<close>

text \<open>
  The command a device operation describes, completed with the command id and the index of its
  slot, and the transfer that sends it. Both backends build the same values.
\<close>

definition command_transfer :: "u64 \<Rightarrow> NdsStorageSlotDescriptor \<Rightarrow> NdsSendWr" where
  "command_transfer command_id slot =
     \<lparr>sw_wr_id = command_id, sw_opcode = NDS_WR_SEND, sw_flags = 0,
      sw_local = \<lparr>sg_address = sg_address (sl_command_buffer slot), sg_length = kStorageCommandBytes,
                  sg_local_key = sg_local_key (sl_command_buffer slot)\<rparr>,
      sw_remote_address = 0, sw_remote_key = 0\<rparr>"

definition operation_memory :: "NdsStorageOperation \<Rightarrow> StorageMemory" where
  "operation_memory operation = \<lparr>m_address = so_buffer_address operation, m_length = ucast (so_length operation),
     m_remote_key = so_buffer_key operation\<rparr>"

definition read_request :: "NdsStorageOperation \<Rightarrow> u64 \<Rightarrow> u32 \<Rightarrow> StorageReadCommand" where
  "read_request operation command_id slot_index = \<lparr>r_command_id = command_id, r_offset = so_server_offset operation,
     r_length = ucast (so_length operation), r_data = operation_memory operation, r_slot_index = slot_index\<rparr>"

definition write_request :: "NdsStorageOperation \<Rightarrow> u64 \<Rightarrow> u32 \<Rightarrow> StorageWriteCommand" where
  "write_request operation command_id slot_index = \<lparr>w_command_id = command_id, w_offset = so_server_offset operation,
     w_length = ucast (so_length operation), w_data = operation_memory operation, w_slot_index = slot_index\<rparr>"

definition entries_memory :: "NdsStorageBatchOperation \<Rightarrow> StorageMemory" where
  "entries_memory operation = \<lparr>m_address = sb_entries_address operation,
     m_length = ucast (sb_entry_count operation) * ucast kStorageBatchEntryBytes, m_remote_key = sb_entries_key operation\<rparr>"

definition batch_read_request :: "NdsStorageBatchOperation \<Rightarrow> u32 \<Rightarrow> u64 \<Rightarrow> u32 \<Rightarrow> StorageBatchReadCommand" where
  "batch_read_request operation tot command_id slot_index = \<lparr>br_command_id = command_id,
     br_entry_count = ucast (sb_entry_count operation), br_total_length = ucast tot,
     br_entries = entries_memory operation, br_slot_index = slot_index\<rparr>"

definition batch_write_request :: "NdsStorageBatchOperation \<Rightarrow> u32 \<Rightarrow> u64 \<Rightarrow> u32 \<Rightarrow> StorageBatchWriteCommand" where
  "batch_write_request operation tot command_id slot_index = \<lparr>bw_command_id = command_id,
     bw_entry_count = ucast (sb_entry_count operation), bw_total_length = ucast tot,
     bw_entries = entries_memory operation, bw_slot_index = slot_index\<rparr>"

definition operation_refused :: "NdsStorageOperation \<Rightarrow> bool" where
  "operation_refused operation \<longleftrightarrow>
     so_length operation = 0 \<or> so_buffer_address operation = 0 \<or> so_buffer_key operation = 0"

section \<open>Buffers\<close>

lemma put_bytes_frame [simp]:
  "g_u32 (put_bytes a bs m) = g_u32 m" "g_u64 (put_bytes a bs m) = g_u64 m" "g_cqe (put_bytes a bs m) = g_cqe m"
  "g_qp (put_bytes a bs m) = g_qp m" "g_qp_state (put_bytes a bs m) = g_qp_state m"
  "g_slot (put_bytes a bs m) = g_slot m" "g_storage_state (put_bytes a bs m) = g_storage_state m"
  by (induction bs arbitrary: a m) simp_all

lemma put_storage_state_frame [simp]:
  "g_byte (put_storage_state a s m) = g_byte m" "g_slot (put_storage_state a s m) = g_slot m"
  "g_storage_state (put_storage_state a s m) = (g_storage_state m)(a := s)"
  "g_qp_state (put_storage_state a s m) = g_qp_state m"
  by (simp_all add: put_storage_state_def)

definition outside :: "u64 \<Rightarrow> u64 \<Rightarrow> nat \<Rightarrow> bool" where
  "outside x a n \<longleftrightarrow> (\<forall>i < n. x \<noteq> a + of_nat i)"

lemma put_bytes_outside: "outside x a (length bs) \<Longrightarrow> g_byte (put_bytes a bs m) x = g_byte m x"
proof (induction bs arbitrary: a m)
  case (Cons b bs)
  have "x \<noteq> a" using Cons.prems by (auto simp: outside_def)
  moreover have "outside x (a + 1) (length bs)"
    unfolding outside_def
  proof (intro allI impI)
    fix i assume "i < length bs"
    then have "x \<noteq> a + of_nat (Suc i)" using Cons.prems unfolding outside_def by (metis Suc_mono length_Cons)
    then show "x \<noteq> a + 1 + of_nat i" by (simp add: add.assoc)
  qed
  ultimately show ?case using Cons.IH [of "a + 1"] by simp
qed simp

lemma put_bytes_inside:
  assumes "length bs < 2 ^ 64" and "i < length bs"
  shows "g_byte (put_bytes a bs m) (a + of_nat i) = bs ! i"
  using assms
proof (induction bs arbitrary: a m i)
  case (Cons b bs)
  show ?case
  proof (cases i)
    case 0
    have "outside a (a + 1) (length bs)"
      unfolding outside_def
    proof (intro allI impI notI)
      fix j assume j: "j < length bs" and "a = a + 1 + of_nat j"
      then have "of_nat (Suc j) = (0 :: u64)" by (simp add: add.assoc)
      moreover have "Suc j < 2 ^ 64" using j Cons.prems(1) by simp
      ultimately show False using unat_of_nat [where 'a = 64, of "Suc j"] by simp
    qed
    then show ?thesis using 0 by (simp add: put_bytes_outside)
  next
    case (Suc j)
    have "a + of_nat i = a + 1 + of_nat j" by (simp add: Suc)
    moreover have "g_byte (put_bytes (a + 1) bs m') (a + 1 + of_nat j) = bs ! j" for m'
      using Suc Cons.prems by (intro Cons.IH) simp_all
    ultimately show ?thesis using Suc by (metis nth_Cons_Suc put_bytes.simps(2))
  qed
qed simp

lemma get_put_bytes:
  assumes "length bs < 2 ^ 64"
  shows "get_bytes (put_bytes a bs m) a (length bs) = bs"
  using put_bytes_inside [OF assms] by (intro nth_equalityI) (simp_all add: get_bytes_def)

definition disjoint_buffers :: "u64 \<Rightarrow> nat \<Rightarrow> u64 \<Rightarrow> nat \<Rightarrow> bool" where
  "disjoint_buffers a n b k \<longleftrightarrow> (\<forall>i < n. outside (a + of_nat i) b k)"

lemma get_put_bytes_disjoint:
  assumes "disjoint_buffers a n b (length bs)"
  shows "get_bytes (put_bytes b bs m) a n = get_bytes m a n"
  using assms by (simp add: get_bytes_def disjoint_buffers_def put_bytes_outside)

lemma get_bytes_storage_state [simp]: "get_bytes (put_storage_state a s m) = get_bytes m"
  by (simp add: get_bytes_def fun_eq_iff)

lemma length_get_bytes [simp]: "length (get_bytes m a n) = n"
  by (simp add: get_bytes_def)

section \<open>Sums\<close>

lemma entry_length_write:
  "entry_length True bytes = Some len \<longleftrightarrow>
     (\<exists>entry. deserialize_storage_batch_write_entry (Some bytes) kStorageBatchEntryBytes
        (Some \<lparr>bwe_offset = 0, bwe_length = 0, bwe_data = zero_memory\<rparr>) = (SerdeOk, Some entry) \<and> bwe_length entry = len)"
  by (auto simp: entry_length_def split: prod.splits option.splits StorageSerdeResult.splits)

lemma entry_length_read:
  "entry_length False bytes = Some len \<longleftrightarrow>
     (\<exists>entry. deserialize_storage_batch_read_entry (Some bytes) kStorageBatchEntryBytes
        (Some \<lparr>bre_offset = 0, bre_length = 0, bre_data = zero_memory\<rparr>) = (SerdeOk, Some entry) \<and> bre_length entry = len)"
  by (auto simp: entry_length_def split: prod.splits option.splits StorageSerdeResult.splits)

text \<open>The lengths of the entries, in order.\<close>

definition entry_lengths :: "dmem \<Rightarrow> u64 \<Rightarrow> bool \<Rightarrow> nat \<Rightarrow> u32 \<Rightarrow> u64 option list" where
  "entry_lengths m a is_write n index =
     map (\<lambda>k. entry_length is_write (get_bytes m (a + ucast ((index + of_nat k) * kStorageBatchEntryBytes))
       (unat kStorageBatchEntryBytes))) [0..<n]"

lemma entry_lengths_Suc:
  "entry_lengths m a is_write (Suc n) index =
     entry_length is_write (get_bytes m (a + ucast (index * kStorageBatchEntryBytes)) (unat kStorageBatchEntryBytes))
     # entry_lengths m a is_write n (index + 1)"
  unfolding entry_lengths_def
  by (simp add: upt_conv_Cons map_Suc_upt [symmetric] add.assoc del: upt_Suc)

lemma batch_sum_guard:
  fixes tot len :: u64
  assumes "unat tot \<le> 0xffffffff" and "unat len \<le> 0xffffffff"
  shows "tot > 0xffffffff - len \<longleftrightarrow> unat tot + unat len > 0xffffffff"
proof -
  have "len \<le> 0xffffffff" using assms(2) by (simp add: word_le_nat_alt)
  then have "unat (0xffffffff - len) = 0xffffffff - unat len" using word_le_mask_sub [of len "0xffffffff"] by simp
  then show ?thesis using assms(2) by (auto simp: word_less_nat_alt)
qed

text \<open>
  When no entry is longer than \<open>UINT32_MAX\<close> the loop computes the exact sum, or stops because
  it exceeds \<open>UINT32_MAX\<close>.
\<close>

lemma batch_sum_exact:
  assumes "batch_sum m a b n index tot = Some t" and "unat tot \<le> 0xffffffff"
    and "\<And>len. Some len \<in> set (entry_lengths m a b n index) \<Longrightarrow> unat len \<le> 0xffffffff"
  shows "\<exists>lens. entry_lengths m a b n index = map Some lens \<and> unat t = unat tot + sum_list (map unat lens)
    \<and> unat t \<le> 0xffffffff"
  using assms
proof (induction n arbitrary: index tot)
  case 0
  then show ?case by (simp add: entry_lengths_def)
next
  case (Suc n)
  let ?e = "entry_length b (get_bytes m (a + ucast (index * kStorageBatchEntryBytes)) (unat kStorageBatchEntryBytes))"
  from Suc.prems(1) obtain len where len: "?e = Some len" "len \<noteq> 0" "\<not> tot > 0xffffffff - len"
    and rec: "batch_sum m a b n (index + 1) (tot + len) = Some t"
    by (auto split: option.splits if_splits)
  from Suc.prems(3) [of len] len(1) have l: "unat len \<le> 0xffffffff" by (simp add: entry_lengths_Suc)
  with len(3) Suc.prems(2) have le: "unat tot + unat len \<le> 0xffffffff" by (simp add: batch_sum_guard)
  then have s: "unat (tot + len) = unat tot + unat len" by (intro unat_add_small) simp
  from Suc.IH [OF rec] s le Suc.prems(3) obtain lens where
    "entry_lengths m a b n (index + 1) = map Some lens" "unat t = unat (tot + len) + sum_list (map unat lens)"
    "unat t \<le> 0xffffffff" by (auto simp: entry_lengths_Suc)
  with len(1) s show ?case by (intro exI [of _ "len # lens"]) (simp add: entry_lengths_Suc)
qed

section \<open>Slots in flight\<close>

lemma pending_roundtrip:
  assumes "cid \<noteq> 0"
  obtains p where
    "serialize_storage_completion \<lparr>c_command_id = cid, c_state = StatePending, c_status = StatusSuccess, c_bytes_transferred = 0\<rparr>
       (Some (replicate 32 0)) kStorageCompletionBytes = (SerdeOk, Some p)"
    "length p = 32"
    "\<And>old. deserialize_storage_completion (Some p) kStorageCompletionBytes (Some old) =
       (SerdeOk, Some \<lparr>c_command_id = cid, c_state = StatePending, c_status = StatusSuccess, c_bytes_transferred = 0\<rparr>)"
proof -
  let ?c = "\<lparr>c_command_id = cid, c_state = StatePending, c_status = StatusSuccess, c_bytes_transferred = 0\<rparr>"
  have v: "\<not> completion_invalid ?c" using assms by (simp add: completion_invalid_def storage_status_defs)
  have n: "unat kStorageCompletionBytes \<le> length (replicate 32 (0 :: u8))" by (simp add: kStorageCompletionBytes_def)
  show thesis
  proof (rule that)
    show "serialize_storage_completion ?c (Some (replicate 32 0)) kStorageCompletionBytes
        = (SerdeOk, Some (put_completion ?c (replicate 32 0)))"
      by (rule completion_codec.enc_some [OF v]) simp
    show "length (put_completion ?c (replicate 32 0)) = 32"
      using completion_codec.put_frame [of ?c "replicate 32 0"] by simp
    show "\<And>old. deserialize_storage_completion (Some (put_completion ?c (replicate 32 0))) kStorageCompletionBytes (Some old)
        = (SerdeOk, Some ?c)"
      by (rule completion_codec.dec_put [OF v n]) simp
  qed
qed

lemma slot_id_valid_parts:
  assumes "nds_storage_slot_id_valid m (Some d) slot_id"
  obtains a sa where "nds_storage_descriptor_valid (Some d)"
    "nds_storage_state (Some d) (nds_storage_slot_id_index slot_id) = Some a"
    "nds_storage_slot (Some d) (nds_storage_slot_id_index slot_id) = Some sa"
  using assms
  by (auto simp: nds_storage_slot_id_valid_def nds_storage_slot_valid_def nds_storage_slot_def nds_storage_state_def Let_def
      split: if_splits option.splits)

text \<open>The slot is claimed for \<open>n\<close> bytes under \<open>cid\<close>, with the pending completion in place.\<close>

definition slot_claimed :: "dmem \<Rightarrow> u64 \<Rightarrow> NdsStorageSlotDescriptor \<Rightarrow> u64 \<Rightarrow> u32 \<Rightarrow> bool" where
  "slot_claimed m1 a slot cid n \<longleftrightarrow>
     g_storage_state m1 a = \<lparr>ss_command_id = cid, ss_expected_bytes = n, ss_in_flight = 1, ss_status = 0\<rparr> \<and>
     completion_verdict (g_storage_state m1 a) (get_bytes m1 (sg_address (sl_completion_buffer slot)) 32)
       = NDS_OPERATION_QUEUE_FULL"

lemma ucast_nonzero_u32_u64: "(ucast (x :: u32) :: u64) = 0 \<longleftrightarrow> x = 0"
  using unat_ucast_u32_u64 [of x] by (metis unat_eq_zero)

lemma request_valid:
  assumes "\<not> operation_refused operation" and "cid \<noteq> 0"
  shows "read_valid (read_request operation cid i)" and "write_valid (write_request operation cid i)"
  using assms
  by (simp_all add: operation_refused_def valid_defs read_request_def write_request_def operation_memory_def
      memory_valid_def ucast_nonzero_u32_u64)

section \<open>Samples\<close>

definition sample_storage :: NdsStorageDescriptor where
  "sample_storage = \<lparr>sd_transport = sample_transport, sd_slot_descriptors_address = 0xa000,
     sd_storage_states_address = 0xb000, sd_slot_count = 1, sd_reserved = 0, sd_capacity = 0x100000\<rparr>"

definition sample_operation :: NdsStorageOperation where
  "sample_operation = \<lparr>so_slot_id = 0, so_reserved = 0, so_server_offset = 512, so_buffer_address = 0xc000,
     so_buffer_key = 6, so_length = 256\<rparr>"

lemma sample_slot_valid: "nds_storage_slot_id_valid sample_dmem (Some sample_storage) 0"
  by (simp add: nds_storage_slot_id_valid_def nds_storage_slot_valid_def nds_storage_slot_def slot_record_valid_def
      nds_storage_descriptor_valid_def nds_storage_slot_id_index_def nds_storage_slot_id_queue_def
      sample_storage_def sample_device_defs storage_consts)

lemma sample_slot_disjoint: "disjoint_buffers 0x9000 32 0x8000 64"
  unfolding disjoint_buffers_def outside_def
proof (intro allI impI)
  fix i j :: nat assume "i < 32" "j < 64"
  then have "unat (0x9000 + of_nat i :: u64) \<noteq> unat (0x8000 + of_nat j :: u64)"
    by (simp add: unat_word_ariths unat_of_nat)
  then show "(0x9000 + of_nat i :: u64) \<noteq> 0x8000 + of_nat j" by metis
qed

text \<open>Two batch entries whose lengths add up to more than \<open>2 ^ 64\<close>.\<close>

definition huge_entry :: "u64 \<Rightarrow> StorageBatchReadEntry" where
  "huge_entry len = \<lparr>bre_offset = 0, bre_length = len,
     bre_data = \<lparr>m_address = 0x1000, m_length = 0xffffffffffffffff, m_remote_key = 1\<rparr>\<rparr>"

definition huge_dmem :: dmem where
  "huge_dmem = put_bytes 0x128 (put_read_entry (huge_entry 0xfffffffefffffffe) (replicate 40 0))
     (put_bytes 0x100 (put_read_entry (huge_entry 0x100000005) (replicate 40 0)) sample_dmem)"

lemma huge_entry_decodes:
  assumes "len \<noteq> 0"
  shows "entry_length False (put_read_entry (huge_entry len) (replicate 40 0)) = Some len"
proof -
  have "len \<le> 0xffffffffffffffff" using unat_less_64 [of len] by (simp add: word_le_nat_alt)
  then have v: "read_entry_valid (huge_entry len)"
    using assms by (simp add: read_entry_valid_def huge_entry_def memory_valid_def)
  show ?thesis
    unfolding entry_length_read
    using read_entry_codec.dec_put [OF v, of "replicate 40 0" kStorageBatchEntryBytes]
    by (auto simp: huge_entry_def kStorageBatchEntryBytes_def)
qed

lemma huge_dmem_entries:
  "get_bytes huge_dmem 0x100 40 = put_read_entry (huge_entry 0x100000005) (replicate 40 0)"
  "get_bytes huge_dmem 0x128 40 = put_read_entry (huge_entry 0xfffffffefffffffe) (replicate 40 0)"
proof -
  have len: "length (put_read_entry e (replicate 40 0)) = 40" for e
    using put_batch_entry_frame by simp
  have "disjoint_buffers 0x100 40 0x128 40"
    unfolding disjoint_buffers_def outside_def
  proof (intro allI impI)
    fix i j :: nat assume "i < 40" "j < 40"
    then have "unat (0x100 + of_nat i :: u64) \<noteq> unat (0x128 + of_nat j :: u64)"
      by (simp add: unat_word_ariths unat_of_nat)
    then show "(0x100 + of_nat i :: u64) \<noteq> 0x128 + of_nat j" by metis
  qed
  then show "get_bytes huge_dmem 0x100 40 = put_read_entry (huge_entry 0x100000005) (replicate 40 0)"
    using get_put_bytes [of "put_read_entry (huge_entry 0x100000005) (replicate 40 0)" "0x100" sample_dmem]
      get_put_bytes_disjoint [of "0x100" 40 "0x128" "put_read_entry (huge_entry 0xfffffffefffffffe) (replicate 40 0)"]
    by (simp add: huge_dmem_def len)
  show "get_bytes huge_dmem 0x128 40 = put_read_entry (huge_entry 0xfffffffefffffffe) (replicate 40 0)"
    using get_put_bytes [of "put_read_entry (huge_entry 0xfffffffefffffffe) (replicate 40 0)" "0x128"
        "put_bytes 0x100 (put_read_entry (huge_entry 0x100000005) (replicate 40 0)) sample_dmem"]
    by (simp add: huge_dmem_def len)
qed

definition sample_done :: StorageCompletion where
  "sample_done = \<lparr>c_command_id = 77, c_state = StateComplete, c_status = StatusSuccess, c_bytes_transferred = 256\<rparr>"

definition sample_done_dmem :: dmem where
  "sample_done_dmem = put_bytes 0x9000 (put_completion sample_done (replicate 32 0))
     (put_storage_state 0xb000 \<lparr>ss_command_id = 77, ss_expected_bytes = 256, ss_in_flight = 1, ss_status = 0\<rparr> sample_dmem)"

lemma sample_done_decodes:
  "deserialize_storage_completion (Some (get_bytes sample_done_dmem 0x9000 32)) kStorageCompletionBytes (Some old)
     = (SerdeOk, Some sample_done)"
proof -
  have v: "\<not> completion_invalid sample_done"
    by (simp add: sample_done_def completion_invalid_def storage_status_defs)
  have len: "length (put_completion sample_done (replicate 32 0)) = 32"
    using completion_codec.put_frame [of sample_done "replicate 32 0"] by simp
  have "get_bytes sample_done_dmem 0x9000 32 = put_completion sample_done (replicate 32 0)"
    using get_put_bytes [of "put_completion sample_done (replicate 32 0)" "0x9000"] len
    by (simp add: sample_done_dmem_def)
  then show ?thesis
    using completion_codec.dec_put [OF v, of "replicate 32 0" kStorageCompletionBytes old]
    by (simp add: kStorageCompletionBytes_def)
qed

end
