(* ===== verification/Aicpu_Storage.thy ===== *)
theory Aicpu_Storage
  imports Aicpu_Transport Device_Storage
begin

text \<open>
  The AICPU storage layer of \<^verbatim>\<open>src/src/client/backends/aicpu/device/storage.cc\<close>: claim a slot,
  write the pending completion and the command into the slot's buffers, send the command, and
  judge the completion the server writes. The template \<open>execute\<close> is a function of how the
  request is completed with the command id and slot index and of its serializer.
\<close>

section \<open>Operations\<close>

text \<open>From the claim of the slot on: \<open>state_address\<close> and \<open>slot\<close> have been found and checked.\<close>

definition aicpu_run_claimed :: "aicpu_env \<Rightarrow> NdsStorageDescriptor \<Rightarrow> u64 \<Rightarrow> NdsStorageSlotDescriptor \<Rightarrow> u32 \<Rightarrow> u32 \<Rightarrow>
    (u64 \<Rightarrow> u32 \<Rightarrow> 'r) \<Rightarrow> ('r \<Rightarrow> u8 list option \<Rightarrow> u32 \<Rightarrow> StorageSerdeResult \<times> u8 list option) \<Rightarrow> i32 option \<Rightarrow> dmem \<Rightarrow>
    (u32 \<times> i32 option \<times> dmem) option" where
  "aicpu_run_claimed env d state_address slot slot_index expected_bytes request serialize return_value m =
     (let state = (g_storage_state m state_address)\<lparr>ss_expected_bytes := expected_bytes, ss_in_flight := 1, ss_status := 0\<rparr>;
          m = put_storage_state state_address state m;
          command_id = ss_command_id state;
          pending = \<lparr>c_command_id = command_id, c_state = StatePending, c_status = StatusSuccess, c_bytes_transferred = 0\<rparr>
      in case (serialize_storage_completion pending (Some (replicate (unat kStorageCompletionBytes) 0)) kStorageCompletionBytes,
               serialize (request command_id slot_index) (Some (replicate (unat kStorageCommandBytes) 0)) kStorageCommandBytes) of
           ((SerdeOk, Some pending), (SerdeOk, Some command_bytes)) \<Rightarrow>
             (let m = put_bytes (sg_address (sl_completion_buffer slot)) pending m;
                  m = put_bytes (sg_address (sl_command_buffer slot)) command_bytes m
              in case nds_aicpu_rdma_send env (Some (sd_transport d)) (sl_qp_index slot)
                        (Some (command_transfer command_id slot)) (Some (- NDS_OPERATION_PROVIDER_FAILED)) m of
                   None \<Rightarrow> None
                 | Some (provider_status, post_status, m) \<Rightarrow>
                     (let post_status = the post_status;
                          m = put_storage_state state_address ((g_storage_state m state_address)\<lparr>ss_status := post_status\<rparr>) m
                      in Some (provider_status,
                            NdsAicpuSetReturnValue return_value
                              (if post_status = 0 then NDS_OPERATION_SUCCESS else - post_status), m)))
         | _ \<Rightarrow> Some (kNdsAicpuSuccess, NdsAicpuSetReturnValue return_value NDS_OPERATION_INVALID_ARGUMENT,
                  put_storage_state state_address (state\<lparr>ss_in_flight := 0\<rparr>) m))"

definition aicpu_execute :: "aicpu_env \<Rightarrow> NdsStorageDescriptor option \<Rightarrow> u32 \<Rightarrow> u32 \<Rightarrow> (u64 \<Rightarrow> u32 \<Rightarrow> 'r) \<Rightarrow>
    ('r \<Rightarrow> u8 list option \<Rightarrow> u32 \<Rightarrow> StorageSerdeResult \<times> u8 list option) \<Rightarrow> i32 option \<Rightarrow> dmem \<Rightarrow>
    (u32 \<times> i32 option \<times> dmem) option" where
  "aicpu_execute env descriptor slot_id expected_bytes request serialize return_value m =
     (if \<not> nds_storage_descriptor_valid descriptor \<or> \<not> nds_storage_slot_id_valid m descriptor slot_id \<or> expected_bytes = 0
      then Some (kNdsAicpuInvalidArgument, return_value, m)
      else
        (let slot_index = nds_storage_slot_id_index slot_id
         in case (descriptor, nds_storage_state descriptor slot_index, nds_storage_slot descriptor slot_index) of
              (Some d, Some state_address, Some slot_address) \<Rightarrow>
                if ss_command_id (g_storage_state m state_address) = 0 \<or> ss_in_flight (g_storage_state m state_address) \<noteq> 0
                then Some (kNdsAicpuInvalidArgument, return_value, m)
                else aicpu_run_claimed env d state_address (g_slot m slot_address) slot_index expected_bytes request
                       serialize return_value m
            | _ \<Rightarrow> Some (kNdsAicpuInvalidArgument, return_value, m)))"

definition aicpu_batch_bytes :: "dmem \<Rightarrow> NdsStorageBatchOperation option \<Rightarrow> bool \<Rightarrow> u32" where
  "aicpu_batch_bytes m args is_write =
     (case args of
        None \<Rightarrow> 0
      | Some operation \<Rightarrow>
          if sb_entries_address operation = 0 \<or> sb_entries_key operation = 0 \<or> sb_entry_count operation = 0
            \<or> sb_entry_count operation > kStorageMaxBatchEntries
          then 0
          else case batch_sum m (sb_entries_address operation) is_write (unat (sb_entry_count operation)) 0 0 of
            None \<Rightarrow> 0
          | Some tot \<Rightarrow> if tot > 0xffffffff then 0 else ucast tot)"

definition nds_aicpu_storage_bootstrap :: "aicpu_env \<Rightarrow> NdsStorageBootstrapDescriptor option \<Rightarrow> i32 option \<Rightarrow> dmem \<Rightarrow>
    (u32 \<times> i32 option \<times> dmem) option" where
  "nds_aicpu_storage_bootstrap env bootstrap return_value m =
     (case bootstrap of
        None \<Rightarrow> Some (kNdsAicpuInvalidArgument, return_value, m)
      | Some b \<Rightarrow>
          if sg_address (bd_bootstrap b) = 0 \<or> sg_local_key (bd_bootstrap b) = 0
            \<or> sg_length (bd_bootstrap b) < kStorageBootstrapBytes
          then Some (kNdsAicpuInvalidArgument, return_value, m)
          else if nds_transport_qp (Some (bd_transport b)) 0 = None \<or> nds_transport_qp_state (Some (bd_transport b)) 0 = None
          then Some (kNdsAicpuInvalidArgument, return_value, m)
          else nds_aicpu_rdma_send env (Some (bd_transport b)) 0
                 (Some \<lparr>sw_wr_id = 1, sw_opcode = NDS_WR_SEND, sw_flags = 0, sw_local = bd_bootstrap b,
                        sw_remote_address = 0, sw_remote_key = 0\<rparr>) return_value m)"

definition nds_aicpu_storage_read :: "aicpu_env \<Rightarrow> NdsStorageOperationArgs option \<Rightarrow> i32 option \<Rightarrow> dmem \<Rightarrow>
    (u32 \<times> i32 option \<times> dmem) option" where
  "nds_aicpu_storage_read env args return_value m =
     (case args of
        None \<Rightarrow> Some (kNdsAicpuInvalidArgument, return_value, m)
      | Some a \<Rightarrow>
          if operation_refused (oa_operation a) then Some (kNdsAicpuInvalidArgument, return_value, m)
          else aicpu_execute env (Some (oa_storage a)) (so_slot_id (oa_operation a)) (so_length (oa_operation a))
                 (read_request (oa_operation a)) serialize_storage_read return_value m)"

definition nds_aicpu_storage_write :: "aicpu_env \<Rightarrow> NdsStorageOperationArgs option \<Rightarrow> i32 option \<Rightarrow> dmem \<Rightarrow>
    (u32 \<times> i32 option \<times> dmem) option" where
  "nds_aicpu_storage_write env args return_value m =
     (case args of
        None \<Rightarrow> Some (kNdsAicpuInvalidArgument, return_value, m)
      | Some a \<Rightarrow>
          if operation_refused (oa_operation a) then Some (kNdsAicpuInvalidArgument, return_value, m)
          else aicpu_execute env (Some (oa_storage a)) (so_slot_id (oa_operation a)) (so_length (oa_operation a))
                 (write_request (oa_operation a)) serialize_storage_write return_value m)"

text \<open>With a null \<open>args\<close> the sources pass a null descriptor on, which \<open>execute\<close> refuses.\<close>

definition nds_aicpu_storage_batch_read :: "aicpu_env \<Rightarrow> NdsStorageBatchOperationArgs option \<Rightarrow> i32 option \<Rightarrow> dmem \<Rightarrow>
    (u32 \<times> i32 option \<times> dmem) option" where
  "nds_aicpu_storage_batch_read env args return_value m =
     (let tot = aicpu_batch_bytes m (map_option ba_operation args) False
      in case args of
           None \<Rightarrow> Some (kNdsAicpuInvalidArgument, return_value, m)
         | Some a \<Rightarrow> aicpu_execute env (Some (ba_storage a)) (sb_slot_id (ba_operation a)) tot
                      (batch_read_request (ba_operation a) tot) serialize_storage_batch_read return_value m)"

definition nds_aicpu_storage_batch_write :: "aicpu_env \<Rightarrow> NdsStorageBatchOperationArgs option \<Rightarrow> i32 option \<Rightarrow> dmem \<Rightarrow>
    (u32 \<times> i32 option \<times> dmem) option" where
  "nds_aicpu_storage_batch_write env args return_value m =
     (let tot = aicpu_batch_bytes m (map_option ba_operation args) True
      in case args of
           None \<Rightarrow> Some (kNdsAicpuInvalidArgument, return_value, m)
         | Some a \<Rightarrow> aicpu_execute env (Some (ba_storage a)) (sb_slot_id (ba_operation a)) tot
                      (batch_write_request (ba_operation a) tot) serialize_storage_batch_write return_value m)"

definition nds_aicpu_storage_wait :: "NdsStorageDescriptor option \<Rightarrow> u32 \<Rightarrow> i32 option \<Rightarrow> dmem \<Rightarrow> u32 \<times> i32 option" where
  "nds_aicpu_storage_wait descriptor slot_id return_value m =
     (if return_value = None \<or> \<not> nds_storage_slot_id_valid m descriptor slot_id
      then (kNdsAicpuInvalidArgument, return_value)
      else
        (let slot_index = nds_storage_slot_id_index slot_id
         in case (nds_storage_state descriptor slot_index, nds_storage_slot descriptor slot_index) of
              (Some state_address, Some slot_address) \<Rightarrow>
                (let state = g_storage_state m state_address; slot = g_slot m slot_address
                 in if ss_in_flight state = 0 then (kNdsAicpuInvalidArgument, return_value)
                    else if ss_status state \<noteq> 0
                    then (kNdsAicpuSuccess, NdsAicpuSetReturnValue return_value (- ss_status state))
                    else (kNdsAicpuSuccess,
                          NdsAicpuSetReturnValue return_value
                            (completion_verdict state
                              (get_bytes m (sg_address (sl_completion_buffer slot)) (unat kStorageCompletionBytes)))))
            | _ \<Rightarrow> (kNdsAicpuInvalidArgument, return_value)))"

section \<open>Entry points\<close>

text \<open>
  The kernels of \<^verbatim>\<open>src/src/client/backends/aicpu/device/entrypoints.cc\<close>. A launch argument is a
  request with the address of its return value, or null; every kernel refuses null and calls
  its device function otherwise.
\<close>

definition kEntryInvalidArgument :: u32 where "kEntryInvalidArgument = 1"

type_synonym 'a launch = "('a \<times> i32 option) option"

definition aicpu_kernel :: "('a \<Rightarrow> i32 option \<Rightarrow> dmem \<Rightarrow> (u32 \<times> i32 option \<times> dmem) option) \<Rightarrow> 'a launch \<Rightarrow> dmem \<Rightarrow>
    (u32 \<times> i32 option \<times> dmem) option" where
  "aicpu_kernel f args m =
     (case args of
        None \<Rightarrow> Some (kEntryInvalidArgument, None, m)
      | Some (request, return_value) \<Rightarrow> f request return_value m)"

record NdsPostSendArgs =
  psa_qp :: NdsQpDescriptor
  psa_wr :: NdsSendWr

record NdsPostRecvArgs =
  pra_qp :: NdsQpDescriptor
  pra_wr :: NdsRecvWr

record NdsPollCqArgs =
  pca_qp :: NdsQpDescriptor
  pca_is_send_cq :: u32
  pca_max_completions :: u32
  pca_wc_address :: u64

record NdsRdmaSendArgs =
  rsa_transport :: NdsTransportDescriptor
  rsa_wr :: NdsSendWr
  rsa_queue_index :: u32

record NdsRdmaRecvArgs =
  rra_transport :: NdsTransportDescriptor
  rra_wr :: NdsRecvWr
  rra_queue_index :: u32

record NdsStorageWaitArgs =
  wa_storage :: NdsStorageDescriptor
  wa_slot_id :: u32

definition nds_aicpu_post_send_kernel :: "aicpu_env \<Rightarrow> NdsPostSendArgs launch \<Rightarrow> dmem \<Rightarrow> (u32 \<times> i32 option \<times> dmem) option" where
  "nds_aicpu_post_send_kernel env =
     aicpu_kernel (\<lambda>r rv m. Some (nds_aicpu_post_send env (Some (psa_qp r)) (Some (psa_wr r)) rv m))"

definition nds_aicpu_post_recv_kernel :: "NdsPostRecvArgs launch \<Rightarrow> dmem \<Rightarrow> (u32 \<times> i32 option \<times> dmem) option" where
  "nds_aicpu_post_recv_kernel =
     aicpu_kernel (\<lambda>r rv m. Some (nds_aicpu_post_recv (Some (pra_qp r)) (Some (pra_wr r)) rv m))"

definition nds_aicpu_poll_cq_kernel :: "aicpu_env \<Rightarrow> NdsPollCqArgs launch \<Rightarrow> dmem \<Rightarrow>
    u32 \<times> i32 option \<times> NdsWc list \<times> dmem" where
  "nds_aicpu_poll_cq_kernel env args m =
     (case args of
        None \<Rightarrow> (kEntryInvalidArgument, None, [], m)
      | Some (r, return_value) \<Rightarrow>
          nds_aicpu_poll_cq env (Some (pca_qp r)) (pca_is_send_cq r) (pca_max_completions r) (pca_wc_address r \<noteq> 0)
            return_value m)"

definition nds_aicpu_rdma_send_kernel :: "aicpu_env \<Rightarrow> NdsRdmaSendArgs launch \<Rightarrow> dmem \<Rightarrow> (u32 \<times> i32 option \<times> dmem) option" where
  "nds_aicpu_rdma_send_kernel env =
     aicpu_kernel (\<lambda>r. nds_aicpu_rdma_send env (Some (rsa_transport r)) (rsa_queue_index r) (Some (rsa_wr r)))"

definition nds_aicpu_rdma_recv_kernel :: "aicpu_env \<Rightarrow> NdsRdmaRecvArgs launch \<Rightarrow> dmem \<Rightarrow> (u32 \<times> i32 option \<times> dmem) option" where
  "nds_aicpu_rdma_recv_kernel env =
     aicpu_kernel (\<lambda>r rv m. Some (nds_aicpu_rdma_recv env (Some (rra_transport r)) (rra_queue_index r) (Some (rra_wr r)) rv m))"

definition nds_aicpu_rdma_read_kernel :: "aicpu_env \<Rightarrow> NdsRdmaSendArgs launch \<Rightarrow> dmem \<Rightarrow> (u32 \<times> i32 option \<times> dmem) option" where
  "nds_aicpu_rdma_read_kernel env =
     aicpu_kernel (\<lambda>r. nds_aicpu_rdma_read env (Some (rsa_transport r)) (rsa_queue_index r) (Some (rsa_wr r)))"

definition nds_aicpu_rdma_write_kernel :: "aicpu_env \<Rightarrow> NdsRdmaSendArgs launch \<Rightarrow> dmem \<Rightarrow> (u32 \<times> i32 option \<times> dmem) option" where
  "nds_aicpu_rdma_write_kernel env =
     aicpu_kernel (\<lambda>r. nds_aicpu_rdma_write env (Some (rsa_transport r)) (rsa_queue_index r) (Some (rsa_wr r)))"

definition nds_aicpu_storage_bootstrap_kernel :: "aicpu_env \<Rightarrow> NdsStorageBootstrapDescriptor launch \<Rightarrow> dmem \<Rightarrow>
    (u32 \<times> i32 option \<times> dmem) option" where
  "nds_aicpu_storage_bootstrap_kernel env = aicpu_kernel (\<lambda>r. nds_aicpu_storage_bootstrap env (Some r))"

definition nds_aicpu_storage_read_kernel :: "aicpu_env \<Rightarrow> NdsStorageOperationArgs launch \<Rightarrow> dmem \<Rightarrow>
    (u32 \<times> i32 option \<times> dmem) option" where
  "nds_aicpu_storage_read_kernel env = aicpu_kernel (\<lambda>r. nds_aicpu_storage_read env (Some r))"

definition nds_aicpu_storage_write_kernel :: "aicpu_env \<Rightarrow> NdsStorageOperationArgs launch \<Rightarrow> dmem \<Rightarrow>
    (u32 \<times> i32 option \<times> dmem) option" where
  "nds_aicpu_storage_write_kernel env = aicpu_kernel (\<lambda>r. nds_aicpu_storage_write env (Some r))"

definition nds_aicpu_storage_batch_read_kernel :: "aicpu_env \<Rightarrow> NdsStorageBatchOperationArgs launch \<Rightarrow> dmem \<Rightarrow>
    (u32 \<times> i32 option \<times> dmem) option" where
  "nds_aicpu_storage_batch_read_kernel env = aicpu_kernel (\<lambda>r. nds_aicpu_storage_batch_read env (Some r))"

definition nds_aicpu_storage_batch_write_kernel :: "aicpu_env \<Rightarrow> NdsStorageBatchOperationArgs launch \<Rightarrow> dmem \<Rightarrow>
    (u32 \<times> i32 option \<times> dmem) option" where
  "nds_aicpu_storage_batch_write_kernel env = aicpu_kernel (\<lambda>r. nds_aicpu_storage_batch_write env (Some r))"

definition nds_aicpu_storage_wait_kernel :: "NdsStorageWaitArgs launch \<Rightarrow> dmem \<Rightarrow> (u32 \<times> i32 option \<times> dmem) option" where
  "nds_aicpu_storage_wait_kernel =
     aicpu_kernel (\<lambda>r rv m.
       if \<not> nds_storage_wait_valid m (Some (wa_storage r)) (wa_slot_id r)
       then Some (kEntryInvalidArgument, NdsAicpuSetReturnValue rv NDS_OPERATION_INVALID_ARGUMENT, m)
       else case nds_aicpu_storage_wait (Some (wa_storage r)) (wa_slot_id r) rv m of (status, rv) \<Rightarrow> Some (status, rv, m))"

section \<open>Lemmas\<close>

text \<open>The memory the send of a claimed slot starts from, for any serializer.\<close>

lemma aicpu_run_claimed_posts:
  assumes cid: "ss_command_id (g_storage_state m a) = cid" "cid \<noteq> 0"
    and ser: "serialize (request cid i) (Some (replicate 64 0)) kStorageCommandBytes = (SerdeOk, Some cmd)" "length cmd = 64"
    and disj: "disjoint_buffers (sg_address (sl_completion_buffer slot)) 32 (sg_address (sl_command_buffer slot)) 64"
  shows "\<exists>m1. aicpu_run_claimed env d a slot i n request serialize rv m =
      (case nds_aicpu_rdma_send env (Some (sd_transport d)) (sl_qp_index slot) (Some (command_transfer cid slot))
              (Some (- NDS_OPERATION_PROVIDER_FAILED)) m1 of
         None \<Rightarrow> None
       | Some (ps, post, m2) \<Rightarrow>
           Some (ps, NdsAicpuSetReturnValue rv (if the post = 0 then NDS_OPERATION_SUCCESS else - the post),
             put_storage_state a ((g_storage_state m2 a)\<lparr>ss_status := the post\<rparr>) m2))
    \<and> get_bytes m1 (sg_address (sl_command_buffer slot)) 64 = cmd
    \<and> (\<forall>old. deserialize_storage_completion (Some (get_bytes m1 (sg_address (sl_completion_buffer slot)) 32))
          kStorageCompletionBytes (Some old) =
        (SerdeOk, Some \<lparr>c_command_id = cid, c_state = StatePending, c_status = StatusSuccess, c_bytes_transferred = 0\<rparr>))
    \<and> g_storage_state m1 a = \<lparr>ss_command_id = cid, ss_expected_bytes = n, ss_in_flight = 1, ss_status = 0\<rparr>"
proof -
  from pending_roundtrip [OF cid(2)] obtain p where p:
    "serialize_storage_completion \<lparr>c_command_id = cid, c_state = StatePending, c_status = StatusSuccess, c_bytes_transferred = 0\<rparr>
       (Some (replicate 32 0)) kStorageCompletionBytes = (SerdeOk, Some p)" "length p = 32"
    "\<And>old. deserialize_storage_completion (Some p) kStorageCompletionBytes (Some old) =
       (SerdeOk, Some \<lparr>c_command_id = cid, c_state = StatePending, c_status = StatusSuccess, c_bytes_transferred = 0\<rparr>)"
    by metis
  let ?s = "(g_storage_state m a)\<lparr>ss_expected_bytes := n, ss_in_flight := 1, ss_status := 0\<rparr>"
  let ?m0 = "put_bytes (sg_address (sl_completion_buffer slot)) p (put_storage_state a ?s m)"
  let ?m1 = "put_bytes (sg_address (sl_command_buffer slot)) cmd ?m0"
  have "aicpu_run_claimed env d a slot i n request serialize rv m =
      (case nds_aicpu_rdma_send env (Some (sd_transport d)) (sl_qp_index slot) (Some (command_transfer cid slot))
              (Some (- NDS_OPERATION_PROVIDER_FAILED)) ?m1 of
         None \<Rightarrow> None
       | Some (ps, post, m2) \<Rightarrow>
           Some (ps, NdsAicpuSetReturnValue rv (if the post = 0 then NDS_OPERATION_SUCCESS else - the post),
             put_storage_state a ((g_storage_state m2 a)\<lparr>ss_status := the post\<rparr>) m2))"
    using cid p(1) ser(1) by (simp add: aicpu_run_claimed_def ucast_consts Let_def split: option.split)
  moreover have "get_bytes ?m1 (sg_address (sl_command_buffer slot)) 64 = cmd"
    using get_put_bytes [of cmd] ser(2) by simp
  moreover have "get_bytes ?m1 (sg_address (sl_completion_buffer slot)) 32 = p"
    using get_put_bytes [of p] p(2) disj ser(2) by (simp add: get_put_bytes_disjoint)
  moreover have "g_storage_state ?m1 a = \<lparr>ss_command_id = cid, ss_expected_bytes = n, ss_in_flight = 1, ss_status = 0\<rparr>"
    using cid by simp
  ultimately show ?thesis using p(3) by (intro exI [of _ ?m1]) simp
qed

lemma aicpu_execute_claims:
  assumes "nds_storage_slot_id_valid m (Some d) slot_id"
    and "nds_storage_state (Some d) (nds_storage_slot_id_index slot_id) = Some a"
    and "nds_storage_slot (Some d) (nds_storage_slot_id_index slot_id) = Some sa"
    and "ss_command_id (g_storage_state m a) \<noteq> 0" and "ss_in_flight (g_storage_state m a) = 0" and "n \<noteq> 0"
  shows "aicpu_execute env (Some d) slot_id n request serialize rv m =
    aicpu_run_claimed env d a (g_slot m sa) (nds_storage_slot_id_index slot_id) n request serialize rv m"
  using assms slot_id_valid_parts [OF assms(1)] by (auto simp: aicpu_execute_def Let_def)

text \<open>The outcome of an execution from the state its send starts in.\<close>

definition aicpu_sent :: "aicpu_env \<Rightarrow> NdsStorageDescriptor \<Rightarrow> u64 \<Rightarrow> NdsStorageSlotDescriptor \<Rightarrow> u64 \<Rightarrow> i32 option \<Rightarrow> dmem \<Rightarrow>
    (u32 \<times> i32 option \<times> dmem) option" where
  "aicpu_sent env d a slot cid rv m1 =
     (case nds_aicpu_rdma_send env (Some (sd_transport d)) (sl_qp_index slot) (Some (command_transfer cid slot))
             (Some (- NDS_OPERATION_PROVIDER_FAILED)) m1 of
        None \<Rightarrow> None
      | Some (ps, post, m2) \<Rightarrow>
          Some (ps, NdsAicpuSetReturnValue rv (if the post = 0 then NDS_OPERATION_SUCCESS else - the post),
            put_storage_state a ((g_storage_state m2 a)\<lparr>ss_status := the post\<rparr>) m2))"

context wire_codec
begin

lemma aicpu_execute_posts:
  assumes nb: "nbytes = kStorageCommandBytes"
    and slot: "nds_storage_slot_id_valid m (Some d) slot_id"
      "nds_storage_state (Some d) (nds_storage_slot_id_index slot_id) = Some a"
      "nds_storage_slot (Some d) (nds_storage_slot_id_index slot_id) = Some sa"
      "ss_command_id (g_storage_state m a) \<noteq> 0" "ss_in_flight (g_storage_state m a) = 0"
    and n: "n \<noteq> 0"
    and v: "valid (request (ss_command_id (g_storage_state m a)) (nds_storage_slot_id_index slot_id))"
    and disj: "disjoint_buffers (sg_address (sl_completion_buffer (g_slot m sa))) 32 (sg_address (sl_command_buffer (g_slot m sa))) 64"
  shows "\<exists>m1. aicpu_execute env (Some d) slot_id n request enc rv m =
      aicpu_sent env d a (g_slot m sa) (ss_command_id (g_storage_state m a)) rv m1
    \<and> dec (Some (get_bytes m1 (sg_address (sl_command_buffer (g_slot m sa))) 64)) kStorageCommandBytes (Some old)
      = (SerdeOk, Some (request (ss_command_id (g_storage_state m a)) (nds_storage_slot_id_index slot_id)))
    \<and> slot_claimed m1 a (g_slot m sa) (ss_command_id (g_storage_state m a)) n"
proof -
  let ?req = "request (ss_command_id (g_storage_state m a)) (nds_storage_slot_id_index slot_id)"
  let ?cmd = "put ?req (replicate 64 0)"
  have 64: "unat nbytes \<le> length (replicate 64 (0 :: u8))" by (simp add: nb kStorageCommandBytes_def)
  have "enc ?req (Some (replicate 64 0)) kStorageCommandBytes = (SerdeOk, Some ?cmd)" "length ?cmd = 64"
    using enc_some [OF v, of kStorageCommandBytes] put_frame [of ?req "replicate 64 0"] by (simp_all add: nb)
  from aicpu_run_claimed_posts [where request = request and serialize = enc, OF refl slot(4) this disj, of env d n rv]
  show ?thesis
    using dec_put [OF v 64 order.refl, of old]
    by (auto simp: aicpu_execute_claims [OF slot n] aicpu_sent_def slot_claimed_def completion_verdict_def
        storage_status_defs nb)
qed

end

section \<open>Properties\<close>

text \<open>
  C12: what an AICPU storage read sends. For a free slot with a command id, the read claims the
  slot, and at the moment the send is posted the slot's command buffer holds 64 bytes that the
  server's decoder turns into the requested command with the slot's id and index; the
  completion buffer holds a pending completion, so that no earlier completion can be taken for
  this one; the send covers exactly those 64 bytes on the queue pair of the slot.
\<close>

theorem aicpu_storage_read_posts_command:
  assumes "nds_storage_slot_id_valid m (Some d) (so_slot_id operation)"
    and "nds_storage_state (Some d) (nds_storage_slot_id_index (so_slot_id operation)) = Some a"
    and "nds_storage_slot (Some d) (nds_storage_slot_id_index (so_slot_id operation)) = Some sa"
    and "ss_command_id (g_storage_state m a) \<noteq> 0" and "ss_in_flight (g_storage_state m a) = 0"
    and "\<not> operation_refused operation"
    and "disjoint_buffers (sg_address (sl_completion_buffer (g_slot m sa))) 32 (sg_address (sl_command_buffer (g_slot m sa))) 64"
  shows "\<exists>m1. nds_aicpu_storage_read env (Some \<lparr>oa_storage = d, oa_operation = operation\<rparr>) rv m =
      aicpu_sent env d a (g_slot m sa) (ss_command_id (g_storage_state m a)) rv m1
    \<and> deserialize_storage_read (Some (get_bytes m1 (sg_address (sl_command_buffer (g_slot m sa))) 64)) kStorageCommandBytes
        (Some old) = (SerdeOk, Some (read_request operation (ss_command_id (g_storage_state m a))
          (nds_storage_slot_id_index (so_slot_id operation))))
    \<and> slot_claimed m1 a (g_slot m sa) (ss_command_id (g_storage_state m a)) (so_length operation)"
proof -
  have n: "so_length operation \<noteq> 0" using assms(6) by (simp add: operation_refused_def)
  show ?thesis
    using read_codec.aicpu_execute_posts [where request = "read_request operation",
        OF refl assms(1-5) n request_valid(1) [OF assms(6,4)] assms(7)] assms(6)
    by (simp add: nds_aicpu_storage_read_def)
qed

theorem aicpu_storage_read_posts_command_witness:
  "\<exists>m1. nds_aicpu_storage_read sample_aicpu_env (Some \<lparr>oa_storage = sample_storage, oa_operation = sample_operation\<rparr>)
        (Some 1) sample_dmem =
      aicpu_sent sample_aicpu_env sample_storage 0xb000 (g_slot sample_dmem 0xa000) 77 (Some 1) m1
    \<and> deserialize_storage_read (Some (get_bytes m1 0x8000 64)) kStorageCommandBytes
        (Some sample_read) = (SerdeOk, Some (read_request sample_operation 77 0))
    \<and> slot_claimed m1 0xb000 (g_slot sample_dmem 0xa000) 77 256"
proof -
  have i: "nds_storage_slot_id_index 0 = 0" by (simp add: nds_storage_slot_id_index_def)
  have "\<not> operation_refused sample_operation" by (simp add: operation_refused_def sample_operation_def)
  from aicpu_storage_read_posts_command [of sample_dmem sample_storage sample_operation "0xb000" "0xa000" sample_aicpu_env
      "Some 1" sample_read, OF _ _ _ _ _ this] sample_slot_valid sample_slot_disjoint
  show ?thesis
    by (simp add: sample_operation_def i nds_storage_state_def nds_storage_slot_def nds_storage_descriptor_valid_def
        sample_storage_def sample_transport_def) (simp add: sample_dmem_def sample_sge_def)
qed

text \<open>
  When the AICPU wait reports success. Exactly when the slot is in flight without a launch
  error and its completion buffer decodes to a completed, successful completion of the slot's
  current command with the expected number of bytes.
\<close>

theorem aicpu_storage_wait_success_iff:
  assumes "nds_storage_slot_id_valid m (Some d) slot_id"
    and "nds_storage_state (Some d) (nds_storage_slot_id_index slot_id) = Some a"
    and "nds_storage_slot (Some d) (nds_storage_slot_id_index slot_id) = Some sa"
  shows "nds_aicpu_storage_wait (Some d) slot_id (Some v) m = (kNdsAicpuSuccess, Some 0) \<longleftrightarrow>
    ss_in_flight (g_storage_state m a) \<noteq> 0 \<and> ss_status (g_storage_state m a) = 0 \<and>
    deserialize_storage_completion (Some (get_bytes m (sg_address (sl_completion_buffer (g_slot m sa))) 32))
      kStorageCompletionBytes (Some zero_completion) =
      (SerdeOk, Some \<lparr>c_command_id = ss_command_id (g_storage_state m a), c_state = StateComplete,
        c_status = StatusSuccess, c_bytes_transferred = ucast (ss_expected_bytes (g_storage_state m a))\<rparr>)"
proof -
  have v: "completion_verdict s b = NDS_OPERATION_SUCCESS \<longleftrightarrow>
      deserialize_storage_completion (Some b) kStorageCompletionBytes (Some zero_completion) =
      (SerdeOk, Some \<lparr>c_command_id = ss_command_id s, c_state = StateComplete,
        c_status = StatusSuccess, c_bytes_transferred = ucast (ss_expected_bytes s)\<rparr>)" for s b
    by (auto simp: completion_verdict_def split: prod.splits option.splits StorageSerdeResult.splits if_splits)
  have "kNdsAicpuInvalidArgument \<noteq> kNdsAicpuSuccess"
    by (simp add: kNdsAicpuInvalidArgument_def kNdsAicpuSuccess_def)
  moreover have "- x = NDS_OPERATION_SUCCESS \<longleftrightarrow> x = 0" for x :: u32 by (simp add: NDS_OPERATION_SUCCESS_def)
  ultimately show ?thesis
    using assms by (simp add: nds_aicpu_storage_wait_def Let_def ucast_consts v)
qed

theorem aicpu_storage_wait_success_iff_witness:
  "nds_aicpu_storage_wait (Some sample_storage) 0 (Some 9) sample_done_dmem = (kNdsAicpuSuccess, Some 0)"
proof -
  have i: "nds_storage_slot_id_index 0 = 0" by (simp add: nds_storage_slot_id_index_def)
  have slots: "g_slot sample_done_dmem = g_slot sample_dmem" by (simp add: sample_done_dmem_def)
  have "nds_storage_slot_id_valid sample_done_dmem (Some sample_storage) 0"
    using sample_slot_valid by (simp add: nds_storage_slot_id_valid_def nds_storage_slot_valid_def slots Let_def split: option.splits)
  from aicpu_storage_wait_success_iff [OF this, of "0xb000" "0xa000" 9] sample_done_decodes [of zero_completion]
  show ?thesis
    by (simp add: i slots nds_storage_state_def nds_storage_slot_def nds_storage_descriptor_valid_def
        sample_storage_def sample_transport_def)
      (simp add: sample_dmem_def sample_done_dmem_def sample_sge_def sample_done_def)
qed

text \<open>
  The byte count of a batch is not protected against 64-bit wrap-around. The guard of
  the summing loop subtracts a 64-bit length from \<open>UINT32_MAX\<close>; for a descriptor array whose
  two entries name more than \<open>2 ^ 64\<close> bytes together the computed total is 3, so the batch is
  posted with 3 expected bytes instead of being refused.
\<close>

theorem aicpu_batch_bytes_wraps:
  "aicpu_batch_bytes huge_dmem (Some \<lparr>sb_slot_id = 0, sb_entry_count = 2, sb_entries_address = 0x100,
      sb_entries_key = 1, sb_reserved = 0\<rparr>) False = 3
   \<and> entry_lengths huge_dmem 0x100 False 2 0 = [Some 0x100000005, Some 0xfffffffefffffffe]"
proof -
  have d: "entry_length False (get_bytes huge_dmem 0x100 40) = Some 0x100000005"
    "entry_length False (get_bytes huge_dmem 0x128 40) = Some 0xfffffffefffffffe"
    by (simp_all add: huge_dmem_entries huge_entry_decodes)
  have two: "(2 :: nat) = Suc (Suc 0)" by simp
  have "batch_sum huge_dmem 0x100 False 2 0 0 = Some 3"
    unfolding two by (simp add: kStorageBatchEntryBytes_def d)
  moreover have "entry_lengths huge_dmem 0x100 False 2 0 = [Some 0x100000005, Some 0xfffffffefffffffe]"
    unfolding two by (simp add: entry_lengths_Suc kStorageBatchEntryBytes_def d) (simp add: entry_lengths_def)
  ultimately show ?thesis
    by (simp add: aicpu_batch_bytes_def kStorageMaxBatchEntries_def)
qed

end
