(* ===== verification/Aiv_Verbs.thy ===== *)
theory Aiv_Verbs
  imports Device_Storage
begin

text \<open>
  The AIV device verbs of \<^verbatim>\<open>src/src/client/backends/aiv/device/verbs.cc\<close>, which write the hardware
  queues directly, with \<open>NdsAivSetReturnValue\<close> of \<^verbatim>\<open>internal.h\<close>. Functions return the value behind
  \<open>return_value\<close> (\<open>None\<close> for a null pointer) and the memory; \<open>scratch\<close> says whether a scratch
  buffer was given. Cache maintenance and pipe barriers have no effect on a sequential model.
\<close>

definition NdsAivSetReturnValue :: "i32 option \<Rightarrow> u32 \<Rightarrow> i32 option" where
  "NdsAivSetReturnValue return_value status =
     map_option (\<lambda>_. if status = NDS_OPERATION_SUCCESS then 0 else - status) return_value"

definition NdsAivValidQp :: "NdsQpDescriptor option \<Rightarrow> bool" where
  "NdsAivValidQp qp \<longleftrightarrow> qp \<noteq> None"

section \<open>Posting\<close>

definition ValidSendWr :: "NdsSendWr option \<Rightarrow> bool" where
  "ValidSendWr wr =
     (case wr of
        None \<Rightarrow> False
      | Some w \<Rightarrow> sw_opcode w = NDS_WR_SEND \<or> sw_opcode w = NDS_WR_RDMA_READ \<or> sw_opcode w = NDS_WR_RDMA_WRITE)"

definition LoadSendWr :: "dmem \<Rightarrow> u64 \<Rightarrow> u32 \<Rightarrow> NdsSendWr" where
  "LoadSendWr m wrs index = g_wr m (wrs + 48 * ucast index)"

definition wqe_address :: "NdsWorkQueueDescriptor \<Rightarrow> u32 \<Rightarrow> u64" where
  "wqe_address queue producer = q_buffer_address queue + ucast (q_entry_size queue) * ucast (producer mod q_depth queue)"

definition PopulateDeviceSendWqe :: "NdsWorkQueueDescriptor \<Rightarrow> u32 \<Rightarrow> NdsSendWr \<Rightarrow> dmem \<Rightarrow> dmem" where
  "PopulateDeviceSendWqe queue producer wr m =
     (let address = wqe_address queue producer;
          hns_opcode = NDS_HNS_HW_SQ_OPCODE_FROM_DEVICE (sw_opcode wr);
          signaled = (if sw_flags wr AND NDS_SEND_SIGNALED \<noteq> 0 then NDS_HNS_HW_SQ_SIGNALED else 0);
          wqe = \<lparr>sq_byte_4 = hns_opcode OR signaled, sq_message_length = sg_length (sw_local wr),
                 sq_immediate_data = 0, sq_sge_count = push_bit 24 1, sq_start_sge_index = 0,
                 sq_remote_key = (if sw_opcode wr = NDS_WR_SEND then 0 else sw_remote_key wr),
                 sq_remote_address = (if sw_opcode wr = NDS_WR_SEND then 0 else sw_remote_address wr)\<rparr>;
          m = m\<lparr>g_seg := (g_seg m)(address + 32 :=
                 \<lparr>seg_length = sg_length (sw_local wr), seg_local_key = sg_local_key (sw_local wr),
                  seg_address = sg_address (sw_local wr)\<rparr>)\<rparr>;
          m = put_u64 (u64_at (q_wr_id_address queue) (producer mod q_depth queue)) (sw_wr_id wr) m;
          owner = drop_bit 15 producer AND 1;
          wqe = wqe\<lparr>sq_byte_4 := sq_byte_4 wqe OR (push_bit 7 (NOT owner) AND push_bit 7 1)\<rparr>
      in m\<lparr>g_sqe := (g_sqe m)(address := wqe)\<rparr>)"

definition RingDeviceSendDoorbell :: "u32 \<Rightarrow> NdsWorkQueueDescriptor \<Rightarrow> u32 \<Rightarrow> dmem \<Rightarrow> dmem" where
  "RingDeviceSendDoorbell service_level queue producer m =
     (let m = put_u32 (q_head_address queue) producer m;
          doorbell = ucast (q_number queue) OR push_bit 32 (ucast (producer AND 0xffff)) OR push_bit 48 (ucast service_level)
      in put_u64 (q_doorbell_address queue) doorbell m)"

text \<open>
  The variants for descriptors in local memory have the same bodies; only the address space of
  the descriptor differs.
\<close>

definition PopulateLocalSendWqe :: "NdsWorkQueueDescriptor \<Rightarrow> u32 \<Rightarrow> NdsSendWr \<Rightarrow> dmem \<Rightarrow> dmem" where
  "PopulateLocalSendWqe queue producer wr m = PopulateDeviceSendWqe queue producer wr m"

definition RingLocalSendDoorbell :: "u32 \<Rightarrow> NdsWorkQueueDescriptor \<Rightarrow> u32 \<Rightarrow> dmem \<Rightarrow> dmem" where
  "RingLocalSendDoorbell service_level queue producer m = RingDeviceSendDoorbell service_level queue producer m"

definition nds_aiv_post_send :: "NdsQpDescriptor option \<Rightarrow> NdsSendWr option \<Rightarrow> i32 option \<Rightarrow> bool \<Rightarrow> dmem \<Rightarrow>
    i32 option \<times> dmem" where
  "nds_aiv_post_send qp wr return_value scratch m =
     (case (qp, wr) of
        (Some qp, Some wr) \<Rightarrow>
          if \<not> ValidSendWr (Some wr) \<or> \<not> scratch
          then (NdsAivSetReturnValue return_value NDS_OPERATION_INVALID_ARGUMENT, m)
          else
            (let queue = qd_send_queue qp; head = g_u32 m (q_head_address queue)
             in if q_depth queue \<le> 1 \<or> head - g_u32 m (q_tail_address queue) \<ge> q_depth queue - 1
                then (NdsAivSetReturnValue return_value NDS_OPERATION_QUEUE_FULL, m)
                else
                  (let m = PopulateLocalSendWqe queue head wr m;
                       m = RingLocalSendDoorbell (qd_service_level qp) queue (head + 1) m
                   in (NdsAivSetReturnValue return_value NDS_OPERATION_SUCCESS, m)))
      | _ \<Rightarrow> (NdsAivSetReturnValue return_value NDS_OPERATION_INVALID_ARGUMENT, m))"

text \<open>The first request of a batch, from \<open>index\<close> on, whose opcode is not accepted.\<close>

fun first_invalid_wr :: "dmem \<Rightarrow> u64 \<Rightarrow> nat \<Rightarrow> u32 \<Rightarrow> u32 option" where
  "first_invalid_wr m wrs 0 index = None"
| "first_invalid_wr m wrs (Suc n) index =
     (if \<not> ValidSendWr (Some (LoadSendWr m wrs index)) then Some index else first_invalid_wr m wrs n (index + 1))"

text \<open>The posting loop of the batch: the request that completes the posted prefix is signaled.\<close>

fun aiv_batch_populate :: "NdsWorkQueueDescriptor \<Rightarrow> u64 \<Rightarrow> u32 \<Rightarrow> u32 \<Rightarrow> nat \<Rightarrow> u32 \<Rightarrow> dmem \<Rightarrow> dmem" where
  "aiv_batch_populate queue wrs head posted 0 index m = m"
| "aiv_batch_populate queue wrs head posted (Suc n) index m =
     (let wr = LoadSendWr m wrs index;
          wr = (if index + 1 = posted then wr\<lparr>sw_flags := sw_flags wr OR NDS_SEND_SIGNALED\<rparr> else wr)
      in aiv_batch_populate queue wrs head posted n (index + 1) (PopulateDeviceSendWqe queue (head + index) wr m))"

definition nds_aiv_post_send_batch :: "NdsQpDescriptor option \<Rightarrow> u64 option \<Rightarrow> u32 \<Rightarrow> i32 option \<Rightarrow> u64 option \<Rightarrow> bool \<Rightarrow>
    dmem \<Rightarrow> i32 option \<times> u64 option \<times> dmem" where
  "nds_aiv_post_send_batch qp wrs wr_count return_value bad_wr_address scratch m =
     (if return_value = None then (return_value, bad_wr_address, m)
      else if bad_wr_address = None
      then (NdsAivSetReturnValue return_value NDS_OPERATION_INVALID_ARGUMENT, bad_wr_address, m)
      else case (qp, wrs) of
        (Some qp, Some wrs) \<Rightarrow>
          if wr_count = 0 then (NdsAivSetReturnValue return_value NDS_OPERATION_INVALID_ARGUMENT, Some 0, m)
          else if \<not> scratch then (NdsAivSetReturnValue return_value NDS_OPERATION_INVALID_ARGUMENT, Some wrs, m)
          else
            (let queue = qd_send_queue qp; head = g_u32 m (q_head_address queue);
                 used = head - g_u32 m (q_tail_address queue)
             in if q_depth queue \<le> 1 \<or> used \<ge> q_depth queue - 1
                then (NdsAivSetReturnValue return_value NDS_OPERATION_QUEUE_FULL, Some wrs, m)
                else case first_invalid_wr m wrs (unat wr_count) 0 of
                  Some index \<Rightarrow>
                    (NdsAivSetReturnValue return_value NDS_OPERATION_INVALID_ARGUMENT, Some (wrs + 48 * ucast index), m)
                | None \<Rightarrow>
                    (let available = q_depth queue - 1 - used;
                         posted = (if wr_count < available then wr_count else available);
                         m = aiv_batch_populate queue wrs head posted (unat posted) 0 m;
                         m = (if posted \<noteq> 0 then RingDeviceSendDoorbell (qd_service_level qp) queue (head + posted) m else m)
                     in if posted \<noteq> wr_count
                        then (NdsAivSetReturnValue return_value NDS_OPERATION_QUEUE_FULL, Some (wrs + 48 * ucast posted), m)
                        else (NdsAivSetReturnValue return_value NDS_OPERATION_SUCCESS, Some 0, m)))
      | (_, wrs) \<Rightarrow>
          (NdsAivSetReturnValue return_value NDS_OPERATION_INVALID_ARGUMENT,
           Some (case wrs of Some a \<Rightarrow> if wr_count \<noteq> 0 then a else 0 | None \<Rightarrow> 0), m))"

definition nds_aiv_post_recv :: "NdsQpDescriptor option \<Rightarrow> NdsRecvWr option \<Rightarrow> i32 option \<Rightarrow> dmem \<Rightarrow> i32 option \<times> dmem" where
  "nds_aiv_post_recv qp wr return_value m =
     (if return_value = None then (return_value, m)
      else case (qp, wr) of
        (Some qp, Some wr) \<Rightarrow>
          (let queue = qd_receive_queue qp; head = g_u32 m (q_head_address queue)
           in if head - g_u32 m (q_tail_address queue) \<ge> q_depth queue
              then (NdsAivSetReturnValue return_value NDS_OPERATION_QUEUE_FULL, m)
              else
                (let m = m\<lparr>g_seg := (g_seg m)(wqe_address queue head :=
                           \<lparr>seg_length = sg_length (rw_local wr), seg_local_key = sg_local_key (rw_local wr),
                            seg_address = sg_address (rw_local wr)\<rparr>)\<rparr>;
                     m = put_u64 (u64_at (q_wr_id_address queue) (head mod q_depth queue)) (rw_wr_id wr) m;
                     nxt = head + 1;
                     m = put_u32 (q_doorbell_address queue) (nxt AND 0xffff) m;
                     m = put_u32 (q_head_address queue) nxt m
                 in (NdsAivSetReturnValue return_value NDS_OPERATION_SUCCESS, m)))
      | _ \<Rightarrow> (NdsAivSetReturnValue return_value NDS_OPERATION_INVALID_ARGUMENT, m))"

section \<open>Polling\<close>

definition aiv_cqe_address :: "NdsCqDescriptor \<Rightarrow> u32 \<Rightarrow> u64" where
  "aiv_cqe_address cq consumer = cq_buffer_address cq + ucast (cq_entry_size cq) * ucast (consumer mod cq_depth cq)"

fun aiv_poll_loop :: "dmem \<Rightarrow> NdsCqDescriptor \<Rightarrow> NdsWorkQueueDescriptor \<Rightarrow> bool \<Rightarrow> nat \<Rightarrow> u32 \<Rightarrow> u32 \<Rightarrow> NdsWc list \<Rightarrow>
    u32 \<times> u32 \<times> NdsWc list" where
  "aiv_poll_loop m cq wq is_send_cq 0 consumer tail wc = (consumer, tail, wc)"
| "aiv_poll_loop m cq wq is_send_cq (Suc n) consumer tail wc =
     (let cqe = g_cqe m (aiv_cqe_address cq consumer)
      in if cqe_owner cqe XOR (if consumer AND cq_depth cq \<noteq> 0 then 1 else 0) = 0 then (consumer, tail, wc)
         else
           (let wqe_index = drop_bit 16 (cqe_byte_4 cqe);
                tail = (if is_send_cq then tail + ((wqe_index - tail) AND (q_depth wq - 1)) else tail);
                completion =
                  \<lparr>wc_wr_id = g_u64 m (u64_at (q_wr_id_address wq) (tail mod q_depth wq)),
                   wc_status = drop_bit 8 (cqe_byte_4 cqe) AND 0xff,
                   wc_opcode = cqe_byte_4 cqe AND 0x1f,
                   wc_vendor_error = drop_bit 24 (cqe_byte_16 cqe) AND 0xff,
                   wc_byte_length = cqe_byte_count cqe,
                   wc_qp_number = cqe_byte_12 cqe AND 0x00ffffff,
                   wc_flags = 0,
                   wc_immediate_data_or_invalidated_rkey = cqe_immediate_data cqe,
                   wc_reserved = 0\<rparr>
            in aiv_poll_loop m cq wq is_send_cq n (consumer + 1) (tail + 1) (wc @ [completion])))"

definition nds_aiv_poll_cq :: "adapter \<Rightarrow> NdsQpDescriptor option \<Rightarrow> u32 \<Rightarrow> u32 \<Rightarrow> bool \<Rightarrow> i32 option \<Rightarrow> dmem \<Rightarrow>
    i32 option \<times> NdsWc list \<times> dmem" where
  "nds_aiv_poll_cq nic qp is_send_cq_value max_completions wc_given return_value m =
     (case qp of
        None \<Rightarrow> (NdsAivSetReturnValue return_value NDS_OPERATION_INVALID_ARGUMENT, [], m)
      | Some qp \<Rightarrow>
          if is_send_cq_value > 1 \<or> max_completions = 0 \<or> \<not> wc_given \<or> return_value = None
          then (NdsAivSetReturnValue return_value NDS_OPERATION_INVALID_ARGUMENT, [], m)
          else
            (let is_send_cq = is_send_cq_value \<noteq> 0;
                 cq = (if is_send_cq then qd_send_cq qp else qd_receive_cq qp);
                 wq = (if is_send_cq then qd_send_queue qp else qd_receive_queue qp);
                 limit = (if max_completions < NDS_MAX_COMPLETIONS then max_completions else NDS_MAX_COMPLETIONS);
                 m = nic_step nic m;
                 (consumer, tail, wc) = aiv_poll_loop m cq wq is_send_cq (unat limit)
                    (g_u32 m (cq_consumer_address cq)) (g_u32 m (q_tail_address wq)) [];
                 m = (if wc = [] then m
                      else
                        (let m = put_u32 (cq_consumer_address cq) consumer m;
                             m = put_u32 (q_tail_address wq) tail m
                         in put_u32 (cq_doorbell_address cq) (consumer AND 0x00ffffff) m))
             in (Some (of_nat (length wc)), wc, m)))"

end
