(* ===== verification/Aiv_Transport.thy ===== *)
theory Aiv_Transport
  imports Aiv_Verbs Send_Runs
begin

text \<open>
  The AIV transport of \<^verbatim>\<open>src/src/client/backends/aiv/device/transport.cc\<close>. The copies of descriptors into
  local memory (\<open>LoadQp\<close>, \<open>LoadState\<close> and the like) are reads of the record; \<open>StoreState\<close> writes
  it back. The credit arithmetic is inlined in the sources; the three functions at the
  beginning name it, and the second section shows that it meets the same contract as the
  functions of the shared header.
\<close>

section \<open>Operations\<close>

definition aiv_signaled :: "NdsTransportQpState \<Rightarrow> u32" where
  "aiv_signaled nxt = (if st_unsignaled_count nxt + 1 \<ge> st_signal_interval nxt then 1 else 0)"

definition aiv_charge :: "NdsTransportQpState \<Rightarrow> u32 \<Rightarrow> NdsTransportQpState" where
  "aiv_charge nxt signaled = nxt\<lparr>st_send_credits := st_send_credits nxt - 1,
     st_unsignaled_count := (if signaled \<noteq> 0 then 0 else st_unsignaled_count nxt + 1)\<rparr>"

definition aiv_refund :: "NdsTransportQpState \<Rightarrow> u32 \<Rightarrow> NdsTransportQpState" where
  "aiv_refund nxt count = nxt\<lparr>st_send_credits := st_send_credits nxt + count * st_signal_interval nxt\<rparr>"

text \<open>The loop of \<open>ReclaimTransportCq\<close> with \<open>n\<close> completions still allowed.\<close>

fun aiv_reclaim_loop :: "dmem \<Rightarrow> NdsCqDescriptor \<Rightarrow> NdsWorkQueueDescriptor \<Rightarrow> bool \<Rightarrow> nat \<Rightarrow> u32 \<Rightarrow> u32 \<Rightarrow> u32 \<Rightarrow> u32 \<Rightarrow>
    u32 \<times> u32 \<times> u32 \<times> u32" where
  "aiv_reclaim_loop m cq wq send_cq 0 consumer tail count status = (consumer, tail, count, status)"
| "aiv_reclaim_loop m cq wq send_cq (Suc n) consumer tail count status =
     (let cqe = g_cqe m (aiv_cqe_address cq consumer)
      in if \<not> nds_hns_hw_cqe_is_ready cqe consumer (cq_depth cq) then (consumer, tail, count, status)
         else
           (let tail = (if send_cq then nds_hns_hw_send_tail_for_cqe tail (q_depth wq) cqe else tail);
                status = (if drop_bit 8 (cqe_byte_4 cqe) AND 0xff \<noteq> 0 then NDS_OPERATION_PROVIDER_FAILED else status)
            in aiv_reclaim_loop m cq wq send_cq n (consumer + 1) (tail + 1) (count + 1) status))"

definition ReclaimTransportCq :: "adapter \<Rightarrow> NdsQpDescriptor option \<Rightarrow> u64 option \<Rightarrow> bool \<Rightarrow> dmem \<Rightarrow> u32 \<times> dmem" where
  "ReclaimTransportCq nic qp state send_cq m =
     (case (qp, state) of
        (Some qp, Some state) \<Rightarrow>
          (let cq = (if send_cq then qd_send_cq qp else qd_receive_cq qp);
               wq = (if send_cq then qd_send_queue qp else qd_receive_queue qp)
           in if cq_buffer_address cq = 0 \<or> cq_consumer_address cq = 0 \<or> cq_doorbell_address cq = 0 \<or> cq_depth cq = 0
                \<or> cq_entry_size cq < 32 \<or> q_tail_address wq = 0 \<or> q_wr_id_address wq = 0 \<or> q_depth wq = 0
              then (NDS_OPERATION_INVALID_ARGUMENT, m)
              else
                (let m = nic_step nic m;
                     (consumer, tail, count, status) = aiv_reclaim_loop m cq wq send_cq (unat NDS_MAX_COMPLETIONS)
                        (g_u32 m (cq_consumer_address cq)) (g_u32 m (q_tail_address wq)) 0 NDS_OPERATION_SUCCESS
                 in if count = 0 then (status, m)
                    else
                      (let m = put_u32 (cq_consumer_address cq) consumer m;
                           m = put_u32 (q_tail_address wq) tail m;
                           m = put_u32 (cq_doorbell_address cq) (consumer AND 0x00ffffff) m;
                           nxt = g_qp_state m state;
                           nxt = (if send_cq then aiv_refund nxt count
                                  else nxt\<lparr>st_receive_credits := st_receive_credits nxt + count\<rparr>)
                       in (status, put_qp_state state nxt m))))
      | _ \<Rightarrow> (NDS_OPERATION_INVALID_ARGUMENT, m))"

definition ReclaimIfNeeded :: "adapter \<Rightarrow> NdsQpDescriptor option \<Rightarrow> u64 \<Rightarrow> bool \<Rightarrow> dmem \<Rightarrow> u32 \<times> dmem" where
  "ReclaimIfNeeded nic qp state send_cq m =
     (let credits = (if send_cq then st_send_credits (g_qp_state m state) else st_receive_credits (g_qp_state m state))
      in if credits \<noteq> 0 then (NDS_OPERATION_SUCCESS, m) else ReclaimTransportCq nic qp (Some state) send_cq m)"

partial_function (option) WaitForSendCompletion ::
    "adapter \<Rightarrow> NdsQpDescriptor option \<Rightarrow> u64 \<Rightarrow> u32 \<Rightarrow> dmem \<Rightarrow> (u32 \<times> dmem) option" where
  "WaitForSendCompletion nic qp state target_credits m =
     (if st_send_credits (g_qp_state m state) < target_credits
      then (case ReclaimTransportCq nic qp (Some state) True m of
              (status, m) \<Rightarrow>
                if status \<noteq> NDS_OPERATION_SUCCESS then Some (status, m)
                else WaitForSendCompletion nic qp state target_credits m)
      else Some (NDS_OPERATION_SUCCESS, m))"

text \<open>\<open>PostTransportSend\<close> from the scheduling of the request on; the result is its status.\<close>

definition aiv_post_scheduled :: "adapter \<Rightarrow> NdsQpDescriptor \<Rightarrow> u64 \<Rightarrow> NdsSendWr \<Rightarrow> i32 option \<Rightarrow> bool \<Rightarrow> dmem \<Rightarrow>
    (u32 \<times> i32 option \<times> dmem) option" where
  "aiv_post_scheduled nic qp state wr return_value scratch m =
     (let nxt = g_qp_state m state;
          signaled = aiv_signaled nxt;
          scheduled = wr\<lparr>sw_flags := (if signaled \<noteq> 0 then NDS_SEND_SIGNALED else 0)\<rparr>
      in case nds_aiv_post_send (Some qp) (Some scheduled) return_value scratch m of
           (return_value, m) \<Rightarrow>
             if return_value \<noteq> None \<and> return_value \<noteq> Some 0 then Some (- the return_value, return_value, m)
             else if st_send_credits nxt = 0 then Some (NDS_OPERATION_QUEUE_FULL, return_value, m)
             else
               (let nxt = aiv_charge nxt signaled; m = put_qp_state state nxt m
                in if signaled \<noteq> 0
                   then (case WaitForSendCompletion nic (Some qp) state (st_send_credits nxt + st_signal_interval nxt) m of
                           None \<Rightarrow> None | Some (status, m) \<Rightarrow> Some (status, return_value, m))
                   else Some (NDS_OPERATION_SUCCESS, return_value, m)))"

definition PostTransportSend :: "adapter \<Rightarrow> NdsTransportDescriptor option \<Rightarrow> u32 \<Rightarrow> NdsSendWr option \<Rightarrow> i32 option \<Rightarrow> bool \<Rightarrow>
    dmem \<Rightarrow> (u32 \<times> i32 option \<times> dmem) option" where
  "PostTransportSend nic transport queue_index wr return_value scratch m =
     (case (transport, wr) of
        (Some transport, Some wr) \<Rightarrow>
          if \<not> scratch then Some (NDS_OPERATION_INVALID_ARGUMENT, return_value, m)
          else (case (nds_transport_qp (Some transport) queue_index, nds_transport_qp_state (Some transport) queue_index) of
             (Some qp_address, Some state) \<Rightarrow>
               if st_signal_interval (g_qp_state m state) = 0 then Some (NDS_OPERATION_INVALID_ARGUMENT, return_value, m)
               else
                 (let qp = g_qp m qp_address
                  in case ReclaimIfNeeded nic (Some qp) state True m of (status, m) \<Rightarrow>
                     if status \<noteq> NDS_OPERATION_SUCCESS then Some (status, return_value, m)
                     else if st_send_credits (g_qp_state m state) = 0 then Some (NDS_OPERATION_QUEUE_FULL, return_value, m)
                     else aiv_post_scheduled nic qp state wr return_value scratch m)
           | _ \<Rightarrow> Some (NDS_OPERATION_INVALID_ARGUMENT, return_value, m))
      | _ \<Rightarrow> Some (NDS_OPERATION_INVALID_ARGUMENT, return_value, m))"

definition queue_available :: "dmem \<Rightarrow> NdsWorkQueueDescriptor \<Rightarrow> u32" where
  "queue_available m queue =
     (let used = g_u32 m (q_head_address queue) - g_u32 m (q_tail_address queue)
      in if used < q_depth queue - 1 then q_depth queue - 1 - used else 0)"

text \<open>The posting loop of a batch; \<open>None\<close> for the early return when the credits run out.\<close>

fun aiv_batch_schedule :: "NdsWorkQueueDescriptor \<Rightarrow> u64 \<Rightarrow> u32 \<Rightarrow> nat \<Rightarrow> u32 \<Rightarrow> NdsTransportQpState \<Rightarrow> u32 \<Rightarrow> dmem \<Rightarrow>
    (NdsTransportQpState \<times> u32) option \<times> dmem" where
  "aiv_batch_schedule queue wrs head 0 index nxt signal_count m = (Some (nxt, signal_count), m)"
| "aiv_batch_schedule queue wrs head (Suc n) index nxt signal_count m =
     (let signaled = aiv_signaled nxt;
          wr = (LoadSendWr m wrs index)\<lparr>sw_flags := (if signaled \<noteq> 0 then NDS_SEND_SIGNALED else 0)\<rparr>;
          m = PopulateDeviceSendWqe queue (head + index) wr m
      in if st_send_credits nxt = 0 then (None, m)
         else aiv_batch_schedule queue wrs head n (index + 1) (aiv_charge nxt signaled) (signal_count + signaled) m)"

text \<open>\<open>PostTransportSendBatch\<close> after reclaiming, with the queue pair and the state found.\<close>

definition aiv_batch_post :: "adapter \<Rightarrow> NdsQpDescriptor \<Rightarrow> u64 \<Rightarrow> u64 \<Rightarrow> u32 \<Rightarrow> u64 option \<Rightarrow> dmem \<Rightarrow>
    (u32 \<times> u64 option \<times> dmem) option" where
  "aiv_batch_post nic qp state wrs wr_count bad_wr m =
     (let queue = qd_send_queue qp;
          current_head = g_u32 m (q_head_address queue);
          available = queue_available m queue;
          posted = (if wr_count < available then wr_count else available);
          credits = st_send_credits (g_qp_state m state);
          limited_posted = (if posted < credits then posted else credits)
      in case first_invalid_wr m wrs (unat wr_count) 0 of
           Some index \<Rightarrow> Some (NDS_OPERATION_INVALID_ARGUMENT, Some (wrs + 48 * ucast index), m)
         | None \<Rightarrow>
             if limited_posted = 0 then Some (NDS_OPERATION_QUEUE_FULL, Some wrs, m)
             else case aiv_batch_schedule queue wrs current_head (unat limited_posted) 0 (g_qp_state m state) 0 m of
               (None, m) \<Rightarrow> Some (NDS_OPERATION_QUEUE_FULL, bad_wr, m)
             | (Some (nxt, signal_count), m) \<Rightarrow>
                 (let m = RingDeviceSendDoorbell (qd_service_level qp) queue (current_head + limited_posted) m;
                      m = put_qp_state state nxt m
                  in case (if signal_count \<noteq> 0
                           then WaitForSendCompletion nic (Some qp) state
                                  (st_send_credits nxt + signal_count * st_signal_interval nxt) m
                           else Some (NDS_OPERATION_SUCCESS, m)) of
                       None \<Rightarrow> None
                     | Some (status, m) \<Rightarrow>
                         if status \<noteq> NDS_OPERATION_SUCCESS then Some (status, bad_wr, m)
                         else if limited_posted \<noteq> wr_count
                         then Some (NDS_OPERATION_QUEUE_FULL, Some (wrs + 48 * ucast limited_posted), m)
                         else Some (NDS_OPERATION_SUCCESS, Some 0, m)))"

definition PostTransportSendBatch :: "adapter \<Rightarrow> NdsTransportDescriptor option \<Rightarrow> u32 \<Rightarrow> u64 option \<Rightarrow> u32 \<Rightarrow> i32 option \<Rightarrow>
    u64 option \<Rightarrow> bool \<Rightarrow> dmem \<Rightarrow> (u32 \<times> u64 option \<times> dmem) option" where
  "PostTransportSendBatch nic transport queue_index wrs wr_count return_value bad_wr scratch m =
     (case (transport, wrs) of
        (Some transport, Some wrs) \<Rightarrow>
          if wr_count = 0 \<or> return_value = None \<or> bad_wr = None \<or> \<not> scratch
          then Some (NDS_OPERATION_INVALID_ARGUMENT, bad_wr, m)
          else (case (nds_transport_qp (Some transport) queue_index, nds_transport_qp_state (Some transport) queue_index) of
             (Some qp_address, Some state) \<Rightarrow>
               (let qp = g_qp m qp_address; queue = qd_send_queue qp
                in if st_signal_interval (g_qp_state m state) = 0 \<or> q_head_address queue = 0 \<or> q_tail_address queue = 0
                     \<or> q_depth queue \<le> 1
                   then Some (NDS_OPERATION_INVALID_ARGUMENT, bad_wr, m)
                   else case (if queue_available m queue = 0 \<or> st_send_credits (g_qp_state m state) = 0
                              then ReclaimTransportCq nic (Some qp) (Some state) True m
                              else (NDS_OPERATION_SUCCESS, m)) of
                     (status, m) \<Rightarrow>
                       if status \<noteq> NDS_OPERATION_SUCCESS then Some (status, bad_wr, m)
                       else aiv_batch_post nic qp state wrs wr_count bad_wr m)
           | _ \<Rightarrow> Some (NDS_OPERATION_INVALID_ARGUMENT, bad_wr, m))
      | _ \<Rightarrow> Some (NDS_OPERATION_INVALID_ARGUMENT, bad_wr, m))"

definition nds_aiv_rdma_send :: "adapter \<Rightarrow> NdsTransportDescriptor option \<Rightarrow> u32 \<Rightarrow> NdsSendWr option \<Rightarrow> i32 option \<Rightarrow> bool \<Rightarrow>
    dmem \<Rightarrow> (i32 option \<times> dmem) option" where
  "nds_aiv_rdma_send nic transport queue_index wr return_value scratch m =
     (case PostTransportSend nic transport queue_index wr return_value scratch m of
        None \<Rightarrow> None
      | Some (status, return_value, m) \<Rightarrow> Some (NdsAivSetReturnValue return_value status, m))"

definition nds_aiv_rdma_send_batch :: "adapter \<Rightarrow> NdsTransportDescriptor option \<Rightarrow> u32 \<Rightarrow> u64 option \<Rightarrow> u32 \<Rightarrow> i32 option \<Rightarrow>
    u64 option \<Rightarrow> bool \<Rightarrow> dmem \<Rightarrow> (i32 option \<times> u64 option \<times> dmem) option" where
  "nds_aiv_rdma_send_batch nic transport queue_index wrs wr_count return_value bad_wr scratch m =
     (if return_value = None then Some (return_value, bad_wr, m)
      else
        (let bad_wr = map_option (\<lambda>_. 0) bad_wr
         in case PostTransportSendBatch nic transport queue_index wrs wr_count return_value bad_wr scratch m of
              None \<Rightarrow> None
            | Some (status, bad_wr, m) \<Rightarrow> Some (NdsAivSetReturnValue return_value status, bad_wr, m)))"

definition nds_aiv_rdma_recv :: "adapter \<Rightarrow> NdsTransportDescriptor option \<Rightarrow> u32 \<Rightarrow> NdsRecvWr option \<Rightarrow> i32 option \<Rightarrow>
    dmem \<Rightarrow> i32 option \<times> dmem" where
  "nds_aiv_rdma_recv nic transport queue_index wr return_value m =
     (if return_value = None then (return_value, m)
      else case (transport, wr) of
        (Some transport, Some wr) \<Rightarrow>
          (case (nds_transport_qp (Some transport) queue_index, nds_transport_qp_state (Some transport) queue_index) of
             (Some qp_address, Some state) \<Rightarrow>
               (let qp = g_qp m qp_address
                in case ReclaimIfNeeded nic (Some qp) state False m of (reclaim_status, m) \<Rightarrow>
                   if reclaim_status \<noteq> NDS_OPERATION_SUCCESS \<or> st_receive_credits (g_qp_state m state) = 0
                   then (NdsAivSetReturnValue return_value
                           (if reclaim_status \<noteq> NDS_OPERATION_SUCCESS then reclaim_status else NDS_OPERATION_QUEUE_FULL), m)
                   else case nds_aiv_post_recv (Some qp) (Some wr) return_value m of (return_value, m) \<Rightarrow>
                     if return_value = Some 0
                     then (case nds_transport_record_receive (Some (g_qp_state m state)) of (recorded, s) \<Rightarrow>
                             (if recorded = 0 then NdsAivSetReturnValue return_value NDS_OPERATION_QUEUE_FULL else return_value,
                              put_qp_state state (the s) m))
                     else (return_value, m))
           | _ \<Rightarrow> (NdsAivSetReturnValue return_value NDS_OPERATION_INVALID_ARGUMENT, m))
      | _ \<Rightarrow> (NdsAivSetReturnValue return_value NDS_OPERATION_INVALID_ARGUMENT, m))"

definition nds_aiv_rdma_read :: "adapter \<Rightarrow> NdsTransportDescriptor option \<Rightarrow> u32 \<Rightarrow> NdsSendWr option \<Rightarrow> i32 option \<Rightarrow> bool \<Rightarrow>
    dmem \<Rightarrow> (i32 option \<times> dmem) option" where
  "nds_aiv_rdma_read nic transport queue_index wr return_value scratch m =
     (case PostTransportSend nic transport queue_index wr return_value scratch m of
        None \<Rightarrow> None
      | Some (status, return_value, m) \<Rightarrow> Some (NdsAivSetReturnValue return_value status, m))"

definition nds_aiv_rdma_write :: "adapter \<Rightarrow> NdsTransportDescriptor option \<Rightarrow> u32 \<Rightarrow> NdsSendWr option \<Rightarrow> i32 option \<Rightarrow> bool \<Rightarrow>
    dmem \<Rightarrow> (i32 option \<times> dmem) option" where
  "nds_aiv_rdma_write nic transport queue_index wr return_value scratch m =
     (case PostTransportSend nic transport queue_index wr return_value scratch m of
        None \<Rightarrow> None
      | Some (status, return_value, m) \<Rightarrow> Some (NdsAivSetReturnValue return_value status, m))"

section \<open>Credit accounting\<close>

interpretation aiv_credit_arithmetic: send_credits "\<lambda>s. aiv_signaled s \<noteq> 0" "\<lambda>s b. aiv_charge s (if b then 1 else 0)" aiv_refund
  by unfold_locales (simp_all add: aiv_signaled_def aiv_charge_def aiv_refund_def)

lemma send_wqe_state [simp]:
  "g_qp_state (PopulateDeviceSendWqe q p wr m) = g_qp_state m"
  "g_qp_state (RingDeviceSendDoorbell sl q p m) = g_qp_state m"
  by (simp_all add: PopulateDeviceSendWqe_def RingDeviceSendDoorbell_def Let_def)

lemma aiv_post_send_state:
  "nds_aiv_post_send qp wr rv scratch m = (rv', m') \<Longrightarrow> g_qp_state m' = g_qp_state m"
  by (auto simp: nds_aiv_post_send_def PopulateLocalSendWqe_def RingLocalSendDoorbell_def Let_def
      split: option.splits if_splits)

lemma aiv_arithmetic:
  "aiv_signaled s \<noteq> 0 \<longleftrightarrow> due s" "aiv_charge s (aiv_signaled s) = charged s" "aiv_refund s n = credited n s"
  by (simp_all add: aiv_signaled_def aiv_charge_def aiv_refund_def due_def charged_def credited_def)

text \<open>
  One poll of the send completion queue, as the transport makes it: it consumes the entries that are ready, from the
  consumer index on and at most \<open>NDS_MAX_COMPLETIONS\<close> of them, and publishes the new indices if there were any.
\<close>

fun ready_cqes :: "dmem \<Rightarrow> NdsCqDescriptor \<Rightarrow> nat \<Rightarrow> u32 \<Rightarrow> nat" where
  "ready_cqes m cq 0 consumer = 0"
| "ready_cqes m cq (Suc n) consumer =
     (if nds_hns_hw_cqe_is_ready (g_cqe m (aiv_cqe_address cq consumer)) consumer (cq_depth cq)
      then Suc (ready_cqes m cq n (consumer + 1)) else 0)"

lemma aiv_reclaim_loop_count:
  "aiv_reclaim_loop m cq wq b n consumer tail count status = (consumer', tail', count', status') \<Longrightarrow>
   consumer' = consumer + of_nat (ready_cqes m cq n consumer) \<and> count' = count + of_nat (ready_cqes m cq n consumer)"
proof (induction n arbitrary: b consumer tail count status)
  case (Suc n)
  from Suc.prems show ?case
    by (auto simp: Let_def add.assoc split: if_split_asm dest!: Suc.IH)
qed simp

definition aiv_poll_send :: "adapter \<Rightarrow> NdsQpDescriptor \<Rightarrow> dmem \<Rightarrow> u32 option \<times> dmem" where
  "aiv_poll_send nic qp m =
     (let cq = qd_send_cq qp; wq = qd_send_queue qp
      in if cq_buffer_address cq = 0 \<or> cq_consumer_address cq = 0 \<or> cq_doorbell_address cq = 0 \<or> cq_depth cq = 0
           \<or> cq_entry_size cq < 32 \<or> q_tail_address wq = 0 \<or> q_wr_id_address wq = 0 \<or> q_depth wq = 0
         then (None, m)
         else
           (let m = nic_step nic m; consumer = g_u32 m (cq_consumer_address cq);
                n = ready_cqes m cq (unat NDS_MAX_COMPLETIONS) consumer;
                tail = fst (snd (aiv_reclaim_loop m cq wq True (unat NDS_MAX_COMPLETIONS) consumer
                  (g_u32 m (q_tail_address wq)) 0 NDS_OPERATION_SUCCESS))
            in (Some (of_nat n),
                if of_nat n = (0 :: u32) then m
                else put_u32 (cq_doorbell_address cq) ((consumer + of_nat n) AND 0x00ffffff)
                       (put_u32 (q_tail_address wq) tail (put_u32 (cq_consumer_address cq) (consumer + of_nat n) m)))))"

definition aiv_send_ops :: "adapter \<Rightarrow> NdsQpDescriptor \<Rightarrow> u64 \<Rightarrow> i32 \<Rightarrow> dmem send_ops" where
  "aiv_send_ops nic qp a v = \<lparr>
     so_state = (\<lambda>m. g_qp_state m a),
     so_store = put_qp_state a,
     so_poll = aiv_poll_send nic qp,
     so_post = (\<lambda>wr m. case nds_aiv_post_send (Some qp) (Some wr) (Some v) True m of (rv, m1) \<Rightarrow> (rv = Some 0, m1)),
     so_idle = (\<lambda>_ _. False)\<rparr>"

lemma aiv_send_ops_simps [simp]:
  "so_state (aiv_send_ops nic qp a v) = (\<lambda>m. g_qp_state m a)" "so_store (aiv_send_ops nic qp a v) = put_qp_state a"
  "so_poll (aiv_send_ops nic qp a v) = aiv_poll_send nic qp"
  by (simp_all add: aiv_send_ops_def)

interpretation aiv_queue: send_queue "aiv_send_ops nic qp a v" for nic qp a v
proof
  fix wr m b m1
  assume "so_post (aiv_send_ops nic qp a v) wr m = (b, m1)"
  then show "so_state (aiv_send_ops nic qp a v) m1 = so_state (aiv_send_ops nic qp a v) m"
    by (auto simp: aiv_send_ops_def dest!: aiv_post_send_state split: prod.splits)
qed (auto simp: aiv_poll_send_def aiv_send_ops_def Let_def split: if_splits)

lemma put_same_state [simp]: "put_qp_state a (g_qp_state m a) m = m"
  by (simp add: put_qp_state_def)

lemma aiv_reclaim_polls:
  assumes "ReclaimTransportCq nic (Some qp) (Some a) True m = (status, m')"
  shows "\<exists>es. polling es \<and> length es \<le> 1 \<and> send_run (aiv_send_ops nic qp a v) request m es m'"
proof -
  obtain r m1 where p: "aiv_poll_send nic qp m = (r, m1)" by fastforce
  show ?thesis
  proof (cases r)
    case None
    with p assms have "m' = m1" by (auto simp: aiv_poll_send_def ReclaimTransportCq_def Let_def split: if_splits)
    with p None have "send_run (aiv_send_ops nic qp a v) request m [PollFailed] m'" by (intro run_one) simp
    then show ?thesis by (intro exI [of _ "[PollFailed]"]) simp
  next
    case (Some n)
    let ?cq = "qd_send_cq qp" and ?wq = "qd_send_queue qp" and ?m = "nic_step nic m"
    obtain consumer tail count st where l: "aiv_reclaim_loop ?m ?cq ?wq True (unat NDS_MAX_COMPLETIONS)
        (g_u32 ?m (cq_consumer_address ?cq)) (g_u32 ?m (q_tail_address ?wq)) 0 NDS_OPERATION_SUCCESS
        = (consumer, tail, count, st)" by (metis prod_cases4)
    note c = aiv_reclaim_loop_count [OF l]
    from p Some assms c l have "m' = put_qp_state a (credited n (g_qp_state m1 a)) m1"
      by (auto simp: aiv_poll_send_def ReclaimTransportCq_def aiv_arithmetic(3) credited_def Let_def split: if_splits)
    with p Some have "send_run (aiv_send_ops nic qp a v) request m [Polled n] m'" by (intro run_one) simp_all
    then show ?thesis by (intro exI [of _ "[Polled n]"]) simp
  qed
qed

lemma aiv_wait_refines:
  assumes "WaitForSendCompletion nic qp a target m = Some (status, m')"
  shows "waits (ReclaimTransportCq nic qp (Some a) True) (\<lambda>m. g_qp_state m a) target m status m'"
proof -
  have "case r of (status, m') \<Rightarrow> waits (ReclaimTransportCq nic qp (Some a) True) (\<lambda>m. g_qp_state m a) target m status m'"
    if "WaitForSendCompletion nic qp a target m = Some r" for r
    using that
  proof (rule WaitForSendCompletion.raw_induct [rotated])
    fix wait :: "adapter \<Rightarrow> NdsQpDescriptor option \<Rightarrow> u64 \<Rightarrow> u32 \<Rightarrow> dmem \<Rightarrow> (u32 \<times> dmem) option"
    fix nic qp a target m r
    assume IH: "\<And>nic qp a target m r. wait nic qp a target m = Some r \<Longrightarrow>
        case r of (status, m') \<Rightarrow> waits (ReclaimTransportCq nic qp (Some a) True) (\<lambda>m. g_qp_state m a) target m status m'"
      and step: "(if st_send_credits (g_qp_state m a) < target
          then case ReclaimTransportCq nic qp (Some a) True m of
                 (status, m) \<Rightarrow> if status \<noteq> NDS_OPERATION_SUCCESS then Some (status, m) else wait nic qp a target m
          else Some (NDS_OPERATION_SUCCESS, m)) = Some r"
    obtain status1 m1 where rec: "ReclaimTransportCq nic qp (Some a) True m = (status1, m1)" by fastforce
    show "case r of (status, m') \<Rightarrow> waits (ReclaimTransportCq nic qp (Some a) True) (\<lambda>m. g_qp_state m a) target m status m'"
    proof (cases "st_send_credits (g_qp_state m a) < target")
      case False
      with step show ?thesis by (auto simp: not_less intro: waits.waits_done)
    next
      case True
      with rec step IH show ?thesis
        by (cases "status1 = NDS_OPERATION_SUCCESS") (auto intro: waits.waits_failed waits.waits_again)
    qed
  qed
  with assms show ?thesis by fastforce
qed

interpretation aiv_credits: credit_wait
  "aiv_send_ops nic qp a v" "ReclaimTransportCq nic (Some qp) (Some a) True" "WaitForSendCompletion nic (Some qp) a"
  for nic qp a v
  by unfold_locales (simp_all only: aiv_reclaim_polls aiv_wait_refines aiv_send_ops_simps)

lemma aiv_reclaim_if_needed_polls:
  assumes "ReclaimIfNeeded nic (Some qp) a True m = (status, m')"
  shows "\<exists>es. polling es \<and> length es \<le> 1 \<and> send_run (aiv_send_ops nic qp a v) request m es m'"
proof (cases "st_send_credits (g_qp_state m a) = 0")
  case True
  with assms show ?thesis using aiv_reclaim_polls [of nic qp a m status m'] by (simp add: ReclaimIfNeeded_def)
next
  case False
  with assms have "m' = m" by (simp add: ReclaimIfNeeded_def)
  then show ?thesis by (intro exI [of _ "[]"]) auto
qed

lemma aiv_set_return_value_zero [simp]:
  "NdsAivSetReturnValue (Some v) status = Some 0 \<longleftrightarrow> status = NDS_OPERATION_SUCCESS"
  "NdsAivSetReturnValue rv status = None \<longleftrightarrow> rv = None"
  by (simp_all add: NdsAivSetReturnValue_def op_status_defs)

lemma aiv_post_send_rv:
  "nds_aiv_post_send qp wr (Some v) scratch m = (rv, m') \<Longrightarrow> \<exists>v'. rv = Some v'"
  by (auto simp: nds_aiv_post_send_def NdsAivSetReturnValue_def Let_def split: option.splits if_splits)

lemma aiv_post_scheduled_run:
  assumes run: "aiv_post_scheduled nic qp a wr (Some v) True m = Some (status, rv, m')"
    and c: "st_send_credits (g_qp_state m a) \<noteq> 0"
    and pre: "send_run (aiv_send_ops nic qp a v) wr m0 pre m" "polling pre" "length pre \<le> 1"
  shows "\<exists>es. send_run (aiv_send_ops nic qp a v) wr m0 es m' \<and> single_send (status = NDS_OPERATION_SUCCESS) es \<and> rv \<noteq> None"
proof -
  let ?ops = "aiv_send_ops nic qp a v" and ?s = "g_qp_state m a"
  let ?wr = "scheduled ?s wr"
  have wr: "wr\<lparr>sw_flags := if due ?s then NDS_SEND_SIGNALED else 0\<rparr> = ?wr" by (simp add: scheduled_def)
  obtain rv1 m2 where ps: "nds_aiv_post_send (Some qp) (Some ?wr) (Some v) True m = (rv1, m2)" by fastforce
  obtain v1 where v1: "rv1 = Some v1" using aiv_post_send_rv [OF ps] by blast
  note run' = run [unfolded aiv_post_scheduled_def Let_def aiv_arithmetic wr ps v1]
  show ?thesis
  proof (cases "v1 = 0")
    case False
    with run' have m': "m' = m2" and st: "status \<noteq> NDS_OPERATION_SUCCESS" "rv = Some v1" by (auto simp: op_status_defs)
    have "so_post ?ops ?wr m = (False, m2)" using False v1 by (simp add: aiv_send_ops_def ps)
    with refused_send [OF pre] c m' st show ?thesis by simp
  next
    case True
    let ?m3 = "put_qp_state a (charged ?s) m2"
    from run' True c have
      w: "(if due ?s then WaitForSendCompletion nic (Some qp) a (st_send_credits (charged ?s) + st_signal_interval (charged ?s)) ?m3
           else Some (NDS_OPERATION_SUCCESS, ?m3)) = Some (status, m')" and rv: "rv = Some v1"
      by (auto cong: if_cong split: option.splits if_splits)
    have "\<exists>post. polling post \<and> send_run ?ops wr ?m3 post m' \<and> (due ?s \<or> post = [])"
    proof (cases "due ?s")
      case True
      with w aiv_credits.wait_polls(1) [of nic qp a _ ?m3 status m' v wr] show ?thesis by auto
    next
      case False
      with w have "send_run ?ops wr ?m3 [] m'" by auto
      then show ?thesis by (intro exI [of _ "[]"]) auto
    qed
    then obtain post where post: "polling post" "send_run ?ops wr ?m3 post m'" "due ?s \<or> post = []" by blast
    have "so_post ?ops ?wr m = (True, m2)" using True v1 by (simp add: aiv_send_ops_def ps)
    with posted_send [OF pre] c post rv show ?thesis by simp
  qed
qed

lemma aiv_send_run:
  assumes run: "PostTransportSend nic (Some t) qi (Some wr) (Some v) scratch m = Some (status, rv, m')"
    and q: "nds_transport_qp (Some t) qi = Some q" and st: "nds_transport_qp_state (Some t) qi = Some a"
  shows "\<exists>es. send_run (aiv_send_ops nic (g_qp m q) a v) wr m es m' \<and> single_send (status = NDS_OPERATION_SUCCESS) es \<and> rv \<noteq> None"
proof (cases "scratch \<and> st_signal_interval (g_qp_state m a) \<noteq> 0")
  case False
  with run q st have "m' = m" "status \<noteq> NDS_OPERATION_SUCCESS" "rv \<noteq> None"
    by (auto simp: PostTransportSend_def split: if_splits)
  with single_send_none [of "[]"] show ?thesis by (intro exI [of _ "[]"]) auto
next
  case ok: True
  obtain s1 m1 where ri: "ReclaimIfNeeded nic (Some (g_qp m q)) a True m = (s1, m1)" by fastforce
  obtain pre where pre: "polling pre" "length pre \<le> 1" "send_run (aiv_send_ops nic (g_qp m q) a v) wr m pre m1"
    using aiv_reclaim_if_needed_polls [OF ri] by blast
  show ?thesis
  proof (cases "s1 = NDS_OPERATION_SUCCESS \<and> st_send_credits (g_qp_state m1 a) \<noteq> 0")
    case False
    with run q st ok have "m' = m1" "status \<noteq> NDS_OPERATION_SUCCESS" "rv \<noteq> None"
      by (auto simp: PostTransportSend_def ri split: if_splits)
    with pre single_send_none show ?thesis by auto
  next
    case True
    with run q st ok have "aiv_post_scheduled nic (g_qp m q) a wr (Some v) True m1 = Some (status, rv, m')"
      by (simp add: PostTransportSend_def ri)
    from aiv_post_scheduled_run [OF this _ pre(3,1,2)] True show ?thesis by simp
  qed
qed

section \<open>Batches\<close>

text \<open>A batch schedules its requests one after the other, each charged before the next.\<close>

fun scheduled_batch :: "NdsTransportQpState \<Rightarrow> NdsSendWr list \<Rightarrow> NdsSendWr list" where
  "scheduled_batch s [] = []"
| "scheduled_batch s (w # ws) = scheduled s w # scheduled_batch (charged s) ws"

definition signaled_count :: "NdsSendWr list \<Rightarrow> nat" where
  "signaled_count ws = length (filter (\<lambda>w. sw_flags w = NDS_SEND_SIGNALED) ws)"

lemma signaled_count_simps [simp]:
  "signaled_count [] = 0" "signaled_count (w # ws) = (if sw_flags w = NDS_SEND_SIGNALED then 1 else 0) + signaled_count ws"
  by (simp_all add: signaled_count_def)

lemma length_scheduled_batch [simp]: "length (scheduled_batch s ws) = length ws"
  by (induction ws arbitrary: s) simp_all

lemma charged_credits: "st_send_credits s \<noteq> 0 \<Longrightarrow> unat (st_send_credits (charged s)) = unat (st_send_credits s) - 1"
  by (simp add: charged_def unat_minus_one)

lemma charged_batch_inv:
  assumes "credit_inv D k s" and "length ws \<le> unat (st_send_credits s)"
  shows "credit_inv D (k + signaled_count (scheduled_batch s ws)) ((charged ^^ length ws) s)"
    and "unat (st_send_credits ((charged ^^ length ws) s)) + length ws = unat (st_send_credits s)"
  using assms
proof (induction ws arbitrary: k s)
  case (Cons w ws)
  {
    case 1
    then have c: "st_send_credits s \<noteq> 0" by auto
    then have "length ws \<le> unat (st_send_credits (charged s))" using 1 by (simp add: charged_credits)
    from Cons.IH(1) [OF charged_inv [OF 1(1) c] this] show ?case by (simp add: funpow_swap1 split: if_splits)
  next
    case 2
    then have c: "st_send_credits s \<noteq> 0" by auto
    with 2 Cons.IH(2) [OF charged_inv [OF 2(1) c]] show ?case by (simp add: charged_credits funpow_swap1)
  }
qed simp_all

text \<open>The entries of the send ring from \<open>head\<close> on, one for each request.\<close>

fun write_wqes :: "NdsWorkQueueDescriptor \<Rightarrow> u32 \<Rightarrow> NdsSendWr list \<Rightarrow> dmem \<Rightarrow> dmem" where
  "write_wqes queue head [] m = m"
| "write_wqes queue head (w # ws) m = write_wqes queue (head + 1) ws (PopulateDeviceSendWqe queue head w m)"

lemma load_after_populate [simp]: "LoadSendWr (PopulateDeviceSendWqe q h w m) = LoadSendWr m"
  by (intro ext) (simp add: LoadSendWr_def PopulateDeviceSendWqe_def put_u64_def Let_def)

definition batch_requests :: "dmem \<Rightarrow> u64 \<Rightarrow> u32 \<Rightarrow> nat \<Rightarrow> NdsSendWr list" where
  "batch_requests m wrs index n = map (\<lambda>i. LoadSendWr m wrs (index + of_nat i)) [0..<n]"

lemma length_batch_requests [simp]: "length (batch_requests m wrs index n) = n"
  by (simp add: batch_requests_def)

lemma batch_requests_simps [simp]:
  "batch_requests m wrs index 0 = []"
  "batch_requests m wrs index (Suc n) = LoadSendWr m wrs index # batch_requests m wrs (index + 1) n"
  "batch_requests (PopulateDeviceSendWqe q h w m) = batch_requests m"
proof -
  have "map f [0..<Suc n] = f 0 # map (\<lambda>i. f (Suc i)) [0..<n]" for f :: "nat \<Rightarrow> NdsSendWr"
    by (simp only: upt_conv_Cons [OF zero_less_Suc] list.map map_Suc_upt [symmetric] map_map comp_def)
  from this [of "\<lambda>i. LoadSendWr m wrs (index + of_nat i)"]
  show "batch_requests m wrs index (Suc n) = LoadSendWr m wrs index # batch_requests m wrs (index + 1) n"
    by (simp only: batch_requests_def semiring_1_class.of_nat_0 add_0_right of_nat_Suc add.assoc)
qed (auto simp: batch_requests_def fun_eq_iff)

lemma aiv_batch_schedule_eq:
  "n \<le> unat (st_send_credits s) \<Longrightarrow>
   aiv_batch_schedule q wrs h n index s sc m =
     (Some ((charged ^^ n) s, sc + of_nat (signaled_count (scheduled_batch s (batch_requests m wrs index n)))),
      write_wqes q (h + index) (scheduled_batch s (batch_requests m wrs index n)) m)"
proof (induction n arbitrary: index s sc m)
  case (Suc n)
  then have c: "st_send_credits s \<noteq> 0" by auto
  let ?w = "LoadSendWr m wrs index"
  have w: "?w\<lparr>sw_flags := if due s then NDS_SEND_SIGNALED else 0\<rparr> = scheduled s ?w" by (simp add: scheduled_def)
  have sig: "aiv_signaled s = of_nat (if due s then 1 else 0)" by (simp add: aiv_signaled_def due_def)
  have "n \<le> unat (st_send_credits (charged s))" using Suc.prems c by (simp add: charged_credits)
  note IH = Suc.IH [OF this, of "index + 1" "sc + aiv_signaled s" "PopulateDeviceSendWqe q (h + index) (scheduled s ?w) m"]
  have "aiv_batch_schedule q wrs h (Suc n) index s sc m = aiv_batch_schedule q wrs h n (index + 1) (charged s)
      (sc + aiv_signaled s) (PopulateDeviceSendWqe q (h + index) (scheduled s ?w) m)"
    using c by (simp only: aiv_batch_schedule.simps Let_def aiv_arithmetic w if_False)
  with IH show ?case by (simp add: sig add.assoc funpow_swap1)
qed simp

lemma first_invalid_wr_None:
  "first_invalid_wr m wrs n index = None \<longleftrightarrow> list_all (\<lambda>w. ValidSendWr (Some w)) (batch_requests m wrs index n)"
  by (induction n arbitrary: index) auto

text \<open>What the batch may post: nothing if a request is not accepted, else what the ring and the credits allow.\<close>

definition batch_prefix :: "dmem \<Rightarrow> NdsQpDescriptor \<Rightarrow> u64 \<Rightarrow> u64 \<Rightarrow> u32 \<Rightarrow> nat" where
  "batch_prefix m qp a wrs cnt =
     (if list_all (\<lambda>w. ValidSendWr (Some w)) (batch_requests m wrs 0 (unat cnt))
      then min (unat cnt) (min (unat (queue_available m (qd_send_queue qp))) (unat (st_send_credits (g_qp_state m a))))
      else 0)"

definition batch_memory :: "dmem \<Rightarrow> NdsQpDescriptor \<Rightarrow> u64 \<Rightarrow> NdsSendWr list \<Rightarrow> dmem" where
  "batch_memory m qp a ws =
     (let queue = qd_send_queue qp; head = g_u32 m (q_head_address queue)
      in put_qp_state a ((charged ^^ length ws) (g_qp_state m a))
           (RingDeviceSendDoorbell (qd_service_level qp) queue (head + of_nat (length ws)) (write_wqes queue head ws m)))"

lemma batch_memory_state [simp]: "g_qp_state (batch_memory m qp a ws) a = (charged ^^ length ws) (g_qp_state m a)"
  by (simp add: batch_memory_def Let_def)

text \<open>
  The requests \<open>ws\<close> posted in the send ring: each has its own entry, the head and the doorbell have moved past them, and
  there are still fewer requests than entries.
\<close>

definition send_wqe :: "u32 \<Rightarrow> NdsSendWr \<Rightarrow> HnsRoceRcSqWqe" where
  "send_wqe producer wr =
     \<lparr>sq_byte_4 = (NDS_HNS_HW_SQ_OPCODE_FROM_DEVICE (sw_opcode wr) OR
         (if sw_flags wr AND NDS_SEND_SIGNALED \<noteq> 0 then NDS_HNS_HW_SQ_SIGNALED else 0)) OR
         (push_bit 7 (NOT (drop_bit 15 producer AND 1)) AND push_bit 7 1),
      sq_message_length = sg_length (sw_local wr), sq_immediate_data = 0, sq_sge_count = push_bit 24 1, sq_start_sge_index = 0,
      sq_remote_key = (if sw_opcode wr = NDS_WR_SEND then 0 else sw_remote_key wr),
      sq_remote_address = (if sw_opcode wr = NDS_WR_SEND then 0 else sw_remote_address wr)\<rparr>"

definition ring_posted :: "dmem \<Rightarrow> dmem \<Rightarrow> NdsQpDescriptor \<Rightarrow> NdsSendWr list \<Rightarrow> bool" where
  "ring_posted m m2 qp ws \<longleftrightarrow>
     (let queue = qd_send_queue qp; head = g_u32 m (q_head_address queue); next_head = head + of_nat (length ws)
      in (\<forall>i < length ws. g_sqe m2 (wqe_address queue (head + of_nat i)) = send_wqe (head + of_nat i) (ws ! i)) \<and>
         g_u32 m2 (q_head_address queue) = next_head \<and>
         g_u64 m2 (q_doorbell_address queue) = ucast (q_number queue) OR push_bit 32 (ucast (next_head AND 0xffff))
           OR push_bit 48 (ucast (qd_service_level qp)) \<and>
         unat (head - g_u32 m (q_tail_address queue)) + length ws < unat (q_depth queue))"

lemma populate_sqe: "g_sqe (PopulateDeviceSendWqe q h w m) = (g_sqe m)(wqe_address q h := send_wqe h w)"
  by (simp add: PopulateDeviceSendWqe_def send_wqe_def put_u64_def Let_def)

lemma wqe_address_inj:
  assumes d: "q_depth q = 2 ^ n" "n < 32" "q_entry_size q \<noteq> 0" and ij: "i < 2 ^ n" "j < 2 ^ n"
    and eq: "wqe_address q (h + of_nat i) = wqe_address q (h + of_nat j)"
  shows "i = j"
proof -
  have two: "unat (2 ^ n :: u32) = 2 ^ n" using d(2) by (rule unat_pow2)
  have u: "unat ((h + of_nat x) mod (2 ^ n :: u32)) = (unat h + x) mod 2 ^ n" for x
  proof -
    have "(2 :: nat) ^ n dvd 2 ^ 32" using d(2) by (intro le_imp_power_dvd) simp
    then show ?thesis using two mod_mod_cancel [of "2 ^ n" "2 ^ 32" "unat h + x"]
      by (simp add: unat_mod unat_word_ariths unat_of_nat mod_add_right_eq)
  qed
  let ?o = "\<lambda>x. ucast (q_entry_size q) * ucast ((h + of_nat x) mod q_depth q) :: u64"
  have o: "unat (?o x) = unat (q_entry_size q) * ((unat h + x) mod 2 ^ n)" for x
  proof -
    have "unat (q_entry_size q) * ((unat h + x) mod 2 ^ n) < 2 ^ 32 * 2 ^ 32"
      using unat_less_32 [of "q_entry_size q"] unat_less_32 [of "(h + of_nat x) mod (2 ^ n :: u32)"] u [of x]
      by (metis mult_strict_mono zero_le zero_less_numeral zero_less_power)
    moreover have "unat (ucast w :: u64) = unat w" for w :: u32
      using unat_less_32 [of w] by (simp add: unsigned_ucast_eq take_bit_eq_mod)
    ultimately show ?thesis using u [of x] d(1) by (simp add: unat_word_ariths(2))
  qed
  from eq have "?o i = ?o j" by (simp add: wqe_address_def)
  with o [of i] o [of j] have "unat (q_entry_size q) * ((unat h + i) mod 2 ^ n) = unat (q_entry_size q) * ((unat h + j) mod 2 ^ n)"
    by metis
  with d(3) have "(unat h + i) mod 2 ^ n = (unat h + j) mod 2 ^ n" by (simp add: unat_eq_0)
  then obtain x y where "unat h + i + 2 ^ n * x = unat h + j + 2 ^ n * y" using nat_mod_eq_iff by blast
  then have "(i + 2 ^ n * x) mod 2 ^ n = (j + 2 ^ n * y) mod 2 ^ n" by simp
  with ij show ?thesis by simp
qed

lemma write_wqes_sqe_other:
  "(\<And>j. j < length ws \<Longrightarrow> wqe_address q (h + of_nat j) \<noteq> x) \<Longrightarrow> g_sqe (write_wqes q h ws m) x = g_sqe m x"
proof (induction ws arbitrary: h m)
  case (Cons w ws)
  have "wqe_address q (h + 1 + of_nat j) \<noteq> x" if "j < length ws" for j
    using Cons.prems [of "Suc j"] that by (simp add: add.assoc)
  from Cons.IH [OF this] Cons.prems [of 0] show ?case by (simp add: populate_sqe)
qed simp

lemma write_wqes_sqe:
  assumes d: "q_depth q = 2 ^ n" "n < 32" "q_entry_size q \<noteq> 0" and len: "length ws \<le> 2 ^ n" and i: "i < length ws"
  shows "g_sqe (write_wqes q h ws m) (wqe_address q (h + of_nat i)) = send_wqe (h + of_nat i) (ws ! i)"
  using len i
proof (induction ws arbitrary: h m i)
  case (Cons w ws)
  show ?case
  proof (cases i)
    case 0
    have "wqe_address q (h + 1 + of_nat j) \<noteq> wqe_address q h" if "j < length ws" for j
      using wqe_address_inj [OF d, of "Suc j" 0 h] Cons.prems(1) that by (auto simp: add.assoc)
    from write_wqes_sqe_other [OF this] 0 show ?thesis by (simp add: populate_sqe)
  next
    case (Suc j)
    with Cons.IH [of j "h + 1"] Cons.prems show ?thesis by (simp add: add.assoc)
  qed
qed simp

lemma write_wqes_frame [simp]: "g_qp_state (write_wqes q h ws m) = g_qp_state m" 
  by (induction ws arbitrary: h m) simp_all

lemma batch_memory_posted:
  assumes d: "q_depth (qd_send_queue qp) = 2 ^ n" "n < 32" "q_entry_size (qd_send_queue qp) \<noteq> 0"
    and ws: "ws \<noteq> []" "length ws \<le> unat (queue_available m (qd_send_queue qp))"
  shows "ring_posted m (batch_memory m qp a ws) qp ws"
proof -
  let ?q = "qd_send_queue qp" and ?h = "g_u32 m (q_head_address (qd_send_queue qp))"
  let ?used = "?h - g_u32 m (q_tail_address ?q)"
  have two: "unat (2 ^ n :: u32) = 2 ^ n" using d(2) by (rule unat_pow2)
  have av: "queue_available m ?q = (if ?used < 2 ^ n - 1 then 2 ^ n - 1 - ?used else 0)"
    by (simp add: queue_available_def d(1) Let_def)
  with ws have lt: "?used < 2 ^ n - 1" by (auto split: if_splits)
  have "unat (2 ^ n - 1 :: u32) = 2 ^ n - 1" using two d(2) unat_minus_one [of "2 ^ n :: u32"] by simp
  moreover from lt have "unat (2 ^ n - 1 - ?used) = unat (2 ^ n - 1 :: u32) - unat ?used" by (intro unat_sub) simp
  ultimately have "unat (2 ^ n - 1 - ?used) = 2 ^ n - 1 - unat ?used" "unat ?used < 2 ^ n - 1"
    using lt by (simp_all add: word_less_nat_alt)
  with ws(2) av lt have space: "unat ?used + length ws < unat (q_depth ?q)" by (simp add: d(1) two)
  then have len: "length ws \<le> 2 ^ n" using d(1) two by simp
  from write_wqes_sqe [OF d len] space show ?thesis
    by (simp add: ring_posted_def batch_memory_def RingDeviceSendDoorbell_def put_u32_def put_u64_def put_qp_state_def Let_def)
qed

lemma aiv_batch_post_run:
  assumes run: "aiv_batch_post nic qp a wrs cnt bad m = Some (status, bad', m')"
    and p: "p = batch_prefix m qp a wrs cnt" and ws: "ws = scheduled_batch (g_qp_state m a) (batch_requests m wrs 0 p)"
  shows "if p = 0 then m' = m \<and> status \<noteq> NDS_OPERATION_SUCCESS
    else (\<exists>es. polling es \<and> send_run (aiv_send_ops nic qp a 0) request (batch_memory m qp a ws) es m') \<and>
      (status = NDS_OPERATION_SUCCESS \<longrightarrow> p = unat cnt \<and> bad' = Some 0)"
proof -
  let ?avail = "queue_available m (qd_send_queue qp)" and ?s = "g_qp_state m a"
  let ?posted = "if cnt < ?avail then cnt else ?avail"
  define L where "L = (if ?posted < st_send_credits ?s then ?posted else st_send_credits ?s)"
  have L: "unat L = min (unat cnt) (min (unat ?avail) (unat (st_send_credits ?s)))"
    by (auto simp: L_def word_less_nat_alt)
  note run' = run [unfolded aiv_batch_post_def Let_def, folded L_def]
  show ?thesis
  proof (cases "first_invalid_wr m wrs (unat cnt) 0 \<noteq> None \<or> L = 0")
    case True
    then have "p = 0" using L by (auto simp: p batch_prefix_def first_invalid_wr_None [symmetric])
    moreover from True run' have "m' = m" "status \<noteq> NDS_OPERATION_SUCCESS" by (auto split: option.splits)
    ultimately show ?thesis by simp
  next
    case False
    then have ok: "first_invalid_wr m wrs (unat cnt) 0 = None" "(L = 0) = False" by blast+
    have p': "p = unat L" "p \<noteq> 0"
      using ok by (simp_all add: p batch_prefix_def unat_eq_0 flip: first_invalid_wr_None L)
    let ?q = "qd_send_queue qp" and ?sc = "of_nat (signaled_count ws) :: u32" and ?s1 = "(charged ^^ p) ?s"
    let ?head = "g_u32 m (q_head_address ?q)" and ?m2 = "batch_memory m qp a ws"
    have "unat L \<le> unat (st_send_credits ?s)" using L by simp
    from aiv_batch_schedule_eq [OF this, of ?q wrs ?head 0 0 m]
    have sched: "aiv_batch_schedule ?q wrs ?head (unat L) 0 ?s 0 m = (Some (?s1, ?sc), write_wqes ?q ?head ws m)"
      using p' by (simp add: ws)
    have m2: "put_qp_state a ?s1 (RingDeviceSendDoorbell (qd_service_level qp) ?q (?head + L) (write_wqes ?q ?head ws m)) = ?m2"
      using p' by (simp add: batch_memory_def ws Let_def)
    let ?wait = "if ?sc \<noteq> 0 then WaitForSendCompletion nic (Some qp) a (st_send_credits ?s1 + ?sc * st_signal_interval ?s1) ?m2
       else Some (NDS_OPERATION_SUCCESS, ?m2)"
    from run' have "(case ?wait of None \<Rightarrow> None
        | Some (status, m) \<Rightarrow> if status \<noteq> NDS_OPERATION_SUCCESS then Some (status, bad, m)
            else if L \<noteq> cnt then Some (NDS_OPERATION_QUEUE_FULL, Some (wrs + 48 * ucast L), m)
            else Some (NDS_OPERATION_SUCCESS, Some 0, m)) = Some (status, bad', m')"
      by (simp only: sched ok option.case prod.case if_False m2)
    then obtain status1 where w: "?wait = Some (status1, m')"
      and fin: "status = NDS_OPERATION_SUCCESS \<longrightarrow> L = cnt \<and> bad' = Some 0"
      by (auto split: option.splits prod.splits if_splits)
    have "\<exists>es. polling es \<and> send_run (aiv_send_ops nic qp a 0) request ?m2 es m'"
    proof (cases "?sc \<noteq> 0")
      case True
      with w aiv_credits.wait_polls(1) [of nic qp a _ ?m2 status1 m' 0 request] show ?thesis by simp
    next
      case False
      with w have "m' = ?m2" by simp
      then show ?thesis by (intro exI [of _ "[]"]) auto
    qed
    with fin p' show ?thesis by simp
  qed
qed

section \<open>Properties\<close>

text \<open>
  C22: the AIV transport accounts for every credit, like the AICPU one, although its arithmetic and its
  polling are written separately. Whenever a send returns, what it did to the device memory is a run of at
  most one poll, at most one post, and polls again after an accepted signaled post; a request is posted only
  with a credit in hand and signaled exactly when it is due, only the accepted post takes a credit and
  advances the signal counter, only the completions a poll consumed give a signal interval back each, and
  success is reported only for a posted request. So if the polls return no more completions than signaled
  requests are in flight, the credits stay conserved.
\<close>

theorem aiv_rdma_send_accounting:
  assumes "nds_aiv_rdma_send nic (Some t) qi (Some wr) (Some v) scratch m = Some (rv, m')"
    and "nds_transport_qp (Some t) qi = Some q" and "nds_transport_qp_state (Some t) qi = Some a"
  shows "\<exists>es. send_run (aiv_send_ops nic (g_qp m q) a v) wr m es m' \<and> single_send (rv = Some 0) es \<and>
    (\<forall>D k k'. credit_inv D k (g_qp_state m a) \<longrightarrow> in_flight k es = Some k' \<longrightarrow> credit_inv D k' (g_qp_state m' a))"
proof -
  from assms(1) obtain status rv1 where
    p: "PostTransportSend nic (Some t) qi (Some wr) (Some v) scratch m = Some (status, rv1, m')"
    and rv: "rv = NdsAivSetReturnValue rv1 status" by (auto simp: nds_aiv_rdma_send_def split: option.splits)
  from aiv_send_run [OF p assms(2,3)] obtain es where
    es: "send_run (aiv_send_ops nic (g_qp m q) a v) wr m es m'" "single_send (status = NDS_OPERATION_SUCCESS) es" "rv1 \<noteq> None"
    by blast
  have "rv = Some 0 \<longleftrightarrow> status = NDS_OPERATION_SUCCESS" using es(3) rv by auto
  with es aiv_queue.run_inv [OF es(1)] show ?thesis by auto
qed

lemma sample_aiv_send:
  "\<exists>m'. nds_aiv_rdma_send idle_nic (Some sample_transport) 0 (Some sample_send_wr) (Some 1) True sample_dmem
     = Some (Some 0, m')"
  by (simp add: nds_aiv_rdma_send_def PostTransportSend_def ReclaimIfNeeded_def aiv_post_scheduled_def
      nds_transport_qp_def nds_transport_qp_state_def aiv_signaled_def nds_aiv_post_send_def ValidSendWr_def
      NdsAivSetReturnValue_def sample_device_defs word_le_nat_alt op_status_defs Let_def)

theorem aiv_rdma_send_accounting_witness:
  "\<exists>m' es. nds_aiv_rdma_send idle_nic (Some sample_transport) 0 (Some sample_send_wr) (Some 1) True sample_dmem = Some (Some 0, m') \<and>
     send_run (aiv_send_ops idle_nic sample_qp 0x6000 1) sample_send_wr sample_dmem es m' \<and> single_send True es"
proof -
  obtain m' where m': "nds_aiv_rdma_send idle_nic (Some sample_transport) 0 (Some sample_send_wr) (Some 1) True sample_dmem
     = Some (Some 0, m')" using sample_aiv_send by blast
  have "g_qp sample_dmem 0x5000 = sample_qp" by (simp add: sample_dmem_def)
  with aiv_rdma_send_accounting [OF m', of "0x5000" "0x6000"] m' show ?thesis
    by (auto simp: nds_transport_qp_def nds_transport_qp_state_def sample_transport_def)
qed

text \<open>
  C23: a transport batch posts exactly what it rings the doorbell for. Once completions have been reclaimed, a
  batch posts the longest prefix that fits the ring and the credits, and nothing if a request of it is not
  accepted. It writes the requests of the prefix into consecutive ring entries from the head on, each signaled
  exactly when it is due, advances the head and rings the doorbell by the length of the prefix, which leaves
  fewer requests in the ring than it has entries; every posted request takes one credit. The rest is polling,
  after which the credits are conserved if the polls return no more completions than signaled requests are in
  flight. Success is reported only when the whole batch was posted.
\<close>

theorem aiv_batch_post_accounted:
  assumes "aiv_batch_post nic qp a wrs cnt bad m = Some (status, bad', m')"
    and "credit_inv D k (g_qp_state m a)"
    and "q_depth (qd_send_queue qp) = 2 ^ n" and "n < 32" and "q_entry_size (qd_send_queue qp) \<noteq> 0"
    and "p = batch_prefix m qp a wrs cnt" and "ws = scheduled_batch (g_qp_state m a) (batch_requests m wrs 0 p)"
  shows "if p = 0 then m' = m \<and> status \<noteq> NDS_OPERATION_SUCCESS
    else ring_posted m (batch_memory m qp a ws) qp ws \<and>
      unat (st_send_credits (g_qp_state (batch_memory m qp a ws) a)) + p = unat (st_send_credits (g_qp_state m a)) \<and>
      (\<exists>es. polling es \<and> send_run (aiv_send_ops nic qp a 0) request (batch_memory m qp a ws) es m' \<and>
        (\<forall>k'. in_flight (k + signaled_count ws) es = Some k' \<longrightarrow> credit_inv D k' (g_qp_state m' a))) \<and>
      (status = NDS_OPERATION_SUCCESS \<longrightarrow> p = unat cnt \<and> bad' = Some 0)"
proof (cases "p = 0")
  case True
  with aiv_batch_post_run [OF assms(1,6,7)] show ?thesis by simp
next
  case False
  have le: "p \<le> unat (queue_available m (qd_send_queue qp))" "p \<le> unat (st_send_credits (g_qp_state m a))"
    unfolding assms(6) batch_prefix_def by auto
  have len: "length ws = p" using assms(7) by simp
  note charged = charged_batch_inv [OF assms(2), of "batch_requests m wrs 0 p"]
  from aiv_batch_post_run [OF assms(1,6,7), of request] False obtain es where
    es: "polling es" "send_run (aiv_send_ops nic qp a 0) request (batch_memory m qp a ws) es m'"
    and fin: "status = NDS_OPERATION_SUCCESS \<longrightarrow> p = unat cnt \<and> bad' = Some 0" by auto
  have inv: "credit_inv D (k + signaled_count ws) (g_qp_state (batch_memory m qp a ws) a)"
    using charged(1) le(2) assms(7) len by simp
  have "unat (st_send_credits (g_qp_state (batch_memory m qp a ws) a)) + p = unat (st_send_credits (g_qp_state m a))"
    using charged(2) le(2) assms(7) len by simp
  with False es fin aiv_queue.run_inv [OF es(2)] inv batch_memory_posted [OF assms(3-5), of ws m a] le(1) len
  show ?thesis by auto
qed

lemma sample_batch_post:
  "\<exists>m'. aiv_batch_post idle_nic sample_qp 0x6000 0xd000 2 (Some 1) sample_dmem = Some (NDS_OPERATION_SUCCESS, Some 0, m')"
proof -
  have q: "queue_available sample_dmem (qd_send_queue sample_qp) = 63"
    by (simp add: queue_available_def sample_device_defs)
  have two: "unat (2 :: u32) = Suc (Suc 0)" by simp
  have v: "first_invalid_wr sample_dmem 0xd000 (unat (2 :: u32)) 0 = None"
    unfolding two by (simp add: LoadSendWr_def ValidSendWr_def sample_dmem_def sample_send_wr_def)
  have st: "g_qp_state sample_dmem 0x6000 =
      \<lparr>st_signal_interval = 32, st_unsignaled_count = 0, st_send_credits = 8, st_receive_credits = 8\<rparr>"
    by (simp add: sample_dmem_def)
  have "\<exists>s1 m1. aiv_batch_schedule Q W H (Suc (Suc 0)) 0 \<lparr>st_signal_interval = 32, st_unsignaled_count = 0,
      st_send_credits = 8, st_receive_credits = 8\<rparr> 0 M = (Some (s1, 0), m1)" for Q W H M
    by (simp add: aiv_signaled_def aiv_charge_def Let_def word_le_nat_alt)
  then obtain s1 m1 where sch: "aiv_batch_schedule (qd_send_queue sample_qp) 0xd000
      (g_u32 sample_dmem (q_head_address (qd_send_queue sample_qp))) (unat (2 :: u32)) 0 (g_qp_state sample_dmem 0x6000) 0 sample_dmem
      = (Some (s1, 0), m1)" unfolding two st by metis
  have lim: "(if (if (2 :: u32) < 63 then 2 else 63) < st_send_credits (g_qp_state sample_dmem 0x6000)
      then if (2 :: u32) < 63 then 2 else 63 else st_send_credits (g_qp_state sample_dmem 0x6000)) = 2"
    by (simp add: st)
  show ?thesis
    unfolding aiv_batch_post_def Let_def q v lim sch by simp
qed

theorem aiv_batch_post_accounted_witness:
  "\<exists>m' ws es. aiv_batch_post idle_nic sample_qp 0x6000 0xd000 2 (Some 1) sample_dmem = Some (NDS_OPERATION_SUCCESS, Some 0, m') \<and>
     ws = scheduled_batch (g_qp_state sample_dmem 0x6000) (batch_requests sample_dmem 0xd000 0 2) \<and>
     ring_posted sample_dmem (batch_memory sample_dmem sample_qp 0x6000 ws) sample_qp ws \<and>
     unat (st_send_credits (g_qp_state (batch_memory sample_dmem sample_qp 0x6000 ws) 0x6000)) + 2 = 8 \<and>
     polling es \<and> send_run (aiv_send_ops idle_nic sample_qp 0x6000 0) sample_send_wr (batch_memory sample_dmem sample_qp 0x6000 ws) es m'"
proof -
  obtain m' where m': "aiv_batch_post idle_nic sample_qp 0x6000 0xd000 2 (Some 1) sample_dmem
     = Some (NDS_OPERATION_SUCCESS, Some 0, m')" using sample_batch_post by blast
  have inv: "credit_inv 8 0 (g_qp_state sample_dmem 0x6000)" by (simp add: credit_inv_def sample_dmem_def)
  have q: "q_depth (qd_send_queue sample_qp) = 2 ^ 6" "q_entry_size (qd_send_queue sample_qp) \<noteq> 0"
    by (simp_all add: sample_device_defs)
  have c: "unat (st_send_credits (g_qp_state sample_dmem 0x6000)) = 8" by (simp add: sample_dmem_def)
  let ?p = "batch_prefix sample_dmem sample_qp 0x6000 0xd000 2"
  note r = aiv_batch_post_accounted [OF m' inv q(1) _ q(2) refl refl, of sample_send_wr]
  have "?p = 2" using r by (auto split: if_splits)
  with r m' c show ?thesis by (auto split: if_splits)
qed

end
