(* ===== verification/Aiv_Storage.thy ===== *)
theory Aiv_Storage
  imports Aiv_Transport
begin

text \<open>
  The AIV storage layer of \<^verbatim>\<open>src/src/client/backends/aiv/device/storage.cc\<close> and the kernels of
  \<^verbatim>\<open>src/src/client/backends/aiv/device/entrypoints.cc\<close>. The command is serialized before the slot is
  claimed. \<open>StoreBytes\<close> is \<open>put_bytes\<close>. The functions that run a send dereference
  \<open>return_value\<close>, which the launchers always supply; for a null pointer the slot state is left
  as it is.
\<close>

section \<open>Operations\<close>

definition ContextValid :: "NdsStorageDescriptor option \<Rightarrow> bool" where
  "ContextValid context =
     (case context of
        None \<Rightarrow> False
      | Some c \<Rightarrow>
          sd_slot_descriptors_address c \<noteq> 0 \<and> sd_storage_states_address c \<noteq> 0 \<and> sd_slot_count c \<noteq> 0
          \<and> td_qp_count (sd_transport c) \<noteq> 0 \<and> sd_capacity c \<noteq> 0 \<and> sd_reserved c = 0
          \<and> td_reserved (sd_transport c) = 0 \<and> td_qp_descriptors_address (sd_transport c) \<noteq> 0
          \<and> td_qp_states_address (sd_transport c) \<noteq> 0)"

definition SlotIdValid :: "dmem \<Rightarrow> NdsStorageDescriptor option \<Rightarrow> u32 \<Rightarrow> bool" where
  "SlotIdValid m context slot_id =
     (let slot_index = slot_id AND 0xffff; queue_index = drop_bit 16 slot_id
      in case (context, nds_storage_slot_global context slot_index) of
           (Some c, Some address) \<Rightarrow>
             (let slot = g_slot m address
              in ContextValid context \<and> sl_reserved slot = 0 \<and> sl_qp_index slot = queue_index
                 \<and> sl_qp_index slot < td_qp_count (sd_transport c) \<and> sg_address (sl_command_buffer slot) \<noteq> 0
                 \<and> sg_local_key (sl_command_buffer slot) \<noteq> 0 \<and> sg_length (sl_command_buffer slot) \<ge> kStorageCommandBytes
                 \<and> sg_address (sl_completion_buffer slot) \<noteq> 0 \<and> sg_local_key (sl_completion_buffer slot) \<noteq> 0
                 \<and> sg_length (sl_completion_buffer slot) \<ge> kStorageCompletionBytes)
         | _ \<Rightarrow> False)"

text \<open>A claim gives the addresses of the state and the slot.\<close>

definition Claim :: "NdsStorageDescriptor option \<Rightarrow> u32 \<Rightarrow> u32 \<Rightarrow> dmem \<Rightarrow> ((u64 \<times> u64) option \<times> dmem)" where
  "Claim context slot_id expected_bytes m =
     (let slot_index = slot_id AND 0xffff
      in case (nds_storage_state_global context slot_index, nds_storage_slot_global context slot_index) of
           (Some state, Some slot) \<Rightarrow>
             if \<not> ContextValid context \<or> \<not> SlotIdValid m context slot_id
               \<or> ss_command_id (g_storage_state m state) = 0 \<or> expected_bytes = 0 \<or> ss_in_flight (g_storage_state m state) \<noteq> 0
             then (None, m)
             else (Some (state, slot),
                   put_storage_state state
                     ((g_storage_state m state)\<lparr>ss_expected_bytes := expected_bytes, ss_in_flight := 1, ss_status := 0\<rparr>) m)
         | _ \<Rightarrow> (None, m))"

definition ExecuteSerialized :: "adapter \<Rightarrow> NdsStorageDescriptor option \<Rightarrow> u32 \<Rightarrow> u32 \<Rightarrow> u8 list \<Rightarrow> i32 option \<Rightarrow> bool \<Rightarrow>
    dmem \<Rightarrow> (i32 option \<times> dmem) option" where
  "ExecuteSerialized nic context slot_id expected_bytes command_bytes return_value scratch m =
     (case Claim context slot_id expected_bytes m of
        (None, m) \<Rightarrow> Some (NdsAivSetReturnValue return_value NDS_OPERATION_QUEUE_FULL, m)
      | (Some (state, slot_address), m) \<Rightarrow>
          (let slot = g_slot m slot_address; command_id = ss_command_id (g_storage_state m state)
           in case serialize_storage_completion
                     \<lparr>c_command_id = command_id, c_state = StatePending, c_status = StatusSuccess, c_bytes_transferred = 0\<rparr>
                     (Some (replicate (unat kStorageCompletionBytes) 0)) kStorageCompletionBytes of
                (SerdeOk, Some pending) \<Rightarrow>
                  (let m = put_bytes (sg_address (sl_completion_buffer slot)) pending m;
                       m = put_bytes (sg_address (sl_command_buffer slot)) command_bytes m
                   in case nds_aiv_rdma_send nic (map_option sd_transport context) (sl_qp_index slot)
                             (Some (command_transfer command_id slot)) return_value scratch m of
                        None \<Rightarrow> None
                      | Some (None, m) \<Rightarrow> Some (None, m)
                      | Some (Some v, m) \<Rightarrow>
                          Some (Some v, put_storage_state state ((g_storage_state m state)\<lparr>ss_status := v\<rparr>) m))
              | _ \<Rightarrow> Some (NdsAivSetReturnValue return_value NDS_OPERATION_INVALID_ARGUMENT,
                       put_storage_state state ((g_storage_state m state)\<lparr>ss_in_flight := 0\<rparr>) m)))"

definition BatchTotal :: "dmem \<Rightarrow> NdsStorageBatchOperation option \<Rightarrow> bool \<Rightarrow> u32" where
  "BatchTotal m args is_write =
     (case args of
        None \<Rightarrow> 0
      | Some a \<Rightarrow>
          if sb_entries_address a = 0 \<or> sb_entries_key a = 0 \<or> sb_entry_count a = 0
            \<or> sb_entry_count a > kStorageMaxBatchEntries
          then 0
          else case batch_sum m (sb_entries_address a) is_write (unat (sb_entry_count a)) 0 0 of
            None \<Rightarrow> 0 | Some tot \<Rightarrow> ucast tot)"

definition nds_aiv_storage_bootstrap :: "adapter \<Rightarrow> NdsStorageBootstrapDescriptor option \<Rightarrow> i32 option \<Rightarrow> bool \<Rightarrow>
    dmem \<Rightarrow> (i32 option \<times> dmem) option" where
  "nds_aiv_storage_bootstrap nic bootstrap return_value scratch m =
     (case bootstrap of
        None \<Rightarrow> Some (NdsAivSetReturnValue return_value NDS_OPERATION_INVALID_ARGUMENT, m)
      | Some b \<Rightarrow>
          if sg_address (bd_bootstrap b) = 0 \<or> sg_local_key (bd_bootstrap b) = 0
          then Some (NdsAivSetReturnValue return_value NDS_OPERATION_INVALID_ARGUMENT, m)
          else nds_aiv_rdma_send nic (Some (bd_transport b)) 0
                 (Some \<lparr>sw_wr_id = 1, sw_opcode = NDS_WR_SEND, sw_flags = 0, sw_local = bd_bootstrap b,
                        sw_remote_address = 0, sw_remote_key = 0\<rparr>) return_value scratch m)"

definition slot_command_id :: "dmem \<Rightarrow> NdsStorageDescriptor option \<Rightarrow> u32 \<Rightarrow> u64" where
  "slot_command_id m storage slot_index =
     (case nds_storage_state_global storage slot_index of
        None \<Rightarrow> 0 | Some state \<Rightarrow> ss_command_id (g_storage_state m state))"

text \<open>The common tail: refuse what does not serialize, execute the rest.\<close>

definition aiv_submit :: "adapter \<Rightarrow> NdsStorageDescriptor option \<Rightarrow> u32 \<Rightarrow> u32 \<Rightarrow> StorageSerdeResult \<times> u8 list option \<Rightarrow>
    i32 option \<Rightarrow> bool \<Rightarrow> dmem \<Rightarrow> (i32 option \<times> dmem) option" where
  "aiv_submit nic storage slot_id expected_bytes serialized return_value scratch m =
     (case serialized of
        (SerdeOk, Some bytes) \<Rightarrow> ExecuteSerialized nic storage slot_id expected_bytes bytes return_value scratch m
      | _ \<Rightarrow> Some (NdsAivSetReturnValue return_value NDS_OPERATION_INVALID_ARGUMENT, m))"

definition nds_aiv_storage_read :: "adapter \<Rightarrow> NdsStorageDescriptor option \<Rightarrow> NdsStorageOperation option \<Rightarrow> i32 option \<Rightarrow>
    bool \<Rightarrow> dmem \<Rightarrow> (i32 option \<times> dmem) option" where
  "nds_aiv_storage_read nic storage operation return_value scratch m =
     (case (storage, operation) of
        (Some _, Some operation) \<Rightarrow>
          if so_length operation = 0 then Some (NdsAivSetReturnValue return_value NDS_OPERATION_INVALID_ARGUMENT, m)
          else
            (let slot_index = so_slot_id operation AND 0xffff;
                 command = read_request operation (slot_command_id m storage slot_index) slot_index
             in aiv_submit nic storage (so_slot_id operation) (so_length operation)
                  (serialize_storage_read command (Some (replicate (unat kStorageCommandBytes) 0)) kStorageCommandBytes)
                  return_value scratch m)
      | _ \<Rightarrow> Some (NdsAivSetReturnValue return_value NDS_OPERATION_INVALID_ARGUMENT, m))"

definition nds_aiv_storage_write :: "adapter \<Rightarrow> NdsStorageDescriptor option \<Rightarrow> NdsStorageOperation option \<Rightarrow> i32 option \<Rightarrow>
    bool \<Rightarrow> dmem \<Rightarrow> (i32 option \<times> dmem) option" where
  "nds_aiv_storage_write nic storage operation return_value scratch m =
     (case (storage, operation) of
        (Some _, Some operation) \<Rightarrow>
          if so_length operation = 0 then Some (NdsAivSetReturnValue return_value NDS_OPERATION_INVALID_ARGUMENT, m)
          else
            (let slot_index = so_slot_id operation AND 0xffff;
                 command = write_request operation (slot_command_id m storage slot_index) slot_index
             in aiv_submit nic storage (so_slot_id operation) (so_length operation)
                  (serialize_storage_write command (Some (replicate (unat kStorageCommandBytes) 0)) kStorageCommandBytes)
                  return_value scratch m)
      | _ \<Rightarrow> Some (NdsAivSetReturnValue return_value NDS_OPERATION_INVALID_ARGUMENT, m))"

definition nds_aiv_storage_batch_read :: "adapter \<Rightarrow> NdsStorageDescriptor option \<Rightarrow> NdsStorageBatchOperation option \<Rightarrow>
    i32 option \<Rightarrow> bool \<Rightarrow> dmem \<Rightarrow> (i32 option \<times> dmem) option" where
  "nds_aiv_storage_batch_read nic storage operation return_value scratch m =
     (case (storage, operation) of
        (Some _, Some operation) \<Rightarrow>
          if sb_entry_count operation = 0 \<or> sb_entry_count operation > kStorageMaxBatchEntries
          then Some (NdsAivSetReturnValue return_value NDS_OPERATION_INVALID_ARGUMENT, m)
          else
            (let slot_index = sb_slot_id operation AND 0xffff;
                 tot = BatchTotal m (Some operation) False;
                 command = batch_read_request operation tot (slot_command_id m storage slot_index) slot_index
             in aiv_submit nic storage (sb_slot_id operation) tot
                  (serialize_storage_batch_read command (Some (replicate (unat kStorageCommandBytes) 0)) kStorageCommandBytes)
                  return_value scratch m)
      | _ \<Rightarrow> Some (NdsAivSetReturnValue return_value NDS_OPERATION_INVALID_ARGUMENT, m))"

definition nds_aiv_storage_batch_write :: "adapter \<Rightarrow> NdsStorageDescriptor option \<Rightarrow> NdsStorageBatchOperation option \<Rightarrow>
    i32 option \<Rightarrow> bool \<Rightarrow> dmem \<Rightarrow> (i32 option \<times> dmem) option" where
  "nds_aiv_storage_batch_write nic storage operation return_value scratch m =
     (case (storage, operation) of
        (Some _, Some operation) \<Rightarrow>
          if sb_entry_count operation = 0 \<or> sb_entry_count operation > kStorageMaxBatchEntries
          then Some (NdsAivSetReturnValue return_value NDS_OPERATION_INVALID_ARGUMENT, m)
          else
            (let slot_index = sb_slot_id operation AND 0xffff;
                 tot = BatchTotal m (Some operation) True;
                 command = batch_write_request operation tot (slot_command_id m storage slot_index) slot_index
             in aiv_submit nic storage (sb_slot_id operation) tot
                  (serialize_storage_batch_write command (Some (replicate (unat kStorageCommandBytes) 0)) kStorageCommandBytes)
                  return_value scratch m)
      | _ \<Rightarrow> Some (NdsAivSetReturnValue return_value NDS_OPERATION_INVALID_ARGUMENT, m))"

definition nds_aiv_storage_wait :: "NdsStorageDescriptor option \<Rightarrow> u32 \<Rightarrow> i32 option \<Rightarrow> dmem \<Rightarrow> i32 option" where
  "nds_aiv_storage_wait context slot_id return_value m =
     (let slot_index = slot_id AND 0xffff
      in case (nds_storage_state_global context slot_index, nds_storage_slot_global context slot_index) of
           (Some state_address, Some slot_address) \<Rightarrow>
             (let state = g_storage_state m state_address; slot = g_slot m slot_address
              in if \<not> ContextValid context \<or> \<not> SlotIdValid m context slot_id \<or> ss_command_id state = 0
                   \<or> ss_expected_bytes state = 0 \<or> ss_in_flight state = 0
                 then NdsAivSetReturnValue return_value NDS_OPERATION_INVALID_ARGUMENT
                 else if ss_status state \<noteq> 0 then NdsAivSetReturnValue return_value (- ss_status state)
                 else NdsAivSetReturnValue return_value
                        (completion_verdict state
                          (get_bytes m (sg_address (sl_completion_buffer slot)) (unat kStorageCompletionBytes))))
         | _ \<Rightarrow> NdsAivSetReturnValue return_value NDS_OPERATION_INVALID_ARGUMENT)"

section \<open>Entry points\<close>

text \<open>
  The kernels. Pointers to descriptors are the records they point to, or null; a pointer to work
  requests is an address. Every kernel that posts supplies a scratch buffer.
\<close>

definition SetInvalid :: "i32 option \<Rightarrow> i32 option" where
  "SetInvalid return_value = NdsAivSetReturnValue return_value NDS_OPERATION_INVALID_ARGUMENT"

definition nds_aiv_post_send_kernel :: "NdsQpDescriptor \<Rightarrow> NdsSendWr \<Rightarrow> i32 option \<Rightarrow> dmem \<Rightarrow> i32 option \<times> dmem" where
  "nds_aiv_post_send_kernel qp wr return_value m = nds_aiv_post_send (Some qp) (Some wr) return_value True m"

definition nds_aiv_post_send_batch_kernel :: "NdsQpDescriptor option \<Rightarrow> u64 option \<Rightarrow> u32 \<Rightarrow> u64 option \<Rightarrow> i32 option \<Rightarrow>
    dmem \<Rightarrow> i32 option \<times> u64 option \<times> dmem" where
  "nds_aiv_post_send_batch_kernel qp wrs wr_count bad_wr return_value m =
     nds_aiv_post_send_batch qp wrs wr_count return_value bad_wr True m"

definition nds_aiv_post_recv_kernel :: "NdsQpDescriptor \<Rightarrow> NdsRecvWr \<Rightarrow> i32 option \<Rightarrow> dmem \<Rightarrow> i32 option \<times> dmem" where
  "nds_aiv_post_recv_kernel qp wr return_value m = nds_aiv_post_recv (Some qp) (Some wr) return_value m"

definition nds_aiv_poll_cq_kernel :: "adapter \<Rightarrow> NdsQpDescriptor option \<Rightarrow> u32 \<Rightarrow> u32 \<Rightarrow> bool \<Rightarrow> i32 option \<Rightarrow> dmem \<Rightarrow>
    i32 option \<times> NdsWc list \<times> dmem" where
  "nds_aiv_poll_cq_kernel nic qp is_send_cq max_completions wc_given return_value m =
     nds_aiv_poll_cq nic qp is_send_cq max_completions wc_given return_value m"

definition nds_aiv_rdma_send_kernel :: "adapter \<Rightarrow> NdsTransportDescriptor option \<Rightarrow> u64 option \<Rightarrow> u32 \<Rightarrow> i32 option \<Rightarrow>
    dmem \<Rightarrow> (i32 option \<times> dmem) option" where
  "nds_aiv_rdma_send_kernel nic transport wr queue_index return_value m =
     (case (transport, wr) of
        (Some transport, Some wr) \<Rightarrow>
          nds_aiv_rdma_send nic (Some transport) queue_index (Some (LoadSendWr m wr 0)) return_value True m
      | _ \<Rightarrow> Some (SetInvalid return_value, m))"

definition nds_aiv_rdma_recv_kernel :: "adapter \<Rightarrow> NdsTransportDescriptor option \<Rightarrow> NdsRecvWr option \<Rightarrow> u32 \<Rightarrow> i32 option \<Rightarrow>
    dmem \<Rightarrow> i32 option \<times> dmem" where
  "nds_aiv_rdma_recv_kernel nic transport wr queue_index return_value m =
     (case (transport, wr) of
        (Some transport, Some wr) \<Rightarrow>
          nds_aiv_rdma_recv nic (Some transport) queue_index
            (Some \<lparr>rw_wr_id = rw_wr_id wr, rw_local = \<lparr>sg_address = sg_address (rw_local wr),
                sg_length = sg_length (rw_local wr), sg_local_key = sg_local_key (rw_local wr)\<rparr>\<rparr>) return_value m
      | _ \<Rightarrow> (SetInvalid return_value, m))"

definition nds_aiv_rdma_read_kernel :: "adapter \<Rightarrow> NdsTransportDescriptor option \<Rightarrow> u64 option \<Rightarrow> u32 \<Rightarrow> i32 option \<Rightarrow>
    dmem \<Rightarrow> (i32 option \<times> dmem) option" where
  "nds_aiv_rdma_read_kernel nic transport wr queue_index return_value m =
     (case (transport, wr) of
        (Some transport, Some wr) \<Rightarrow>
          nds_aiv_rdma_read nic (Some transport) queue_index (Some (LoadSendWr m wr 0)) return_value True m
      | _ \<Rightarrow> Some (SetInvalid return_value, m))"

definition nds_aiv_rdma_write_kernel :: "adapter \<Rightarrow> NdsTransportDescriptor option \<Rightarrow> u64 option \<Rightarrow> u32 \<Rightarrow> i32 option \<Rightarrow>
    dmem \<Rightarrow> (i32 option \<times> dmem) option" where
  "nds_aiv_rdma_write_kernel nic transport wr queue_index return_value m =
     (case (transport, wr) of
        (Some transport, Some wr) \<Rightarrow>
          nds_aiv_rdma_write nic (Some transport) queue_index (Some (LoadSendWr m wr 0)) return_value True m
      | _ \<Rightarrow> Some (SetInvalid return_value, m))"

definition nds_aiv_rdma_send_batch_kernel :: "adapter \<Rightarrow> NdsTransportDescriptor option \<Rightarrow> u64 option \<Rightarrow> u32 \<Rightarrow> u32 \<Rightarrow>
    u64 option \<Rightarrow> i32 option \<Rightarrow> dmem \<Rightarrow> (i32 option \<times> u64 option \<times> dmem) option" where
  "nds_aiv_rdma_send_batch_kernel nic transport wrs queue_index wr_count bad_wr return_value m =
     (if transport = None \<or> wrs = None \<or> bad_wr = None then Some (SetInvalid return_value, bad_wr, m)
      else nds_aiv_rdma_send_batch nic transport queue_index wrs wr_count return_value bad_wr True m)"

definition nds_aiv_storage_bootstrap_kernel :: "adapter \<Rightarrow> NdsStorageBootstrapDescriptor option \<Rightarrow> i32 option \<Rightarrow>
    dmem \<Rightarrow> (i32 option \<times> dmem) option" where
  "nds_aiv_storage_bootstrap_kernel nic bootstrap return_value m =
     nds_aiv_storage_bootstrap nic bootstrap return_value True m"

definition nds_aiv_storage_read_kernel :: "adapter \<Rightarrow> NdsStorageDescriptor option \<Rightarrow> NdsStorageOperation option \<Rightarrow>
    i32 option \<Rightarrow> dmem \<Rightarrow> (i32 option \<times> dmem) option" where
  "nds_aiv_storage_read_kernel nic storage operation return_value m =
     nds_aiv_storage_read nic storage operation return_value True m"

definition nds_aiv_storage_write_kernel :: "adapter \<Rightarrow> NdsStorageDescriptor option \<Rightarrow> NdsStorageOperation option \<Rightarrow>
    i32 option \<Rightarrow> dmem \<Rightarrow> (i32 option \<times> dmem) option" where
  "nds_aiv_storage_write_kernel nic storage operation return_value m =
     nds_aiv_storage_write nic storage operation return_value True m"

definition nds_aiv_storage_batch_read_kernel :: "adapter \<Rightarrow> NdsStorageDescriptor option \<Rightarrow> NdsStorageBatchOperation option \<Rightarrow>
    i32 option \<Rightarrow> dmem \<Rightarrow> (i32 option \<times> dmem) option" where
  "nds_aiv_storage_batch_read_kernel nic storage operation return_value m =
     nds_aiv_storage_batch_read nic storage operation return_value True m"

definition nds_aiv_storage_batch_write_kernel :: "adapter \<Rightarrow> NdsStorageDescriptor option \<Rightarrow> NdsStorageBatchOperation option \<Rightarrow>
    i32 option \<Rightarrow> dmem \<Rightarrow> (i32 option \<times> dmem) option" where
  "nds_aiv_storage_batch_write_kernel nic storage operation return_value m =
     nds_aiv_storage_batch_write nic storage operation return_value True m"

definition nds_aiv_storage_wait_kernel :: "NdsStorageDescriptor option \<Rightarrow> u32 \<Rightarrow> i32 option \<Rightarrow> dmem \<Rightarrow> i32 option" where
  "nds_aiv_storage_wait_kernel context slot_id return_value m = nds_aiv_storage_wait context slot_id return_value m"

section \<open>Agreement with the host accessors\<close>

text \<open>
  The AICore accessors are written separately from the host ones; on the whole validity checks
  they agree.
\<close>

lemma ContextValid_eq: "ContextValid c = nds_storage_descriptor_valid c"
  by (auto simp: ContextValid_def nds_storage_descriptor_valid_def split: option.splits)

lemma global_accessors:
  assumes "nds_storage_descriptor_valid (Some d)"
  shows "nds_storage_state_global (Some d) i = nds_storage_state (Some d) i"
    and "nds_storage_slot_global (Some d) i = nds_storage_slot (Some d) i"
  using assms
  by (simp_all add: nds_storage_state_global_def nds_storage_slot_global_def nds_storage_state_def nds_storage_slot_def
      nds_storage_descriptor_valid_def)

lemma SlotIdValid_eq: "SlotIdValid m c slot_id = nds_storage_slot_id_valid m c slot_id"
proof (cases "nds_storage_descriptor_valid c")
  case False
  then show ?thesis
    by (auto simp: SlotIdValid_def ContextValid_eq nds_storage_slot_id_valid_def nds_storage_slot_valid_def
        nds_storage_slot_def Let_def split: option.splits)
next
  case True
  then obtain d where d: "c = Some d" by (cases c) (simp_all add: nds_storage_descriptor_valid_def)
  then show ?thesis
    using True global_accessors [of d]
    by (auto simp: SlotIdValid_def ContextValid_eq nds_storage_slot_id_valid_def nds_storage_slot_valid_def Let_def
        slot_record_valid_def nds_storage_slot_id_index_def nds_storage_slot_id_queue_def split: option.splits)
qed

section \<open>Executing a command\<close>

text \<open>The outcome of an execution from the memory its send starts in.\<close>

definition aiv_sent :: "adapter \<Rightarrow> NdsStorageDescriptor \<Rightarrow> u64 \<Rightarrow> NdsStorageSlotDescriptor \<Rightarrow> u64 \<Rightarrow> i32 option \<Rightarrow> bool \<Rightarrow>
    dmem \<Rightarrow> (i32 option \<times> dmem) option" where
  "aiv_sent nic d a slot cid rv scratch m1 =
     (case nds_aiv_rdma_send nic (Some (sd_transport d)) (sl_qp_index slot) (Some (command_transfer cid slot)) rv scratch m1 of
        None \<Rightarrow> None
      | Some (None, m2) \<Rightarrow> Some (None, m2)
      | Some (Some v, m2) \<Rightarrow> Some (Some v, put_storage_state a ((g_storage_state m2 a)\<lparr>ss_status := v\<rparr>) m2))"

lemma aiv_claim:
  assumes "nds_storage_slot_id_valid m (Some d) slot_id"
    and "nds_storage_state (Some d) (nds_storage_slot_id_index slot_id) = Some a"
    and "nds_storage_slot (Some d) (nds_storage_slot_id_index slot_id) = Some sa"
    and "ss_command_id (g_storage_state m a) \<noteq> 0" and "ss_in_flight (g_storage_state m a) = 0" and "n \<noteq> 0"
  shows "Claim (Some d) slot_id n m = (Some (a, sa),
    put_storage_state a ((g_storage_state m a)\<lparr>ss_expected_bytes := n, ss_in_flight := 1, ss_status := 0\<rparr>) m)"
proof -
  from slot_id_valid_parts [OF assms(1)] have "nds_storage_descriptor_valid (Some d)" by blast
  with assms show ?thesis
    by (simp add: Claim_def ContextValid_eq SlotIdValid_eq global_accessors nds_storage_slot_id_index_def)
qed

lemma aiv_execute_posts:
  assumes slot: "nds_storage_slot_id_valid m (Some d) slot_id"
      "nds_storage_state (Some d) (nds_storage_slot_id_index slot_id) = Some a"
      "nds_storage_slot (Some d) (nds_storage_slot_id_index slot_id) = Some sa"
      "ss_command_id (g_storage_state m a) \<noteq> 0" "ss_in_flight (g_storage_state m a) = 0"
    and n: "n \<noteq> 0" and cmd: "length cmd = 64"
    and disj: "disjoint_buffers (sg_address (sl_completion_buffer (g_slot m sa))) 32 (sg_address (sl_command_buffer (g_slot m sa))) 64"
  shows "\<exists>m1. ExecuteSerialized nic (Some d) slot_id n cmd rv scratch m =
      aiv_sent nic d a (g_slot m sa) (ss_command_id (g_storage_state m a)) rv scratch m1
    \<and> get_bytes m1 (sg_address (sl_command_buffer (g_slot m sa))) 64 = cmd
    \<and> slot_claimed m1 a (g_slot m sa) (ss_command_id (g_storage_state m a)) n"
proof -
  let ?cid = "ss_command_id (g_storage_state m a)" and ?slot = "g_slot m sa"
  from pending_roundtrip [OF slot(4)] obtain p where p:
    "serialize_storage_completion \<lparr>c_command_id = ?cid, c_state = StatePending, c_status = StatusSuccess, c_bytes_transferred = 0\<rparr>
       (Some (replicate 32 0)) kStorageCompletionBytes = (SerdeOk, Some p)" "length p = 32"
    "\<And>old. deserialize_storage_completion (Some p) kStorageCompletionBytes (Some old) =
       (SerdeOk, Some \<lparr>c_command_id = ?cid, c_state = StatePending, c_status = StatusSuccess, c_bytes_transferred = 0\<rparr>)"
    by metis
  let ?s = "(g_storage_state m a)\<lparr>ss_expected_bytes := n, ss_in_flight := 1, ss_status := 0\<rparr>"
  let ?m0 = "put_bytes (sg_address (sl_completion_buffer ?slot)) p (put_storage_state a ?s m)"
  let ?m1 = "put_bytes (sg_address (sl_command_buffer ?slot)) cmd ?m0"
  have "ExecuteSerialized nic (Some d) slot_id n cmd rv scratch m = aiv_sent nic d a ?slot ?cid rv scratch ?m1"
    using p(1) by (simp add: ExecuteSerialized_def aiv_claim [OF slot n] aiv_sent_def ucast_consts Let_def)
  moreover have "get_bytes ?m1 (sg_address (sl_command_buffer ?slot)) 64 = cmd"
    using get_put_bytes [of cmd] cmd by simp
  moreover have "get_bytes ?m1 (sg_address (sl_completion_buffer ?slot)) 32 = p"
    using get_put_bytes [of p] p(2) disj cmd by (simp add: get_put_bytes_disjoint)
  moreover have "g_storage_state ?m1 a = \<lparr>ss_command_id = ?cid, ss_expected_bytes = n, ss_in_flight = 1, ss_status = 0\<rparr>"
    by simp
  ultimately show ?thesis
    using p(3) by (intro exI [of _ ?m1]) (simp add: slot_claimed_def completion_verdict_def storage_status_defs)
qed

section \<open>Properties\<close>

text \<open>
  C13: what an AIV storage write sends. For a free slot with a command id the write claims the
  slot, and when the send is posted the command buffer holds 64 bytes that the server's decoder
  turns into the requested write with the slot's id and index, the completion buffer holds
  a pending completion, and the transfer covers exactly those 64 bytes on the slot's queue.
\<close>

theorem aiv_storage_write_posts_command:
  assumes "nds_storage_slot_id_valid m (Some d) (so_slot_id operation)"
    and "nds_storage_state (Some d) (nds_storage_slot_id_index (so_slot_id operation)) = Some a"
    and "nds_storage_slot (Some d) (nds_storage_slot_id_index (so_slot_id operation)) = Some sa"
    and "ss_command_id (g_storage_state m a) \<noteq> 0" and "ss_in_flight (g_storage_state m a) = 0"
    and "\<not> operation_refused operation"
    and "disjoint_buffers (sg_address (sl_completion_buffer (g_slot m sa))) 32 (sg_address (sl_command_buffer (g_slot m sa))) 64"
  shows "\<exists>m1. nds_aiv_storage_write nic (Some d) (Some operation) rv scratch m =
      aiv_sent nic d a (g_slot m sa) (ss_command_id (g_storage_state m a)) rv scratch m1
    \<and> deserialize_storage_write (Some (get_bytes m1 (sg_address (sl_command_buffer (g_slot m sa))) 64)) kStorageCommandBytes
        (Some old) = (SerdeOk, Some (write_request operation (ss_command_id (g_storage_state m a))
          (nds_storage_slot_id_index (so_slot_id operation))))
    \<and> slot_claimed m1 a (g_slot m sa) (ss_command_id (g_storage_state m a)) (so_length operation)"
proof -
  let ?cid = "ss_command_id (g_storage_state m a)" and ?i = "nds_storage_slot_id_index (so_slot_id operation)"
  let ?req = "write_request operation ?cid ?i" and ?cmd = "put_write (write_request operation ?cid ?i) (replicate 64 0)"
  have n: "so_length operation \<noteq> 0" using assms(6) by (simp add: operation_refused_def)
  note v = request_valid(2) [OF assms(6,4)]
  from slot_id_valid_parts [OF assms(1)] have "nds_storage_descriptor_valid (Some d)" by blast
  then have "slot_command_id m (Some d) ?i = ?cid" using assms(2) by (simp add: slot_command_id_def global_accessors)
  moreover have "serialize_storage_write ?req (Some (replicate 64 0)) kStorageCommandBytes = (SerdeOk, Some ?cmd)"
    by (rule write_codec.enc_some [OF v]) simp
  ultimately have run: "nds_aiv_storage_write nic (Some d) (Some operation) rv scratch m =
      ExecuteSerialized nic (Some d) (so_slot_id operation) (so_length operation) ?cmd rv scratch m"
    using n by (simp add: nds_aiv_storage_write_def aiv_submit_def Let_def kStorageCommandBytes_def nds_storage_slot_id_index_def)
  have len: "length ?cmd = 64" using write_codec.put_frame [of ?req "replicate 64 0"] by simp
  have "unat kStorageCommandBytes \<le> length (replicate 64 (0 :: u8))" by (simp add: kStorageCommandBytes_def)
  from write_codec.dec_put [OF v this order.refl] aiv_execute_posts [OF assms(1-5) n len assms(7), of nic rv scratch] run
  show ?thesis by auto
qed

theorem aiv_storage_write_posts_command_witness:
  "\<exists>m1. nds_aiv_storage_write idle_nic (Some sample_storage) (Some sample_operation) (Some 1) True sample_dmem =
      aiv_sent idle_nic sample_storage 0xb000 (g_slot sample_dmem 0xa000) 77 (Some 1) True m1
    \<and> deserialize_storage_write (Some (get_bytes m1 0x8000 64)) kStorageCommandBytes
        (Some sample_write) = (SerdeOk, Some (write_request sample_operation 77 0))
    \<and> slot_claimed m1 0xb000 (g_slot sample_dmem 0xa000) 77 256"
proof -
  have i: "nds_storage_slot_id_index 0 = 0" by (simp add: nds_storage_slot_id_index_def)
  have "\<not> operation_refused sample_operation" by (simp add: operation_refused_def sample_operation_def)
  from aiv_storage_write_posts_command [of sample_dmem sample_storage sample_operation "0xb000" "0xa000" idle_nic
      "Some 1" True sample_write, OF _ _ _ _ _ this] sample_slot_valid sample_slot_disjoint
  show ?thesis
    by (simp add: sample_operation_def i nds_storage_state_def nds_storage_slot_def nds_storage_descriptor_valid_def
        sample_storage_def sample_transport_def) (simp add: sample_dmem_def sample_sge_def)
qed

text \<open>
  The AIV byte count of a batch is truncated. A descriptor array with one entry of
  \<open>2 ^ 32 + 5\<close> bytes passes the guard of the loop and the total is cut to 32 bits: the batch is
  accepted with 5 expected bytes.
\<close>

theorem aiv_batch_total_truncates:
  "BatchTotal huge_dmem (Some \<lparr>sb_slot_id = 0, sb_entry_count = 1, sb_entries_address = 0x100,
      sb_entries_key = 1, sb_reserved = 0\<rparr>) False = 5
   \<and> entry_lengths huge_dmem 0x100 False 1 0 = [Some 0x100000005]"
proof -
  have d: "entry_length False (get_bytes huge_dmem 0x100 40) = Some 0x100000005"
    by (simp add: huge_dmem_entries huge_entry_decodes)
  have one: "(1 :: nat) = Suc 0" by simp
  have "batch_sum huge_dmem 0x100 False 1 0 0 = Some 0x100000005"
    unfolding one by (simp add: kStorageBatchEntryBytes_def d)
  moreover have "entry_lengths huge_dmem 0x100 False 1 0 = [Some 0x100000005]"
    unfolding one by (simp add: entry_lengths_Suc kStorageBatchEntryBytes_def d) (simp add: entry_lengths_def)
  ultimately show ?thesis
    by (simp add: BatchTotal_def kStorageMaxBatchEntries_def)
qed

end
