(* ===== verification/Transport_Protocol.thy ===== *)
theory Transport_Protocol
  imports Storage_Wire
begin

text \<open>
  The transport records of \<^verbatim>\<open>src/src/include/transport_protocol.hh\<close> and the codec and MTU
  policy of \<^verbatim>\<open>src/src/common/transport_protocol.cc\<close>. The conversions \<open>htonl\<close>, \<open>htons\<close> and their
  inverses depend on the host's byte order, which is a parameter here: \<open>Little\<close> swaps,
  \<open>Big\<close> does not. The packed wire structures are records of host integers; \<open>qp_info_bytes\<close>
  and \<open>transport_info_bytes\<close> are their memory images, which is what crosses the TCP channel.
\<close>

section \<open>Host byte order\<close>

datatype endian = Little | Big

definition bswap32 :: "u32 \<Rightarrow> u32" where
  "bswap32 v = push_bit 24 (v AND 0xff) OR push_bit 8 (v AND 0xff00)
     OR drop_bit 8 (v AND 0xff0000) OR drop_bit 24 v"

definition bswap16 :: "u16 \<Rightarrow> u16" where
  "bswap16 v = push_bit 8 (v AND 0xff) OR drop_bit 8 v"

definition htonl :: "endian \<Rightarrow> u32 \<Rightarrow> u32" where
  "htonl e v = (case e of Little \<Rightarrow> bswap32 v | Big \<Rightarrow> v)"

definition htons :: "endian \<Rightarrow> u16 \<Rightarrow> u16" where
  "htons e v = (case e of Little \<Rightarrow> bswap16 v | Big \<Rightarrow> v)"

abbreviation "ntohl \<equiv> htonl"
abbreviation "ntohs \<equiv> htons"

text \<open>The bytes of an integer, most significant first, and its image in host memory.\<close>

definition be16 :: "u16 \<Rightarrow> u8 list" where
  "be16 v = [ucast (drop_bit 8 v), ucast v]"

definition be32 :: "u32 \<Rightarrow> u8 list" where
  "be32 v = [ucast (drop_bit 24 v), ucast (drop_bit 16 v), ucast (drop_bit 8 v), ucast v]"

definition be64 :: "u64 \<Rightarrow> u8 list" where
  "be64 v = be32 (ucast (drop_bit 32 v)) @ be32 (ucast v)"

definition mem16 :: "endian \<Rightarrow> u16 \<Rightarrow> u8 list" where
  "mem16 e v = (case e of Little \<Rightarrow> rev (be16 v) | Big \<Rightarrow> be16 v)"

definition mem32 :: "endian \<Rightarrow> u32 \<Rightarrow> u8 list" where
  "mem32 e v = (case e of Little \<Rightarrow> rev (be32 v) | Big \<Rightarrow> be32 v)"

definition mem64 :: "endian \<Rightarrow> u64 \<Rightarrow> u8 list" where
  "mem64 e v = (case e of Little \<Rightarrow> rev (be64 v) | Big \<Rightarrow> be64 v)"

section \<open>Records\<close>

definition kQpInfoMagic :: u32 where "kQpInfoMagic = 0x4e445331"
definition kQpInfoVersion :: u16 where "kQpInfoVersion = 3"
definition kMaxQpInfoBatch :: u32 where "kMaxQpInfoBatch = 16"
definition kTransportInfoMagic :: u32 where "kTransportInfoMagic = 0x4e445354"
definition kTransportInfoVersion :: u16 where "kTransportInfoVersion = 2"
definition kRemoteMemoryMagic :: u32 where "kRemoteMemoryMagic = 0x4e445332"
definition kRemoteMemoryVersion :: u16 where "kRemoteMemoryVersion = 1"
definition kGidBytes :: nat where "kGidBytes = 16"

lemmas transport_consts = kQpInfoMagic_def kQpInfoVersion_def kMaxQpInfoBatch_def kTransportInfoMagic_def
  kTransportInfoVersion_def kRemoteMemoryMagic_def kRemoteMemoryVersion_def kGidBytes_def

record WireQpInfo =
  wq_magic :: u32
  wq_version :: u16
  wq_reserved0 :: u16
  wq_qp_num :: u32
  wq_psn :: u32
  wq_port_num :: u16
  wq_gid_index :: u16
  wq_path_mtu :: u32
  wq_traffic_class :: u32
  wq_service_level :: u32
  wq_retry_count :: u32
  wq_retry_timeout :: u32
  wq_gid :: "u8 list"
  wq_reserved :: "u8 list"

record WireTransportInfo =
  wt_magic :: u32
  wt_version :: u16
  wt_kind :: u16
  wt_qp_count :: u32
  wt_qps :: "WireQpInfo list"

record WireRemoteMemory =
  wm_magic :: u32
  wm_version :: u16
  wm_reserved0 :: u16
  wm_address :: u64
  wm_length :: u32
  wm_remote_key :: u32
  wm_reserved :: "u8 list"

record QpInfo =
  qp_num :: u32
  psn :: u32
  port_num :: u16
  gid_index :: u16
  path_mtu :: u32
  traffic_class :: u32
  service_level :: u32
  retry_count :: u32
  retry_timeout :: u32
  gid :: "u8 list"

record RemoteMemory =
  rm_address :: u64
  rm_length :: u32
  rm_remote_key :: u32

type_synonym TransportInfoKind = u16

definition QpCountRequest :: TransportInfoKind where "QpCountRequest = 1"
definition QpCountResponse :: TransportInfoKind where "QpCountResponse = 2"
definition QpEndpoints :: TransportInfoKind where "QpEndpoints = 3"

lemmas kind_defs = QpCountRequest_def QpCountResponse_def QpEndpoints_def

record TransportInfo =
  ti_kind :: TransportInfoKind
  ti_qp_count :: u32
  ti_qps :: "QpInfo list"

datatype CodecResult = CodecOk | CodecInvalidArgument | CodecInvalidRecord

text \<open>Value initialization, \<open>{}\<close> of C++.\<close>

definition zero_qp_info :: QpInfo where
  "zero_qp_info = \<lparr>qp_num = 0, psn = 0, port_num = 0, gid_index = 0, path_mtu = 0, traffic_class = 0,
     service_level = 0, retry_count = 0, retry_timeout = 0, gid = replicate 16 0\<rparr>"

definition zero_wire_qp_info :: WireQpInfo where
  "zero_wire_qp_info = \<lparr>wq_magic = 0, wq_version = 0, wq_reserved0 = 0, wq_qp_num = 0, wq_psn = 0,
     wq_port_num = 0, wq_gid_index = 0, wq_path_mtu = 0, wq_traffic_class = 0, wq_service_level = 0,
     wq_retry_count = 0, wq_retry_timeout = 0, wq_gid = replicate 16 0, wq_reserved = replicate 24 0\<rparr>"

definition zero_wire_transport_info :: WireTransportInfo where
  "zero_wire_transport_info = \<lparr>wt_magic = 0, wt_version = 0, wt_kind = 0, wt_qp_count = 0,
     wt_qps = replicate 16 zero_wire_qp_info\<rparr>"

definition zero_wire_remote_memory :: WireRemoteMemory where
  "zero_wire_remote_memory = \<lparr>wm_magic = 0, wm_version = 0, wm_reserved0 = 0, wm_address = 0, wm_length = 0,
     wm_remote_key = 0, wm_reserved = replicate 8 0\<rparr>"

definition zero_transport_info :: TransportInfo where
  "zero_transport_info = \<lparr>ti_kind = 0, ti_qp_count = 0, ti_qps = replicate 16 zero_qp_info\<rparr>"

section \<open>Validation\<close>

definition validate_qp_info :: "QpInfo option \<Rightarrow> CodecResult" where
  "validate_qp_info info =
     (case info of
        None \<Rightarrow> CodecInvalidRecord
      | Some i \<Rightarrow>
          if qp_num i = 0 \<or> qp_num i > 0x00ffffff then CodecInvalidRecord
          else if psn i > 0x00ffffff then CodecInvalidRecord
          else if port_num i = 0 then CodecInvalidRecord
          else if path_mtu i = 0 then CodecInvalidRecord
          else if traffic_class i > 0xff then CodecInvalidRecord
          else if service_level i > 15 then CodecInvalidRecord
          else if retry_count i > 7 \<or> retry_timeout i > 31 then CodecInvalidRecord
          else CodecOk)"

definition host_to_network_u64 :: "endian \<Rightarrow> u64 \<Rightarrow> u64" where
  "host_to_network_u64 e v =
     push_bit 32 (ucast (htonl e (ucast v))) OR ucast (htonl e (ucast (drop_bit 32 v)))"

definition network_to_host_u64 :: "endian \<Rightarrow> u64 \<Rightarrow> u64" where
  "network_to_host_u64 e v =
     push_bit 32 (ucast (ntohl e (ucast v))) OR ucast (ntohl e (ucast (drop_bit 32 v)))"

definition validate_remote_memory :: "RemoteMemory option \<Rightarrow> CodecResult" where
  "validate_remote_memory memory =
     (case memory of
        None \<Rightarrow> CodecInvalidRecord
      | Some m \<Rightarrow>
          if rm_address m = 0 \<or> rm_length m = 0 \<or> rm_remote_key m = 0
            \<or> rm_address m > UINT64_MAX - ucast (rm_length m)
          then CodecInvalidRecord else CodecOk)"

definition valid_transport_info_kind :: "TransportInfoKind \<Rightarrow> bool" where
  "valid_transport_info_kind kind \<longleftrightarrow> kind = QpCountRequest \<or> kind = QpCountResponse \<or> kind = QpEndpoints"

text \<open>The validation loop: \<open>n\<close> descriptors from \<open>index\<close> on.\<close>

primrec validate_qps :: "QpInfo list \<Rightarrow> nat \<Rightarrow> nat \<Rightarrow> CodecResult" where
  "validate_qps qps index 0 = CodecOk"
| "validate_qps qps index (Suc n) =
     (if validate_qp_info (Some (qps ! index)) \<noteq> CodecOk then CodecInvalidRecord
      else validate_qps qps (Suc index) n)"

definition validate_transport_info :: "TransportInfo option \<Rightarrow> CodecResult" where
  "validate_transport_info info =
     (case info of
        None \<Rightarrow> CodecInvalidRecord
      | Some i \<Rightarrow>
          if \<not> valid_transport_info_kind (ti_kind i) \<or> ti_qp_count i = 0 \<or> ti_qp_count i > kMaxQpInfoBatch
          then CodecInvalidRecord
          else if ti_kind i \<noteq> QpEndpoints then CodecOk
          else validate_qps (ti_qps i) 0 (unat (ti_qp_count i)))"

section \<open>Encoding\<close>

definition encode_qp_info :: "endian \<Rightarrow> QpInfo option \<Rightarrow> WireQpInfo option \<Rightarrow> CodecResult \<times> WireQpInfo option" where
  "encode_qp_info e info encoded =
     (case encoded of
        None \<Rightarrow> (CodecInvalidArgument, None)
      | Some old \<Rightarrow>
          (case info of
             None \<Rightarrow> (CodecInvalidRecord, Some old)
           | Some i \<Rightarrow>
               if validate_qp_info info \<noteq> CodecOk then (CodecInvalidRecord, Some old)
               else (CodecOk, Some (zero_wire_qp_info\<lparr>
                  wq_magic := htonl e kQpInfoMagic, wq_version := htons e kQpInfoVersion,
                  wq_qp_num := htonl e (qp_num i), wq_psn := htonl e (psn i),
                  wq_port_num := htons e (port_num i), wq_gid_index := htons e (gid_index i),
                  wq_path_mtu := htonl e (path_mtu i), wq_traffic_class := htonl e (traffic_class i),
                  wq_service_level := htonl e (service_level i), wq_retry_count := htonl e (retry_count i),
                  wq_retry_timeout := htonl e (retry_timeout i), wq_gid := gid i\<rparr>))))"

definition encode_remote_memory :: "endian \<Rightarrow> RemoteMemory option \<Rightarrow> WireRemoteMemory option \<Rightarrow>
    CodecResult \<times> WireRemoteMemory option" where
  "encode_remote_memory e memory encoded =
     (case encoded of
        None \<Rightarrow> (CodecInvalidArgument, None)
      | Some old \<Rightarrow>
          (case memory of
             None \<Rightarrow> (CodecInvalidRecord, Some old)
           | Some m \<Rightarrow>
               if validate_remote_memory memory \<noteq> CodecOk then (CodecInvalidRecord, Some old)
               else (CodecOk, Some (zero_wire_remote_memory\<lparr>
                  wm_magic := htonl e kRemoteMemoryMagic, wm_version := htons e kRemoteMemoryVersion,
                  wm_address := host_to_network_u64 e (rm_address m), wm_length := htonl e (rm_length m),
                  wm_remote_key := htonl e (rm_remote_key m)\<rparr>))))"

fun encode_qps :: "endian \<Rightarrow> QpInfo list \<Rightarrow> WireQpInfo list \<Rightarrow> nat \<Rightarrow> nat \<Rightarrow> CodecResult \<times> WireQpInfo list" where
  "encode_qps e qps encoded index 0 = (CodecOk, encoded)"
| "encode_qps e qps encoded index (Suc n) =
     (case encode_qp_info e (Some (qps ! index)) (Some (encoded ! index)) of
        (CodecOk, Some w) \<Rightarrow> encode_qps e qps (encoded[index := w]) (Suc index) n
      | _ \<Rightarrow> (CodecInvalidRecord, encoded))"

definition encode_transport_info :: "endian \<Rightarrow> TransportInfo option \<Rightarrow> WireTransportInfo option \<Rightarrow>
    CodecResult \<times> WireTransportInfo option" where
  "encode_transport_info e info encoded =
     (case encoded of
        None \<Rightarrow> (CodecInvalidArgument, None)
      | Some old \<Rightarrow>
          (case info of
             None \<Rightarrow> (CodecInvalidRecord, Some old)
           | Some i \<Rightarrow>
               if validate_transport_info info \<noteq> CodecOk then (CodecInvalidRecord, Some old)
               else
                 (let w = zero_wire_transport_info\<lparr>
                        wt_magic := htonl e kTransportInfoMagic, wt_version := htons e kTransportInfoVersion,
                        wt_kind := htons e (ti_kind i), wt_qp_count := htonl e (ti_qp_count i)\<rparr>
                  in if ti_kind i \<noteq> QpEndpoints then (CodecOk, Some w)
                     else (case encode_qps e (ti_qps i) (wt_qps w) 0 (unat (ti_qp_count i)) of
                             (result, qps) \<Rightarrow> (result, Some (w\<lparr>wt_qps := qps\<rparr>))))))"

section \<open>Decoding\<close>

definition decoded_qp_info :: "endian \<Rightarrow> WireQpInfo \<Rightarrow> QpInfo" where
  "decoded_qp_info e w = \<lparr>qp_num = ntohl e (wq_qp_num w), psn = ntohl e (wq_psn w),
     port_num = ntohs e (wq_port_num w), gid_index = ntohs e (wq_gid_index w),
     path_mtu = ntohl e (wq_path_mtu w), traffic_class = ntohl e (wq_traffic_class w),
     service_level = ntohl e (wq_service_level w), retry_count = ntohl e (wq_retry_count w),
     retry_timeout = ntohl e (wq_retry_timeout w), gid = wq_gid w\<rparr>"

definition decode_qp_info :: "endian \<Rightarrow> WireQpInfo option \<Rightarrow> QpInfo option \<Rightarrow> CodecResult \<times> QpInfo option" where
  "decode_qp_info e encoded info =
     (case (encoded, info) of
        (Some w, Some old) \<Rightarrow>
          if ntohl e (wq_magic w) \<noteq> kQpInfoMagic then (CodecInvalidRecord, info)
          else if ntohs e (wq_version w) \<noteq> kQpInfoVersion then (CodecInvalidRecord, info)
          else if validate_qp_info (Some (decoded_qp_info e w)) \<noteq> CodecOk then (CodecInvalidRecord, info)
          else (CodecOk, Some (decoded_qp_info e w))
      | _ \<Rightarrow> (CodecInvalidArgument, info))"

definition decode_remote_memory :: "endian \<Rightarrow> WireRemoteMemory option \<Rightarrow> RemoteMemory option \<Rightarrow>
    CodecResult \<times> RemoteMemory option" where
  "decode_remote_memory e encoded memory =
     (case (encoded, memory) of
        (Some w, Some old) \<Rightarrow>
          if ntohl e (wm_magic w) \<noteq> kRemoteMemoryMagic \<or> ntohs e (wm_version w) \<noteq> kRemoteMemoryVersion
          then (CodecInvalidRecord, memory)
          else
            (let decoded = \<lparr>rm_address = network_to_host_u64 e (wm_address w), rm_length = ntohl e (wm_length w),
                            rm_remote_key = ntohl e (wm_remote_key w)\<rparr>
             in if validate_remote_memory (Some decoded) \<noteq> CodecOk then (CodecInvalidRecord, memory)
                else (CodecOk, Some decoded))
      | _ \<Rightarrow> (CodecInvalidArgument, memory))"

fun decode_qps :: "endian \<Rightarrow> WireQpInfo list \<Rightarrow> QpInfo list \<Rightarrow> nat \<Rightarrow> nat \<Rightarrow> CodecResult \<times> QpInfo list" where
  "decode_qps e encoded qps index 0 = (CodecOk, qps)"
| "decode_qps e encoded qps index (Suc n) =
     (case decode_qp_info e (Some (encoded ! index)) (Some (qps ! index)) of
        (CodecOk, Some q) \<Rightarrow> decode_qps e encoded (qps[index := q]) (Suc index) n
      | _ \<Rightarrow> (CodecInvalidRecord, qps))"

definition decode_transport_info :: "endian \<Rightarrow> WireTransportInfo option \<Rightarrow> TransportInfo option \<Rightarrow>
    CodecResult \<times> TransportInfo option" where
  "decode_transport_info e encoded info =
     (case (encoded, info) of
        (Some w, Some old) \<Rightarrow>
          if ntohl e (wt_magic w) \<noteq> kTransportInfoMagic \<or> ntohs e (wt_version w) \<noteq> kTransportInfoVersion
          then (CodecInvalidRecord, info)
          else
            (let decoded = zero_transport_info\<lparr>ti_kind := ntohs e (wt_kind w), ti_qp_count := ntohl e (wt_qp_count w)\<rparr>
             in if \<not> valid_transport_info_kind (ti_kind decoded) \<or> ti_qp_count decoded = 0
                  \<or> ti_qp_count decoded > kMaxQpInfoBatch
                then (CodecInvalidRecord, info)
                else if ti_kind decoded = QpEndpoints
                then (case decode_qps e (wt_qps w) (ti_qps decoded) 0 (unat (ti_qp_count decoded)) of
                        (CodecOk, qps) \<Rightarrow> (CodecOk, Some (decoded\<lparr>ti_qps := qps\<rparr>))
                      | (_, _) \<Rightarrow> (CodecInvalidRecord, info))
                else (CodecOk, Some decoded))
      | _ \<Rightarrow> (CodecInvalidArgument, info))"

section \<open>MTU policy\<close>

definition mtu_is_supported :: "u32 \<Rightarrow> bool" where
  "mtu_is_supported mtu_bytes \<longleftrightarrow> mtu_bytes \<in> {256, 512, 1024, 2048, 4096}"

definition select_mtu :: "u32 \<Rightarrow> u32 \<Rightarrow> u32" where
  "select_mtu local_active_mtu peer_reported_mtu =
     (if mtu_is_supported local_active_mtu then local_active_mtu else 0)"

section \<open>Memory images\<close>

text \<open>The packed structures field by field, as \<open>std::as_bytes\<close> exposes them.\<close>

definition qp_info_bytes :: "endian \<Rightarrow> WireQpInfo \<Rightarrow> u8 list" where
  "qp_info_bytes e w =
     mem32 e (wq_magic w) @ mem16 e (wq_version w) @ mem16 e (wq_reserved0 w) @ mem32 e (wq_qp_num w)
     @ mem32 e (wq_psn w) @ mem16 e (wq_port_num w) @ mem16 e (wq_gid_index w) @ mem32 e (wq_path_mtu w)
     @ mem32 e (wq_traffic_class w) @ mem32 e (wq_service_level w) @ mem32 e (wq_retry_count w)
     @ mem32 e (wq_retry_timeout w) @ wq_gid w @ wq_reserved w"

definition transport_info_bytes :: "endian \<Rightarrow> WireTransportInfo \<Rightarrow> u8 list" where
  "transport_info_bytes e w =
     mem32 e (wt_magic w) @ mem16 e (wt_version w) @ mem16 e (wt_kind w) @ mem32 e (wt_qp_count w)
     @ concat (map (qp_info_bytes e) (wt_qps w))"

definition remote_memory_bytes :: "endian \<Rightarrow> WireRemoteMemory \<Rightarrow> u8 list" where
  "remote_memory_bytes e w =
     mem32 e (wm_magic w) @ mem16 e (wm_version w) @ mem16 e (wm_reserved0 w) @ mem64 e (wm_address w)
     @ mem32 e (wm_length w) @ mem32 e (wm_remote_key w) @ wm_reserved w"

text \<open>
  The receiving side copies bytes into the packed structure: an integer in host memory at
  offset \<open>k\<close>, then the structures (\<open>std::as_writable_bytes\<close>).
\<close>

definition load16 :: "endian \<Rightarrow> u8 list \<Rightarrow> nat \<Rightarrow> u16" where
  "load16 e bs k = (case e of Little \<Rightarrow> bswap16 (read_u16 bs k) | Big \<Rightarrow> read_u16 bs k)"

definition load32 :: "endian \<Rightarrow> u8 list \<Rightarrow> nat \<Rightarrow> u32" where
  "load32 e bs k = (case e of Little \<Rightarrow> bswap32 (read_u32 bs k) | Big \<Rightarrow> read_u32 bs k)"

definition qp_info_of_bytes :: "endian \<Rightarrow> u8 list \<Rightarrow> WireQpInfo" where
  "qp_info_of_bytes e bs = \<lparr>wq_magic = load32 e bs 0, wq_version = load16 e bs 4, wq_reserved0 = load16 e bs 6,
     wq_qp_num = load32 e bs 8, wq_psn = load32 e bs 12, wq_port_num = load16 e bs 16,
     wq_gid_index = load16 e bs 18, wq_path_mtu = load32 e bs 20, wq_traffic_class = load32 e bs 24,
     wq_service_level = load32 e bs 28, wq_retry_count = load32 e bs 32, wq_retry_timeout = load32 e bs 36,
     wq_gid = take 16 (drop 40 bs), wq_reserved = take 24 (drop 56 bs)\<rparr>"

definition transport_info_of_bytes :: "endian \<Rightarrow> u8 list \<Rightarrow> WireTransportInfo" where
  "transport_info_of_bytes e bs = \<lparr>wt_magic = load32 e bs 0, wt_version = load16 e bs 4,
     wt_kind = load16 e bs 6, wt_qp_count = load32 e bs 8,
     wt_qps = map (\<lambda>i. qp_info_of_bytes e (take 80 (drop (12 + 80 * i) bs))) [0..<16]\<rparr>"

section \<open>Byte order lemmas\<close>

lemma byte_masks:
  "(0xff :: u32) = mask 8" "(0xff00 :: u32) = push_bit 8 (mask 8)"
  "(0xff0000 :: u32) = push_bit 16 (mask 8)" "(0xff :: u16) = mask 8"
  by (simp_all add: mask_eq_exp_minus_1 push_bit_eq_mult)

lemma bit_bswap32:
  "bit (bswap32 v) n \<longleftrightarrow>
     (if n < 8 then bit v (n + 24) else if n < 16 then bit v (n + 8)
      else if n < 24 then bit v (n - 8) else n < 32 \<and> bit v (n - 24))"
  by (auto simp: bswap32_def byte_masks bit_simps ac_simps dest: bit_imp_le_length)

lemma bit_bswap16:
  "bit (bswap16 v) n \<longleftrightarrow> (if n < 8 then bit v (n + 8) else n < 16 \<and> bit v (n - 8))"
  by (auto simp: bswap16_def byte_masks bit_simps ac_simps dest: bit_imp_le_length)

lemma bswap32_bswap32 [simp]: "bswap32 (bswap32 v) = v"
  by (rule bit_word_eqI) (auto simp: bit_bswap32)

lemma bswap16_bswap16 [simp]: "bswap16 (bswap16 v) = v"
  by (rule bit_word_eqI) (auto simp: bit_bswap16)

lemma htonl_htonl [simp]: "htonl e (htonl e v) = v"
  by (cases e) (simp_all add: htonl_def)

lemma htons_htons [simp]: "htons e (htons e v) = v"
  by (cases e) (simp_all add: htons_def)

lemma rev_be32_bswap32: "rev (be32 (bswap32 v)) = be32 v"
  by (auto simp: be32_def bit_bswap32 bit_simps ac_simps intro!: bit_word_eqI)

lemma rev_be16_bswap16: "rev (be16 (bswap16 v)) = be16 v"
  by (auto simp: be16_def bit_bswap16 bit_simps ac_simps intro!: bit_word_eqI)

lemma mem32_htonl [simp]: "mem32 e (htonl e v) = be32 v"
  by (cases e) (simp_all add: mem32_def htonl_def rev_be32_bswap32)

lemma mem16_htons [simp]: "mem16 e (htons e v) = be16 v"
  by (cases e) (simp_all add: mem16_def htons_def rev_be16_bswap16)

lemma length_mem [simp]:
  "length (be16 a) = 2" "length (be32 b) = 4" "length (mem16 e a) = 2" "length (mem32 e b) = 4"
  by (simp_all add: be16_def be32_def mem16_def mem32_def split: endian.splits)

lemma read_append:
  "length xs \<le> k \<Longrightarrow> read_u16 (xs @ ys) k = read_u16 ys (k - length xs)"
  "length xs \<le> k \<Longrightarrow> read_u32 (xs @ ys) k = read_u32 ys (k - length xs)"
  by (simp_all add: read_u16_def read_u32_def nth_append not_less Suc_diff_le add.commute)

lemma read_be:
  "read_u16 (be16 a @ ys) 0 = a" "read_u32 (be32 b @ ys) 0 = b"
  by (simp_all add: read_u16_def read_u32_def be16_def be32_def join_bytes_u16 join_bytes_u32)

lemma load_append [serde]:
  "length xs \<le> k \<Longrightarrow> load16 e (xs @ ys) k = load16 e ys (k - length xs)"
  "length xs \<le> k \<Longrightarrow> load32 e (xs @ ys) k = load32 e ys (k - length xs)"
  by (simp_all add: load16_def load32_def read_append split: endian.split)

text \<open>What a host of order \<open>e\<close> loads from the network image of a value is \<open>htonl\<close> of it there.\<close>

lemma load_be [serde]:
  "load16 e (be16 a @ ys) 0 = htons e a" "load32 e (be32 b @ ys) 0 = htonl e b"
  by (simp_all add: load16_def load32_def htons_def htonl_def read_be split: endian.split)

section \<open>Codec lemmas\<close>

text \<open>The structure a host of order \<open>e\<close> sends for a descriptor that passes validation.\<close>

definition wire_qp :: "endian \<Rightarrow> QpInfo \<Rightarrow> WireQpInfo" where
  "wire_qp e i = zero_wire_qp_info\<lparr>
     wq_magic := htonl e kQpInfoMagic, wq_version := htons e kQpInfoVersion,
     wq_qp_num := htonl e (qp_num i), wq_psn := htonl e (psn i),
     wq_port_num := htons e (port_num i), wq_gid_index := htons e (gid_index i),
     wq_path_mtu := htonl e (path_mtu i), wq_traffic_class := htonl e (traffic_class i),
     wq_service_level := htonl e (service_level i), wq_retry_count := htonl e (retry_count i),
     wq_retry_timeout := htonl e (retry_timeout i), wq_gid := gid i\<rparr>"

lemma encode_qp_info_simp:
  "encode_qp_info e (Some i) (Some old) =
     (if validate_qp_info (Some i) = CodecOk then (CodecOk, Some (wire_qp e i)) else (CodecInvalidRecord, Some old))"
  by (simp add: encode_qp_info_def wire_qp_def)

lemma decoded_wire_qp [simp]: "decoded_qp_info e (wire_qp e i) = i"
  by (simp add: decoded_qp_info_def wire_qp_def)

lemma decode_wire_qp:
  "validate_qp_info (Some i) = CodecOk \<Longrightarrow> decode_qp_info e (Some (wire_qp e i)) (Some old) = (CodecOk, Some i)"
  by (simp add: decode_qp_info_def) (simp add: wire_qp_def)

lemma length_qp_info_bytes [simp]:
  "length (qp_info_bytes e w) = 40 + length (wq_gid w) + length (wq_reserved w)"
  by (simp add: qp_info_bytes_def)

lemma wire_qp_simps [simp]:
  "wq_gid (wire_qp e i) = gid i" "wq_reserved (wire_qp e i) = replicate 24 0"
  "wq_gid zero_wire_qp_info = replicate 16 0" "wq_reserved zero_wire_qp_info = replicate 24 0"
  by (simp_all add: wire_qp_def zero_wire_qp_info_def)

lemma htons_0 [simp]: "htons e 0 = 0" "htonl e 0 = 0"
  by (simp_all add: htons_def htonl_def bswap16_def bswap32_def split: endian.split)

lemma mem_0: "mem16 e 0 = be16 0" "mem32 e 0 = be32 0"
  using mem16_htons [of e 0] mem32_htonl [of e 0] by simp_all

text \<open>The image one host sends, loaded by another: the structure the second would have built.\<close>

lemma qp_info_cross_host:
  assumes "length (gid i) = 16"
  shows "qp_info_of_bytes e2 (qp_info_bytes e1 (wire_qp e1 i)) = wire_qp e2 i"
  using assms
  by (simp add: qp_info_of_bytes_def qp_info_bytes_def wire_qp_def zero_wire_qp_info_def mem_0 serde)

lemma zero_qp_cross_host: "qp_info_of_bytes e2 (qp_info_bytes e1 zero_wire_qp_info) = zero_wire_qp_info"
  by (simp add: qp_info_of_bytes_def qp_info_bytes_def zero_wire_qp_info_def mem_0 serde)

subsection \<open>Descriptor loops\<close>

lemma validate_qps_iff:
  "validate_qps qps index n = CodecOk \<longleftrightarrow>
     (\<forall>k. index \<le> k \<and> k < index + n \<longrightarrow> validate_qp_info (Some (qps ! k)) = CodecOk)"
proof (induction n arbitrary: index)
  case (Suc n)
  have *: "index \<le> k \<and> k < index + Suc n \<longleftrightarrow> k = index \<or> Suc index \<le> k \<and> k < Suc index + n" for k
    by auto
  show ?case unfolding * using Suc.IH [of "Suc index"] by auto
qed auto

lemma encode_qps_ok:
  assumes "validate_qps qps index n = CodecOk" and "index + n \<le> length encoded"
  shows "encode_qps e qps encoded index n = (CodecOk,
     map (\<lambda>k. if index \<le> k \<and> k < index + n then wire_qp e (qps ! k) else encoded ! k) [0..<length encoded])"
  using assms
proof (induction n arbitrary: index encoded)
  case 0
  then show ?case by (auto intro!: nth_equalityI)
next
  case (Suc n)
  from Suc.prems(1) have v: "validate_qp_info (Some (qps ! index)) = CodecOk"
    and vs: "validate_qps qps (Suc index) n = CodecOk" by (auto split: if_splits)
  from Suc.IH [OF vs, of "encoded[index := wire_qp e (qps ! index)]"] Suc.prems(2) v show ?case
    by (auto simp: encode_qp_info_simp nth_list_update intro!: map_cong)
qed

lemma decode_qps_ok:
  assumes "\<And>k. index \<le> k \<Longrightarrow> k < index + n \<Longrightarrow>
      encoded ! k = wire_qp e (qs ! k) \<and> validate_qp_info (Some (qs ! k)) = CodecOk"
    and "index + n \<le> length qps"
  shows "decode_qps e encoded qps index n = (CodecOk,
     map (\<lambda>k. if index \<le> k \<and> k < index + n then qs ! k else qps ! k) [0..<length qps])"
  using assms
proof (induction n arbitrary: index qps)
  case 0
  then show ?case by (auto intro!: nth_equalityI)
next
  case (Suc n)
  from Suc.prems(1) [of index] have "decode_qp_info e (Some (encoded ! index)) (Some (qps ! index)) = (CodecOk, Some (qs ! index))"
    by (simp add: decode_wire_qp)
  with Suc.IH [of "Suc index" "qps[index := qs ! index]"] Suc.prems show ?case
    by (auto simp: nth_list_update intro!: map_cong)
qed

text \<open>Whatever the bytes, accepted descriptors are valid and the table keeps its size.\<close>

lemma decode_qp_info_okD:
  assumes "decode_qp_info e (Some w) (Some old) = (CodecOk, q)"
  shows "q = Some (decoded_qp_info e w)" "validate_qp_info q = CodecOk"
  using assms by (auto simp: decode_qp_info_def split: if_splits)

lemma decode_qps_okD:
  assumes "decode_qps e encoded qps index n = (CodecOk, qps')" and "index + n \<le> length qps"
  shows "length qps' = length qps \<and> (\<forall>k < index. qps' ! k = qps ! k) \<and>
    (\<forall>k. index \<le> k \<and> k < index + n \<longrightarrow> validate_qp_info (Some (qps' ! k)) = CodecOk)"
  using assms
proof (induction n arbitrary: index qps)
  case (Suc n)
  from Suc.prems(1) obtain q
    where q: "decode_qp_info e (Some (encoded ! index)) (Some (qps ! index)) = (CodecOk, Some q)"
      and r: "decode_qps e encoded (qps[index := q]) (Suc index) n = (CodecOk, qps')"
    by (auto split: prod.splits CodecResult.splits option.splits)
  have *: "index \<le> k \<and> k < index + Suc n \<longleftrightarrow> k = index \<or> Suc index \<le> k \<and> k < Suc index + n" for k
    by auto
  show ?case
    unfolding * using Suc.IH [OF r] Suc.prems(2) decode_qp_info_okD(2) [OF q] by (auto simp: less_Suc_eq)
qed auto

subsection \<open>Endpoint records\<close>

text \<open>
  What a record says: its kind, its count and, for an endpoint record, its first \<open>qp_count\<close>
  descriptors. \<open>wire_transport\<close> is the structure sent for it, \<open>canonical_transport_info\<close> the
  record a receiver reconstructs, the unused descriptors value-initialized.
\<close>

definition wire_transport :: "endian \<Rightarrow> TransportInfo \<Rightarrow> WireTransportInfo" where
  "wire_transport e i = \<lparr>wt_magic = htonl e kTransportInfoMagic, wt_version = htons e kTransportInfoVersion,
     wt_kind = htons e (ti_kind i), wt_qp_count = htonl e (ti_qp_count i),
     wt_qps = map (\<lambda>k. if ti_kind i = QpEndpoints \<and> k < unat (ti_qp_count i) then wire_qp e (ti_qps i ! k)
                        else zero_wire_qp_info) [0..<16]\<rparr>"

definition canonical_transport_info :: "TransportInfo \<Rightarrow> TransportInfo" where
  "canonical_transport_info i = i\<lparr>ti_qps :=
     map (\<lambda>k. if ti_kind i = QpEndpoints \<and> k < unat (ti_qp_count i) then ti_qps i ! k else zero_qp_info) [0..<16]\<rparr>"

definition transport_info_wf :: "TransportInfo \<Rightarrow> bool" where
  "transport_info_wf i \<longleftrightarrow> length (ti_qps i) = 16 \<and> (\<forall>q \<in> set (ti_qps i). length (gid q) = 16)"

lemma validate_transport_info_iff:
  "validate_transport_info (Some i) = CodecOk \<longleftrightarrow>
     valid_transport_info_kind (ti_kind i) \<and> ti_qp_count i \<noteq> 0 \<and> ti_qp_count i \<le> kMaxQpInfoBatch \<and>
     (ti_kind i = QpEndpoints \<longrightarrow>
       (\<forall>k < unat (ti_qp_count i). validate_qp_info (Some (ti_qps i ! k)) = CodecOk))"
  by (auto simp: validate_transport_info_def validate_qps_iff)

lemma count_le_16: "(c :: u32) \<le> kMaxQpInfoBatch \<longleftrightarrow> unat c \<le> 16"
  by (simp add: kMaxQpInfoBatch_def word_le_nat_alt)

lemma count_gt_16: "kMaxQpInfoBatch < (c :: u32) \<longleftrightarrow> 16 < unat c"
  by (simp add: kMaxQpInfoBatch_def word_less_nat_alt)

lemma encode_transport_info_simp:
  "encode_transport_info e (Some i) (Some old) =
     (if validate_transport_info (Some i) = CodecOk then (CodecOk, Some (wire_transport e i))
      else (CodecInvalidRecord, Some old))"
proof (cases "validate_transport_info (Some i) = CodecOk \<and> ti_kind i = QpEndpoints")
  case True
  then have "validate_qps (ti_qps i) 0 (unat (ti_qp_count i)) = CodecOk" "unat (ti_qp_count i) \<le> 16"
    by (auto simp: validate_transport_info_iff validate_qps_iff count_le_16)
  then have "encode_qps e (ti_qps i) (replicate 16 zero_wire_qp_info) 0 (unat (ti_qp_count i)) =
      (CodecOk, wt_qps (wire_transport e i))"
    using True encode_qps_ok [of "ti_qps i" 0 "unat (ti_qp_count i)" "replicate 16 zero_wire_qp_info" e]
    by (auto simp: wire_transport_def intro!: map_cong)
  then show ?thesis using True
    by (simp add: encode_transport_info_def zero_wire_transport_info_def)
      (simp add: wire_transport_def)
next
  case False
  then show ?thesis
    by (auto simp: encode_transport_info_def zero_wire_transport_info_def wire_transport_def
        map_replicate_const intro!: nth_equalityI)
qed

lemma decode_wire_transport:
  assumes "validate_transport_info (Some i) = CodecOk"
  shows "decode_transport_info e (Some (wire_transport e i)) (Some old) = (CodecOk, Some (canonical_transport_info i))"
proof (cases "ti_kind i = QpEndpoints")
  case True
  note v = assms [unfolded validate_transport_info_iff count_le_16]
  have "decode_qps e (wt_qps (wire_transport e i)) (replicate 16 zero_qp_info) 0 (unat (ti_qp_count i)) =
      (CodecOk, ti_qps (canonical_transport_info i))"
    using v True
      decode_qps_ok [of 0 "unat (ti_qp_count i)" "wt_qps (wire_transport e i)" e "ti_qps i" "replicate 16 zero_qp_info"]
    by (auto simp: wire_transport_def canonical_transport_info_def nth_append intro!: map_cong)
  then show ?thesis using v True
    by (simp add: decode_transport_info_def wire_transport_def zero_transport_info_def count_gt_16 Let_def)
      (simp add: canonical_transport_info_def)
next
  case False
  then show ?thesis using assms
    by (simp add: decode_transport_info_def wire_transport_def zero_transport_info_def count_gt_16 count_le_16
        Let_def validate_transport_info_iff canonical_transport_info_def map_replicate_const)
qed

lemma qp_slot_of_concat:
  assumes "\<forall>b \<in> set bs. length b = 80" and "k < length bs"
  shows "take 80 (drop (80 * k) (concat bs)) = bs ! k"
  using assms
proof (induction bs arbitrary: k)
  case (Cons b bs)
  then show ?case by (cases k) simp_all
qed simp

lemma transport_info_cross_host:
  assumes wf: "transport_info_wf i" and v: "validate_transport_info (Some i) = CodecOk"
  shows "transport_info_of_bytes e2 (transport_info_bytes e1 (wire_transport e1 i)) = wire_transport e2 i"
proof -
  let ?w = "\<lambda>e k. if ti_kind i = QpEndpoints \<and> k < unat (ti_qp_count i) then wire_qp e (ti_qps i ! k)
     else zero_wire_qp_info"
  let ?bs = "map (\<lambda>k. qp_info_bytes e1 (?w e1 k)) [0..<16]"
  have n: "unat (ti_qp_count i) \<le> 16" using v by (simp add: validate_transport_info_iff count_le_16)
  have g: "k < unat (ti_qp_count i) \<Longrightarrow> length (gid (ti_qps i ! k)) = 16" for k
    using wf n by (simp add: transport_info_wf_def)
  have slot: "k < 16 \<Longrightarrow> qp_info_of_bytes e2 (take 80 (drop (80 * k) (concat ?bs))) = ?w e2 k" for k
    using qp_slot_of_concat [of ?bs k] g [of k]
    by (simp add: g qp_info_cross_host zero_qp_cross_host)
  have "drop (12 + 80 * k) (transport_info_bytes e1 (wire_transport e1 i)) = drop (80 * k) (concat ?bs)" for k
    by (simp add: transport_info_bytes_def wire_transport_def comp_def)
  then show ?thesis
    using slot by (simp add: transport_info_of_bytes_def) (simp add: transport_info_bytes_def wire_transport_def serde)
qed

lemma decode_transport_info_cases:
  obtains (ok) i where "decode_transport_info e (Some w) (Some old) = (CodecOk, Some i)"
      "validate_transport_info (Some i) = CodecOk" "length (ti_qps i) = 16"
  | (rejected) "decode_transport_info e (Some w) (Some old) = (CodecInvalidRecord, Some old)"
proof (cases "decode_transport_info e (Some w) (Some old) = (CodecInvalidRecord, Some old)")
  case False
  define d where "d = zero_transport_info\<lparr>ti_kind := ntohs e (wt_kind w), ti_qp_count := ntohl e (wt_qp_count w)\<rparr>"
  have d: "length (ti_qps d) = 16" by (simp add: d_def zero_transport_info_def)
  from False have h: "valid_transport_info_kind (ti_kind d)" "ti_qp_count d \<noteq> 0" "ti_qp_count d \<le> kMaxQpInfoBatch"
    by (auto simp: decode_transport_info_def d_def [symmetric] Let_def split: if_splits)
  show thesis
  proof (cases "ti_kind d = QpEndpoints")
    case True
    with False obtain qps where q: "decode_qps e (wt_qps w) (ti_qps d) 0 (unat (ti_qp_count d)) = (CodecOk, qps)"
      and r: "decode_transport_info e (Some w) (Some old) = (CodecOk, Some (d\<lparr>ti_qps := qps\<rparr>))"
      by (auto simp: decode_transport_info_def d_def [symmetric] Let_def
          split: if_splits prod.splits CodecResult.splits)
    from decode_qps_okD [OF q] d h show thesis
      by (intro ok [OF r]) (simp_all add: validate_transport_info_iff count_le_16)
  next
    case kind: False
    then have r: "decode_transport_info e (Some w) (Some old) = (CodecOk, Some d)"
      using False by (simp add: decode_transport_info_def d_def [symmetric] Let_def split: if_splits)
    then show thesis using h d kind by (intro ok [OF r]) (simp_all add: validate_transport_info_iff)
  qed
qed (rule rejected)

subsection \<open>Remote memory\<close>

lemma not_bit_u32_high: "\<not> bit (b :: u32) (32 + n)"
  using bit_imp_le_length [of b "32 + n"] by auto

lemma htn_u64_halves:
  "(ucast (drop_bit 32 (push_bit 32 (ucast a) OR ucast b :: u64)) :: u32) = (a :: u32)"
  "(ucast (push_bit 32 (ucast a) OR ucast b :: u64) :: u32) = (b :: u32)"
  by (auto simp: bit_simps not_bit_u32_high intro!: bit_word_eqI)

lemma network_to_host_u64_inverse [simp]: "network_to_host_u64 e (host_to_network_u64 e v) = v"
  by (simp add: network_to_host_u64_def host_to_network_u64_def htn_u64_halves join_halves_u64 del: drop_bit_or)

lemma mem64_host_to_network_Little: "mem64 Little (host_to_network_u64 Little v) = be64 v"
  by (simp add: mem64_def be64_def host_to_network_u64_def htn_u64_halves htonl_def rev_be32_bswap32 del: drop_bit_or)

lemma mem64_host_to_network_Big:
  "mem64 Big (host_to_network_u64 Big v) = be32 (ucast v) @ be32 (ucast (drop_bit 32 v))"
  by (simp add: mem64_def be64_def host_to_network_u64_def htn_u64_halves htonl_def del: drop_bit_or)

lemma remote_memory_roundtrip_lemma:
  assumes "validate_remote_memory (Some m) = CodecOk"
  obtains w where "encode_remote_memory e (Some m) (Some old) = (CodecOk, Some w)"
    "decode_remote_memory e (Some w) (Some old') = (CodecOk, Some m)"
  using that assms by (cases m) (simp add: encode_remote_memory_def decode_remote_memory_def Let_def)

lemma length_transport_info_bytes:
  assumes "transport_info_wf i" "validate_transport_info (Some i) = CodecOk"
  shows "length (transport_info_bytes e (wire_transport e i)) = 1292"
proof -
  let ?w = "\<lambda>k. if ti_kind i = QpEndpoints \<and> k < unat (ti_qp_count i) then wire_qp e (ti_qps i ! k)
     else zero_wire_qp_info"
  define f where "f k = length (qp_info_bytes e (?w k))" for k
  have "f k = 80" if "k < 16" for k
    using assms that by (auto simp: f_def transport_info_wf_def validate_transport_info_iff count_le_16)
  then have "map f [0..<16] = replicate 16 80"
    by (intro nth_equalityI) simp_all
  then have "sum_list (map f [0..<16]) = 1280"
    by (simp add: sum_list_replicate)
  then show ?thesis
    unfolding f_def
    by (simp add: transport_info_bytes_def wire_transport_def length_concat comp_def
        del: length_qp_info_bytes upt_rec_numeral)
qed

section \<open>Properties\<close>

text \<open>
  C33: the endpoint exchange is host independent. A record that passes validation encodes on a
  host of one byte order to 1292 bytes from which a host of any byte order decodes the same
  kind, the same count and, for an endpoint record, the same queue pair descriptors.
\<close>

theorem transport_info_exchange:
  assumes "transport_info_wf i" and "validate_transport_info (Some i) = CodecOk"
  shows "\<exists>w. encode_transport_info e1 (Some i) (Some old) = (CodecOk, Some w)
    \<and> length (transport_info_bytes e1 w) = 1292
    \<and> decode_transport_info e2 (Some (transport_info_of_bytes e2 (transport_info_bytes e1 w))) (Some old')
      = (CodecOk, Some (canonical_transport_info i))"
  using assms
  by (simp add: encode_transport_info_simp transport_info_cross_host decode_wire_transport length_transport_info_bytes)

definition sample_qp_info :: QpInfo where
  "sample_qp_info = zero_qp_info\<lparr>qp_num := 17, port_num := 1, path_mtu := 4096\<rparr>"

definition sample_transport_info :: TransportInfo where
  "sample_transport_info = \<lparr>ti_kind = QpEndpoints, ti_qp_count = 2, ti_qps = replicate 16 sample_qp_info\<rparr>"

lemma sample_transport_info_ok:
  "transport_info_wf sample_transport_info" "validate_transport_info (Some sample_transport_info) = CodecOk"
  by (simp_all add: transport_info_wf_def sample_transport_info_def sample_qp_info_def zero_qp_info_def
      validate_transport_info_iff valid_transport_info_kind_def kind_defs kMaxQpInfoBatch_def validate_qp_info_def)

theorem transport_info_exchange_witness:
  "transport_info_wf sample_transport_info \<and> validate_transport_info (Some sample_transport_info) = CodecOk \<and>
   (\<exists>w. encode_transport_info Little (Some sample_transport_info) (Some zero_wire_transport_info) = (CodecOk, Some w)
    \<and> length (transport_info_bytes Little w) = 1292
    \<and> decode_transport_info Big (Some (transport_info_of_bytes Big (transport_info_bytes Little w)))
        (Some zero_transport_info) = (CodecOk, Some (canonical_transport_info sample_transport_info)))"
  using transport_info_exchange [OF sample_transport_info_ok] sample_transport_info_ok by blast

text \<open>
  Decoding is sound on arbitrary input. Whatever structure arrives, either the record is
  rejected and the caller's output is left as it was, or the output passes validation.
\<close>

theorem decode_transport_info_sound:
  "(\<exists>i. decode_transport_info e (Some w) (Some old) = (CodecOk, Some i)
      \<and> validate_transport_info (Some i) = CodecOk \<and> length (ti_qps i) = 16)
   \<or> decode_transport_info e (Some w) (Some old) = (CodecInvalidRecord, Some old)"
  by (rule decode_transport_info_cases [of e w old]) auto

text \<open>
  A remote memory descriptor that passes validation survives encoding and decoding on one
  host, and the address it carries does not wrap past the end of the address space.
\<close>

theorem remote_memory_roundtrip:
  assumes "validate_remote_memory (Some m) = CodecOk"
  shows "\<exists>w. encode_remote_memory e (Some m) (Some old) = (CodecOk, Some w)
    \<and> decode_remote_memory e (Some w) (Some old') = (CodecOk, Some m)
    \<and> unat (rm_address m) + unat (rm_length m) < 2 ^ 64"
proof -
  have "rm_address m \<le> UINT64_MAX - ucast (rm_length m)"
    using assms by (auto simp: validate_remote_memory_def split: if_splits)
  then have "unat (rm_address m) + unat (rm_length m) < 2 ^ 64"
    unfolding add_guard_unat by (simp add: unat_ucast_u32_u64)
  then show ?thesis using assms by (metis remote_memory_roundtrip_lemma)
qed

theorem remote_memory_roundtrip_witness:
  "\<exists>w. encode_remote_memory Little (Some \<lparr>rm_address = 4096, rm_length = 64, rm_remote_key = 7\<rparr>)
       (Some zero_wire_remote_memory) = (CodecOk, Some w)
    \<and> decode_remote_memory Little (Some w) (Some \<lparr>rm_address = 0, rm_length = 0, rm_remote_key = 0\<rparr>) =
       (CodecOk, Some \<lparr>rm_address = 4096, rm_length = 64, rm_remote_key = 7\<rparr>)
    \<and> unat (4096 :: u64) + unat (64 :: u32) < 2 ^ 64"
  using remote_memory_roundtrip [of "\<lparr>rm_address = 4096, rm_length = 64, rm_remote_key = 7\<rparr>" Little
      zero_wire_remote_memory "\<lparr>rm_address = 0, rm_length = 0, rm_remote_key = 0\<rparr>"]
  by (simp add: validate_remote_memory_def)

text \<open>
  The address of a remote memory descriptor is in network order only on little-endian hosts:
  there its image is the big-endian one, on a big-endian host the two halves are exchanged, so
  that two hosts of different byte order do not read the same address.
\<close>

theorem host_to_network_u64_byte_order:
  "mem64 Little (host_to_network_u64 Little v) = be64 v \<and>
   mem64 Big (host_to_network_u64 Big v) = be32 (ucast v) @ be32 (ucast (drop_bit 32 v)) \<and>
   mem64 Big (host_to_network_u64 Big 1) \<noteq> be64 1"
  by (simp add: mem64_host_to_network_Little mem64_host_to_network_Big be64_def be32_def)

end
