(* ===== verification/Server_Endpoint.thy ===== *)
theory Server_Endpoint
  imports Transport_Protocol "HOL-Library.Multiset"
begin

text \<open>
  The CPU verbs endpoint of \<^verbatim>\<open>src/src/server/endpoint.cc\<close> and \<^verbatim>\<open>endpoint.hh\<close>: memory regions, queue
  pairs with their receive credits and stashed completions, and the endpoint that owns the
  device context. \<^verbatim>\<open>libibverbs\<close>, the steady clock and the entropy of the packet sequence number
  are the fields of the parameter record \<open>ibverbs\<close> over a state \<open>'w\<close> of the outside world.
  Handles and object addresses are 64-bit words, zero is the null pointer. A member function
  of a queue pair is a computation on the pair of the object and the world.
\<close>

section \<open>The verbs library\<close>

type_synonym ibv_wc_opcode = u32
type_synonym ibv_wr_opcode = u32
type_synonym ibv_mtu = u32

definition IBV_WC_SEND :: ibv_wc_opcode where "IBV_WC_SEND = 0"
definition IBV_WC_RDMA_WRITE :: ibv_wc_opcode where "IBV_WC_RDMA_WRITE = 1"
definition IBV_WC_RDMA_READ :: ibv_wc_opcode where "IBV_WC_RDMA_READ = 2"
definition IBV_WC_RECV :: ibv_wc_opcode where "IBV_WC_RECV = 128"
definition IBV_WR_RDMA_WRITE :: ibv_wr_opcode where "IBV_WR_RDMA_WRITE = 0"
definition IBV_WR_SEND :: ibv_wr_opcode where "IBV_WR_SEND = 2"
definition IBV_WR_RDMA_READ :: ibv_wr_opcode where "IBV_WR_RDMA_READ = 4"
definition IBV_WC_SUCCESS :: u32 where "IBV_WC_SUCCESS = 0"
definition IBV_SEND_SIGNALED :: u32 where "IBV_SEND_SIGNALED = 2"
definition IBV_PORT_ACTIVE :: u32 where "IBV_PORT_ACTIVE = 4"
definition IBV_ACCESS_LOCAL_WRITE :: u32 where "IBV_ACCESS_LOCAL_WRITE = 1"
definition IBV_ACCESS_REMOTE_WRITE :: u32 where "IBV_ACCESS_REMOTE_WRITE = 2"
definition IBV_ACCESS_REMOTE_READ :: u32 where "IBV_ACCESS_REMOTE_READ = 4"

definition IBV_MTU_256 :: ibv_mtu where "IBV_MTU_256 = 1"
definition IBV_MTU_512 :: ibv_mtu where "IBV_MTU_512 = 2"
definition IBV_MTU_1024 :: ibv_mtu where "IBV_MTU_1024 = 3"
definition IBV_MTU_2048 :: ibv_mtu where "IBV_MTU_2048 = 4"
definition IBV_MTU_4096 :: ibv_mtu where "IBV_MTU_4096 = 5"

lemmas ibv_mtu_defs = IBV_MTU_256_def IBV_MTU_512_def IBV_MTU_1024_def IBV_MTU_2048_def IBV_MTU_4096_def

record ibv_mr =
  mr_handle :: u64
  mr_addr :: u64
  mr_length :: u64
  mr_lkey :: u32
  mr_rkey :: u32

record ibv_sge =
  isg_addr :: u64
  isg_length :: u32
  isg_lkey :: u32

text \<open>Work requests have one scatter element; a chain linked by \<open>next\<close> is a list.\<close>

record ibv_send_wr =
  isw_wr_id :: u64
  isw_sge :: ibv_sge
  isw_opcode :: ibv_wr_opcode
  isw_send_flags :: u32
  isw_remote_addr :: u64
  isw_rkey :: u32

record ibv_recv_wr =
  irw_wr_id :: u64
  irw_sge :: ibv_sge

record ibv_wc =
  iwc_wr_id :: u64
  iwc_status :: u32
  iwc_opcode :: ibv_wc_opcode
  iwc_vendor_err :: u32

datatype ibv_qp_state = IBV_QPS_RESET | IBV_QPS_INIT | IBV_QPS_RTR | IBV_QPS_RTS

record ibv_qp_attr =
  ia_qp_state :: ibv_qp_state
  ia_path_mtu :: ibv_mtu
  ia_dest_qp_num :: u32
  ia_rq_psn :: u32
  ia_sq_psn :: u32
  ia_max_dest_rd_atomic :: u8
  ia_max_rd_atomic :: u8
  ia_min_rnr_timer :: u8
  ia_timeout :: u8
  ia_retry_cnt :: u8
  ia_rnr_retry :: u8
  ia_dgid :: "u8 list"
  ia_sgid_index :: u8
  ia_hop_limit :: u8
  ia_traffic_class :: u8
  ia_sl :: u8
  ia_ah_port_num :: u8
  ia_pkey_index :: u16
  ia_port_num :: u8
  ia_qp_access_flags :: u32

text \<open>Value initialization, and the attribute masks the sources combine.\<close>

definition zero_qp_attr :: ibv_qp_attr where
  "zero_qp_attr = \<lparr>ia_qp_state = IBV_QPS_RESET, ia_path_mtu = 0, ia_dest_qp_num = 0, ia_rq_psn = 0, ia_sq_psn = 0,
     ia_max_dest_rd_atomic = 0, ia_max_rd_atomic = 0, ia_min_rnr_timer = 0, ia_timeout = 0, ia_retry_cnt = 0,
     ia_rnr_retry = 0, ia_dgid = replicate 16 0, ia_sgid_index = 0, ia_hop_limit = 0, ia_traffic_class = 0,
     ia_sl = 0, ia_ah_port_num = 0, ia_pkey_index = 0, ia_port_num = 0, ia_qp_access_flags = 0\<rparr>"

datatype ibv_qp_attr_mask =
  IBV_QP_STATE | IBV_QP_AV | IBV_QP_PATH_MTU | IBV_QP_DEST_QPN | IBV_QP_RQ_PSN | IBV_QP_MAX_DEST_RD_ATOMIC
| IBV_QP_MIN_RNR_TIMER | IBV_QP_TIMEOUT | IBV_QP_RETRY_CNT | IBV_QP_RNR_RETRY | IBV_QP_SQ_PSN
| IBV_QP_MAX_QP_RD_ATOMIC | IBV_QP_PKEY_INDEX | IBV_QP_PORT | IBV_QP_ACCESS_FLAGS

record ibv_port_attr =
  ipa_state :: u32
  ipa_active_mtu :: ibv_mtu

record 'w ibverbs =
  ibv_post_send :: "u64 \<Rightarrow> ibv_send_wr list \<Rightarrow> 'w \<Rightarrow> int \<times> 'w"
  ibv_post_recv :: "u64 \<Rightarrow> ibv_recv_wr \<Rightarrow> 'w \<Rightarrow> int \<times> 'w"
  ibv_poll_cq :: "u64 \<Rightarrow> 'w \<Rightarrow> int \<times> ibv_wc \<times> 'w"
  ibv_modify_qp :: "u64 \<Rightarrow> ibv_qp_attr \<Rightarrow> ibv_qp_attr_mask list \<Rightarrow> 'w \<Rightarrow> int \<times> 'w"
  ibv_create_cq :: "u64 \<Rightarrow> u32 \<Rightarrow> 'w \<Rightarrow> u64 \<times> 'w"
  ibv_create_qp :: "u64 \<Rightarrow> u64 \<Rightarrow> u32 \<Rightarrow> u32 \<Rightarrow> 'w \<Rightarrow> (u64 \<times> u32) \<times> 'w"
  ibv_destroy_qp :: "u64 \<Rightarrow> 'w \<Rightarrow> 'w"
  ibv_destroy_cq :: "u64 \<Rightarrow> 'w \<Rightarrow> 'w"
  ibv_reg_mr :: "u64 \<Rightarrow> u64 \<Rightarrow> u64 \<Rightarrow> u32 \<Rightarrow> 'w \<Rightarrow> ibv_mr option \<times> 'w"
  ibv_dereg_mr :: "u64 \<Rightarrow> 'w \<Rightarrow> 'w"
  ibv_get_device_list :: "'w \<Rightarrow> (u64 \<times> string) list option \<times> 'w"
  ibv_free_device_list :: "'w \<Rightarrow> 'w"
  ibv_open_device :: "u64 \<Rightarrow> 'w \<Rightarrow> u64 \<times> 'w"
  ibv_close_device :: "u64 \<Rightarrow> 'w \<Rightarrow> 'w"
  ibv_alloc_pd :: "u64 \<Rightarrow> 'w \<Rightarrow> u64 \<times> 'w"
  ibv_dealloc_pd :: "u64 \<Rightarrow> 'w \<Rightarrow> 'w"
  ibv_query_port :: "u64 \<Rightarrow> u8 \<Rightarrow> 'w \<Rightarrow> (int \<times> ibv_port_attr) \<times> 'w"
  ibv_query_gid :: "u64 \<Rightarrow> u8 \<Rightarrow> u32 \<Rightarrow> 'w \<Rightarrow> (int \<times> u8 list) \<times> 'w"
  steady_now :: "'w \<Rightarrow> nat \<times> 'w"
  monotonic_nsec :: "'w \<Rightarrow> u32 \<times> 'w"
  getpid :: u32

section \<open>Helpers\<close>

definition kQpDepth :: u32 where "kQpDepth = 128"
definition kMaxRdAtomic :: u8 where "kMaxRdAtomic = 16"

definition next_wr_id :: "u64 \<Rightarrow> u64" where
  "next_wr_id current = (let current = current + 1 in if current = 0 then 1 else current)"

definition make_psn :: "'w ibverbs \<Rightarrow> 'w \<Rightarrow> u32 \<times> 'w" where
  "make_psn lib w = (case monotonic_nsec lib w of (nsec, w) \<Rightarrow> ((nsec XOR getpid lib) AND 0x00ffffff, w))"

definition mtu_bytes :: "ibv_mtu \<Rightarrow> u32" where
  "mtu_bytes mtu =
     (if mtu = IBV_MTU_256 then 256 else if mtu = IBV_MTU_512 then 512 else if mtu = IBV_MTU_1024 then 1024
      else if mtu = IBV_MTU_2048 then 2048 else if mtu = IBV_MTU_4096 then 4096 else 0)"

definition mtu_value :: "u32 \<Rightarrow> ibv_mtu option" where
  "mtu_value bytes =
     (if bytes = 256 then Some IBV_MTU_256 else if bytes = 512 then Some IBV_MTU_512
      else if bytes = 1024 then Some IBV_MTU_1024 else if bytes = 2048 then Some IBV_MTU_2048
      else if bytes = 4096 then Some IBV_MTU_4096 else None)"

section \<open>Memory regions\<close>

record MemoryRegion =
  mem_mr :: "ibv_mr option"
  mem_owner :: u64

definition empty_region :: MemoryRegion where
  "empty_region = \<lparr>mem_mr = None, mem_owner = 0\<rparr>"

definition region_destroy :: "'w ibverbs \<Rightarrow> MemoryRegion \<Rightarrow> 'w \<Rightarrow> 'w" where
  "region_destroy lib region w = (case mem_mr region of None \<Rightarrow> w | Some mr \<Rightarrow> ibv_dereg_mr lib (mr_handle mr) w)"

definition region_move :: "MemoryRegion \<Rightarrow> MemoryRegion \<times> MemoryRegion" where
  "region_move other = (other, empty_region)"

definition region_move_assign :: "'w ibverbs \<Rightarrow> MemoryRegion \<Rightarrow> MemoryRegion \<Rightarrow> 'w \<Rightarrow> (MemoryRegion \<times> MemoryRegion) \<times> 'w" where
  "region_move_assign lib self other w = ((other, empty_region), region_destroy lib self w)"

definition region_address :: "MemoryRegion \<Rightarrow> u64" where
  "region_address region = (case mem_mr region of None \<Rightarrow> 0 | Some mr \<Rightarrow> mr_addr mr)"

definition region_length :: "MemoryRegion \<Rightarrow> u64" where
  "region_length region = (case mem_mr region of None \<Rightarrow> 0 | Some mr \<Rightarrow> mr_length mr)"

definition region_local_key :: "MemoryRegion \<Rightarrow> u32" where
  "region_local_key region = (case mem_mr region of None \<Rightarrow> 0 | Some mr \<Rightarrow> mr_lkey mr)"

definition region_remote_key :: "MemoryRegion \<Rightarrow> u32" where
  "region_remote_key region = (case mem_mr region of None \<Rightarrow> 0 | Some mr \<Rightarrow> mr_rkey mr)"

definition belongs_to :: "MemoryRegion \<Rightarrow> u64 \<Rightarrow> bool" where
  "belongs_to region endpoint \<longleftrightarrow> mem_owner region = endpoint"

record TransferRequest =
  tr_local :: "MemoryRegion option"
  tr_local_offset :: u64
  tr_remote_address :: u64
  tr_remote_key :: u32
  tr_length :: u32

section \<open>Queue pairs\<close>

record EndpointConfig =
  ec_device_name :: string
  ec_port :: u8
  ec_gid_index :: u32

record QueuePair =
  qpr_endpoint :: u64
  qpr_cq :: u64
  qpr_handle :: u64
  qpr_local :: QpInfo
  qpr_connected :: bool
  qpr_next_send_wr_id :: u64
  qpr_next_receive_wr_id :: u64
  qpr_pending_receive_ids :: "u64 list"
  qpr_pending_completions :: "ibv_wc list"

definition empty_queue_pair :: QueuePair where
  "empty_queue_pair = \<lparr>qpr_endpoint = 0, qpr_cq = 0, qpr_handle = 0, qpr_local = zero_qp_info, qpr_connected = False,
     qpr_next_send_wr_id = 4, qpr_next_receive_wr_id = 1, qpr_pending_receive_ids = [], qpr_pending_completions = []\<rparr>"

definition make_queue_pair :: "u64 \<Rightarrow> QpInfo \<Rightarrow> u64 \<Rightarrow> u64 \<Rightarrow> QueuePair" where
  "make_queue_pair endpoint info cq handle =
     empty_queue_pair\<lparr>qpr_endpoint := endpoint, qpr_cq := cq, qpr_handle := handle, qpr_local := info\<rparr>"

definition qp_reset :: "'w ibverbs \<Rightarrow> QueuePair \<Rightarrow> 'w \<Rightarrow> QueuePair \<times> 'w" where
  "qp_reset lib qp w =
     (let w = (if qpr_handle qp \<noteq> 0 then ibv_destroy_qp lib (qpr_handle qp) w else w);
          w = (if qpr_cq qp \<noteq> 0 then ibv_destroy_cq lib (qpr_cq qp) w else w)
      in (empty_queue_pair, w))"

text \<open>A moved-from queue pair keeps its local record; the moved-from queues are empty.\<close>

definition qp_move :: "QueuePair \<Rightarrow> QueuePair \<times> QueuePair" where
  "qp_move other = (other, empty_queue_pair\<lparr>qpr_local := qpr_local other\<rparr>)"

definition qp_move_assign :: "'w ibverbs \<Rightarrow> QueuePair \<Rightarrow> QueuePair \<Rightarrow> 'w \<Rightarrow> (QueuePair \<times> QueuePair) \<times> 'w" where
  "qp_move_assign lib self other w = (qp_move other, snd (qp_reset lib self w))"

definition qp_created :: "QueuePair \<Rightarrow> bool" where
  "qp_created qp \<longleftrightarrow> qpr_endpoint qp \<noteq> 0 \<and> qpr_handle qp \<noteq> 0"

definition rtr_attr :: "EndpointConfig \<Rightarrow> QpInfo \<Rightarrow> ibv_mtu \<Rightarrow> ibv_qp_attr" where
  "rtr_attr config peer mtu =
     zero_qp_attr\<lparr>ia_qp_state := IBV_QPS_RTR, ia_path_mtu := mtu, ia_dest_qp_num := qp_num peer, ia_rq_psn := psn peer,
       ia_max_dest_rd_atomic := kMaxRdAtomic, ia_min_rnr_timer := 12, ia_dgid := gid peer,
       ia_sgid_index := ucast (ec_gid_index config), ia_hop_limit := 1, ia_traffic_class := ucast (traffic_class peer),
       ia_sl := ucast (service_level peer), ia_ah_port_num := ec_port config\<rparr>"

definition rts_attr :: "QpInfo \<Rightarrow> ibv_qp_attr" where
  "rts_attr info =
     zero_qp_attr\<lparr>ia_qp_state := IBV_QPS_RTS, ia_timeout := 14, ia_retry_cnt := 7, ia_rnr_retry := 7,
       ia_sq_psn := psn info, ia_max_rd_atomic := kMaxRdAtomic\<rparr>"

definition qp_connect :: "'w ibverbs \<Rightarrow> EndpointConfig \<Rightarrow> QpInfo \<Rightarrow> (QueuePair \<times> 'w, unit) comp" where
  "qp_connect lib config peer = (\<lambda>(qp, w).
     if \<not> qp_created qp \<or> qpr_connected qp then (Inl kInvalidArgument, (qp, w))
     else if qp_num peer = 0 \<or> psn peer > 0x00ffffff \<or> port_num peer = 0 then (Inl kInvalidArgument, (qp, w))
     else case mtu_value (select_mtu (path_mtu (qpr_local qp)) (path_mtu peer)) of
       None \<Rightarrow> (Inl kVerbs, (qp, w))
     | Some mtu \<Rightarrow>
         case ibv_modify_qp lib (qpr_handle qp) (rtr_attr config peer mtu)
                [IBV_QP_STATE, IBV_QP_AV, IBV_QP_PATH_MTU, IBV_QP_DEST_QPN, IBV_QP_RQ_PSN, IBV_QP_MAX_DEST_RD_ATOMIC,
                 IBV_QP_MIN_RNR_TIMER] w of
           (result, w) \<Rightarrow>
             if result \<noteq> 0 then (Inl kVerbs, (qp, w))
             else case ibv_modify_qp lib (qpr_handle qp) (rts_attr (qpr_local qp))
                    [IBV_QP_STATE, IBV_QP_TIMEOUT, IBV_QP_RETRY_CNT, IBV_QP_RNR_RETRY, IBV_QP_SQ_PSN,
                     IBV_QP_MAX_QP_RD_ATOMIC] w of
               (result, w) \<Rightarrow>
                 if result \<noteq> 0 then (Inl kVerbs, (qp, w)) else (Inr (), (qp\<lparr>qpr_connected := True\<rparr>, w)))"

definition valid_local_region :: "QueuePair \<Rightarrow> MemoryRegion \<Rightarrow> u64 \<Rightarrow> u32 \<Rightarrow> bool" where
  "valid_local_region qp region local_offset len \<longleftrightarrow>
     qp_created qp \<and> qpr_connected qp \<and> belongs_to region (qpr_endpoint qp) \<and> region_address region \<noteq> 0
     \<and> region_local_key region \<noteq> 0 \<and> len \<noteq> 0 \<and> local_offset \<le> region_length region
     \<and> ucast len \<le> region_length region - local_offset \<and> local_offset \<le> UINT64_MAX - region_address region
     \<and> region_address region + local_offset \<le> UINT64_MAX - ucast len"

definition qp_post_receive :: "'w ibverbs \<Rightarrow> MemoryRegion \<Rightarrow> (QueuePair \<times> 'w, unit) comp" where
  "qp_post_receive lib region = (\<lambda>(qp, w).
     if \<not> valid_local_region qp region 0 (ucast (region_length region)) \<or> region_length region > ucast UINT32_MAX
     then (Inl kInvalidArgument, (qp, w))
     else if length (qpr_pending_receive_ids qp) \<ge> unat kQpDepth then (Inl kRuntime, (qp, w))
     else
       (let wr = \<lparr>irw_wr_id = qpr_next_receive_wr_id qp,
                  irw_sge = \<lparr>isg_addr = region_address region, isg_length = ucast (region_length region),
                             isg_lkey = region_local_key region\<rparr>\<rparr>
        in case ibv_post_recv lib (qpr_handle qp) wr w of
             (result, w) \<Rightarrow>
               if result \<noteq> 0 then (Inl kVerbs, (qp, w))
               else (Inr (), (qp\<lparr>qpr_next_receive_wr_id := next_wr_id (irw_wr_id wr),
                                 qpr_pending_receive_ids := qpr_pending_receive_ids qp @ [irw_wr_id wr]\<rparr>, w))))"

definition wc_matches :: "ibv_wc_opcode \<Rightarrow> u64 \<Rightarrow> ibv_wc \<Rightarrow> bool" where
  "wc_matches opcode expected_wr_id wc \<longleftrightarrow> iwc_opcode wc = opcode \<and> iwc_wr_id wc = expected_wr_id"

text \<open>The search in the stashed completions: the first match and the others.\<close>

fun take_matching :: "ibv_wc_opcode \<Rightarrow> u64 \<Rightarrow> ibv_wc list \<Rightarrow> (ibv_wc \<times> ibv_wc list) option" where
  "take_matching opcode expected_wr_id [] = None"
| "take_matching opcode expected_wr_id (c # cs) =
     (if wc_matches opcode expected_wr_id c then Some (c, cs)
      else map_option (\<lambda>(x, rest). (x, c # rest)) (take_matching opcode expected_wr_id cs))"

partial_function (option) poll_until :: "'w ibverbs \<Rightarrow> ibv_wc_opcode \<Rightarrow> u64 \<Rightarrow> nat \<Rightarrow> (QueuePair \<times> 'w, ibv_wc) pcomp" where
  "poll_until lib opcode expected_wr_id deadline s =
     (case s of (qp, w) \<Rightarrow>
      case steady_now lib w of (now, w) \<Rightarrow>
        if \<not> now < deadline then Some (Inl kVerbs, (qp, w))
        else case ibv_poll_cq lib (qpr_cq qp) w of (polled_count, completion, w) \<Rightarrow>
          if polled_count = 1
          then (if wc_matches opcode expected_wr_id completion then Some (Inr completion, (qp, w))
                else poll_until lib opcode expected_wr_id deadline
                       (qp\<lparr>qpr_pending_completions := qpr_pending_completions qp @ [completion]\<rparr>, w))
          else if polled_count < 0 then Some (Inl kVerbs, (qp, w))
          else poll_until lib opcode expected_wr_id deadline (qp, w))"

text \<open>The clock counts nanoseconds; the timeout is in milliseconds.\<close>

definition poll_matching :: "'w ibverbs \<Rightarrow> ibv_wc_opcode \<Rightarrow> u64 \<Rightarrow> u32 \<Rightarrow> (QueuePair \<times> 'w, ibv_wc) pcomp" where
  "poll_matching lib opcode expected_wr_id timeout_ms = (\<lambda>(qp, w).
     if \<not> qp_created qp then Some (Inl kInvalidArgument, (qp, w))
     else case take_matching opcode expected_wr_id (qpr_pending_completions qp) of
       Some (completion, rest) \<Rightarrow> Some (Inr completion, (qp\<lparr>qpr_pending_completions := rest\<rparr>, w))
     | None \<Rightarrow>
         (case steady_now lib w of (now, w) \<Rightarrow>
            poll_until lib opcode expected_wr_id (now + unat timeout_ms * 1000000) (qp, w)))"

definition qp_poll :: "'w ibverbs \<Rightarrow> ibv_wc_opcode \<Rightarrow> u64 \<Rightarrow> u32 \<Rightarrow> (QueuePair \<times> 'w, unit) pcomp" where
  "qp_poll lib opcode expected_wr_id timeout_ms =
     pbind (poll_matching lib opcode expected_wr_id timeout_ms) (\<lambda>completion.
       if iwc_status completion \<noteq> IBV_WC_SUCCESS \<or> iwc_opcode completion \<noteq> opcode
         \<or> iwc_wr_id completion \<noteq> expected_wr_id
       then pfail kVerbs else pret ())"

definition qp_wait_receive :: "'w ibverbs \<Rightarrow> u32 \<Rightarrow> (QueuePair \<times> 'w, unit) pcomp" where
  "qp_wait_receive lib timeout_ms = (\<lambda>(qp, w).
     if timeout_ms = 0 \<or> timeout_ms > INT32_MAX then Some (Inl kInvalidArgument, (qp, w))
     else case qpr_pending_receive_ids qp of
       [] \<Rightarrow> Some (Inl kInvalidArgument, (qp, w))
     | expected_wr_id # _ \<Rightarrow>
         pbind (poll_matching lib IBV_WC_RECV expected_wr_id timeout_ms) (\<lambda>completion (qp, w).
           (let qp = qp\<lparr>qpr_pending_receive_ids := tl (qpr_pending_receive_ids qp)\<rparr>
            in if iwc_status completion \<noteq> IBV_WC_SUCCESS \<or> iwc_opcode completion \<noteq> IBV_WC_RECV
                 \<or> iwc_wr_id completion \<noteq> expected_wr_id
               then Some (Inl kVerbs, (qp, w)) else Some (Inr (), (qp, w)))) (qp, w))"

definition qp_post_send :: "'w ibverbs \<Rightarrow> MemoryRegion \<Rightarrow> u32 \<Rightarrow> (QueuePair \<times> 'w, u64) comp" where
  "qp_post_send lib region len = (\<lambda>(qp, w).
     if \<not> valid_local_region qp region 0 len then (Inl kInvalidArgument, (qp, w))
     else
       (let wr = \<lparr>isw_wr_id = qpr_next_send_wr_id qp,
                  isw_sge = \<lparr>isg_addr = region_address region, isg_length = len, isg_lkey = region_local_key region\<rparr>,
                  isw_opcode = IBV_WR_SEND, isw_send_flags = IBV_SEND_SIGNALED, isw_remote_addr = 0, isw_rkey = 0\<rparr>
        in case ibv_post_send lib (qpr_handle qp) [wr] w of
             (result, w) \<Rightarrow>
               if result \<noteq> 0 then (Inl kVerbs, (qp, w))
               else (Inr (isw_wr_id wr), (qp\<lparr>qpr_next_send_wr_id := next_wr_id (isw_wr_id wr)\<rparr>, w))))"

definition qp_send :: "'w ibverbs \<Rightarrow> MemoryRegion \<Rightarrow> u32 \<Rightarrow> u32 \<Rightarrow> (QueuePair \<times> 'w, unit) pcomp" where
  "qp_send lib region len timeout_ms =
     pbind (plift (qp_post_send lib region len)) (\<lambda>posted. qp_poll lib IBV_WC_SEND posted timeout_ms)"

definition transfer_valid :: "QueuePair \<Rightarrow> TransferRequest \<Rightarrow> bool" where
  "transfer_valid qp request \<longleftrightarrow>
     (case tr_local request of
        None \<Rightarrow> False
      | Some region \<Rightarrow> valid_local_region qp region (tr_local_offset request) (tr_length request))
     \<and> tr_remote_address request \<noteq> 0 \<and> tr_remote_key request \<noteq> 0
     \<and> \<not> tr_remote_address request > UINT64_MAX - ucast (tr_length request)"

definition transfer_wr :: "ibv_wr_opcode \<Rightarrow> TransferRequest \<Rightarrow> u64 \<Rightarrow> bool \<Rightarrow> ibv_send_wr" where
  "transfer_wr opcode request wr_id is_last =
     (let region = the (tr_local request)
      in \<lparr>isw_wr_id = wr_id,
          isw_sge = \<lparr>isg_addr = region_address region + tr_local_offset request, isg_length = tr_length request,
                     isg_lkey = region_local_key region\<rparr>,
          isw_opcode = opcode, isw_send_flags = (if is_last then IBV_SEND_SIGNALED else 0),
          isw_remote_addr = tr_remote_address request, isw_rkey = tr_remote_key request\<rparr>)"

text \<open>The building loop: the work requests so far, and whether a request was refused.\<close>

fun build_batch :: "ibv_wr_opcode \<Rightarrow> TransferRequest list \<Rightarrow> QueuePair \<Rightarrow> ibv_send_wr list option \<times> QueuePair" where
  "build_batch opcode [] qp = (Some [], qp)"
| "build_batch opcode (request # requests) qp =
     (if \<not> transfer_valid qp request then (None, qp)
      else
        (let wr = transfer_wr opcode request (qpr_next_send_wr_id qp) (requests = []);
             qp = qp\<lparr>qpr_next_send_wr_id := next_wr_id (qpr_next_send_wr_id qp)\<rparr>
         in case build_batch opcode requests qp of
              (None, qp) \<Rightarrow> (None, qp)
            | (Some wrs, qp) \<Rightarrow> (Some (wr # wrs), qp)))"

definition post_transfer_batch :: "'w ibverbs \<Rightarrow> ibv_wr_opcode \<Rightarrow> TransferRequest list \<Rightarrow> (QueuePair \<times> 'w, u64 list) comp" where
  "post_transfer_batch lib opcode requests = (\<lambda>(qp, w).
     if \<not> qp_created qp \<or> \<not> qpr_connected qp \<or> requests = [] then (Inl kInvalidArgument, (qp, w))
     else case build_batch opcode requests qp of
       (None, qp) \<Rightarrow> (Inl kInvalidArgument, (qp, w))
     | (Some wrs, qp) \<Rightarrow>
         (case ibv_post_send lib (qpr_handle qp) wrs w of
            (result, w) \<Rightarrow>
              if result \<noteq> 0 then (Inl kVerbs, (qp, w)) else (Inr (map isw_wr_id wrs), (qp, w))))"

definition post_transfer :: "'w ibverbs \<Rightarrow> ibv_wr_opcode \<Rightarrow> MemoryRegion \<Rightarrow> u64 \<Rightarrow> u64 \<Rightarrow> u32 \<Rightarrow> u32 \<Rightarrow>
    (QueuePair \<times> 'w, u64) comp" where
  "post_transfer lib opcode region local_offset remote_address remote_key len =
     rbind (post_transfer_batch lib opcode
              [\<lparr>tr_local = Some region, tr_local_offset = local_offset, tr_remote_address = remote_address,
                tr_remote_key = remote_key, tr_length = len\<rparr>])
       (\<lambda>posted. rret (hd posted))"

definition qp_transfer :: "'w ibverbs \<Rightarrow> ibv_wr_opcode \<Rightarrow> MemoryRegion \<Rightarrow> u64 \<Rightarrow> u32 \<Rightarrow> u32 \<Rightarrow> u32 \<Rightarrow>
    (QueuePair \<times> 'w, unit) pcomp" where
  "qp_transfer lib opcode region remote_address remote_key len timeout_ms =
     pbind (plift (post_transfer lib opcode region 0 remote_address remote_key len)) (\<lambda>posted.
       qp_poll lib (if opcode = IBV_WR_RDMA_READ then IBV_WC_RDMA_READ else IBV_WC_RDMA_WRITE) posted timeout_ms)"

definition qp_read :: "'w ibverbs \<Rightarrow> MemoryRegion \<Rightarrow> u64 \<Rightarrow> u32 \<Rightarrow> u32 \<Rightarrow> u32 \<Rightarrow> (QueuePair \<times> 'w, unit) pcomp" where
  "qp_read lib region remote_address remote_key len timeout_ms =
     qp_transfer lib IBV_WR_RDMA_READ region remote_address remote_key len timeout_ms"

definition qp_write :: "'w ibverbs \<Rightarrow> MemoryRegion \<Rightarrow> u64 \<Rightarrow> u32 \<Rightarrow> u32 \<Rightarrow> u32 \<Rightarrow> (QueuePair \<times> 'w, unit) pcomp" where
  "qp_write lib region remote_address remote_key len timeout_ms =
     qp_transfer lib IBV_WR_RDMA_WRITE region remote_address remote_key len timeout_ms"

section \<open>Endpoints\<close>

text \<open>\<open>ep_this\<close> is the address of the object, which regions and queue pairs remember as their owner.\<close>

record Endpoint =
  ep_this :: u64
  ep_context :: u64
  ep_pd :: u64
  ep_config :: EndpointConfig
  ep_port :: ibv_port_attr
  ep_gid :: "u8 list"
  ep_qp_sequence :: u32

definition zero_endpoint_config :: EndpointConfig where
  "zero_endpoint_config = \<lparr>ec_device_name = [], ec_port = 1, ec_gid_index = 0\<rparr>"

definition zero_port_attr :: ibv_port_attr where
  "zero_port_attr = \<lparr>ipa_state = 0, ipa_active_mtu = 0\<rparr>"

definition endpoint_opened :: "Endpoint \<Rightarrow> bool" where
  "endpoint_opened ep \<longleftrightarrow> ep_context ep \<noteq> 0 \<and> ep_pd ep \<noteq> 0"

definition endpoint_reset :: "'w ibverbs \<Rightarrow> Endpoint \<Rightarrow> 'w \<Rightarrow> Endpoint \<times> 'w" where
  "endpoint_reset lib ep w =
     (let w = (if ep_pd ep \<noteq> 0 then ibv_dealloc_pd lib (ep_pd ep) w else w);
          w = (if ep_context ep \<noteq> 0 then ibv_close_device lib (ep_context ep) w else w)
      in (ep\<lparr>ep_context := 0, ep_pd := 0, ep_config := zero_endpoint_config, ep_port := zero_port_attr,
             ep_gid := replicate 16 0, ep_qp_sequence := 0\<rparr>, w))"

text \<open>Move construction at the address \<open>this\<close>; a moved-from string is taken as empty.\<close>

definition endpoint_move :: "u64 \<Rightarrow> Endpoint \<Rightarrow> Endpoint \<times> Endpoint" where
  "endpoint_move this other =
     (other\<lparr>ep_this := this\<rparr>,
      other\<lparr>ep_context := 0, ep_pd := 0, ep_config := (ep_config other)\<lparr>ec_device_name := []\<rparr>, ep_qp_sequence := 0\<rparr>)"

definition endpoint_move_assign :: "'w ibverbs \<Rightarrow> Endpoint \<Rightarrow> Endpoint \<Rightarrow> 'w \<Rightarrow> (Endpoint \<times> Endpoint) \<times> 'w" where
  "endpoint_move_assign lib self other w = (endpoint_move (ep_this self) other, snd (endpoint_reset lib self w))"

text \<open>The last device of the list with the configured name, zero for none.\<close>

fun select_device :: "string \<Rightarrow> (u64 \<times> string) list \<Rightarrow> u64 \<Rightarrow> u64" where
  "select_device device_name [] selected = selected"
| "select_device device_name ((device, dname) # devices) selected =
     select_device device_name devices (if device_name = dname then device else selected)"

definition query_active_port :: "'w ibverbs \<Rightarrow> EndpointConfig \<Rightarrow> Endpoint \<Rightarrow> 'w \<Rightarrow> bool \<times> Endpoint \<times> 'w" where
  "query_active_port lib config ep w =
     (case ibv_query_port lib (ep_context ep) (ec_port config) w of
        ((result, port), w) \<Rightarrow>
          (let ep = ep\<lparr>ep_port := port\<rparr>
           in if result \<noteq> 0 \<or> ipa_state port \<noteq> IBV_PORT_ACTIVE then (False, ep, w)
              else case ibv_query_gid lib (ep_context ep) (ec_port config) (ec_gid_index config) w of
                ((result, new_gid), w) \<Rightarrow> (result = 0, ep\<lparr>ep_gid := new_gid\<rparr>, w)))"

definition endpoint_open :: "'w ibverbs \<Rightarrow> EndpointConfig \<Rightarrow> (Endpoint \<times> 'w, unit) comp" where
  "endpoint_open lib config = (\<lambda>(ep, w).
     if endpoint_opened ep then (Inl kInvalidArgument, (ep, w))
     else if ec_device_name config = [] \<or> ec_port config = 0 then (Inl kInvalidArgument, (ep, w))
     else case ibv_get_device_list lib w of
       (devices, w) \<Rightarrow>
         (let selected = (case devices of None \<Rightarrow> 0 | Some ds \<Rightarrow> select_device (ec_device_name config) ds 0);
              w = (if devices \<noteq> None \<and> selected = 0 then ibv_free_device_list lib w else w)
          in if selected = 0 then (Inl kVerbs, (ep, w))
             else case ibv_open_device lib selected w of
               (ctx, w) \<Rightarrow>
                 (let ep = ep\<lparr>ep_context := ctx\<rparr>; w = ibv_free_device_list lib w
                  in if ctx = 0 then (Inl kVerbs, (ep, w))
                     else case ibv_alloc_pd lib ctx w of
                       (pd, w) \<Rightarrow>
                         (let ep = ep\<lparr>ep_pd := pd\<rparr>
                          in if pd = 0 then (Inl kVerbs, endpoint_reset lib ep w)
                             else case query_active_port lib config ep w of
                               (active, ep, w) \<Rightarrow>
                                 if \<not> active then (Inl kVerbs, endpoint_reset lib ep w)
                                 else (Inr (), (ep\<lparr>ep_config := config, ep_qp_sequence := 0\<rparr>, w))))))"

definition local_qp_record :: "Endpoint \<Rightarrow> u32 \<Rightarrow> u32 \<Rightarrow> QpInfo" where
  "local_qp_record ep number entropy =
     zero_qp_info\<lparr>qp_num := number, psn := (entropy + ep_qp_sequence ep) AND 0x00ffffff,
       port_num := ucast (ec_port (ep_config ep)), gid_index := ucast (ec_gid_index (ep_config ep)),
       path_mtu := mtu_bytes (ipa_active_mtu (ep_port ep)), retry_count := 7, retry_timeout := 14, gid := ep_gid ep\<rparr>"

definition init_attr :: "Endpoint \<Rightarrow> ibv_qp_attr" where
  "init_attr ep = zero_qp_attr\<lparr>ia_qp_state := IBV_QPS_INIT, ia_pkey_index := 0, ia_port_num := ec_port (ep_config ep),
     ia_qp_access_flags := IBV_ACCESS_REMOTE_READ OR IBV_ACCESS_REMOTE_WRITE\<rparr>"

definition create_qp :: "'w ibverbs \<Rightarrow> (Endpoint \<times> 'w, QueuePair) comp" where
  "create_qp lib = (\<lambda>(ep, w).
     if \<not> endpoint_opened ep then (Inl kInvalidArgument, (ep, w))
     else case ibv_create_cq lib (ep_context ep) (kQpDepth * 2) w of
       (cq, w) \<Rightarrow>
         if cq = 0 then (Inl kVerbs, (ep, w))
         else case ibv_create_qp lib (ep_pd ep) cq kQpDepth kQpDepth w of
           ((handle, number), w) \<Rightarrow>
             if handle = 0 then (Inl kVerbs, (ep, ibv_destroy_cq lib cq w))
             else case make_psn lib w of
               (entropy, w) \<Rightarrow>
                 (let info = local_qp_record ep number entropy;
                      ep = ep\<lparr>ep_qp_sequence := ep_qp_sequence ep + 1\<rparr>
                  in case ibv_modify_qp lib handle (init_attr ep)
                            [IBV_QP_STATE, IBV_QP_PKEY_INDEX, IBV_QP_PORT, IBV_QP_ACCESS_FLAGS] w of
                       (result, w) \<Rightarrow>
                         if result \<noteq> 0 then (Inl kVerbs, (ep, ibv_destroy_cq lib cq (ibv_destroy_qp lib handle w)))
                         else (Inr (make_queue_pair (ep_this ep) info cq handle), (ep, w))))"

definition reg_mr :: "'w ibverbs \<Rightarrow> u64 \<Rightarrow> u64 \<Rightarrow> u32 \<Rightarrow> (Endpoint \<times> 'w, MemoryRegion) comp" where
  "reg_mr lib address len access = (\<lambda>(ep, w).
     if ep_pd ep = 0 \<or> \<not> endpoint_opened ep \<or> address = 0 \<or> len = 0 \<or> address > UINT64_MAX - len
     then (Inl kInvalidArgument, (ep, w))
     else case ibv_reg_mr lib (ep_pd ep) address len access w of
       (None, w) \<Rightarrow> (Inl kVerbs, (ep, w))
     | (Some mr, w) \<Rightarrow> (Inr \<lparr>mem_mr = Some mr, mem_owner = ep_this ep\<rparr>, (ep, w)))"

section \<open>Batches of transfers\<close>

lemma next_wr_id_nonzero [simp]: "next_wr_id i \<noteq> 0"
  by (simp add: next_wr_id_def Let_def)

text \<open>A work request of a batch: its local range is the requested part of the request's region.\<close>

definition wr_covers :: "ibv_wr_opcode \<Rightarrow> QueuePair \<Rightarrow> TransferRequest \<Rightarrow> ibv_send_wr \<Rightarrow> bool" where
  "wr_covers opcode qp request wr \<longleftrightarrow>
     (\<exists>region. tr_local request = Some region \<and> belongs_to region (qpr_endpoint qp)
        \<and> isg_lkey (isw_sge wr) = region_local_key region
        \<and> unat (isg_addr (isw_sge wr)) = unat (region_address region) + unat (tr_local_offset request)
        \<and> unat (tr_local_offset request) + unat (isg_length (isw_sge wr)) \<le> unat (region_length region)
        \<and> unat (isg_addr (isw_sge wr)) + unat (isg_length (isw_sge wr)) < 2 ^ 64)
     \<and> isg_length (isw_sge wr) = tr_length request \<and> tr_length request \<noteq> 0 \<and> isw_opcode wr = opcode
     \<and> isw_remote_addr wr = tr_remote_address request \<and> isw_rkey wr = tr_remote_key request
     \<and> unat (isw_remote_addr wr) + unat (tr_length request) < 2 ^ 64"

lemma valid_local_region_range:
  assumes "valid_local_region qp region off len"
  shows "unat (region_address region + off) = unat (region_address region) + unat off"
    and "unat off + unat len \<le> unat (region_length region)"
    and "unat (region_address region + off) + unat len < 2 ^ 64"
proof -
  from assms have "unat off + unat (region_address region) < 2 ^ 64"
    by (simp add: valid_local_region_def add_guard_unat)
  then show "unat (region_address region + off) = unat (region_address region) + unat off"
    by (intro unat_add_small) (simp add: add.commute)
  from assms show "unat (region_address region + off) + unat len < 2 ^ 64"
    by (simp add: valid_local_region_def add_guard_unat)
  from assms range_guard_unat [of off "region_length region" "ucast len"]
  show "unat off + unat len \<le> unat (region_length region)" by (simp add: valid_local_region_def)
qed

lemma transfer_wr_covers:
  assumes "transfer_valid qp request"
  shows "wr_covers opcode qp request (transfer_wr opcode request wr_id is_last)"
proof -
  from assms obtain region where r: "tr_local request = Some region"
    "valid_local_region qp region (tr_local_offset request) (tr_length request)"
    by (auto simp: transfer_valid_def split: option.splits)
  have "unat (tr_remote_address request) + unat (tr_length request) < 2 ^ 64"
    using assms add_guard_unat [of "tr_remote_address request" "ucast (tr_length request)"]
    by (simp add: transfer_valid_def not_less)
  moreover have "belongs_to region (qpr_endpoint qp)" "tr_length request \<noteq> 0" using r(2) by (simp_all add: valid_local_region_def)
  ultimately show ?thesis
    using r(1) valid_local_region_range [OF r(2)] by (simp add: wr_covers_def transfer_wr_def Let_def)
qed

lemma transfer_valid_next_id [simp]:
  "transfer_valid (qp\<lparr>qpr_next_send_wr_id := i\<rparr>) = transfer_valid qp"
  by (rule ext) (simp add: transfer_valid_def valid_local_region_def qp_created_def split: option.splits)

text \<open>The identifiers of a batch, from the next one of the queue pair on.\<close>

definition batch_ids :: "u64 \<Rightarrow> nat \<Rightarrow> u64 list" where
  "batch_ids i n = map (\<lambda>k. (next_wr_id ^^ k) i) [0..<n]"

lemma batch_ids_Suc: "batch_ids i (Suc n) = i # batch_ids (next_wr_id i) n"
  by (simp add: batch_ids_def upt_conv_Cons map_Suc_upt [symmetric] funpow_swap1 del: upt_Suc)

lemma wr_covers_next_id [simp]: "wr_covers opcode (qp\<lparr>qpr_next_send_wr_id := i\<rparr>) = wr_covers opcode qp"
  by (intro ext) (simp add: wr_covers_def)

lemma transfer_wr_sel [simp]:
  "isw_wr_id (transfer_wr opcode request i b) = i"
  "isw_send_flags (transfer_wr opcode request i b) = (if b then IBV_SEND_SIGNALED else 0)"
  by (simp_all add: transfer_wr_def Let_def)

lemma build_batch_sound:
  assumes "build_batch opcode requests qp = (Some wrs, qp')"
  shows "list_all2 (wr_covers opcode qp) requests wrs
    \<and> map isw_wr_id wrs = batch_ids (qpr_next_send_wr_id qp) (length requests)
    \<and> map isw_send_flags wrs = (if requests = [] then [] else replicate (length requests - 1) 0 @ [IBV_SEND_SIGNALED])
    \<and> qp' = qp\<lparr>qpr_next_send_wr_id := (next_wr_id ^^ length requests) (qpr_next_send_wr_id qp)\<rparr>"
  using assms
proof (induction requests arbitrary: qp wrs)
  case Nil
  then show ?case by (auto simp: batch_ids_def)
next
  case (Cons request requests)
  let ?qp1 = "qp\<lparr>qpr_next_send_wr_id := next_wr_id (qpr_next_send_wr_id qp)\<rparr>"
  from Cons.prems have v: "transfer_valid qp request" by (auto split: if_splits)
  with Cons.prems obtain wrs1 where wrs: "build_batch opcode requests ?qp1 = (Some wrs1, qp')"
    "wrs = transfer_wr opcode request (qpr_next_send_wr_id qp) (requests = []) # wrs1"
    by (auto simp: Let_def split: prod.splits option.splits)
  note IH = Cons.IH [OF wrs(1)]
  with wrs(2) transfer_wr_covers [OF v] show ?case
    by (cases requests) (auto simp: batch_ids_Suc funpow_swap1)
qed

lemma build_batch_accepts_iff:
  "(\<exists>wrs qp'. build_batch opcode requests qp = (Some wrs, qp')) \<longleftrightarrow> list_all (transfer_valid qp) requests"
proof (induction requests arbitrary: qp)
  case (Cons request requests)
  let ?qp = "qp\<lparr>qpr_next_send_wr_id := next_wr_id (qpr_next_send_wr_id qp)\<rparr>"
  obtain r qp' where r: "build_batch opcode requests ?qp = (r, qp')" by fastforce
  with Cons.IH [of ?qp] show ?case by (cases r) (auto simp: Let_def)
qed simp

section \<open>Completions\<close>

text \<open>What one polling loop sees: readings of the clock and polls of the completion queue.\<close>

inductive cq_run :: "'w ibverbs \<Rightarrow> u64 \<Rightarrow> 'w \<Rightarrow> ibv_wc list \<Rightarrow> 'w \<Rightarrow> bool" for lib cq where
  run_done: "cq_run lib cq w [] w"
| run_clock: "steady_now lib w = (now, w1) \<Longrightarrow> cq_run lib cq w1 cs w' \<Longrightarrow> cq_run lib cq w cs w'"
| run_empty: "ibv_poll_cq lib cq w = (n, c, w1) \<Longrightarrow> n \<noteq> 1 \<Longrightarrow> cq_run lib cq w1 cs w' \<Longrightarrow> cq_run lib cq w cs w'"
| run_one: "ibv_poll_cq lib cq w = (1, c, w1) \<Longrightarrow> cq_run lib cq w1 cs w' \<Longrightarrow> cq_run lib cq w (c # cs) w'"

text \<open>Every completion seen is returned or stashed, none twice; only the stash changes.\<close>

definition completions_kept :: "'w ibverbs \<Rightarrow> ibv_wc_opcode \<Rightarrow> u64 \<Rightarrow> QueuePair \<times> 'w \<Rightarrow> ibv_wc result \<times> QueuePair \<times> 'w \<Rightarrow> bool" where
  "completions_kept lib opcode wr_id s r = (case (s, r) of ((qp, w), (res, qp', w')) \<Rightarrow>
     (\<exists>cs. cq_run lib (qpr_cq qp) w cs w'
        \<and> mset (qpr_pending_completions qp @ cs) = (case res of Inl _ \<Rightarrow> {#} | Inr c \<Rightarrow> {#c#}) + mset (qpr_pending_completions qp'))
     \<and> qp' = qp\<lparr>qpr_pending_completions := qpr_pending_completions qp'\<rparr>
     \<and> (case res of Inl _ \<Rightarrow> True | Inr c \<Rightarrow> wc_matches opcode wr_id c))"

lemma take_matching_some:
  "take_matching opcode wr_id cs = Some (c, rest) \<Longrightarrow> mset cs = add_mset c (mset rest) \<and> wc_matches opcode wr_id c"
  by (induction cs arbitrary: rest) (auto split: if_splits)

lemma kept_stop:
  assumes "steady_now lib w = (now, w1)" and "ibv_poll_cq lib (qpr_cq qp) w1 = (n, c, w2)"
  shows "n \<noteq> 1 \<Longrightarrow> completions_kept lib opcode wr_id (qp, w) (Inl e, qp, w2)"
    and "n = 1 \<Longrightarrow> wc_matches opcode wr_id c \<Longrightarrow> completions_kept lib opcode wr_id (qp, w) (Inr c, qp, w2)"
proof -
  assume "n \<noteq> 1"
  then have "cq_run lib (qpr_cq qp) w [] w2" by (intro run_clock [OF assms(1)] run_empty [OF assms(2)] run_done)
  then show "completions_kept lib opcode wr_id (qp, w) (Inl e, qp, w2)" by (auto simp: completions_kept_def)
next
  assume n: "n = 1" and m: "wc_matches opcode wr_id c"
  have "cq_run lib (qpr_cq qp) w [c] w2" by (rule run_clock [OF assms(1) run_one [OF assms(2) [unfolded n] run_done]])
  with m show "completions_kept lib opcode wr_id (qp, w) (Inr c, qp, w2)"
    by (auto simp: completions_kept_def intro!: exI [of _ "[c]"])
qed

lemma kept_step:
  assumes "steady_now lib w = (now, w1)" and "ibv_poll_cq lib (qpr_cq qp) w1 = (n, c, w2)"
  shows "n \<noteq> 1 \<Longrightarrow> completions_kept lib opcode wr_id (qp, w2) r \<Longrightarrow> completions_kept lib opcode wr_id (qp, w) r"
    and "n = 1 \<Longrightarrow> completions_kept lib opcode wr_id
        (qp\<lparr>qpr_pending_completions := qpr_pending_completions qp @ [c]\<rparr>, w2) r \<Longrightarrow> completions_kept lib opcode wr_id (qp, w) r"
proof -
  assume n: "n \<noteq> 1" and k: "completions_kept lib opcode wr_id (qp, w2) r"
  have "cq_run lib (qpr_cq qp) w cs w'" if "cq_run lib (qpr_cq qp) w2 cs w'" for cs w'
    by (rule run_clock [OF assms(1) run_empty [OF assms(2) n that]])
  with k show "completions_kept lib opcode wr_id (qp, w) r"
    by (fastforce simp: completions_kept_def split: prod.splits)
next
  let ?qp = "qp\<lparr>qpr_pending_completions := qpr_pending_completions qp @ [c]\<rparr>"
  assume n: "n = 1" and k: "completions_kept lib opcode wr_id (?qp, w2) r"
  obtain res qp' w' where r: "r = (res, qp', w')" by (metis prod_cases3)
  from k [unfolded r completions_kept_def] obtain cs where cs: "cq_run lib (qpr_cq qp) w2 cs w'"
    "mset (qpr_pending_completions qp @ (c # cs))
       = (case res of Inl _ \<Rightarrow> {#} | Inr c \<Rightarrow> {#c#}) + mset (qpr_pending_completions qp')" by auto
  have "cq_run lib (qpr_cq qp) w (c # cs) w'" using assms(2) n cs(1) by (intro run_clock [OF assms(1)] run_one [of _ _ _ c]) simp_all
  with k cs(2) show "completions_kept lib opcode wr_id (qp, w) r"
    unfolding r completions_kept_def by auto
qed

lemma poll_until_kept:
  assumes "poll_until lib opcode wr_id deadline s = Some r"
  shows "completions_kept lib opcode wr_id s r"
  using assms
proof (rule poll_until.raw_induct [rotated])
  fix poll :: "'w ibverbs \<Rightarrow> ibv_wc_opcode \<Rightarrow> u64 \<Rightarrow> nat \<Rightarrow> (QueuePair \<times> 'w, ibv_wc) pcomp"
  fix lib :: "'w ibverbs" and opcode wr_id deadline s r
  assume IH: "\<And>lib opcode wr_id deadline s r. poll lib opcode wr_id deadline s = Some r \<Longrightarrow> completions_kept lib opcode wr_id s r"
    and step: "(case s of (qp, w) \<Rightarrow>
      case steady_now lib w of (now, w) \<Rightarrow>
        if \<not> now < deadline then Some (Inl kVerbs, (qp, w))
        else case ibv_poll_cq lib (qpr_cq qp) w of (polled_count, completion, w) \<Rightarrow>
          if polled_count = 1
          then (if wc_matches opcode wr_id completion then Some (Inr completion, (qp, w))
                else poll lib opcode wr_id deadline
                       (qp\<lparr>qpr_pending_completions := qpr_pending_completions qp @ [completion]\<rparr>, w))
          else if polled_count < 0 then Some (Inl kVerbs, (qp, w))
          else poll lib opcode wr_id deadline (qp, w)) = Some r"
  obtain qp w where s: "s = (qp, w)" by fastforce
  obtain now w1 where now: "steady_now lib w = (now, w1)" by fastforce
  obtain n c w2 where p: "ibv_poll_cq lib (qpr_cq qp) w1 = (n, c, w2)" by (metis prod_cases3)
  show "completions_kept lib opcode wr_id s r"
  proof (cases "now < deadline")
    case False
    with step s now have "r = (Inl kVerbs, qp, w1)" by simp
    moreover have "cq_run lib (qpr_cq qp) w [] w1" by (rule run_clock [OF now run_done])
    ultimately show ?thesis using s by (auto simp: completions_kept_def)
  next
    case True
    note eq = step [unfolded s now p prod.case]
    show ?thesis
      unfolding s
      by (cases "n = 1"; cases "wc_matches opcode wr_id c"; cases "n < 0")
        (use True eq kept_stop [OF now p] kept_step [OF now p] IH in auto)
  qed
qed

lemma poll_matching_kept:
  assumes "poll_matching lib opcode wr_id timeout_ms (qp, w) = Some r"
  shows "completions_kept lib opcode wr_id (qp, w) r"
proof (cases "qp_created qp \<and> take_matching opcode wr_id (qpr_pending_completions qp) = None")
  case True
  obtain now w1 where now: "steady_now lib w = (now, w1)" by fastforce
  from True assms now have "poll_until lib opcode wr_id (now + unat timeout_ms * 1000000) (qp, w1) = Some r"
    by (simp add: poll_matching_def)
  from poll_until_kept [OF this] run_clock [OF now] show ?thesis
    by (fastforce simp: completions_kept_def split: prod.splits)
next
  case False
  have "cq_run lib (qpr_cq qp) w [] w" by (rule run_done)
  with False assms show ?thesis
    by (auto simp: poll_matching_def completions_kept_def dest!: take_matching_some split: if_splits option.splits)
qed

text \<open>A clock that advances with every reading, and is not set back by polling.\<close>

definition clock_advances :: "'w ibverbs \<Rightarrow> ('w \<Rightarrow> nat) \<Rightarrow> bool" where
  "clock_advances lib clock \<longleftrightarrow>
     (\<forall>w. fst (steady_now lib w) = clock (snd (steady_now lib w)) \<and> clock w < clock (snd (steady_now lib w))) \<and>
     (\<forall>cq w. clock w \<le> clock (snd (snd (ibv_poll_cq lib cq w))))"

lemma poll_until_returns:
  assumes "clock_advances lib clock"
  shows "\<exists>r. poll_until lib opcode wr_id deadline (qp, w) = Some r"
proof (induction "deadline - clock w" arbitrary: qp w rule: less_induct)
  case less
  obtain now w1 where now: "steady_now lib w = (now, w1)" by fastforce
  obtain n c w2 where p: "ibv_poll_cq lib (qpr_cq qp) w1 = (n, c, w2)" by (metis prod_cases3)
  from assms have "now = clock w1" "clock w < clock w1" "clock w1 \<le> clock w2"
    unfolding clock_advances_def using now p by (metis fst_conv snd_conv)+
  with less have "\<exists>r. poll_until lib opcode wr_id deadline (qp', w2) = Some r" if "now < deadline" for qp'
    using that by (intro less) simp
  then show ?case
    by (subst poll_until.simps) (simp add: now p)
qed

lemma poll_matching_returns:
  assumes "clock_advances lib clock"
  shows "\<exists>r. poll_matching lib opcode wr_id timeout_ms (qp, w) = Some r"
  using poll_until_returns [OF assms] by (auto simp: poll_matching_def split: option.splits prod.splits)

section \<open>Well-formed queue pairs\<close>

text \<open>At most \<open>kQpDepth\<close> receives are outstanding, and no identifier is zero.\<close>

definition qp_wf :: "QueuePair \<Rightarrow> bool" where
  "qp_wf qp \<longleftrightarrow> length (qpr_pending_receive_ids qp) \<le> 128 \<and> list_all (\<lambda>i. i \<noteq> 0) (qpr_pending_receive_ids qp)
     \<and> qpr_next_send_wr_id qp \<noteq> 0 \<and> qpr_next_receive_wr_id qp \<noteq> 0"

abbreviation qp_ok :: "QueuePair \<times> 'w \<Rightarrow> bool" where "qp_ok s \<equiv> qp_wf (fst s)"

lemma empty_qp_wf [simp]: "qp_wf empty_queue_pair" "qp_wf (make_queue_pair e i c h)"
  by (simp_all add: qp_wf_def empty_queue_pair_def make_queue_pair_def)

lemma qp_wf_updates [simp]:
  "qp_wf (qp\<lparr>qpr_connected := b\<rparr>) = qp_wf qp" "qp_wf (qp\<lparr>qpr_pending_completions := cs\<rparr>) = qp_wf qp"
  by (simp_all add: qp_wf_def)

lemma connect_keeps: "keeps qp_ok (qp_connect lib config peer)"
  by (rule keepsI) (auto simp: qp_connect_def split: if_splits option.splits prod.splits)

lemma post_receive_keeps: "keeps qp_ok (qp_post_receive lib region)"
  by (rule keepsI)
    (auto simp: qp_post_receive_def qp_wf_def Let_def kQpDepth_def split: if_splits prod.splits)

lemma post_send_keeps: "keeps qp_ok (qp_post_send lib region len)"
  by (rule keepsI) (auto simp: qp_post_send_def qp_wf_def Let_def split: if_splits prod.splits)

lemma build_batch_wf: "qp_wf qp \<Longrightarrow> qp_wf (snd (build_batch opcode requests qp))"
proof (induction requests arbitrary: qp)
  case (Cons request requests)
  let ?qp = "qp\<lparr>qpr_next_send_wr_id := next_wr_id (qpr_next_send_wr_id qp)\<rparr>"
  have "qp_wf ?qp" using Cons.prems by (simp add: qp_wf_def)
  from Cons.IH [OF this] Cons.prems show ?case
    by (auto simp: Let_def split: prod.splits option.splits)
qed simp

lemma post_transfer_batch_keeps: "keeps qp_ok (post_transfer_batch lib opcode requests)"
proof (rule keepsI)
  show "qp_ok (snd (post_transfer_batch lib opcode requests s))" if "qp_ok s" for s
    using that build_batch_wf [of "fst s" opcode requests]
    by (auto simp: post_transfer_batch_def split: prod.splits if_splits option.splits)
qed

lemma post_transfer_keeps: "keeps qp_ok (post_transfer lib opcode region off a k len)"
  unfolding post_transfer_def by (intro hoare post_transfer_batch_keeps)

lemma poll_matching_keeps: "pkeeps qp_ok (poll_matching lib opcode wr_id timeout_ms)"
proof (rule pkeepsI)
  fix s r t assume s: "qp_ok s" and run: "poll_matching lib opcode wr_id timeout_ms s = Some (r, t)"
  obtain qp w qp' w' where eq: "s = (qp, w)" "t = (qp', w')" by fastforce
  from poll_matching_kept [of lib opcode wr_id timeout_ms qp w "(r, t)"] run eq
  have "qp' = qp\<lparr>qpr_pending_completions := qpr_pending_completions qp'\<rparr>" by (simp add: completions_kept_def)
  then have "qp_wf qp' = qp_wf qp" by (metis qp_wf_updates(2))
  with s eq show "qp_ok t" by simp
qed

lemma qp_poll_keeps: "pkeeps qp_ok (qp_poll lib opcode wr_id timeout_ms)"
  unfolding qp_poll_def by (intro hoare poll_matching_keeps)

lemma wait_receive_keeps: "pkeeps qp_ok (qp_wait_receive lib timeout_ms)"
proof -
  have fin: "pkeeps qp_ok (\<lambda>(qp, w). let qp = qp\<lparr>qpr_pending_receive_ids := tl (qpr_pending_receive_ids qp)\<rparr>
      in if b then Some (Inl kVerbs, (qp, w)) else Some (Inr (), (qp, w)))" for b
    by (auto simp: ptriple_def qp_wf_def Let_def list_all_iff dest: list.set_sel(2) [rotated] split: prod.splits)
      (metis list.set_sel(2) list.sel(2))+
  have "pkeeps qp_ok (pbind (poll_matching lib IBV_WC_RECV wr_id timeout_ms) (\<lambda>completion (qp, w).
      let qp = qp\<lparr>qpr_pending_receive_ids := tl (qpr_pending_receive_ids qp)\<rparr>
      in if iwc_status completion \<noteq> IBV_WC_SUCCESS \<or> iwc_opcode completion \<noteq> IBV_WC_RECV \<or> iwc_wr_id completion \<noteq> wr_id
         then Some (Inl kVerbs, (qp, w)) else Some (Inr (), (qp, w))))" for wr_id
    by (intro pkeeps_bind poll_matching_keeps fin)
  then show ?thesis
    unfolding ptriple_def qp_wait_receive_def by (auto split: list.splits)
qed

section \<open>A sample library\<close>

text \<open>
  A world with a clock that ticks on every reading and the completions that are still to be
  delivered; requests are accepted without effect.
\<close>

type_synonym sample_world = "nat \<times> ibv_wc list"

definition no_wc :: ibv_wc where
  "no_wc = \<lparr>iwc_wr_id = 0, iwc_status = 0, iwc_opcode = 0, iwc_vendor_err = 0\<rparr>"

definition sample_lib :: "sample_world ibverbs" where
  "sample_lib = \<lparr>ibv_post_send = (\<lambda>_ _ w. (0, w)), ibv_post_recv = (\<lambda>_ _ w. (0, w)),
     ibv_poll_cq = (\<lambda>_ (t, cs). case cs of [] \<Rightarrow> (0, no_wc, (t, [])) | c # cs \<Rightarrow> (1, c, (t, cs))),
     ibv_modify_qp = (\<lambda>_ _ _ w. (0, w)), ibv_create_cq = (\<lambda>_ _ w. (20, w)), ibv_create_qp = (\<lambda>_ _ _ _ w. ((30, 7), w)),
     ibv_destroy_qp = (\<lambda>_ w. w), ibv_destroy_cq = (\<lambda>_ w. w),
     ibv_reg_mr = (\<lambda>_ a n _ w. (Some \<lparr>mr_handle = 40, mr_addr = a, mr_length = n, mr_lkey = 5, mr_rkey = 6\<rparr>, w)),
     ibv_dereg_mr = (\<lambda>_ w. w), ibv_get_device_list = (\<lambda>w. (Some [(50, ''hns_0'')], w)), ibv_free_device_list = (\<lambda>w. w),
     ibv_open_device = (\<lambda>_ w. (60, w)), ibv_close_device = (\<lambda>_ w. w), ibv_alloc_pd = (\<lambda>_ w. (70, w)),
     ibv_dealloc_pd = (\<lambda>_ w. w),
     ibv_query_port = (\<lambda>_ _ w. ((0, \<lparr>ipa_state = IBV_PORT_ACTIVE, ipa_active_mtu = IBV_MTU_4096\<rparr>), w)),
     ibv_query_gid = (\<lambda>_ _ _ w. ((0, replicate 16 1), w)), steady_now = (\<lambda>(t, cs). (Suc t, (Suc t, cs))),
     monotonic_nsec = (\<lambda>w. (123, w)), getpid = 42\<rparr>"

definition sample_queue_pair :: QueuePair where
  "sample_queue_pair = (make_queue_pair 80 zero_qp_info 20 30)\<lparr>qpr_connected := True\<rparr>"

definition sample_region :: MemoryRegion where
  "sample_region = \<lparr>mem_mr = Some \<lparr>mr_handle = 40, mr_addr = 0x1000, mr_length = 256, mr_lkey = 5, mr_rkey = 6\<rparr>, mem_owner = 80\<rparr>"

definition recv_wc :: "u64 \<Rightarrow> ibv_wc" where
  "recv_wc i = \<lparr>iwc_wr_id = i, iwc_status = 0, iwc_opcode = 128, iwc_vendor_err = 0\<rparr>"

lemma sample_clock: "clock_advances sample_lib fst"
  by (auto simp: clock_advances_def sample_lib_def split: list.split)

section \<open>Properties\<close>

text \<open>
  C20: what a batch of RDMA transfers posts. An accepted batch is posted as one chain with one
  work request per transfer, in order: each stays inside the memory region it names, which
  belongs to the queue pair's endpoint, with local and remote ranges that do not wrap; the
  identifiers are the next ones of the queue pair and only the last request is signaled. A
  batch with an unacceptable transfer posts nothing.
\<close>

theorem post_transfer_batch_safe:
  "case post_transfer_batch lib opcode requests (qp, w) of
     (Inr ids, (qp', w')) \<Rightarrow>
       \<exists>wrs. ibv_post_send lib (qpr_handle qp) wrs w = (0, w') \<and> list_all2 (wr_covers opcode qp) requests wrs
         \<and> map isw_wr_id wrs = ids \<and> ids = batch_ids (qpr_next_send_wr_id qp) (length requests)
         \<and> map isw_send_flags wrs = replicate (length requests - 1) 0 @ [IBV_SEND_SIGNALED]
   | (Inl e, (qp', w')) \<Rightarrow> if e = kInvalidArgument then w' = w else list_all (transfer_valid qp) requests"
proof (cases "qp_created qp \<and> qpr_connected qp \<and> requests \<noteq> []")
  case False
  then show ?thesis by (auto simp: post_transfer_batch_def)
next
  case True
  obtain r qp' where b: "build_batch opcode requests qp = (r, qp')" by fastforce
  show ?thesis
  proof (cases r)
    case None
    with True b show ?thesis by (simp add: post_transfer_batch_def)
  next
    case (Some wrs)
    with b have b: "build_batch opcode requests qp = (Some wrs, qp')" by simp
    obtain result w' where p: "ibv_post_send lib (qpr_handle qp') wrs w = (result, w')" by fastforce
    from build_batch_sound [OF b] have "qpr_handle qp' = qpr_handle qp" by simp
    moreover have "list_all (transfer_valid qp) requests" using b build_batch_accepts_iff by blast
    ultimately show ?thesis
      using True p build_batch_sound [OF b] by (auto simp: post_transfer_batch_def b)
  qed
qed

text \<open>
  C19: no completion is lost. Whenever waiting for a completion returns, with it, with a failure
  or with a timeout, every completion taken from the queue in the meantime is either the one
  returned, which has the requested opcode and identifier, or still in the stash, each exactly
  once, and nothing else of the queue pair has changed.
\<close>

theorem poll_matching_loses_nothing:
  assumes "poll_matching lib opcode wr_id timeout_ms (qp, w) = Some (r, (qp', w'))"
  shows "\<exists>cs. cq_run lib (qpr_cq qp) w cs w'
      \<and> mset (qpr_pending_completions qp @ cs) = (case r of Inl _ \<Rightarrow> {#} | Inr c \<Rightarrow> {#c#}) + mset (qpr_pending_completions qp')
      \<and> qp' = qp\<lparr>qpr_pending_completions := qpr_pending_completions qp'\<rparr>
      \<and> (case r of Inl _ \<Rightarrow> True | Inr c \<Rightarrow> iwc_opcode c = opcode \<and> iwc_wr_id c = wr_id)"
  using poll_matching_kept [OF assms] by (cases r) (auto simp: completions_kept_def wc_matches_def)

theorem poll_matching_loses_nothing_witness:
  "\<exists>cs w'. poll_matching sample_lib 128 2 1 (sample_queue_pair, (0, [recv_wc 1, recv_wc 2, recv_wc 3]))
       = Some (Inr (recv_wc 2), (sample_queue_pair\<lparr>qpr_pending_completions := [recv_wc 1]\<rparr>, w'))
     \<and> cq_run sample_lib 20 (0, [recv_wc 1, recv_wc 2, recv_wc 3]) cs w'
     \<and> mset cs = {#recv_wc 2#} + {#recv_wc 1#}"
proof -
  have run: "poll_matching sample_lib 128 2 1 (sample_queue_pair, (0, [recv_wc 1, recv_wc 2, recv_wc 3]))
       = Some (Inr (recv_wc 2), (sample_queue_pair\<lparr>qpr_pending_completions := [recv_wc 1]\<rparr>, (3, [recv_wc 3])))"
    by (simp add: poll_matching_def qp_created_def sample_queue_pair_def make_queue_pair_def empty_queue_pair_def)
      (subst poll_until.simps, simp add: sample_lib_def wc_matches_def recv_wc_def,
       subst poll_until.simps, simp add: sample_lib_def wc_matches_def recv_wc_def)
  show ?thesis
    using poll_matching_loses_nothing [OF run] run
    by (auto simp: sample_queue_pair_def make_queue_pair_def empty_queue_pair_def)
qed

text \<open>
  Waiting for a completion ends. With a clock that advances on every reading, polling
  returns for every timeout, whatever the completion queue delivers.
\<close>

theorem poll_matching_terminates:
  assumes "clock_advances lib clock"
  shows "\<exists>r. poll_matching lib opcode wr_id timeout_ms (qp, w) = Some r"
  by (rule poll_matching_returns [OF assms])

theorem poll_matching_terminates_witness:
  "clock_advances sample_lib fst \<and> (\<exists>r. poll_matching sample_lib IBV_WC_RECV 9 1 (sample_queue_pair, (0, [])) = Some r)"
  using poll_matching_terminates [OF sample_clock] sample_clock by blast

text \<open>
  Every operation of a queue pair keeps it well-formed: at most 128 receives outstanding,
  which is the depth the queue was created with, and no request identifier is zero.
\<close>

theorem queue_pair_operations_wf:
  "keeps qp_ok (qp_connect lib config peer) \<and> keeps qp_ok (qp_post_receive lib region)
   \<and> keeps qp_ok (qp_post_send lib region len) \<and> keeps qp_ok (post_transfer_batch lib opcode requests)
   \<and> pkeeps qp_ok (qp_poll lib wc_opcode wr_id timeout_ms) \<and> pkeeps qp_ok (qp_wait_receive lib timeout_ms)
   \<and> qp_wf (fst (qp_reset lib qp w)) \<and> qp_wf (make_queue_pair ep info cq handle)"
  by (intro conjI connect_keeps post_receive_keeps post_send_keeps post_transfer_batch_keeps qp_poll_keeps wait_receive_keeps)
    (simp_all add: qp_reset_def Let_def)

end
