(* ===== verification/Tcp_Socket.thy ===== *)
theory Tcp_Socket
  imports Transport_Protocol
begin

text \<open>
  The TCP byte channel of \<^verbatim>\<open>src/src/include/tcp_socket.hh\<close> and \<^verbatim>\<open>src/src/common/tcp_socket.cc\<close>.
  The operating system is a parameter, the record \<open>posix\<close> of the system calls the sources
  make, over a state \<open>'w\<close> of the outside world; \<open>inet_pton\<close> is a parameter as well. A call
  returns \<open>Inl\<close> of \<open>errno\<close> where the C function returns a negative value. The three loops that
  retry on \<open>EINTR\<close> may run forever, so they are partial functions; the theorems show that
  they return when the interruptions are finitely many.
\<close>

section \<open>System calls\<close>

type_synonym errno = int

definition EINTR :: errno where "EINTR = 4"
definition EINPROGRESS :: errno where "EINPROGRESS = 115"
definition POLLOUT :: u16 where "POLLOUT = 4"
definition POLLERR :: u16 where "POLLERR = 8"
definition POLLHUP :: u16 where "POLLHUP = 16"
definition POLLNVAL :: u16 where "POLLNVAL = 32"
definition O_NONBLOCK :: u32 where "O_NONBLOCK = 0x800"

record sockaddr_in =
  sin_port :: u16
  sin_addr :: u32

record 'w posix =
  inet_pton :: "string \<Rightarrow> u32 option"
  sys_read :: "int \<Rightarrow> nat \<Rightarrow> 'w \<Rightarrow> (errno + u8 list) \<times> 'w"
  sys_write :: "int \<Rightarrow> u8 list \<Rightarrow> 'w \<Rightarrow> (errno + nat) \<times> 'w"
  sys_poll :: "int \<Rightarrow> u16 \<Rightarrow> int \<Rightarrow> 'w \<Rightarrow> (errno + (nat \<times> u16)) \<times> 'w"
  sys_socket :: "'w \<Rightarrow> (errno + int) \<times> 'w"
  sys_getfl :: "int \<Rightarrow> 'w \<Rightarrow> (errno + u32) \<times> 'w"
  sys_setfl :: "int \<Rightarrow> u32 \<Rightarrow> 'w \<Rightarrow> (errno + unit) \<times> 'w"
  sys_connect :: "int \<Rightarrow> sockaddr_in \<Rightarrow> 'w \<Rightarrow> (errno + unit) \<times> 'w"
  sys_so_error :: "int \<Rightarrow> 'w \<Rightarrow> (errno + int) \<times> 'w"
  sys_reuseaddr :: "int \<Rightarrow> 'w \<Rightarrow> (errno + unit) \<times> 'w"
  sys_bind :: "int \<Rightarrow> sockaddr_in \<Rightarrow> 'w \<Rightarrow> (errno + unit) \<times> 'w"
  sys_listen :: "int \<Rightarrow> int \<Rightarrow> 'w \<Rightarrow> (errno + unit) \<times> 'w"
  sys_accept :: "int \<Rightarrow> 'w \<Rightarrow> (errno + int) \<times> 'w"
  sys_close :: "int \<Rightarrow> 'w \<Rightarrow> 'w"

definition wait_for_fd :: "'w posix \<Rightarrow> int \<Rightarrow> u16 \<Rightarrow> u32 \<Rightarrow> ('w, unit) comp" where
  "wait_for_fd os fd events timeout_ms w =
     (case sys_poll os fd events (sint timeout_ms) w of
        (Inl _, w) \<Rightarrow> (Inl kTransport, w)
      | (Inr (result, revents), w) \<Rightarrow>
          if result = 0 then (Inl kTransport, w)
          else if revents AND (POLLERR OR POLLHUP OR POLLNVAL) \<noteq> 0 then (Inl kTransport, w)
          else (Inr (), w))"

section \<open>Addresses\<close>

record TcpAddress =
  ta_ipv4 :: string
  ta_port :: u16

text \<open>\<open>std::string::rfind\<close> of a character, \<open>None\<close> for \<open>npos\<close>.\<close>

fun rfind :: "char \<Rightarrow> string \<Rightarrow> nat option" where
  "rfind c [] = None"
| "rfind c (x # xs) =
     (case rfind c xs of Some k \<Rightarrow> Some (Suc k) | None \<Rightarrow> if x = c then Some 0 else None)"

definition is_digit :: "char \<Rightarrow> bool" where
  "is_digit c \<longleftrightarrow> (of_char CHR ''0'' :: nat) \<le> of_char c \<and> (of_char c :: nat) \<le> of_char CHR ''9''"

definition digit_value :: "char \<Rightarrow> nat" where
  "digit_value c = of_char c - of_char CHR ''0''"

datatype errc = ErrcOk | ErrcInvalidArgument | ErrcResultOutOfRange

text \<open>
  \<open>std::from_chars\<close> to a \<open>uint16_t\<close> in base ten: the longest prefix of digits; the unread rest,
  the error and the value, zero (the initial value of the output) on error.
\<close>

definition from_chars_u16 :: "string \<Rightarrow> string \<times> errc \<times> u16" where
  "from_chars_u16 text =
     (let digits = takeWhile is_digit text; rest = dropWhile is_digit text;
          n = foldl (\<lambda>a c. 10 * a + digit_value c) 0 digits
      in if digits = [] then (text, ErrcInvalidArgument, 0)
         else if n > 65535 then (rest, ErrcResultOutOfRange, 0)
         else (rest, ErrcOk, of_nat n))"

definition parse_tcp_address :: "(string \<Rightarrow> u32 option) \<Rightarrow> string \<Rightarrow> TcpAddress result" where
  "parse_tcp_address pton address =
     (case rfind (CHR '':'') address of
        None \<Rightarrow> Inl kInvalidArgument
      | Some separator \<Rightarrow>
          if separator = 0 \<or> separator + 1 = length address then Inl kInvalidArgument
          else
            (let ipv4 = take separator address; port_text = drop (separator + 1) address;
                 (last, error, port) = from_chars_u16 port_text
             in if pton ipv4 = None \<or> error \<noteq> ErrcOk \<or> last \<noteq> [] \<or> port = 0 then Inl kInvalidArgument
                else Inr \<lparr>ta_ipv4 = ipv4, ta_port = port\<rparr>))"

section \<open>Connections\<close>

record TcpConnection =
  tc_fd :: int

definition tcp_is_open :: "TcpConnection \<Rightarrow> bool" where
  "tcp_is_open c \<longleftrightarrow> tc_fd c \<ge> 0"

definition tcp_destroy :: "'w posix \<Rightarrow> TcpConnection \<Rightarrow> 'w \<Rightarrow> 'w" where
  "tcp_destroy os c w = (if tc_fd c \<ge> 0 then sys_close os (tc_fd c) w else w)"

text \<open>Move construction and assignment; the pair is the target and the moved-from object.\<close>

definition tcp_move :: "TcpConnection \<Rightarrow> TcpConnection \<times> TcpConnection" where
  "tcp_move other = (\<lparr>tc_fd = tc_fd other\<rparr>, other\<lparr>tc_fd := -1\<rparr>)"

definition tcp_move_assign :: "'w posix \<Rightarrow> TcpConnection \<Rightarrow> TcpConnection \<Rightarrow> 'w \<Rightarrow> (TcpConnection \<times> TcpConnection) \<times> 'w" where
  "tcp_move_assign os self other w =
     (let w = (if tc_fd self \<ge> 0 then sys_close os (tc_fd self) w else w)
      in ((self\<lparr>tc_fd := tc_fd other\<rparr>, other\<lparr>tc_fd := -1\<rparr>), w))"

partial_function (option) read_full :: "'w posix \<Rightarrow> int \<Rightarrow> nat \<Rightarrow> u8 list \<Rightarrow> ('w, u8 list) pcomp" where
  "read_full os fd len done w =
     (if len = 0 then Some (Inr done, w)
      else
        (case sys_read os fd len w of
           (Inl e, w) \<Rightarrow> if e = EINTR then read_full os fd len done w else Some (Inl kTransport, w)
         | (Inr bs, w) \<Rightarrow>
             if bs = [] then Some (Inl kTransport, w)
             else read_full os fd (len - length bs) (done @ bs) w))"

partial_function (option) write_full :: "'w posix \<Rightarrow> int \<Rightarrow> u8 list \<Rightarrow> ('w, unit) pcomp" where
  "write_full os fd bytes w =
     (if bytes = [] then Some (Inr (), w)
      else
        (case sys_write os fd bytes w of
           (Inl e, w) \<Rightarrow> if e = EINTR then write_full os fd bytes w else Some (Inl kTransport, w)
         | (Inr n, w) \<Rightarrow> write_full os fd (drop n bytes) w))"

definition tcp_send :: "'w posix \<Rightarrow> TcpConnection \<Rightarrow> u8 list \<Rightarrow> ('w, unit) pcomp" where
  "tcp_send os c bytes w =
     (if tc_fd c < 0 then Some (Inl kInvalidArgument, w) else write_full os (tc_fd c) bytes w)"

definition tcp_receive :: "'w posix \<Rightarrow> TcpConnection \<Rightarrow> nat \<Rightarrow> ('w, u8 list) pcomp" where
  "tcp_receive os c n w =
     (if tc_fd c < 0 then Some (Inl kInvalidArgument, w) else read_full os (tc_fd c) n [] w)"

text \<open>The wait for a non-blocking connect: poll for writability, then the socket's pending error.\<close>

definition finish_connect :: "'w posix \<Rightarrow> int \<Rightarrow> u32 \<Rightarrow> ('w, unit) comp" where
  "finish_connect os fd timeout_ms w =
     (case wait_for_fd os fd POLLOUT timeout_ms w of
        (Inl e, w) \<Rightarrow> (Inl e, sys_close os fd w)
      | (Inr _, w) \<Rightarrow>
          (case sys_so_error os fd w of
             (Inl _, w) \<Rightarrow> (Inl kTransport, sys_close os fd w)
           | (Inr err, w) \<Rightarrow> if err \<noteq> 0 then (Inl kTransport, sys_close os fd w) else (Inr (), w)))"

definition tcp_connect :: "endian \<Rightarrow> 'w posix \<Rightarrow> string \<Rightarrow> u16 \<Rightarrow> u32 \<Rightarrow> ('w, TcpConnection) comp" where
  "tcp_connect e os ipv4 port timeout_ms w =
     (if timeout_ms > INT32_MAX then (Inl kInvalidArgument, w)
      else case inet_pton os ipv4 of
        None \<Rightarrow> (Inl kInvalidArgument, w)
      | Some addr \<Rightarrow>
        let address = \<lparr>sin_port = htons e port, sin_addr = addr\<rparr> in
        (case sys_socket os w of
           (Inl _, w) \<Rightarrow> (Inl kTransport, w)
         | (Inr fd, w) \<Rightarrow>
        (case sys_getfl os fd w of
           (Inl _, w) \<Rightarrow> (Inl kTransport, sys_close os fd w)
         | (Inr flags, w) \<Rightarrow>
        (case sys_setfl os fd (flags OR O_NONBLOCK) w of
           (Inl _, w) \<Rightarrow> (Inl kTransport, sys_close os fd w)
         | (Inr _, w) \<Rightarrow>
        (case (case sys_connect os fd address w of
                 (Inr _, w) \<Rightarrow> (Inr (), w)
               | (Inl err, w) \<Rightarrow> if err \<noteq> EINPROGRESS then (Inl kTransport, sys_close os fd w)
                              else finish_connect os fd timeout_ms w) of
           (Inl err, w) \<Rightarrow> (Inl err, w)
         | (Inr _, w) \<Rightarrow>
        (case sys_setfl os fd flags w of
           (Inl _, w) \<Rightarrow> (Inl kTransport, sys_close os fd w)
         | (Inr _, w) \<Rightarrow> (Inr \<lparr>tc_fd = fd\<rparr>, w)))))))"

section \<open>Listeners\<close>

record TcpListener =
  tl_fd :: int

definition listener_is_open :: "TcpListener \<Rightarrow> bool" where
  "listener_is_open l \<longleftrightarrow> tl_fd l \<ge> 0"

definition listener_destroy :: "'w posix \<Rightarrow> TcpListener \<Rightarrow> 'w \<Rightarrow> 'w" where
  "listener_destroy os l w = (if tl_fd l \<ge> 0 then sys_close os (tl_fd l) w else w)"

definition listener_move :: "TcpListener \<Rightarrow> TcpListener \<times> TcpListener" where
  "listener_move other = (\<lparr>tl_fd = tl_fd other\<rparr>, other\<lparr>tl_fd := -1\<rparr>)"

definition listener_move_assign :: "'w posix \<Rightarrow> TcpListener \<Rightarrow> TcpListener \<Rightarrow> 'w \<Rightarrow> (TcpListener \<times> TcpListener) \<times> 'w" where
  "listener_move_assign os self other w =
     (let w = (if tl_fd self \<ge> 0 then sys_close os (tl_fd self) w else w)
      in ((self\<lparr>tl_fd := tl_fd other\<rparr>, other\<lparr>tl_fd := -1\<rparr>), w))"

definition tcp_listen :: "endian \<Rightarrow> 'w posix \<Rightarrow> string \<Rightarrow> u16 \<Rightarrow> int \<Rightarrow> ('w, TcpListener) comp" where
  "tcp_listen e os ipv4 port backlog w =
     (if backlog \<le> 0 then (Inl kInvalidArgument, w)
      else case inet_pton os ipv4 of
        None \<Rightarrow> (Inl kInvalidArgument, w)
      | Some addr \<Rightarrow>
        let address = \<lparr>sin_port = htons e port, sin_addr = addr\<rparr> in
        (case sys_socket os w of
           (Inl _, w) \<Rightarrow> (Inl kTransport, w)
         | (Inr fd, w) \<Rightarrow>
        (case sys_reuseaddr os fd w of
           (Inl _, w) \<Rightarrow> (Inl kTransport, sys_close os fd w)
         | (Inr _, w) \<Rightarrow>
        (case sys_bind os fd address w of
           (Inl _, w) \<Rightarrow> (Inl kTransport, sys_close os fd w)
         | (Inr _, w) \<Rightarrow>
        (case sys_listen os fd backlog w of
           (Inl _, w) \<Rightarrow> (Inl kTransport, sys_close os fd w)
         | (Inr _, w) \<Rightarrow> (Inr \<lparr>tl_fd = fd\<rparr>, w))))))"

partial_function (option) tcp_accept :: "'w posix \<Rightarrow> TcpListener \<Rightarrow> ('w, TcpConnection) pcomp" where
  "tcp_accept os l w =
     (if tl_fd l < 0 then Some (Inl kInvalidArgument, w)
      else
        (case sys_accept os (tl_fd l) w of
           (Inl e, w) \<Rightarrow> if e = EINTR then tcp_accept os l w else Some (Inl kTransport, w)
         | (Inr peer_fd, w) \<Rightarrow> Some (Inr \<lparr>tc_fd = peer_fd\<rparr>, w)))"

section \<open>The byte channel\<close>

text \<open>
  What POSIX promises of \<open>read\<close> and \<open>write\<close> on a stream socket, over a view \<open>stream\<close> of the bytes
  still to be read and a bound \<open>intr\<close> on the interruptions still to come: a read takes a
  prefix no longer than asked, a write appends a nonempty prefix of its argument, a failed
  call moves no byte.
\<close>

definition reads_stream :: "'w posix \<Rightarrow> int \<Rightarrow> ('w \<Rightarrow> u8 list) \<Rightarrow> ('w \<Rightarrow> nat) \<Rightarrow> bool" where
  "reads_stream os fd stream intr \<longleftrightarrow> (\<forall>n w. 0 < n \<longrightarrow>
     (case sys_read os fd n w of
        (Inl e, w') \<Rightarrow> stream w' = stream w \<and> intr w' \<le> intr w \<and> (e = EINTR \<longrightarrow> intr w' < intr w)
      | (Inr bs, w') \<Rightarrow> length bs \<le> n \<and> stream w = bs @ stream w' \<and> intr w' \<le> intr w))"

text \<open>A connection that does not break: no error but \<open>EINTR\<close>, end of file only after the last byte.\<close>

definition reads_reliably :: "'w posix \<Rightarrow> int \<Rightarrow> ('w \<Rightarrow> u8 list) \<Rightarrow> bool" where
  "reads_reliably os fd stream \<longleftrightarrow> (\<forall>n w. 0 < n \<and> stream w \<noteq> [] \<longrightarrow>
     (case sys_read os fd n w of (Inl e, _) \<Rightarrow> e = EINTR | (Inr bs, _) \<Rightarrow> bs \<noteq> []))"

definition writes_stream :: "'w posix \<Rightarrow> int \<Rightarrow> ('w \<Rightarrow> u8 list) \<Rightarrow> ('w \<Rightarrow> nat) \<Rightarrow> bool" where
  "writes_stream os fd stream intr \<longleftrightarrow> (\<forall>bytes w. bytes \<noteq> [] \<longrightarrow>
     (case sys_write os fd bytes w of
        (Inl e, w') \<Rightarrow> stream w' = stream w \<and> intr w' \<le> intr w \<and> (e = EINTR \<longrightarrow> intr w' < intr w)
      | (Inr n, w') \<Rightarrow> 0 < n \<and> n \<le> length bytes \<and> stream w' = stream w @ take n bytes \<and> intr w' \<le> intr w))"

text \<open>
  What a call of \<open>read_full\<close> for \<open>n\<close> further bytes leaves behind: all of them in the result, or
  an error after fewer.
\<close>

definition read_outcome :: "('w \<Rightarrow> u8 list) \<Rightarrow> nat \<Rightarrow> u8 list \<Rightarrow> 'w \<Rightarrow> u8 list result \<Rightarrow> 'w \<Rightarrow> bool" where
  "read_outcome stream n acc w r w' \<longleftrightarrow>
     (case r of Inr bs \<Rightarrow> (\<exists>cs. bs = acc @ cs \<and> length cs = n \<and> stream w = cs @ stream w')
      | Inl e \<Rightarrow> e = kTransport \<and> (\<exists>cs. length cs < n \<and> stream w = cs @ stream w'))"

lemma read_outcome_step:
  assumes "stream w = bs @ stream w1" and "length bs \<le> n"
    and "read_outcome stream (n - length bs) (acc @ bs) w1 r w'"
  shows "read_outcome stream n acc w r w'"
  using assms by (cases r) (auto simp: read_outcome_def intro: exI [of _ "bs @ _"])

lemma read_full_0 [simp]: "read_full os fd 0 acc w = Some (Inr acc, w)"
  by (simp add: read_full.simps)

lemma write_full_Nil [simp]: "write_full os fd [] w = Some (Inr (), w)"
  by (simp add: write_full.simps)

lemma read_full_returns:
  assumes "reads_stream os fd stream intr"
  shows "\<exists>r w'. read_full os fd n acc w = Some (r, w') \<and> read_outcome stream n acc w r w'"
proof (induction "intr w + n" arbitrary: n acc w rule: less_induct)
  case less
  obtain r w1 where r: "sys_read os fd n w = (r, w1)" by fastforce
  note law = assms [unfolded reads_stream_def, rule_format, of n w, unfolded r]
  note unfold = read_full.simps [of os fd n acc w]
  consider "n = 0" | e where "n \<noteq> 0" "r = Inl e" "e \<noteq> EINTR" | "n \<noteq> 0" "r = Inl EINTR"
    | "n \<noteq> 0" "r = Inr []" | bs where "n \<noteq> 0" "r = Inr bs" "bs \<noteq> []"
    by (cases r) auto
  then show ?case
  proof cases
    case 3
    with law have "stream w1 = stream w" "intr w1 < intr w" by auto
    with less [of w1 n acc] obtain r' w' where "read_full os fd n acc w1 = Some (r', w')"
      "read_outcome stream n acc w1 r' w'" by auto
    with 3 r \<open>stream w1 = stream w\<close> show ?thesis
      using read_outcome_step [of stream w "[]" w1 n acc r' w'] by (simp add: unfold)
  next
    case (5 bs)
    with law have l: "length bs \<le> n" "stream w = bs @ stream w1" "intr w1 \<le> intr w" by auto
    with 5 have "intr w1 + (n - length bs) < intr w + n" by (cases bs) auto
    from less [OF this, of "acc @ bs"] 5 r l show ?thesis
      using read_outcome_step [of stream w bs w1 n acc] by (auto simp: unfold)
  qed (use r law in \<open>auto simp: unfold read_outcome_def intro: exI [of _ "[]"]\<close>)
qed

lemma read_full_succeeds:
  assumes "reads_stream os fd stream intr" and "reads_reliably os fd stream" and "n \<le> length (stream w)"
  shows "\<exists>w'. read_full os fd n acc w = Some (Inr (acc @ take n (stream w)), w') \<and> stream w' = drop n (stream w)"
  using assms(3)
proof (induction "intr w + n" arbitrary: n acc w rule: less_induct)
  case less
  obtain r w1 where r: "sys_read os fd n w = (r, w1)" by fastforce
  note law = assms(1) [unfolded reads_stream_def, rule_format, of n w, unfolded r]
  note unfold = read_full.simps [of os fd n acc w]
  from less.prems assms(2) [unfolded reads_reliably_def, rule_format, of n w, unfolded r]
  consider "n = 0" | "n \<noteq> 0" "r = Inl EINTR" | bs where "n \<noteq> 0" "r = Inr bs" "bs \<noteq> []"
    by (cases r) fastforce+
  then show ?case
  proof cases
    case 2
    with law less.hyps [of w1 n acc] less.prems r show ?thesis by (simp add: unfold)
  next
    case (3 bs)
    with law have l: "length bs \<le> n" "stream w = bs @ stream w1" "intr w1 \<le> intr w" by auto
    with 3 have "intr w1 + (n - length bs) < intr w + n" by (cases bs) auto
    with less.hyps [of w1 "n - length bs" "acc @ bs"] less.prems 3 r l show ?thesis by (simp add: unfold)
  qed simp
qed

lemma write_full_returns:
  assumes "writes_stream os fd stream intr"
  shows "\<exists>r w' m. write_full os fd bytes w = Some (r, w') \<and> stream w' = stream w @ take m bytes
    \<and> (case r of Inr _ \<Rightarrow> m = length bytes | Inl e \<Rightarrow> e = kTransport \<and> m < length bytes)"
proof (induction "intr w + length bytes" arbitrary: bytes w rule: less_induct)
  case less
  obtain r w1 where r: "sys_write os fd bytes w = (r, w1)" by fastforce
  note law = assms [unfolded writes_stream_def, rule_format, of bytes w, unfolded r]
  note unfold = write_full.simps [of os fd bytes w]
  consider "bytes = []" | e where "bytes \<noteq> []" "r = Inl e" "e \<noteq> EINTR" | "bytes \<noteq> []" "r = Inl EINTR"
    | n where "bytes \<noteq> []" "r = Inr n"
    by (cases r) auto
  then show ?case
  proof cases
    case 3
    with law less [of w1 bytes] r show ?thesis by (simp add: unfold)
  next
    case (4 n)
    with law have l: "0 < n" "n \<le> length bytes" "stream w1 = stream w @ take n bytes" "intr w1 \<le> intr w" by auto
    with 4 have "intr w1 + length (drop n bytes) < intr w + length bytes" by auto
    from less [OF this] obtain r' w' m where
      rec: "write_full os fd (drop n bytes) w1 = Some (r', w')" "stream w' = stream w1 @ take m (drop n bytes)"
        "case r' of Inr _ \<Rightarrow> m = length (drop n bytes) | Inl e \<Rightarrow> e = kTransport \<and> m < length (drop n bytes)"
      by blast
    with 4 r l show ?thesis
      by (intro exI [of _ r'] exI [of _ w'] exI [of _ "n + m"])
        (auto simp: unfold take_add split: sum.splits)
  qed (use r law in \<open>auto simp: unfold intro: exI [of _ 0]\<close>)
qed

subsection \<open>Addresses\<close>

text \<open>The decimal notation of a number, without leading zeros.\<close>

fun decimal :: "nat \<Rightarrow> string" where
  "decimal n = (if n < 10 then [char_of (48 + n)] else decimal (n div 10) @ [char_of (48 + n mod 10)])"

declare decimal.simps [simp del]

lemma digit_char:
  assumes "n < 10"
  shows "is_digit (char_of (48 + n))" "digit_value (char_of (48 + n)) = n"
  using assms by (simp_all add: is_digit_def digit_value_def)

abbreviation "digits_value ds \<equiv> foldl (\<lambda>a c. 10 * a + digit_value c) 0 ds"

lemma decimal_digits: "\<forall>c \<in> set (decimal n). is_digit c"
  by (induction n rule: decimal.induct) (subst decimal.simps, auto simp: digit_char)

lemma decimal_value: "digits_value (decimal n) = n"
  by (induction n rule: decimal.induct) (subst decimal.simps, auto simp: digit_char)

lemma decimal_not_Nil [simp]: "decimal n \<noteq> []"
  by (subst decimal.simps) simp

lemma rfind_none: "c \<notin> set xs \<Longrightarrow> rfind c xs = None"
  by (induction xs) auto

lemma rfind_last: "c \<notin> set ys \<Longrightarrow> rfind c (xs @ c # ys) = Some (length xs)"
  by (induction xs) (simp_all add: rfind_none)

lemma rfindD: "rfind c xs = Some k \<Longrightarrow> k < length xs \<and> xs ! k = c \<and> c \<notin> set (drop (Suc k) xs)"
proof (induction xs arbitrary: k)
  case (Cons x xs)
  have none: "rfind c ys = None \<Longrightarrow> c \<notin> set ys" for ys
    by (induction ys) (auto split: option.splits if_splits)
  from Cons show ?case by (auto split: option.splits if_splits dest!: none)
qed simp

lemma colon_not_digit: "is_digit c \<Longrightarrow> c \<noteq> CHR '':''"
  by (auto simp: is_digit_def)

lemma from_chars_decimal:
  assumes "n \<le> 65535"
  shows "from_chars_u16 (decimal n) = ([], ErrcOk, of_nat n)"
  using assms decimal_digits [of n] decimal_value [of n]
  by (simp add: from_chars_u16_def takeWhile_eq_all_conv [THEN iffD2] dropWhile_eq_Nil_conv [THEN iffD2])

lemma from_chars_okD:
  assumes "from_chars_u16 t = ([], ErrcOk, p)"
  shows "t \<noteq> []" "\<forall>c \<in> set t. is_digit c" "digits_value t = unat p"
proof -
  from assms have rest: "dropWhile is_digit t = []" and v: "digits_value (takeWhile is_digit t) \<le> 65535"
    "p = of_nat (digits_value (takeWhile is_digit t))"
    and ne: "takeWhile is_digit t \<noteq> []"
    by (auto simp: from_chars_u16_def Let_def split: if_splits)
  from rest have all: "takeWhile is_digit t = t"
    by (metis append_Nil2 takeWhile_dropWhile_id)
  show "t \<noteq> []" using ne by auto
  show "\<forall>c \<in> set t. is_digit c" using rest by (simp add: dropWhile_eq_Nil_conv)
  show "digits_value t = unat p"
    using v all by (simp add: unat_of_nat)
qed

section \<open>Descriptors\<close>

text \<open>
  What the calls do to the set of open descriptors: \<open>socket\<close> and \<open>accept\<close> add a fresh one,
  \<open>close\<close> removes one, no other call changes the set.
\<close>

definition fd_neutral :: "('w \<Rightarrow> int set) \<Rightarrow> ('w \<Rightarrow> 'a \<times> 'w) \<Rightarrow> bool" where
  "fd_neutral fds call \<longleftrightarrow> (\<forall>w. fds (snd (call w)) = fds w)"

definition fd_opens :: "('w \<Rightarrow> int set) \<Rightarrow> ('w \<Rightarrow> (errno + int) \<times> 'w) \<Rightarrow> bool" where
  "fd_opens fds call \<longleftrightarrow> (\<forall>w. case call w of
      (Inl _, w') \<Rightarrow> fds w' = fds w | (Inr fd, w') \<Rightarrow> fd \<ge> 0 \<and> fd \<notin> fds w \<and> fds w' = insert fd (fds w))"

definition fd_laws :: "'w posix \<Rightarrow> ('w \<Rightarrow> int set) \<Rightarrow> bool" where
  "fd_laws os fds \<longleftrightarrow>
     fd_opens fds (sys_socket os) \<and> (\<forall>fd. fd_opens fds (sys_accept os fd)) \<and>
     (\<forall>fd w. fds (sys_close os fd w) = fds w - {fd}) \<and>
     (\<forall>fd ev t. fd_neutral fds (sys_poll os fd ev t)) \<and> (\<forall>fd. fd_neutral fds (sys_getfl os fd)) \<and>
     (\<forall>fd fl. fd_neutral fds (sys_setfl os fd fl)) \<and> (\<forall>fd a. fd_neutral fds (sys_connect os fd a)) \<and>
     (\<forall>fd. fd_neutral fds (sys_so_error os fd)) \<and> (\<forall>fd. fd_neutral fds (sys_reuseaddr os fd)) \<and>
     (\<forall>fd a. fd_neutral fds (sys_bind os fd a)) \<and> (\<forall>fd n. fd_neutral fds (sys_listen os fd n))"

lemma fd_lawsD:
  assumes "fd_laws os fds"
  shows "sys_socket os w = (Inr fd, w') \<Longrightarrow> fd \<ge> 0 \<and> fd \<notin> fds w \<and> fds w' = insert fd (fds w)"
    and "sys_socket os w = (Inl e, w') \<Longrightarrow> fds w' = fds w"
    and "fds (sys_close os fd w) = fds w - {fd}"
    and "sys_poll os fd ev t w = (a1, w') \<Longrightarrow> fds w' = fds w"
    and "sys_getfl os fd w = (a2, w') \<Longrightarrow> fds w' = fds w"
    and "sys_setfl os fd fl w = (a3, w') \<Longrightarrow> fds w' = fds w"
    and "sys_connect os fd adr w = (a4, w') \<Longrightarrow> fds w' = fds w"
    and "sys_so_error os fd w = (a5, w') \<Longrightarrow> fds w' = fds w"
    and "sys_reuseaddr os fd w = (a6, w') \<Longrightarrow> fds w' = fds w"
    and "sys_bind os fd adr w = (a7, w') \<Longrightarrow> fds w' = fds w"
    and "sys_listen os fd n w = (a8, w') \<Longrightarrow> fds w' = fds w"
    and "sys_accept os fd w = (Inr peer, w') \<Longrightarrow> peer \<ge> 0 \<and> peer \<notin> fds w \<and> fds w' = insert peer (fds w)"
    and "sys_accept os fd w = (Inl e, w') \<Longrightarrow> fds w' = fds w"
  using assms unfolding fd_laws_def fd_neutral_def fd_opens_def
  by (metis (mono_tags, lifting) snd_conv case_prod_conv sum.case)+

lemma finish_connect_fds:
  assumes "fd_laws os fds" and "finish_connect os fd t w = (r, w')"
  shows "fds w' = (if ok r then fds w else fds w - {fd})"
  using assms(2)
  by (auto simp: finish_connect_def wait_for_fd_def split: prod.splits sum.splits if_splits
      dest!: fd_lawsD(4,8) [OF assms(1)] simp: fd_lawsD(3) [OF assms(1)])

section \<open>Properties\<close>

text \<open>A connected pair of sockets: bytes in flight and a script of chunk limits, 0 an interruption.\<close>

type_synonym pipe = "u8 list \<times> nat list"

fun pipe_read :: "int \<Rightarrow> nat \<Rightarrow> pipe \<Rightarrow> (errno + u8 list) \<times> pipe" where
  "pipe_read fd n (buf, []) = (Inr (take n buf), (drop n buf, []))"
| "pipe_read fd n (buf, k # ks) =
     (if k = 0 then (Inl EINTR, (buf, ks)) else (Inr (take (min k n) buf), (drop (min k n) buf, ks)))"

fun pipe_write :: "int \<Rightarrow> u8 list \<Rightarrow> pipe \<Rightarrow> (errno + nat) \<times> pipe" where
  "pipe_write fd bytes (buf, []) = (Inr (length bytes), (buf @ bytes, []))"
| "pipe_write fd bytes (buf, k # ks) =
     (if k = 0 then (Inl EINTR, (buf, ks))
      else (Inr (min k (length bytes)), (buf @ take (min k (length bytes)) bytes, ks)))"

definition pipe_os :: "pipe posix" where
  "pipe_os = \<lparr>inet_pton = (\<lambda>s. if s = ''10.0.0.2'' then Some 0x0a000002 else None),
     sys_read = pipe_read, sys_write = pipe_write,
     sys_poll = (\<lambda>_ _ _ w. (Inr (1, 4), w)), sys_socket = (\<lambda>w. (Inr 3, w)), sys_getfl = (\<lambda>_ w. (Inr 2, w)),
     sys_setfl = (\<lambda>_ _ w. (Inr (), w)), sys_connect = (\<lambda>_ _ w. (Inr (), w)), sys_so_error = (\<lambda>_ w. (Inr 0, w)),
     sys_reuseaddr = (\<lambda>_ w. (Inr (), w)), sys_bind = (\<lambda>_ _ w. (Inr (), w)), sys_listen = (\<lambda>_ _ w. (Inr (), w)),
     sys_accept = (\<lambda>_ w. (Inr 4, w)), sys_close = (\<lambda>_ w. w)\<rparr>"

lemma pipe_os_laws:
  "reads_stream pipe_os fd fst (\<lambda>w. length (snd w))" "reads_reliably pipe_os fd fst"
  "writes_stream pipe_os fd fst (\<lambda>w. length (snd w))"
proof -
  show "reads_stream pipe_os fd fst (\<lambda>w. length (snd w))"
    unfolding reads_stream_def pipe_os_def
    by (intro allI impI, rename_tac n w, case_tac "(fd, n, w)" rule: pipe_read.cases) auto
  show "reads_reliably pipe_os fd fst"
    unfolding reads_reliably_def pipe_os_def
    by (intro allI impI, rename_tac n w, case_tac "(fd, n, w)" rule: pipe_read.cases) auto
  show "writes_stream pipe_os fd fst (\<lambda>w. length (snd w))"
    unfolding writes_stream_def pipe_os_def
    by (intro allI impI, rename_tac bs w, case_tac "(fd, bs, w)" rule: pipe_write.cases) auto
qed

lemma send_receive_whole:
  assumes "reads_stream os (tc_fd c2) stream intr" and "reads_reliably os (tc_fd c2) stream"
    and "writes_stream os (tc_fd c1) stream intr" and "tcp_is_open c1" and "tcp_is_open c2" and "stream w = []"
  shows "\<exists>r w1. tcp_send os c1 bytes w = Some (r, w1) \<and>
    (r = Inr () \<longrightarrow> (\<exists>w2. tcp_receive os c2 (length bytes) w1 = Some (Inr bytes, w2) \<and> stream w2 = []))"
proof -
  from write_full_returns [OF assms(3), of bytes w] obtain r w1 m where
    s: "write_full os (tc_fd c1) bytes w = Some (r, w1)" "stream w1 = stream w @ take m bytes"
    and m: "case r of Inr _ \<Rightarrow> m = length bytes | Inl e \<Rightarrow> e = kTransport \<and> m < length bytes"
    by blast
  from m have "r = Inr () \<Longrightarrow> m = length bytes" by auto
  with s assms(6) read_full_succeeds [OF assms(1,2), of "length bytes" w1 "[]"] assms(4,5) show ?thesis
    by (auto simp: tcp_send_def tcp_receive_def tcp_is_open_def)
qed

text \<open>
  C32: the TCP channel carries records whole. However the operating system splits reads and
  writes and however often it interrupts them (finitely often), \<open>send\<close> followed by \<open>receive\<close> of
  the same length on a connection that does not break returns exactly the bytes sent, in order.
\<close>

theorem tcp_send_receive:
  assumes "reads_stream os (tc_fd c2) stream intr" and "reads_reliably os (tc_fd c2) stream"
    and "writes_stream os (tc_fd c1) stream intr" and "tcp_is_open c1" and "tcp_is_open c2" and "stream w = []"
  shows "\<exists>r w1. tcp_send os c1 bytes w = Some (r, w1) \<and>
    (r = Inr () \<longrightarrow> (\<exists>w2. tcp_receive os c2 (length bytes) w1 = Some (Inr bytes, w2) \<and> stream w2 = []))"
  by (rule send_receive_whole [OF assms])

theorem tcp_send_receive_witness:
  "\<exists>r w1. tcp_send pipe_os \<lparr>tc_fd = 3\<rparr> [1, 2, 3, 4, 5] ([], [2, 0, 1, 9, 0, 1, 1, 2]) = Some (r, w1) \<and>
    (r = Inr () \<longrightarrow> (\<exists>w2. tcp_receive pipe_os \<lparr>tc_fd = 4\<rparr> (length [1 :: u8, 2, 3, 4, 5]) w1 = Some (Inr [1, 2, 3, 4, 5], w2)
      \<and> fst w2 = []))"
  by (rule tcp_send_receive [OF pipe_os_laws(1,2,3)]) (simp_all add: tcp_is_open_def)

text \<open>
  \<open>receive\<close> always returns when interruptions are finite; it returns exactly the requested
  number of bytes, the next ones of the stream, or a transport error after fewer, and never
  consumes more than it was asked for.
\<close>

theorem tcp_receive_total:
  assumes "reads_stream os (tc_fd c) stream intr"
  shows "\<exists>r w'. tcp_receive os c n w = Some (r, w') \<and>
    (case r of
       Inr bytes \<Rightarrow> length bytes = n \<and> stream w = bytes @ stream w'
     | Inl e \<Rightarrow> (e = kInvalidArgument \<and> w' = w) \<or>
                (e = kTransport \<and> (\<exists>lost. length lost < n \<and> stream w = lost @ stream w')))"
  using read_full_returns [OF assms, of n "[]" w]
  by (auto simp: tcp_receive_def read_outcome_def split: sum.splits)

theorem tcp_receive_total_witness:
  "\<exists>r w'. tcp_receive pipe_os \<lparr>tc_fd = 3\<rparr> 4 ([7, 8], [0, 1]) = Some (r, w') \<and>
    (case r of
       Inr bytes \<Rightarrow> length bytes = 4 \<and> fst ([7, 8 :: u8], [0, 1 :: nat]) = bytes @ fst w'
     | Inl e \<Rightarrow> (e = kInvalidArgument \<and> w' = ([7, 8], [0, 1])) \<or>
                (e = kTransport \<and> (\<exists>lost. length lost < 4 \<and> fst ([7, 8 :: u8], [0, 1 :: nat]) = lost @ fst w')))"
  by (rule tcp_receive_total [OF pipe_os_laws(1)])

text \<open>
  The address parser accepts exactly an IPv4 text and a decimal port between 1 and 65535
  joined by the last colon, and returns both parts.
\<close>

theorem parse_tcp_address_iff:
  "parse_tcp_address pton s = Inr a \<longleftrightarrow>
     (\<exists>t. s = ta_ipv4 a @ '':'' @ t \<and> ta_ipv4 a \<noteq> [] \<and> pton (ta_ipv4 a) \<noteq> None
        \<and> t \<noteq> [] \<and> list_all is_digit t \<and> digits_value t = unat (ta_port a) \<and> ta_port a \<noteq> 0)"
proof
  assume "parse_tcp_address pton s = Inr a"
  then obtain k where k: "rfind CHR '':'' s = Some k" "k \<noteq> 0" "k + 1 \<noteq> length s"
    and fc: "from_chars_u16 (drop (k + 1) s) = ([], ErrcOk, ta_port a)" and a: "ta_ipv4 a = take k s"
    "pton (take k s) \<noteq> None" "ta_port a \<noteq> 0"
    by (auto simp: parse_tcp_address_def Let_def split: option.splits if_splits prod.splits)
  from rfindD [OF k(1)] have "s = take k s @ CHR '':'' # drop (k + 1) s"
    using id_take_nth_drop by fastforce
  with k a from_chars_okD [OF fc] show "\<exists>t. s = ta_ipv4 a @ '':'' @ t \<and> ta_ipv4 a \<noteq> [] \<and> pton (ta_ipv4 a) \<noteq> None
        \<and> t \<noteq> [] \<and> list_all is_digit t \<and> digits_value t = unat (ta_port a) \<and> ta_port a \<noteq> 0"
    using rfindD [OF k(1)] by (intro exI [of _ "drop (k + 1) s"]) (auto simp: a list_all_iff)
next
  assume "\<exists>t. s = ta_ipv4 a @ '':'' @ t \<and> ta_ipv4 a \<noteq> [] \<and> pton (ta_ipv4 a) \<noteq> None
        \<and> t \<noteq> [] \<and> list_all is_digit t \<and> digits_value t = unat (ta_port a) \<and> ta_port a \<noteq> 0"
  then obtain t where t: "s = ta_ipv4 a @ '':'' @ t" "ta_ipv4 a \<noteq> []" "pton (ta_ipv4 a) \<noteq> None"
    "t \<noteq> []" "list_all is_digit t" "digits_value t = unat (ta_port a)" "ta_port a \<noteq> 0" by blast
  then have "CHR '':'' \<notin> set t" using colon_not_digit by (auto simp: list_all_iff)
  then have "rfind CHR '':'' s = Some (length (ta_ipv4 a))" using t(1) rfind_last by auto
  moreover have "from_chars_u16 t = ([], ErrcOk, ta_port a)"
    using t(4-6) unat_less_16 [of "ta_port a"]
    by (simp add: list_all_iff from_chars_u16_def takeWhile_eq_all_conv [THEN iffD2] dropWhile_eq_Nil_conv [THEN iffD2])
  ultimately show "parse_tcp_address pton s = Inr a"
    using t by (auto simp: parse_tcp_address_def)
qed

lemma tcp_connect_fds:
  assumes l: "fd_laws os fds" and "tcp_connect e os ipv4 port t w = (r, w')"
  shows "case r of Inl _ \<Rightarrow> fds w' = fds w
     | Inr c \<Rightarrow> tcp_is_open c \<and> tc_fd c \<notin> fds w \<and> fds w' = insert (tc_fd c) (fds w)"
proof -
  note [dest!] = fd_lawsD(1,2,5,6,7) [OF l] finish_connect_fds [OF l]
  show ?thesis
    using assms(2)
    by (auto simp: tcp_connect_def fd_lawsD(3) [OF l] tcp_is_open_def Let_def
        split: prod.splits sum.splits if_splits option.splits)
qed

lemma tcp_listen_fds:
  assumes l: "fd_laws os fds" and "tcp_listen e os ipv4 port n w = (r, w')"
  shows "case r of Inl _ \<Rightarrow> fds w' = fds w
     | Inr c \<Rightarrow> listener_is_open c \<and> tl_fd c \<notin> fds w \<and> fds w' = insert (tl_fd c) (fds w)"
proof -
  note [dest!] = fd_lawsD(1,2,9,10,11) [OF l]
  show ?thesis
    using assms(2)
    by (auto simp: tcp_listen_def fd_lawsD(3) [OF l] listener_is_open_def Let_def
        split: prod.splits sum.splits if_splits option.splits)
qed

text \<open>The next \<open>k\<close> calls of \<open>accept\<close> are all interrupted.\<close>

fun accept_interrupted :: "'w posix \<Rightarrow> int \<Rightarrow> nat \<Rightarrow> 'w \<Rightarrow> bool" where
  "accept_interrupted os fd 0 w = True"
| "accept_interrupted os fd (Suc k) w =
     (case sys_accept os fd w of (Inl e, w1) \<Rightarrow> e = EINTR \<and> accept_interrupted os fd k w1 | (Inr _, _) \<Rightarrow> False)"

lemma tcp_accept_returns: "\<not> accept_interrupted os (tl_fd l) k w \<Longrightarrow> tcp_accept os l w \<noteq> None"
proof (induction k arbitrary: w)
  case (Suc k)
  obtain r w1 where a: "sys_accept os (tl_fd l) w = (r, w1)" by fastforce
  show ?case
  proof (cases r)
    case (Inl e)
    with Suc a show ?thesis by (subst tcp_accept.simps) simp
  next
    case (Inr fd)
    with a show ?thesis by (subst tcp_accept.simps) simp
  qed
qed simp

lemma tcp_accept_fds:
  assumes "fd_laws os fds" and "tcp_accept os l w = Some (r, w')"
  shows "case r of Inl _ \<Rightarrow> fds w' = fds w | Inr c \<Rightarrow> tcp_is_open c \<and> tc_fd c \<notin> fds w \<and> fds w' = insert (tc_fd c) (fds w)"
proof -
  have "fd_laws os fds \<longrightarrow> (case x of (r, w') \<Rightarrow>
      (case r of Inl _ \<Rightarrow> fds w' = fds w | Inr c \<Rightarrow> tcp_is_open c \<and> tc_fd c \<notin> fds w \<and> fds w' = insert (tc_fd c) (fds w)))"
    if "tcp_accept os l w = Some x" for x
    using that
  proof (induction rule: tcp_accept.raw_induct [rotated, consumes 1, case_names step])
    case (step accept os l w x)
    obtain r w1 where a: "sys_accept os (tl_fd l) w = (r, w1)" by fastforce
    note laws = fd_lawsD(12,13) [of os fds "tl_fd l" w]
    show ?case
    proof (cases "\<exists>e. r = Inl e \<and> e = EINTR \<and> \<not> tl_fd l < 0")
      case True
      with step.hyps a have "accept os l w1 = Some x" by auto
      from step.IH [OF this] laws(2) [of EINTR w1] a True show ?thesis by (auto split: sum.splits)
    next
      case False
      with step.hyps a laws show ?thesis by (cases r) (auto simp: tcp_is_open_def split: if_splits)
    qed
  qed
  with assms show ?thesis by fastforce
qed

text \<open>
  C34: no descriptor leaks. A failed \<open>connect\<close>, \<open>listen\<close> or \<open>accept\<close>
  leaves exactly the descriptors that were open before, on every one of its error paths; a successful one adds
  the single descriptor that the returned object owns. \<open>accept\<close> returns unless the system
  interrupts every call.
\<close>

theorem tcp_setup_no_leak:
  assumes "fd_laws os fds"
  shows "(case tcp_connect e os ipv4 port t w of
      (Inl _, w') \<Rightarrow> fds w' = fds w
    | (Inr c, w') \<Rightarrow> tcp_is_open c \<and> tc_fd c \<notin> fds w \<and> fds w' = insert (tc_fd c) (fds w)) \<and>
    (case tcp_listen e os ipv4 port n w of
      (Inl _, w') \<Rightarrow> fds w' = fds w
    | (Inr l, w') \<Rightarrow> listener_is_open l \<and> tl_fd l \<notin> fds w \<and> fds w' = insert (tl_fd l) (fds w)) \<and>
    (case tcp_accept os l w of
      None \<Rightarrow> (\<forall>k. accept_interrupted os (tl_fd l) k w)
    | Some (Inl _, w') \<Rightarrow> fds w' = fds w
    | Some (Inr c, w') \<Rightarrow> tcp_is_open c \<and> tc_fd c \<notin> fds w \<and> fds w' = insert (tc_fd c) (fds w))"
  using tcp_connect_fds [OF assms, of e ipv4 port t w] tcp_listen_fds [OF assms, of e ipv4 port n w]
    tcp_accept_fds [OF assms, of l w] tcp_accept_returns [of os l _ w]
  by (intro conjI) (fastforce split: prod.splits sum.splits option.splits)+

text \<open>A world that is its list of open descriptors; connecting fails.\<close>

definition fresh_fd :: "int list \<Rightarrow> int" where
  "fresh_fd w = 1 + foldr max w 0"

definition table_os :: "int list posix" where
  "table_os = \<lparr>inet_pton = (\<lambda>s. Some 0x0a000002),
     sys_read = (\<lambda>_ _ w. (Inr [], w)), sys_write = (\<lambda>_ _ w. (Inl 32, w)),
     sys_poll = (\<lambda>_ _ _ w. (Inr (1, 8), w)), sys_socket = (\<lambda>w. (Inr (fresh_fd w), fresh_fd w # w)),
     sys_getfl = (\<lambda>_ w. (Inr 2, w)), sys_setfl = (\<lambda>_ _ w. (Inr (), w)),
     sys_connect = (\<lambda>_ _ w. (Inl EINPROGRESS, w)), sys_so_error = (\<lambda>_ w. (Inr 0, w)),
     sys_reuseaddr = (\<lambda>_ w. (Inr (), w)), sys_bind = (\<lambda>_ _ w. (Inr (), w)), sys_listen = (\<lambda>_ _ w. (Inr (), w)),
     sys_accept = (\<lambda>_ w. (Inr (fresh_fd w), fresh_fd w # w)), sys_close = (\<lambda>fd w. removeAll fd w)\<rparr>"

lemma table_os_laws: "fd_laws table_os set"
proof -
  have "0 \<le> foldr max w (0 :: int)" "x \<in> set w \<Longrightarrow> x \<le> foldr max w (0 :: int)" for x w
    by (induction w) auto
  then have "0 \<le> fresh_fd w" "fresh_fd w \<notin> set w" for w
    by (force simp: fresh_fd_def)+
  then show ?thesis
    by (auto simp: fd_laws_def fd_opens_def fd_neutral_def table_os_def)
qed

theorem tcp_setup_no_leak_witness:
  "(case tcp_connect Little table_os ''10.0.0.2'' 7000 1000 [3, 5] of
      (Inl _, w') \<Rightarrow> set w' = set [3, 5]
    | (Inr c, w') \<Rightarrow> tcp_is_open c \<and> tc_fd c \<notin> set [3, 5] \<and> set w' = insert (tc_fd c) (set [3, 5])) \<and>
    (case tcp_listen Little table_os ''10.0.0.2'' 7000 16 [3, 5] of
      (Inl _, w') \<Rightarrow> set w' = set [3, 5]
    | (Inr l, w') \<Rightarrow> listener_is_open l \<and> tl_fd l \<notin> set [3, 5] \<and> set w' = insert (tl_fd l) (set [3, 5])) \<and>
    (\<exists>c w'. tcp_accept table_os \<lparr>tl_fd = 3\<rparr> [3, 5] = Some (Inr c, w') \<and>
      tcp_is_open c \<and> tc_fd c \<notin> set [3, 5] \<and> set w' = insert (tc_fd c) (set [3, 5]))"
proof -
  have "\<exists>c w'. tcp_accept table_os \<lparr>tl_fd = 3\<rparr> [3, 5] = Some (Inr c, w')"
    by (subst tcp_accept.simps) (simp add: table_os_def)
  with tcp_setup_no_leak [OF table_os_laws, of "[3, 5]" Little "''10.0.0.2''" 7000 1000 16 "\<lparr>tl_fd = 3\<rparr>"]
  show ?thesis by auto
qed

end
