(* ===== verification/Server_Transport.thy ===== *)
theory Server_Transport
  imports Server_Endpoint Tcp_Socket
begin

text \<open>
  The server's transport, \<^verbatim>\<open>src/src/server/transport.cc\<close> and \<^verbatim>\<open>transport.hh\<close>: the TCP listener, the
  negotiation of the number of queue pairs, the exchange of endpoint records, and the indexed
  operations on the queue pairs. The system calls and libibverbs act on the same outside world,
  so that the two parameter records share its type. A member function of a transport is a
  computation on the object and the world.
\<close>

section \<open>Exchange of transport records\<close>

definition send_transport_info :: "endian \<Rightarrow> 'w posix \<Rightarrow> TcpConnection option \<Rightarrow> TransportInfo \<Rightarrow> ('w, unit) pcomp" where
  "send_transport_info e os channel info =
     (case channel of
        None \<Rightarrow> pfail kInvalidArgument
      | Some ch \<Rightarrow>
          (case encode_transport_info e (Some info) (Some zero_wire_transport_info) of
             (result, encoded) \<Rightarrow>
               if result \<noteq> CodecOk then pfail kTransport
               else tcp_send os ch (transport_info_bytes e (the encoded))))"

definition receive_transport_info :: "endian \<Rightarrow> 'w posix \<Rightarrow> TcpConnection option \<Rightarrow> ('w, TransportInfo) pcomp" where
  "receive_transport_info e os channel =
     (case channel of
        None \<Rightarrow> pfail kInvalidArgument
      | Some ch \<Rightarrow>
          pbind (tcp_receive os ch 1292) (\<lambda>bytes.
            case decode_transport_info e (Some (transport_info_of_bytes e bytes)) (Some zero_transport_info) of
              (result, info) \<Rightarrow> if result \<noteq> CodecOk then pfail kTransport else pret (the info)))"

section \<open>Listeners and transports\<close>

datatype MemoryAccess = LocalRead | LocalWrite | RemoteRead | RemoteWrite

record TransportConfig =
  tcf_endpoint :: EndpointConfig
  tcf_max_qp_count :: u32
  tcf_completion_timeout_ms :: u32
  tcf_listen_address :: string

record TransportListener =
  tln_tcp_listener :: TcpListener
  tln_config :: TransportConfig

record Transport =
  tpt_endpoint :: Endpoint
  tpt_qps :: "QueuePair list"
  tpt_completion_timeout_ms :: u32
  tpt_exchange_channel :: TcpConnection
  tpt_local_qps :: "QpInfo list"

definition kTcpListenBacklog :: int where "kTcpListenBacklog = 8"

text \<open>Running an operation of the world, of the endpoint or of one queue pair on a transport.\<close>

definition on_world :: "('w, 'a) pcomp \<Rightarrow> ('s \<times> 'w, 'a) pcomp" where
  "on_world f = (\<lambda>(s, w). case f w of None \<Rightarrow> None | Some (r, w) \<Rightarrow> Some (r, (s, w)))"

definition on_endpoint :: "(Endpoint \<times> 'w, 'a) comp \<Rightarrow> (Transport \<times> 'w, 'a) comp" where
  "on_endpoint f = (\<lambda>(t, w). case f (tpt_endpoint t, w) of (r, (ep, w)) \<Rightarrow> (r, (t\<lparr>tpt_endpoint := ep\<rparr>, w)))"

definition queue_pair :: "Transport \<Rightarrow> nat \<Rightarrow> QueuePair option" where
  "queue_pair t qp_index = (if qp_index < length (tpt_qps t) then Some (tpt_qps t ! qp_index) else None)"

definition on_qp :: "nat \<Rightarrow> (QueuePair \<times> 'w, 'a) pcomp \<Rightarrow> (Transport \<times> 'w, 'a) pcomp" where
  "on_qp qp_index f = (\<lambda>(t, w).
     case queue_pair t qp_index of
       None \<Rightarrow> Some (Inl kInvalidArgument, (t, w))
     | Some qp \<Rightarrow>
         (case f (qp, w) of
            None \<Rightarrow> None
          | Some (r, (qp, w)) \<Rightarrow> Some (r, (t\<lparr>tpt_qps := (tpt_qps t)[qp_index := qp]\<rparr>, w))))"

definition transport_opened :: "Transport \<Rightarrow> bool" where
  "transport_opened t \<longleftrightarrow> tcp_is_open (tpt_exchange_channel t) \<or> endpoint_opened (tpt_endpoint t)"

definition transport_qp_count :: "Transport \<Rightarrow> nat" where
  "transport_qp_count t = length (tpt_qps t)"

definition timeout_invalid :: "u32 \<Rightarrow> bool" where
  "timeout_invalid timeout_ms \<longleftrightarrow> timeout_ms = 0 \<or> timeout_ms > INT32_MAX"

definition listener_open :: "endian \<Rightarrow> 'w posix \<Rightarrow> TransportConfig \<Rightarrow> (TransportListener \<times> 'w, unit) comp" where
  "listener_open e os config = (\<lambda>(l, w).
     if listener_is_open (tln_tcp_listener l) \<or> tcf_max_qp_count config = 0 \<or> tcf_max_qp_count config > kMaxQpInfoBatch
     then (Inl kInvalidArgument, (l, w))
     else if timeout_invalid (tcf_completion_timeout_ms config) then (Inl kInvalidArgument, (l, w))
     else case parse_tcp_address (inet_pton os) (tcf_listen_address config) of
       Inl err \<Rightarrow> (Inl err, (l, w))
     | Inr address \<Rightarrow>
         (case tcp_listen e os (ta_ipv4 address) (ta_port address) kTcpListenBacklog w of
            (Inl err, w) \<Rightarrow> (Inl err, (l, w))
          | (Inr listener, w) \<Rightarrow>
              (case listener_move_assign os (tln_tcp_listener l) listener w of
                 ((assigned, moved), w) \<Rightarrow>
                   (Inr (), (l\<lparr>tln_tcp_listener := assigned, tln_config := config\<rparr>, listener_destroy os moved w)))))"

fun create_qps :: "'w ibverbs \<Rightarrow> nat \<Rightarrow> (Transport \<times> 'w, unit) comp" where
  "create_qps lib 0 = rret ()"
| "create_qps lib (Suc n) =
     rbind (on_endpoint (create_qp lib)) (\<lambda>qp (t, w).
       create_qps lib n
         (t\<lparr>tpt_local_qps := tpt_local_qps t @ [qpr_local qp], tpt_qps := tpt_qps t @ [qp]\<rparr>, w))"

definition endpoints_info :: "u32 \<Rightarrow> QpInfo list \<Rightarrow> TransportInfo" where
  "endpoints_info qp_count local_qps =
     \<lparr>ti_kind = QpEndpoints, ti_qp_count = qp_count,
      ti_qps = local_qps @ drop (length local_qps) (replicate 16 zero_qp_info)\<rparr>"

definition connect_qps :: "'w ibverbs \<Rightarrow> TransportInfo \<Rightarrow> (Transport \<times> 'w, unit) pcomp" where
  "connect_qps lib peer_info = (\<lambda>(t, w).
     pfor [0..<length (tpt_qps t)]
       (\<lambda>index. on_qp index (plift (qp_connect lib (ep_config (tpt_endpoint t)) (ti_qps peer_info ! index)))) (t, w))"

definition exchange_endpoints :: "endian \<Rightarrow> 'w posix \<Rightarrow> 'w ibverbs \<Rightarrow> u32 \<Rightarrow> (Transport \<times> 'w, unit) pcomp" where
  "exchange_endpoints e os lib qp_count = (\<lambda>(t, w).
     pbind (on_world (receive_transport_info e os (Some (tpt_exchange_channel t)))) (\<lambda>peer_info.
       if ti_kind peer_info \<noteq> QpEndpoints \<or> ti_qp_count peer_info \<noteq> qp_count then pfail kTransport
       else
         pbind (on_world (send_transport_info e os (Some (tpt_exchange_channel t)) (endpoints_info qp_count (tpt_local_qps t))))
           (\<lambda>_. connect_qps lib peer_info)) (t, w))"

text \<open>
  \<open>Transport::open\<close> owns the channel until it is moved into the object: an earlier return
  closes it.
\<close>

definition transport_open :: "endian \<Rightarrow> 'w posix \<Rightarrow> 'w ibverbs \<Rightarrow> TcpConnection \<Rightarrow> TransportConfig \<Rightarrow> u32 \<Rightarrow>
    (Transport \<times> 'w, unit) pcomp" where
  "transport_open e os lib channel config qp_count = (\<lambda>(t, w).
     let fail = (\<lambda>err (t, w). Some (Inl err, (t, tcp_destroy os channel w))) in
     if \<not> tcp_is_open channel then fail kInvalidArgument (t, w)
     else if transport_opened t then fail kInvalidArgument (t, w)
     else if qp_count = 0 \<or> qp_count > tcf_max_qp_count config \<or> qp_count > kMaxQpInfoBatch then fail kInvalidArgument (t, w)
     else if timeout_invalid (tcf_completion_timeout_ms config) then fail kInvalidArgument (t, w)
     else case on_endpoint (endpoint_open lib (tcf_endpoint config)) (t, w) of
       (Inl err, (t, w)) \<Rightarrow> fail err (t, w)
     | (Inr _, (t, w)) \<Rightarrow>
         (case create_qps lib (unat qp_count)
                 (t\<lparr>tpt_completion_timeout_ms := tcf_completion_timeout_ms config\<rparr>, w) of
            (Inl err, (t, w)) \<Rightarrow> fail err (t, w)
          | (Inr _, (t, w)) \<Rightarrow>
              (case tcp_move_assign os (tpt_exchange_channel t) channel w of
                 ((assigned, moved), w) \<Rightarrow>
                   exchange_endpoints e os lib qp_count (t\<lparr>tpt_exchange_channel := assigned\<rparr>, w))))"

text \<open>
  \<open>TransportListener::accept\<close>, on the listener and the world and a transport that may be a null
  pointer. The accepted channel is a local object until it is passed on.
\<close>

definition listener_accept :: "endian \<Rightarrow> 'w posix \<Rightarrow> 'w ibverbs \<Rightarrow> TransportListener \<Rightarrow> (Transport option \<times> 'w, unit) pcomp" where
  "listener_accept e os lib l = (\<lambda>(transport, w).
     case transport of
       None \<Rightarrow> Some (Inl kInvalidArgument, (None, w))
     | Some t \<Rightarrow>
         if \<not> listener_is_open (tln_tcp_listener l) \<or> transport_opened t then Some (Inl kInvalidArgument, (Some t, w))
         else case tcp_accept os (tln_tcp_listener l) w of
           None \<Rightarrow> None
         | Some (Inl err, w) \<Rightarrow> Some (Inl err, (Some t, w))
         | Some (Inr channel, w) \<Rightarrow>
             (let fail = (\<lambda>err w. Some (Inl err, (Some t, tcp_destroy os channel w))) in
              case receive_transport_info e os (Some channel) w of
                None \<Rightarrow> None
              | Some (Inl err, w) \<Rightarrow> fail err w
              | Some (Inr count_request, w) \<Rightarrow>
                  if ti_kind count_request \<noteq> QpCountRequest then fail kTransport w
                  else
                    (let qp_count = min (ti_qp_count count_request) (tcf_max_qp_count (tln_config l));
                         count_response = \<lparr>ti_kind = QpCountResponse, ti_qp_count = qp_count,
                                           ti_qps = replicate 16 zero_qp_info\<rparr>
                     in case send_transport_info e os (Some channel) count_response w of
                          None \<Rightarrow> None
                        | Some (Inl err, w) \<Rightarrow> fail err w
                        | Some (Inr _, w) \<Rightarrow>
                            (case tcp_move channel of
                               (moved_to, moved) \<Rightarrow>
                                 (case transport_open e os lib moved_to (tln_config l) qp_count (t, w) of
                                    None \<Rightarrow> None
                                  | Some (r, (t, w)) \<Rightarrow> Some (r, (Some t, tcp_destroy os moved w)))))))"

section \<open>Operations on the queue pairs\<close>

text \<open>Each operation names a queue pair by its index; the overload without an index is queue pair 0.\<close>

definition transport_post_receive :: "'w ibverbs \<Rightarrow> nat \<Rightarrow> MemoryRegion \<Rightarrow> (Transport \<times> 'w, unit) pcomp" where
  "transport_post_receive lib qp_index region = on_qp qp_index (plift (qp_post_receive lib region))"

definition transport_post_receive0 :: "'w ibverbs \<Rightarrow> MemoryRegion \<Rightarrow> (Transport \<times> 'w, unit) pcomp" where
  "transport_post_receive0 lib region = transport_post_receive lib 0 region"

definition transport_wait_receive :: "'w ibverbs \<Rightarrow> nat \<Rightarrow> u32 \<Rightarrow> (Transport \<times> 'w, unit) pcomp" where
  "transport_wait_receive lib qp_index timeout_ms = on_qp qp_index (qp_wait_receive lib timeout_ms)"

definition transport_wait_receive0 :: "'w ibverbs \<Rightarrow> u32 \<Rightarrow> (Transport \<times> 'w, unit) pcomp" where
  "transport_wait_receive0 lib timeout_ms = transport_wait_receive lib 0 timeout_ms"

definition transport_post_send :: "'w ibverbs \<Rightarrow> nat \<Rightarrow> MemoryRegion \<Rightarrow> u32 \<Rightarrow> (Transport \<times> 'w, u64) pcomp" where
  "transport_post_send lib qp_index region len = on_qp qp_index (plift (qp_post_send lib region len))"

definition transport_post_send0 :: "'w ibverbs \<Rightarrow> MemoryRegion \<Rightarrow> u32 \<Rightarrow> (Transport \<times> 'w, u64) pcomp" where
  "transport_post_send0 lib region len = transport_post_send lib 0 region len"

definition transport_wait_send :: "'w ibverbs \<Rightarrow> nat \<Rightarrow> u64 \<Rightarrow> u32 \<Rightarrow> (Transport \<times> 'w, unit) pcomp" where
  "transport_wait_send lib qp_index wr_id timeout_ms = on_qp qp_index (qp_poll lib IBV_WC_SEND wr_id timeout_ms)"

definition transport_wait_send0 :: "'w ibverbs \<Rightarrow> u64 \<Rightarrow> u32 \<Rightarrow> (Transport \<times> 'w, unit) pcomp" where
  "transport_wait_send0 lib wr_id timeout_ms = transport_wait_send lib 0 wr_id timeout_ms"

definition transport_send :: "'w ibverbs \<Rightarrow> nat \<Rightarrow> MemoryRegion \<Rightarrow> u32 \<Rightarrow> (Transport \<times> 'w, unit) pcomp" where
  "transport_send lib qp_index region len =
     pbind (transport_post_send lib qp_index region len) (\<lambda>wr_id (t, w).
       transport_wait_send lib qp_index wr_id (tpt_completion_timeout_ms t) (t, w))"

definition transport_send0 :: "'w ibverbs \<Rightarrow> MemoryRegion \<Rightarrow> u32 \<Rightarrow> (Transport \<times> 'w, unit) pcomp" where
  "transport_send0 lib region len = transport_send lib 0 region len"

definition verbs_access :: "MemoryAccess \<Rightarrow> u32" where
  "verbs_access access =
     (case access of LocalWrite \<Rightarrow> IBV_ACCESS_LOCAL_WRITE | RemoteRead \<Rightarrow> IBV_ACCESS_REMOTE_READ
      | RemoteWrite \<Rightarrow> IBV_ACCESS_LOCAL_WRITE OR IBV_ACCESS_REMOTE_WRITE | LocalRead \<Rightarrow> 0)"

definition register_memory :: "'w ibverbs \<Rightarrow> u64 \<Rightarrow> u64 \<Rightarrow> MemoryAccess \<Rightarrow> (Transport \<times> 'w, MemoryRegion) comp" where
  "register_memory lib buffer len access = on_endpoint (reg_mr lib buffer len (verbs_access access))"

definition transport_post_read :: "'w ibverbs \<Rightarrow> nat \<Rightarrow> MemoryRegion \<Rightarrow> u64 \<Rightarrow> u32 \<Rightarrow> u32 \<Rightarrow> (Transport \<times> 'w, u64) pcomp" where
  "transport_post_read lib qp_index region address key len =
     on_qp qp_index (plift (post_transfer lib IBV_WR_RDMA_READ region 0 address key len))"

definition transport_post_read0 :: "'w ibverbs \<Rightarrow> MemoryRegion \<Rightarrow> u64 \<Rightarrow> u32 \<Rightarrow> u32 \<Rightarrow> (Transport \<times> 'w, u64) pcomp" where
  "transport_post_read0 lib region address key len = transport_post_read lib 0 region address key len"

definition transport_wait_read :: "'w ibverbs \<Rightarrow> nat \<Rightarrow> u64 \<Rightarrow> u32 \<Rightarrow> (Transport \<times> 'w, unit) pcomp" where
  "transport_wait_read lib qp_index wr_id timeout_ms = on_qp qp_index (qp_poll lib IBV_WC_RDMA_READ wr_id timeout_ms)"

definition transport_wait_read0 :: "'w ibverbs \<Rightarrow> u64 \<Rightarrow> u32 \<Rightarrow> (Transport \<times> 'w, unit) pcomp" where
  "transport_wait_read0 lib wr_id timeout_ms = transport_wait_read lib 0 wr_id timeout_ms"

definition transport_read :: "'w ibverbs \<Rightarrow> nat \<Rightarrow> MemoryRegion \<Rightarrow> u64 \<Rightarrow> u32 \<Rightarrow> u32 \<Rightarrow> (Transport \<times> 'w, unit) pcomp" where
  "transport_read lib qp_index region address key len =
     pbind (transport_post_read lib qp_index region address key len) (\<lambda>wr_id (t, w).
       transport_wait_read lib qp_index wr_id (tpt_completion_timeout_ms t) (t, w))"

definition transport_read0 :: "'w ibverbs \<Rightarrow> MemoryRegion \<Rightarrow> u64 \<Rightarrow> u32 \<Rightarrow> u32 \<Rightarrow> (Transport \<times> 'w, unit) pcomp" where
  "transport_read0 lib region address key len = transport_read lib 0 region address key len"

definition transport_post_write :: "'w ibverbs \<Rightarrow> nat \<Rightarrow> MemoryRegion \<Rightarrow> u64 \<Rightarrow> u32 \<Rightarrow> u32 \<Rightarrow> (Transport \<times> 'w, u64) pcomp" where
  "transport_post_write lib qp_index region address key len =
     on_qp qp_index (plift (post_transfer lib IBV_WR_RDMA_WRITE region 0 address key len))"

definition transport_post_write0 :: "'w ibverbs \<Rightarrow> MemoryRegion \<Rightarrow> u64 \<Rightarrow> u32 \<Rightarrow> u32 \<Rightarrow> (Transport \<times> 'w, u64) pcomp" where
  "transport_post_write0 lib region address key len = transport_post_write lib 0 region address key len"

definition transport_wait_write :: "'w ibverbs \<Rightarrow> nat \<Rightarrow> u64 \<Rightarrow> u32 \<Rightarrow> (Transport \<times> 'w, unit) pcomp" where
  "transport_wait_write lib qp_index wr_id timeout_ms = on_qp qp_index (qp_poll lib IBV_WC_RDMA_WRITE wr_id timeout_ms)"

definition transport_wait_write0 :: "'w ibverbs \<Rightarrow> u64 \<Rightarrow> u32 \<Rightarrow> (Transport \<times> 'w, unit) pcomp" where
  "transport_wait_write0 lib wr_id timeout_ms = transport_wait_write lib 0 wr_id timeout_ms"

definition transport_write :: "'w ibverbs \<Rightarrow> nat \<Rightarrow> MemoryRegion \<Rightarrow> u64 \<Rightarrow> u32 \<Rightarrow> u32 \<Rightarrow> (Transport \<times> 'w, unit) pcomp" where
  "transport_write lib qp_index region address key len =
     pbind (transport_post_write lib qp_index region address key len) (\<lambda>wr_id (t, w).
       transport_wait_write lib qp_index wr_id (tpt_completion_timeout_ms t) (t, w))"

definition transport_write0 :: "'w ibverbs \<Rightarrow> MemoryRegion \<Rightarrow> u64 \<Rightarrow> u32 \<Rightarrow> u32 \<Rightarrow> (Transport \<times> 'w, unit) pcomp" where
  "transport_write0 lib region address key len = transport_write lib 0 region address key len"

definition post_read_batch :: "'w ibverbs \<Rightarrow> nat \<Rightarrow> TransferRequest list \<Rightarrow> (Transport \<times> 'w, u64) pcomp" where
  "post_read_batch lib qp_index requests =
     (if requests = [] then pfail kInvalidArgument
      else on_qp qp_index (plift (rbind (post_transfer_batch lib IBV_WR_RDMA_READ requests) (\<lambda>wr_ids. rret (last wr_ids)))))"

definition wait_read_batch :: "'w ibverbs \<Rightarrow> nat \<Rightarrow> u64 \<Rightarrow> u32 \<Rightarrow> (Transport \<times> 'w, unit) pcomp" where
  "wait_read_batch lib qp_index wr_id timeout_ms = transport_wait_read lib qp_index wr_id timeout_ms"

definition post_write_batch :: "'w ibverbs \<Rightarrow> nat \<Rightarrow> TransferRequest list \<Rightarrow> (Transport \<times> 'w, u64) pcomp" where
  "post_write_batch lib qp_index requests =
     (if requests = [] then pfail kInvalidArgument
      else on_qp qp_index (plift (rbind (post_transfer_batch lib IBV_WR_RDMA_WRITE requests) (\<lambda>wr_ids. rret (last wr_ids)))))"

definition wait_write_batch :: "'w ibverbs \<Rightarrow> nat \<Rightarrow> u64 \<Rightarrow> u32 \<Rightarrow> (Transport \<times> 'w, unit) pcomp" where
  "wait_write_batch lib qp_index wr_id timeout_ms = transport_wait_write lib qp_index wr_id timeout_ms"

definition read_batch :: "'w ibverbs \<Rightarrow> nat \<Rightarrow> TransferRequest list \<Rightarrow> (Transport \<times> 'w, unit) pcomp" where
  "read_batch lib qp_index requests =
     pbind (post_read_batch lib qp_index requests) (\<lambda>wr_id (t, w).
       wait_read_batch lib qp_index wr_id (tpt_completion_timeout_ms t) (t, w))"

definition write_batch :: "'w ibverbs \<Rightarrow> nat \<Rightarrow> TransferRequest list \<Rightarrow> (Transport \<times> 'w, unit) pcomp" where
  "write_batch lib qp_index requests =
     pbind (post_write_batch lib qp_index requests) (\<lambda>wr_id (t, w).
       wait_write_batch lib qp_index wr_id (tpt_completion_timeout_ms t) (t, w))"

section \<open>Well-formed transports\<close>

text \<open>
  At most \<open>kMaxQpInfoBatch\<close> queue pairs, each well-formed and with its own record in the list
  that was sent to the peer.
\<close>

definition transport_wf :: "Transport \<Rightarrow> bool" where
  "transport_wf t \<longleftrightarrow> list_all qp_wf (tpt_qps t) \<and> length (tpt_local_qps t) = length (tpt_qps t)
     \<and> length (tpt_qps t) \<le> 16"

abbreviation transport_ok :: "Transport \<times> 'w \<Rightarrow> bool" where "transport_ok s \<equiv> transport_wf (fst s)"

lemma on_qp_keeps:
  assumes "pkeeps qp_ok f"
  shows "pkeeps transport_ok (on_qp i f)"
proof (rule pkeepsI)
  fix s r t assume s: "transport_ok s" and run: "on_qp i f s = Some (r, t)"
  obtain tp w where s_eq: "s = (tp, w)" by fastforce
  show "transport_ok t"
  proof (cases "i < length (tpt_qps tp)")
    case False
    with run s s_eq show ?thesis by (auto simp: on_qp_def queue_pair_def)
  next
    case True
    with run s_eq obtain qp w' where f: "f (tpt_qps tp ! i, w) = Some (r, (qp, w'))"
      and t: "t = (tp\<lparr>tpt_qps := (tpt_qps tp)[i := qp]\<rparr>, w')"
      by (auto simp: on_qp_def queue_pair_def split: option.splits prod.splits)
    from True s s_eq have "qp_wf (tpt_qps tp ! i)" by (simp add: transport_wf_def list_all_length)
    then have "qp_wf qp" using ptripleD [OF assms, of "(tpt_qps tp ! i, w)"] f by (cases r) auto
    with s s_eq show ?thesis
      using set_update_subset_insert [of "tpt_qps tp" i qp] by (auto simp: t transport_wf_def list_all_iff)
  qed
qed

lemma pkeeps_then_timeout:
  assumes "pkeeps transport_ok m" and "\<And>x n. pkeeps transport_ok (f x n)"
  shows "pkeeps transport_ok (pbind m (\<lambda>x (t, w). f x (tpt_completion_timeout_ms t) (t, w)))"
proof (rule pkeeps_bind [OF assms(1)], rule pkeepsI)
  fix x s r s'
  assume s: "transport_ok s" and run: "(case s of (t, w) \<Rightarrow> f x (tpt_completion_timeout_ms t) (t, w)) = Some (r, s')"
  from run have "f x (tpt_completion_timeout_ms (fst s)) s = Some (r, s')" by (simp add: case_prod_unfold)
  with ptripleD [OF assms(2) s] show "transport_ok s'" by (cases r) blast+
qed

lemmas transport_op_defs = transport_post_receive_def transport_wait_receive_def transport_post_send_def
  transport_wait_send_def transport_post_read_def transport_wait_read_def transport_post_write_def
  transport_wait_write_def post_read_batch_def post_write_batch_def wait_read_batch_def wait_write_batch_def

lemma transport_ops_keep:
  "pkeeps transport_ok (transport_post_receive lib i region)" "pkeeps transport_ok (transport_wait_receive lib i timeout_ms)"
  "pkeeps transport_ok (transport_post_send lib i region len)" "pkeeps transport_ok (transport_wait_send lib i wr_id timeout_ms)"
  "pkeeps transport_ok (transport_post_read lib i region a k len)" "pkeeps transport_ok (transport_wait_read lib i wr_id timeout_ms)"
  "pkeeps transport_ok (transport_post_write lib i region a k len)" "pkeeps transport_ok (transport_wait_write lib i wr_id timeout_ms)"
  "pkeeps transport_ok (post_read_batch lib i requests)" "pkeeps transport_ok (post_write_batch lib i requests)"
  "pkeeps transport_ok (wait_read_batch lib i wr_id timeout_ms)" "pkeeps transport_ok (wait_write_batch lib i wr_id timeout_ms)"
  unfolding transport_op_defs
  by (intro hoare on_qp_keeps post_receive_keeps post_send_keeps post_transfer_keeps post_transfer_batch_keeps
      qp_poll_keeps wait_receive_keeps | simp)+

lemma transport_blocking_ops_keep:
  "pkeeps transport_ok (transport_send lib i region len)" "pkeeps transport_ok (transport_read lib i region a k len)"
  "pkeeps transport_ok (transport_write lib i region a k len)" "pkeeps transport_ok (read_batch lib i requests)"
  "pkeeps transport_ok (write_batch lib i requests)"
  unfolding transport_send_def transport_read_def transport_write_def read_batch_def write_batch_def
  by (intro pkeeps_then_timeout transport_ops_keep)+

lemma register_memory_frame:
  "register_memory lib a n access (t, w) = (r, (t', w')) \<Longrightarrow>
     tpt_qps t' = tpt_qps t \<and> tpt_local_qps t' = tpt_local_qps t \<and> tpt_exchange_channel t' = tpt_exchange_channel t
       \<and> tpt_endpoint t' = tpt_endpoint t \<and> tpt_completion_timeout_ms t' = tpt_completion_timeout_ms t"
  by (auto simp: register_memory_def on_endpoint_def reg_mr_def split: prod.splits if_splits option.splits)

lemma register_memory_keeps: "keeps transport_ok (register_memory lib a n access)"
proof (rule keepsI)
  show "transport_ok (snd (register_memory lib a n access s))" if "transport_ok s" for s
  proof -
    obtain r t' w' where run: "register_memory lib a n access (fst s, snd s) = (r, (t', w'))" by (metis surj_pair)
    from register_memory_frame [OF run] that run show ?thesis by (simp add: transport_wf_def)
  qed
qed

section \<open>Opening a transport\<close>

lemma create_qp_result:
  "create_qp lib (ep, w) = (Inr qp, (ep', w')) \<Longrightarrow>
     qp_wf qp \<and> qpr_endpoint qp = ep_this ep \<and> qp_created qp = (ep_this ep \<noteq> 0) \<and> \<not> qpr_connected qp
       \<and> ep' = ep\<lparr>ep_qp_sequence := ep_qp_sequence ep + 1\<rparr>"
  by (auto simp: create_qp_def Let_def qp_created_def make_queue_pair_def empty_queue_pair_def qp_wf_def
      split: if_splits prod.splits)

lemma create_qp_frame: "create_qp lib (ep, w) = (r, (ep', w')) \<Longrightarrow> ep_this ep' = ep_this ep \<and> ep_config ep' = ep_config ep"
  by (auto simp: create_qp_def Let_def split: if_splits prod.splits)

text \<open>The queue pairs that the loop has created: one record each, none connected yet.\<close>

definition fresh_qps :: "Transport \<Rightarrow> bool" where
  "fresh_qps t \<longleftrightarrow> length (tpt_local_qps t) = length (tpt_qps t) \<and> list_all qp_wf (tpt_qps t)
     \<and> list_all (\<lambda>qp. qpr_endpoint qp = ep_this (tpt_endpoint t)) (tpt_qps t) \<and> tpt_local_qps t = map qpr_local (tpt_qps t)"

lemma create_qps_result:
  assumes "create_qps lib n (t, w) = (r, (t', w'))" and "fresh_qps t"
  shows "fresh_qps t' \<and> tpt_exchange_channel t' = tpt_exchange_channel t \<and> ep_this (tpt_endpoint t') = ep_this (tpt_endpoint t)
      \<and> length (tpt_qps t') \<le> length (tpt_qps t) + n \<and> (ok r \<longrightarrow> length (tpt_qps t') = length (tpt_qps t) + n)"
  using assms
proof (induction n arbitrary: t w)
  case (Suc n)
  obtain q ep1 w1 where q: "create_qp lib (tpt_endpoint t, w) = (q, (ep1, w1))" by (metis surj_pair)
  note ep = create_qp_frame [OF q]
  show ?case
  proof (cases q)
    case (Inl err)
    with Suc.prems q ep show ?thesis
      by (auto simp: rbind_def on_endpoint_def fresh_qps_def)
  next
    case (Inr qp)
    let ?t = "t\<lparr>tpt_endpoint := ep1, tpt_local_qps := tpt_local_qps t @ [qpr_local qp], tpt_qps := tpt_qps t @ [qp]\<rparr>"
    have "create_qps lib n (?t, w1) = (r, (t', w'))"
      using Suc.prems(1) q Inr by (simp add: rbind_def on_endpoint_def)
    moreover have "fresh_qps ?t"
      using Suc.prems(2) create_qp_result q Inr ep by (fastforce simp: fresh_qps_def)
    ultimately show ?thesis using Suc.IH [of ?t w1] ep by simp
  qed
qed simp

lemma fresh_qps_wf: "fresh_qps t \<Longrightarrow> length (tpt_qps t) \<le> 16 \<Longrightarrow> transport_wf t"
  by (simp add: fresh_qps_def transport_wf_def)

lemma qp_connect_result:
  "qp_connect lib config peer (qp, w) = (r, (qp', w')) \<Longrightarrow> qp' = (if ok r then qp\<lparr>qpr_connected := True\<rparr> else qp)"
  by (auto simp: qp_connect_def Let_def split: if_splits option.splits prod.splits)

text \<open>What connecting the queue pairs of a list of indices changes.\<close>

definition qp_connects :: "QueuePair \<Rightarrow> QueuePair \<Rightarrow> bool" where
  "qp_connects qp qp' \<longleftrightarrow> qp' = qp \<or> qp' = qp\<lparr>qpr_connected := True\<rparr>"

definition connects :: "nat list \<Rightarrow> Transport \<Rightarrow> Transport \<Rightarrow> bool" where
  "connects is t t' \<longleftrightarrow> list_all2 qp_connects (tpt_qps t) (tpt_qps t')
     \<and> list_all (\<lambda>i. i < length (tpt_qps t') \<and> qpr_connected (tpt_qps t' ! i)) is
     \<and> tpt_endpoint t' = tpt_endpoint t \<and> tpt_exchange_channel t' = tpt_exchange_channel t
     \<and> tpt_local_qps t' = tpt_local_qps t \<and> tpt_completion_timeout_ms t' = tpt_completion_timeout_ms t"

lemma connect_one:
  assumes "on_qp i (plift (qp_connect lib config peer)) (t, w) = Some (r, (t', w'))"
  shows "connects [] t t' \<and> (ok r \<longrightarrow> connects [i] t t')"
proof (cases "i < length (tpt_qps t)")
  case False
  with assms show ?thesis by (auto simp: on_qp_def queue_pair_def connects_def qp_connects_def list_all2_conv_all_nth)
next
  case True
  obtain qp w1 where c: "qp_connect lib config peer (tpt_qps t ! i, w) = (r, (qp, w1))" "t' = t\<lparr>tpt_qps := (tpt_qps t)[i := qp]\<rparr>"
    using assms True by (auto simp: on_qp_def queue_pair_def split: prod.splits)
  with qp_connect_result [OF c(1)] True show ?thesis
    by (auto simp: connects_def qp_connects_def list_all2_conv_all_nth nth_list_update split: if_splits)
qed

lemma qp_connects_trans: "qp_connects a b \<Longrightarrow> qp_connects b c \<Longrightarrow> qp_connects a c"
  by (auto simp: qp_connects_def)

lemma qp_connects_wf: "qp_connects a b \<Longrightarrow> qp_wf b = qp_wf a" "qp_connects a b \<Longrightarrow> qpr_connected a \<Longrightarrow> qpr_connected b"
  by (auto simp: qp_connects_def)

lemma connects_trans:
  assumes "connects is t t1" and "connects js t1 t'"
  shows "connects (is @ js) t t'"
proof -
  have "list_all2 qp_connects (tpt_qps t) (tpt_qps t')"
    using assms qp_connects_trans by (fastforce simp: connects_def list_all2_conv_all_nth)
  moreover have "qpr_connected (tpt_qps t' ! i)" if "i < length (tpt_qps t1)" "qpr_connected (tpt_qps t1 ! i)" for i
    using assms(2) that qp_connects_wf(2) by (auto simp: connects_def list_all2_conv_all_nth)
  moreover have "length (tpt_qps t') = length (tpt_qps t1)"
    using assms(2) by (auto simp: connects_def dest: list_all2_lengthD)
  ultimately show ?thesis using assms by (auto simp: connects_def list_all_iff)
qed

lemma connects_wf: "connects is t t' \<Longrightarrow> transport_wf t \<Longrightarrow> transport_wf t'"
  using qp_connects_wf(1) by (fastforce simp: connects_def transport_wf_def list_all2_conv_all_nth list_all_length)

lemma connect_loop:
  assumes "pfor is (\<lambda>i. on_qp i (plift (qp_connect lib config (peer i)))) (t, w) = Some (r, (t', w'))"
  shows "connects [] t t' \<and> (ok r \<longrightarrow> connects is t t')"
  using assms
proof (induction "is" arbitrary: t w)
  case Nil
  then show ?case by (auto simp: connects_def qp_connects_def list_all2_conv_all_nth)
next
  case (Cons i "is")
  obtain r1 t1 w1 where one: "on_qp i (plift (qp_connect lib config (peer i))) (t, w) = Some (r1, (t1, w1))"
    using Cons.prems by (auto simp: pbind_def simp del: plift_apply split: option.splits)
  note first = connect_one [OF one]
  show ?case
  proof (cases r1)
    case (Inl err)
    with Cons.prems one first show ?thesis by (auto simp: pbind_def simp del: plift_apply)
  next
    case (Inr u)
    then have "pfor is (\<lambda>i. on_qp i (plift (qp_connect lib config (peer i)))) (t1, w1) = Some (r, (t', w'))"
      using Cons.prems one by (simp add: pbind_def del: plift_apply)
    from Cons.IH [OF this] first Inr show ?thesis
      using connects_trans [of "[]" t t1 "[]" t'] connects_trans [of "[i]" t t1 "is" t'] by auto
  qed
qed

text \<open>A default-constructed transport at an address.\<close>

definition empty_endpoint :: "u64 \<Rightarrow> Endpoint" where
  "empty_endpoint this = \<lparr>ep_this = this, ep_context = 0, ep_pd = 0, ep_config = zero_endpoint_config,
     ep_port = zero_port_attr, ep_gid = replicate 16 0, ep_qp_sequence = 0\<rparr>"

definition empty_transport :: "u64 \<Rightarrow> Transport" where
  "empty_transport this = \<lparr>tpt_endpoint = empty_endpoint this, tpt_qps = [], tpt_completion_timeout_ms = 5000,
     tpt_exchange_channel = \<lparr>tc_fd = -1\<rparr>, tpt_local_qps = []\<rparr>"

lemma empty_transport_simps [simp]:
  "tpt_qps (empty_transport this) = []" "tpt_local_qps (empty_transport this) = []"
  "ep_this (tpt_endpoint (empty_transport this)) = this" "tc_fd (tpt_exchange_channel (empty_transport this)) = -1"
  by (simp_all add: empty_transport_def empty_endpoint_def)

lemma endpoint_open_this: "endpoint_open lib config (ep, w) = (r, (ep', w')) \<Longrightarrow> ep_this ep' = ep_this ep"
  by (auto simp: endpoint_open_def query_active_port_def endpoint_reset_def Let_def split: if_splits prod.splits option.splits)

text \<open>What opening leaves behind: the number of queue pairs asked for, all connected, or a well-formed part of it.\<close>

definition opened_with :: "u64 \<Rightarrow> TcpConnection \<Rightarrow> nat \<Rightarrow> unit result \<Rightarrow> Transport \<Rightarrow> bool" where
  "opened_with this channel n r t \<longleftrightarrow> transport_wf t \<and> list_all (\<lambda>qp. qpr_endpoint qp = this) (tpt_qps t) \<and>
     (ok r \<longrightarrow> length (tpt_qps t) = n \<and> list_all qpr_connected (tpt_qps t) \<and> tpt_exchange_channel t = channel
       \<and> tpt_local_qps t = map qpr_local (tpt_qps t))"

lemma connects_opened:
  assumes "connects is t t'" and "fresh_qps t" and "length (tpt_qps t) \<le> 16"
  shows "transport_wf t' \<and> list_all (\<lambda>qp. qpr_endpoint qp = ep_this (tpt_endpoint t)) (tpt_qps t')
    \<and> tpt_local_qps t' = map qpr_local (tpt_qps t')"
proof -
  have "qpr_endpoint b = qpr_endpoint a" "qpr_local b = qpr_local a" if "qp_connects a b" for a b
    using that by (auto simp: qp_connects_def)
  with assms have "list_all (\<lambda>qp. qpr_endpoint qp = ep_this (tpt_endpoint t)) (tpt_qps t')"
    "tpt_local_qps t' = map qpr_local (tpt_qps t')"
    by (auto simp: connects_def fresh_qps_def list_all2_conv_all_nth list_all_length list_eq_iff_nth_eq)
  with connects_wf [OF assms(1)] assms(2,3) show ?thesis by (simp add: fresh_qps_wf)
qed

lemma exchange_endpoints_result:
  assumes "exchange_endpoints e os lib n (t, w) = Some (r, (t', w'))" and "fresh_qps t" and "length (tpt_qps t) \<le> 16"
  shows "opened_with (ep_this (tpt_endpoint t)) (tpt_exchange_channel t) (length (tpt_qps t)) r t'"
proof -
  have c: "connects [] t t' \<and> (ok r \<longrightarrow> connects [0..<length (tpt_qps t)] t t')"
  proof (cases "\<exists>peer w1. connect_qps lib peer (t, w1) = Some (r, (t', w'))")
    case True
    then show ?thesis using connect_loop by (fastforce simp: connect_qps_def)
  next
    case False
    with assms(1) have "t' = t \<and> \<not> ok r"
      by (auto simp: exchange_endpoints_def on_world_def pbind_def split: option.splits prod.splits sum.splits if_splits)
    then show ?thesis by (auto simp: connects_def qp_connects_def list_all2_conv_all_nth)
  qed
  then have "connects [] t t'" by simp
  note connects_opened [OF this assms(2,3)]
  moreover have "length (tpt_qps t') = length (tpt_qps t)"
    using c by (auto simp: connects_def dest: list_all2_lengthD)
  ultimately show ?thesis
    using c by (simp add: opened_with_def) (auto simp: connects_def list_all_length)
qed

lemma tcp_fd_update [simp]: "x\<lparr>tc_fd := tc_fd y\<rparr> = (y :: TcpConnection)"
  by (cases x; cases y) simp

lemma transport_open_result:
  assumes "transport_open e os lib channel config n (empty_transport this, w) = Some (r, (t', w'))"
  shows "opened_with this channel (unat n) r t' \<and> (ok r \<longrightarrow> n \<noteq> 0 \<and> n \<le> tcf_max_qp_count config \<and> unat n \<le> 16)"
proof (cases "n = 0 \<or> n > tcf_max_qp_count config \<or> n > kMaxQpInfoBatch")
  case True
  with assms show ?thesis
    by (auto simp: transport_open_def Let_def opened_with_def transport_wf_def split: if_splits)
next
  case False
  then have n: "n \<noteq> 0" "n \<le> tcf_max_qp_count config" "unat n \<le> 16" by (simp_all add: count_gt_16 not_less)
  obtain r1 ep w1 where o: "endpoint_open lib (tcf_endpoint config) (tpt_endpoint (empty_transport this), w) = (r1, (ep, w1))"
    by (metis surj_pair)
  let ?t = "(empty_transport this)\<lparr>tpt_endpoint := ep, tpt_completion_timeout_ms := tcf_completion_timeout_ms config\<rparr>"
  obtain r2 t2 w2 where c: "create_qps lib (unat n) (?t, w1) = (r2, (t2, w2))" by (metis surj_pair)
  have own: "ep_this ep = this" using endpoint_open_this [OF o] by simp
  have fresh: "fresh_qps ?t" by (simp add: fresh_qps_def)
  note made = create_qps_result [OF c fresh]
  have failed: "opened_with this channel (unat n) (Inl err) t" if "fresh_qps t" "length (tpt_qps t) \<le> 16"
    "ep_this (tpt_endpoint t) = this" for err t
    using that by (simp add: opened_with_def fresh_qps_wf) (simp add: fresh_qps_def)
  have closed: "\<not> transport_opened (empty_transport this)"
    by (simp add: transport_opened_def tcp_is_open_def empty_transport_def empty_endpoint_def endpoint_opened_def)
  show ?thesis
  proof (cases "\<not> tcp_is_open channel \<or> timeout_invalid (tcf_completion_timeout_ms config) \<or> \<not> ok r1 \<or> \<not> ok r2")
    case True
    have "\<not> ok r \<and> (t' = empty_transport this \<or> t' = (empty_transport this)\<lparr>tpt_endpoint := ep\<rparr> \<or> t' = t2)"
      using assms True o c
      by (auto simp: transport_open_def on_endpoint_def Let_def ok_iff closed split: if_splits sum.splits)
    then show ?thesis
      using failed made n own by (auto simp: ok_def fresh_qps_def split: sum.splits)
  next
    case False
    let ?t2 = "t2\<lparr>tpt_exchange_channel := channel\<rparr>"
    have "exchange_endpoints e os lib n (?t2, w2) = Some (r, (t', w'))"
      using assms False o c made n
      by (auto simp: transport_open_def on_endpoint_def Let_def ok_iff closed tcp_move_assign_def count_gt_16
          split: if_splits)
    from exchange_endpoints_result [OF this] show ?thesis
      using made False n own by (auto simp: fresh_qps_def)
  qed
qed

text \<open>The two ways in which accepting returns: an error before the transport is touched, or what opening it returns.\<close>

definition accepts_request :: "endian \<Rightarrow> 'w posix \<Rightarrow> 'w ibverbs \<Rightarrow> TransportListener \<Rightarrow> Transport \<Rightarrow> 'w \<Rightarrow> unit result \<Rightarrow> Transport \<Rightarrow>
    TcpConnection \<Rightarrow> TransportInfo \<Rightarrow> bool" where
  "accepts_request e os lib l t w r t' channel request \<longleftrightarrow>
     (\<exists>w1 w2 w3 w4. tcp_accept os (tln_tcp_listener l) w = Some (Inr channel, w1)
        \<and> receive_transport_info e os (Some channel) w1 = Some (Inr request, w2) \<and> ti_kind request = QpCountRequest
        \<and> transport_open e os lib \<lparr>tc_fd = tc_fd channel\<rparr> (tln_config l)
             (min (ti_qp_count request) (tcf_max_qp_count (tln_config l))) (t, w3) = Some (r, (t', w4)))"

lemma listener_accept_cases:
  assumes "listener_accept e os lib l (Some t, w) = Some (r, (t', w'))"
  shows "(t' = Some t \<and> \<not> ok r) \<or> (\<exists>t1 channel request. t' = Some t1 \<and> accepts_request e os lib l t w r t1 channel request)"
  using assms unfolding accepts_request_def
  by (auto simp: listener_accept_def Let_def tcp_move_def split: option.splits prod.splits sum.splits if_splits)

section \<open>Properties\<close>

text \<open>
  C15: what the server has after it accepted a client. The number of queue pairs is the smaller
  of the client's request and the server's own limit, at least one and at most sixteen; every
  one is connected, well-formed and owned by this transport's endpoint, and the records sent to
  the client are theirs, in order. When accepting fails, what is left is still well-formed.
\<close>

theorem listener_accept_negotiates:
  "case listener_accept e os lib l (Some (empty_transport this), w) of
     None \<Rightarrow> True
   | Some (Inl err, (t', w')) \<Rightarrow> \<exists>t. t' = Some t \<and> transport_wf t
   | Some (Inr _, (t', w')) \<Rightarrow>
       \<exists>t channel request w1 w2. t' = Some t
         \<and> tcp_accept os (tln_tcp_listener l) w = Some (Inr channel, w1)
         \<and> receive_transport_info e os (Some channel) w1 = Some (Inr request, w2) \<and> ti_kind request = QpCountRequest
         \<and> transport_qp_count t = min (unat (ti_qp_count request)) (unat (tcf_max_qp_count (tln_config l)))
         \<and> 0 < transport_qp_count t \<and> transport_qp_count t \<le> 16 \<and> list_all qpr_connected (tpt_qps t)
         \<and> list_all (\<lambda>qp. qpr_endpoint qp = this) (tpt_qps t) \<and> tpt_local_qps t = map qpr_local (tpt_qps t)
         \<and> transport_wf t \<and> tc_fd (tpt_exchange_channel t) = tc_fd channel"
proof (cases "listener_accept e os lib l (Some (empty_transport this), w)")
  case (Some run)
  obtain r t' w' where run: "run = (r, (t', w'))" by (metis surj_pair)
  have unat_min: "unat (min a b) = min (unat a) (unat b)" for a b :: u32
    by (simp add: min_def word_le_nat_alt)
  from listener_accept_cases [OF Some [unfolded run]] show ?thesis
  proof
    assume "t' = Some (empty_transport this) \<and> \<not> ok r"
    then show ?thesis using Some run by (cases r) (simp_all add: transport_wf_def)
  next
    assume "\<exists>t1 channel request. t' = Some t1 \<and> accepts_request e os lib l (empty_transport this) w r t1 channel request"
    then obtain t1 channel request where t': "t' = Some t1"
      and acc: "accepts_request e os lib l (empty_transport this) w r t1 channel request" by blast
    let ?n = "min (ti_qp_count request) (tcf_max_qp_count (tln_config l))"
    have "opened_with this \<lparr>tc_fd = tc_fd channel\<rparr> (unat ?n) r t1 \<and> (ok r \<longrightarrow> 0 < unat ?n \<and> unat ?n \<le> 16)"
      using acc [unfolded accepts_request_def] by (elim exE conjE) (drule transport_open_result, simp add: unat_gt_0)
    with acc show ?thesis
      using Some run t'
      by (cases r) (auto simp: opened_with_def transport_qp_count_def accepts_request_def unat_min [symmetric])
  qed
qed simp

text \<open>
  A transport record reaches the peer. A valid record that one host sends on an intact TCP
  channel is received by the other host, of either byte order, as the same record with the
  unused descriptors cleared, and nothing is left on the channel.
\<close>

theorem transport_info_delivered:
  assumes "reads_stream os (tc_fd c2) stream intr" and "reads_reliably os (tc_fd c2) stream"
    and "writes_stream os (tc_fd c1) stream intr" and "tcp_is_open c1" and "tcp_is_open c2" and "stream w = []"
    and "transport_info_wf info" and "validate_transport_info (Some info) = CodecOk"
  shows "\<exists>r w1. send_transport_info e1 os (Some c1) info w = Some (r, w1) \<and>
    (r = Inr () \<longrightarrow> (\<exists>w2. receive_transport_info e2 os (Some c2) w1 = Some (Inr (canonical_transport_info info), w2) \<and> stream w2 = []))"
proof -
  let ?bytes = "transport_info_bytes e1 (wire_transport e1 info)"
  have enc: "encode_transport_info e1 (Some info) (Some zero_wire_transport_info) = (CodecOk, Some (wire_transport e1 info))"
    and dec: "decode_transport_info e2 (Some (transport_info_of_bytes e2 ?bytes)) (Some zero_transport_info) =
      (CodecOk, Some (canonical_transport_info info))" and len: "length ?bytes = 1292"
    using assms(7,8)
    by (simp_all add: encode_transport_info_simp transport_info_cross_host decode_wire_transport length_transport_info_bytes)
  from send_receive_whole [OF assms(1-6), of ?bytes] show ?thesis
    by (auto simp: send_transport_info_def receive_transport_info_def enc len pbind_def dec)
qed

theorem transport_info_delivered_witness:
  "\<exists>r w1. send_transport_info Little pipe_os (Some \<lparr>tc_fd = 3\<rparr>) sample_transport_info ([], [7, 0]) = Some (r, w1) \<and>
    (r = Inr () \<longrightarrow> (\<exists>w2. receive_transport_info Big pipe_os (Some \<lparr>tc_fd = 4\<rparr>) w1 =
       Some (Inr (canonical_transport_info sample_transport_info), w2) \<and> fst w2 = []))"
  by (rule transport_info_delivered [OF pipe_os_laws(1,2,3) _ _ _ sample_transport_info_ok]) (simp_all add: tcp_is_open_def)

text \<open>Every operation on an open transport keeps it well-formed.\<close>

theorem transport_operations_wf:
  "pkeeps transport_ok (transport_post_receive lib i region) \<and> pkeeps transport_ok (transport_wait_receive lib i timeout_ms)
   \<and> pkeeps transport_ok (transport_send lib i region len) \<and> pkeeps transport_ok (transport_read lib i region a k len)
   \<and> pkeeps transport_ok (transport_write lib i region a k len) \<and> pkeeps transport_ok (read_batch lib i requests)
   \<and> pkeeps transport_ok (write_batch lib i requests) \<and> keeps transport_ok (register_memory lib buffer n access)"
  by (intro conjI transport_ops_keep transport_blocking_ops_keep register_memory_keeps)

end
