(* ===== verification/Storage_Slots.thy ===== *)
theory Storage_Slots
  imports Storage_Codec Transport_Protocol
begin

text \<open>
  The slot table that the client keeps in its memory and the server fetches: an array of
  \<open>StorageSlot\<close> structures of \<^verbatim>\<open>src/src/include/storage_protocol.hh\<close> as they lie in host memory. A
  \<open>StorageMemory\<close> takes 24 bytes with 4 bytes of padding at its end, a slot 56 bytes, as the
  \<open>static_assert\<close> there demands. Unlike the other records the table is not serialized, so that
  both hosts must have the same byte order \<open>e\<close>.
\<close>

definition load64 :: "endian \<Rightarrow> u8 list \<Rightarrow> nat \<Rightarrow> u64" where
  "load64 e bs k =
     (case e of
        Big \<Rightarrow> read_u64 bs k
      | Little \<Rightarrow> push_bit 32 (ucast (load32 Little bs (k + 4))) OR ucast (load32 Little bs k))"

definition storage_memory_bytes :: "endian \<Rightarrow> StorageMemory \<Rightarrow> u8 list" where
  "storage_memory_bytes e m =
     mem64 e (m_address m) @ mem64 e (m_length m) @ mem32 e (m_remote_key m) @ replicate 4 0"

definition storage_memory_of_bytes :: "endian \<Rightarrow> u8 list \<Rightarrow> StorageMemory" where
  "storage_memory_of_bytes e bs = \<lparr>m_address = load64 e bs 0, m_length = load64 e bs 8, m_remote_key = load32 e bs 16\<rparr>"

definition storage_slot_bytes :: "endian \<Rightarrow> StorageSlot \<Rightarrow> u8 list" where
  "storage_slot_bytes e s =
     storage_memory_bytes e (s_command s) @ storage_memory_bytes e (s_completion s)
       @ mem32 e (s_qp_index s) @ mem32 e (s_reserved s)"

definition storage_slot_of_bytes :: "endian \<Rightarrow> u8 list \<Rightarrow> StorageSlot" where
  "storage_slot_of_bytes e bs =
     \<lparr>s_command = storage_memory_of_bytes e (take 24 bs), s_completion = storage_memory_of_bytes e (take 24 (drop 24 bs)),
      s_qp_index = load32 e bs 48, s_reserved = load32 e bs 52\<rparr>"

definition slot_table_bytes :: "endian \<Rightarrow> StorageSlot list \<Rightarrow> u8 list" where
  "slot_table_bytes e slots = concat (map (storage_slot_bytes e) slots)"

definition slot_table_of_bytes :: "endian \<Rightarrow> nat \<Rightarrow> u8 list \<Rightarrow> StorageSlot list" where
  "slot_table_of_bytes e n bs = map (\<lambda>i. storage_slot_of_bytes e (take 56 (drop (56 * i) bs))) [0..<n]"

section \<open>Reading back what was stored\<close>

lemma mem64_halves:
  "mem64 Big v = be32 (ucast (drop_bit 32 v)) @ be32 (ucast v)"
  "mem64 Little v = mem32 Little (ucast v) @ mem32 Little (ucast (drop_bit 32 v))"
  by (simp_all add: mem64_def mem32_def be64_def)

lemma length_mem64 [simp]: "length (mem64 e v) = 8"
  by (cases e) (simp_all add: mem64_halves)

lemma load32_mem [serde]: "load32 e (mem32 e v @ ys) 0 = v"
  by (metis load_be(2) mem32_htonl htonl_htonl)

lemma load64_mem [serde]: "load64 e (mem64 e v @ ys) 0 = v"
proof (cases e)
  case Little
  have "load32 Little (mem32 Little a @ mem32 Little b @ ys) 4 = b" for a b
    using load_append(2) [of "mem32 Little a" 4 Little "mem32 Little b @ ys"] by (simp add: load32_mem)
  with Little show ?thesis
    by (simp add: load64_def mem64_halves load32_mem join_halves_u64)
next
  case Big
  have "read_u32 (be32 a @ be32 b @ ys) 4 = b" for a b
    using read_append(2) [of "be32 a" 4 "be32 b @ ys"] by (simp add: read_be)
  with Big show ?thesis
    by (simp add: load64_def mem64_halves read_u64_def read_be join_halves_u64)
qed

lemma load64_append [serde]: "length xs \<le> k \<Longrightarrow> load64 e (xs @ ys) k = load64 e ys (k - length xs)"
  by (cases e) (simp_all add: load64_def load_append read_u64_def read_append)

lemma storage_memory_image:
  "length (storage_memory_bytes e m) = 24" "storage_memory_of_bytes e (storage_memory_bytes e m) = m"
  using load32_mem [of e "m_remote_key m"]
  by (simp_all add: storage_memory_bytes_def storage_memory_of_bytes_def serde)

lemma storage_slot_image:
  "length (storage_slot_bytes e s) = 56" "storage_slot_of_bytes e (storage_slot_bytes e s) = s"
proof -
  have "load32 e (mem32 e v) 0 = v" for v using load32_mem [of e v "[]"] by simp
  then show "length (storage_slot_bytes e s) = 56" "storage_slot_of_bytes e (storage_slot_bytes e s) = s"
    by (simp_all add: storage_slot_bytes_def storage_slot_of_bytes_def storage_memory_image serde)
qed

lemma slot_table_length [simp]: "length (slot_table_bytes e slots) = 56 * length slots"
  by (induction slots) (simp_all add: slot_table_bytes_def storage_slot_image)

lemma slot_table_element:
  "i < length slots \<Longrightarrow> take 56 (drop (56 * i) (slot_table_bytes e slots)) = storage_slot_bytes e (slots ! i)"
proof (induction slots arbitrary: i)
  case (Cons s slots)
  then show ?case
    by (cases i) (simp_all add: slot_table_bytes_def storage_slot_image drop_append)
qed simp

text \<open>A table read back from the bytes of a table is that table.\<close>

lemma slot_table_image: "slot_table_of_bytes e (length slots) (slot_table_bytes e slots) = slots"
  by (rule nth_equalityI) (simp_all add: slot_table_of_bytes_def slot_table_element storage_slot_image)

end
