(* ===== verification/Server_Storage.thy ===== *)
theory Server_Storage
  imports Server_Transport Storage_Slots
begin

text \<open>
  The server's storage service, \<^verbatim>\<open>src/src/server/storage.cc\<close>: the bootstrap exchange, fetching the
  client's slot table, and the workers that serve commands in windows. The buffers that remote
  peers read and write lie in the memory of the process, which is part of the outside world; the
  record \<open>process\<close> gives access to it, and holds the two affinity calls. The namespace itself is
  only touched by RDMA, through the region registered for it.

  The worker threads are run one after another in an order \<open>schedule\<close> that is a parameter: the
  threads share only the transport object, where each uses a queue pair of its own, the failure
  flag and the first error.
\<close>

record 'w process =
  mem_get :: "u64 \<Rightarrow> nat \<Rightarrow> 'w \<Rightarrow> u8 list"
  mem_put :: "u64 \<Rightarrow> u8 list \<Rightarrow> 'w \<Rightarrow> 'w"
  new_object :: "nat \<Rightarrow> 'w \<Rightarrow> u64 \<times> 'w"
  sched_getaffinity :: "'w \<Rightarrow> int list option \<times> 'w"
  pthread_setaffinity_np :: "int \<Rightarrow> 'w \<Rightarrow> int \<times> 'w"

text \<open>A zero-initialized buffer, and the lifetime of a region that ends with the function it is local to.\<close>

definition new_buffer :: "'w process \<Rightarrow> nat \<Rightarrow> 'w \<Rightarrow> u64 \<times> 'w" where
  "new_buffer proc n w = (case new_object proc n w of (address, w) \<Rightarrow> (address, mem_put proc address (replicate n 0) w))"

definition scoped_region :: "'w ibverbs \<Rightarrow> MemoryRegion \<Rightarrow> (Transport \<times> 'w, 'a) pcomp \<Rightarrow> (Transport \<times> 'w, 'a) pcomp" where
  "scoped_region lib region f = (\<lambda>s.
     case f s of None \<Rightarrow> None | Some (r, (t, w)) \<Rightarrow> Some (r, (t, region_destroy lib region w)))"

section \<open>Bootstrap\<close>

definition zero_storage_memory :: StorageMemory where
  "zero_storage_memory = \<lparr>m_address = 0, m_length = 0, m_remote_key = 0\<rparr>"

definition zero_bootstrap :: StorageBootstrap where
  "zero_bootstrap = \<lparr>b_completion = zero_storage_memory, b_namespace_response = zero_storage_memory,
     b_slots = zero_storage_memory, b_slot_count = 0\<rparr>"

definition exchange_bootstrap :: "'w process \<Rightarrow> 'w ibverbs \<Rightarrow> u8 list \<Rightarrow> u64 \<Rightarrow> (Transport \<times> 'w, StorageBootstrap) pcomp" where
  "exchange_bootstrap proc lib bootstrap_bytes capacity = (\<lambda>(t, w).
     case new_buffer proc 16 w of
       (namespace_bytes, w) \<Rightarrow>
         (case deserialize_storage_bootstrap (Some bootstrap_bytes) kStorageBootstrapBytes (Some zero_bootstrap) of
            (result, bootstrap) \<Rightarrow>
              if result \<noteq> SerdeOk then Some (Inl kProtocol, (t, w))
              else case serialize_storage_namespace \<lparr>ns_capacity = capacity\<rparr> (Some (mem_get proc namespace_bytes 16 w)) 16 of
                (result, bytes) \<Rightarrow>
                  if result \<noteq> SerdeOk then Some (Inl kProtocol, (t, w))
                  else
                    (let w = mem_put proc namespace_bytes (the bytes) w; response = b_namespace_response (the bootstrap)
                     in case register_memory lib namespace_bytes 16 LocalRead (t, w) of
                          (Inl err, s) \<Rightarrow> Some (Inl err, s)
                        | (Inr region, s) \<Rightarrow>
                            scoped_region lib region
                              (pbind (transport_write lib 0 region (m_address response) (m_remote_key response) 16)
                                 (\<lambda>_. pret (the bootstrap))) s)))"

definition slot_invalid :: "nat \<Rightarrow> StorageSlot \<Rightarrow> bool" where
  "slot_invalid qp_count slot \<longleftrightarrow>
     s_reserved slot \<noteq> 0 \<or> unat (s_qp_index slot) \<ge> qp_count \<or> m_address (s_command slot) = 0
     \<or> m_length (s_command slot) < ucast kStorageCommandBytes \<or> m_remote_key (s_command slot) = 0
     \<or> m_address (s_completion slot) = 0 \<or> m_length (s_completion slot) < ucast kStorageCompletionBytes
     \<or> m_remote_key (s_completion slot) = 0"

text \<open>\<open>sizeof(StorageSlot)\<close> is 56 and \<open>size_t\<close> has 64 bits.\<close>

definition slot_table_refused :: "StorageBootstrap \<Rightarrow> bool" where
  "slot_table_refused bootstrap \<longleftrightarrow>
     b_slot_count bootstrap = 0 \<or> ucast (b_slot_count bootstrap) > UINT64_MAX div 56
     \<or> b_slot_count bootstrap > UINT32_MAX div 56
     \<or> m_length (b_slots bootstrap) < ucast (b_slot_count bootstrap) * 56"

definition fetch_slots :: "endian \<Rightarrow> 'w process \<Rightarrow> 'w ibverbs \<Rightarrow> StorageBootstrap \<Rightarrow> (Transport \<times> 'w, StorageSlot list) pcomp" where
  "fetch_slots e proc lib bootstrap = (\<lambda>(t, w).
     if slot_table_refused bootstrap then Some (Inl kInvalidArgument, (t, w))
     else
       (let slot_count = unat (b_slot_count bootstrap) in
        case new_buffer proc (slot_count * 56) w of
          (slots_data, w) \<Rightarrow>
            (case register_memory lib slots_data (of_nat (slot_count * 56)) LocalWrite (t, w) of
               (Inl err, s) \<Rightarrow> Some (Inl err, s)
             | (Inr slot_region, s) \<Rightarrow>
                 scoped_region lib slot_region
                   (pbind (transport_read lib 0 slot_region (m_address (b_slots bootstrap))
                             (m_remote_key (b_slots bootstrap)) (of_nat (slot_count * 56)))
                      (\<lambda>_ (t, w).
                        (let slots = slot_table_of_bytes e slot_count (mem_get proc slots_data (slot_count * 56) w)
                         in if list_ex (slot_invalid (transport_qp_count t)) slots then Some (Inl kProtocol, (t, w))
                            else Some (Inr slots, (t, w))))) s)))"

section \<open>Workers\<close>

text \<open>The byte arrays of a slot are given by their addresses in the process.\<close>

record WorkerSlot =
  wsl_slot_index :: nat
  wsl_command_bytes :: u64
  wsl_completion_bytes :: u64
  wsl_entry_bytes :: u64
  wsl_command_region :: MemoryRegion
  wsl_completion_region :: MemoryRegion
  wsl_entry_region :: MemoryRegion

record PendingCommand =
  pc_slot :: WorkerSlot
  pc_completion :: StorageCompletion
  pc_storage_read :: bool
  pc_batch :: bool
  pc_entry_count :: u32
  pc_total_length :: u64
  pc_descriptor_pending :: bool
  pc_descriptor_wr_id :: u64
  pc_requests :: "TransferRequest list"
  pc_payload_wr_id :: u64
  pc_payload_pending :: bool
  pc_completion_wr_id :: u64

record Worker =
  wk_qp_index :: nat
  wk_command_count :: u32
  wk_cpu_id :: int
  wk_slots :: "WorkerSlot list"

definition CPU_SETSIZE :: int where "CPU_SETSIZE = 1024"

definition allowed_cpus :: "'w process \<Rightarrow> ('w, int list) comp" where
  "allowed_cpus proc w =
     (case sched_getaffinity proc w of
        (None, w) \<Rightarrow> (Inl kRuntime, w)
      | (Some cpu_set, w) \<Rightarrow>
          (let cpus = filter (\<lambda>cpu. cpu \<in> set cpu_set) (map int [0..<nat CPU_SETSIZE])
           in if cpus = [] then (Inl kRuntime, w) else (Inr cpus, w)))"

definition pin_to_cpu :: "'w process \<Rightarrow> int \<Rightarrow> ('w, unit) comp" where
  "pin_to_cpu proc cpu w =
     (if cpu < 0 \<or> cpu \<ge> CPU_SETSIZE then (Inl kInvalidArgument, w)
      else case pthread_setaffinity_np proc cpu w of
        (result, w) \<Rightarrow> if result \<noteq> 0 then (Inl kRuntime, w) else (Inr (), w))"

subsection \<open>Decoding a command\<close>

definition new_pending :: "WorkerSlot \<Rightarrow> PendingCommand" where
  "new_pending slot =
     \<lparr>pc_slot = slot,
      pc_completion = \<lparr>c_command_id = 0, c_state = StateComplete, c_status = StatusSuccess, c_bytes_transferred = 0\<rparr>,
      pc_storage_read = False, pc_batch = False, pc_entry_count = 0, pc_total_length = 0, pc_descriptor_pending = False,
      pc_descriptor_wr_id = 0, pc_requests = [], pc_payload_wr_id = 0, pc_payload_pending = False, pc_completion_wr_id = 0\<rparr>"

text \<open>The guard on a range of the namespace, and the transfer of an accepted range.\<close>

definition out_of_range :: "u64 \<Rightarrow> u64 \<Rightarrow> u64 \<Rightarrow> bool" where
  "out_of_range capacity offset len \<longleftrightarrow> offset > capacity \<or> len > capacity - offset \<or> len > ucast UINT32_MAX"

definition namespace_transfer :: "MemoryRegion \<Rightarrow> u64 \<Rightarrow> u64 \<Rightarrow> StorageMemory \<Rightarrow> TransferRequest" where
  "namespace_transfer storage_region offset len data =
     \<lparr>tr_local = Some storage_region, tr_local_offset = offset, tr_remote_address = m_address data,
      tr_remote_key = m_remote_key data, tr_length = ucast len\<rparr>"

text \<open>The part that \<open>Read\<close> and \<open>Write\<close> share once the command is decoded.\<close>

definition single_range :: "MemoryRegion \<Rightarrow> u64 \<Rightarrow> u64 \<Rightarrow> u64 \<Rightarrow> StorageMemory \<Rightarrow> PendingCommand \<Rightarrow> PendingCommand" where
  "single_range storage_region capacity offset len data command_state =
     (if out_of_range capacity offset len
      then command_state\<lparr>pc_completion := (pc_completion command_state)\<lparr>c_status := StatusRangeError\<rparr>\<rparr>
      else command_state\<lparr>pc_requests := pc_requests command_state @ [namespace_transfer storage_region offset len data],
             pc_completion := (pc_completion command_state)\<lparr>c_bytes_transferred := len\<rparr>\<rparr>)"

definition with_command_id :: "u64 \<Rightarrow> PendingCommand \<Rightarrow> PendingCommand" where
  "with_command_id command_id command_state =
     command_state\<lparr>pc_completion := (pc_completion command_state)\<lparr>c_command_id := command_id\<rparr>\<rparr>"

definition zero_read :: StorageReadCommand where
  "zero_read = \<lparr>r_command_id = 0, r_offset = 0, r_length = 0, r_data = zero_storage_memory, r_slot_index = 0\<rparr>"

definition zero_write :: StorageWriteCommand where
  "zero_write = \<lparr>w_command_id = 0, w_offset = 0, w_length = 0, w_data = zero_storage_memory, w_slot_index = 0\<rparr>"

definition zero_batch_read :: StorageBatchReadCommand where
  "zero_batch_read = \<lparr>br_command_id = 0, br_entry_count = 0, br_total_length = 0, br_entries = zero_storage_memory, br_slot_index = 0\<rparr>"

definition zero_batch_write :: StorageBatchWriteCommand where
  "zero_batch_write = \<lparr>bw_command_id = 0, bw_entry_count = 0, bw_total_length = 0, bw_entries = zero_storage_memory, bw_slot_index = 0\<rparr>"

text \<open>
  The switch over the operation up to the posting of an RDMA read for the descriptors of a batch:
  the command's state and, for a batch, the client memory that holds the descriptors.
\<close>

definition decode_command :: "WorkerSlot \<Rightarrow> MemoryRegion \<Rightarrow> u64 \<Rightarrow> u8 list \<Rightarrow> (PendingCommand \<times> StorageMemory option) result" where
  "decode_command slot storage_region capacity bytes =
     (case deserialize_storage_operation (Some bytes) 64 (Some OpRead) of
        (result, operation) \<Rightarrow>
     if result \<noteq> SerdeOk then Inl kProtocol
     else case the operation of
       OpRead \<Rightarrow>
         (case deserialize_storage_read (Some bytes) 64 (Some zero_read) of
            (result, command) \<Rightarrow>
              if result \<noteq> SerdeOk then Inl kProtocol
              else let c = the command in
                if unat (r_slot_index c) \<noteq> wsl_slot_index slot then Inl kProtocol
                else Inr (single_range storage_region capacity (r_offset c) (r_length c) (r_data c)
                            (with_command_id (r_command_id c) (new_pending slot)\<lparr>pc_storage_read := True\<rparr>), None))
     | OpWrite \<Rightarrow>
         (case deserialize_storage_write (Some bytes) 64 (Some zero_write) of
            (result, command) \<Rightarrow>
              if result \<noteq> SerdeOk then Inl kProtocol
              else let c = the command in
                if unat (w_slot_index c) \<noteq> wsl_slot_index slot then Inl kProtocol
                else Inr (single_range storage_region capacity (w_offset c) (w_length c) (w_data c)
                            (with_command_id (w_command_id c) (new_pending slot)), None))
     | OpBatchRead \<Rightarrow>
         (case deserialize_storage_batch_read (Some bytes) 64 (Some zero_batch_read) of
            (result, command) \<Rightarrow>
              if result \<noteq> SerdeOk then Inl kProtocol
              else let c = the command in
                if unat (br_slot_index c) \<noteq> wsl_slot_index slot then Inl kProtocol
                else Inr ((with_command_id (br_command_id c) (new_pending slot))\<lparr>pc_storage_read := True, pc_batch := True,
                            pc_entry_count := ucast (br_entry_count c), pc_total_length := br_total_length c\<rparr>,
                          Some (br_entries c)))
     | OpBatchWrite \<Rightarrow>
         (case deserialize_storage_batch_write (Some bytes) 64 (Some zero_batch_write) of
            (result, command) \<Rightarrow>
              if result \<noteq> SerdeOk then Inl kProtocol
              else let c = the command in
                if unat (bw_slot_index c) \<noteq> wsl_slot_index slot then Inl kProtocol
                else Inr ((with_command_id (bw_command_id c) (new_pending slot))\<lparr>pc_batch := True,
                            pc_entry_count := ucast (bw_entry_count c), pc_total_length := bw_total_length c\<rparr>,
                          Some (bw_entries c))))"

subsection \<open>Serving a window of commands\<close>

definition post_payload :: "'w ibverbs \<Rightarrow> nat \<Rightarrow> PendingCommand \<Rightarrow> (Transport \<times> 'w, PendingCommand) pcomp" where
  "post_payload lib qp_index command_state =
     pbind (if pc_storage_read command_state then post_write_batch lib qp_index (pc_requests command_state)
            else post_read_batch lib qp_index (pc_requests command_state))
       (\<lambda>wr_id. pret (command_state\<lparr>pc_payload_wr_id := wr_id, pc_payload_pending := True\<rparr>))"

definition post_descriptors :: "'w ibverbs \<Rightarrow> nat \<Rightarrow> StorageMemory \<Rightarrow> PendingCommand \<Rightarrow> (Transport \<times> 'w, PendingCommand) pcomp" where
  "post_descriptors lib qp_index entries command_state =
     pbind (transport_post_read lib qp_index (wsl_entry_region (pc_slot command_state)) (m_address entries) (m_remote_key entries)
              (pc_entry_count command_state * kStorageBatchEntryBytes))
       (\<lambda>wr_id. pret (command_state\<lparr>pc_descriptor_wr_id := wr_id, pc_descriptor_pending := True\<rparr>))"

text \<open>The first loop: wait for a command, decode it, and post its payload or the read of its descriptors.\<close>

definition receive_command :: "'w process \<Rightarrow> 'w ibverbs \<Rightarrow> MemoryRegion \<Rightarrow> u64 \<Rightarrow> nat \<Rightarrow> u32 \<Rightarrow> WorkerSlot \<Rightarrow>
    (Transport \<times> 'w, PendingCommand) pcomp" where
  "receive_command proc lib storage_region capacity qp_index timeout_ms slot =
     pbind (transport_wait_receive lib qp_index timeout_ms) (\<lambda>_ (t, w).
       case decode_command slot storage_region capacity (mem_get proc (wsl_command_bytes slot) 64 w) of
         Inl err \<Rightarrow> Some (Inl err, (t, w))
       | Inr (command_state, Some entries) \<Rightarrow> post_descriptors lib qp_index entries command_state (t, w)
       | Inr (command_state, None) \<Rightarrow>
           if c_status (pc_completion command_state) = StatusSuccess then post_payload lib qp_index command_state (t, w)
           else Some (Inr command_state, (t, w)))"

text \<open>Decoding one descriptor of a batch: offset, length and client memory.\<close>

definition decode_entry :: "bool \<Rightarrow> u8 list \<Rightarrow> (u64 \<times> u64 \<times> StorageMemory) option" where
  "decode_entry storage_read bytes =
     (if storage_read then
        (case deserialize_storage_batch_read_entry (Some bytes) kStorageBatchEntryBytes
                (Some \<lparr>bre_offset = 0, bre_length = 0, bre_data = zero_storage_memory\<rparr>) of
           (result, entry) \<Rightarrow>
             if result \<noteq> SerdeOk then None else Some (bre_offset (the entry), bre_length (the entry), bre_data (the entry)))
      else
        (case deserialize_storage_batch_write_entry (Some bytes) kStorageBatchEntryBytes
                (Some \<lparr>bwe_offset = 0, bwe_length = 0, bwe_data = zero_storage_memory\<rparr>) of
           (result, entry) \<Rightarrow>
             if result \<noteq> SerdeOk then None else Some (bwe_offset (the entry), bwe_length (the entry), bwe_data (the entry))))"

text \<open>The loop over the descriptors, from the descriptor \<open>index\<close> on: status, total length and transfers.\<close>

fun expand_entries :: "bool \<Rightarrow> MemoryRegion \<Rightarrow> u64 \<Rightarrow> u8 list \<Rightarrow> nat \<Rightarrow> nat \<Rightarrow> u64 \<Rightarrow> TransferRequest list \<Rightarrow>
    StorageStatus \<times> u64 \<times> TransferRequest list" where
  "expand_entries storage_read storage_region capacity bytes 0 index total_length requests =
     (StatusSuccess, total_length, requests)"
| "expand_entries storage_read storage_region capacity bytes (Suc n) index total_length requests =
     (case decode_entry storage_read (take 40 (drop (index * 40) bytes)) of
        None \<Rightarrow> (StatusInvalidCommand, total_length, requests)
      | Some (offset, len, data) \<Rightarrow>
          if out_of_range capacity offset len \<or> len > UINT64_MAX - total_length
          then (StatusRangeError, total_length, requests)
          else expand_entries storage_read storage_region capacity bytes n (Suc index) (total_length + len)
                 (requests @ [namespace_transfer storage_region offset len data]))"

text \<open>What the fetched descriptors make of a batch command.\<close>

definition expand_batch :: "MemoryRegion \<Rightarrow> u64 \<Rightarrow> u8 list \<Rightarrow> PendingCommand \<Rightarrow> PendingCommand" where
  "expand_batch storage_region capacity bytes command_state =
     (case expand_entries (pc_storage_read command_state) storage_region capacity bytes
             (unat (pc_entry_count command_state)) 0 0 (pc_requests command_state) of
        (status, total_length, requests) \<Rightarrow>
          (let status = (if status = StatusSuccess \<and> total_length \<noteq> pc_total_length command_state
                         then StatusInvalidCommand else status);
               completion = (pc_completion command_state)\<lparr>c_status := status\<rparr>
           in command_state\<lparr>pc_requests := requests,
                pc_completion := (if status \<noteq> StatusSuccess then completion
                                  else completion\<lparr>c_bytes_transferred := total_length\<rparr>)\<rparr>))"

definition serve_batch :: "'w process \<Rightarrow> 'w ibverbs \<Rightarrow> MemoryRegion \<Rightarrow> u64 \<Rightarrow> nat \<Rightarrow> u32 \<Rightarrow> PendingCommand \<Rightarrow>
    (Transport \<times> 'w, PendingCommand) pcomp" where
  "serve_batch proc lib storage_region capacity qp_index timeout_ms command_state =
     (if \<not> pc_descriptor_pending command_state then pret command_state
      else
        pbind (transport_wait_read lib qp_index (pc_descriptor_wr_id command_state) timeout_ms) (\<lambda>_ (t, w).
          (let command_state = expand_batch storage_region capacity
                 (mem_get proc (wsl_entry_bytes (pc_slot command_state)) (unat (pc_entry_count command_state) * 40) w)
                 command_state
           in if c_status (pc_completion command_state) \<noteq> StatusSuccess then Some (Inr command_state, (t, w))
              else post_payload lib qp_index command_state (t, w))))"

definition wait_payload :: "'w ibverbs \<Rightarrow> nat \<Rightarrow> u32 \<Rightarrow> PendingCommand \<Rightarrow> (Transport \<times> 'w, unit) pcomp" where
  "wait_payload lib qp_index timeout_ms command_state =
     (if \<not> pc_payload_pending command_state then pret ()
      else if pc_storage_read command_state
      then wait_write_batch lib qp_index (pc_payload_wr_id command_state) timeout_ms
      else wait_read_batch lib qp_index (pc_payload_wr_id command_state) timeout_ms)"

definition post_completion :: "'w process \<Rightarrow> 'w ibverbs \<Rightarrow> StorageSlot list \<Rightarrow> nat \<Rightarrow> PendingCommand \<Rightarrow>
    (Transport \<times> 'w, PendingCommand) pcomp" where
  "post_completion proc lib slots qp_index command_state = (\<lambda>(t, w).
     let slot = pc_slot command_state in
     case serialize_storage_completion (pc_completion command_state) (Some (mem_get proc (wsl_completion_bytes slot) 32 w)) 32 of
       (result, bytes) \<Rightarrow>
         if result \<noteq> SerdeOk then Some (Inl kProtocol, (t, w))
         else
           (let w = mem_put proc (wsl_completion_bytes slot) (the bytes) w;
                remote_completion = s_completion (slots ! wsl_slot_index slot)
            in pbind (transport_post_write lib qp_index (wsl_completion_region slot) (m_address remote_completion)
                        (m_remote_key remote_completion) 32)
                 (\<lambda>wr_id. pret (command_state\<lparr>pc_completion_wr_id := wr_id\<rparr>)) (t, w)))"

text \<open>One pass of the outer loop over the first \<open>window\<close> slots; \<open>commands_left\<close> tells whether commands remain after it.\<close>

definition serve_window :: "'w process \<Rightarrow> 'w ibverbs \<Rightarrow> StorageSlot list \<Rightarrow> MemoryRegion \<Rightarrow> u64 \<Rightarrow> Worker \<Rightarrow> u32 \<Rightarrow> nat \<Rightarrow> bool \<Rightarrow>
    (Transport \<times> 'w, unit) pcomp" where
  "serve_window proc lib slots storage_region capacity worker timeout_ms window commands_left =
     (let qp = wk_qp_index worker in
      pbind (pcollect (take window (wk_slots worker)) (receive_command proc lib storage_region capacity qp timeout_ms)) (\<lambda>pending.
      pbind (pcollect pending (serve_batch proc lib storage_region capacity qp timeout_ms)) (\<lambda>pending.
      pbind (pfor pending (wait_payload lib qp timeout_ms)) (\<lambda>_.
      pbind (pcollect pending (post_completion proc lib slots qp)) (\<lambda>pending.
      pbind (pfor pending (\<lambda>command_state. transport_wait_write lib qp (pc_completion_wr_id command_state) timeout_ms)) (\<lambda>_.
      if commands_left
      then pfor pending (\<lambda>command_state. transport_post_receive lib qp (wsl_command_region (pc_slot command_state)))
      else pret ()))))))"

text \<open>
  The outer loop, over the commands that remain. With no active slot and commands left the
  source would loop forever, which is \<open>None\<close>.
\<close>

function serve_windows :: "'w process \<Rightarrow> 'w ibverbs \<Rightarrow> StorageSlot list \<Rightarrow> MemoryRegion \<Rightarrow> u64 \<Rightarrow> Worker \<Rightarrow> u32 \<Rightarrow> nat \<Rightarrow> nat \<Rightarrow>
    (Transport \<times> 'w, unit) pcomp" where
  "serve_windows proc lib slots storage_region capacity worker timeout_ms active_slots remaining =
     (if remaining = 0 then pret ()
      else if active_slots = 0 then (\<lambda>_. None)
      else
        (let window = min active_slots remaining
         in pbind (serve_window proc lib slots storage_region capacity worker timeout_ms window (window < remaining))
              (\<lambda>_. serve_windows proc lib slots storage_region capacity worker timeout_ms active_slots (remaining - window))))"
  by pat_completeness auto

termination serve_windows
  by (relation "measure (\<lambda>(_, _, _, _, _, _, _, _, remaining). remaining)") auto

declare serve_windows.simps [simp del]

definition run_worker :: "'w process \<Rightarrow> 'w ibverbs \<Rightarrow> u64 \<Rightarrow> StorageSlot list \<Rightarrow> MemoryRegion \<Rightarrow> Worker \<Rightarrow> u32 \<Rightarrow>
    (Transport \<times> 'w, unit) pcomp" where
  "run_worker proc lib capacity slots storage_region worker timeout_ms =
     (if wk_slots worker = [] then pfail kInvalidArgument
      else
        (let active_slots = min (unat (wk_command_count worker)) (length (wk_slots worker))
         in pbind (pfor (take active_slots (wk_slots worker))
                     (\<lambda>slot. transport_post_receive lib (wk_qp_index worker) (wsl_command_region slot)))
              (\<lambda>_. serve_windows proc lib slots storage_region capacity worker timeout_ms active_slots
                     (unat (wk_command_count worker)))))"

section \<open>The service\<close>

text \<open>The commands that a worker serves: an even share, the first workers one more.\<close>

definition worker_share :: "u32 \<Rightarrow> nat \<Rightarrow> nat \<Rightarrow> u32" where
  "worker_share command_count workers index =
     of_nat (unat command_count div workers + (if index < unat command_count mod workers then 1 else 0))"

text \<open>
  Preparing a worker slot registers its three buffers; a failure leaves the regions registered
  so far in the slot, which the caller's objects release.
\<close>

definition empty_worker_slot :: "nat \<Rightarrow> WorkerSlot" where
  "empty_worker_slot slot_index =
     \<lparr>wsl_slot_index = slot_index, wsl_command_bytes = 0, wsl_completion_bytes = 0, wsl_entry_bytes = 0,
      wsl_command_region = empty_region, wsl_completion_region = empty_region, wsl_entry_region = empty_region\<rparr>"

definition place_worker_slot :: "'w process \<Rightarrow> nat \<Rightarrow> 'w \<Rightarrow> WorkerSlot \<times> 'w" where
  "place_worker_slot proc slot_index w =
     (case new_buffer proc 64 w of (command, w) \<Rightarrow>
      case new_buffer proc 32 w of (completion, w) \<Rightarrow>
      case new_buffer proc (1024 * 40) w of (entries, w) \<Rightarrow>
        ((empty_worker_slot slot_index)\<lparr>wsl_command_bytes := command, wsl_completion_bytes := completion,
            wsl_entry_bytes := entries\<rparr>, w))"

definition register_worker_slot :: "'w ibverbs \<Rightarrow> WorkerSlot \<Rightarrow> Transport \<times> 'w \<Rightarrow> unit result \<times> WorkerSlot \<times> Transport \<times> 'w" where
  "register_worker_slot lib slot s =
     (case register_memory lib (wsl_command_bytes slot) 64 LocalWrite s of
        (Inl err, s) \<Rightarrow> (Inl err, slot, s)
      | (Inr region, s) \<Rightarrow>
     (let slot = slot\<lparr>wsl_command_region := region\<rparr> in
      case register_memory lib (wsl_completion_bytes slot) 32 LocalRead s of
        (Inl err, s) \<Rightarrow> (Inl err, slot, s)
      | (Inr region, s) \<Rightarrow>
     (let slot = slot\<lparr>wsl_completion_region := region\<rparr> in
      case register_memory lib (wsl_entry_bytes slot) (1024 * 40) LocalWrite s of
        (Inl err, s) \<Rightarrow> (Inl err, slot, s)
      | (Inr region, s) \<Rightarrow> (Inr (), slot\<lparr>wsl_entry_region := region\<rparr>, s))))"

text \<open>The loop over the slot table for one worker, and the loop over the workers, with what is built so far.\<close>

fun build_worker_slots :: "'w process \<Rightarrow> 'w ibverbs \<Rightarrow> nat \<Rightarrow> (nat \<times> StorageSlot) list \<Rightarrow> WorkerSlot list \<Rightarrow> Transport \<times> 'w \<Rightarrow>
    unit result \<times> WorkerSlot list \<times> Transport \<times> 'w" where
  "build_worker_slots proc lib index [] built s = (Inr (), built, s)"
| "build_worker_slots proc lib index ((slot_index, slot) # table) built (t, w) =
     (if unat (s_qp_index slot) \<noteq> index then build_worker_slots proc lib index table built (t, w)
      else case place_worker_slot proc slot_index w of
        (worker_slot, w) \<Rightarrow>
          (case register_worker_slot lib worker_slot (t, w) of
             (Inl err, worker_slot, s) \<Rightarrow> (Inl err, built @ [worker_slot], s)
           | (Inr _, worker_slot, s) \<Rightarrow> build_worker_slots proc lib index table (built @ [worker_slot]) s))"

definition empty_worker :: Worker where
  "empty_worker = \<lparr>wk_qp_index = 0, wk_command_count = 0, wk_cpu_id = -1, wk_slots = []\<rparr>"

definition build_worker :: "'w process \<Rightarrow> 'w ibverbs \<Rightarrow> StorageSlot list \<Rightarrow> u32 \<Rightarrow> nat \<Rightarrow> nat \<Rightarrow> Transport \<times> 'w \<Rightarrow>
    unit result \<times> Worker \<times> Transport \<times> 'w" where
  "build_worker proc lib slots command_count workers index s =
     (let worker = empty_worker\<lparr>wk_qp_index := index, wk_command_count := worker_share command_count workers index\<rparr>
      in if wk_command_count worker = 0 then (Inr (), worker, s)
         else case build_worker_slots proc lib index (enumerate 0 slots) [] s of
           (r, built, s) \<Rightarrow>
             (let worker = worker\<lparr>wk_slots := built\<rparr>
              in case r of
                   Inl err \<Rightarrow> (Inl err, worker, s)
                 | Inr _ \<Rightarrow> if built = [] then (Inl kProtocol, worker, s) else (Inr (), worker, s)))"

fun build_workers :: "'w process \<Rightarrow> 'w ibverbs \<Rightarrow> StorageSlot list \<Rightarrow> u32 \<Rightarrow> nat \<Rightarrow> nat list \<Rightarrow> Worker list \<Rightarrow> Transport \<times> 'w \<Rightarrow>
    unit result \<times> Worker list \<times> Transport \<times> 'w" where
  "build_workers proc lib slots command_count workers [] built s = (Inr (), built, s)"
| "build_workers proc lib slots command_count workers (index # indices) built s =
     (case build_worker proc lib slots command_count workers index s of
        (Inl err, worker, s) \<Rightarrow> (Inl err, built @ [worker], s)
      | (Inr _, worker, s) \<Rightarrow> build_workers proc lib slots command_count workers indices (built @ [worker]) s)"

text \<open>The regions of the workers' slots are released with the vector that holds them.\<close>

definition release_worker_slot :: "'w ibverbs \<Rightarrow> WorkerSlot \<Rightarrow> 'w \<Rightarrow> 'w" where
  "release_worker_slot lib slot w =
     region_destroy lib (wsl_command_region slot)
       (region_destroy lib (wsl_completion_region slot) (region_destroy lib (wsl_entry_region slot) w))"

definition release_workers :: "'w ibverbs \<Rightarrow> Worker list \<Rightarrow> 'w \<Rightarrow> 'w" where
  "release_workers lib workers w = fold (release_worker_slot lib) (concat (map wk_slots workers)) w"

text \<open>One allowed CPU for each worker that has commands.\<close>

fun assign_cpus :: "int list \<Rightarrow> Worker list \<Rightarrow> Worker list result" where
  "assign_cpus cpus [] = Inr []"
| "assign_cpus cpus (worker # workers) =
     (if wk_command_count worker = 0
      then (case assign_cpus cpus workers of Inl err \<Rightarrow> Inl err | Inr ws \<Rightarrow> Inr (worker # ws))
      else case cpus of
        [] \<Rightarrow> Inl kRuntime
      | cpu # cpus \<Rightarrow>
          (case assign_cpus cpus workers of Inl err \<Rightarrow> Inl err | Inr ws \<Rightarrow> Inr (worker\<lparr>wk_cpu_id := cpu\<rparr> # ws)))"

text \<open>The threads, one after another: a thread that starts after a failure returns at once.\<close>

fun run_threads :: "'w process \<Rightarrow> 'w ibverbs \<Rightarrow> u64 \<Rightarrow> StorageSlot list \<Rightarrow> MemoryRegion \<Rightarrow> u32 \<Rightarrow> Worker list \<Rightarrow> ErrorCode option \<Rightarrow>
    (Transport \<times> 'w, unit) pcomp" where
  "run_threads proc lib capacity slots storage_region timeout_ms [] first_error =
     (case first_error of None \<Rightarrow> pret () | Some err \<Rightarrow> pfail err)"
| "run_threads proc lib capacity slots storage_region timeout_ms (worker # workers) first_error = (\<lambda>(t, w).
     if first_error \<noteq> None then run_threads proc lib capacity slots storage_region timeout_ms workers first_error (t, w)
     else case pin_to_cpu proc (wk_cpu_id worker) w of
       (Inl err, w) \<Rightarrow> run_threads proc lib capacity slots storage_region timeout_ms workers (Some err) (t, w)
     | (Inr _, w) \<Rightarrow>
         (case run_worker proc lib capacity slots storage_region worker timeout_ms (t, w) of
            None \<Rightarrow> None
          | Some (Inl err, s) \<Rightarrow> run_threads proc lib capacity slots storage_region timeout_ms workers (Some err) s
          | Some (Inr _, s) \<Rightarrow> run_threads proc lib capacity slots storage_region timeout_ms workers None s))"

definition run_workers :: "'w process \<Rightarrow> 'w ibverbs \<Rightarrow> (Worker list \<Rightarrow> Worker list) \<Rightarrow> u64 \<Rightarrow> StorageSlot list \<Rightarrow> MemoryRegion \<Rightarrow>
    u32 \<Rightarrow> u32 \<Rightarrow> (Transport \<times> 'w, unit) pcomp" where
  "run_workers proc lib schedule capacity slots storage_region command_count timeout_ms = (\<lambda>(t, w).
     let qps = transport_qp_count t in
     case build_workers proc lib slots command_count qps [0..<qps] [] (t, w) of
       (r, workers, (t, w)) \<Rightarrow>
         (let release = (\<lambda>(r, (t, w)). (r, (t, release_workers lib workers w)))
          in case r of
               Inl err \<Rightarrow> Some (release (Inl err, (t, w)))
             | Inr _ \<Rightarrow>
                 (case allowed_cpus proc w of
                    (Inl err, w) \<Rightarrow> Some (release (Inl err, (t, w)))
                  | (Inr worker_cpus, w) \<Rightarrow>
                      (case assign_cpus worker_cpus workers of
                         Inl err \<Rightarrow> Some (release (Inl err, (t, w)))
                       | Inr workers \<Rightarrow>
                           map_option release
                             (run_threads proc lib capacity slots storage_region timeout_ms
                                (schedule (filter (\<lambda>worker. wk_command_count worker \<noteq> 0) workers)) None (t, w))))))"

text \<open>
  \<open>serve_commands\<close>, with the transport as the state and the namespace given by the address and
  the size of its vector; both are objects here, so that the two null checks do not arise.
\<close>

definition serve_commands :: "endian \<Rightarrow> 'w process \<Rightarrow> 'w ibverbs \<Rightarrow> (Worker list \<Rightarrow> Worker list) \<Rightarrow> u64 \<Rightarrow> u64 \<Rightarrow> u32 \<Rightarrow> u32 \<Rightarrow>
    (Transport \<times> 'w, unit) pcomp" where
  "serve_commands e proc lib schedule storage_data storage_size command_count timeout_ms = (\<lambda>(t, w).
     if command_count = 0 \<or> transport_qp_count t = 0 then Some (Inl kInvalidArgument, (t, w))
     else case new_buffer proc 96 w of
       (bootstrap_bytes, w) \<Rightarrow>
         (case register_memory lib bootstrap_bytes 96 LocalWrite (t, w) of
            (Inl err, s) \<Rightarrow> Some (Inl err, s)
          | (Inr bootstrap_region, s) \<Rightarrow>
              scoped_region lib bootstrap_region
                (pbind (transport_post_receive lib 0 bootstrap_region) (\<lambda>_.
                 pbind (transport_wait_receive lib 0 timeout_ms) (\<lambda>_.
                 pbind (\<lambda>(t, w). exchange_bootstrap proc lib (mem_get proc bootstrap_bytes 96 w) storage_size (t, w)) (\<lambda>bootstrap.
                 pbind (fetch_slots e proc lib bootstrap) (\<lambda>slots.
                 pbind (plift (register_memory lib storage_data storage_size LocalWrite)) (\<lambda>storage_region.
                 scoped_region lib storage_region
                   (run_workers proc lib schedule storage_size slots storage_region command_count timeout_ms))))))) s))"

section \<open>What a command may transfer\<close>

definition in_namespace :: "MemoryRegion \<Rightarrow> u64 \<Rightarrow> TransferRequest \<Rightarrow> bool" where
  "in_namespace storage_region capacity request \<longleftrightarrow>
     tr_local request = Some storage_region \<and> unat (tr_local_offset request) + unat (tr_length request) \<le> unat capacity"

definition payload_bytes :: "TransferRequest list \<Rightarrow> nat" where
  "payload_bytes requests = sum_list (map (\<lambda>request. unat (tr_length request)) requests)"

lemma payload_bytes_simps [simp]:
  "payload_bytes [] = 0" "payload_bytes (xs @ [x]) = payload_bytes xs + unat (tr_length x)"
  by (simp_all add: payload_bytes_def)

lemma in_range_transfer:
  assumes "\<not> out_of_range capacity offset len"
  shows "in_namespace storage_region capacity (namespace_transfer storage_region offset len data)"
    and "unat (tr_length (namespace_transfer storage_region offset len data)) = unat len"
proof -
  from assms have "len \<le> ucast UINT32_MAX" and g: "offset \<le> capacity \<and> len \<le> capacity - offset"
    by (auto simp: out_of_range_def not_less)
  then have "unat len < 2 ^ 32" by (simp add: word_le_nat_alt)
  then have "unat (ucast len :: u32) = unat len" by (simp add: unsigned_ucast_eq take_bit_nat_eq_self)
  with g [unfolded range_guard_unat] show
    "in_namespace storage_region capacity (namespace_transfer storage_region offset len data)"
    "unat (tr_length (namespace_transfer storage_region offset len data)) = unat len"
    by (simp_all add: in_namespace_def namespace_transfer_def)
qed

text \<open>The loop over the descriptors of a batch.\<close>

lemma expand_entries_sound:
  assumes "expand_entries rd region capacity bytes n index acc requests = (status, acc', requests')"
    and "list_all (in_namespace region capacity) requests" and "unat acc = payload_bytes requests"
  shows "list_all (in_namespace region capacity) requests' \<and> unat acc' = payload_bytes requests'
    \<and> status \<in> {StatusSuccess, StatusInvalidCommand, StatusRangeError}
    \<and> (status = StatusSuccess \<longrightarrow> length requests' = length requests + n)"
  using assms
proof (induction n arbitrary: index acc requests)
  case (Suc n)
  show ?case
  proof (cases "\<exists>offset len data. decode_entry rd (take 40 (drop (index * 40) bytes)) = Some (offset, len, data)
      \<and> \<not> out_of_range capacity offset len \<and> len \<le> UINT64_MAX - acc")
    case True
    then obtain offset len data where d: "decode_entry rd (take 40 (drop (index * 40) bytes)) = Some (offset, len, data)"
      "\<not> out_of_range capacity offset len" "len \<le> UINT64_MAX - acc" by blast
    let ?r = "namespace_transfer region offset len data"
    have "unat (acc + len) = payload_bytes (requests @ [?r])"
      using d(3) Suc.prems(3) in_range_transfer(2) [OF d(2), of region data]
      by (simp add: add_guard_unat unat_add_small ac_simps)
    with Suc.IH [of "Suc index" "acc + len" "requests @ [?r]"] Suc.prems d in_range_transfer(1) [OF d(2)]
    show ?thesis by (simp add: leD)
  next
    case False
    with Suc.prems show ?thesis
      by (auto simp: storage_status_defs not_less split: option.splits prod.splits if_splits)
  qed
qed auto

text \<open>
  A served command: its transfers lie in the namespace, its completion is complete and encodable,
  and reports the bytes of its transfers exactly when they were posted.
\<close>

definition served :: "MemoryRegion \<Rightarrow> u64 \<Rightarrow> PendingCommand \<Rightarrow> bool" where
  "served storage_region capacity c \<longleftrightarrow>
     list_all (in_namespace storage_region capacity) (pc_requests c)
     \<and> completion_valid (pc_completion c) \<and> c_state (pc_completion c) = StateComplete
     \<and> pc_payload_pending c = (c_status (pc_completion c) = StatusSuccess)
     \<and> unat (c_bytes_transferred (pc_completion c)) = (if pc_payload_pending c then payload_bytes (pc_requests c) else 0)
     \<and> (pc_batch c \<longrightarrow> pc_payload_pending c \<longrightarrow>
          c_bytes_transferred (pc_completion c) = pc_total_length c \<and> length (pc_requests c) = unat (pc_entry_count c))"

text \<open>A batch whose descriptors are still on their way.\<close>

definition awaiting :: "PendingCommand \<Rightarrow> bool" where
  "awaiting c \<longleftrightarrow> pc_batch c \<and> pc_requests c = [] \<and> \<not> pc_payload_pending c \<and> c_command_id (pc_completion c) \<noteq> 0
     \<and> pc_completion c = \<lparr>c_command_id = c_command_id (pc_completion c), c_state = StateComplete, c_status = StatusSuccess,
          c_bytes_transferred = 0\<rparr>"

text \<open>The same before the payload is posted.\<close>

definition decoded :: "MemoryRegion \<Rightarrow> u64 \<Rightarrow> PendingCommand \<Rightarrow> bool" where
  "decoded storage_region capacity c \<longleftrightarrow> \<not> pc_payload_pending c \<and>
     served storage_region capacity (c\<lparr>pc_payload_pending := (c_status (pc_completion c) = StatusSuccess)\<rparr>)"

lemma expand_batch_decoded:
  assumes "awaiting c"
  shows "decoded region capacity (expand_batch region capacity bytes c)"
proof -
  obtain status acc requests where e: "expand_entries (pc_storage_read c) region capacity bytes (unat (pc_entry_count c)) 0 0 []
      = (status, acc, requests)" by (metis surj_pair)
  note snd = expand_entries_sound [OF e]
  have c: "pc_requests c = []" "pc_batch c" "\<not> pc_payload_pending c" "c_command_id (pc_completion c) \<noteq> 0"
    "c_state (pc_completion c) = StateComplete" "c_bytes_transferred (pc_completion c) = 0"
    using assms unfolding awaiting_def by (metis StorageCompletion.select_convs)+
  show ?thesis
    using snd c by (auto simp: expand_batch_def e decoded_def served_def completion_invalid_def storage_status_defs Let_def)
qed

lemma single_range_decoded:
  assumes "cid \<noteq> 0" and "\<not> pc_payload_pending c" and "pc_requests c = []" and "\<not> pc_batch c"
    and "pc_completion c = \<lparr>c_command_id = 0, c_state = StateComplete, c_status = StatusSuccess, c_bytes_transferred = 0\<rparr>"
  shows "decoded region capacity (single_range region capacity offset len data (with_command_id cid c))"
  using assms in_range_transfer [of capacity offset len region data]
  by (auto simp: single_range_def with_command_id_def decoded_def served_def completion_invalid_def storage_status_defs
      payload_bytes_def)

text \<open>Decoding yields a command that waits for its descriptors or is ready to be posted.\<close>

lemma deserialize_some:
  "deserialize_storage_read (Some b) sz (Some r) = (SerdeOk, c1) \<Longrightarrow> \<exists>x. c1 = Some x"
  "deserialize_storage_write (Some b) sz (Some w) = (SerdeOk, c2) \<Longrightarrow> \<exists>x. c2 = Some x"
  "deserialize_storage_batch_read (Some b) sz (Some br) = (SerdeOk, c3) \<Longrightarrow> \<exists>x. c3 = Some x"
  "deserialize_storage_batch_write (Some b) sz (Some bw) = (SerdeOk, c4) \<Longrightarrow> \<exists>x. c4 = Some x"
  by (auto simp: deserialize_storage_read_def deserialize_storage_write_def deserialize_storage_batch_read_def
      deserialize_storage_batch_write_def deserialize_command_def Let_def split: if_splits StorageSerdeResult.splits)

lemma decoded_ids:
  "deserialize_storage_read bytes sz out1 = (SerdeOk, Some r) \<Longrightarrow> r_command_id r \<noteq> 0"
  "deserialize_storage_write bytes sz out2 = (SerdeOk, Some w) \<Longrightarrow> w_command_id w \<noteq> 0"
  "deserialize_storage_batch_read bytes sz out3 = (SerdeOk, Some br) \<Longrightarrow> br_command_id br \<noteq> 0"
  "deserialize_storage_batch_write bytes sz out4 = (SerdeOk, Some bw) \<Longrightarrow> bw_command_id bw \<noteq> 0"
  using read_codec.dec_valid [of bytes sz out1 r] write_codec.dec_valid [of bytes sz out2 w]
  by (auto simp: valid_defs deserialize_storage_batch_read_ok_iff deserialize_storage_batch_write_ok_iff out_defs
      dest: deserialize_command_okD)

lemma decoded_some:
  "deserialize_storage_read (Some b) sz (Some r) = (SerdeOk, c1) \<Longrightarrow> \<exists>x. c1 = Some x \<and> r_command_id x \<noteq> 0"
  "deserialize_storage_write (Some b) sz (Some w) = (SerdeOk, c2) \<Longrightarrow> \<exists>x. c2 = Some x \<and> w_command_id x \<noteq> 0"
  "deserialize_storage_batch_read (Some b) sz (Some br) = (SerdeOk, c3) \<Longrightarrow> \<exists>x. c3 = Some x \<and> br_command_id x \<noteq> 0"
  "deserialize_storage_batch_write (Some b) sz (Some bw) = (SerdeOk, c4) \<Longrightarrow> \<exists>x. c4 = Some x \<and> bw_command_id x \<noteq> 0"
  by (blast dest: deserialize_some decoded_ids)+

text \<open>The two shapes of a decoded command.\<close>

definition range_command :: "WorkerSlot \<Rightarrow> MemoryRegion \<Rightarrow> u64 \<Rightarrow> bool \<Rightarrow> u64 \<Rightarrow> u64 \<Rightarrow> u64 \<Rightarrow> StorageMemory \<Rightarrow> PendingCommand" where
  "range_command slot region capacity rd cid offset len data =
     single_range region capacity offset len data (with_command_id cid (new_pending slot)\<lparr>pc_storage_read := rd\<rparr>)"

definition batch_command :: "WorkerSlot \<Rightarrow> bool \<Rightarrow> u64 \<Rightarrow> u32 \<Rightarrow> u64 \<Rightarrow> PendingCommand" where
  "batch_command slot rd cid n len =
     (with_command_id cid (new_pending slot))\<lparr>pc_storage_read := rd, pc_batch := True, pc_entry_count := n, pc_total_length := len\<rparr>"

lemma decode_command_cases:
  assumes "decode_command slot region capacity bytes = Inr (c, entries)"
  shows "(\<exists>rd cid offset len data. cid \<noteq> 0 \<and> entries = None \<and> c = range_command slot region capacity rd cid offset len data)
    \<or> (\<exists>rd cid n len. cid \<noteq> 0 \<and> entries \<noteq> None \<and> c = batch_command slot rd cid n len)"
proof -
  obtain operation where o: "deserialize_storage_operation (Some bytes) 64 (Some OpRead) = (SerdeOk, operation)"
    using assms by (auto simp: decode_command_def split: prod.splits if_splits)
  have keep: "x\<lparr>pc_storage_read := False\<rparr> = x" if "\<not> pc_storage_read x" for x :: PendingCommand using that by simp
  have fresh: "\<not> pc_storage_read (new_pending slot)" "\<not> pc_storage_read (with_command_id i (new_pending slot))" for i
    by (simp_all add: new_pending_def with_command_id_def)
  note cmd = assms [unfolded decode_command_def o]
  show ?thesis
  proof (cases "the operation")
    case OpRead
    with cmd show ?thesis
      by (auto simp: Let_def range_command_def [symmetric] split: prod.splits if_splits dest!: decoded_some(1)) blast
  next
    case OpWrite
    have "single_range region capacity offset len data (with_command_id cid (new_pending slot)) =
        range_command slot region capacity False cid offset len data" for cid offset len data
      using keep [OF fresh(2)] by (simp add: range_command_def)
    with OpWrite cmd show ?thesis
      by (auto simp: Let_def split: prod.splits if_splits dest!: decoded_some(2)) blast
  next
    case OpBatchRead
    with cmd show ?thesis
      by (auto simp: Let_def batch_command_def [symmetric] split: prod.splits if_splits dest!: decoded_some(3)) blast
  next
    case OpBatchWrite
    have "(with_command_id cid (new_pending slot))\<lparr>pc_batch := True, pc_entry_count := n, pc_total_length := len\<rparr> =
        batch_command slot False cid n len" for cid n len
      using keep [OF fresh(2)] by (simp add: batch_command_def)
    with OpBatchWrite cmd show ?thesis
      by (auto simp: Let_def split: prod.splits if_splits dest!: decoded_some(4)) blast
  qed
qed

lemma range_command_decoded:
  "cid \<noteq> 0 \<Longrightarrow> decoded region capacity (range_command slot region capacity rd cid offset len data)"
  using single_range_decoded [of cid "(new_pending slot)\<lparr>pc_storage_read := rd\<rparr>" region capacity offset len data]
  by (simp add: range_command_def new_pending_def with_command_id_def)

lemma batch_command_awaiting: "cid \<noteq> 0 \<Longrightarrow> awaiting (batch_command slot rd cid n len)"
  by (simp add: batch_command_def awaiting_def with_command_id_def new_pending_def)

lemma command_shape_frame [simp]:
  "\<not> pc_descriptor_pending (range_command slot region capacity rd cid offset len data)"
  "pc_slot (range_command slot region capacity rd cid offset len data) = slot"
  "pc_slot (batch_command slot rd' cid' n len') = slot"
  by (simp_all add: range_command_def batch_command_def single_range_def with_command_id_def new_pending_def)

section \<open>The phases of a window\<close>

text \<open>A command after the first phase.\<close>

definition received :: "MemoryRegion \<Rightarrow> u64 \<Rightarrow> PendingCommand \<Rightarrow> bool" where
  "received region capacity c \<longleftrightarrow>
     (if pc_descriptor_pending c then awaiting c else served region capacity c)"

lemma post_payload_served:
  assumes "decoded region capacity c" and "c_status (pc_completion c) = StatusSuccess"
  shows "ptriple (\<lambda>_. True) (post_payload lib qp c)
    (\<lambda>c' _. served region capacity c' \<and> pc_slot c' = pc_slot c \<and> pc_descriptor_pending c' = pc_descriptor_pending c) (\<lambda>_. True)"
  using assms
  by (auto simp: post_payload_def ptriple_def pbind_def decoded_def served_def split: option.splits sum.splits)

lemma receive_command_received:
  "ptriple (\<lambda>_. True) (receive_command proc lib region capacity qp timeout_ms slot)
     (\<lambda>c _. received region capacity c \<and> pc_slot c = slot) (\<lambda>_. True)"
proof -
  have "case receive_command proc lib region capacity qp timeout_ms slot s of
      Some (Inr c, _) \<Rightarrow> received region capacity c \<and> pc_slot c = slot | _ \<Rightarrow> True" for s
  proof (cases "transport_wait_receive lib qp timeout_ms s")
    case (Some run)
    obtain r t w where run: "run = (r, (t, w))" by (metis surj_pair)
    show ?thesis
    proof (cases r)
      case (Inr u)
      let ?d = "decode_command slot region capacity (mem_get proc (wsl_command_bytes slot) 64 w)"
      show ?thesis
      proof (cases ?d)
        case (Inl err)
        with Some run Inr show ?thesis by (simp add: receive_command_def pbind_def)
      next
        case d: (Inr ce)
        obtain c entries where ce: "ce = (c, entries)" by fastforce
        note next_step = Some run Inr d ce
        from decode_command_cases [OF d [unfolded ce]] show ?thesis
        proof (elim disjE exE conjE)
          fix rd cid n len assume c: "cid \<noteq> (0 :: u64)" "entries \<noteq> None" "c = batch_command slot rd cid n len"
          with batch_command_awaiting [OF c(1)] next_step show ?thesis
            by (auto simp: receive_command_def pbind_def post_descriptors_def received_def awaiting_def
                split: option.splits sum.splits prod.splits)
        next
          fix rd cid offset len data
          assume c: "cid \<noteq> (0 :: u64)" "entries = None" "c = range_command slot region capacity rd cid offset len data"
          have dec: "decoded region capacity c" "pc_slot c = slot" "\<not> pc_descriptor_pending c"
            using range_command_decoded [OF c(1)] c(3) by simp_all
          show ?thesis
          proof (cases "c_status (pc_completion c) = StatusSuccess")
            case True
            note post = ptripleD(1) [OF post_payload_served [OF dec(1) True, of lib qp], OF TrueI]
            from True next_step c(2) dec show ?thesis
              by (auto simp: receive_command_def pbind_def received_def split: option.splits sum.splits prod.splits dest!: post)
          next
            case False
            with dec next_step c show ?thesis
              by (auto simp: receive_command_def pbind_def received_def decoded_def served_def)
          qed
        qed
      qed
    qed (use Some run in \<open>simp add: receive_command_def pbind_def\<close>)
  qed (simp add: receive_command_def pbind_def)
  then show ?thesis by (simp add: ptriple_def split: option.splits sum.splits prod.splits)
qed

lemma serve_batch_served:
  assumes "received region capacity c"
  shows "ptriple (\<lambda>_. True) (serve_batch proc lib region capacity qp timeout_ms c)
    (\<lambda>c' _. served region capacity c' \<and> pc_slot c' = pc_slot c) (\<lambda>_. True)"
proof (cases "pc_descriptor_pending c")
  case False
  with assms show ?thesis by (simp add: serve_batch_def received_def ptriple_def)
next
  case True
  with assms have wait: "awaiting c" by (simp add: received_def)
  have step: "case (let c' = expand_batch region capacity bytes c
      in if c_status (pc_completion c') \<noteq> StatusSuccess then Some (Inr c', s) else post_payload lib qp c' s) of
      Some (Inr c', _) \<Rightarrow> served region capacity c' \<and> pc_slot c' = pc_slot c | _ \<Rightarrow> True" for bytes s
  proof -
    define c' where "c' = expand_batch region capacity bytes c"
    have dec: "decoded region capacity c'" unfolding c'_def by (rule expand_batch_decoded [OF wait])
    have slot: "pc_slot c' = pc_slot c" by (simp add: c'_def expand_batch_def Let_def split: prod.splits)
    show ?thesis
    proof (cases "c_status (pc_completion c') = StatusSuccess")
      case True
      note post = ptripleD(1) [OF post_payload_served [OF dec True, of lib qp], OF TrueI]
      from True slot show ?thesis
        unfolding c'_def [symmetric] Let_def by (auto split: option.splits sum.splits prod.splits dest!: post)
    next
      case False
      with dec slot show ?thesis unfolding c'_def [symmetric] Let_def by (simp add: decoded_def served_def)
    qed
  qed
  define F where "F = (\<lambda>bytes s. let c' = expand_batch region capacity bytes c
    in if c_status (pc_completion c') \<noteq> StatusSuccess then Some (Inr c', s) else post_payload lib qp c' s)"
  have eq: "serve_batch proc lib region capacity qp timeout_ms c =
      pbind (transport_wait_read lib qp (pc_descriptor_wr_id c) timeout_ms)
        (\<lambda>_ (t, w). F (mem_get proc (wsl_entry_bytes (pc_slot c)) (unat (pc_entry_count c) * 40) w) (t, w))"
    using True by (simp add: serve_batch_def F_def)
  have run: "served region capacity c' \<and> pc_slot c' = pc_slot c" if "F bytes s = Some (Inr c', s')" for bytes s c' s'
    using step [of bytes s, folded F_def [THEN fun_cong, THEN fun_cong]] that by simp
  show ?thesis
    unfolding eq by (auto simp: ptriple_def pbind_eq_Inr_iff split: option.splits sum.splits dest!: run)
qed

section \<open>Termination\<close>

text \<open>With a clock that advances every wait ends, and with it every loop of the service.\<close>

definition clock_ok :: "'w ibverbs \<Rightarrow> bool" where
  "clock_ok lib \<longleftrightarrow> (\<exists>clock. clock_advances lib clock)"

lemma returns_poll_matching [total_rules]: "clock_ok lib \<Longrightarrow> returns (poll_matching lib opcode wr_id timeout_ms)"
  using poll_matching_returns by (fastforce simp: returns_def clock_ok_def)

lemma returns_qp_poll [total_rules]: "clock_ok lib \<Longrightarrow> returns (qp_poll lib opcode wr_id timeout_ms)"
  unfolding qp_poll_def by (intro total_rules)

lemma returns_qp_wait_receive [total_rules]: "clock_ok lib \<Longrightarrow> returns (qp_wait_receive lib timeout_ms)"
proof (rule returnsI)
  assume clock: "clock_ok lib"
  have "poll_matching lib IBV_WC_RECV i timeout_ms (qp, w) \<noteq> None" for i qp w
    using returnsD [OF returns_poll_matching [OF clock]] by blast
  then show "qp_wait_receive lib timeout_ms s \<noteq> None" for s
    by (cases s) (simp add: qp_wait_receive_def pbind_def Let_def del: not_None_eq split: list.split option.split sum.split)
qed

lemma returns_on_qp [total_rules]: "returns f \<Longrightarrow> returns (on_qp i f)"
  by (auto simp: returns_def on_qp_def simp del: not_None_eq split: option.splits)

lemma returns_then_timeout:
  assumes "returns m" and "\<And>x n. returns (f x n)"
  shows "returns (pbind m (\<lambda>x (t, w). f x (tpt_completion_timeout_ms t) (t, w)))"
  by (rule returns_bind [OF assms(1)]) (simp add: returns_def returnsD [OF assms(2)] del: not_None_eq)

lemma returns_transport_ops [total_rules]:
  assumes "clock_ok lib"
  shows "returns (transport_post_receive lib i region)" "returns (transport_wait_receive lib i timeout_ms)"
    "returns (transport_post_read lib i region a k len)" "returns (transport_wait_read lib i wr_id timeout_ms)"
    "returns (transport_post_write lib i region a k len)" "returns (transport_wait_write lib i wr_id timeout_ms)"
    "returns (post_read_batch lib i requests)" "returns (post_write_batch lib i requests)"
    "returns (wait_read_batch lib i wr_id timeout_ms)" "returns (wait_write_batch lib i wr_id timeout_ms)"
    "returns (transport_read lib i region a k len)" "returns (transport_write lib i region a k len)"
  unfolding transport_read_def transport_write_def transport_op_defs
  by (intro returns_then_timeout total_rules assms)+

lemma returns_scoped [total_rules]: "returns f \<Longrightarrow> returns (scoped_region lib region f)"
  by (auto simp: returns_def scoped_region_def split: option.splits)

lemma returns_post_payload [total_rules]: "clock_ok lib \<Longrightarrow> returns (post_payload lib qp c)"
  unfolding post_payload_def by (intro total_rules)

lemma returns_phases [total_rules]:
  assumes "clock_ok lib"
  shows "returns (receive_command proc lib region capacity qp timeout_ms slot)"
    "returns (serve_batch proc lib region capacity qp timeout_ms c)" "returns (wait_payload lib qp timeout_ms c)"
    "returns (post_completion proc lib slots qp c)"
proof -
  note ops = returns_transport_ops [OF assms] returns_post_payload [OF assms]
  have desc: "returns (post_descriptors lib qp entries c)" for entries c
    unfolding post_descriptors_def by (intro total_rules assms)
  show "returns (receive_command proc lib region capacity qp timeout_ms slot)"
    unfolding receive_command_def
    by (rule returns_bind [OF ops(2)], rule returnsI)
      (simp add: returnsD [OF ops(13)] returnsD [OF desc] del: not_None_eq split: sum.split option.split prod.split)
  show "returns (serve_batch proc lib region capacity qp timeout_ms c)"
    unfolding serve_batch_def
    by (intro returns_if returns_lift returns_bind ops(4)) (auto simp: returns_def returnsD [OF ops(13)] Let_def simp del: not_None_eq)
  show "returns (wait_payload lib qp timeout_ms c)" unfolding wait_payload_def by (intro total_rules assms)
  have "returns (pbind (transport_post_write lib qp r a k 32) (\<lambda>i. pret (c\<lparr>pc_completion_wr_id := i\<rparr>)))" for r a k
    by (intro total_rules assms)
  note tail = returnsD [OF this]
  show "returns (post_completion proc lib slots qp c)"
    unfolding post_completion_def by (rule returnsI) (auto simp: Let_def tail simp del: not_None_eq split: prod.splits)
qed

lemma returns_serve_windows:
  assumes "clock_ok lib" and "0 < active_slots"
  shows "returns (serve_windows proc lib slots region capacity worker timeout_ms active_slots remaining)"
proof (induction remaining rule: less_induct)
  case (less remaining)
  have "returns (serve_window proc lib slots region capacity worker timeout_ms window more)" for window more
    unfolding serve_window_def Let_def by (intro total_rules assms(1))
  with less assms(2) show ?case
    by (subst serve_windows.simps) (auto simp: Let_def intro!: returns_lift returns_bind)
qed

lemma returns_run_worker:
  assumes "clock_ok lib"
  shows "returns (run_worker proc lib capacity slots region worker timeout_ms)"
proof (cases "wk_slots worker = [] \<or> wk_command_count worker = 0")
  case True
  then show ?thesis by (auto simp: run_worker_def serve_windows.simps intro!: returns_lift returns_bind)
next
  case False
  then have "0 < min (unat (wk_command_count worker)) (length (wk_slots worker))" by (simp add: unat_gt_0)
  from returns_serve_windows [OF assms this] False show ?thesis
    unfolding run_worker_def Let_def by (auto intro!: returns_bind returns_for returns_transport_ops [OF assms])
qed

lemma returns_run_threads:
  assumes "clock_ok lib"
  shows "returns (run_threads proc lib capacity slots region timeout_ms workers first_error)"
proof (induction workers arbitrary: first_error)
  case Nil
  show ?case by (auto simp: returns_def split: option.splits)
next
  case (Cons worker workers)
  note rest = returnsD [OF Cons.IH] and first = returnsD [OF returns_run_worker [OF assms]]
  show ?case
    by (rule returnsI) (auto simp: rest first simp del: not_None_eq split: prod.splits sum.splits option.splits)
qed

lemma returns_bootstrap [total_rules]:
  assumes "clock_ok lib"
  shows "returns (exchange_bootstrap proc lib bytes capacity)" "returns (fetch_slots e proc lib bootstrap)"
proof -
  have "returns (scoped_region lib region (pbind (transport_write lib 0 region a k 16) (\<lambda>_. pret b)))" for region a k b
    by (intro total_rules assms)
  note tail = returnsD [OF this]
  show "returns (exchange_bootstrap proc lib bytes capacity)"
    unfolding exchange_bootstrap_def
    by (rule returnsI) (simp add: Let_def tail del: not_None_eq split: prod.split sum.split)
  have "returns (scoped_region lib region (pbind (transport_read lib 0 region a k n)
      (\<lambda>_ (t, w). if P t w then Some (Inl kProtocol, (t, w)) else Some (Inr (f w), (t, w)))))" for region a k n P and f :: "'a \<Rightarrow> StorageSlot list"
    by (intro total_rules assms) (auto simp: returns_def)
  note tail = returnsD [OF this]
  show "returns (fetch_slots e proc lib bootstrap)"
    unfolding fetch_slots_def
    by (rule returnsI) (simp add: Let_def tail del: not_None_eq split: prod.split sum.split)
qed

lemma returns_run_workers [total_rules]:
  assumes "clock_ok lib"
  shows "returns (run_workers proc lib schedule capacity slots region n timeout_ms)"
  unfolding run_workers_def Let_def
  by (rule returnsI) (simp add: returnsD [OF returns_run_threads [OF assms]] del: not_None_eq split: prod.split sum.split)

lemma serve_commands_total:
  assumes "clock_ok lib"
  shows "serve_commands e proc lib schedule storage_data storage_size command_count timeout_ms s \<noteq> None"
proof -
  have "returns (\<lambda>(t, w). exchange_bootstrap proc lib (f w) storage_size (t, w))" for f
    by (rule returnsI) (simp add: returnsD [OF returns_bootstrap(1) [OF assms]] del: not_None_eq split: prod.split)
  then have "returns (scoped_region lib region (pbind (transport_post_receive lib 0 region) (\<lambda>_.
      pbind (transport_wait_receive lib 0 timeout_ms) (\<lambda>_.
      pbind (\<lambda>(t, w). exchange_bootstrap proc lib (f w) storage_size (t, w)) (\<lambda>bootstrap.
      pbind (fetch_slots e proc lib bootstrap) (\<lambda>slots.
      pbind (plift (register_memory lib storage_data storage_size LocalWrite)) (\<lambda>storage_region.
      scoped_region lib storage_region
        (run_workers proc lib schedule storage_size slots storage_region command_count timeout_ms))))))))" for region f
    by (intro total_rules assms)
  note tail = returnsD [OF this]
  show ?thesis
    unfolding serve_commands_def by (simp add: tail del: not_None_eq split: prod.split sum.split)
qed

section \<open>The plan of the workers\<close>

lemma place_worker_slot_index: "place_worker_slot proc i w = (slot, w') \<Longrightarrow> wsl_slot_index slot = i"
  by (auto simp: place_worker_slot_def empty_worker_slot_def split: prod.splits)

lemma register_worker_slot_index: "register_worker_slot lib slot s = (r, slot', s') \<Longrightarrow> wsl_slot_index slot' = wsl_slot_index slot"
  by (auto simp: register_worker_slot_def Let_def split: prod.splits sum.splits)

text \<open>A worker takes exactly the slots of its queue pair, in the order of the table.\<close>

lemma build_worker_slots_indices:
  assumes "build_worker_slots proc lib index table built s = (Inr u, built', s')"
  shows "map wsl_slot_index built' = map wsl_slot_index built @ map fst (filter (\<lambda>(i, slot). unat (s_qp_index slot) = index) table)"
  using assms
proof (induction proc lib index table built s rule: build_worker_slots.induct)
  case (2 proc lib index slot_index slot table built t w)
  then show ?case
    by (auto split: if_splits prod.splits sum.splits dest!: place_worker_slot_index register_worker_slot_index)
qed simp

definition slots_of_qp :: "StorageSlot list \<Rightarrow> nat \<Rightarrow> nat list" where
  "slots_of_qp slots index = map fst (filter (\<lambda>(i, slot). unat (s_qp_index slot) = index) (enumerate 0 slots))"

lemma set_slots_of_qp: "set (slots_of_qp slots index) = {i. i < length slots \<and> unat (s_qp_index (slots ! i)) = index}"
  by (force simp: slots_of_qp_def in_set_enumerate_eq)

text \<open>The worker built for a queue pair: its share, and its slots unless the share is empty.\<close>

definition worker_planned :: "StorageSlot list \<Rightarrow> u32 \<Rightarrow> nat \<Rightarrow> nat \<Rightarrow> Worker \<Rightarrow> bool" where
  "worker_planned slots command_count workers index worker \<longleftrightarrow>
     wk_qp_index worker = index \<and> wk_command_count worker = worker_share command_count workers index
     \<and> map wsl_slot_index (wk_slots worker) = (if wk_command_count worker = 0 then [] else slots_of_qp slots index)
     \<and> (wk_command_count worker \<noteq> 0 \<longrightarrow> wk_slots worker \<noteq> [])"

lemma build_worker_planned:
  assumes "build_worker proc lib slots command_count workers index s = (Inr u, worker, s')"
  shows "worker_planned slots command_count workers index worker"
proof (cases "worker_share command_count workers index = 0")
  case True
  with assms show ?thesis by (auto simp: build_worker_def worker_planned_def empty_worker_def Let_def)
next
  case False
  with assms obtain built s1 where b: "build_worker_slots proc lib index (enumerate 0 slots) [] s = (Inr u, built, s1)"
    and "built \<noteq> []" and "worker = empty_worker\<lparr>wk_qp_index := index, wk_command_count := worker_share command_count workers index, wk_slots := built\<rparr>"
    by (auto simp: build_worker_def Let_def empty_worker_def split: prod.splits sum.splits if_splits)
  with build_worker_slots_indices [OF b] False show ?thesis
    by (simp add: worker_planned_def slots_of_qp_def)
qed

lemma build_workers_planned:
  assumes "build_workers proc lib slots command_count workers indices built s = (Inr u, built', s')"
  shows "\<exists>new. built' = built @ new \<and> list_all2 (worker_planned slots command_count workers) indices new"
  using assms
proof (induction indices arbitrary: built s)
  case (Cons index indices)
  then obtain worker s1 where w: "build_worker proc lib slots command_count workers index s = (Inr (), worker, s1)"
    and rest: "build_workers proc lib slots command_count workers indices (built @ [worker]) s1 = (Inr u, built', s')"
    by (auto split: prod.splits sum.splits)
  from Cons.IH [OF rest] build_worker_planned [OF w] show ?case by auto
qed auto

lemma sum_shares:
  fixes n k :: nat
  assumes "0 < k"
  shows "(\<Sum>i<k. n div k + (if i < n mod k then 1 else 0)) = n"
proof -
  have "(\<Sum>i<k. if i < n mod k then 1 else 0) = card {i. i < k \<and> i < n mod k}"
    by (simp add: sum.If_cases Int_def)
  also have "{i. i < k \<and> i < n mod k} = {..<n mod k}"
    using assms mod_less_divisor [of k n] by (auto intro: less_trans)
  finally show ?thesis using assms by (simp add: sum.distrib)
qed

lemma unat_worker_share:
  assumes "0 < k"
  shows "unat (worker_share command_count k i) = unat command_count div k + (if i < unat command_count mod k then 1 else 0)"
proof -
  let ?n = "unat command_count div k + (if i < unat command_count mod k then 1 else 0)"
  have "?n \<le> unat command_count"
  proof (cases "k = 1")
    case False
    show ?thesis
    proof (cases "unat command_count = 0")
      case False
      have "unat command_count div k < unat command_count"
        using False \<open>k \<noteq> 1\<close> assms by (simp add: div_less_dividend)
      then show ?thesis by simp
    qed simp
  qed simp
  then have "?n < 2 ^ LENGTH(32)" using unat_less_32 [of command_count] by simp
  then have "unat (of_nat ?n :: u32) = ?n" unfolding unat_of_nat by (rule mod_less)
  then show ?thesis unfolding worker_share_def .
qed

section \<open>Properties\<close>

text \<open>
  C1: what the server does to the namespace and what it reports. Whatever bytes a client placed in
  the command slots and descriptor arrays, when a window of commands has been received and expanded
  every transfer of every command lies inside the namespace, through the region registered for it;
  the completion of a command is encodable and complete; it reports success exactly when the
  payload was posted, then with the bytes of all transfers, which for a batch is the total the
  client announced, one transfer for each entry, and otherwise zero bytes.
\<close>

theorem served_commands_truthful:
  "ptriple (\<lambda>_. True)
     (pbind (pcollect slots (receive_command proc lib storage_region capacity qp_index timeout_ms))
        (\<lambda>pending. pcollect pending (serve_batch proc lib storage_region capacity qp_index timeout_ms)))
     (\<lambda>pending _. map pc_slot pending = slots \<and> list_all (\<lambda>c.
        list_all (\<lambda>request. tr_local request = Some storage_region
           \<and> unat (tr_local_offset request) + unat (tr_length request) \<le> unat capacity) (pc_requests c)
        \<and> completion_valid (pc_completion c) \<and> c_state (pc_completion c) = StateComplete
        \<and> (c_status (pc_completion c) = StatusSuccess) = pc_payload_pending c
        \<and> unat (c_bytes_transferred (pc_completion c)) =
            (if pc_payload_pending c then sum_list (map (\<lambda>request. unat (tr_length request)) (pc_requests c)) else 0)
        \<and> (if pc_batch c \<and> pc_payload_pending c
           then c_bytes_transferred (pc_completion c) = pc_total_length c \<and> length (pc_requests c) = unat (pc_entry_count c)
           else True)) pending)
     (\<lambda>_. True)"
proof (rule yields_bind)
  show "yields (pcollect slots (receive_command proc lib storage_region capacity qp_index timeout_ms))
      (list_all2 (\<lambda>slot c. received storage_region capacity c \<and> pc_slot c = slot) slots)"
    by (intro yields_collect receive_command_received)
next
  fix pending assume p: "list_all2 (\<lambda>slot c. received storage_region capacity c \<and> pc_slot c = slot) slots pending"
  have "yields (pcollect pending (serve_batch proc lib storage_region capacity qp_index timeout_ms))
      (list_all2 (\<lambda>c c'. served storage_region capacity c' \<and> pc_slot c' = pc_slot c) pending)"
    using p by (intro yields_collect serve_batch_served) (auto simp: list_all2_conv_all_nth in_set_conv_nth)
  moreover have "map pc_slot cs = slots \<and> list_all (served storage_region capacity) cs"
    if "list_all2 (\<lambda>c c'. served storage_region capacity c' \<and> pc_slot c' = pc_slot c) pending cs" for cs
    using p that by (auto simp: list_all2_conv_all_nth list_all_length intro: nth_equalityI)
  ultimately have "yields (pcollect pending (serve_batch proc lib storage_region capacity qp_index timeout_ms))
      (\<lambda>cs. map pc_slot cs = slots \<and> list_all (served storage_region capacity) cs)"
    unfolding ptriple_def by (fastforce split: option.splits sum.splits prod.splits)
  then show "yields (pcollect pending (serve_batch proc lib storage_region capacity qp_index timeout_ms))
     (\<lambda>pending. map pc_slot pending = slots \<and> list_all (\<lambda>c.
        list_all (\<lambda>request. tr_local request = Some storage_region
           \<and> unat (tr_local_offset request) + unat (tr_length request) \<le> unat capacity) (pc_requests c)
        \<and> completion_valid (pc_completion c) \<and> c_state (pc_completion c) = StateComplete
        \<and> (c_status (pc_completion c) = StatusSuccess) = pc_payload_pending c
        \<and> unat (c_bytes_transferred (pc_completion c)) =
            (if pc_payload_pending c then sum_list (map (\<lambda>request. unat (tr_length request)) (pc_requests c)) else 0)
        \<and> (if pc_batch c \<and> pc_payload_pending c
           then c_bytes_transferred (pc_completion c) = pc_total_length c \<and> length (pc_requests c) = unat (pc_entry_count c)
           else True)) pending)"
    unfolding ptriple_def
    by (fastforce simp: list_all_iff served_def in_namespace_def payload_bytes_def split: option.splits sum.splits prod.splits)
qed

text \<open>
  C16: the server always returns. With a clock that advances on every reading, serving any number
  of commands ends, with success or an error, whatever the client sends and in whatever order the
  workers run.
\<close>

theorem serve_commands_returns:
  assumes "clock_advances lib clock"
  shows "\<exists>r. serve_commands e proc lib schedule storage_data storage_size command_count timeout_ms (t, w) = Some r"
  using serve_commands_total [of lib e proc schedule storage_data storage_size command_count timeout_ms "(t, w)"] assms
  by (auto simp: clock_ok_def)

definition sample_process :: "sample_world process" where
  "sample_process = \<lparr>mem_get = (\<lambda>_ n _. replicate n 0), mem_put = (\<lambda>_ _ w. w), new_object = (\<lambda>_ w. (0x2000, w)),
     sched_getaffinity = (\<lambda>w. (Some [0, 1], w)), pthread_setaffinity_np = (\<lambda>_ w. (0, w))\<rparr>"

theorem serve_commands_returns_witness:
  "clock_advances sample_lib fst \<and>
   (\<exists>r. serve_commands Little sample_process sample_lib rev 0x100000 4096 8 100
      ((empty_transport 80)\<lparr>tpt_qps := [sample_queue_pair]\<rparr>, (0, [])) = Some r)"
  using serve_commands_returns [OF sample_clock] sample_clock by blast

text \<open>
  C18: how the work is divided. When the workers have been set up, there is one for each queue pair;
  a worker with commands owns exactly the slots of its queue pair, in table order, and at least
  one; the shares add up to the number of commands and differ by at most one.
\<close>

theorem workers_divide_commands:
  assumes "0 < qps" and "build_workers proc lib slots command_count qps [0..<qps] [] s = (Inr u, workers, s')"
  shows "map wk_qp_index workers = [0..<qps]
    \<and> sum_list (map (\<lambda>worker. unat (wk_command_count worker)) workers) = unat command_count
    \<and> (\<forall>a b. a < qps \<and> b < qps \<longrightarrow> unat (wk_command_count (workers ! a)) \<le> Suc (unat (wk_command_count (workers ! b))))
    \<and> (\<forall>a < qps. wk_command_count (workers ! a) \<noteq> 0 \<longrightarrow>
         wk_slots (workers ! a) \<noteq> [] \<and> sorted_wrt (<) (map wsl_slot_index (wk_slots (workers ! a)))
         \<and> set (map wsl_slot_index (wk_slots (workers ! a))) = {i. i < length slots \<and> unat (s_qp_index (slots ! i)) = a})"
proof -
  from build_workers_planned [OF assms(2)]
  have p: "list_all2 (worker_planned slots command_count qps) [0..<qps] workers" by simp
  then have len: "length workers = qps" and plan: "a < qps \<Longrightarrow> worker_planned slots command_count qps a (workers ! a)" for a
    by (auto simp: list_all2_conv_all_nth)
  have share: "unat (wk_command_count (workers ! a)) = unat command_count div qps + (if a < unat command_count mod qps then 1 else 0)"
    if "a < qps" for a
    using plan [OF that] by (simp add: worker_planned_def unat_worker_share [OF assms(1)])
  have "sum_list (map (\<lambda>worker. unat (wk_command_count worker)) workers) = (\<Sum>a<qps. unat (wk_command_count (workers ! a)))"
    by (simp add: sum_list_sum_nth len atLeast0LessThan)
  also have "\<dots> = unat command_count"
    using sum_shares [OF assms(1), of "unat command_count"] by (simp add: share)
  finally have total: "sum_list (map (\<lambda>worker. unat (wk_command_count worker)) workers) = unat command_count" .
  have "sorted_wrt (<) (slots_of_qp slots a)" for a
    unfolding slots_of_qp_def
    by (rule sorted_wrt_map [THEN iffD2], rule sorted_wrt_filter)
      (auto simp: sorted_wrt_iff_nth_less nth_enumerate_eq)
  with plan share total len show ?thesis
    by (auto simp: worker_planned_def set_slots_of_qp intro: nth_equalityI)
qed

definition sample_transport :: Transport where
  "sample_transport = (empty_transport 80)\<lparr>tpt_endpoint := (empty_endpoint 80)\<lparr>ep_context := 60, ep_pd := 70\<rparr>,
     tpt_qps := [sample_queue_pair, sample_queue_pair]\<rparr>"

definition sample_slot :: "u32 \<Rightarrow> StorageSlot" where
  "sample_slot qp = \<lparr>s_command = \<lparr>m_address = 0x8000, m_length = 64, m_remote_key = 5\<rparr>,
     s_completion = \<lparr>m_address = 0x9000, m_length = 32, m_remote_key = 5\<rparr>, s_qp_index = qp, s_reserved = 0\<rparr>"

lemma sample_workers:
  "\<exists>workers s'. build_workers sample_process sample_lib [sample_slot 1, sample_slot 0, sample_slot 1] 3 2 [0..<2] []
     (sample_transport, (0, [])) = (Inr (), workers, s')"
  by (simp add: build_worker_def worker_share_def empty_worker_def enumerate_eq_zip upt_rec sample_slot_def place_worker_slot_def
      new_buffer_def sample_process_def register_worker_slot_def register_memory_def on_endpoint_def reg_mr_def endpoint_opened_def
      sample_transport_def sample_lib_def Let_def)

theorem workers_divide_commands_witness:
  "\<exists>workers s'. build_workers sample_process sample_lib [sample_slot 1, sample_slot 0, sample_slot 1] 3 2 [0..<2] []
       (sample_transport, (0, [])) = (Inr (), workers, s')
    \<and> map wk_qp_index workers = [0..<2]
    \<and> sum_list (map (\<lambda>worker. unat (wk_command_count worker)) workers) = 3
    \<and> set (map wsl_slot_index (wk_slots (workers ! 0))) = {1} \<and> set (map wsl_slot_index (wk_slots (workers ! 1))) = {0, 2}"
proof -
  let ?slots = "[sample_slot 1, sample_slot 0, sample_slot 1]"
  obtain workers s' where run: "build_workers sample_process sample_lib ?slots 3 2 [0..<2] []
     (sample_transport, (0, [])) = (Inr (), workers, s')" using sample_workers by blast
  note d = workers_divide_commands [OF zero_less_numeral run]
  then have map: "map wk_qp_index workers = [0..<2]"
    and total: "sum_list (map (\<lambda>worker. unat (wk_command_count worker)) workers) = 3" by auto
  from arg_cong [OF map, of length] obtain v0 v1 where w: "workers = [v0, v1]" by (auto simp: length_Suc_conv numeral_2_eq_2)
  have share: "unat (wk_command_count (workers ! a)) \<le> Suc (unat (wk_command_count (workers ! b)))" if "a < 2" "b < 2" for a b
    using d that by blast
  from share [of 0 1] share [of 1 0] total have "wk_command_count (workers ! 0) \<noteq> 0" "wk_command_count (workers ! 1) \<noteq> 0"
    by (auto simp: w)
  moreover have "set (map wsl_slot_index (wk_slots (workers ! a))) = {i. i < length ?slots \<and> unat (s_qp_index (?slots ! i)) = a}"
    if "a < 2" "wk_command_count (workers ! a) \<noteq> 0" for a
    using d that by blast
  ultimately have own: "set (map wsl_slot_index (wk_slots (workers ! 0))) = {i. i < length ?slots \<and> unat (s_qp_index (?slots ! i)) = 0}"
    "set (map wsl_slot_index (wk_slots (workers ! 1))) = {i. i < length ?slots \<and> unat (s_qp_index (?slots ! i)) = 1}"
    by simp_all
  have "{i. i < length ?slots \<and> unat (s_qp_index (?slots ! i)) = 0} = {1}"
    "{i. i < length ?slots \<and> unat (s_qp_index (?slots ! i)) = 1} = {0, 2}"
    by (auto simp: sample_slot_def less_Suc_eq numeral_2_eq_2)
  with run map total own show ?thesis by metis
qed

text \<open>
  The slot table that the server works with. A fetched table is accepted only if it has the
  announced, nonzero number of slots, each on an existing queue pair, with command and completion
  memory that is not null and large enough, and with nonzero keys.
\<close>

theorem fetch_slots_sound:
  "case fetch_slots e proc lib bootstrap (t, w) of
     Some (Inr slots, (t', w')) \<Rightarrow>
       length slots = unat (b_slot_count bootstrap) \<and> slots \<noteq> [] \<and> list_all (\<lambda>slot.
         s_reserved slot = 0 \<and> unat (s_qp_index slot) < transport_qp_count t'
         \<and> m_address (s_command slot) \<noteq> 0 \<and> 64 \<le> unat (m_length (s_command slot)) \<and> m_remote_key (s_command slot) \<noteq> 0
         \<and> m_address (s_completion slot) \<noteq> 0 \<and> 32 \<le> unat (m_length (s_completion slot)) \<and> m_remote_key (s_completion slot) \<noteq> 0) slots
   | _ \<Rightarrow> True"
proof (cases "fetch_slots e proc lib bootstrap (t, w)")
  case (Some run)
  obtain r t' w' where run: "run = (r, (t', w'))" by (metis surj_pair)
  show ?thesis
  proof (cases r)
    case (Inr slots)
    from Some [unfolded run Inr] have ok: "\<not> slot_table_refused bootstrap"
      and table: "\<exists>bs. slots = slot_table_of_bytes e (unat (b_slot_count bootstrap)) bs" "list_all (\<lambda>slot. \<not> slot_invalid (transport_qp_count t') slot) slots"
      by (auto simp: fetch_slots_def Let_def scoped_region_def pbind_def list_ex_iff list_all_iff
          split: if_splits prod.splits sum.splits option.splits)
    from table(1) have len: "length slots = unat (b_slot_count bootstrap)" by (auto simp: slot_table_of_bytes_def)
    moreover have "unat (b_slot_count bootstrap) \<noteq> 0" using ok by (auto simp: slot_table_refused_def unat_eq_zero)
    ultimately show ?thesis
      using table(2) Some run Inr
      by (auto simp: slot_invalid_def list_all_iff not_le not_less kStorageCommandBytes_def kStorageCompletionBytes_def word_le_nat_alt)
  qed (simp add: Some run)
qed simp

end
