(* ===== verification/Client_Runtime.thy ===== *)
theory Client_Runtime
  imports Device_Storage Storage_Slots
begin

text \<open>
  The client's runtime, \<^verbatim>\<open>src/src/client/runtime.cc\<close>: the life cycle of the accelerator runtime and
  the memory it hands out. AscendCL, the net service, the loaded libraries and the C heap are the
  fields of the parameter record \<open>cann\<close>, over an outside world that holds host and device memory.
  Pointers are addresses, 0 is the null pointer. What is copied from the host is a typed object,
  since device memory is modelled as typed heaps; its size is that of the C object.
\<close>

section \<open>Interfaces\<close>

datatype host_object =
  HBytes "u8 list"
| HQpStates "NdsTransportQpState list"
| HQpDescriptors "NdsQpDescriptor list"
| HSlotDescriptors "NdsStorageSlotDescriptor list"
| HStorageStates "NdsStorageState list"
| HSlotTable "StorageSlot list"
| HSendWrs "NdsSendWr list"
| HRecvWr NdsRecvWr
| HTransport NdsTransportDescriptor
| HBootstrap NdsStorageBootstrapDescriptor
| HStorage NdsStorageDescriptor
| HOperation NdsStorageOperation
| HBatchOperation NdsStorageBatchOperation
| HStruct nat "(nat \<times> host_object) list"

text \<open>
  The sizes are those of the \<open>static_assert\<close>s of the ABI headers. A structure is its size with the members at their
  offsets.
\<close>

fun host_size :: "host_object \<Rightarrow> nat" where
  "host_size (HBytes bs) = length bs"
| "host_size (HQpStates ss) = 16 * length ss"
| "host_size (HQpDescriptors ds) = 248 * length ds"
| "host_size (HSlotDescriptors ss) = 40 * length ss"
| "host_size (HStorageStates ss) = 24 * length ss"
| "host_size (HSlotTable ss) = 56 * length ss"
| "host_size (HSendWrs ws) = 48 * length ws"
| "host_size (HRecvWr _) = 24"
| "host_size (HTransport _) = 24"
| "host_size (HBootstrap _) = 40"
| "host_size (HStorage _) = 56"
| "host_size (HOperation _) = 32"
| "host_size (HBatchOperation _) = 24"
| "host_size (HStruct n _) = n"

record 'w cann =
  aclInit :: "'w \<Rightarrow> int \<times> 'w"
  aclrtSetDevice :: "i32 \<Rightarrow> 'w \<Rightarrow> int \<times> 'w"
  aclFinalize :: "'w \<Rightarrow> 'w"
  libruntime_open :: "'w \<Rightarrow> unit result \<times> 'w"
  libdsmi_open :: "'w \<Rightarrow> unit result \<times> 'w"
  rtOpenNetService :: "string \<Rightarrow> 'w \<Rightarrow> int \<times> 'w"
  rtCloseNetService :: "'w \<Rightarrow> 'w"
  aclrtMalloc :: "u64 \<Rightarrow> 'w \<Rightarrow> (int \<times> u64) \<times> 'w"
  aclrtFree :: "u64 \<Rightarrow> 'w \<Rightarrow> int \<times> 'w"
  posix_memalign :: "u64 \<Rightarrow> u64 \<Rightarrow> 'w \<Rightarrow> (int \<times> u64) \<times> 'w"
  aclrtHostRegister :: "u64 \<Rightarrow> u64 \<Rightarrow> 'w \<Rightarrow> (int \<times> u64) \<times> 'w"
  aclrtHostUnregister :: "u64 \<Rightarrow> 'w \<Rightarrow> int \<times> 'w"
  std_free :: "u64 \<Rightarrow> 'w \<Rightarrow> 'w"
  host_new :: "u64 \<Rightarrow> 'w \<Rightarrow> u64 \<times> 'w"
  host_delete :: "u64 \<Rightarrow> 'w \<Rightarrow> 'w"
  host_store :: "u64 \<Rightarrow> host_object \<Rightarrow> 'w \<Rightarrow> 'w"
  host_load :: "u64 \<Rightarrow> nat \<Rightarrow> 'w \<Rightarrow> u8 list"
  aclrtMemcpy_to_device :: "u64 \<Rightarrow> host_object \<Rightarrow> 'w \<Rightarrow> int \<times> 'w"
  aclrtMemcpy_to_host :: "u64 \<Rightarrow> nat \<Rightarrow> 'w \<Rightarrow> (int \<times> u8 list) \<times> 'w"
  rtSetDevice :: "i32 \<Rightarrow> 'w \<Rightarrow> int \<times> 'w"
  rtRDMADBSend :: "u32 \<Rightarrow> u64 \<Rightarrow> u64 \<Rightarrow> 'w \<Rightarrow> int \<times> 'w"
  client_now :: "'w \<Rightarrow> nat \<times> 'w"
  sleep_for_ms :: "nat \<Rightarrow> 'w \<Rightarrow> 'w"

section \<open>The runtime object\<close>

datatype MemoryLocation = LocHost | LocHostPinned | LocDevice

record MemoryBuffer =
  mb_runtime :: u64
  mb_data :: u64
  mb_rdma_data :: u64
  mb_size :: u64
  mb_location :: MemoryLocation

record RuntimeConfig =
  rc_logical_device_id :: u32
  rc_hdc_type :: int
  rc_adopt_existing_context :: bool

text \<open>\<open>rt_this\<close> is the address of the object, which buffers remember. The two loaded libraries are opaque.\<close>

record Runtime =
  rt_this :: u64
  rt_config :: RuntimeConfig
  rt_acl_initialized :: bool
  rt_net_service_open :: bool
  rt_initialized :: bool

definition kHostPageSize :: u64 where "kHostPageSize = 4096"

definition page_rounded_size :: "u64 \<Rightarrow> u64 result" where
  "page_rounded_size sz =
     (if sz > UINT64_MAX - (kHostPageSize - 1) then Inl kInvalidArgument
      else Inr ((sz + kHostPageSize - 1) AND NOT (kHostPageSize - 1)))"

definition runtime_reset :: "'w cann \<Rightarrow> Runtime \<Rightarrow> 'w \<Rightarrow> Runtime \<times> 'w" where
  "runtime_reset acl rt w =
     (let w = (if rt_net_service_open rt then rtCloseNetService acl w else w);
          w = (if rt_acl_initialized rt then aclFinalize acl w else w)
      in (rt\<lparr>rt_net_service_open := False, rt_acl_initialized := False, rt_initialized := False\<rparr>, w))"

text \<open>The decimal text of \<open>std::to_string\<close>.\<close>

fun nat_text :: "nat \<Rightarrow> string" where
  "nat_text n = (if n < 10 then [char_of (48 + n)] else nat_text (n div 10) @ [char_of (48 + n mod 10)])"

definition int_text :: "int \<Rightarrow> string" where
  "int_text i = (if i < 0 then CHR ''-'' # nat_text (nat (- i)) else nat_text (nat i))"

definition runtime_initialize :: "'w cann \<Rightarrow> RuntimeConfig \<Rightarrow> (Runtime \<times> 'w, unit) comp" where
  "runtime_initialize acl config = (\<lambda>(rt, w).
     let fail = (\<lambda>err rt w. (Inl err, runtime_reset acl rt w));
         hdc_type_argument = ''--hdcType='' @ int_text (rc_hdc_type config);
         rt = rt\<lparr>rt_config := config\<rparr>;
         continue = (\<lambda>rt w.
           case libruntime_open acl w of
             (Inl err, w) \<Rightarrow> fail err rt w
           | (Inr _, w) \<Rightarrow>
               (case libdsmi_open acl w of
                  (Inl err, w) \<Rightarrow> fail err rt w
                | (Inr _, w) \<Rightarrow>
                    (case rtOpenNetService acl hdc_type_argument w of
                       (result, w) \<Rightarrow>
                         if result \<noteq> 0 then fail kRuntime rt w
                         else (Inr (), (rt\<lparr>rt_net_service_open := True, rt_initialized := True\<rparr>, w)))))
     in if rc_adopt_existing_context config then continue rt w
        else case aclInit acl w of
          (result, w) \<Rightarrow>
            if result \<noteq> 0 then fail kRuntime rt w
            else
              (let rt = rt\<lparr>rt_acl_initialized := True\<rparr>
               in case aclrtSetDevice acl (rc_logical_device_id config) w of
                    (result, w) \<Rightarrow> if result \<noteq> 0 then fail kRuntime rt w else continue rt w))"

definition runtime_open :: "'w cann \<Rightarrow> RuntimeConfig \<Rightarrow> (Runtime \<times> 'w, unit) comp" where
  "runtime_open acl config = (\<lambda>(rt, w).
     if rt_initialized rt then (Inl kInvalidArgument, (rt, w)) else runtime_initialize acl config (rt, w))"

text \<open>The memory operations do not change the object: they are computations on the world.\<close>

definition allocate_device_memory :: "'w cann \<Rightarrow> Runtime \<Rightarrow> u64 \<Rightarrow> ('w, u64) comp" where
  "allocate_device_memory acl rt sz w =
     (if \<not> rt_initialized rt \<or> sz = 0 then (Inl kInvalidArgument, w)
      else case aclrtMalloc acl sz w of
        ((result, device_ptr), w) \<Rightarrow> if result \<noteq> 0 \<or> device_ptr = 0 then (Inl kRuntime, w) else (Inr device_ptr, w))"

definition free_device_memory :: "'w cann \<Rightarrow> Runtime \<Rightarrow> u64 \<Rightarrow> ('w, unit) comp" where
  "free_device_memory acl rt device_ptr w =
     (if \<not> rt_initialized rt \<or> device_ptr = 0 then (Inl kInvalidArgument, w)
      else case aclrtFree acl device_ptr w of (result, w) \<Rightarrow> if result \<noteq> 0 then (Inl kRuntime, w) else (Inr (), w))"

definition allocate_host_pinned_memory :: "'w cann \<Rightarrow> Runtime \<Rightarrow> u64 \<Rightarrow> ('w, u64 \<times> u64) comp" where
  "allocate_host_pinned_memory acl rt sz w =
     (if \<not> rt_initialized rt \<or> sz = 0 then (Inl kInvalidArgument, w)
      else case page_rounded_size sz of
        Inl err \<Rightarrow> (Inl err, w)
      | Inr rounded_size \<Rightarrow>
          (case posix_memalign acl kHostPageSize rounded_size w of
             ((result, host_ptr), w) \<Rightarrow>
               if result \<noteq> 0 \<or> host_ptr = 0 then (Inl kRuntime, w)
               else case aclrtHostRegister acl host_ptr rounded_size w of
                 ((result, device_ptr), w) \<Rightarrow>
                   if result \<noteq> 0 \<or> device_ptr = 0 then (Inl kRuntime, std_free acl host_ptr w)
                   else (Inr (host_ptr, device_ptr), w)))"

definition free_host_pinned_memory :: "'w cann \<Rightarrow> Runtime \<Rightarrow> u64 \<Rightarrow> ('w, unit) comp" where
  "free_host_pinned_memory acl rt host_ptr w =
     (if \<not> rt_initialized rt \<or> host_ptr = 0 then (Inl kInvalidArgument, w)
      else case aclrtHostUnregister acl host_ptr w of
        (result, w) \<Rightarrow> if result \<noteq> 0 then (Inl kRuntime, w) else (Inr (), std_free acl host_ptr w))"

definition copy_host_to_device :: "'w cann \<Rightarrow> Runtime \<Rightarrow> u64 \<Rightarrow> host_object \<Rightarrow> ('w, unit) comp" where
  "copy_host_to_device acl rt device_ptr object w =
     (if \<not> rt_initialized rt \<or> device_ptr = 0 \<or> host_size object = 0 then (Inl kRuntime, w)
      else case aclrtMemcpy_to_device acl device_ptr object w of
        (result, w) \<Rightarrow> if result \<noteq> 0 then (Inl kRuntime, w) else (Inr (), w))"

definition copy_device_to_host :: "'w cann \<Rightarrow> Runtime \<Rightarrow> u64 \<Rightarrow> nat \<Rightarrow> ('w, u8 list) comp" where
  "copy_device_to_host acl rt device_ptr sz w =
     (if \<not> rt_initialized rt \<or> device_ptr = 0 \<or> sz = 0 then (Inl kRuntime, w)
      else case aclrtMemcpy_to_host acl device_ptr sz w of
        ((result, bytes), w) \<Rightarrow> if result \<noteq> 0 then (Inl kRuntime, w) else (Inr bytes, w))"

section \<open>Buffers\<close>

definition empty_buffer :: MemoryBuffer where
  "empty_buffer = \<lparr>mb_runtime = 0, mb_data = 0, mb_rdma_data = 0, mb_size = 0, mb_location = LocDevice\<rparr>"

text \<open>\<open>rt\<close> is the runtime that the buffer points to, if it points to one.\<close>

definition buffer_reset :: "'w cann \<Rightarrow> Runtime \<Rightarrow> MemoryBuffer \<Rightarrow> 'w \<Rightarrow> MemoryBuffer \<times> 'w" where
  "buffer_reset acl rt b w =
     (let w = (if mb_data b \<noteq> 0 \<and> mb_location b = LocDevice \<and> mb_runtime b \<noteq> 0
               then snd (free_device_memory acl rt (mb_data b) w) else w);
          w = (if mb_data b \<noteq> 0 \<and> mb_location b = LocHostPinned \<and> mb_runtime b \<noteq> 0
               then snd (free_host_pinned_memory acl rt (mb_data b) w) else w);
          w = (if mb_data b \<noteq> 0 \<and> mb_location b = LocHost then host_delete acl (mb_data b) w else w)
      in (empty_buffer, w))"

definition buffer_move :: "MemoryBuffer \<Rightarrow> MemoryBuffer \<times> MemoryBuffer" where
  "buffer_move other = (other, other\<lparr>mb_runtime := 0, mb_data := 0, mb_rdma_data := 0, mb_size := 0\<rparr>)"

definition buffer_move_assign :: "'w cann \<Rightarrow> Runtime \<Rightarrow> MemoryBuffer \<Rightarrow> MemoryBuffer \<Rightarrow> 'w \<Rightarrow> (MemoryBuffer \<times> MemoryBuffer) \<times> 'w" where
  "buffer_move_assign acl rt self other w = (buffer_move other, snd (buffer_reset acl rt self w))"

definition runtime_allocate :: "'w cann \<Rightarrow> Runtime \<Rightarrow> u64 \<Rightarrow> MemoryLocation \<Rightarrow> ('w, MemoryBuffer) comp" where
  "runtime_allocate acl rt sz location w =
     (if \<not> rt_initialized rt \<or> sz = 0 then (Inl kInvalidArgument, w)
      else case location of
        LocDevice \<Rightarrow>
          (case allocate_device_memory acl rt sz w of
             (Inl err, w) \<Rightarrow> (Inl err, w)
           | (Inr p, w) \<Rightarrow>
               (Inr \<lparr>mb_runtime = rt_this rt, mb_data = p, mb_rdma_data = p, mb_size = sz, mb_location = LocDevice\<rparr>, w))
      | LocHostPinned \<Rightarrow>
          (case allocate_host_pinned_memory acl rt sz w of
             (Inl err, w) \<Rightarrow> (Inl err, w)
           | (Inr (host, device), w) \<Rightarrow>
               (Inr \<lparr>mb_runtime = rt_this rt, mb_data = host, mb_rdma_data = device, mb_size = sz, mb_location = LocHostPinned\<rparr>, w))
      | LocHost \<Rightarrow>
          (case host_new acl sz w of
             (p, w) \<Rightarrow>
               if p = 0 then (Inl kRuntime, w)
               else (Inr \<lparr>mb_runtime = 0, mb_data = p, mb_rdma_data = p, mb_size = sz, mb_location = LocHost\<rparr>, w)))"

definition runtime_copy_to :: "'w cann \<Rightarrow> Runtime \<Rightarrow> MemoryBuffer \<Rightarrow> host_object \<Rightarrow> ('w, unit) comp" where
  "runtime_copy_to acl rt b object w =
     (if \<not> rt_initialized rt \<or> mb_data b = 0 \<or> host_size object > unat (mb_size b)
        \<or> (mb_location b \<noteq> LocHost \<and> mb_runtime b \<noteq> rt_this rt)
      then (Inl kInvalidArgument, w)
      else if mb_location b = LocHost \<or> mb_location b = LocHostPinned
      then (Inr (), host_store acl (mb_data b) object w)
      else copy_host_to_device acl rt (mb_data b) object w)"

definition runtime_copy_from :: "'w cann \<Rightarrow> Runtime \<Rightarrow> MemoryBuffer \<Rightarrow> nat \<Rightarrow> ('w, u8 list) comp" where
  "runtime_copy_from acl rt b sz w =
     (if \<not> rt_initialized rt \<or> mb_data b = 0 \<or> sz > unat (mb_size b)
        \<or> (mb_location b \<noteq> LocHost \<and> mb_runtime b \<noteq> rt_this rt)
      then (Inl kInvalidArgument, w)
      else if mb_location b = LocHost \<or> mb_location b = LocHostPinned
      then (Inr (host_load acl (mb_data b) sz w), w)
      else copy_device_to_host acl rt (mb_data b) sz w)"

section \<open>Facts\<close>

text \<open>Rounding up to whole pages: the next multiple, when it exists.\<close>

lemma and_not_mask: "a AND NOT (2 ^ n - 1) = push_bit n (drop_bit n (a :: 'a :: len word))"
  by (rule bit_word_eqI) (auto simp: bit_simps mask_eq_exp_minus_1 [symmetric])

lemma page_rounded_value:
  assumes "page_rounded_size sz = Inr n"
  shows "unat n = (unat sz + 4095) div 4096 * 4096"
proof -
  from assms have g: "sz \<le> UINT64_MAX - 4095" and n: "n = (sz + 4096 - 1) AND NOT (2 ^ 12 - 1)"
    by (auto simp: page_rounded_size_def kHostPageSize_def split: if_splits)
  have s: "unat (sz + 4095) = unat sz + 4095"
    using g unat_add_small [of sz 4095] unfolding add_guard_unat by simp
  have n: "n = push_bit 12 (drop_bit 12 (sz + 4095))"
    using n and_not_mask [of "sz + 4095" 12] by (simp add: add.commute)
  have d: "unat (drop_bit 12 (sz + 4095)) = (unat sz + 4095) div 4096"
    using s by (simp add: drop_bit_eq_div unat_div_distrib)
  have b: "(unat sz + 4095) div 4096 * 4096 < 2 ^ 64"
    using unat_less_64 [of "sz + 4095"] div_times_less_eq_dividend [of "unat sz + 4095" 4096]
    unfolding s by (rule le_less_trans [rotated])
  have "unat n = take_bit 64 (push_bit 12 (unat (drop_bit 12 (sz + 4095))))"
    unfolding n by (simp only: unsigned_push_bit_eq) simp
  also have "\<dots> = take_bit 64 ((unat sz + 4095) div 4096 * 4096)"
    unfolding d by (simp add: push_bit_eq_mult)
  finally show ?thesis using b by (simp add: take_bit_nat_eq_self)
qed

text \<open>A buffer that the runtime hands out: not null, of the requested size and place, owned by the runtime unless it is plain host memory.\<close>

definition buffer_wf :: "Runtime \<Rightarrow> MemoryBuffer \<Rightarrow> bool" where
  "buffer_wf rt b \<longleftrightarrow> mb_data b \<noteq> 0 \<and> mb_rdma_data b \<noteq> 0 \<and> mb_size b \<noteq> 0
     \<and> mb_runtime b = (if mb_location b = LocHost then 0 else rt_this rt)"

lemma runtime_allocate_wf:
  assumes "runtime_allocate acl rt sz location w = (Inr b, w')"
  shows "buffer_wf rt b" "mb_size b = sz" "mb_location b = location" "rt_initialized rt"
  using assms
  by (auto simp: runtime_allocate_def allocate_device_memory_def allocate_host_pinned_memory_def buffer_wf_def
      split: if_splits MemoryLocation.splits prod.splits sum.splits)

end
