(* ===== verification/Client_Endpoint.thy ===== *)
theory Client_Endpoint
  imports Client_Runtime
begin

text \<open>
  The client's endpoint, \<^verbatim>\<open>src/src/client/endpoint.cc\<close>: the RDMA device behind the RA library, its
  memory regions and queue pairs. The library (\<^verbatim>\<open>loaders/libra.hh\<close>, function pointers that may be
  null), the device queries of AscendCL and DSMI are the fields of the parameter record \<open>libra\<close>.
  Member functions of a queue pair act on the object and the world; the endpoint and the runtime
  it points to are arguments.
\<close>

section \<open>The RA library\<close>

type_synonym u8s = "u8 list"

record QpAttr =
  qa_qpn :: u32
  qa_psn :: u32
  qa_gid_index :: u32
  qa_gid :: u8s

record TypicalQp =
  tq_qpn :: u32
  tq_psn :: u32
  tq_gid_index :: u32
  tq_gid :: u8s
  tq_traffic_class :: u32
  tq_service_level :: u32
  tq_retry_count :: u32
  tq_retry_timeout :: u32

record MrInfo =
  mi_address :: u64
  mi_size :: u64
  mi_access :: int
  mi_local_key :: u32
  mi_remote_key :: u32

record AiDataPlaneWq =
  dpw_wqn :: u32
  dpw_buffer_address :: u64
  dpw_wqebb_size :: u32
  dpw_depth :: u32
  dpw_head_address :: u64
  dpw_tail_address :: u64
  dpw_software_doorbell_address :: u64
  dpw_doorbell_register_address :: u64

record AiDataPlaneCq =
  dpc_cqn :: u32
  dpc_buffer_address :: u64
  dpc_cqe_size :: u32
  dpc_depth :: u32
  dpc_tail_address :: u64
  dpc_software_doorbell_address :: u64

record AiDataPlaneInfo =
  dpi_send_wq :: AiDataPlaneWq
  dpi_receive_wq :: AiDataPlaneWq
  dpi_send_cq :: AiDataPlaneCq
  dpi_receive_cq :: AiDataPlaneCq

text \<open>The 336 bytes of \<open>data_plane_info\<close> are read as the structure they are cast to.\<close>

record AiQpInfo =
  aq_ai_qp_address :: u64
  aq_ai_scq_address :: u64
  aq_ai_rcq_address :: u64
  aq_data_plane_info :: AiDataPlaneInfo

record QpExtAttrs =
  qx_qp_mode :: int
  qx_send_cq_depth :: u32
  qx_recv_cq_depth :: u32
  qx_max_send_wr :: u32
  qx_max_recv_wr :: u32
  qx_max_send_sge :: u32
  qx_max_recv_sge :: u32
  qx_max_inline_data :: u32
  qx_qp_type :: int
  qx_version :: int
  qx_data_plane_flag :: u32

record CqeError =
  ce_status :: u32
  ce_qp_number :: u32

text \<open>The data path. A send request carries its scatter list, here by value.\<close>

record RaSge =
  rs_address :: u64
  rs_length :: u32
  rs_local_key :: u32

record RaSendWr =
  rsw_buffers :: "RaSge list"
  rsw_buffer_count :: u16
  rsw_remote_address :: u64
  rsw_remote_key :: u32
  rsw_opcode :: u32
  rsw_send_flags :: int

record RaRecvWr =
  rrw_wr_id :: u64
  rrw_memory :: RaSge

record RaDoorbell =
  rd_db_index :: u32
  rd_db_info :: u64

record RaCompletion =
  rcp_wr_id :: u64
  rcp_status :: i32
  rcp_opcode :: i32
  rcp_vendor_error :: u32
  rcp_byte_length :: u32
  rcp_qp_number :: u32
  rcp_flags :: u32
  rcp_immediate_data_or_invalidated_rkey :: u32

definition QP_FLAG_RC :: int where "QP_FLAG_RC = 0"
definition QP_MODE_NORMAL :: int where "QP_MODE_NORMAL = 0"
definition QP_MODE_OPBASE :: int where "QP_MODE_OPBASE = 2"
definition QP_MODE_OPBASE_EXT :: int where "QP_MODE_OPBASE_EXT = 4"
definition AI_CALLER_POLLS_CQ :: u32 where "AI_CALLER_POLLS_CQ = 1"
definition QP_TYPE_RC :: int where "QP_TYPE_RC = 2"
definition QP_CREATE_WITH_ATTR_VERSION :: int where "QP_CREATE_WITH_ATTR_VERSION = 1"
definition ACCESS_LOCAL_WRITE :: int where "ACCESS_LOCAL_WRITE = 1"
definition ACCESS_REMOTE_WRITE :: int where "ACCESS_REMOTE_WRITE = 2"
definition ACCESS_REMOTE_READ :: int where "ACCESS_REMOTE_READ = 4"
definition PORT_STATUS_DOWN :: int where "PORT_STATUS_DOWN = 0"
definition PORT_STATUS_ACTIVE :: int where "PORT_STATUS_ACTIVE = 1"
definition QP_STATUS_NOT_CONNECTED :: int where "QP_STATUS_NOT_CONNECTED = 0"
definition QP_STATUS_CONNECTED :: int where "QP_STATUS_CONNECTED = 1"
definition QP_STATUS_CONNECTING :: int where "QP_STATUS_CONNECTING = 3"
definition LITE_NOT_SUPPORTED :: int where "LITE_NOT_SUPPORTED = 0"
definition LITE_ALIGN_2M :: int where "LITE_ALIGN_2M = 2"

record 'w libra =
  ra_open :: "'w \<Rightarrow> unit result \<times> 'w"
  ra_init :: "u32 \<Rightarrow> int \<Rightarrow> 'w \<Rightarrow> int \<times> 'w"
  ra_deinit :: "u32 \<Rightarrow> int \<Rightarrow> 'w \<Rightarrow> 'w"
  ra_rdev_init_v2 :: "u32 \<Rightarrow> u8s \<Rightarrow> 'w \<Rightarrow> (int \<times> u64) \<times> 'w"
  ra_rdev_deinit :: "(u64 \<Rightarrow> 'w \<Rightarrow> 'w) option"
  ra_get_port_status :: "(u64 \<Rightarrow> 'w \<Rightarrow> (int \<times> int) \<times> 'w) option"
  ra_get_support_lite :: "(u64 \<Rightarrow> 'w \<Rightarrow> (int \<times> int) \<times> 'w) option"
  ra_get_qp_status :: "(u64 \<Rightarrow> 'w \<Rightarrow> (int \<times> int) \<times> 'w) option"
  ra_get_cqe_error_list :: "(u64 \<Rightarrow> nat \<Rightarrow> 'w \<Rightarrow> (int \<times> nat \<times> CqeError list) \<times> 'w) option"
  ra_typical_qp_create :: "(u64 \<Rightarrow> int \<Rightarrow> int \<Rightarrow> 'w \<Rightarrow> (int \<times> u64) \<times> 'w) option"
  ra_ai_qp_create :: "(u64 \<Rightarrow> QpExtAttrs \<Rightarrow> 'w \<Rightarrow> (int \<times> u64 \<times> AiQpInfo) \<times> 'w) option"
  ra_set_qp_attr_qos :: "(u64 \<Rightarrow> u8 \<Rightarrow> u8 \<Rightarrow> 'w \<Rightarrow> int \<times> 'w) option"
  ra_set_qp_attr_timeout :: "(u64 \<Rightarrow> u32 \<Rightarrow> 'w \<Rightarrow> int \<times> 'w) option"
  ra_set_qp_attr_retry_count :: "(u64 \<Rightarrow> u32 \<Rightarrow> 'w \<Rightarrow> int \<times> 'w) option"
  ra_typical_qp_modify :: "(u64 \<Rightarrow> TypicalQp \<Rightarrow> TypicalQp \<Rightarrow> 'w \<Rightarrow> int \<times> 'w) option"
  ra_qp_destroy :: "(u64 \<Rightarrow> 'w \<Rightarrow> 'w) option"
  ra_get_qp_attr :: "(u64 \<Rightarrow> 'w \<Rightarrow> (int \<times> QpAttr) \<times> 'w) option"
  ra_register_mr :: "(u64 \<Rightarrow> MrInfo \<Rightarrow> 'w \<Rightarrow> (int \<times> MrInfo \<times> u64) \<times> 'w) option"
  ra_deregister_mr :: "(u64 \<Rightarrow> u64 \<Rightarrow> 'w \<Rightarrow> int \<times> 'w) option"
  ra_typical_send_wr :: "u64 \<Rightarrow> RaSendWr \<Rightarrow> 'w \<Rightarrow> (int \<times> RaDoorbell) \<times> 'w"
  ra_recv_wrlist :: "(u64 \<Rightarrow> RaRecvWr list \<Rightarrow> 'w \<Rightarrow> (int \<times> u32) \<times> 'w) option"
  ra_poll_cq :: "u64 \<Rightarrow> bool \<Rightarrow> nat \<Rightarrow> 'w \<Rightarrow> (int \<times> RaCompletion list) \<times> 'w"
  acl_physical_device :: "u32 \<Rightarrow> 'w \<Rightarrow> (int \<times> int) \<times> 'w"
  dsmi_get_device_ip_address :: "int \<Rightarrow> 'w \<Rightarrow> (int \<times> u8s) \<times> 'w"

section \<open>Objects\<close>

text \<open>The three constructors are all the modes there are: the source's test for another value never holds.\<close>

datatype BackendMode = ModeRa | ModeAicpu | ModeAiv

definition QueuePairCallerPollsCq :: u32 where "QueuePairCallerPollsCq = 1"

record QueuePairConfig =
  qc_port_num :: u16
  qc_path_mtu :: u16
  qc_traffic_class :: u32
  qc_service_level :: u32
  qc_retry_count :: u32
  qc_retry_timeout :: u32
  qc_ai_qp_mode :: int
  qc_send_queue_depth :: u32
  qc_receive_queue_depth :: u32
  qc_control_flags :: u32

text \<open>\<open>cep_this\<close> is the address of the endpoint.\<close>

record ClientEndpoint =
  cep_this :: u64
  cep_runtime :: u64
  cep_hdc_type :: int
  cep_physical_device_id :: u32
  cep_rdev_handle :: u64
  cep_ra_initialized :: bool

text \<open>The pointer to the buffer, which nothing reads, is left out.\<close>

record ClientRegion =
  crg_endpoint :: u64
  crg_info :: MrInfo
  crg_handle :: u64

record ClientQp =
  cqp_endpoint :: u64
  cqp_config :: QueuePairConfig
  cqp_mode :: BackendMode
  cqp_handle :: u64
  cqp_local_attributes :: QpAttr
  cqp_ai_qp_info :: AiQpInfo
  cqp_send_wr_ids :: MemoryBuffer
  cqp_receive_wr_ids :: MemoryBuffer
  cqp_posted_send_sge :: RaSge
  cqp_connected :: bool

definition zero_mr_info :: MrInfo where
  "zero_mr_info = \<lparr>mi_address = 0, mi_size = 0, mi_access = 0, mi_local_key = 0, mi_remote_key = 0\<rparr>"

definition zero_sge :: RaSge where
  "zero_sge = \<lparr>rs_address = 0, rs_length = 0, rs_local_key = 0\<rparr>"

definition zero_qp_attributes :: QpAttr where
  "zero_qp_attributes = \<lparr>qa_qpn = 0, qa_psn = 0, qa_gid_index = 0, qa_gid = replicate 16 0\<rparr>"

definition zero_wq :: AiDataPlaneWq where
  "zero_wq = \<lparr>dpw_wqn = 0, dpw_buffer_address = 0, dpw_wqebb_size = 0, dpw_depth = 0, dpw_head_address = 0,
     dpw_tail_address = 0, dpw_software_doorbell_address = 0, dpw_doorbell_register_address = 0\<rparr>"

definition zero_cq :: AiDataPlaneCq where
  "zero_cq = \<lparr>dpc_cqn = 0, dpc_buffer_address = 0, dpc_cqe_size = 0, dpc_depth = 0, dpc_tail_address = 0,
     dpc_software_doorbell_address = 0\<rparr>"

definition zero_ai_qp_info :: AiQpInfo where
  "zero_ai_qp_info = \<lparr>aq_ai_qp_address = 0, aq_ai_scq_address = 0, aq_ai_rcq_address = 0,
     aq_data_plane_info = \<lparr>dpi_send_wq = zero_wq, dpi_receive_wq = zero_wq, dpi_send_cq = zero_cq, dpi_receive_cq = zero_cq\<rparr>\<rparr>"

section \<open>Endpoints\<close>

definition client_endpoint_opened :: "ClientEndpoint \<Rightarrow> bool" where
  "client_endpoint_opened ep \<longleftrightarrow> cep_runtime ep \<noteq> 0 \<and> cep_rdev_handle ep \<noteq> 0"

definition kHdcDefault :: int where "kHdcDefault = 18"

definition client_endpoint_reset :: "'w libra \<Rightarrow> ClientEndpoint \<Rightarrow> 'w \<Rightarrow> ClientEndpoint \<times> 'w" where
  "client_endpoint_reset ra ep w =
     (let w = (if cep_rdev_handle ep \<noteq> 0
               then (case ra_rdev_deinit ra of None \<Rightarrow> w | Some deinit \<Rightarrow> deinit (cep_rdev_handle ep) w) else w);
          w = (if cep_ra_initialized ep then ra_deinit ra (cep_physical_device_id ep) (cep_hdc_type ep) w else w)
      in (ep\<lparr>cep_rdev_handle := 0, cep_ra_initialized := False, cep_runtime := 0, cep_hdc_type := kHdcDefault,
             cep_physical_device_id := 0\<rparr>, w))"

definition client_endpoint_move :: "u64 \<Rightarrow> ClientEndpoint \<Rightarrow> ClientEndpoint \<times> ClientEndpoint" where
  "client_endpoint_move this other =
     (other\<lparr>cep_this := this\<rparr>,
      other\<lparr>cep_runtime := 0, cep_physical_device_id := 0, cep_rdev_handle := 0, cep_ra_initialized := False\<rparr>)"

definition client_endpoint_move_assign :: "'w libra \<Rightarrow> ClientEndpoint \<Rightarrow> ClientEndpoint \<Rightarrow> 'w \<Rightarrow>
    (ClientEndpoint \<times> ClientEndpoint) \<times> 'w" where
  "client_endpoint_move_assign ra self other w =
     (client_endpoint_move (cep_this self) other, snd (client_endpoint_reset ra self w))"

definition client_endpoint_open :: "'w libra \<Rightarrow> Runtime \<Rightarrow> int \<Rightarrow> (ClientEndpoint \<times> 'w, unit) comp" where
  "client_endpoint_open ra rt hdc_type = (\<lambda>(ep, w).
     let fail = (\<lambda>err ep w. (Inl err, client_endpoint_reset ra ep w)) in
     if client_endpoint_opened ep \<or> \<not> rt_initialized rt then (Inl kInvalidArgument, (ep, w))
     else
       (let ep = ep\<lparr>cep_runtime := rt_this rt, cep_hdc_type := hdc_type\<rparr> in
        case acl_physical_device ra (rc_logical_device_id (rt_config rt)) w of
          ((result, physical_device), w) \<Rightarrow>
            if result \<noteq> 0 \<or> physical_device < 0 then fail kRuntime ep w
            else
              (let ep = ep\<lparr>cep_physical_device_id := of_int physical_device\<rparr> in
               case ra_open ra w of
                 (Inl err, w) \<Rightarrow> fail err ep w
               | (Inr _, w) \<Rightarrow>
                   (case ra_init ra (cep_physical_device_id ep) (cep_hdc_type ep) w of
                      (result, w) \<Rightarrow>
                        if result \<noteq> 0 then fail kRa ep w
                        else
                          (let ep = ep\<lparr>cep_ra_initialized := True\<rparr> in
                           case dsmi_get_device_ip_address ra (uint (cep_physical_device_id ep)) w of
                             ((result, address), w) \<Rightarrow>
                               if result \<noteq> 0 then fail kRuntime ep w
                               else case ra_rdev_init_v2 ra (cep_physical_device_id ep) (take 4 address) w of
                                 ((result, rdev_handle), w) \<Rightarrow>
                                   (let ep = ep\<lparr>cep_rdev_handle := rdev_handle\<rparr> in
                                    if result \<noteq> 0 \<or> rdev_handle = 0 then fail kRa ep w
                                    else (Inr (), (ep, w))))))))"

definition empty_client_endpoint :: "u64 \<Rightarrow> ClientEndpoint" where
  "empty_client_endpoint this = \<lparr>cep_this = this, cep_runtime = 0, cep_hdc_type = kHdcDefault, cep_physical_device_id = 0,
     cep_rdev_handle = 0, cep_ra_initialized = False\<rparr>"

text \<open>\<open>Runtime::create_endpoint\<close>: a local endpoint is opened and moved out; an unopened one is destroyed.\<close>

definition create_endpoint :: "'w libra \<Rightarrow> Runtime \<Rightarrow> int \<Rightarrow> ('w, ClientEndpoint) comp" where
  "create_endpoint ra rt hdc_type w =
     (if \<not> rt_initialized rt then (Inl kInvalidArgument, w)
      else case client_endpoint_open ra rt hdc_type (empty_client_endpoint 0, w) of
        (Inl err, (ep, w)) \<Rightarrow> (Inl err, snd (client_endpoint_reset ra ep w))
      | (Inr _, (ep, w)) \<Rightarrow> (Inr ep, w))"

section \<open>Memory regions\<close>

definition client_reg_mr :: "'w libra \<Rightarrow> ClientEndpoint \<Rightarrow> MemoryBuffer \<Rightarrow> int \<Rightarrow> ('w, ClientRegion) comp" where
  "client_reg_mr ra ep b access w =
     (case ra_register_mr ra of
        None \<Rightarrow> (Inl kInvalidArgument, w)
      | Some register_mr \<Rightarrow>
          if \<not> client_endpoint_opened ep \<or> mb_rdma_data b = 0 \<or> mb_size b = 0 then (Inl kInvalidArgument, w)
          else case register_mr (cep_rdev_handle ep)
                      (zero_mr_info\<lparr>mi_address := mb_rdma_data b, mi_size := mb_size b, mi_access := access\<rparr>) w of
            ((result, info, handle), w) \<Rightarrow>
              if result \<noteq> 0 \<or> handle = 0 \<or> mi_local_key info = 0 \<or> mi_remote_key info = 0 then (Inl kRa, w)
              else (Inr \<lparr>crg_endpoint = cep_this ep, crg_info = info, crg_handle = handle\<rparr>, w))"

definition client_deregister :: "'w libra \<Rightarrow> ClientEndpoint \<Rightarrow> u64 \<Rightarrow> ('w, unit) comp" where
  "client_deregister ra ep handle w =
     (case ra_deregister_mr ra of
        None \<Rightarrow> (Inl kInvalidArgument, w)
      | Some deregister_mr \<Rightarrow>
          if \<not> client_endpoint_opened ep \<or> handle = 0 then (Inl kInvalidArgument, w)
          else case deregister_mr (cep_rdev_handle ep) handle w of
            (result, w) \<Rightarrow> if result \<noteq> 0 then (Inl kRa, w) else (Inr (), w))"

definition empty_client_region :: ClientRegion where
  "empty_client_region = \<lparr>crg_endpoint = 0, crg_info = zero_mr_info, crg_handle = 0\<rparr>"

definition client_region_reset :: "'w libra \<Rightarrow> ClientEndpoint \<Rightarrow> ClientRegion \<Rightarrow> 'w \<Rightarrow> ClientRegion \<times> 'w" where
  "client_region_reset ra ep region w =
     (empty_client_region,
      if crg_endpoint region \<noteq> 0 \<and> crg_handle region \<noteq> 0 then snd (client_deregister ra ep (crg_handle region) w) else w)"

definition client_region_move :: "ClientRegion \<Rightarrow> ClientRegion \<times> ClientRegion" where
  "client_region_move other = (other, empty_client_region)"

definition client_region_move_assign :: "'w libra \<Rightarrow> ClientEndpoint \<Rightarrow> ClientRegion \<Rightarrow> ClientRegion \<Rightarrow> 'w \<Rightarrow>
    (ClientRegion \<times> ClientRegion) \<times> 'w" where
  "client_region_move_assign ra ep self other w = (client_region_move other, snd (client_region_reset ra ep self w))"

definition client_belongs_to :: "ClientRegion \<Rightarrow> u64 \<Rightarrow> bool" where
  "client_belongs_to region endpoint \<longleftrightarrow> crg_endpoint region = endpoint \<and> crg_handle region \<noteq> 0"

section \<open>Queue pairs\<close>

definition kQpnMask :: u32 where "kQpnMask = 0x00ffffff"
definition kPsnMask :: u32 where "kPsnMask = 0x00ffffff"
definition kMaxCqeErrors :: nat where "kMaxCqeErrors = 512"

definition is_valid_qp_number :: "u32 \<Rightarrow> bool" where
  "is_valid_qp_number v \<longleftrightarrow> v \<noteq> 0 \<and> v \<le> kQpnMask"

definition is_valid_psn :: "u32 \<Rightarrow> bool" where
  "is_valid_psn v \<longleftrightarrow> v \<le> kPsnMask"

definition is_power_of_two :: "u32 \<Rightarrow> bool" where
  "is_power_of_two v \<longleftrightarrow> v \<ge> 2 \<and> v AND (v - 1) = 0"

definition new_client_qp :: "u64 \<Rightarrow> QueuePairConfig \<Rightarrow> BackendMode \<Rightarrow> ClientQp" where
  "new_client_qp endpoint config mode =
     \<lparr>cqp_endpoint = endpoint, cqp_config = config, cqp_mode = mode, cqp_handle = 0, cqp_local_attributes = zero_qp_attributes,
      cqp_ai_qp_info = zero_ai_qp_info, cqp_send_wr_ids = empty_buffer, cqp_receive_wr_ids = empty_buffer,
      cqp_posted_send_sge = zero_sge, cqp_connected = False\<rparr>"

definition client_qp_created :: "ClientQp \<Rightarrow> bool" where
  "client_qp_created qp \<longleftrightarrow> cqp_endpoint qp \<noteq> 0 \<and> cqp_handle qp \<noteq> 0"

definition client_qp_reset :: "'w libra \<Rightarrow> ClientQp \<Rightarrow> 'w \<Rightarrow> ClientQp \<times> 'w" where
  "client_qp_reset ra qp w =
     (let w = (if cqp_endpoint qp \<noteq> 0 \<and> cqp_handle qp \<noteq> 0
               then (case ra_qp_destroy ra of None \<Rightarrow> w | Some destroy \<Rightarrow> destroy (cqp_handle qp) w) else w)
      in (qp\<lparr>cqp_endpoint := 0, cqp_handle := 0, cqp_local_attributes := zero_qp_attributes, cqp_ai_qp_info := zero_ai_qp_info,
             cqp_posted_send_sge := zero_sge, cqp_connected := False\<rparr>, w))"

text \<open>The destructor resets the object and then its two buffers.\<close>

definition client_qp_destroy :: "'w libra \<Rightarrow> 'w cann \<Rightarrow> Runtime \<Rightarrow> ClientQp \<Rightarrow> 'w \<Rightarrow> 'w" where
  "client_qp_destroy ra acl rt qp w =
     (case client_qp_reset ra qp w of
        (qp, w) \<Rightarrow> snd (buffer_reset acl rt (cqp_send_wr_ids qp) (snd (buffer_reset acl rt (cqp_receive_wr_ids qp) w))))"

definition client_qp_move :: "ClientQp \<Rightarrow> ClientQp \<times> ClientQp" where
  "client_qp_move other =
     (other, other\<lparr>cqp_endpoint := 0, cqp_handle := 0, cqp_local_attributes := zero_qp_attributes, cqp_ai_qp_info := zero_ai_qp_info,
        cqp_send_wr_ids := snd (buffer_move (cqp_send_wr_ids other)),
        cqp_receive_wr_ids := snd (buffer_move (cqp_receive_wr_ids other)),
        cqp_posted_send_sge := zero_sge, cqp_connected := False\<rparr>)"

definition client_qp_move_assign :: "'w libra \<Rightarrow> 'w cann \<Rightarrow> Runtime \<Rightarrow> ClientQp \<Rightarrow> ClientQp \<Rightarrow> 'w \<Rightarrow> (ClientQp \<times> ClientQp) \<times> 'w" where
  "client_qp_move_assign ra acl rt self other w =
     (case client_qp_reset ra self w of
        (self, w) \<Rightarrow>
          (case buffer_move_assign acl rt (cqp_send_wr_ids self) (cqp_send_wr_ids other) w of
             (_, w) \<Rightarrow>
               (case buffer_move_assign acl rt (cqp_receive_wr_ids self) (cqp_receive_wr_ids other) w of
                  (_, w) \<Rightarrow> (client_qp_move other, w))))"

definition build_typical_qp :: "QpAttr \<Rightarrow> u32 \<Rightarrow> u32 \<Rightarrow> u32 \<Rightarrow> u32 \<Rightarrow> TypicalQp result" where
  "build_typical_qp attributes tclass slevel rcount rtimeout =
     (if \<not> is_valid_qp_number (qa_qpn attributes) \<or> \<not> is_valid_psn (qa_psn attributes) then Inl kInvalidArgument
      else Inr \<lparr>tq_qpn = qa_qpn attributes, tq_psn = qa_psn attributes, tq_gid_index = qa_gid_index attributes,
                tq_gid = qa_gid attributes, tq_traffic_class = tclass, tq_service_level = slevel,
                tq_retry_count = rcount, tq_retry_timeout = rtimeout\<rparr>)"

definition qp_config_invalid :: "QueuePairConfig \<Rightarrow> bool" where
  "qp_config_invalid config \<longleftrightarrow>
     qc_port_num config = 0 \<or> qc_path_mtu config = 0 \<or> qc_send_queue_depth config > INT32_MAX
     \<or> qc_receive_queue_depth config > INT32_MAX \<or> \<not> is_power_of_two (qc_send_queue_depth config)
     \<or> \<not> is_power_of_two (qc_receive_queue_depth config)"

definition ra_api_incomplete :: "'w libra \<Rightarrow> BackendMode \<Rightarrow> bool" where
  "ra_api_incomplete ra mode \<longleftrightarrow>
     ra_qp_destroy ra = None \<or> ra_get_qp_attr ra = None \<or> ra_typical_qp_modify ra = None
     \<or> (mode = ModeRa \<and> ra_typical_qp_create ra = None)
     \<or> ((mode = ModeAicpu \<or> mode = ModeAiv)
        \<and> (ra_ai_qp_create ra = None \<or> ra_set_qp_attr_qos ra = None \<or> ra_set_qp_attr_timeout ra = None
           \<or> ra_set_qp_attr_retry_count ra = None))"

definition ai_qp_attributes :: "QueuePairConfig \<Rightarrow> QpExtAttrs" where
  "ai_qp_attributes config =
     \<lparr>qx_qp_mode = qc_ai_qp_mode config, qx_send_cq_depth = qc_send_queue_depth config,
      qx_recv_cq_depth = qc_receive_queue_depth config, qx_max_send_wr = qc_send_queue_depth config,
      qx_max_recv_wr = qc_receive_queue_depth config, qx_max_send_sge = 1, qx_max_recv_sge = 1, qx_max_inline_data = 32,
      qx_qp_type = QP_TYPE_RC, qx_version = QP_CREATE_WITH_ATTR_VERSION,
      qx_data_plane_flag = (if qc_control_flags config AND QueuePairCallerPollsCq \<noteq> 0 then AI_CALLER_POLLS_CQ else 0)\<rparr>"

text \<open>The three attribute calls, which stop at the first failure.\<close>

definition set_ai_qp_attributes :: "'w libra \<Rightarrow> QueuePairConfig \<Rightarrow> u64 \<Rightarrow> 'w \<Rightarrow> bool \<times> 'w" where
  "set_ai_qp_attributes ra config handle w =
     (case the (ra_set_qp_attr_qos ra) handle (ucast (qc_traffic_class config)) (ucast (qc_service_level config)) w of
        (result, w) \<Rightarrow>
          if result \<noteq> 0 then (False, w)
          else case the (ra_set_qp_attr_timeout ra) handle (qc_retry_timeout config) w of
            (result, w) \<Rightarrow>
              if result \<noteq> 0 then (False, w)
              else case the (ra_set_qp_attr_retry_count ra) handle (qc_retry_count config) w of
                (result, w) \<Rightarrow> (result = 0, w))"

text \<open>The private tables of work request identifiers; the first is freed when the second cannot be had.\<close>

definition allocate_wr_ids :: "'w libra \<Rightarrow> 'w cann \<Rightarrow> Runtime \<Rightarrow> (ClientQp \<times> 'w, unit) comp" where
  "allocate_wr_ids ra acl rt = (\<lambda>(qp, w).
     case runtime_allocate acl rt (ucast (qc_send_queue_depth (cqp_config qp)) * 8) LocDevice w of
       (Inl err, w) \<Rightarrow> (Inl err, client_qp_reset ra qp w)
     | (Inr send_wr_ids, w) \<Rightarrow>
         (case runtime_allocate acl rt (ucast (qc_receive_queue_depth (cqp_config qp)) * 8) LocDevice w of
            (Inl err, w) \<Rightarrow>
              (case client_qp_reset ra qp w of (qp, w) \<Rightarrow> (Inl err, (qp, snd (buffer_reset acl rt send_wr_ids w))))
          | (Inr receive_wr_ids, w) \<Rightarrow>
              (Inr (), (qp\<lparr>cqp_send_wr_ids := send_wr_ids, cqp_receive_wr_ids := receive_wr_ids\<rparr>, w))))"

definition create_ra_qp :: "'w libra \<Rightarrow> ClientEndpoint \<Rightarrow> (ClientQp \<times> 'w, unit) comp" where
  "create_ra_qp ra ep = (\<lambda>(qp, w).
     case the (ra_typical_qp_create ra) (cep_rdev_handle ep) QP_FLAG_RC QP_MODE_OPBASE w of
       ((result, handle), w) \<Rightarrow>
         (let qp = qp\<lparr>cqp_handle := handle\<rparr>
          in if result \<noteq> 0 \<or> handle = 0 then (Inl kRa, client_qp_reset ra qp w) else (Inr (), (qp, w))))"

definition create_ai_qp :: "'w libra \<Rightarrow> 'w cann \<Rightarrow> Runtime \<Rightarrow> ClientEndpoint \<Rightarrow> (ClientQp \<times> 'w, unit) comp" where
  "create_ai_qp ra acl rt ep = (\<lambda>(qp, w).
     case the (ra_ai_qp_create ra) (cep_rdev_handle ep) (ai_qp_attributes (cqp_config qp)) w of
       ((result, handle, info), w) \<Rightarrow>
         (let qp = qp\<lparr>cqp_handle := handle, cqp_ai_qp_info := info\<rparr>
          in if result \<noteq> 0 \<or> handle = 0 \<or> aq_ai_qp_address info = 0 then (Inl kRa, client_qp_reset ra qp w)
             else case set_ai_qp_attributes ra (cqp_config qp) handle w of
               (done, w) \<Rightarrow>
                 if \<not> done then (Inl kRa, client_qp_reset ra qp w) else allocate_wr_ids ra acl rt (qp, w)))"

text \<open>The configuration a queue pair keeps: the given one with the mode of an AI queue pair filled in.\<close>

definition effective_config :: "BackendMode \<Rightarrow> QueuePairConfig \<Rightarrow> QueuePairConfig" where
  "effective_config mode config =
     (if qc_ai_qp_mode config < 0
      then config\<lparr>qc_ai_qp_mode := (if mode = ModeAicpu then QP_MODE_NORMAL else QP_MODE_OPBASE_EXT)\<rparr> else config)"

definition create_backend_qp :: "'w libra \<Rightarrow> 'w cann \<Rightarrow> Runtime \<Rightarrow> ClientEndpoint \<Rightarrow> BackendMode \<Rightarrow> (ClientQp \<times> 'w, unit) comp" where
  "create_backend_qp ra acl rt ep mode = (if mode = ModeRa then create_ra_qp ra ep else create_ai_qp ra acl rt ep)"

definition client_qp_initialize :: "'w libra \<Rightarrow> 'w cann \<Rightarrow> Runtime \<Rightarrow> ClientEndpoint \<Rightarrow> (ClientQp \<times> 'w, unit) comp" where
  "client_qp_initialize ra acl rt ep = (\<lambda>(qp, w).
     let config = cqp_config qp; mode = cqp_mode qp in
     if cqp_endpoint qp = 0 \<or> \<not> client_endpoint_opened ep then (Inl kInvalidArgument, (qp, w))
     else if qp_config_invalid config then (Inl kInvalidArgument, (qp, w))
     else if mode = ModeAicpu \<and> qc_ai_qp_mode config \<ge> 0 \<and> qc_ai_qp_mode config \<noteq> QP_MODE_NORMAL
     then (Inl kInvalidArgument, (qp, w))
     else if ra_api_incomplete ra mode then (Inl kRa, (qp, w))
     else
       (let qp = qp\<lparr>cqp_config := effective_config mode config\<rparr>
        in rbind (create_backend_qp ra acl rt ep mode) (\<lambda>_ (qp, w).
             case the (ra_get_qp_attr ra) (cqp_handle qp) w of
               ((result, attributes), w) \<Rightarrow>
                 (let qp = qp\<lparr>cqp_local_attributes := attributes\<rparr>
                  in if result \<noteq> 0 \<or> \<not> is_valid_qp_number (qa_qpn attributes) \<or> \<not> is_valid_psn (qa_psn attributes)
                     then (Inl kRa, client_qp_reset ra qp w) else (Inr (), (qp, w)))) (qp, w)))"

text \<open>\<open>Endpoint::create_qp\<close>: a queue pair that fails to initialize is destroyed with its buffers.\<close>

definition client_create_qp :: "'w libra \<Rightarrow> 'w cann \<Rightarrow> Runtime \<Rightarrow> ClientEndpoint \<Rightarrow> QueuePairConfig \<Rightarrow> BackendMode \<Rightarrow> ('w, ClientQp) comp" where
  "client_create_qp ra acl rt ep config backend w =
     (case client_qp_initialize ra acl rt ep (new_client_qp (cep_this ep) config backend, w) of
        (Inl err, (qp, w)) \<Rightarrow> (Inl err, client_qp_destroy ra acl rt qp w)
      | (Inr _, (qp, w)) \<Rightarrow> (Inr qp, w))"

definition client_local_qp_info :: "ClientQp \<Rightarrow> QpInfo result" where
  "client_local_qp_info qp =
     (if \<not> client_qp_created qp then Inl kInvalidArgument
      else
        (let attributes = cqp_local_attributes qp; config = cqp_config qp
         in Inr (zero_qp_info\<lparr>qp_num := qa_qpn attributes, psn := qa_psn attributes, port_num := qc_port_num config,
                   gid_index := ucast (qa_gid_index attributes), path_mtu := ucast (qc_path_mtu config),
                   traffic_class := qc_traffic_class config, service_level := qc_service_level config,
                   retry_count := qc_retry_count config, retry_timeout := qc_retry_timeout config,
                   gid := qa_gid attributes\<rparr>)))"

definition client_qp_connect :: "'w libra \<Rightarrow> QpInfo \<Rightarrow> (ClientQp \<times> 'w, unit) comp" where
  "client_qp_connect ra peer = (\<lambda>(qp, w).
     if \<not> client_qp_created qp \<or> cqp_connected qp then (Inl kInvalidArgument, (qp, w))
     else if qp_num peer = 0 \<or> qp_num peer > kQpnMask \<or> psn peer > kPsnMask \<or> port_num peer = 0 \<or> path_mtu peer = 0
     then (Inl kInvalidArgument, (qp, w))
     else
       (let config = cqp_config qp;
            peer_attributes = \<lparr>qa_qpn = qp_num peer, qa_psn = psn peer, qa_gid_index = ucast (gid_index peer), qa_gid = gid peer\<rparr>
        in case build_typical_qp (cqp_local_attributes qp) (qc_traffic_class config) (qc_service_level config)
                  (qc_retry_count config) (qc_retry_timeout config) of
             Inl err \<Rightarrow> (Inl err, (qp, w))
           | Inr near \<Rightarrow>
               (case build_typical_qp peer_attributes (traffic_class peer) (service_level peer) (retry_count peer)
                       (retry_timeout peer) of
                  Inl err \<Rightarrow> (Inl err, (qp, w))
                | Inr remote \<Rightarrow>
                    (case the (ra_typical_qp_modify ra) (cqp_handle qp) near remote w of
                       (result, w) \<Rightarrow>
                         if result \<noteq> 0 then (Inl kRa, (qp, w)) else (Inr (), (qp\<lparr>cqp_connected := True\<rparr>, w))))))"

text \<open>The three status queries differ in the call, its handle and the accepted range.\<close>

definition ranged_query :: "(u64 \<Rightarrow> 'w \<Rightarrow> (int \<times> int) \<times> 'w) option \<Rightarrow> u64 \<Rightarrow> int \<Rightarrow> int \<Rightarrow> ClientQp \<Rightarrow> ('w, int) comp" where
  "ranged_query query handle least greatest qp w =
     (case query of
        None \<Rightarrow> (Inl kInvalidArgument, w)
      | Some f \<Rightarrow>
          if \<not> client_qp_created qp then (Inl kInvalidArgument, w)
          else case f handle w of
            ((result, status), w) \<Rightarrow>
              if result \<noteq> 0 \<or> status < least \<or> status > greatest then (Inl kRa, w) else (Inr status, w))"

definition query_port_status :: "'w libra \<Rightarrow> ClientEndpoint \<Rightarrow> ClientQp \<Rightarrow> ('w, int) comp" where
  "query_port_status ra ep qp =
     ranged_query (ra_get_port_status ra) (cep_rdev_handle ep) PORT_STATUS_DOWN PORT_STATUS_ACTIVE qp"

definition query_support_lite :: "'w libra \<Rightarrow> ClientEndpoint \<Rightarrow> ClientQp \<Rightarrow> ('w, int) comp" where
  "query_support_lite ra ep qp =
     ranged_query (ra_get_support_lite ra) (cep_rdev_handle ep) LITE_NOT_SUPPORTED LITE_ALIGN_2M qp"

definition query_status :: "'w libra \<Rightarrow> ClientQp \<Rightarrow> ('w, int) comp" where
  "query_status ra qp =
     ranged_query (ra_get_qp_status ra) (cqp_handle qp) QP_STATUS_NOT_CONNECTED QP_STATUS_CONNECTING qp"

definition query_cqe_errors :: "'w libra \<Rightarrow> ClientEndpoint \<Rightarrow> ClientQp \<Rightarrow> ('w, CqeError list) comp" where
  "query_cqe_errors ra ep qp w =
     (case ra_get_cqe_error_list ra of
        None \<Rightarrow> (Inl kInvalidArgument, w)
      | Some f \<Rightarrow>
          if \<not> client_qp_created qp then (Inl kInvalidArgument, w)
          else case f (cep_rdev_handle ep) kMaxCqeErrors w of
            ((result, n, errors), w) \<Rightarrow>
              if result \<noteq> 0 \<or> n > kMaxCqeErrors then (Inl kRa, w) else (Inr (take n errors), w))"

section \<open>Device descriptors\<close>

definition NDS_DOORBELL_RECORD :: u32 where "NDS_DOORBELL_RECORD = 1"
definition NDS_DOORBELL_MMIO :: u32 where "NDS_DOORBELL_MMIO = 2"
definition NDS_QP_CALLER_POLLS_CQ :: u32 where "NDS_QP_CALLER_POLLS_CQ = 1"

definition copy_wq :: "AiDataPlaneWq \<Rightarrow> u64 \<Rightarrow> bool \<Rightarrow> NdsWorkQueueDescriptor" where
  "copy_wq input wr_id_address is_send =
     \<lparr>q_number = dpw_wqn input, q_depth = dpw_depth input, q_entry_size = dpw_wqebb_size input,
      q_doorbell_mode = (if is_send then NDS_DOORBELL_MMIO else NDS_DOORBELL_RECORD),
      q_buffer_address = dpw_buffer_address input, q_head_address = dpw_head_address input,
      q_tail_address = dpw_tail_address input,
      q_doorbell_address = (if is_send then dpw_doorbell_register_address input else dpw_software_doorbell_address input),
      q_wr_id_address = wr_id_address\<rparr>"

definition copy_cq :: "AiDataPlaneCq \<Rightarrow> NdsCqDescriptor" where
  "copy_cq input =
     \<lparr>cq_number = dpc_cqn input, cq_depth = dpc_depth input, cq_entry_size = dpc_cqe_size input,
      cq_doorbell_mode = NDS_DOORBELL_RECORD, cq_buffer_address = dpc_buffer_address input,
      cq_consumer_address = dpc_tail_address input, cq_doorbell_address = dpc_software_doorbell_address input\<rparr>"

definition zero_wq_descriptor :: NdsWorkQueueDescriptor where
  "zero_wq_descriptor = \<lparr>q_number = 0, q_depth = 0, q_entry_size = 0, q_doorbell_mode = 0, q_buffer_address = 0,
     q_head_address = 0, q_tail_address = 0, q_doorbell_address = 0, q_wr_id_address = 0\<rparr>"

definition zero_cq_descriptor :: NdsCqDescriptor where
  "zero_cq_descriptor = \<lparr>cq_number = 0, cq_depth = 0, cq_entry_size = 0, cq_doorbell_mode = 0, cq_buffer_address = 0,
     cq_consumer_address = 0, cq_doorbell_address = 0\<rparr>"

definition zero_qp_descriptor :: NdsQpDescriptor where
  "zero_qp_descriptor = \<lparr>qd_flags = 0, qd_qp_mode = 0, qd_service_level = 0, qd_reserved = 0, qd_provider_qp_address = 0,
     qd_provider_send_cq_address = 0, qd_provider_receive_cq_address = 0, qd_send_queue = zero_wq_descriptor,
     qd_receive_queue = zero_wq_descriptor, qd_send_cq = zero_cq_descriptor, qd_receive_cq = zero_cq_descriptor,
     qd_host_runtime_address = 0, qd_host_qp_address = 0\<rparr>"

text \<open>The fields of an AI queue pair that the device descriptor takes over; the rest is the argument's.\<close>

definition ai_descriptor :: "ClientQp \<Rightarrow> NdsQpDescriptor \<Rightarrow> NdsQpDescriptor" where
  "ai_descriptor qp descriptor =
     (let config = cqp_config qp; info = cqp_ai_qp_info qp; source = aq_data_plane_info info
      in descriptor\<lparr>
           qd_flags := (if qc_control_flags config AND QueuePairCallerPollsCq \<noteq> 0 then NDS_QP_CALLER_POLLS_CQ else 0),
           qd_qp_mode := of_int (qc_ai_qp_mode config), qd_service_level := qc_service_level config,
           qd_provider_qp_address := aq_ai_qp_address info, qd_provider_send_cq_address := aq_ai_scq_address info,
           qd_provider_receive_cq_address := aq_ai_rcq_address info,
           qd_send_queue := copy_wq (dpi_send_wq source) (mb_data (cqp_send_wr_ids qp)) True,
           qd_receive_queue := copy_wq (dpi_receive_wq source) (mb_data (cqp_receive_wr_ids qp)) False,
           qd_send_cq := copy_cq (dpi_send_cq source), qd_receive_cq := copy_cq (dpi_receive_cq source)\<rparr>)"

text \<open>\<open>this\<close> is the address of the queue pair.\<close>

definition device_qp :: "ClientEndpoint \<Rightarrow> u64 \<Rightarrow> ClientQp \<Rightarrow> NdsQpDescriptor result" where
  "device_qp ep this qp =
     (if \<not> client_qp_created qp then Inl kInvalidArgument
      else
        (let descriptor = zero_qp_descriptor\<lparr>qd_host_runtime_address := cep_runtime ep, qd_host_qp_address := this\<rparr>;
             info = cqp_ai_qp_info qp; source = aq_data_plane_info info
         in if cqp_mode qp = ModeRa then Inr descriptor
            else if aq_ai_qp_address info = 0 then Inl kRa
            else if mb_data (cqp_send_wr_ids qp) = 0 \<or> mb_data (cqp_receive_wr_ids qp) = 0 then Inl kRuntime
            else if dpw_buffer_address (dpi_send_wq source) = 0 \<or> dpw_buffer_address (dpi_receive_wq source) = 0 then Inl kRa
            else Inr (ai_descriptor qp descriptor)))"

section \<open>Facts\<close>

text \<open>What the steps of \<open>initialize\<close> leave: they keep the owner, the mode and the configuration.\<close>

lemma allocate_wr_ids_result:
  assumes "allocate_wr_ids ra acl rt (qp, w) = (Inr u, (qp', w'))"
  shows "\<exists>send receive. qp' = qp\<lparr>cqp_send_wr_ids := send, cqp_receive_wr_ids := receive\<rparr>
    \<and> buffer_wf rt send \<and> buffer_wf rt receive"
  using assms
  by (auto simp: allocate_wr_ids_def split: prod.splits sum.splits dest: runtime_allocate_wf(1))

definition qp_steps_keep :: "ClientQp \<Rightarrow> ClientQp \<Rightarrow> bool" where
  "qp_steps_keep qp qp' \<longleftrightarrow> cqp_endpoint qp' = cqp_endpoint qp \<and> cqp_mode qp' = cqp_mode qp
     \<and> cqp_config qp' = cqp_config qp \<and> cqp_connected qp' = cqp_connected qp \<and> cqp_handle qp' \<noteq> 0"

lemma create_ra_qp_result:
  assumes "create_ra_qp ra ep (qp, w) = (Inr u, (qp', w'))"
  shows "qp_steps_keep qp qp'"
  using assms by (auto simp: create_ra_qp_def qp_steps_keep_def Let_def split: prod.splits if_splits)

lemma create_ai_qp_result:
  assumes "create_ai_qp ra acl rt ep (qp, w) = (Inr u, (qp', w'))"
  shows "qp_steps_keep qp qp' \<and> aq_ai_qp_address (cqp_ai_qp_info qp') \<noteq> 0 \<and> buffer_wf rt (cqp_send_wr_ids qp')
    \<and> buffer_wf rt (cqp_receive_wr_ids qp')"
  using assms
  by (auto simp: create_ai_qp_def qp_steps_keep_def Let_def split: prod.splits if_splits dest!: allocate_wr_ids_result)

text \<open>A queue pair that is handed out is created, unconnected, of the requested backend and with valid attributes.\<close>

definition client_qp_ready :: "Runtime \<Rightarrow> ClientEndpoint \<Rightarrow> BackendMode \<Rightarrow> ClientQp \<Rightarrow> bool" where
  "client_qp_ready rt ep backend qp \<longleftrightarrow>
     cqp_endpoint qp = cep_this ep \<and> cqp_mode qp = backend \<and> client_qp_created qp
     \<and> is_valid_qp_number (qa_qpn (cqp_local_attributes qp)) \<and> is_valid_psn (qa_psn (cqp_local_attributes qp))
     \<and> (backend \<noteq> ModeRa \<longrightarrow> aq_ai_qp_address (cqp_ai_qp_info qp) \<noteq> 0 \<and> buffer_wf rt (cqp_send_wr_ids qp)
          \<and> buffer_wf rt (cqp_receive_wr_ids qp))"

lemma create_backend_qp_result:
  assumes "create_backend_qp ra acl rt ep mode (qp, w) = (Inr u, (qp', w'))"
  shows "qp_steps_keep qp qp'
    \<and> (mode \<noteq> ModeRa \<longrightarrow> aq_ai_qp_address (cqp_ai_qp_info qp') \<noteq> 0 \<and> buffer_wf rt (cqp_send_wr_ids qp')
         \<and> buffer_wf rt (cqp_receive_wr_ids qp'))"
  using assms by (auto simp: create_backend_qp_def split: if_splits dest!: create_ra_qp_result create_ai_qp_result)

lemma client_create_qp_result:
  assumes "client_create_qp ra acl rt ep config backend w = (Inr qp, w')"
  shows "client_qp_ready rt ep backend qp \<and> \<not> cqp_connected qp \<and> \<not> qp_config_invalid config
    \<and> cqp_config qp = effective_config backend config"
proof -
  obtain u where i: "client_qp_initialize ra acl rt ep (new_client_qp (cep_this ep) config backend, w) = (Inr u, (qp, w'))"
    using assms by (auto simp: client_create_qp_def split: prod.splits sum.splits)
  let ?q = "(new_client_qp (cep_this ep) config backend)\<lparr>cqp_config := effective_config backend config\<rparr>"
  from i obtain v q w1 a where
    c: "create_backend_qp ra acl rt ep backend (?q, w) = (Inr v, (q, w1))"
    and q: "qp = q\<lparr>cqp_local_attributes := a\<rparr>" "is_valid_qp_number (qa_qpn a)" "is_valid_psn (qa_psn a)"
    and g: "\<not> qp_config_invalid config" "cep_this ep \<noteq> 0"
    by (auto simp: client_qp_initialize_def Let_def new_client_qp_def rbind_def create_backend_qp_def
        effective_config_def split: prod.splits sum.splits if_split_asm)
  have "cqp_mode ?q = backend" "cqp_endpoint ?q = cep_this ep" "\<not> cqp_connected ?q"
    "cqp_config ?q = effective_config backend config" by (simp_all add: new_client_qp_def)
  then show ?thesis
    using create_backend_qp_result [OF c] q g by (simp add: client_qp_ready_def qp_steps_keep_def client_qp_created_def)
qed

end
