(* ===== verification/Client_Transport.thy ===== *)
theory Client_Transport
  imports Client_Endpoint Server_Transport
begin

text \<open>
  The client's transport, \<^verbatim>\<open>src/src/client/transport.cc\<close> and \<^verbatim>\<open>transport.hh\<close>: the negotiation with the
  server's listener, the queue pairs, and the projection of the queue pairs to the records that
  the device code reads. The runtime that the transport points to is an argument. The addresses
  that the object itself gives away, those of its queue pairs and of its descriptor array, are the
  argument \<open>object_addresses\<close>.
\<close>

section \<open>The transport object\<close>

definition client_kTransportSignalInterval :: u32 where "client_kTransportSignalInterval = 32"

definition client_send_transport_info :: "endian \<Rightarrow> 'w posix \<Rightarrow> TcpConnection option \<Rightarrow> TransportInfo \<Rightarrow> ('w, unit) pcomp" where
  "client_send_transport_info e os channel info =
     (case channel of
        None \<Rightarrow> pfail kInvalidArgument
      | Some ch \<Rightarrow>
          (case encode_transport_info e (Some info) (Some zero_wire_transport_info) of
             (result, encoded) \<Rightarrow>
               if result \<noteq> CodecOk then pfail kTransport
               else tcp_send os ch (transport_info_bytes e (the encoded))))"

definition client_receive_transport_info :: "endian \<Rightarrow> 'w posix \<Rightarrow> TcpConnection option \<Rightarrow> ('w, TransportInfo) pcomp" where
  "client_receive_transport_info e os channel =
     (case channel of
        None \<Rightarrow> pfail kInvalidArgument
      | Some ch \<Rightarrow>
          pbind (tcp_receive os ch 1292) (\<lambda>bytes.
            case decode_transport_info e (Some (transport_info_of_bytes e bytes)) (Some zero_transport_info) of
              (result, info) \<Rightarrow> if result \<noteq> CodecOk then pfail kTransport else pret (the info)))"

record ClientTransportConfig =
  ctc_hdc_type :: int
  ctc_qp :: QueuePairConfig
  ctc_qp_count :: u32
  ctc_server_address :: string
  ctc_tcp_timeout_ms :: u32

text \<open>\<open>ctp_runtime\<close> is the address of the runtime, and \<open>ctp_backend\<close> the mode of the backend configuration.\<close>

record ClientTransport =
  ctp_runtime :: u64
  ctp_config :: ClientTransportConfig
  ctp_backend :: BackendMode
  ctp_endpoint :: ClientEndpoint
  ctp_qps :: "ClientQp list"
  ctp_host_qp_descriptors :: "NdsQpDescriptor list"
  ctp_device_qp_addresses :: MemoryBuffer
  ctp_qp_states :: MemoryBuffer
  ctp_device_transport :: NdsTransportDescriptor
  ctp_exchange_channel :: TcpConnection
  ctp_local_qps :: "QpInfo list"

record object_addresses =
  oa_qp :: "nat \<Rightarrow> u64"
  oa_descriptors :: u64

text \<open>Running an operation of one queue pair on the transport.\<close>

definition on_client_qp :: "nat \<Rightarrow> (ClientQp \<times> 'w, 'a) comp \<Rightarrow> (ClientTransport \<times> 'w, 'a) comp" where
  "on_client_qp i f = (\<lambda>(t, w).
     case f (ctp_qps t ! i, w) of (r, (qp, w)) \<Rightarrow> (r, (t\<lparr>ctp_qps := (ctp_qps t)[i := qp]\<rparr>, w)))"

section \<open>Device records\<close>

text \<open>The body of the loop over the queue pairs; the records copied are those of \<open>device_qp\<close>.\<close>

definition transport_qp_descriptor :: "ClientTransport \<Rightarrow> u64 \<Rightarrow> ClientQp \<Rightarrow> NdsQpDescriptor result" where
  "transport_qp_descriptor t address qp =
     (let source = aq_data_plane_info (cqp_ai_qp_info qp) in
      if cqp_mode qp \<noteq> ctp_backend t then Inl kRuntime
      else if cqp_mode qp = ModeRa
      then Inr (zero_qp_descriptor\<lparr>qd_host_runtime_address := ctp_runtime t, qd_host_qp_address := address\<rparr>)
      else if aq_ai_qp_address (cqp_ai_qp_info qp) = 0 then Inl kInvalidArgument
      else if mb_data (cqp_send_wr_ids qp) = 0 \<or> mb_data (cqp_receive_wr_ids qp) = 0 then Inl kRuntime
      else if dpw_buffer_address (dpi_send_wq source) = 0 \<or> dpw_buffer_address (dpi_receive_wq source) = 0 then Inl kRa
      else Inr (ai_descriptor qp zero_qp_descriptor))"

fun push_descriptors :: "object_addresses \<Rightarrow> nat \<Rightarrow> ClientQp list \<Rightarrow> ClientTransport \<Rightarrow> unit result \<times> ClientTransport" where
  "push_descriptors addr i [] t = (Inr (), t)"
| "push_descriptors addr i (qp # qps) t =
     (case transport_qp_descriptor t (oa_qp addr i) qp of
        Inl err \<Rightarrow> (Inl err, t)
      | Inr d \<Rightarrow> push_descriptors addr (Suc i) qps (t\<lparr>ctp_host_qp_descriptors := ctp_host_qp_descriptors t @ [d]\<rparr>))"

definition initial_state :: "QueuePairConfig \<Rightarrow> NdsQpDescriptor \<Rightarrow> NdsTransportQpState" where
  "initial_state config d =
     \<lparr>st_signal_interval = client_kTransportSignalInterval, st_unsignaled_count = 0,
      st_send_credits = (if q_depth (qd_send_queue d) \<noteq> 0 then q_depth (qd_send_queue d) else qc_send_queue_depth config),
      st_receive_credits =
        (if q_depth (qd_receive_queue d) \<noteq> 0 then q_depth (qd_receive_queue d) else qc_receive_queue_depth config)\<rparr>"

definition initial_states :: "QueuePairConfig \<Rightarrow> NdsQpDescriptor list \<Rightarrow> NdsTransportQpState list result" where
  "initial_states config ds =
     (let states = map (initial_state config) ds
      in if \<exists>s \<in> set states. st_send_credits s = 0 \<or> st_receive_credits s = 0 then Inl kInvalidArgument else Inr states)"

text \<open>
  Allocating memory, filling it and moving it into a member of the object. The local buffer is
  released when it cannot be filled. \<open>get\<close> is the member that is assigned to.
\<close>

definition allocate_filled :: "'w cann \<Rightarrow> Runtime \<Rightarrow> MemoryLocation \<Rightarrow> host_object \<Rightarrow> ('w, MemoryBuffer) comp" where
  "allocate_filled acl rt location object w =
     (case runtime_allocate acl rt (of_nat (host_size object)) location w of
        (Inl err, w) \<Rightarrow> (Inl err, w)
      | (Inr b, w) \<Rightarrow>
          (case runtime_copy_to acl rt b object w of
             (Inl err, w) \<Rightarrow> (Inl err, snd (buffer_reset acl rt b w))
           | (Inr _, w) \<Rightarrow> (Inr b, w)))"

definition zero_transport_descriptor :: NdsTransportDescriptor where
  "zero_transport_descriptor =
     \<lparr>td_qp_descriptors_address = 0, td_qp_states_address = 0, td_qp_count = 0, td_reserved = 0\<rparr>"

text \<open>The second half of \<open>build_device_transport\<close>: the states and the descriptors in the backend's memory.\<close>

definition place_states :: "'w cann \<Rightarrow> Runtime \<Rightarrow> NdsTransportQpState list \<Rightarrow> (ClientTransport \<times> 'w, unit) comp" where
  "place_states acl rt states = (\<lambda>(t, w).
     case allocate_filled acl rt (if ctp_backend t = ModeRa then LocHost else LocDevice) (HQpStates states) w of
       (Inl err, w) \<Rightarrow> (Inl err, (t, w))
     | (Inr b, w) \<Rightarrow>
         (case buffer_move_assign acl rt (ctp_qp_states t) b w of
            ((b, _), w) \<Rightarrow>
              (Inr (), (t\<lparr>ctp_qp_states := b,
                          ctp_device_transport := (ctp_device_transport t)\<lparr>td_qp_states_address := mb_data b\<rparr>\<rparr>, w))))"

definition place_descriptors :: "'w cann \<Rightarrow> Runtime \<Rightarrow> object_addresses \<Rightarrow> (ClientTransport \<times> 'w, unit) comp" where
  "place_descriptors acl rt addr = (\<lambda>(t, w).
     let count = of_nat (length (ctp_host_qp_descriptors t)) in
     if ctp_backend t = ModeRa
     then (Inr (), (t\<lparr>ctp_device_qp_addresses := empty_buffer,
                      ctp_device_transport := (ctp_device_transport t)\<lparr>td_qp_descriptors_address := oa_descriptors addr,
                                                                      td_qp_count := count\<rparr>\<rparr>,
                    snd (buffer_reset acl rt (ctp_device_qp_addresses t) w)))
     else case allocate_filled acl rt LocDevice (HQpDescriptors (ctp_host_qp_descriptors t)) w of
       (Inl err, w) \<Rightarrow> (Inl err, (t, w))
     | (Inr b, w) \<Rightarrow>
         (case buffer_move_assign acl rt (ctp_device_qp_addresses t) b w of
            ((b, _), w) \<Rightarrow>
              (Inr (), (t\<lparr>ctp_device_qp_addresses := b,
                          ctp_device_transport := (ctp_device_transport t)\<lparr>td_qp_descriptors_address := mb_data b,
                                                                          td_qp_count := count\<rparr>\<rparr>, w))))"

definition build_device_transport :: "'w cann \<Rightarrow> Runtime \<Rightarrow> object_addresses \<Rightarrow> (ClientTransport \<times> 'w, unit) comp" where
  "build_device_transport acl rt addr = (\<lambda>(t, w).
     case push_descriptors addr 0 (ctp_qps t)
            (t\<lparr>ctp_device_transport := zero_transport_descriptor, ctp_host_qp_descriptors := []\<rparr>) of
       (Inl err, t) \<Rightarrow> (Inl err, (t, w))
     | (Inr _, t) \<Rightarrow>
         if ctp_host_qp_descriptors t = [] then (Inl kInvalidArgument, (t, w))
         else case initial_states (ctc_qp (ctp_config t)) (ctp_host_qp_descriptors t) of
           Inl err \<Rightarrow> (Inl err, (t, w))
         | Inr states \<Rightarrow> rbind (place_states acl rt states) (\<lambda>_. place_descriptors acl rt addr) (t, w))"

section \<open>Readiness\<close>

definition qp_ready :: "'w libra \<Rightarrow> ClientEndpoint \<Rightarrow> ClientQp \<Rightarrow> ('w, unit) comp" where
  "qp_ready ra ep qp =
     rbind (query_port_status ra ep qp) (\<lambda>port.
       rbind (query_status ra qp) (\<lambda>qp_status.
         rbind (query_support_lite ra ep qp) (\<lambda>lite.
           if port \<noteq> PORT_STATUS_ACTIVE \<or> qp_status \<noteq> QP_STATUS_CONNECTED \<or> lite = LITE_NOT_SUPPORTED
           then rfail kRa else rret ())))"

definition client_transport_ready :: "'w libra \<Rightarrow> ClientTransport \<Rightarrow> ('w, unit) comp" where
  "client_transport_ready ra t =
     (if ctp_qps t = [] then rfail kInvalidArgument else rfor (ctp_qps t) (qp_ready ra (ctp_endpoint t)))"

section \<open>Opening\<close>

fun client_create_qps :: "'w libra \<Rightarrow> 'w cann \<Rightarrow> Runtime \<Rightarrow> nat \<Rightarrow> (ClientTransport \<times> 'w, unit) comp" where
  "client_create_qps ra acl rt 0 = rret ()"
| "client_create_qps ra acl rt (Suc n) = (\<lambda>(t, w).
     case client_create_qp ra acl rt (ctp_endpoint t) (ctc_qp (ctp_config t)) (ctp_backend t) w of
       (Inl err, w) \<Rightarrow> (Inl err, (t, w))
     | (Inr qp, w) \<Rightarrow>
         (let t = t\<lparr>ctp_qps := ctp_qps t @ [qp]\<rparr>
          in case client_local_qp_info qp of
               Inl err \<Rightarrow> (Inl err, (t, w))
             | Inr near \<Rightarrow> client_create_qps ra acl rt n (t\<lparr>ctp_local_qps := ctp_local_qps t @ [near]\<rparr>, w)))"

definition client_connect_qps :: "'w libra \<Rightarrow> TransportInfo \<Rightarrow> (ClientTransport \<times> 'w, unit) comp" where
  "client_connect_qps ra peer_info = (\<lambda>(t, w).
     rfor [0..<length (ctp_qps t)] (\<lambda>i. on_client_qp i (client_qp_connect ra (ti_qps peer_info ! i))) (t, w))"

definition client_exchange_endpoints :: "endian \<Rightarrow> 'w posix \<Rightarrow> 'w libra \<Rightarrow> u32 \<Rightarrow> (ClientTransport \<times> 'w, unit) pcomp" where
  "client_exchange_endpoints e os ra accepted = (\<lambda>(t, w).
     let channel = Some (ctp_exchange_channel t);
         info = \<lparr>ti_kind = QpEndpoints, ti_qp_count = accepted,
                 ti_qps = ctp_local_qps t @ drop (length (ctp_local_qps t)) (replicate 16 zero_qp_info)\<rparr>
     in pbind (on_world (client_send_transport_info e os channel info)) (\<lambda>_.
          pbind (on_world (client_receive_transport_info e os channel)) (\<lambda>peer_info.
            if ti_kind peer_info \<noteq> QpEndpoints \<or> ti_qp_count peer_info \<noteq> accepted then pfail kTransport
            else plift (client_connect_qps ra peer_info))) (t, w))"

definition negotiate_count :: "endian \<Rightarrow> 'w posix \<Rightarrow> TcpConnection \<Rightarrow> u32 \<Rightarrow> ('w, u32) pcomp" where
  "negotiate_count e os channel requested =
     pbind (client_send_transport_info e os (Some channel)
              \<lparr>ti_kind = QpCountRequest, ti_qp_count = requested, ti_qps = replicate 16 zero_qp_info\<rparr>) (\<lambda>_.
       pbind (client_receive_transport_info e os (Some channel)) (\<lambda>response.
         if ti_kind response \<noteq> QpCountResponse \<or> ti_qp_count response = 0 \<or> ti_qp_count response > requested
         then pfail kTransport else pret (ti_qp_count response)))"

text \<open>The channel to the server, moved into the object.\<close>

definition client_connect_channel :: "endian \<Rightarrow> 'w posix \<Rightarrow> (ClientTransport \<times> 'w, unit) comp" where
  "client_connect_channel e os = (\<lambda>(t, w).
     case parse_tcp_address (inet_pton os) (ctc_server_address (ctp_config t)) of
       Inl err \<Rightarrow> (Inl err, (t, w))
     | Inr server \<Rightarrow>
         (case tcp_connect e os (ta_ipv4 server) (ta_port server) (ctc_tcp_timeout_ms (ctp_config t)) w of
            (Inl err, w) \<Rightarrow> (Inl err, (t, w))
          | (Inr channel, w) \<Rightarrow>
              (case tcp_move_assign os (ctp_exchange_channel t) channel w of
                 ((assigned, moved), w) \<Rightarrow> (Inr (), (t\<lparr>ctp_exchange_channel := assigned\<rparr>, tcp_destroy os moved w)))))"

definition client_open_endpoint :: "'w libra \<Rightarrow> Runtime \<Rightarrow> (ClientTransport \<times> 'w, unit) comp" where
  "client_open_endpoint ra rt = (\<lambda>(t, w).
     case create_endpoint ra rt (ctc_hdc_type (ctp_config t)) w of
       (Inl err, w) \<Rightarrow> (Inl err, (t, w))
     | (Inr ep, w) \<Rightarrow>
         (case client_endpoint_move_assign ra (ctp_endpoint t) ep w of
            ((assigned, moved), w) \<Rightarrow>
              (Inr (), (t\<lparr>ctp_endpoint := assigned\<rparr>, snd (client_endpoint_reset ra moved w)))))"

definition caller_polls :: "BackendMode \<Rightarrow> ClientTransportConfig \<Rightarrow> ClientTransportConfig" where
  "caller_polls backend config =
     (if backend \<noteq> ModeRa
      then config\<lparr>ctc_qp := (ctc_qp config)\<lparr>qc_control_flags := qc_control_flags (ctc_qp config) OR QueuePairCallerPollsCq\<rparr>\<rparr>
      else config)"

definition client_transport_open :: "endian \<Rightarrow> 'w posix \<Rightarrow> 'w libra \<Rightarrow> 'w cann \<Rightarrow> object_addresses \<Rightarrow> Runtime option \<Rightarrow>
    ClientTransportConfig \<Rightarrow> BackendMode \<Rightarrow> (ClientTransport \<times> 'w, unit) pcomp" where
  "client_transport_open e os ra acl addr runtime config backend = (\<lambda>(t, w).
     case runtime of
       None \<Rightarrow> Some (Inl kInvalidArgument, (t, w))
     | Some rt \<Rightarrow>
         if \<not> rt_initialized rt \<or> ctp_runtime t \<noteq> 0 then Some (Inl kInvalidArgument, (t, w))
         else if ctc_qp_count config = 0 \<or> ctc_qp_count config > kMaxQpInfoBatch then Some (Inl kInvalidArgument, (t, w))
         else if ctc_tcp_timeout_ms config = 0 \<or> ctc_tcp_timeout_ms config > INT32_MAX
         then Some (Inl kInvalidArgument, (t, w))
         else
           (let config = caller_polls backend config;
                t = t\<lparr>ctp_runtime := rt_this rt, ctp_config := config, ctp_backend := backend\<rparr>
            in pbind (plift (rbind (client_open_endpoint ra rt) (\<lambda>_. client_connect_channel e os))) (\<lambda>_ (t, w).
                 pbind (on_world (negotiate_count e os (ctp_exchange_channel t) (ctc_qp_count config))) (\<lambda>accepted.
                   pbind (plift (client_create_qps ra acl rt (unat accepted))) (\<lambda>_.
                     pbind (client_exchange_endpoints e os ra accepted) (\<lambda>_.
                       pbind (plift (build_device_transport acl rt addr)) (\<lambda>_ (t, w).
                         on_world (plift (client_transport_ready ra t)) (t, w))))) (t, w)) (t, w)))"

section \<open>Other members\<close>

definition client_local_qp :: "ClientTransport \<Rightarrow> QpInfo" where
  "client_local_qp t = (if ctp_local_qps t = [] then zero_qp_info else hd (ctp_local_qps t))"

definition client_register_memory :: "'w libra \<Rightarrow> Runtime \<Rightarrow> ClientTransport \<Rightarrow> MemoryBuffer \<Rightarrow> int \<Rightarrow> ('w, ClientRegion) comp" where
  "client_register_memory ra rt t b access w =
     (if ctp_runtime t = 0 \<or> \<not> rt_initialized rt \<or> \<not> client_endpoint_opened (ctp_endpoint t) then (Inl kInvalidArgument, w)
      else client_reg_mr ra (ctp_endpoint t) b access w)"

definition client_qp_at :: "ClientTransport \<Rightarrow> nat \<Rightarrow> ClientQp option" where
  "client_qp_at t i = (if i < length (ctp_qps t) then Some (ctp_qps t ! i) else None)"

definition host_qp_descriptor :: "ClientTransport \<Rightarrow> nat \<Rightarrow> NdsQpDescriptor result" where
  "host_qp_descriptor t i =
     (if i \<ge> length (ctp_host_qp_descriptors t) then Inl kInvalidArgument else Inr (ctp_host_qp_descriptors t ! i))"

definition client_qp_count :: "ClientTransport \<Rightarrow> nat" where
  "client_qp_count t = length (ctp_qps t)"

text \<open>The destructor, member by member against the order of declaration.\<close>

definition client_transport_destroy :: "'w posix \<Rightarrow> 'w libra \<Rightarrow> 'w cann \<Rightarrow> Runtime \<Rightarrow> ClientTransport \<Rightarrow> 'w \<Rightarrow> 'w" where
  "client_transport_destroy os ra acl rt t w =
     (let w = tcp_destroy os (ctp_exchange_channel t) w;
          w = snd (buffer_reset acl rt (ctp_qp_states t) w);
          w = snd (buffer_reset acl rt (ctp_device_qp_addresses t) w);
          w = fold (client_qp_destroy ra acl rt) (ctp_qps t) w
      in snd (client_endpoint_reset ra (ctp_endpoint t) w))"

section \<open>Facts\<close>

lemma caller_polls_count [simp]: "ctc_qp_count (caller_polls backend config) = ctc_qp_count config"
  by (simp add: caller_polls_def)

lemma on_world_eq_iff: "on_world f (s, w) = Some (r, (s', w')) \<longleftrightarrow> s' = s \<and> f w = Some (r, w')"
  by (auto simp: on_world_def split: option.splits prod.splits)

lemma client_create_qps_result:
  assumes "client_create_qps ra acl rt n (t, w) = (Inr u, (t', w'))"
  shows "\<exists>new near. t' = t\<lparr>ctp_qps := ctp_qps t @ new, ctp_local_qps := ctp_local_qps t @ near\<rparr> \<and> length new = n
    \<and> (\<forall>qp \<in> set new. client_qp_ready rt (ctp_endpoint t) (ctp_backend t) qp \<and> \<not> cqp_connected qp)
    \<and> map client_local_qp_info new = map Inr near"
  using assms
proof (induction n arbitrary: t w)
  case 0
  then show ?case by (auto intro!: exI [of _ "[]"])
next
  case (Suc n)
  from Suc.prems obtain qp near1 w1 where
    c: "client_create_qp ra acl rt (ctp_endpoint t) (ctc_qp (ctp_config t)) (ctp_backend t) w = (Inr qp, w1)"
    and l: "client_local_qp_info qp = Inr near1"
    and r: "client_create_qps ra acl rt n
      (t\<lparr>ctp_qps := ctp_qps t @ [qp], ctp_local_qps := ctp_local_qps t @ [near1]\<rparr>, w1) = (Inr u, (t', w'))"
    by (auto simp: Let_def split: prod.splits sum.splits)
  from Suc.IH [OF r] obtain new near where
    "t' = t\<lparr>ctp_qps := ctp_qps t @ qp # new, ctp_local_qps := ctp_local_qps t @ near1 # near\<rparr>" "length new = n"
    "\<forall>qp \<in> set new. client_qp_ready rt (ctp_endpoint t) (ctp_backend t) qp \<and> \<not> cqp_connected qp"
    "map client_local_qp_info new = map Inr near"
    by auto
  with client_create_qp_result [OF c] l show ?case
    by (intro exI [of _ "qp # new"] exI [of _ "near1 # near"]) simp
qed

definition connected_qp :: "ClientQp \<Rightarrow> ClientQp" where
  "connected_qp qp = qp\<lparr>cqp_connected := True\<rparr>"

lemma on_client_qp_connect:
  assumes "on_client_qp i (client_qp_connect ra peer) (t, w) = (Inr u, (t', w'))"
  shows "t' = t\<lparr>ctp_qps := (ctp_qps t)[i := connected_qp (ctp_qps t ! i)]\<rparr>"
  using assms
  by (auto simp: on_client_qp_def client_qp_connect_def connected_qp_def Let_def split: prod.splits sum.splits if_splits)

lemma connect_from:
  assumes "rfor [k..<length (ctp_qps t)] (\<lambda>i. on_client_qp i (client_qp_connect ra (peer i))) (t, w) = (Inr u, (t', w'))"
    and "k \<le> length (ctp_qps t)"
  shows "t' = t\<lparr>ctp_qps := take k (ctp_qps t) @ map connected_qp (drop k (ctp_qps t))\<rparr>"
  using assms
proof (induction "length (ctp_qps t) - k" arbitrary: k t w)
  case (Suc n)
  then have k: "k < length (ctp_qps t)" by simp
  let ?t = "t\<lparr>ctp_qps := (ctp_qps t)[k := connected_qp (ctp_qps t ! k)]\<rparr>"
  from Suc.prems k obtain u1 w1 where
    "rfor [Suc k..<length (ctp_qps t)] (\<lambda>i. on_client_qp i (client_qp_connect ra (peer i))) (?t, w1) = (Inr u, (t', w'))"
    by (auto simp: upt_conv_Cons rbind_eq_Inr_iff dest!: on_client_qp_connect)
  with Suc.hyps(1) [of ?t "Suc k" w1] Suc.hyps(2) k
  have "t' = ?t\<lparr>ctp_qps := take (Suc k) (ctp_qps ?t) @ map connected_qp (drop (Suc k) (ctp_qps ?t))\<rparr>"
    by simp
  then show ?case
    using k by (simp add: take_Suc_conv_app_nth Cons_nth_drop_Suc [symmetric])
qed simp

lemma client_connect_qps_result:
  assumes "client_connect_qps ra peer_info (t, w) = (Inr u, (t', w'))"
  shows "t' = t\<lparr>ctp_qps := map connected_qp (ctp_qps t)\<rparr>"
  using connect_from [of 0 t ra "\<lambda>i. ti_qps peer_info ! i" w u t' w'] assms by (simp add: client_connect_qps_def)

lemma transport_qp_descriptor_update [simp]:
  "transport_qp_descriptor (t\<lparr>ctp_host_qp_descriptors := ds\<rparr>) = transport_qp_descriptor t"
  "transport_qp_descriptor (t\<lparr>ctp_device_transport := dt\<rparr>) = transport_qp_descriptor t"
  "transport_qp_descriptor (t\<lparr>ctp_qp_states := b\<rparr>) = transport_qp_descriptor t"
  "transport_qp_descriptor (t\<lparr>ctp_device_qp_addresses := b\<rparr>) = transport_qp_descriptor t"
  by (auto simp: fun_eq_iff transport_qp_descriptor_def Let_def)

lemma push_descriptors_result:
  assumes "push_descriptors addr k qps t = (Inr u, t')"
  shows "\<exists>ds. t' = t\<lparr>ctp_host_qp_descriptors := ctp_host_qp_descriptors t @ ds\<rparr> \<and> length ds = length qps
    \<and> (\<forall>i < length qps. transport_qp_descriptor t (oa_qp addr (k + i)) (qps ! i) = Inr (ds ! i))"
  using assms
proof (induction qps arbitrary: k t)
  case Nil
  then show ?case by (auto intro!: exI [of _ "[]"])
next
  case (Cons qp qps)
  from Cons.prems obtain d where d: "transport_qp_descriptor t (oa_qp addr k) qp = Inr d"
    and r: "push_descriptors addr (Suc k) qps (t\<lparr>ctp_host_qp_descriptors := ctp_host_qp_descriptors t @ [d]\<rparr>) = (Inr u, t')"
    by (auto split: sum.splits)
  from Cons.IH [OF r] obtain ds where
    "t' = t\<lparr>ctp_host_qp_descriptors := ctp_host_qp_descriptors t @ d # ds\<rparr>" "length ds = length qps"
    "\<forall>i < length qps. transport_qp_descriptor t (oa_qp addr (Suc k + i)) (qps ! i) = Inr (ds ! i)"
    by auto
  with d show ?case
    by (intro exI [of _ "d # ds"]) (simp add: less_Suc_eq_0_disj nth_Cons split: nat.splits)
qed

lemma allocate_filled_wf:
  "allocate_filled acl rt location object w = (Inr b, w') \<Longrightarrow> buffer_wf rt b \<and> mb_location b = location"
  by (auto simp: allocate_filled_def split: prod.splits sum.splits dest: runtime_allocate_wf)

text \<open>
  An open transport: between one and sixteen connected queue pairs of its backend, one descriptor per
  queue pair, each the projection of its queue pair, and a device record that names the placed
  states and descriptors and counts them.
\<close>

definition client_transport_wf :: "object_addresses \<Rightarrow> Runtime \<Rightarrow> ClientTransport \<Rightarrow> bool" where
  "client_transport_wf addr rt t \<longleftrightarrow>
     ctp_runtime t = rt_this rt \<and> ctp_qps t \<noteq> [] \<and> length (ctp_qps t) \<le> 16
     \<and> (\<forall>qp \<in> set (ctp_qps t). client_qp_ready rt (ctp_endpoint t) (ctp_backend t) qp \<and> cqp_connected qp)
     \<and> length (ctp_local_qps t) = length (ctp_qps t)
     \<and> length (ctp_host_qp_descriptors t) = length (ctp_qps t)
     \<and> (\<forall>i < length (ctp_qps t). transport_qp_descriptor t (oa_qp addr i) (ctp_qps t ! i) = Inr (ctp_host_qp_descriptors t ! i))
     \<and> unat (td_qp_count (ctp_device_transport t)) = length (ctp_qps t)
     \<and> td_qp_states_address (ctp_device_transport t) = mb_data (ctp_qp_states t) \<and> mb_data (ctp_qp_states t) \<noteq> 0
     \<and> (if ctp_backend t = ModeRa then td_qp_descriptors_address (ctp_device_transport t) = oa_descriptors addr
        else td_qp_descriptors_address (ctp_device_transport t) = mb_data (ctp_device_qp_addresses t)
             \<and> mb_data (ctp_device_qp_addresses t) \<noteq> 0)"

lemma place_states_result:
  assumes "place_states acl rt states (t, w) = (Inr u, (t', w'))"
  shows "\<exists>b. buffer_wf rt b \<and> t' = t\<lparr>ctp_qp_states := b,
    ctp_device_transport := (ctp_device_transport t)\<lparr>td_qp_states_address := mb_data b\<rparr>\<rparr>"
  using assms
  by (auto simp: place_states_def buffer_move_assign_def buffer_move_def split: prod.splits sum.splits dest!: allocate_filled_wf)

lemma place_descriptors_result:
  assumes "place_descriptors acl rt addr (t, w) = (Inr u, (t', w'))"
  shows "\<exists>b. (ctp_backend t \<noteq> ModeRa \<longrightarrow> buffer_wf rt b) \<and> t' = t\<lparr>ctp_device_qp_addresses := b,
    ctp_device_transport := (ctp_device_transport t)\<lparr>
      td_qp_descriptors_address := (if ctp_backend t = ModeRa then oa_descriptors addr else mb_data b),
      td_qp_count := of_nat (length (ctp_host_qp_descriptors t))\<rparr>\<rparr>"
  using assms
  by (auto simp: place_descriptors_def Let_def buffer_move_assign_def buffer_move_def
      split: prod.splits sum.splits if_splits dest!: allocate_filled_wf)

lemma build_device_transport_result:
  assumes b: "build_device_transport acl rt addr (t, w) = (Inr u, (t', w'))"
    and n: "length (ctp_qps t) \<le> 16"
  shows "\<exists>ds bs bd. t' = t\<lparr>ctp_host_qp_descriptors := ds, ctp_qp_states := bs, ctp_device_qp_addresses := bd,
      ctp_device_transport := ctp_device_transport t'\<rparr>
    \<and> length ds = length (ctp_qps t) \<and> ds \<noteq> []
    \<and> (\<forall>i < length (ctp_qps t). transport_qp_descriptor t (oa_qp addr i) (ctp_qps t ! i) = Inr (ds ! i))
    \<and> unat (td_qp_count (ctp_device_transport t')) = length (ctp_qps t)
    \<and> td_qp_states_address (ctp_device_transport t') = mb_data bs \<and> mb_data bs \<noteq> 0
    \<and> (if ctp_backend t = ModeRa then td_qp_descriptors_address (ctp_device_transport t') = oa_descriptors addr
       else td_qp_descriptors_address (ctp_device_transport t') = mb_data bd \<and> mb_data bd \<noteq> 0)"
proof -
  let ?t0 = "t\<lparr>ctp_device_transport := zero_transport_descriptor, ctp_host_qp_descriptors := []\<rparr>"
  from b obtain u1 t1 states where p: "push_descriptors addr 0 (ctp_qps t) ?t0 = (Inr u1, t1)"
    and ne: "ctp_host_qp_descriptors t1 \<noteq> []"
    and r: "rbind (place_states acl rt states) (\<lambda>_. place_descriptors acl rt addr) (t1, w) = (Inr u, (t', w'))"
    by (auto simp: build_device_transport_def split: prod.splits sum.splits if_splits)
  from push_descriptors_result [OF p] obtain ds where
    ds: "t1 = ?t0\<lparr>ctp_host_qp_descriptors := ds\<rparr>" "length ds = length (ctp_qps t)"
    "\<forall>i < length (ctp_qps t). transport_qp_descriptor t (oa_qp addr i) (ctp_qps t ! i) = Inr (ds ! i)"
    by auto
  from r obtain v t2 w2 where s: "place_states acl rt states (t1, w) = (Inr v, (t2, w2))"
    and d: "place_descriptors acl rt addr (t2, w2) = (Inr u, (t', w'))"
    by (auto simp: rbind_eq_Inr_iff)
  from place_states_result [OF s] obtain bs where bs: "buffer_wf rt bs"
    "t2 = t1\<lparr>ctp_qp_states := bs, ctp_device_transport := (ctp_device_transport t1)\<lparr>td_qp_states_address := mb_data bs\<rparr>\<rparr>"
    by auto
  from place_descriptors_result [OF d] obtain bd where bd: "ctp_backend t2 \<noteq> ModeRa \<longrightarrow> buffer_wf rt bd"
    "t' = t2\<lparr>ctp_device_qp_addresses := bd, ctp_device_transport := (ctp_device_transport t2)\<lparr>
      td_qp_descriptors_address := (if ctp_backend t2 = ModeRa then oa_descriptors addr else mb_data bd),
      td_qp_count := of_nat (length (ctp_host_qp_descriptors t2))\<rparr>\<rparr>"
    by auto
  have "unat (of_nat (length ds) :: u32) = length ds"
    using ds(2) n by (simp add: unat_of_nat take_bit_nat_eq_self)
  with ds bs bd ne show ?thesis
    by (intro exI [of _ ds] exI [of _ bs] exI [of _ bd]) (simp add: buffer_wf_def)
qed

text \<open>Only the accepted count gets past the negotiation.\<close>

lemma negotiate_count_result:
  assumes "negotiate_count e os channel requested w = Some (Inr accepted, w')"
  shows "accepted \<noteq> 0 \<and> accepted \<le> requested"
  using assms by (auto simp: negotiate_count_def pbind_eq_Inr_iff split: if_splits)

lemma client_open_endpoint_result:
  assumes "client_open_endpoint ra rt (t, w) = (Inr u, (t', w'))"
  shows "\<exists>ep. t' = t\<lparr>ctp_endpoint := ep\<rparr>"
  using assms by (auto simp: client_open_endpoint_def split: prod.splits sum.splits)

lemma client_connect_channel_result:
  assumes "client_connect_channel e os (t, w) = (Inr u, (t', w'))"
  shows "\<exists>channel. t' = t\<lparr>ctp_exchange_channel := channel\<rparr>"
  using assms by (auto simp: client_connect_channel_def split: prod.splits sum.splits)

lemma client_exchange_endpoints_result:
  assumes "client_exchange_endpoints e os ra accepted (t, w) = Some (Inr u, (t', w'))"
  shows "t' = t\<lparr>ctp_qps := map connected_qp (ctp_qps t)\<rparr>"
  using assms
  by (auto simp: client_exchange_endpoints_def Let_def pbind_eq_Inr_iff on_world_def
      split: option.splits if_splits dest!: client_connect_qps_result)

lemma connected_qp_simps [simp]:
  "cqp_connected (connected_qp qp)" "client_qp_ready rt ep backend (connected_qp qp) = client_qp_ready rt ep backend qp"
  by (simp_all add: connected_qp_def client_qp_ready_def client_qp_created_def)

definition empty_client_transport :: "u64 \<Rightarrow> ClientTransportConfig \<Rightarrow> ClientTransport" where
  "empty_client_transport endpoint_address config =
     \<lparr>ctp_runtime = 0, ctp_config = config, ctp_backend = ModeRa, ctp_endpoint = empty_client_endpoint endpoint_address,
      ctp_qps = [], ctp_host_qp_descriptors = [], ctp_device_qp_addresses = empty_buffer, ctp_qp_states = empty_buffer,
      ctp_device_transport = zero_transport_descriptor, ctp_exchange_channel = \<lparr>tc_fd = -1\<rparr>, ctp_local_qps = []\<rparr>"

section \<open>A scripted peer\<close>

text \<open>A peer that sends the records of a script, one per read, and takes everything; a device that always obliges.\<close>

fun script_read :: "int \<Rightarrow> nat \<Rightarrow> TransportInfo list \<Rightarrow> (errno + u8 list) \<times> TransportInfo list" where
  "script_read fd n [] = (Inr [], [])"
| "script_read fd n (i # is) = (Inr (transport_info_bytes Big (wire_transport Big i)), is)"

definition script_os :: "TransportInfo list posix" where
  "script_os = \<lparr>inet_pton = (\<lambda>s. if s = ''10.0.0.2'' then Some 0x0a000002 else None),
     sys_read = script_read, sys_write = (\<lambda>_ bytes w. (Inr (length bytes), w)),
     sys_poll = (\<lambda>_ _ _ w. (Inr (1, 4), w)), sys_socket = (\<lambda>w. (Inr 3, w)), sys_getfl = (\<lambda>_ w. (Inr 2, w)),
     sys_setfl = (\<lambda>_ _ w. (Inr (), w)), sys_connect = (\<lambda>_ _ w. (Inr (), w)), sys_so_error = (\<lambda>_ w. (Inr 0, w)),
     sys_reuseaddr = (\<lambda>_ w. (Inr (), w)), sys_bind = (\<lambda>_ _ w. (Inr (), w)), sys_listen = (\<lambda>_ _ w. (Inr (), w)),
     sys_accept = (\<lambda>_ w. (Inr 4, w)), sys_close = (\<lambda>_ w. w)\<rparr>"

definition sample_acl :: "'w cann" where
  "sample_acl = \<lparr>aclInit = Pair 0, aclrtSetDevice = (\<lambda>_. Pair 0), aclFinalize = id, libruntime_open = Pair (Inr ()),
     libdsmi_open = Pair (Inr ()), rtOpenNetService = (\<lambda>_. Pair 0), rtCloseNetService = id,
     aclrtMalloc = (\<lambda>_. Pair (0, 0x1000)), aclrtFree = (\<lambda>_. Pair 0), posix_memalign = (\<lambda>_ _. Pair (0, 0x2000)),
     aclrtHostRegister = (\<lambda>_ _. Pair (0, 0x3000)), aclrtHostUnregister = (\<lambda>_. Pair 0), std_free = (\<lambda>_. id),
     host_new = (\<lambda>_. Pair 0x4000), host_delete = (\<lambda>_. id), host_store = (\<lambda>_ _. id),
     host_load = (\<lambda>_ n _. replicate n 0), aclrtMemcpy_to_device = (\<lambda>_ _. Pair 0),
     aclrtMemcpy_to_host = (\<lambda>_ n. Pair (0, replicate n 0)), rtSetDevice = (\<lambda>_. Pair 0), rtRDMADBSend = (\<lambda>_ _ _. Pair 0),
     client_now = Pair 0, sleep_for_ms = (\<lambda>_. id)\<rparr>"

definition sample_qp_attributes :: QpAttr where
  "sample_qp_attributes = \<lparr>qa_qpn = 7, qa_psn = 9, qa_gid_index = 0, qa_gid = replicate 16 1\<rparr>"

definition sample_ai_qp :: AiQpInfo where
  "sample_ai_qp = zero_ai_qp_info\<lparr>aq_ai_qp_address := 0x100, aq_data_plane_info :=
     (aq_data_plane_info zero_ai_qp_info)\<lparr>
       dpi_send_wq := zero_wq\<lparr>dpw_buffer_address := 0x5000, dpw_depth := 128\<rparr>,
       dpi_receive_wq := zero_wq\<lparr>dpw_buffer_address := 0x6000, dpw_depth := 128\<rparr>\<rparr>\<rparr>"

definition sample_ra :: "'w libra" where
  "sample_ra = \<lparr>ra_open = Pair (Inr ()), ra_init = (\<lambda>_ _. Pair 0), ra_deinit = (\<lambda>_ _. id),
     ra_rdev_init_v2 = (\<lambda>_ _. Pair (0, 0x10)), ra_rdev_deinit = Some (\<lambda>_. id),
     ra_get_port_status = Some (\<lambda>_. Pair (0, 1)), ra_get_support_lite = Some (\<lambda>_. Pair (0, 1)),
     ra_get_qp_status = Some (\<lambda>_. Pair (0, 1)), ra_get_cqe_error_list = Some (\<lambda>_ _. Pair (0, 0, [])),
     ra_typical_qp_create = Some (\<lambda>_ _ _. Pair (0, 0x20)),
     ra_ai_qp_create = Some (\<lambda>_ _. Pair (0, 0x20, sample_ai_qp)),
     ra_set_qp_attr_qos = Some (\<lambda>_ _ _. Pair 0), ra_set_qp_attr_timeout = Some (\<lambda>_ _. Pair 0),
     ra_set_qp_attr_retry_count = Some (\<lambda>_ _. Pair 0), ra_typical_qp_modify = Some (\<lambda>_ _ _. Pair 0),
     ra_qp_destroy = Some (\<lambda>_. id), ra_get_qp_attr = Some (\<lambda>_. Pair (0, sample_qp_attributes)),
     ra_register_mr = Some (\<lambda>_ info. Pair (0, info\<lparr>mi_local_key := 3, mi_remote_key := 4\<rparr>, 0x30)),
     ra_deregister_mr = Some (\<lambda>_ _. Pair 0), ra_typical_send_wr = (\<lambda>_ _. Pair (0, \<lparr>rd_db_index = 0, rd_db_info = 0\<rparr>)),
     ra_recv_wrlist = Some (\<lambda>_ wrs. Pair (0, of_nat (length wrs))), ra_poll_cq = (\<lambda>_ _ _. Pair (0, [])),
     acl_physical_device = (\<lambda>_. Pair (0, 0)), dsmi_get_device_ip_address = (\<lambda>_. Pair (0, [10, 0, 0, 1]))\<rparr>"

definition sample_runtime :: Runtime where
  "sample_runtime = \<lparr>rt_this = 0x40, rt_config = \<lparr>rc_logical_device_id = 0, rc_hdc_type = 18, rc_adopt_existing_context = True\<rparr>,
     rt_acl_initialized = False, rt_net_service_open = True, rt_initialized = True\<rparr>"

definition sample_client_config :: ClientTransportConfig where
  "sample_client_config = \<lparr>ctc_hdc_type = 18,
     ctc_qp = \<lparr>qc_port_num = 1, qc_path_mtu = 1024, qc_traffic_class = 0, qc_service_level = 0, qc_retry_count = 7,
              qc_retry_timeout = 14, qc_ai_qp_mode = -1, qc_send_queue_depth = 128, qc_receive_queue_depth = 128,
              qc_control_flags = 0\<rparr>,
     ctc_qp_count = 1, ctc_server_address = ''10.0.0.2:7'', ctc_tcp_timeout_ms = 5000\<rparr>"

definition sample_addresses :: object_addresses where
  "sample_addresses = \<lparr>oa_qp = (\<lambda>i. 0x8000 + of_nat i), oa_descriptors = 0x9000\<rparr>"

definition count_response :: TransportInfo where
  "count_response = \<lparr>ti_kind = QpCountResponse, ti_qp_count = 1, ti_qps = replicate 16 zero_qp_info\<rparr>"

definition peer_endpoints :: TransportInfo where
  "peer_endpoints = \<lparr>ti_kind = QpEndpoints, ti_qp_count = 1, ti_qps = replicate 16 sample_qp_info\<rparr>"

lemma script_send:
  assumes "validate_transport_info (Some info) = CodecOk"
  shows "client_send_transport_info Little script_os (Some \<lparr>tc_fd = 3\<rparr>) info w = Some (Inr (), w)"
  using assms
  by (simp add: client_send_transport_info_def encode_transport_info_simp tcp_send_def write_full.simps script_os_def)

lemma script_receive:
  assumes "transport_info_wf info" and "validate_transport_info (Some info) = CodecOk"
  shows "client_receive_transport_info Little script_os (Some \<lparr>tc_fd = 3\<rparr>) (info # w) = Some (Inr (canonical_transport_info info), w)"
proof -
  have "length (transport_info_bytes Big (wire_transport Big info)) = 1292"
    using assms by (simp add: length_transport_info_bytes)
  moreover from this have "transport_info_bytes Big (wire_transport Big info) \<noteq> []" by auto
  ultimately show ?thesis using assms
    by (simp add: client_receive_transport_info_def tcp_receive_def pbind_def script_os_def read_full.simps
        transport_info_cross_host decode_wire_transport)
qed

lemma script_records:
  "transport_info_wf count_response" "validate_transport_info (Some count_response) = CodecOk"
  "transport_info_wf peer_endpoints" "validate_transport_info (Some peer_endpoints) = CodecOk"
  by (simp_all add: transport_info_wf_def count_response_def peer_endpoints_def sample_qp_info_def zero_qp_info_def
      validate_transport_info_iff valid_transport_info_kind_def kind_defs kMaxQpInfoBatch_def validate_qp_info_def)

lemma script_negotiate:
  "negotiate_count Little script_os \<lparr>tc_fd = 3\<rparr> 1 (count_response # w) = Some (Inr 1, w)"
proof -
  have "validate_transport_info (Some \<lparr>ti_kind = QpCountRequest, ti_qp_count = 1, ti_qps = replicate 16 zero_qp_info\<rparr>) = CodecOk"
    by (simp add: validate_transport_info_iff valid_transport_info_kind_def kind_defs kMaxQpInfoBatch_def)
  then show ?thesis
    by (simp add: negotiate_count_def pbind_def script_send script_receive script_records(1,2))
      (simp add: canonical_transport_info_def count_response_def)
qed

text \<open>The transport of the sample before the endpoints are exchanged.\<close>

definition sample_qp_config :: QueuePairConfig where
  "sample_qp_config = effective_config ModeAiv (ctc_qp (caller_polls ModeAiv sample_client_config))"

definition sample_client_endpoint :: ClientEndpoint where
  "sample_client_endpoint = \<lparr>cep_this = 0x50, cep_runtime = 0x40, cep_hdc_type = 18, cep_physical_device_id = 0,
     cep_rdev_handle = 0x10, cep_ra_initialized = True\<rparr>"

definition sample_device_buffer :: "u64 \<Rightarrow> MemoryBuffer" where
  "sample_device_buffer n =
     \<lparr>mb_runtime = 0x40, mb_data = 0x1000, mb_rdma_data = 0x1000, mb_size = n, mb_location = LocDevice\<rparr>"

definition sample_client_qp :: ClientQp where
  "sample_client_qp = \<lparr>cqp_endpoint = 0x50, cqp_config = sample_qp_config, cqp_mode = ModeAiv, cqp_handle = 0x20,
     cqp_local_attributes = sample_qp_attributes, cqp_ai_qp_info = sample_ai_qp,
     cqp_send_wr_ids = sample_device_buffer 1024, cqp_receive_wr_ids = sample_device_buffer 1024,
     cqp_posted_send_sge = zero_sge, cqp_connected = False\<rparr>"

lemmas sample_defs = sample_acl_def sample_ra_def sample_runtime_def sample_client_endpoint_def

lemma sample_create_endpoint:
  "create_endpoint sample_ra sample_runtime 18 w = (Inr (sample_client_endpoint\<lparr>cep_this := 0\<rparr>), w)"
  by (simp add: create_endpoint_def client_endpoint_open_def client_endpoint_opened_def empty_client_endpoint_def Let_def sample_defs)

lemma sample_allocate: "n \<noteq> 0 \<Longrightarrow> runtime_allocate sample_acl sample_runtime n LocDevice w = (Inr (sample_device_buffer n), w)"
  by (simp add: runtime_allocate_def allocate_device_memory_def sample_defs sample_device_buffer_def)

lemma sample_create_qp:
  "client_create_qp sample_ra sample_acl sample_runtime sample_client_endpoint
     (ctc_qp (caller_polls ModeAiv sample_client_config)) ModeAiv w = (Inr sample_client_qp, w)"
proof -
  let ?config = "ctc_qp (caller_polls ModeAiv sample_client_config)"
  have ok: "\<not> qp_config_invalid ?config"
    by (simp add: qp_config_invalid_def caller_polls_def sample_client_config_def is_power_of_two_def)
  have depth: "qc_send_queue_depth sample_qp_config = 128" "qc_receive_queue_depth sample_qp_config = 128"
    by (simp_all add: sample_qp_config_def effective_config_def caller_polls_def sample_client_config_def)
  have ra: "client_endpoint_opened sample_client_endpoint" "\<not> ra_api_incomplete sample_ra ModeAiv"
    "ra_get_qp_attr sample_ra = Some (\<lambda>_. Pair (0, sample_qp_attributes))"
    "ra_ai_qp_create sample_ra = Some (\<lambda>_ _. Pair (0, 0x20, sample_ai_qp))"
    "set_ai_qp_attributes sample_ra c h w = (True, w)" "aq_ai_qp_address sample_ai_qp \<noteq> 0" for c h and w :: 'w
    by (simp_all add: client_endpoint_opened_def sample_client_endpoint_def ra_api_incomplete_def sample_ra_def
        set_ai_qp_attributes_def sample_ai_qp_def)
  show ?thesis
    using ok
    by (simp add: client_create_qp_def client_qp_initialize_def new_client_qp_def create_backend_qp_def create_ai_qp_def
        allocate_wr_ids_def rbind_def Let_def ra sample_allocate depth [unfolded sample_qp_config_def])
      (simp add: sample_client_qp_def sample_qp_config_def sample_client_endpoint_def is_valid_qp_number_def
        is_valid_psn_def kQpnMask_def kPsnMask_def sample_qp_attributes_def)
qed

definition sample_transport_open :: ClientTransport where
  "sample_transport_open = (empty_client_transport 0x50 sample_client_config)\<lparr>ctp_runtime := 0x40,
     ctp_config := caller_polls ModeAiv sample_client_config, ctp_backend := ModeAiv,
     ctp_endpoint := sample_client_endpoint, ctp_exchange_channel := \<lparr>tc_fd = 3\<rparr>\<rparr>"

definition sample_near :: QpInfo where
  "sample_near = projr (client_local_qp_info sample_client_qp)"

definition sample_transport_created :: ClientTransport where
  "sample_transport_created = sample_transport_open\<lparr>ctp_qps := [sample_client_qp], ctp_local_qps := [sample_near]\<rparr>"

lemma sample_near_eq: "client_local_qp_info sample_client_qp = Inr sample_near"
  by (simp add: sample_near_def client_local_qp_info_def client_qp_created_def sample_client_qp_def Let_def)

lemma sample_creates:
  "client_create_qps sample_ra sample_acl sample_runtime (Suc 0) (sample_transport_open, w)
     = (Inr (), (sample_transport_created, w))"
  by (simp add: sample_transport_open_def sample_create_qp sample_near_eq)
    (simp add: sample_transport_created_def sample_transport_open_def empty_client_transport_def)

lemma sample_connects:
  "client_connect_qps sample_ra (canonical_transport_info peer_endpoints) (sample_transport_created, w) =
     (Inr (), (sample_transport_created\<lparr>ctp_qps := [connected_qp sample_client_qp]\<rparr>, w))"
  by (simp add: client_connect_qps_def sample_transport_created_def on_client_qp_def client_qp_connect_def
      client_qp_created_def sample_client_qp_def build_typical_qp_def sample_qp_attributes_def is_valid_qp_number_def
      is_valid_psn_def kQpnMask_def kPsnMask_def canonical_transport_info_def peer_endpoints_def sample_qp_info_def
      zero_qp_info_def sample_ra_def connected_qp_def rbind_def)

lemma sample_exchange:
  "client_exchange_endpoints Little script_os sample_ra 1 (sample_transport_created, [peer_endpoints]) =
     Some (Inr (), (sample_transport_created\<lparr>ctp_qps := [connected_qp sample_client_qp]\<rparr>, []))"
proof -
  let ?info = "\<lparr>ti_kind = QpEndpoints, ti_qp_count = 1, ti_qps = [sample_near] @ drop 1 (replicate 16 zero_qp_info)\<rparr>"
  have v: "validate_transport_info (Some ?info) = CodecOk"
    by (simp add: validate_transport_info_iff valid_transport_info_kind_def kind_defs kMaxQpInfoBatch_def validate_qp_info_def
        sample_near_def client_local_qp_info_def client_qp_created_def sample_client_qp_def Let_def sample_qp_attributes_def
        sample_qp_config_def effective_config_def caller_polls_def sample_client_config_def)
  have c: "ctp_exchange_channel sample_transport_created = \<lparr>tc_fd = 3\<rparr>" "ctp_local_qps sample_transport_created = [sample_near]"
    by (simp_all add: sample_transport_created_def sample_transport_open_def)
  have k: "ti_kind (canonical_transport_info peer_endpoints) = QpEndpoints" "ti_qp_count (canonical_transport_info peer_endpoints) = 1"
    by (simp_all add: canonical_transport_info_def peer_endpoints_def)
  show ?thesis
    using v by (simp add: client_exchange_endpoints_def c Let_def pbind_def on_world_def script_send script_receive script_records k
        sample_connects)
qed

lemma sample_allocate_filled:
  assumes "host_size object \<noteq> 0" "host_size object < 2 ^ 32"
  shows "allocate_filled sample_acl sample_runtime LocDevice object w = (Inr (sample_device_buffer (of_nat (host_size object))), w)"
proof -
  have n: "unat (of_nat (host_size object) :: u64) = host_size object"
    using assms by (simp add: unat_of_nat take_bit_nat_eq_self)
  have nz: "(of_nat (host_size object) :: u64) \<noteq> 0"
    using assms(1) n by (metis unat_0)
  have "runtime_copy_to sample_acl sample_runtime (sample_device_buffer (of_nat (host_size object))) object w = (Inr (), w)"
    using assms n by (simp add: runtime_copy_to_def copy_host_to_device_def sample_device_buffer_def sample_defs)
  with sample_allocate [OF nz, of w] show ?thesis by (simp add: allocate_filled_def)
qed

lemma buffer_reset_empty: "buffer_reset acl rt empty_buffer w = (empty_buffer, w)"
  by (simp add: buffer_reset_def empty_buffer_def)

lemma sample_builds:
  "\<exists>t. build_device_transport sample_acl sample_runtime sample_addresses
      (sample_transport_created\<lparr>ctp_qps := [connected_qp sample_client_qp]\<rparr>, w) = (Inr (), (t, w))
    \<and> ctp_qps t = [connected_qp sample_client_qp] \<and> ctp_endpoint t = sample_client_endpoint"
proof -
  have d: "transport_qp_descriptor t a (connected_qp sample_client_qp)
      = Inr (ai_descriptor (connected_qp sample_client_qp) zero_qp_descriptor)" if "ctp_backend t = ModeAiv" for t a
    using that by (simp add: transport_qp_descriptor_def connected_qp_def sample_client_qp_def sample_ai_qp_def zero_ai_qp_info_def
        sample_device_buffer_def zero_wq_def)
  have s: "initial_states c [ai_descriptor (connected_qp sample_client_qp) zero_qp_descriptor]
      = Inr [initial_state c (ai_descriptor (connected_qp sample_client_qp) zero_qp_descriptor)]" for c
    by (simp add: initial_states_def initial_state_def ai_descriptor_def copy_wq_def connected_qp_def
        sample_client_qp_def sample_ai_qp_def zero_ai_qp_info_def zero_wq_def Let_def)
  have "ctp_backend sample_transport_created = ModeAiv" "ctp_endpoint sample_transport_created = sample_client_endpoint"
    "ctp_qp_states sample_transport_created = empty_buffer" "ctp_device_qp_addresses sample_transport_created = empty_buffer"
    by (simp_all add: sample_transport_created_def sample_transport_open_def empty_client_transport_def)
  then show ?thesis
    by (simp add: build_device_transport_def d s rbind_def place_states_def place_descriptors_def sample_allocate_filled
        buffer_move_assign_def buffer_move_def buffer_reset_empty Let_def)
qed

lemma sample_ready: "qp_ready sample_ra sample_client_endpoint (connected_qp sample_client_qp) w = (Inr (), w)"
  by (simp add: qp_ready_def query_port_status_def query_status_def query_support_lite_def ranged_query_def rbind_def
      client_qp_created_def connected_qp_def sample_client_qp_def sample_ra_def PORT_STATUS_DOWN_def PORT_STATUS_ACTIVE_def
      QP_STATUS_NOT_CONNECTED_def QP_STATUS_CONNECTED_def QP_STATUS_CONNECTING_def LITE_NOT_SUPPORTED_def LITE_ALIGN_2M_def)

lemma sample_opens_channel:
  "rbind (client_open_endpoint sample_ra sample_runtime) (\<lambda>_. client_connect_channel Little script_os)
     ((empty_client_transport 0x50 sample_client_config)\<lparr>ctp_runtime := 0x40,
        ctp_config := caller_polls ModeAiv sample_client_config, ctp_backend := ModeAiv\<rparr>, w) =
   (Inr (), (sample_transport_open, w))"
proof -
  have p: "parse_tcp_address (inet_pton script_os) ''10.0.0.2:7'' = Inr \<lparr>ta_ipv4 = ''10.0.0.2'', ta_port = 7\<rparr>"
    by (simp add: parse_tcp_address_def script_os_def from_chars_u16_def is_digit_def digit_value_def Let_def)
  have h: "ctc_hdc_type (caller_polls ModeAiv sample_client_config) = 18"
    "ctc_server_address (caller_polls ModeAiv sample_client_config) = ''10.0.0.2:7''"
    "ctc_tcp_timeout_ms (caller_polls ModeAiv sample_client_config) = 5000"
    by (simp_all add: caller_polls_def sample_client_config_def)
  have c: "tcp_connect Little script_os ''10.0.0.2'' 7 5000 w = (Inr \<lparr>tc_fd = 3\<rparr>, w)"
    by (simp add: tcp_connect_def script_os_def)
  show ?thesis
    by (simp add: rbind_def client_open_endpoint_def h sample_create_endpoint client_connect_channel_def p)
      (simp add: h p c client_endpoint_move_assign_def client_endpoint_move_def client_endpoint_reset_def
        empty_client_transport_def empty_client_endpoint_def tcp_move_assign_def tcp_destroy_def sample_transport_open_def
        sample_client_endpoint_def)
qed

lemma sample_client_opens:
  "\<exists>t w. client_transport_open Little script_os sample_ra sample_acl sample_addresses (Some sample_runtime)
      sample_client_config ModeAiv (empty_client_transport 0x50 sample_client_config, [count_response, peer_endpoints])
    = Some (Inr (), (t, w))"
proof -
  from sample_builds [of "[] :: TransportInfo list"] obtain t where t: "build_device_transport sample_acl sample_runtime sample_addresses
      (sample_transport_created\<lparr>ctp_qps := [connected_qp sample_client_qp]\<rparr>, [] :: TransportInfo list) = (Inr (), (t, []))"
    "ctp_qps t = [connected_qp sample_client_qp]" "ctp_endpoint t = sample_client_endpoint"
    by (elim exE conjE)
  have c: "rt_initialized sample_runtime" "rt_this sample_runtime = 0x40" "ctc_qp_count sample_client_config = 1"
    "ctc_tcp_timeout_ms sample_client_config = 5000" "ctp_runtime (empty_client_transport 0x50 sample_client_config) = 0"
    "ctp_exchange_channel sample_transport_open = \<lparr>tc_fd = 3\<rparr>"
    by (simp_all add: sample_runtime_def sample_client_config_def empty_client_transport_def sample_transport_open_def)
  have r: "client_transport_ready sample_ra t ([] :: TransportInfo list) = (Inr (), [])"
    using t by (simp add: client_transport_ready_def sample_ready rbind_def)
  show ?thesis
    using t r by (simp add: client_transport_open_def c kMaxQpInfoBatch_def Let_def sample_opens_channel pbind_def on_world_def
        script_negotiate sample_creates sample_exchange del: client_create_qps.simps)
qed

section \<open>Properties\<close>

text \<open>C14: when \<open>Transport::open\<close> of the client succeeds on a fresh object, the transport is complete: at least
  one and at most the requested number of queue pairs, all created by the chosen backend, valid and connected,
  each with the descriptor that projects it, and the device record counts them and names their placed states.\<close>

theorem client_transport_opens:
  assumes "client_transport_open e os ra acl addr (Some rt) config backend (empty_client_transport a config0, w) = Some (Inr (), (t, w'))"
  shows "client_transport_wf addr rt t \<and> ctp_backend t = backend \<and> length (ctp_qps t) \<le> unat (ctc_qp_count config)"
proof -
  let ?t0 = "(empty_client_transport a config0)\<lparr>ctp_runtime := rt_this rt, ctp_config := caller_polls backend config, ctp_backend := backend\<rparr>"
  from assms obtain accepted u1 u2 u3 u4 t1 t2 t3 w1 w2 w3 w4 w5 where
    c: "ctc_qp_count config \<le> kMaxQpInfoBatch" and
    1: "rbind (client_open_endpoint ra rt) (\<lambda>_. client_connect_channel e os) (?t0, w) = (Inr u1, (t1, w1))" and
    2: "negotiate_count e os (ctp_exchange_channel t1) (ctc_qp_count config) w1 = Some (Inr accepted, w2)" and
    3: "client_create_qps ra acl rt (unat accepted) (t1, w2) = (Inr u2, (t2, w3))" and
    4: "client_exchange_endpoints e os ra accepted (t2, w3) = Some (Inr u3, (t3, w4))" and
    5: "build_device_transport acl rt addr (t3, w4) = (Inr u4, (t, w5))"
    by (auto simp: client_transport_open_def Let_def pbind_eq_Inr_iff on_world_eq_iff linorder_not_less
        simp del: pbind_plift split: if_splits)
  from 1 obtain ep channel where t1: "t1 = ?t0\<lparr>ctp_endpoint := ep, ctp_exchange_channel := channel\<rparr>"
    by (auto simp: rbind_eq_Inr_iff dest!: client_open_endpoint_result client_connect_channel_result)
  have n: "unat accepted \<noteq> 0" "unat accepted \<le> unat (ctc_qp_count config)" "unat accepted \<le> 16"
    using negotiate_count_result [OF 2] c unat_gt_0 [of accepted]
    by (auto simp: word_le_nat_alt kMaxQpInfoBatch_def)
  from client_create_qps_result [OF 3] obtain new near where
    t2: "t2 = t1\<lparr>ctp_qps := new, ctp_local_qps := near\<rparr>" "length new = unat accepted"
    "\<forall>qp \<in> set new. client_qp_ready rt ep backend qp" "length near = length new"
    using t1 by (auto simp: empty_client_transport_def dest: map_eq_imp_length_eq)
  have t3: "t3 = t1\<lparr>ctp_qps := map connected_qp new, ctp_local_qps := near\<rparr>"
    using client_exchange_endpoints_result [OF 4] t2(1) by simp
  from t1 have f1: "ctp_runtime t1 = rt_this rt" "ctp_endpoint t1 = ep" "ctp_backend t1 = backend" by simp_all
  have "length (ctp_qps t3) \<le> 16" using t2(2) t3 n by simp
  from build_device_transport_result [OF 5 this] obtain ds bs bd dt where
    t: "t = t3\<lparr>ctp_host_qp_descriptors := ds, ctp_qp_states := bs, ctp_device_qp_addresses := bd, ctp_device_transport := dt\<rparr>"
    and d: "length ds = length (ctp_qps t3)" "unat (td_qp_count dt) = length (ctp_qps t3)"
    "\<forall>i < length (ctp_qps t3). transport_qp_descriptor t3 (oa_qp addr i) (ctp_qps t3 ! i) = Inr (ds ! i)"
    "td_qp_states_address dt = mb_data bs" "mb_data bs \<noteq> 0"
    "if ctp_backend t3 = ModeRa then td_qp_descriptors_address dt = oa_descriptors addr
       else td_qp_descriptors_address dt = mb_data bd \<and> mb_data bd \<noteq> 0"
    by blast
  have "new \<noteq> []" using t2(2) n(1) by auto
  with d t2 n show ?thesis
    unfolding t t3 client_transport_wf_def by (simp add: f1)
qed

theorem client_transport_opens_witness:
  "\<exists>t w. client_transport_open Little script_os sample_ra sample_acl sample_addresses (Some sample_runtime)
      sample_client_config ModeAiv (empty_client_transport 0x50 sample_client_config, [count_response, peer_endpoints])
    = Some (Inr (), (t, w)) \<and> client_transport_wf sample_addresses sample_runtime t"
proof -
  from sample_client_opens obtain t w where "client_transport_open Little script_os sample_ra sample_acl sample_addresses
      (Some sample_runtime) sample_client_config ModeAiv
      (empty_client_transport 0x50 sample_client_config, [count_response, peer_endpoints]) = Some (Inr (), (t, w))"
    by (elim exE)
  with client_transport_opens [OF this, THEN conjunct1] show ?thesis by (intro exI conjI)
qed

end
