(* ===== verification/Client_Storage.thy ===== *)
theory Client_Storage
  imports Client_Transport
begin

text \<open>
  The client's storage, \<^verbatim>\<open>src/src/client/storage.cc\<close>: the memory of the command slots, the slot table
  and the bootstrap record for the server, the allocator that hands out slots with fresh command
  identifiers, and the wait for the server's namespace record. The runtime and the transport that
  the object points to are arguments; the text of an error, which \<open>open\<close> extends, is not modelled.
\<close>

section \<open>The storage client\<close>

definition kStorageSlotsPerQp :: nat where "kStorageSlotsPerQp = 16"
definition kStorageSlotIndexLimit :: nat where "kStorageSlotIndexLimit = 2 ^ 16"

definition valid_timeout :: "u32 \<Rightarrow> bool" where
  "valid_timeout timeout_ms \<longleftrightarrow> timeout_ms \<noteq> 0 \<and> timeout_ms \<le> INT32_MAX"

record SlotResources =
  sr_command_offset :: u64
  sr_completion_offset :: u64
  sr_qp_index :: u32

text \<open>\<open>stc_transport\<close> tells whether the pointer to the transport is set.\<close>

record StorageClient =
  stc_runtime :: u64
  stc_transport :: bool
  stc_bootstrap_buffer :: MemoryBuffer
  stc_bootstrap_region :: ClientRegion
  stc_namespace_buffer :: MemoryBuffer
  stc_namespace_region :: ClientRegion
  stc_command_buffer :: MemoryBuffer
  stc_command_region :: ClientRegion
  stc_completion_buffer :: MemoryBuffer
  stc_completion_region :: ClientRegion
  stc_slots :: "SlotResources list"
  stc_slot_descriptors_buffer :: MemoryBuffer
  stc_storage_states_buffer :: MemoryBuffer
  stc_slot_table_buffer :: MemoryBuffer
  stc_slot_table_region :: ClientRegion
  stc_allocated_slots :: "bool list"
  stc_capacity :: u64
  stc_next_command_id :: u64
  stc_storage_descriptor :: NdsStorageDescriptor
  stc_bootstrap_descriptor :: NdsStorageBootstrapDescriptor
  stc_next_slot :: nat
  stc_opened :: bool

definition LocalWrite_RemoteRead :: int where
  "LocalWrite_RemoteRead = or ACCESS_LOCAL_WRITE ACCESS_REMOTE_READ"

definition LocalWrite_RemoteWrite_RemoteRead :: int where
  "LocalWrite_RemoteWrite_RemoteRead = or (or ACCESS_LOCAL_WRITE ACCESS_REMOTE_WRITE) ACCESS_REMOTE_READ"

text \<open>
  \<open>NDS_ASSIGN_OR_RETURN\<close> into a buffer and into a region of the object: on success the new value is
  moved into the member, which releases what the member held.
\<close>

definition assign_buffer :: "'w cann \<Rightarrow> Runtime \<Rightarrow> (StorageClient \<Rightarrow> MemoryBuffer) \<Rightarrow>
    ((MemoryBuffer \<Rightarrow> MemoryBuffer) \<Rightarrow> StorageClient \<Rightarrow> StorageClient) \<Rightarrow> nat \<Rightarrow> MemoryLocation \<Rightarrow> (StorageClient \<times> 'w, unit) comp" where
  "assign_buffer acl rt get upd sz location = (\<lambda>(c, w).
     case runtime_allocate acl rt (of_nat sz) location w of
       (Inl err, w) \<Rightarrow> (Inl err, (c, w))
     | (Inr b, w) \<Rightarrow>
         (case buffer_move_assign acl rt (get c) b w of ((b, _), w) \<Rightarrow> (Inr (), (upd (\<lambda>_. b) c, w))))"

definition assign_region :: "'w libra \<Rightarrow> Runtime \<Rightarrow> ClientTransport \<Rightarrow> (StorageClient \<Rightarrow> MemoryBuffer) \<Rightarrow> (StorageClient \<Rightarrow> ClientRegion) \<Rightarrow>
    ((ClientRegion \<Rightarrow> ClientRegion) \<Rightarrow> StorageClient \<Rightarrow> StorageClient) \<Rightarrow> int \<Rightarrow> (StorageClient \<times> 'w, unit) comp" where
  "assign_region ra rt t buffer get upd access = (\<lambda>(c, w).
     case client_register_memory ra rt t (buffer c) access w of
       (Inl err, w) \<Rightarrow> (Inl err, (c, w))
     | (Inr region, w) \<Rightarrow>
         (case client_region_move_assign ra (ctp_endpoint t) (get c) region w of
            ((region, _), w) \<Rightarrow> (Inr (), (upd (\<lambda>_. region) c, w))))"

text \<open>Running a computation of the world, and changing the object.\<close>

definition with_world :: "(StorageClient \<Rightarrow> ('w, 'a) comp) \<Rightarrow> (StorageClient \<times> 'w, 'a) comp" where
  "with_world f = (\<lambda>(c, w). case f c w of (r, w) \<Rightarrow> (r, (c, w)))"

definition change :: "(StorageClient \<Rightarrow> StorageClient) \<Rightarrow> (StorageClient \<times> 'w, unit) comp" where
  "change f = (\<lambda>(c, w). (Inr (), (f c, w)))"

section \<open>Opening\<close>

definition slot_resources :: "nat \<Rightarrow> nat \<Rightarrow> SlotResources" where
  "slot_resources qp_count i =
     \<lparr>sr_command_offset = of_nat i * ucast kStorageCommandBytes, sr_completion_offset = of_nat i * ucast kStorageCompletionBytes,
      sr_qp_index = of_nat (i mod qp_count)\<rparr>"

definition slot_descriptor :: "StorageClient \<Rightarrow> SlotResources \<Rightarrow> NdsStorageSlotDescriptor" where
  "slot_descriptor c r =
     \<lparr>sl_command_buffer = \<lparr>sg_address = mi_address (crg_info (stc_command_region c)) + sr_command_offset r,
                          sg_length = kStorageCommandBytes, sg_local_key = mi_local_key (crg_info (stc_command_region c))\<rparr>,
      sl_completion_buffer = \<lparr>sg_address = mi_address (crg_info (stc_completion_region c)) + sr_completion_offset r,
                             sg_length = kStorageCompletionBytes, sg_local_key = mi_local_key (crg_info (stc_completion_region c))\<rparr>,
      sl_qp_index = sr_qp_index r, sl_reserved = 0\<rparr>"

definition slot_table_entry :: "StorageClient \<Rightarrow> SlotResources \<Rightarrow> StorageSlot" where
  "slot_table_entry c r =
     \<lparr>s_command = \<lparr>m_address = mi_address (crg_info (stc_command_region c)) + sr_command_offset r,
                  m_length = ucast kStorageCommandBytes, m_remote_key = mi_remote_key (crg_info (stc_command_region c))\<rparr>,
      s_completion = \<lparr>m_address = mi_address (crg_info (stc_completion_region c)) + sr_completion_offset r,
                     m_length = ucast kStorageCompletionBytes, m_remote_key = mi_remote_key (crg_info (stc_completion_region c))\<rparr>,
      s_qp_index = sr_qp_index r, s_reserved = 0\<rparr>"

definition empty_storage_state :: NdsStorageState where
  "empty_storage_state = \<lparr>ss_command_id = 0, ss_expected_bytes = 0, ss_in_flight = 0, ss_status = 0\<rparr>"

definition zero_slot_resources :: SlotResources where
  "zero_slot_resources = \<lparr>sr_command_offset = 0, sr_completion_offset = 0, sr_qp_index = 0\<rparr>"

definition resize_slots :: "nat \<Rightarrow> SlotResources list \<Rightarrow> SlotResources list" where
  "resize_slots n slots = take n slots @ replicate (n - length slots) zero_slot_resources"

text \<open>The first part of \<open>open\<close>: memory for the records that the server reads and writes, and the slots in it.\<close>

definition open_slot_memory :: "'w libra \<Rightarrow> 'w cann \<Rightarrow> Runtime \<Rightarrow> ClientTransport \<Rightarrow> nat \<Rightarrow> (StorageClient \<times> 'w, unit) comp" where
  "open_slot_memory ra acl rt t n =
     rbind (assign_buffer acl rt stc_bootstrap_buffer stc_bootstrap_buffer_update (unat kStorageBootstrapBytes) LocDevice) (\<lambda>_.
     rbind (assign_region ra rt t stc_bootstrap_buffer stc_bootstrap_region stc_bootstrap_region_update LocalWrite_RemoteRead) (\<lambda>_.
     rbind (assign_buffer acl rt stc_command_buffer stc_command_buffer_update (n * unat kStorageCommandBytes) LocDevice) (\<lambda>_.
     rbind (assign_region ra rt t stc_command_buffer stc_command_region stc_command_region_update
              LocalWrite_RemoteWrite_RemoteRead) (\<lambda>_.
     rbind (assign_buffer acl rt stc_completion_buffer stc_completion_buffer_update (n * unat kStorageCompletionBytes) LocDevice) (\<lambda>_.
     rbind (assign_region ra rt t stc_completion_buffer stc_completion_region stc_completion_region_update
              LocalWrite_RemoteWrite_RemoteRead) (\<lambda>_.
     rbind (change (\<lambda>c. c\<lparr>stc_slots := map (slot_resources (client_qp_count t)) [0..<n]\<rparr>)) (\<lambda>_.
     rbind (assign_buffer acl rt stc_namespace_buffer stc_namespace_buffer_update (unat kStorageNamespaceBytes) LocDevice) (\<lambda>_.
     assign_region ra rt t stc_namespace_buffer stc_namespace_region stc_namespace_region_update
       LocalWrite_RemoteWrite_RemoteRead))))))))"

text \<open>The second part: the device's slot descriptors and states, and the server's slot table.\<close>

definition open_slot_tables :: "'w libra \<Rightarrow> 'w cann \<Rightarrow> Runtime \<Rightarrow> ClientTransport \<Rightarrow> nat \<Rightarrow> (StorageClient \<times> 'w, unit) comp" where
  "open_slot_tables ra acl rt t n =
     (let location = (if ctp_backend t = ModeRa then LocHost else LocDevice);
          table_location = (if ctp_backend t = ModeRa then LocHostPinned else LocDevice)
      in rbind (assign_buffer acl rt stc_slot_descriptors_buffer stc_slot_descriptors_buffer_update (n * 40) location) (\<lambda>_.
         rbind (with_world (\<lambda>c. runtime_copy_to acl rt (stc_slot_descriptors_buffer c)
                              (HSlotDescriptors (map (slot_descriptor c) (stc_slots c))))) (\<lambda>_.
         rbind (assign_buffer acl rt stc_storage_states_buffer stc_storage_states_buffer_update (n * 24) location) (\<lambda>_.
         rbind (with_world (\<lambda>c. runtime_copy_to acl rt (stc_storage_states_buffer c)
                              (HStorageStates (replicate n empty_storage_state)))) (\<lambda>_.
         rbind (assign_buffer acl rt stc_slot_table_buffer stc_slot_table_buffer_update (n * 56) table_location) (\<lambda>_.
         rbind (with_world (\<lambda>c. runtime_copy_to acl rt (stc_slot_table_buffer c)
                              (HSlotTable (map (slot_table_entry c) (stc_slots c))))) (\<lambda>_.
         assign_region ra rt t stc_slot_table_buffer stc_slot_table_region stc_slot_table_region_update
           LocalWrite_RemoteRead)))))))"

definition bootstrap_record :: "StorageClient \<Rightarrow> StorageBootstrap" where
  "bootstrap_record c =
     (let completion = crg_info (stc_completion_region c); namespace = crg_info (stc_namespace_region c);
          table = crg_info (stc_slot_table_region c)
      in \<lparr>b_completion = \<lparr>m_address = mi_address completion, m_length = ucast kStorageCompletionBytes,
                         m_remote_key = mi_remote_key completion\<rparr>,
          b_namespace_response = \<lparr>m_address = mi_address namespace, m_length = mi_size namespace,
                                  m_remote_key = mi_remote_key namespace\<rparr>,
          b_slots = \<lparr>m_address = mi_address table, m_length = mi_size table, m_remote_key = mi_remote_key table\<rparr>,
          b_slot_count = of_nat (length (stc_slots c))\<rparr>)"

definition prepare_bootstrap :: "'w libra \<Rightarrow> 'w cann \<Rightarrow> Runtime \<Rightarrow> ClientTransport \<Rightarrow> StorageClient \<Rightarrow> ('w, unit) comp" where
  "prepare_bootstrap ra acl rt t c =
     (if stc_slots c = [] then rfail kInvalidArgument
      else case serialize_storage_bootstrap (bootstrap_record c) (Some (replicate (unat kStorageBootstrapBytes) 0)) kStorageBootstrapBytes of
        (result, bytes) \<Rightarrow>
          if result \<noteq> SerdeOk then rfail kProtocol
          else
            rbind (runtime_copy_to acl rt (stc_namespace_buffer c) (HBytes (replicate (unat kStorageNamespaceBytes) 0))) (\<lambda>_.
            rbind (runtime_copy_to acl rt (stc_bootstrap_buffer c) (HBytes (the bytes))) (\<lambda>_.
            client_transport_ready ra t)))"

text \<open>The descriptors for the device code and the first command identifier.\<close>

definition finish_open :: "ClientTransport \<Rightarrow> StorageClient \<Rightarrow> StorageClient" where
  "finish_open t c =
     (let near = client_local_qp t; bootstrap = crg_info (stc_bootstrap_region c);
          next = push_bit 32 (ucast (qp_num near)) OR ucast (psn near)
      in c\<lparr>stc_storage_descriptor :=
             \<lparr>sd_transport = ctp_device_transport t, sd_slot_descriptors_address = mb_data (stc_slot_descriptors_buffer c),
              sd_storage_states_address = mb_data (stc_storage_states_buffer c), sd_slot_count = of_nat (length (stc_slots c)),
              sd_reserved = 0, sd_capacity = 0\<rparr>,
           stc_bootstrap_descriptor :=
             \<lparr>bd_transport = ctp_device_transport t,
              bd_bootstrap = \<lparr>sg_address = mi_address bootstrap, sg_length = kStorageBootstrapBytes,
                              sg_local_key = mi_local_key bootstrap\<rparr>\<rparr>,
           stc_next_command_id := (if next = 0 then 1 else next), stc_opened := True\<rparr>)"

definition storage_client_open :: "'w libra \<Rightarrow> 'w cann \<Rightarrow> Runtime option \<Rightarrow> ClientTransport option \<Rightarrow> (StorageClient \<times> 'w, unit) comp" where
  "storage_client_open ra acl runtime transport = (\<lambda>(c, w).
     case (runtime, transport) of
       (Some rt, Some t) \<Rightarrow>
         if stc_opened c \<or> \<not> rt_initialized rt then (Inl kInvalidArgument, (c, w))
         else if client_qp_count t = 0 \<or> client_qp_count t > 65535 then (Inl kInvalidArgument, (c, w))
         else if client_qp_count t > (2 ^ 64 - 1) div kStorageSlotsPerQp then (Inl kInvalidArgument, (c, w))
         else
           (let n = client_qp_count t * kStorageSlotsPerQp;
                c = c\<lparr>stc_runtime := rt_this rt, stc_transport := True, stc_slots := resize_slots n (stc_slots c),
                      stc_allocated_slots := replicate n False\<rparr>
            in if n = 0 \<or> n \<ge> kStorageSlotIndexLimit then (Inl kInvalidArgument, (c, w))
               else if n > (2 ^ 64 - 1) div unat kStorageCommandBytes \<or> n > (2 ^ 64 - 1) div unat kStorageCompletionBytes
               then (Inl kInvalidArgument, (c, w))
               else
                 rbind (open_slot_memory ra acl rt t n) (\<lambda>_.
                 rbind (open_slot_tables ra acl rt t n) (\<lambda>_.
                 rbind (change (finish_open t)) (\<lambda>_.
                 with_world (prepare_bootstrap ra acl rt t)))) (c, w))
     | _ \<Rightarrow> (Inl kInvalidArgument, (c, w)))"

definition storage_register_memory :: "'w libra \<Rightarrow> Runtime \<Rightarrow> ClientTransport \<Rightarrow> StorageClient \<Rightarrow> MemoryBuffer \<Rightarrow> int \<Rightarrow> ('w, ClientRegion) comp" where
  "storage_register_memory ra rt t c b access =
     (if \<not> stc_opened c \<or> \<not> stc_transport c then rfail kInvalidArgument else client_register_memory ra rt t b access)"

section \<open>Slots\<close>

text \<open>The recursive call of the source happens at most once: the identifier after 0 is 1.\<close>

function (sequential) allocate_command_id :: "u64 \<Rightarrow> u64 \<times> u64" where
  "allocate_command_id next_command_id =
     (let command_id = next_command_id; next = next_command_id + 1; next = (if next = 0 then next + 1 else next)
      in if command_id = 0 then allocate_command_id next else (command_id, next))"
  by pat_completeness auto
termination
  by (relation "measure (\<lambda>n. if n = 0 then 1 else 0)") auto

text \<open>Writing one state, in host memory or through the runtime.\<close>

definition store_state :: "'w cann \<Rightarrow> Runtime \<Rightarrow> StorageClient \<Rightarrow> nat \<Rightarrow> NdsStorageState \<Rightarrow> ('w, unit) comp" where
  "store_state acl rt c index state w =
     (let address = mb_data (stc_storage_states_buffer c) + of_nat (index * 24) in
      if mb_location (stc_storage_states_buffer c) = LocHost then (Inr (), host_store acl address (HStorageStates [state]) w)
      else copy_host_to_device acl rt address (HStorageStates [state]) w)"

definition clear_state :: "'w cann \<Rightarrow> Runtime \<Rightarrow> StorageClient \<Rightarrow> nat \<Rightarrow> ('w, unit) comp" where
  "clear_state acl rt c slot_index w =
     (if slot_index \<ge> length (stc_slots c) then (Inl kInvalidArgument, w)
      else if mb_location (stc_storage_states_buffer c) \<noteq> LocHost \<and> stc_runtime c = 0 then (Inl kInvalidArgument, w)
      else store_state acl rt c slot_index empty_storage_state w)"

text \<open>The search of both overloads: the slots in the order of the loop, from \<open>next_slot_\<close> around.\<close>

definition slot_order :: "nat \<Rightarrow> nat \<Rightarrow> nat list" where
  "slot_order start n = map (\<lambda>attempt. (start + attempt) mod n) [0..<n]"

definition find_slot :: "StorageClient \<Rightarrow> (nat \<Rightarrow> bool) \<Rightarrow> nat option" where
  "find_slot c wanted =
     List.find (\<lambda>i. \<not> stc_allocated_slots c ! i \<and> wanted i) (slot_order (stc_next_slot c) (length (stc_slots c)))"

text \<open>Taking the slot that was found: its mark, the next position and the next identifier.\<close>

definition take_slot :: "StorageClient \<Rightarrow> nat \<Rightarrow> u64 \<times> StorageClient" where
  "take_slot c i =
     (case allocate_command_id (stc_next_command_id c) of
        (command_id, next) \<Rightarrow>
          (command_id, c\<lparr>stc_allocated_slots := (stc_allocated_slots c)[i := True],
                         stc_next_slot := (i + 1) mod length (stc_slots c), stc_next_command_id := next\<rparr>))"

definition give_back :: "StorageClient \<Rightarrow> nat \<Rightarrow> StorageClient" where
  "give_back c i = c\<lparr>stc_allocated_slots := (stc_allocated_slots c)[i := False]\<rparr>"

definition fresh_state :: "u64 \<Rightarrow> NdsStorageState" where
  "fresh_state command_id = empty_storage_state\<lparr>ss_command_id := command_id\<rparr>"

definition allocate_slot :: "'w cann \<Rightarrow> Runtime \<Rightarrow> (StorageClient \<times> 'w, u32) comp" where
  "allocate_slot acl rt = (\<lambda>(c, w).
     if \<not> stc_opened c \<or> \<not> stc_transport c then (Inl kInvalidArgument, (c, w))
     else case find_slot c (\<lambda>_. True) of
       None \<Rightarrow> (Inl kTransport, (c, w))
     | Some i \<Rightarrow>
         (case take_slot c i of
            (command_id, c) \<Rightarrow>
              (case clear_state acl rt c i w of
                 (Inl err, w) \<Rightarrow> (Inl err, (give_back c i, w))
               | (Inr _, w) \<Rightarrow>
                   (case store_state acl rt c i (fresh_state command_id) w of
                      (Inl err, w) \<Rightarrow> (Inl err, (give_back c i, w))
                    | (Inr _, w) \<Rightarrow> (Inr (nds_storage_slot_id (sr_qp_index (stc_slots c ! i)) (of_nat i)), (c, w))))))"

definition allocate_slot_on :: "'w cann \<Rightarrow> Runtime \<Rightarrow> ClientTransport \<Rightarrow> u32 \<Rightarrow> (StorageClient \<times> 'w, u32) comp" where
  "allocate_slot_on acl rt t queue_index = (\<lambda>(c, w).
     if \<not> stc_opened c \<or> \<not> stc_transport c \<or> unat queue_index \<ge> client_qp_count t then (Inl kInvalidArgument, (c, w))
     else if stc_slots c = [] then (Inl kTransport, (c, w))
     else case find_slot c (\<lambda>i. sr_qp_index (stc_slots c ! i) = queue_index) of
       None \<Rightarrow> (Inl kTransport, (c, w))
     | Some i \<Rightarrow>
         (case take_slot c i of
            (command_id, c) \<Rightarrow>
              (case store_state acl rt c i (fresh_state command_id) w of
                 (Inl err, w) \<Rightarrow> (Inl err, (give_back c i, w))
               | (Inr _, w) \<Rightarrow> (Inr (nds_storage_slot_id queue_index (of_nat i)), (c, w)))))"

definition release_slot :: "'w cann \<Rightarrow> Runtime \<Rightarrow> u32 \<Rightarrow> (StorageClient \<times> 'w, unit) comp" where
  "release_slot acl rt slot_id = (\<lambda>(c, w).
     if \<not> stc_opened c \<or> \<not> stc_transport c then (Inl kInvalidArgument, (c, w))
     else
       (let i = unat (nds_storage_slot_id_index slot_id); queue_index = nds_storage_slot_id_queue slot_id in
        if i \<ge> length (stc_slots c) \<or> sr_qp_index (stc_slots c ! i) \<noteq> queue_index then (Inl kInvalidArgument, (c, w))
        else if \<not> stc_allocated_slots c ! i then (Inl kInvalidArgument, (c, w))
        else case clear_state acl rt c i w of
          (Inl err, w) \<Rightarrow> (Inl err, (c, w))
        | (Inr _, w) \<Rightarrow> (Inr (), (give_back c i, w))))"

section \<open>The namespace\<close>

text \<open>The loop of \<open>observe_namespace\<close>; the clock is in nanoseconds.\<close>

partial_function (option) observe_until :: "'w cann \<Rightarrow> Runtime \<Rightarrow> StorageClient \<Rightarrow> nat \<Rightarrow> ('w, u64) pcomp" where
  "observe_until acl rt c deadline w =
     (case client_now acl w of
        (now, w) \<Rightarrow>
          if \<not> now < deadline then Some (Inl kProtocol, w)
          else case runtime_copy_from acl rt (stc_namespace_buffer c) (unat kStorageNamespaceBytes) w of
            (Inl err, w) \<Rightarrow> Some (Inl err, w)
          | (Inr bytes, w) \<Rightarrow>
              (case deserialize_storage_namespace (Some bytes) kStorageNamespaceBytes (Some \<lparr>ns_capacity = 0\<rparr>) of
                 (SerdeOk, Some storage_namespace) \<Rightarrow> Some (Inr (ns_capacity storage_namespace), w)
               | _ \<Rightarrow> observe_until acl rt c deadline (sleep_for_ms acl 1 w)))"

definition observe_namespace :: "'w cann \<Rightarrow> Runtime \<Rightarrow> StorageClient \<Rightarrow> u32 \<Rightarrow> ('w, u64) pcomp" where
  "observe_namespace acl rt c timeout_ms w =
     (case client_now acl w of (now, w) \<Rightarrow> observe_until acl rt c (now + unat timeout_ms * 1000000) w)"

definition complete_bootstrap :: "'w cann \<Rightarrow> Runtime \<Rightarrow> u32 \<Rightarrow> (StorageClient \<times> 'w, unit) pcomp" where
  "complete_bootstrap acl rt timeout_ms = (\<lambda>(c, w).
     if \<not> stc_opened c \<or> \<not> valid_timeout timeout_ms then Some (Inl kInvalidArgument, (c, w))
     else case observe_namespace acl rt c timeout_ms w of
       None \<Rightarrow> None
     | Some (Inl err, w) \<Rightarrow> Some (Inl err, (c, w))
     | Some (Inr capacity, w) \<Rightarrow>
         Some (Inr (), (c\<lparr>stc_capacity := capacity,
                          stc_storage_descriptor := (stc_storage_descriptor c)\<lparr>sd_capacity := capacity\<rparr>\<rparr>, w)))"

section \<open>The contract of a pool of slots\<close>

text \<open>
  What the users of slots rely on, for any provider: a grant is a valid slot of the asked queue that
  nobody holds, a release takes back a slot that is held, and whatever fails changes nothing. \<open>held\<close>
  is the abstract state, \<open>ids\<close> the slots there are, and a request names a queue or none.
\<close>

datatype ('q, 'i) pool_request = Allocate "'q option" | Release 'i

datatype ('q, 'i) pool_reply = Granted 'i | Released | Refused ErrorCode

text \<open>The abstract pool: a set of held slots.\<close>

inductive pool_step :: "'i set \<Rightarrow> ('i \<Rightarrow> 'q) \<Rightarrow> 'i set \<Rightarrow> ('q, 'i) pool_request \<Rightarrow> ('q, 'i) pool_reply \<Rightarrow> 'i set \<Rightarrow> bool"
  for all_ids :: "'i set" and queue :: "'i \<Rightarrow> 'q" where
  grant: "i \<in> all_ids \<Longrightarrow> i \<notin> H \<Longrightarrow> q = None \<or> q = Some (queue i) \<Longrightarrow> pool_step all_ids queue H (Allocate q) (Granted i) (insert i H)"
| take_back: "i \<in> H \<Longrightarrow> pool_step all_ids queue H (Release i) Released (H - {i})"
| refuse: "pool_step all_ids queue H request (Refused err) H"

inductive_simps pool_step_simps [simp]:
  "pool_step all_ids queue H request (Granted i) H'"
  "pool_step all_ids queue H request Released H'"
  "pool_step all_ids queue H request (Refused err) H'"

inductive pool_run :: "'i set \<Rightarrow> ('i \<Rightarrow> 'q) \<Rightarrow> 'i set \<Rightarrow> ('q, 'i) pool_request list \<Rightarrow> ('q, 'i) pool_reply list \<Rightarrow> 'i set \<Rightarrow> bool"
  for all_ids :: "'i set" and queue :: "'i \<Rightarrow> 'q" where
  run_none: "pool_run all_ids queue H [] [] H"
| run_one: "pool_step all_ids queue H r p H1 \<Longrightarrow> pool_run all_ids queue H1 rs ps H' \<Longrightarrow> pool_run all_ids queue H (r # rs) (p # ps) H'"

text \<open>Serving a list of requests with a provider's operations.\<close>

fun serve_request :: "('q option \<Rightarrow> ('s, 'i) comp) \<Rightarrow> ('i \<Rightarrow> ('s, unit) comp) \<Rightarrow> ('q, 'i) pool_request \<Rightarrow> 's \<Rightarrow> ('q, 'i) pool_reply \<times> 's" where
  "serve_request alloc release (Allocate q) s =
     (case alloc q s of (Inl err, s) \<Rightarrow> (Refused err, s) | (Inr i, s) \<Rightarrow> (Granted i, s))"
| "serve_request alloc release (Release i) s =
     (case release i s of (Inl err, s) \<Rightarrow> (Refused err, s) | (Inr _, s) \<Rightarrow> (Released, s))"

fun serve_requests :: "('q option \<Rightarrow> ('s, 'i) comp) \<Rightarrow> ('i \<Rightarrow> ('s, unit) comp) \<Rightarrow> ('q, 'i) pool_request list \<Rightarrow> 's \<Rightarrow> ('q, 'i) pool_reply list \<times> 's" where
  "serve_requests alloc release [] s = ([], s)"
| "serve_requests alloc release (r # rs) s =
     (case serve_request alloc release r s of
        (p, s) \<Rightarrow> (case serve_requests alloc release rs s of (ps, s) \<Rightarrow> (p # ps, s)))"

locale slot_pool =
  fixes wf :: "'s \<Rightarrow> bool" and ids :: "'s \<Rightarrow> 'i set" and held :: "'s \<Rightarrow> 'i set" and queue :: "'i \<Rightarrow> 'q"
    and alloc :: "'q option \<Rightarrow> ('s, 'i) comp" and release :: "'i \<Rightarrow> ('s, unit) comp"
  assumes alloc_wf: "wf s \<Longrightarrow> alloc q s = (r, s') \<Longrightarrow> wf s' \<and> ids s' = ids s"
    and alloc_grants: "wf s \<Longrightarrow> alloc q s = (Inr i, s') \<Longrightarrow>
      i \<in> ids s \<and> i \<notin> held s \<and> (q = None \<or> q = Some (queue i)) \<and> held s' = insert i (held s)"
    and alloc_refuses: "wf s \<Longrightarrow> alloc q s = (Inl err, s') \<Longrightarrow> held s' = held s"
    and release_wf: "wf s \<Longrightarrow> release i s = (p, s') \<Longrightarrow> wf s' \<and> ids s' = ids s"
    and release_takes: "wf s \<Longrightarrow> release i s = (Inr u, s') \<Longrightarrow> i \<in> held s \<and> held s' = held s - {i}"
    and release_refuses: "wf s \<Longrightarrow> release i s = (Inl err, s') \<Longrightarrow> held s' = held s"
begin

lemma step_refines:
  assumes "wf s" and "serve_request alloc release r s = (p, s')"
  shows "pool_step (ids s) queue (held s) r p (held s') \<and> wf s' \<and> ids s' = ids s"
  using assms
  by (cases r) (auto split: prod.splits sum.splits
      dest: alloc_wf alloc_grants alloc_refuses release_wf release_takes release_refuses)

lemma run_refines:
  assumes "wf s" and "serve_requests alloc release rs s = (ps, s')"
  shows "pool_run (ids s) queue (held s) rs ps (held s') \<and> wf s'"
  using assms
proof (induction rs arbitrary: s ps)
  case Nil
  then show ?case by (simp add: run_none)
next
  case (Cons r rs)
  then obtain p s1 ps1 where s: "serve_request alloc release r s = (p, s1)"
    and ss: "serve_requests alloc release rs s1 = (ps1, s')" "ps = p # ps1"
    by (auto split: prod.splits)
  from step_refines [OF Cons.prems(1) s] Cons.IH [OF _ ss(1)] show ?case
    unfolding ss(2) by (metis run_one)
qed

end

text \<open>In the abstract pool a slot is never granted again before it is released.\<close>

lemma pool_run_grant_held:
  assumes "pool_run all_ids queue H rs ps H'" and "i \<in> H" and "Release i \<notin> set rs"
  shows "Granted i \<notin> set ps \<and> i \<in> H'"
  using assms by (induction rule: pool_run.induct) (auto elim!: pool_step.cases)

section \<open>The allocator implements the contract\<close>

definition slot_id_at :: "StorageClient \<Rightarrow> nat \<Rightarrow> u32" where
  "slot_id_at c i = nds_storage_slot_id (sr_qp_index (stc_slots c ! i)) (of_nat i)"

definition held_indices :: "StorageClient \<Rightarrow> nat set" where
  "held_indices c = {i. i < length (stc_slots c) \<and> stc_allocated_slots c ! i}"

definition slots_wf :: "StorageClient \<Rightarrow> bool" where
  "slots_wf c \<longleftrightarrow>
     length (stc_allocated_slots c) = length (stc_slots c) \<and> stc_slots c \<noteq> [] \<and> length (stc_slots c) < 2 ^ 16
     \<and> (\<forall>r \<in> set (stc_slots c). sr_qp_index r < 0x10000) \<and> stc_next_slot c < length (stc_slots c)
     \<and> stc_next_command_id c \<noteq> 0"

definition client_slot_ids :: "StorageClient \<Rightarrow> u32 set" where
  "client_slot_ids c = slot_id_at c ` {..<length (stc_slots c)}"

definition client_held :: "StorageClient \<Rightarrow> u32 set" where
  "client_held c = slot_id_at c ` held_indices c"

definition allocate_any :: "'w cann \<Rightarrow> Runtime \<Rightarrow> ClientTransport \<Rightarrow> u32 option \<Rightarrow> (StorageClient \<times> 'w, u32) comp" where
  "allocate_any acl rt t q = (case q of None \<Rightarrow> allocate_slot acl rt | Some queue_index \<Rightarrow> allocate_slot_on acl rt t queue_index)"

lemma slot_id_at_parts:
  assumes "slots_wf c" and "i < length (stc_slots c)"
  shows "nds_storage_slot_id_queue (slot_id_at c i) = sr_qp_index (stc_slots c ! i)"
    and "unat (nds_storage_slot_id_index (slot_id_at c i)) = i"
proof -
  have n: "unat (of_nat i :: u32) = i" using assms by (simp add: slots_wf_def unat_of_nat take_bit_nat_eq_self)
  then have "(of_nat i :: u32) < 0x10000" using assms by (simp add: slots_wf_def word_less_nat_alt)
  moreover have "sr_qp_index (stc_slots c ! i) < 0x10000" using assms by (simp add: slots_wf_def)
  ultimately show "nds_storage_slot_id_queue (slot_id_at c i) = sr_qp_index (stc_slots c ! i)"
    "unat (nds_storage_slot_id_index (slot_id_at c i)) = i"
    using n by (simp_all add: slot_id_at_def slot_id_roundtrip)
qed

lemma slot_id_at_inj: "slots_wf c \<Longrightarrow> inj_on (slot_id_at c) {..<length (stc_slots c)}"
  by (rule inj_onI) (metis lessThan_iff slot_id_at_parts(2))

lemma slot_order_set: "n \<noteq> 0 \<Longrightarrow> set (slot_order start n) = {..<n}"
proof -
  assume n: "n \<noteq> 0"
  have "k \<in> (\<lambda>a. (start + a) mod n) ` {..<n}" if "k < n" for k
  proof (rule image_eqI [of _ _ "(k + (n - start mod n)) mod n"])
    have "(start + (k + (n - start mod n)) mod n) mod n = (start mod n + (k + (n - start mod n))) mod n"
      by (metis mod_add_left_eq mod_add_right_eq)
    also have "start mod n + (k + (n - start mod n)) = k + n" using n mod_less_divisor [of n start] by linarith
    finally show "k = (start + (k + (n - start mod n)) mod n) mod n" using that by simp
  qed (use n in simp)
  then show ?thesis using n by (auto simp: slot_order_def lessThan_atLeast0)
qed

lemma find_slot_some:
  assumes "find_slot c wanted = Some i" and "slots_wf c"
  shows "i < length (stc_slots c) \<and> \<not> stc_allocated_slots c ! i \<and> wanted i"
  using assms slot_order_set [of "length (stc_slots c)" "stc_next_slot c"]
  by (auto simp: find_slot_def find_Some_iff slots_wf_def set_conv_nth)

lemma find_slot_none:
  assumes "find_slot c wanted = None" and "slots_wf c" and "i < length (stc_slots c)" and "wanted i"
  shows "stc_allocated_slots c ! i"
  using assms slot_order_set [of "length (stc_slots c)" "stc_next_slot c"]
  by (auto simp: find_slot_def find_None_iff slots_wf_def)

lemma allocate_command_id_nonzero: "n \<noteq> 0 \<Longrightarrow> allocate_command_id n = (n, if n + 1 = 0 then 1 else n + 1)"
  by (simp add: Let_def)

declare allocate_command_id.simps [simp del]

text \<open>Taking and giving back a slot, on the abstract state.\<close>

lemma take_slot_facts:
  assumes "slots_wf c" and "i < length (stc_slots c)" and "take_slot c i = (command_id, c')"
  shows "slots_wf c'" "stc_slots c' = stc_slots c" "slot_id_at c' = slot_id_at c" "held_indices c' = insert i (held_indices c)"
    "command_id = stc_next_command_id c" "stc_opened c' = stc_opened c" "stc_transport c' = stc_transport c"
  using assms
  by (auto simp: take_slot_def allocate_command_id_nonzero slots_wf_def slot_id_at_def held_indices_def nth_list_update
      fun_eq_iff split: prod.splits if_splits)

lemma give_back_facts:
  assumes "slots_wf c" and "i < length (stc_slots c)"
  shows "slots_wf (give_back c i)" "stc_slots (give_back c i) = stc_slots c" "slot_id_at (give_back c i) = slot_id_at c"
    "held_indices (give_back c i) = held_indices c - {i}"
    "stc_opened (give_back c i) = stc_opened c" "stc_transport (give_back c i) = stc_transport c"
  using assms
  by (auto simp: give_back_def slots_wf_def slot_id_at_def held_indices_def nth_list_update fun_eq_iff split: if_splits)

definition alloc_effect :: "StorageClient \<Rightarrow> u32 option \<Rightarrow> u32 result \<Rightarrow> StorageClient \<Rightarrow> bool" where
  "alloc_effect c q r c' \<longleftrightarrow> slots_wf c' \<and> stc_slots c' = stc_slots c \<and> slot_id_at c' = slot_id_at c \<and>
     (case r of
        Inl _ \<Rightarrow> held_indices c' = held_indices c
      | Inr slot_id \<Rightarrow> \<exists>i < length (stc_slots c). slot_id = slot_id_at c i \<and> i \<notin> held_indices c
          \<and> held_indices c' = insert i (held_indices c) \<and> (q = None \<or> q = Some (sr_qp_index (stc_slots c ! i))))"

lemma taken_effect:
  assumes wf: "slots_wf c" and f: "find_slot c wanted = Some i" and t: "take_slot c i = (command_id, c1)"
    and q: "q = None \<or> q = Some (sr_qp_index (stc_slots c ! i))"
  shows "alloc_effect c q (Inr (slot_id_at c i)) c1" and "alloc_effect c q (Inl err) (give_back c1 i)"
proof -
  from find_slot_some [OF f wf] have i: "i < length (stc_slots c)" "i \<notin> held_indices c"
    by (simp_all add: held_indices_def)
  note facts = take_slot_facts [OF wf i(1) t]
  show "alloc_effect c q (Inr (slot_id_at c i)) c1"
    using facts i q by (auto simp: alloc_effect_def)
  show "alloc_effect c q (Inl err) (give_back c1 i)"
    using facts give_back_facts [OF facts(1), of i] i by (auto simp: alloc_effect_def)
qed

lemma alloc_effect_refl: "slots_wf c \<Longrightarrow> alloc_effect c q (Inl err) c"
  by (simp add: alloc_effect_def)

lemma allocate_slot_effect:
  assumes wf: "slots_wf c" and a: "allocate_slot acl rt (c, w) = (r, (c', w'))"
  shows "alloc_effect c None r c'"
proof (cases "\<not> stc_opened c \<or> \<not> stc_transport c \<or> find_slot c (\<lambda>_. True) = None")
  case True
  with a have "c' = c \<and> \<not> ok r" by (auto simp: allocate_slot_def split: if_splits)
  then show ?thesis using alloc_effect_refl [OF wf] by (cases r) simp_all
next
  case False
  then obtain i where i: "find_slot c (\<lambda>_. True) = Some i" by auto
  obtain command_id c1 where t: "take_slot c i = (command_id, c1)" by fastforce
  have "stc_slots c1 = stc_slots c" using t by (auto simp: take_slot_def split: prod.splits)
  then have id: "nds_storage_slot_id (sr_qp_index (stc_slots c1 ! i)) (of_nat i) = slot_id_at c i"
    by (simp add: slot_id_at_def)
  have "(\<exists>err. r = Inl err \<and> c' = give_back c1 i) \<or> r = Inr (slot_id_at c i) \<and> c' = c1"
    using a False i t id by (auto simp: allocate_slot_def split: prod.splits sum.splits)
  then show ?thesis using taken_effect [OF wf i t, of None] by auto
qed

lemma allocate_slot_on_effect:
  assumes wf: "slots_wf c" and a: "allocate_slot_on acl rt t queue_index (c, w) = (r, (c', w'))"
  shows "alloc_effect c (Some queue_index) r c'"
proof (cases "\<not> stc_opened c \<or> \<not> stc_transport c \<or> unat queue_index \<ge> client_qp_count t
    \<or> find_slot c (\<lambda>i. sr_qp_index (stc_slots c ! i) = queue_index) = None")
  case True
  with a have "c' = c \<and> \<not> ok r" by (auto simp: allocate_slot_on_def split: if_splits)
  then show ?thesis using alloc_effect_refl [OF wf] by (cases r) simp_all
next
  case False
  then obtain i where i: "find_slot c (\<lambda>i. sr_qp_index (stc_slots c ! i) = queue_index) = Some i" by auto
  from find_slot_some [OF i wf] have q: "sr_qp_index (stc_slots c ! i) = queue_index" by simp
  obtain command_id c1 where t: "take_slot c i = (command_id, c1)" by fastforce
  have "(\<exists>err. r = Inl err \<and> c' = give_back c1 i) \<or> r = Inr (slot_id_at c i) \<and> c' = c1"
    using a False i t q wf by (auto simp: allocate_slot_on_def slot_id_at_def slots_wf_def split: prod.splits sum.splits)
  then show ?thesis using taken_effect [OF wf i t, of "Some queue_index"] q by auto
qed

lemma allocate_any_effect:
  "slots_wf c \<Longrightarrow> allocate_any acl rt t q (c, w) = (r, (c', w')) \<Longrightarrow> alloc_effect c q r c'"
  by (auto simp: allocate_any_def allocate_slot_effect allocate_slot_on_effect split: option.splits)

lemma release_slot_effect:
  assumes wf: "slots_wf c" and a: "release_slot acl rt slot_id (c, w) = (r, (c', w'))"
  shows "slots_wf c' \<and> stc_slots c' = stc_slots c \<and> slot_id_at c' = slot_id_at c \<and>
    (case r of
       Inl _ \<Rightarrow> c' = c
     | Inr _ \<Rightarrow> \<exists>i \<in> held_indices c. slot_id = slot_id_at c i \<and> held_indices c' = held_indices c - {i})"
proof (cases r)
  case (Inl err)
  then show ?thesis using a wf by (auto simp: release_slot_def Let_def split: if_splits prod.splits sum.splits)
next
  case (Inr u)
  let ?i = "unat (nds_storage_slot_id_index slot_id)"
  have i: "?i < length (stc_slots c)" "sr_qp_index (stc_slots c ! ?i) = nds_storage_slot_id_queue slot_id"
    "stc_allocated_slots c ! ?i" "c' = give_back c ?i"
    using a Inr by (auto simp: release_slot_def Let_def split: if_splits prod.splits sum.splits)
  have "slot_id = slot_id_at c ?i"
    using i(2) by (simp add: slot_id_at_def slot_id_of_parts)
  with i Inr show ?thesis
    using give_back_facts [OF wf i(1)] by (auto simp: held_indices_def)
qed

interpretation client_pool: slot_pool "\<lambda>s. slots_wf (fst s)" "\<lambda>s. client_slot_ids (fst s)" "\<lambda>s. client_held (fst s)"
  nds_storage_slot_id_queue "allocate_any acl rt t" "release_slot acl rt"
proof (unfold_locales, goal_cases)
  case (1 s q r s')
  then show ?case
    using allocate_any_effect [of "fst s" acl rt t q "snd s" r "fst s'" "snd s'"]
    by (simp add: alloc_effect_def client_slot_ids_def)
next
  case (2 s q i s')
  then obtain k where k: "k < length (stc_slots (fst s))" "i = slot_id_at (fst s) k" "k \<notin> held_indices (fst s)"
    "held_indices (fst s') = insert k (held_indices (fst s))" "q = None \<or> q = Some (sr_qp_index (stc_slots (fst s) ! k))"
    "slot_id_at (fst s') = slot_id_at (fst s)"
    using allocate_any_effect [of "fst s" acl rt t q "snd s" "Inr i" "fst s'" "snd s'"] by (auto simp: alloc_effect_def)
  have "slot_id_at (fst s) k \<notin> slot_id_at (fst s) ` held_indices (fst s)"
    using slot_id_at_inj [OF 2(1)] k by (auto simp: inj_on_def held_indices_def)
  with k 2(1) show ?case by (auto simp: client_slot_ids_def client_held_def slot_id_at_parts(1))
next
  case (3 s q err s')
  then show ?case
    using allocate_any_effect [of "fst s" acl rt t q "snd s" "Inl err" "fst s'" "snd s'"]
    by (simp add: alloc_effect_def client_held_def)
next
  case (4 s i p s')
  then show ?case
    using release_slot_effect [of "fst s" acl rt i "snd s" p "fst s'" "snd s'"] by (simp add: client_slot_ids_def)
next
  case (5 s i u s')
  then obtain k where k: "k \<in> held_indices (fst s)" "i = slot_id_at (fst s) k"
    "held_indices (fst s') = held_indices (fst s) - {k}" "slot_id_at (fst s') = slot_id_at (fst s)"
    using release_slot_effect [of "fst s" acl rt i "snd s" "Inr u" "fst s'" "snd s'"] by auto
  have "inj_on (slot_id_at (fst s)) (held_indices (fst s))"
    using slot_id_at_inj [OF 5(1)] by (rule inj_on_subset) (auto simp: held_indices_def)
  with k show ?case by (auto simp: client_held_def inj_on_image_set_diff [of _ "held_indices (fst s)"] inj_on_def)
next
  case (6 s i err s')
  then show ?case
    using release_slot_effect [of "fst s" acl rt i "snd s" "Inl err" "fst s'" "snd s'"] by simp
qed

section \<open>What opening establishes\<close>

lemma unat_of_small:
  "m < 2 ^ 32 \<Longrightarrow> unat (of_nat m :: u32) = m" "m < 2 ^ 64 \<Longrightarrow> unat (of_nat m :: u64) = m"
  by (simp_all add: unat_of_nat take_bit_nat_eq_self)

text \<open>
  What is relied on of the two libraries, as they document it: registering memory keeps the range
  that is registered, and an allocated block lies in the address space without wrapping around.
\<close>

definition registers_range :: "'w libra \<Rightarrow> bool" where
  "registers_range ra \<longleftrightarrow> (\<forall>f device info w result info' handle w'. ra_register_mr ra = Some f \<longrightarrow>
     f device info w = ((result, info', handle), w') \<longrightarrow> mi_address info' = mi_address info \<and> mi_size info' = mi_size info)"

definition blocks_fit :: "'w cann \<Rightarrow> bool" where
  "blocks_fit acl \<longleftrightarrow> (\<forall>sz w result p w'. aclrtMalloc acl sz w = ((result, p), w') \<longrightarrow>
     result = 0 \<longrightarrow> unat p + unat sz \<le> 2 ^ 64)"

definition block_of :: "'w cann \<Rightarrow> Runtime \<Rightarrow> nat \<Rightarrow> MemoryLocation \<Rightarrow> MemoryBuffer \<Rightarrow> bool" where
  "block_of acl rt sz location b \<longleftrightarrow> buffer_wf rt b \<and> mb_size b = of_nat sz \<and> mb_location b = location
     \<and> (blocks_fit acl \<and> location = LocDevice \<longrightarrow> unat (mb_rdma_data b) + unat (mb_size b) \<le> 2 ^ 64)"

definition region_of :: "'w libra \<Rightarrow> MemoryBuffer \<Rightarrow> ClientRegion \<Rightarrow> bool" where
  "region_of ra b region \<longleftrightarrow> mi_local_key (crg_info region) \<noteq> 0 \<and> mi_remote_key (crg_info region) \<noteq> 0
     \<and> (registers_range ra \<longrightarrow> mi_address (crg_info region) = mb_rdma_data b \<and> mi_size (crg_info region) = mb_size b)"

lemma assign_buffer_result:
  assumes "assign_buffer acl rt get upd sz location (c, w) = (Inr u, s)"
  shows "\<exists>b w'. s = (upd (\<lambda>_. b) c, w') \<and> block_of acl rt sz location b"
proof -
  from assms obtain b w1 where a: "runtime_allocate acl rt (of_nat sz) location w = (Inr b, w1)"
    and s: "fst s = upd (\<lambda>_. b) c"
    by (auto simp: assign_buffer_def buffer_move_assign_def buffer_move_def split: prod.splits sum.splits)
  have "unat (mb_rdma_data b) + unat (mb_size b) \<le> 2 ^ 64" if "blocks_fit acl" "location = LocDevice"
    using a that unfolding blocks_fit_def
    by (fastforce simp: runtime_allocate_def allocate_device_memory_def split: if_splits prod.splits sum.splits)
  with runtime_allocate_wf [OF a] s show ?thesis
    by (intro exI [of _ b] exI [of _ "snd s"]) (simp add: block_of_def prod_eq_iff)
qed

lemma assign_region_result:
  assumes "assign_region ra rt t buffer get upd access (c, w) = (Inr u, s)"
  shows "\<exists>region w'. s = (upd (\<lambda>_. region) c, w') \<and> region_of ra (buffer c) region"
proof -
  from assms obtain region w1 where a: "client_reg_mr ra (ctp_endpoint t) (buffer c) access w = (Inr region, w1)"
    and s: "fst s = upd (\<lambda>_. region) c"
    by (auto simp: assign_region_def client_register_memory_def client_region_move_assign_def client_region_move_def
        split: prod.splits sum.splits if_splits)
  from a have "region_of ra (buffer c) region"
    unfolding region_of_def registers_range_def
    by (fastforce simp: client_reg_mr_def zero_mr_info_def split: option.splits if_splits prod.splits)
  with s show ?thesis by (intro exI [of _ region] exI [of _ "snd s"]) (simp add: prod_eq_iff)
qed

lemma with_world_result: "with_world f (c, w) = (Inr u, s) \<Longrightarrow> \<exists>w'. s = (c, w') \<and> f c w = (Inr u, w')"
  by (auto simp: with_world_def split: prod.splits)

lemma change_result: "change f (c, w) = (r, s) \<longleftrightarrow> r = Inr () \<and> s = (f c, w)"
  by (auto simp: change_def)

lemma then_buffer:
  assumes "rbind (assign_buffer acl rt get upd sz location) f (c, w) = (Inr u, s)"
  obtains b w' where "block_of acl rt sz location b" "f () (upd (\<lambda>_. b) c, w') = (Inr u, s)"
  using assms unfolding rbind_eq_Inr_iff by (metis assign_buffer_result old.unit.exhaust)

lemma then_region:
  assumes "rbind (assign_region ra rt t buffer get upd access) f (c, w) = (Inr u, s)"
  obtains region w' where "region_of ra (buffer c) region" "f () (upd (\<lambda>_. region) c, w') = (Inr u, s)"
  using assms unfolding rbind_eq_Inr_iff by (metis assign_region_result old.unit.exhaust)

lemma then_world:
  assumes "rbind (with_world g) f (c, w) = (Inr u, s)"
  obtains x w1 where "g c w = (Inr x, w1)" "f x (c, w1) = (Inr u, s)"
  using assms unfolding rbind_eq_Inr_iff by (metis with_world_result)

lemma then_change: "rbind (change g) f (c, w) = f () (g c, w)"
  by (simp add: rbind_def change_def)

text \<open>What the two parts of \<open>open\<close> leave in the object: the parts that later steps use.\<close>

definition same_slots :: "StorageClient \<Rightarrow> StorageClient \<Rightarrow> bool" where
  "same_slots c c' \<longleftrightarrow> stc_slots c' = stc_slots c \<and> stc_command_region c' = stc_command_region c
     \<and> stc_completion_region c' = stc_completion_region c"

definition same_allocator :: "StorageClient \<Rightarrow> StorageClient \<Rightarrow> bool" where
  "same_allocator c c' \<longleftrightarrow> stc_allocated_slots c' = stc_allocated_slots c \<and> stc_next_slot c' = stc_next_slot c
     \<and> stc_transport c' = stc_transport c \<and> stc_runtime c' = stc_runtime c"

lemma open_slot_memory_result:
  assumes "open_slot_memory ra acl rt t n (c, w) = (Inr u, (c', w'))"
  shows "same_allocator c c' \<and> stc_slots c' = map (slot_resources (client_qp_count t)) [0..<n]
    \<and> (\<exists>cb mb. block_of acl rt (n * unat kStorageCommandBytes) LocDevice cb \<and> region_of ra cb (stc_command_region c')
        \<and> block_of acl rt (n * unat kStorageCompletionBytes) LocDevice mb \<and> region_of ra mb (stc_completion_region c'))"
  using assms unfolding open_slot_memory_def
  apply (rule then_buffer)
  apply (erule then_region)
  apply (erule then_buffer)
  apply (erule then_region)
  apply (erule then_buffer)
  apply (erule then_region)
  apply (simp only: then_change)
  apply (erule then_buffer)
  apply (drule assign_region_result)
  apply (elim exE conjE)
  subgoal premises prems for bb wa br wb cb wc cr wd mb we mr wf nb wg nr wh
  proof -
    note c' = prems(8) [THEN arg_cong, of fst, unfolded fst_conv]
    have "same_allocator c c'" unfolding c' by (simp add: same_allocator_def)
    moreover have "stc_slots c' = map (slot_resources (client_qp_count t)) [0..<n]" unfolding c' by simp
    moreover have "region_of ra cb (stc_command_region c')" using prems(4) unfolding c' by simp
    moreover have "region_of ra mb (stc_completion_region c')" using prems(6) unfolding c' by simp
    ultimately show ?thesis using prems(3,5) by blast
  qed
  done

lemma open_slot_tables_result:
  assumes "open_slot_tables ra acl rt t n (c, w) = (Inr u, (c', w'))"
  shows "same_slots c c' \<and> same_allocator c c' \<and> buffer_wf rt (stc_slot_descriptors_buffer c')
    \<and> buffer_wf rt (stc_storage_states_buffer c')
    \<and> mb_location (stc_storage_states_buffer c') = (if ctp_backend t = ModeRa then LocHost else LocDevice)"
  using assms unfolding open_slot_tables_def Let_def
  apply (rule then_buffer)
  apply (erule then_world)
  apply (erule then_buffer)
  apply (erule then_world)
  apply (erule then_buffer)
  apply (erule then_world)
  apply (drule assign_region_result)
  apply (elim exE conjE)
  apply (simp add: block_of_def same_slots_def same_allocator_def)
  done

definition empty_storage_client :: StorageClient where
  "empty_storage_client =
     \<lparr>stc_runtime = 0, stc_transport = False, stc_bootstrap_buffer = empty_buffer, stc_bootstrap_region = empty_client_region,
      stc_namespace_buffer = empty_buffer, stc_namespace_region = empty_client_region, stc_command_buffer = empty_buffer,
      stc_command_region = empty_client_region, stc_completion_buffer = empty_buffer,
      stc_completion_region = empty_client_region, stc_slots = [], stc_slot_descriptors_buffer = empty_buffer,
      stc_storage_states_buffer = empty_buffer, stc_slot_table_buffer = empty_buffer,
      stc_slot_table_region = empty_client_region, stc_allocated_slots = [], stc_capacity = 0, stc_next_command_id = 0,
      stc_storage_descriptor = \<lparr>sd_transport = zero_transport_descriptor, sd_slot_descriptors_address = 0,
        sd_storage_states_address = 0, sd_slot_count = 0, sd_reserved = 0, sd_capacity = 0\<rparr>,
      stc_bootstrap_descriptor = \<lparr>bd_transport = zero_transport_descriptor,
        bd_bootstrap = \<lparr>sg_address = 0, sg_length = 0, sg_local_key = 0\<rparr>\<rparr>,
      stc_next_slot = 0, stc_opened = False\<rparr>"

lemma finish_open_simps [simp]:
  "stc_slots (finish_open t c) = stc_slots c" "stc_allocated_slots (finish_open t c) = stc_allocated_slots c"
  "stc_next_slot (finish_open t c) = stc_next_slot c" "stc_transport (finish_open t c) = stc_transport c"
  "stc_opened (finish_open t c)" "stc_next_command_id (finish_open t c) \<noteq> 0"
  "stc_command_region (finish_open t c) = stc_command_region c"
  "stc_completion_region (finish_open t c) = stc_completion_region c"
  "stc_runtime (finish_open t c) = stc_runtime c"
  "stc_storage_states_buffer (finish_open t c) = stc_storage_states_buffer c"
  "stc_storage_descriptor (finish_open t c) =
     \<lparr>sd_transport = ctp_device_transport t, sd_slot_descriptors_address = mb_data (stc_slot_descriptors_buffer c),
      sd_storage_states_address = mb_data (stc_storage_states_buffer c), sd_slot_count = of_nat (length (stc_slots c)),
      sd_reserved = 0, sd_capacity = 0\<rparr>"
  by (simp_all add: finish_open_def Let_def)

text \<open>
  What is relied on of the device memory that is in use, \<open>held\<close>: an allocated block was not in use and is in use from then
  on, and registering memory or taking a registration back changes nothing of it.
\<close>

definition block_bytes :: "u64 \<Rightarrow> u64 \<Rightarrow> u64 set" where
  "block_bytes p sz = (\<lambda>k. p + of_nat k) ` {..<unat sz}"

definition device_blocks :: "'w libra \<Rightarrow> 'w cann \<Rightarrow> ('w \<Rightarrow> u64 set) \<Rightarrow> bool" where
  "device_blocks ra acl held \<longleftrightarrow>
     (\<forall>sz w p w'. aclrtMalloc acl sz w = ((0, p), w') \<longrightarrow> block_bytes p sz \<inter> held w = {} \<and> held w' = held w \<union> block_bytes p sz) \<and>
     (\<forall>f device info w. ra_register_mr ra = Some f \<longrightarrow> held (snd (f device info w)) = held w) \<and>
     (\<forall>f device handle w. ra_deregister_mr ra = Some f \<longrightarrow> held (snd (f device handle w)) = held w)"

lemma assign_buffer_held:
  assumes laws: "device_blocks ra acl held" and run: "assign_buffer acl rt get upd sz LocDevice (c, w) = (Inr u, s)"
  shows "\<exists>b w'. s = (upd (\<lambda>_. b) c, w') \<and> block_of acl rt sz LocDevice b \<and>
    block_bytes (mb_rdma_data b) (mb_size b) \<inter> held w = {} \<and>
    (mb_data (get c) = 0 \<longrightarrow> held w' = held w \<union> block_bytes (mb_rdma_data b) (mb_size b))"
proof -
  from run obtain b w1 where a: "runtime_allocate acl rt (of_nat sz) LocDevice w = (Inr b, w1)"
    and s: "s = (upd (\<lambda>_. b) c, snd (buffer_reset acl rt (get c) w1))"
    by (auto simp: assign_buffer_def buffer_move_assign_def buffer_move_def split: prod.splits sum.splits)
  from a have m: "aclrtMalloc acl (mb_size b) w = ((0, mb_rdma_data b), w1)"
    by (auto simp: runtime_allocate_def allocate_device_memory_def split: if_splits prod.splits sum.splits)
  have "block_of acl rt sz LocDevice b"
    using assign_buffer_result [OF run [unfolded s]] run s a runtime_allocate_wf [OF a] m
    by (auto simp: block_of_def blocks_fit_def)
  moreover have "snd (buffer_reset acl rt (get c) w1) = w1" if "mb_data (get c) = 0"
    using that by (simp add: buffer_reset_def Let_def)
  moreover have "block_bytes (mb_rdma_data b) (mb_size b) \<inter> held w = {} \<and> held w1 = held w \<union> block_bytes (mb_rdma_data b) (mb_size b)"
    using laws m unfolding device_blocks_def by blast
  ultimately show ?thesis using s by (intro exI [of _ b] exI [of _ "snd s"]) simp
qed

lemma assign_region_held:
  assumes laws: "device_blocks ra acl held" and run: "assign_region ra rt t buffer get upd access (c, w) = (Inr u, s)"
  shows "\<exists>region w'. s = (upd (\<lambda>_. region) c, w') \<and> region_of ra (buffer c) region \<and> held w' = held w"
proof -
  from assign_region_result [OF run] obtain region w' where r: "s = (upd (\<lambda>_. region) c, w')" "region_of ra (buffer c) region" by blast
  from run r obtain region1 w1 where a: "client_reg_mr ra (ctp_endpoint t) (buffer c) access w = (Inr region1, w1)"
    and w': "w' = snd (client_region_reset ra (ctp_endpoint t) (get c) w1)"
    by (auto simp: assign_region_def client_register_memory_def client_region_move_assign_def client_region_move_def
        split: prod.splits sum.splits if_splits)
  from a obtain f info x where f: "ra_register_mr ra = Some f" "f (cep_rdev_handle (ctp_endpoint t)) info w = (x, w1)"
    by (auto simp: client_reg_mr_def split: option.splits if_splits prod.splits)
  from laws f(1) have "held (snd (f (cep_rdev_handle (ctp_endpoint t)) info w)) = held w" unfolding device_blocks_def by blast
  with f(2) have "held w1 = held w" by simp
  moreover have "held w' = held w1"
    using laws unfolding w' device_blocks_def
    by (auto simp: client_region_reset_def client_deregister_def split: option.splits prod.splits if_splits) (metis snd_conv)+
  ultimately show ?thesis using r by blast
qed

lemma then_buffer_held:
  assumes "device_blocks ra acl held" and "rbind (assign_buffer acl rt get upd sz LocDevice) f (c, w) = (Inr u, s)"
  obtains b w' where "block_of acl rt sz LocDevice b" "block_bytes (mb_rdma_data b) (mb_size b) \<inter> held w = {}"
    "mb_data (get c) = 0 \<longrightarrow> held w' = held w \<union> block_bytes (mb_rdma_data b) (mb_size b)" "f () (upd (\<lambda>_. b) c, w') = (Inr u, s)"
proof -
  from assms(2) obtain u1 s1 where "assign_buffer acl rt get upd sz LocDevice (c, w) = (Inr u1, s1)" "f u1 s1 = (Inr u, s)"
    unfolding rbind_eq_Inr_iff by blast
  with assign_buffer_held [OF assms(1) this(1)] that show thesis by (metis old.unit.exhaust)
qed

lemma then_region_held:
  assumes "device_blocks ra acl held" and "rbind (assign_region ra rt t buffer get upd access) f (c, w) = (Inr u, s)"
  obtains region w' where "region_of ra (buffer c) region" "held w' = held w" "f () (upd (\<lambda>_. region) c, w') = (Inr u, s)"
proof -
  from assms(2) obtain u1 s1 where "assign_region ra rt t buffer get upd access (c, w) = (Inr u1, s1)" "f u1 s1 = (Inr u, s)"
    unfolding rbind_eq_Inr_iff by blast
  with assign_region_held [OF assms(1) this(1)] that show thesis by (metis old.unit.exhaust)
qed

definition region_bytes :: "ClientRegion \<Rightarrow> u64 set" where
  "region_bytes region = block_bytes (mi_address (crg_info region)) (mi_size (crg_info region))"

text \<open>A client that holds no command memory yet gets commands and completions in different memory.\<close>

lemma open_slot_memory_apart:
  assumes laws: "device_blocks ra acl held" "registers_range ra"
    and run: "open_slot_memory ra acl rt t n (c, w) = (Inr u, (c', w'))" and c: "mb_data (stc_command_buffer c) = 0"
  shows "region_bytes (stc_command_region c') \<inter> region_bytes (stc_completion_region c') = {}"
  using run unfolding open_slot_memory_def
  apply (rule then_buffer)
  apply (erule then_region)
  apply (erule then_buffer_held [OF laws(1)])
  apply (erule then_region_held [OF laws(1)])
  apply (erule then_buffer_held [OF laws(1)])
  apply (erule then_region)
  apply (simp only: then_change)
  apply (erule then_buffer)
  apply (drule assign_region_result)
  apply (elim exE conjE)
  using c laws(2) by (auto simp: region_bytes_def region_of_def)

lemma storage_client_open_apart:
  assumes laws: "device_blocks ra acl held" "registers_range ra"
    and o: "storage_client_open ra acl (Some rt) (Some t) (c, w) = (Inr u, (c', w'))" and c: "mb_data (stc_command_buffer c) = 0"
  shows "region_bytes (stc_command_region c') \<inter> region_bytes (stc_completion_region c') = {}"
proof -
  let ?n = "client_qp_count t * kStorageSlotsPerQp"
  define c0 where "c0 = c\<lparr>stc_runtime := rt_this rt, stc_transport := True, stc_slots := resize_slots ?n (stc_slots c),
    stc_allocated_slots := replicate ?n False\<rparr>"
  from o have r: "rbind (open_slot_memory ra acl rt t ?n) (\<lambda>_. rbind (open_slot_tables ra acl rt t ?n) (\<lambda>_.
        rbind (change (finish_open t)) (\<lambda>_. with_world (prepare_bootstrap ra acl rt t)))) (c0, w) = (Inr u, (c', w'))"
    by (auto simp: storage_client_open_def c0_def Let_def split: if_splits)
  from r obtain u1 c1 w1 u2 c2 w2 where m: "open_slot_memory ra acl rt t ?n (c0, w) = (Inr u1, (c1, w1))"
    and tb: "open_slot_tables ra acl rt t ?n (c1, w1) = (Inr u2, (c2, w2))"
    and p: "with_world (prepare_bootstrap ra acl rt t) (finish_open t c2, w2) = (Inr u, (c', w'))"
    by (auto simp: rbind_eq_Inr_iff then_change change_def)
  have "mb_data (stc_command_buffer c0) = 0" using c by (simp add: c0_def)
  from open_slot_memory_apart [OF laws m this] open_slot_tables_result [OF tb] with_world_result [OF p] show ?thesis
    by (auto simp: same_slots_def)
qed

lemma prepare_bootstrap_valid:
  "prepare_bootstrap ra acl rt t c w = (Inr u, w') \<Longrightarrow> bootstrap_valid (bootstrap_record c)"
  by (auto simp: prepare_bootstrap_def serialize_storage_bootstrap_def split: if_splits)

text \<open>An open storage client: as many slots as it says, all of them in the two registered regions, none held.\<close>

definition storage_client_wf :: "'w libra \<Rightarrow> 'w cann \<Rightarrow> Runtime \<Rightarrow> ClientTransport \<Rightarrow> StorageClient \<Rightarrow> bool" where
  "storage_client_wf ra acl rt t c \<longleftrightarrow>
     slots_wf c \<and> stc_opened c \<and> stc_transport c \<and> bootstrap_valid (bootstrap_record c)
     \<and> stc_slots c = map (slot_resources (client_qp_count t)) [0..<16 * client_qp_count t]
     \<and> 0 < client_qp_count t \<and> client_qp_count t < 4096
     \<and> (\<exists>cb mb. block_of acl rt (1024 * client_qp_count t) LocDevice cb \<and> region_of ra cb (stc_command_region c)
          \<and> block_of acl rt (512 * client_qp_count t) LocDevice mb \<and> region_of ra mb (stc_completion_region c))
     \<and> sd_transport (stc_storage_descriptor c) = ctp_device_transport t
     \<and> unat (sd_slot_count (stc_storage_descriptor c)) = length (stc_slots c)
     \<and> sd_slot_descriptors_address (stc_storage_descriptor c) \<noteq> 0 \<and> sd_storage_states_address (stc_storage_descriptor c) \<noteq> 0
     \<and> sd_reserved (stc_storage_descriptor c) = 0"

lemma slots_of_queue:
  assumes "0 < q" and "q < 4096" and "slots = map (slot_resources q) [0..<16 * q]" and "r \<in> set slots"
  shows "unat (sr_qp_index r) < q" and "sr_qp_index r < 0x10000"
proof -
  from assms obtain i where "sr_qp_index r = of_nat (i mod q)" by (auto simp: slot_resources_def)
  moreover have "i mod q < q" using assms(1) by simp
  ultimately show "unat (sr_qp_index r) < q"
    using assms(2) by (simp add: unat_of_nat take_bit_nat_eq_self)
  then show "sr_qp_index r < 0x10000" using assms(2) by (simp add: word_less_nat_alt)
qed

lemma storage_client_open_wf:
  assumes o: "storage_client_open ra acl (Some rt) (Some t) (c, w) = (Inr u, (c', w'))" and z: "stc_next_slot c = 0"
  shows "storage_client_wf ra acl rt t c' \<and> held_indices c' = {}"
proof -
  let ?q = "client_qp_count t"
  let ?n = "?q * kStorageSlotsPerQp"
  define c0 where "c0 = c\<lparr>stc_runtime := rt_this rt, stc_transport := True, stc_slots := resize_slots ?n (stc_slots c),
    stc_allocated_slots := replicate ?n False\<rparr>"
  from o have q: "0 < ?q" "?n < 2 ^ 16"
    and r: "rbind (open_slot_memory ra acl rt t ?n) (\<lambda>_. rbind (open_slot_tables ra acl rt t ?n) (\<lambda>_.
        rbind (change (finish_open t)) (\<lambda>_. with_world (prepare_bootstrap ra acl rt t)))) (c0, w) = (Inr u, (c', w'))"
    by (auto simp: storage_client_open_def c0_def Let_def kStorageSlotIndexLimit_def split: if_splits)
  from r obtain u1 c1 w1 u2 c2 w2 where m: "open_slot_memory ra acl rt t ?n (c0, w) = (Inr u1, (c1, w1))"
    and tb: "open_slot_tables ra acl rt t ?n (c1, w1) = (Inr u2, (c2, w2))"
    and p: "with_world (prepare_bootstrap ra acl rt t) (finish_open t c2, w2) = (Inr u, (c', w'))"
    by (auto simp: rbind_eq_Inr_iff then_change change_def)
  note m' = open_slot_memory_result [OF m] and t' = open_slot_tables_result [OF tb]
  from with_world_result [OF p] have c': "c' = finish_open t c2" and v: "bootstrap_valid (bootstrap_record c')"
    by (auto dest: prepare_bootstrap_valid)
  have n: "?n = 16 * ?q" "?q < 4096" "16 * ?q < 2 ^ 16" using q by (simp_all add: kStorageSlotsPerQp_def)
  have nb: "?n * unat kStorageCommandBytes = 1024 * ?q" "?n * unat kStorageCompletionBytes = 512 * ?q"
    by (simp_all add: kStorageSlotsPerQp_def kStorageCommandBytes_def kStorageCompletionBytes_def)
  have slots: "stc_slots c2 = map (slot_resources ?q) [0..<16 * ?q]"
    using m' t' n(1) by (simp add: same_slots_def)
  have held: "stc_allocated_slots c2 = replicate (16 * ?q) False" "stc_next_slot c2 = 0" "stc_transport c2"
    using m' t' n(1) z by (simp_all add: same_allocator_def c0_def)
  have b: "\<exists>cb mb. block_of acl rt (1024 * ?q) LocDevice cb \<and> region_of ra cb (stc_command_region c2)
      \<and> block_of acl rt (512 * ?q) LocDevice mb \<and> region_of ra mb (stc_completion_region c2)"
    using m' t' unfolding nb by (simp add: same_slots_def)
  have k: "unat (of_nat (16 * ?q) :: u32) = 16 * ?q" by (rule unat_of_small(1)) (use n in simp)
  have wf: "slots_wf c'"
    unfolding c' slots_wf_def using held slots n(2,3) q(1) slots_of_queue(2) [OF q(1) n(2) slots] by simp
  show ?thesis
    unfolding storage_client_wf_def using wf v q(1) n(2) slots held b k t'
    by (simp add: c' held_indices_def buffer_wf_def)
qed

section \<open>A sample\<close>

text \<open>A world that is the first free address: every block begins where the last one ended, and none is freed.\<close>

definition sample_storage_acl :: "u64 cann" where
  "sample_storage_acl = sample_acl\<lparr>aclrtMalloc := (\<lambda>sz w.
     if w \<noteq> 0 \<and> unat w + unat sz < 2 ^ 64 then ((0, w), w + sz) else ((1, 0), w))\<rparr>"

definition sample_storage_transport :: ClientTransport where
  "sample_storage_transport = sample_transport_created\<lparr>ctp_qps := [connected_qp sample_client_qp],
     ctp_device_transport := \<lparr>td_qp_descriptors_address = 0x1000, td_qp_states_address = 0x1000, td_qp_count = 1, td_reserved = 0\<rparr>\<rparr>"

definition sample_block :: "u64 \<Rightarrow> u64 \<Rightarrow> MemoryBuffer" where
  "sample_block a n = \<lparr>mb_runtime = 0x40, mb_data = a, mb_rdma_data = a, mb_size = n, mb_location = LocDevice\<rparr>"

definition sample_region :: "u64 \<Rightarrow> u64 \<Rightarrow> int \<Rightarrow> ClientRegion" where
  "sample_region a n access = \<lparr>crg_endpoint = 0x50, crg_info = \<lparr>mi_address = a, mi_size = n, mi_access = access,
     mi_local_key = 3, mi_remote_key = 4\<rparr>, crg_handle = 0x30\<rparr>"

lemma sample_laws: "registers_range sample_ra" "blocks_fit sample_storage_acl"
  by (auto simp: registers_range_def blocks_fit_def sample_ra_def sample_storage_acl_def split: if_splits)

lemma block_bytes_iff:
  assumes "unat w + unat sz < 2 ^ 64"
  shows "x \<in> block_bytes w sz \<longleftrightarrow> unat w \<le> unat x \<and> unat x < unat w + unat sz"
proof -
  have u: "unat (w + of_nat k) = unat w + k" if "k < unat sz" for k
  proof -
    have "unat (of_nat k :: u64) = k" using that assms by (simp add: unat_of_nat)
    with that assms show ?thesis using unat_add_small [of w "of_nat k"] by simp
  qed
  show ?thesis
  proof
    assume "x \<in> block_bytes w sz"
    then show "unat w \<le> unat x \<and> unat x < unat w + unat sz" by (auto simp: block_bytes_def u)
  next
    assume x: "unat w \<le> unat x \<and> unat x < unat w + unat sz"
    let ?k = "unat x - unat w"
    have k: "?k < unat sz" using x by linarith
    then have "unat (w + of_nat ?k) = unat x" using u [OF k] x by linarith
    then have "w + of_nat ?k = x" by (rule unsigned_word_eqI)
    with k show "x \<in> block_bytes w sz" unfolding block_bytes_def by (metis image_eqI lessThan_iff)
  qed
qed

lemma sample_device_blocks: "device_blocks sample_ra sample_storage_acl (\<lambda>w. {x. x < w})"
  unfolding device_blocks_def
proof (intro conjI allI impI)
  fix sz w p w'
  assume "aclrtMalloc sample_storage_acl sz w = ((0, p), w')"
  then have b: "unat w + unat sz < 2 ^ 64" and p: "p = w" "w' = w + sz"
    unfolding sample_storage_acl_def by (auto split: if_split_asm)
  note in_block = block_bytes_iff [OF b] and sum = unat_add_small [OF b]
  show "block_bytes p sz \<inter> {x. x < w} = {}" unfolding p using in_block by (auto simp: word_less_nat_alt)
  have "x < w + sz \<longleftrightarrow> x < w \<or> x \<in> block_bytes w sz" for x
    unfolding in_block word_less_nat_alt sum by linarith
  then show "{x. x < w'} = {x. x < w} \<union> block_bytes p sz" unfolding p by blast
qed (auto simp: sample_ra_def)

lemma sample_storage_allocate:
  "n \<noteq> 0 \<Longrightarrow> a \<noteq> 0 \<Longrightarrow> unat a + unat n < 2 ^ 64 \<Longrightarrow>
    runtime_allocate sample_storage_acl sample_runtime n LocDevice a = (Inr (sample_block a n), a + n)"
  by (simp add: runtime_allocate_def allocate_device_memory_def sample_storage_acl_def sample_runtime_def sample_block_def)

lemma sample_storage_register:
  "n \<noteq> 0 \<Longrightarrow> a \<noteq> 0 \<Longrightarrow> client_register_memory sample_ra sample_runtime sample_storage_transport (sample_block a n) access w
     = (Inr (sample_region a n access), w)"
  by (simp add: client_register_memory_def client_reg_mr_def client_endpoint_opened_def sample_storage_transport_def
      sample_transport_created_def sample_transport_open_def sample_defs sample_block_def sample_region_def zero_mr_info_def)

lemma sample_storage_copy:
  "host_size object \<noteq> 0 \<Longrightarrow> host_size object \<le> unat n \<Longrightarrow> a \<noteq> 0 \<Longrightarrow>
    runtime_copy_to sample_storage_acl sample_runtime (sample_block a n) object w = (Inr (), w)"
  by (simp add: runtime_copy_to_def copy_host_to_device_def sample_storage_acl_def sample_acl_def sample_runtime_def
      sample_block_def)

lemma sample_move_buffer: "buffer_move_assign acl rt empty_buffer b w = (buffer_move b, w)"
  by (simp add: buffer_move_assign_def buffer_reset_empty)

lemma sample_move_region: "client_region_move_assign ra ep empty_client_region r w = ((r, empty_client_region), w)"
  by (simp add: client_region_move_assign_def client_region_move_def client_region_reset_def empty_client_region_def)

lemma sample_size: "0 < n \<Longrightarrow> n < 2 ^ 32 \<Longrightarrow> (of_nat n :: u64) \<noteq> 0 \<and> (of_nat n :: u64) < 0x100000000"
  using unat_of_small(2) [of n] by (auto simp: word_less_nat_alt unat_eq_0 [symmetric])

lemma sample_assign_buffer:
  assumes "get c = empty_buffer" and "0 < n" and "n < 2 ^ 32" and "a \<noteq> 0" and "unat a < 2 ^ 32"
  shows "assign_buffer sample_storage_acl sample_runtime get upd n LocDevice (c, a) =
      (Inr (), (upd (\<lambda>_. sample_block a (of_nat n)) c, a + of_nat n))"
proof -
  have "unat (of_nat n :: u64) = n" by (rule unat_of_small(2)) (use assms in simp)
  with assms have "unat a + unat (of_nat n :: u64) < 2 ^ 64" by simp
  with assms sample_size [of n] sample_storage_allocate [of "of_nat n" a] show ?thesis
    by (simp add: assign_buffer_def sample_move_buffer buffer_move_def)
qed

lemma sample_assign_region:
  "get c = empty_client_region \<Longrightarrow> buffer c = sample_block a (of_nat n) \<Longrightarrow> 0 < n \<Longrightarrow> n < 2 ^ 32 \<Longrightarrow> a \<noteq> 0 \<Longrightarrow>
    assign_region sample_ra sample_runtime sample_storage_transport buffer get upd access (c, w) =
      (Inr (), (upd (\<lambda>_. sample_region a (of_nat n) access) c, w))"
  using sample_size [of n] sample_storage_register [of "of_nat n" a access w]
  by (simp add: assign_region_def sample_move_region)

text \<open>The sample's storage client after the memory of its slots is there, and after the tables are.\<close>

definition sample_with_memory :: "StorageClient \<Rightarrow> StorageClient" where
  "sample_with_memory c = c\<lparr>stc_bootstrap_buffer := sample_block 0x1000 96,
     stc_bootstrap_region := sample_region 0x1000 96 LocalWrite_RemoteRead,
     stc_command_buffer := sample_block 0x1060 1024,
     stc_command_region := sample_region 0x1060 1024 LocalWrite_RemoteWrite_RemoteRead,
     stc_completion_buffer := sample_block 0x1460 512,
     stc_completion_region := sample_region 0x1460 512 LocalWrite_RemoteWrite_RemoteRead,
     stc_slots := map (slot_resources 1) [0..<16], stc_namespace_buffer := sample_block 0x1660 16,
     stc_namespace_region := sample_region 0x1660 16 LocalWrite_RemoteWrite_RemoteRead\<rparr>"

definition sample_with_tables :: "StorageClient \<Rightarrow> StorageClient" where
  "sample_with_tables c = c\<lparr>stc_slot_descriptors_buffer := sample_block 0x1670 640,
     stc_storage_states_buffer := sample_block 0x18f0 384, stc_slot_table_buffer := sample_block 0x1a70 896,
     stc_slot_table_region := sample_region 0x1a70 896 LocalWrite_RemoteRead\<rparr>"

definition untouched :: "StorageClient \<Rightarrow> bool" where
  "untouched c \<longleftrightarrow> stc_bootstrap_buffer c = empty_buffer \<and> stc_bootstrap_region c = empty_client_region
     \<and> stc_command_buffer c = empty_buffer \<and> stc_command_region c = empty_client_region
     \<and> stc_completion_buffer c = empty_buffer \<and> stc_completion_region c = empty_client_region
     \<and> stc_namespace_buffer c = empty_buffer \<and> stc_namespace_region c = empty_client_region
     \<and> stc_slot_descriptors_buffer c = empty_buffer \<and> stc_storage_states_buffer c = empty_buffer
     \<and> stc_slot_table_buffer c = empty_buffer \<and> stc_slot_table_region c = empty_client_region"

lemma sample_qp_count: "client_qp_count sample_storage_transport = 1" "ctp_backend sample_storage_transport = ModeAiv"
  by (simp_all add: client_qp_count_def sample_storage_transport_def sample_transport_created_def sample_transport_open_def)

lemma sample_opens_memory:
  "untouched c \<Longrightarrow> open_slot_memory sample_ra sample_storage_acl sample_runtime sample_storage_transport 16 (c, 0x1000) =
     (Inr (), (sample_with_memory c, 0x1670))"
  unfolding open_slot_memory_def
  by (simp add: untouched_def rbind_def sample_assign_buffer sample_assign_region [where n = 96]
      sample_assign_region [where n = 1024] sample_assign_region [where n = 512] sample_assign_region [where n = 16]
      storage_consts change_def sample_qp_count sample_with_memory_def del: map_upt_Suc upt.simps)

lemma sample_opens_tables:
  assumes "stc_slot_descriptors_buffer c = empty_buffer" "stc_storage_states_buffer c = empty_buffer"
    "stc_slot_table_buffer c = empty_buffer" "stc_slot_table_region c = empty_client_region" "length (stc_slots c) = 16"
  shows "open_slot_tables sample_ra sample_storage_acl sample_runtime sample_storage_transport 16 (c, 0x1670) =
     (Inr (), (sample_with_tables c, 0x1df0))"
  using assms unfolding open_slot_tables_def
  by (simp add: rbind_def sample_assign_buffer with_world_def sample_storage_copy sample_assign_region [where n = 896]
      sample_qp_count sample_with_tables_def)

definition sample_storage_client :: StorageClient where
  "sample_storage_client = finish_open sample_storage_transport (sample_with_tables (sample_with_memory
     (empty_storage_client\<lparr>stc_runtime := 0x40, stc_transport := True, stc_slots := resize_slots 16 [],
        stc_allocated_slots := replicate 16 False\<rparr>)))"

lemma sample_bootstrap: "bootstrap_valid (bootstrap_record sample_storage_client)"
  by (simp add: bootstrap_valid_def bootstrap_record_def sample_storage_client_def finish_open_def Let_def
      sample_with_tables_def sample_with_memory_def sample_region_def storage_consts memory_valid_def)

lemma sample_storage_ready: "client_transport_ready sample_ra sample_storage_transport w = (Inr (), w)"
proof -
  have "ctp_qps sample_storage_transport = [connected_qp sample_client_qp]"
    "ctp_endpoint sample_storage_transport = sample_client_endpoint"
    by (simp_all add: sample_storage_transport_def sample_transport_created_def sample_transport_open_def)
  then show ?thesis by (simp add: client_transport_ready_def sample_ready rbind_def)
qed

lemma sample_prepares: "prepare_bootstrap sample_ra sample_storage_acl sample_runtime sample_storage_transport sample_storage_client w = (Inr (), w)"
proof -
  have "stc_namespace_buffer sample_storage_client = sample_block 0x1660 16"
    "stc_bootstrap_buffer sample_storage_client = sample_block 0x1000 96" "stc_slots sample_storage_client \<noteq> []"
    by (simp_all add: sample_storage_client_def finish_open_def Let_def sample_with_tables_def sample_with_memory_def)
  then show ?thesis
    using sample_bootstrap
    by (simp add: prepare_bootstrap_def bootstrap_codec.enc_some bootstrap_codec.put_frame rbind_def sample_storage_copy
        sample_storage_ready storage_consts)
qed

lemma sample_storage_opens:
  "storage_client_open sample_ra sample_storage_acl (Some sample_runtime) (Some sample_storage_transport)
     (empty_storage_client, 0x1000) = (Inr (), (sample_storage_client, 0x1df0))"
proof -
  let ?c0 = "empty_storage_client\<lparr>stc_runtime := 0x40, stc_transport := True, stc_slots := resize_slots 16 [],
        stc_allocated_slots := replicate 16 False\<rparr>"
  have u: "untouched ?c0" "\<not> stc_opened empty_storage_client" "stc_slots empty_storage_client = []"
    by (simp_all add: untouched_def empty_storage_client_def)
  have t: "stc_slot_descriptors_buffer (sample_with_memory ?c0) = empty_buffer"
    "stc_storage_states_buffer (sample_with_memory ?c0) = empty_buffer"
    "stc_slot_table_buffer (sample_with_memory ?c0) = empty_buffer"
    "stc_slot_table_region (sample_with_memory ?c0) = empty_client_region" "length (stc_slots (sample_with_memory ?c0)) = 16"
    using u(1) by (simp_all add: sample_with_memory_def untouched_def)
  have r: "rt_initialized sample_runtime" "rt_this sample_runtime = 0x40" by (simp_all add: sample_runtime_def)
  have "rbind (open_slot_memory sample_ra sample_storage_acl sample_runtime sample_storage_transport 16) (\<lambda>_.
      rbind (open_slot_tables sample_ra sample_storage_acl sample_runtime sample_storage_transport 16) (\<lambda>_.
      rbind (change (finish_open sample_storage_transport)) (\<lambda>_.
      with_world (prepare_bootstrap sample_ra sample_storage_acl sample_runtime sample_storage_transport)))) (?c0, 0x1000)
    = (Inr (), (sample_storage_client, 0x1df0))"
    by (simp add: rbind_def [of "open_slot_memory _ _ _ _ _"] sample_opens_memory [OF u(1)]
        rbind_def [of "open_slot_tables _ _ _ _ _"] sample_opens_tables [OF t] then_change
        sample_storage_client_def [symmetric] with_world_def sample_prepares)
  then show ?thesis
    using u(2,3) r by (simp add: storage_client_open_def sample_qp_count kStorageSlotsPerQp_def kStorageSlotIndexLimit_def Let_def
        storage_consts)
qed

section \<open>The loop for the namespace\<close>

text \<open>What is relied on of the clock: reading it and reading memory never set it back, and sleeping advances it.\<close>

definition client_clock :: "'w cann \<Rightarrow> ('w \<Rightarrow> nat) \<Rightarrow> bool" where
  "client_clock acl clock \<longleftrightarrow>
     (\<forall>w. fst (client_now acl w) \<ge> clock w \<and> clock w \<le> clock (snd (client_now acl w)))
     \<and> (\<forall>a n w. clock w \<le> clock (snd (aclrtMemcpy_to_host acl a n w)))
     \<and> (\<forall>n w. 0 < n \<longrightarrow> clock w < clock (sleep_for_ms acl n w))"

lemma copy_from_clock:
  assumes "client_clock acl clock" and "runtime_copy_from acl rt b n w = (r, w')"
  shows "clock w \<le> clock w'"
proof -
  have "clock w \<le> clock (snd (aclrtMemcpy_to_host acl (mb_data b) n w))" using assms(1) by (simp add: client_clock_def)
  with assms(2) show ?thesis
    by (auto simp: runtime_copy_from_def copy_device_to_host_def split: if_splits prod.splits)
qed

lemma observe_until_returns:
  assumes "client_clock acl clock"
  shows "\<exists>r w'. observe_until acl rt c deadline w = Some (r, w') \<and> (\<forall>n. r = Inr n \<longrightarrow> n \<noteq> 0)"
proof (induction "deadline - clock w" arbitrary: w rule: less_induct)
  case less
  obtain now w1 where n: "client_now acl w = (now, w1)" by fastforce
  from assms n have c1: "clock w \<le> now" "clock w \<le> clock w1" unfolding client_clock_def by (metis fst_conv snd_conv)+
  obtain r w2 where r: "runtime_copy_from acl rt (stc_namespace_buffer c) (unat kStorageNamespaceBytes) w1 = (r, w2)" by fastforce
  have c2: "clock w1 \<le> clock w2" by (rule copy_from_clock [OF assms r])
  have c3: "clock w2 < clock (sleep_for_ms acl 1 w2)" using assms by (simp add: client_clock_def)
  show ?case
  proof (cases "now < deadline \<and> ok r")
    case False
    then show ?thesis using n r by (cases r) (auto simp: observe_until.simps [of acl rt c deadline w])
  next
    case True
    then obtain bytes where b: "r = Inr bytes" by (auto simp: ok_iff)
    let ?d = "deserialize_storage_namespace (Some bytes) kStorageNamespaceBytes (Some \<lparr>ns_capacity = 0\<rparr>)"
    show ?thesis
    proof (cases "\<exists>ns. ?d = (SerdeOk, Some ns)")
      case dec: True
      then obtain ns where d: "?d = (SerdeOk, Some ns)" by blast
      then have "ns_capacity ns \<noteq> 0"
        by (auto simp: deserialize_storage_namespace_def Let_def split: if_splits)
      with True n r b d show ?thesis by (simp add: observe_until.simps [of acl rt c deadline w])
    next
      case False
      then have "observe_until acl rt c deadline w = observe_until acl rt c deadline (sleep_for_ms acl 1 w2)"
        using True n r b
        by (cases ?d) (auto simp: observe_until.simps [of acl rt c deadline w] split: StorageSerdeResult.splits option.splits)
      moreover have "deadline - clock (sleep_for_ms acl 1 w2) < deadline - clock w"
        using True c1 c2 c3 by linarith
      ultimately show ?thesis using less by metis
    qed
  qed
qed

section \<open>Command identifiers\<close>

text \<open>The identifiers in order of allocation: they count through the nonzero words.\<close>

lemma command_id_step:
  assumes "n \<noteq> 0"
  shows "unat (snd (allocate_command_id n)) = unat n mod (2 ^ 64 - 1) + 1"
proof (cases "n + 1 = 0")
  case True
  then have "n = - 1" by (simp add: eq_neg_iff_add_eq_0)
  then show ?thesis using assms by (simp add: allocate_command_id_nonzero unsigned_minus_1_eq_mask mask_eq_exp_minus_1)
next
  case False
  have "unat n < 2 ^ 64" by (rule unat_less_64)
  moreover have "unat n \<noteq> 2 ^ 64 - 1"
  proof
    assume "unat n = 2 ^ 64 - 1"
    then have "unat n = unat (- 1 :: u64)" by (simp add: unsigned_minus_1_eq_mask mask_eq_exp_minus_1)
    then have "n = - 1" by (rule unsigned_word_eqI)
    with False show False by simp
  qed
  ultimately have "unat n mod (2 ^ 64 - 1) = unat n" "unat (n + 1) = unat n + 1"
    using unat_add_small [of n 1] by simp_all
  then show ?thesis using assms False by (simp add: allocate_command_id_nonzero)
qed

definition nth_next_id :: "nat \<Rightarrow> u64 \<Rightarrow> u64" where
  "nth_next_id k n = ((snd \<circ> allocate_command_id) ^^ k) n"

lemma nth_next_id_unat:
  assumes "n \<noteq> 0"
  shows "unat (nth_next_id k n) = (unat n - 1 + k) mod (2 ^ 64 - 1) + 1"
proof (induction k)
  case 0
  have "unat n < 2 ^ 64" "0 < unat n" using assms unat_less_64 [of n] by (simp_all add: unat_gt_0)
  then show ?case by (simp add: nth_next_id_def)
next
  case (Suc k)
  then have "nth_next_id k n \<noteq> 0" by auto
  from command_id_step [OF this] Suc show ?case
    by (simp add: nth_next_id_def mod_Suc_eq)
qed

lemma nth_next_id_nonzero: "n \<noteq> 0 \<Longrightarrow> nth_next_id k n \<noteq> 0"
  using nth_next_id_unat [of n k] by auto

section \<open>Properties\<close>

text \<open>C4: the storage client's slots are a pool. Whatever sequence of allocations (on any queue or on a given one) and
  releases is served, and whichever of them fail in the runtime, the replies are those of a set of
  held slots: a slot is granted only when nobody holds it and only on the queue that was asked for, released only
  when it is held, and a refusal changes nothing.\<close>

theorem slot_allocator_refines_pool:
  assumes "slots_wf c" and "serve_requests (allocate_any acl rt t) (release_slot acl rt) requests (c, w) = (replies, (c', w'))"
  shows "pool_run (client_slot_ids c) nds_storage_slot_id_queue (client_held c) requests replies (client_held c') \<and> slots_wf c'"
  using client_pool.run_refines [of "(c, w)" acl rt t requests replies "(c', w')"] assms by simp

theorem slot_allocator_refines_pool_witness:
  "slots_wf sample_storage_client \<and> client_held sample_storage_client = {} \<and>
   (let (replies, (c', w')) = serve_requests (allocate_any sample_storage_acl sample_runtime sample_storage_transport)
          (release_slot sample_storage_acl sample_runtime) [Allocate None, Allocate (Some 0), Release 0, Release 0]
          (sample_storage_client, 0)
    in pool_run (client_slot_ids sample_storage_client) nds_storage_slot_id_queue {}
         [Allocate None, Allocate (Some 0), Release 0, Release 0] replies (client_held c'))"
proof -
  have wf: "slots_wf sample_storage_client" "client_held sample_storage_client = {}"
    using storage_client_open_wf [OF sample_storage_opens]
    by (simp_all add: storage_client_wf_def client_held_def empty_storage_client_def)
  then show ?thesis
    using slot_allocator_refines_pool [OF wf(1), of sample_storage_acl sample_runtime sample_storage_transport
        "[Allocate None, Allocate (Some 0), Release 0, Release 0]" 0]
    by (simp only: Let_def split: prod.split) blast
qed

text \<open>\<open>allocate_slot\<close> of an open client reports that all slots are in flight exactly when every slot is held.\<close>

theorem allocate_slot_exhausted_iff:
  assumes "slots_wf c" and "stc_opened c" and "stc_transport c"
  shows "fst (allocate_slot acl rt (c, w)) = Inl kTransport \<longleftrightarrow> client_held c = client_slot_ids c"
proof -
  have "client_held c = client_slot_ids c \<longleftrightarrow> held_indices c = {..<length (stc_slots c)}"
    unfolding client_held_def client_slot_ids_def
    by (rule inj_on_image_eq_iff [OF slot_id_at_inj [OF assms(1)]]) (auto simp: held_indices_def)
  also have "\<dots> \<longleftrightarrow> find_slot c (\<lambda>_. True) = None"
    using find_slot_none [OF _ assms(1), of "\<lambda>_. True"] find_slot_some [OF _ assms(1), of "\<lambda>_. True"]
    by (cases "find_slot c (\<lambda>_. True)") (auto simp: held_indices_def)
  also have "\<dots> \<longleftrightarrow> fst (allocate_slot acl rt (c, w)) = Inl kTransport"
    using assms(2,3)
    by (cases "find_slot c (\<lambda>_. True)")
      (auto simp: allocate_slot_def clear_state_def store_state_def copy_host_to_device_def Let_def
        split: prod.splits sum.splits if_splits)
  finally show ?thesis ..
qed

theorem allocate_slot_exhausted_iff_witness:
  "fst (allocate_slot sample_storage_acl sample_runtime (sample_storage_client, 0)) = Inl kTransport \<longleftrightarrow>
     client_held sample_storage_client = client_slot_ids sample_storage_client"
proof (rule allocate_slot_exhausted_iff)
  show "slots_wf sample_storage_client" "stc_opened sample_storage_client" "stc_transport sample_storage_client"
    using storage_client_open_wf [OF sample_storage_opens]
    by (simp_all add: storage_client_wf_def empty_storage_client_def)
qed

text \<open>C35: command identifiers are never zero, which the wire protocol forbids, and the first \<open>2 ^ 64 - 1\<close>
  identifiers that a client allocates are distinct, also when the counter wraps around.\<close>

theorem command_ids_distinct:
  assumes "n \<noteq> 0" and "j < k" and "k < 2 ^ 64 - 1"
  shows "fst (allocate_command_id (nth_next_id j n)) \<noteq> 0
    \<and> fst (allocate_command_id (nth_next_id j n)) \<noteq> fst (allocate_command_id (nth_next_id k n))"
proof -
  have "(unat n - 1 + j) mod (2 ^ 64 - 1) \<noteq> (unat n - 1 + k) mod (2 ^ 64 - 1)"
  proof
    assume "(unat n - 1 + j) mod (2 ^ 64 - 1) = (unat n - 1 + k) mod (2 ^ 64 - 1)"
    then have "(2 ^ 64 - 1) dvd (unat n - 1 + k - (unat n - 1 + j))"
      using assms(2) by (metis add_le_cancel_left less_imp_le mod_eq_dvd_iff_nat)
    then show False using assms(2,3) by (auto dest!: dvd_imp_le)
  qed
  then have "nth_next_id j n \<noteq> nth_next_id k n"
    using nth_next_id_unat [OF assms(1)] by (metis add_right_cancel)
  then show ?thesis
    using nth_next_id_nonzero [OF assms(1)] by (simp add: allocate_command_id_nonzero)
qed

theorem command_ids_distinct_witness:
  "fst (allocate_command_id (nth_next_id 0 (- 1))) \<noteq> 0
   \<and> fst (allocate_command_id (nth_next_id 0 (- 1))) \<noteq> fst (allocate_command_id (nth_next_id 1 (- 1)))"
  using command_ids_distinct [of "- 1" 0 1] by simp

text \<open>
  C36: \<open>complete_bootstrap\<close> always returns when sleeping advances the clock; when it succeeds,
  the capacity it stores is not zero, in the object and in the descriptor for the device alike.
\<close>

theorem complete_bootstrap_returns:
  assumes "client_clock acl clock"
  shows "\<exists>r c' w'. complete_bootstrap acl rt timeout_ms (c, w) = Some (r, (c', w')) \<and>
    (case r of
       Inl _ \<Rightarrow> c' = c
     | Inr _ \<Rightarrow> stc_capacity c' \<noteq> 0 \<and> sd_capacity (stc_storage_descriptor c') = stc_capacity c')"
proof -
  obtain now w1 where n: "client_now acl w = (now, w1)" by fastforce
  obtain r w2 where r: "observe_until acl rt c (now + unat timeout_ms * 1000000) w1 = Some (r, w2)" "\<forall>n. r = Inr n \<longrightarrow> n \<noteq> 0"
    using observe_until_returns [OF assms] by blast
  then show ?thesis
    by (cases r) (auto simp: complete_bootstrap_def observe_namespace_def n)
qed

text \<open>A world that is a clock: it counts the milliseconds slept.\<close>

definition ticking_acl :: "nat cann" where
  "ticking_acl = sample_acl\<lparr>client_now := (\<lambda>w. (w * 1000000, w)), sleep_for_ms := (\<lambda>n w. w + n)\<rparr>"

theorem complete_bootstrap_returns_witness:
  "\<exists>r c' w'. complete_bootstrap ticking_acl sample_runtime 5000 (sample_storage_client, 0) = Some (r, (c', w')) \<and>
    (case r of
       Inl _ \<Rightarrow> c' = sample_storage_client
     | Inr _ \<Rightarrow> stc_capacity c' \<noteq> 0 \<and> sd_capacity (stc_storage_descriptor c') = stc_capacity c')"
  by (rule complete_bootstrap_returns [of _ id])
    (simp add: client_clock_def ticking_acl_def sample_acl_def)

end
