(* ===== verification/Launcher.thy ===== *)
theory Launcher
  imports Device_Abi
begin

text \<open>
  The common host interface of the three backends, \<^verbatim>\<open>src/src/client/backends/launcher.cc\<close> and
  \<^verbatim>\<open>launcher.hh\<close>. An object of a class derived from \<open>Launcher\<close> is the record of its virtual methods, on a
  state that the backend chooses; a method may run forever, so it is a partial computation. A
  configured view is a launcher, or null, with a launch configuration.
\<close>

section \<open>Launchers\<close>

record LaunchConfig =
  lc_block_dim :: u32
  lc_l2ctrl :: u64
  lc_stream :: u64
  lc_kernel_config :: u64
  lc_flags :: u32
  lc_sync :: bool
  lc_sync_timeout_ms :: i32

definition default_launch_config :: LaunchConfig where
  "default_launch_config = \<lparr>lc_block_dim = 1, lc_l2ctrl = 0, lc_stream = 0, lc_kernel_config = 0, lc_flags = 0,
     lc_sync = True, lc_sync_timeout_ms = 5000\<rparr>"

record PostSendBatchResult =
  pb_posted :: nat
  pb_status :: i32

text \<open>\<open>poll_cq\<close> is told whether the output pointer is set and returns the entries written with their number.\<close>

record 's LauncherOps =
  post_send_with_config :: "LaunchConfig \<Rightarrow> NdsQpDescriptor \<Rightarrow> NdsSendWr \<Rightarrow> ('s, unit) pcomp"
  post_send_batch_with_config :: "LaunchConfig \<Rightarrow> NdsQpDescriptor \<Rightarrow> NdsSendWr list \<Rightarrow> ('s, PostSendBatchResult) pcomp"
  post_recv_with_config :: "LaunchConfig \<Rightarrow> NdsQpDescriptor \<Rightarrow> NdsRecvWr \<Rightarrow> ('s, unit) pcomp"
  poll_cq_with_config :: "LaunchConfig \<Rightarrow> NdsQpDescriptor \<Rightarrow> bool \<Rightarrow> u32 \<Rightarrow> bool \<Rightarrow> ('s, u32 \<times> NdsWc list) pcomp"
  rdma_send_with_config :: "LaunchConfig \<Rightarrow> NdsTransportDescriptor \<Rightarrow> u32 \<Rightarrow> NdsSendWr \<Rightarrow> ('s, unit) pcomp"
  rdma_recv_with_config :: "LaunchConfig \<Rightarrow> NdsTransportDescriptor \<Rightarrow> u32 \<Rightarrow> NdsRecvWr \<Rightarrow> ('s, unit) pcomp"
  rdma_read_with_config :: "LaunchConfig \<Rightarrow> NdsTransportDescriptor \<Rightarrow> u32 \<Rightarrow> NdsSendWr \<Rightarrow> ('s, unit) pcomp"
  rdma_write_with_config :: "LaunchConfig \<Rightarrow> NdsTransportDescriptor \<Rightarrow> u32 \<Rightarrow> NdsSendWr \<Rightarrow> ('s, unit) pcomp"
  rdma_send_batch_with_config :: "LaunchConfig \<Rightarrow> NdsTransportDescriptor \<Rightarrow> u32 \<Rightarrow> NdsSendWr list \<Rightarrow> ('s, PostSendBatchResult) pcomp"
  storage_bootstrap_with_config :: "LaunchConfig \<Rightarrow> NdsStorageBootstrapDescriptor \<Rightarrow> ('s, unit) pcomp"
  storage_read_with_config :: "LaunchConfig \<Rightarrow> NdsStorageDescriptor \<Rightarrow> u32 \<Rightarrow> u64 \<Rightarrow> u64 \<Rightarrow> u32 \<Rightarrow> u32 \<Rightarrow> ('s, unit) pcomp"
  storage_write_with_config :: "LaunchConfig \<Rightarrow> NdsStorageDescriptor \<Rightarrow> u32 \<Rightarrow> u64 \<Rightarrow> u64 \<Rightarrow> u32 \<Rightarrow> u32 \<Rightarrow> ('s, unit) pcomp"
  storage_read_batch_with_config :: "LaunchConfig \<Rightarrow> NdsStorageDescriptor \<Rightarrow> u32 \<Rightarrow> u64 \<Rightarrow> u32 \<Rightarrow> u32 \<Rightarrow> ('s, unit) pcomp"
  storage_write_batch_with_config :: "LaunchConfig \<Rightarrow> NdsStorageDescriptor \<Rightarrow> u32 \<Rightarrow> u64 \<Rightarrow> u32 \<Rightarrow> u32 \<Rightarrow> ('s, unit) pcomp"
  storage_wait_with_config :: "LaunchConfig \<Rightarrow> NdsStorageDescriptor \<Rightarrow> u32 \<Rightarrow> ('s, unit) pcomp"

text \<open>The two methods the base class defines, for backends without batches.\<close>

definition launcher_post_send_batch_with_config :: "LaunchConfig \<Rightarrow> NdsQpDescriptor \<Rightarrow> NdsSendWr list \<Rightarrow> ('s, PostSendBatchResult) pcomp" where
  "launcher_post_send_batch_with_config config qp wrs = pfail kUnsupported"

definition launcher_rdma_send_batch_with_config :: "LaunchConfig \<Rightarrow> NdsTransportDescriptor \<Rightarrow> u32 \<Rightarrow> NdsSendWr list \<Rightarrow>
    ('s, PostSendBatchResult) pcomp" where
  "launcher_rdma_send_batch_with_config config transport queue_index wrs = pfail kUnsupported"

definition launcher_post_send :: "'s LauncherOps \<Rightarrow> NdsQpDescriptor \<Rightarrow> NdsSendWr \<Rightarrow> ('s, unit) pcomp" where
  "launcher_post_send l qp wr = post_send_with_config l default_launch_config qp wr"

definition launcher_post_send_batch :: "'s LauncherOps \<Rightarrow> NdsQpDescriptor \<Rightarrow> NdsSendWr list \<Rightarrow> ('s, PostSendBatchResult) pcomp" where
  "launcher_post_send_batch l qp wrs = post_send_batch_with_config l default_launch_config qp wrs"

definition launcher_post_recv :: "'s LauncherOps \<Rightarrow> NdsQpDescriptor \<Rightarrow> NdsRecvWr \<Rightarrow> ('s, unit) pcomp" where
  "launcher_post_recv l qp wr = post_recv_with_config l default_launch_config qp wr"

definition launcher_poll_cq :: "'s LauncherOps \<Rightarrow> NdsQpDescriptor \<Rightarrow> bool \<Rightarrow> u32 \<Rightarrow> bool \<Rightarrow> ('s, u32 \<times> NdsWc list) pcomp" where
  "launcher_poll_cq l qp send_cq max_completions completions =
     poll_cq_with_config l default_launch_config qp send_cq max_completions completions"

definition launcher_rdma_send :: "'s LauncherOps \<Rightarrow> LaunchConfig \<Rightarrow> NdsTransportDescriptor \<Rightarrow> u32 \<Rightarrow> NdsSendWr \<Rightarrow> ('s, unit) pcomp" where
  "launcher_rdma_send l config transport queue_index wr = rdma_send_with_config l config transport queue_index wr"

definition launcher_rdma_recv :: "'s LauncherOps \<Rightarrow> LaunchConfig \<Rightarrow> NdsTransportDescriptor \<Rightarrow> u32 \<Rightarrow> NdsRecvWr \<Rightarrow> ('s, unit) pcomp" where
  "launcher_rdma_recv l config transport queue_index wr = rdma_recv_with_config l config transport queue_index wr"

definition launcher_rdma_read :: "'s LauncherOps \<Rightarrow> LaunchConfig \<Rightarrow> NdsTransportDescriptor \<Rightarrow> u32 \<Rightarrow> NdsSendWr \<Rightarrow> ('s, unit) pcomp" where
  "launcher_rdma_read l config transport queue_index wr = rdma_read_with_config l config transport queue_index wr"

definition launcher_rdma_write :: "'s LauncherOps \<Rightarrow> LaunchConfig \<Rightarrow> NdsTransportDescriptor \<Rightarrow> u32 \<Rightarrow> NdsSendWr \<Rightarrow> ('s, unit) pcomp" where
  "launcher_rdma_write l config transport queue_index wr = rdma_write_with_config l config transport queue_index wr"

definition launcher_rdma_send_batch :: "'s LauncherOps \<Rightarrow> LaunchConfig \<Rightarrow> NdsTransportDescriptor \<Rightarrow> u32 \<Rightarrow> NdsSendWr list \<Rightarrow>
    ('s, PostSendBatchResult) pcomp" where
  "launcher_rdma_send_batch l config transport queue_index wrs = rdma_send_batch_with_config l config transport queue_index wrs"

definition launcher_storage_bootstrap :: "'s LauncherOps \<Rightarrow> LaunchConfig \<Rightarrow> NdsStorageBootstrapDescriptor \<Rightarrow> ('s, unit) pcomp" where
  "launcher_storage_bootstrap l config bootstrap = storage_bootstrap_with_config l config bootstrap"

definition launcher_storage_read :: "'s LauncherOps \<Rightarrow> LaunchConfig \<Rightarrow> NdsStorageDescriptor \<Rightarrow> u32 \<Rightarrow> u64 \<Rightarrow> u64 \<Rightarrow> u32 \<Rightarrow> u32 \<Rightarrow>
    ('s, unit) pcomp" where
  "launcher_storage_read l config storage slot_id server_offset buffer_address buffer_key len =
     storage_read_with_config l config storage slot_id server_offset buffer_address buffer_key len"

definition launcher_storage_write :: "'s LauncherOps \<Rightarrow> LaunchConfig \<Rightarrow> NdsStorageDescriptor \<Rightarrow> u32 \<Rightarrow> u64 \<Rightarrow> u64 \<Rightarrow> u32 \<Rightarrow> u32 \<Rightarrow>
    ('s, unit) pcomp" where
  "launcher_storage_write l config storage slot_id server_offset buffer_address buffer_key len =
     storage_write_with_config l config storage slot_id server_offset buffer_address buffer_key len"

definition launcher_storage_read_batch :: "'s LauncherOps \<Rightarrow> LaunchConfig \<Rightarrow> NdsStorageDescriptor \<Rightarrow> u32 \<Rightarrow> u64 \<Rightarrow> u32 \<Rightarrow> u32 \<Rightarrow>
    ('s, unit) pcomp" where
  "launcher_storage_read_batch l config storage slot_id entries_address entries_key entry_count =
     storage_read_batch_with_config l config storage slot_id entries_address entries_key entry_count"

definition launcher_storage_write_batch :: "'s LauncherOps \<Rightarrow> LaunchConfig \<Rightarrow> NdsStorageDescriptor \<Rightarrow> u32 \<Rightarrow> u64 \<Rightarrow> u32 \<Rightarrow> u32 \<Rightarrow>
    ('s, unit) pcomp" where
  "launcher_storage_write_batch l config storage slot_id entries_address entries_key entry_count =
     storage_write_batch_with_config l config storage slot_id entries_address entries_key entry_count"

definition launcher_storage_wait :: "'s LauncherOps \<Rightarrow> LaunchConfig \<Rightarrow> NdsStorageDescriptor \<Rightarrow> u32 \<Rightarrow> ('s, unit) pcomp" where
  "launcher_storage_wait l config storage slot_id = storage_wait_with_config l config storage slot_id"

section \<open>Configured views\<close>

record 's ConfiguredLauncherView =
  clv_launcher :: "'s LauncherOps option"
  clv_config :: LaunchConfig

definition with_config :: "'s LauncherOps \<Rightarrow> LaunchConfig \<Rightarrow> 's ConfiguredLauncherView" where
  "with_config l config = \<lparr>clv_launcher = Some l, clv_config = config\<rparr>"

text \<open>The two guards of the methods; the four storage submissions have only the first.\<close>

definition when_launcher :: "'s ConfiguredLauncherView \<Rightarrow> ('s LauncherOps \<Rightarrow> LaunchConfig \<Rightarrow> ('s, 'a) pcomp) \<Rightarrow> ('s, 'a) pcomp" where
  "when_launcher v f = (case clv_launcher v of None \<Rightarrow> pfail kInvalidArgument | Some l \<Rightarrow> f l (clv_config v))"

definition when_sync :: "'s ConfiguredLauncherView \<Rightarrow> ('s LauncherOps \<Rightarrow> LaunchConfig \<Rightarrow> ('s, 'a) pcomp) \<Rightarrow> ('s, 'a) pcomp" where
  "when_sync v f = when_launcher v (\<lambda>l config. if \<not> lc_sync config then pfail kInvalidArgument else f l config)"

definition view_post_send :: "'s ConfiguredLauncherView \<Rightarrow> NdsQpDescriptor \<Rightarrow> NdsSendWr \<Rightarrow> ('s, unit) pcomp" where
  "view_post_send v qp wr = when_sync v (\<lambda>l config. post_send_with_config l config qp wr)"

definition view_post_send_batch :: "'s ConfiguredLauncherView \<Rightarrow> NdsQpDescriptor \<Rightarrow> NdsSendWr list \<Rightarrow> ('s, PostSendBatchResult) pcomp" where
  "view_post_send_batch v qp wrs = when_sync v (\<lambda>l config. post_send_batch_with_config l config qp wrs)"

definition view_post_recv :: "'s ConfiguredLauncherView \<Rightarrow> NdsQpDescriptor \<Rightarrow> NdsRecvWr \<Rightarrow> ('s, unit) pcomp" where
  "view_post_recv v qp wr = when_sync v (\<lambda>l config. post_recv_with_config l config qp wr)"

definition view_poll_cq :: "'s ConfiguredLauncherView \<Rightarrow> NdsQpDescriptor \<Rightarrow> bool \<Rightarrow> u32 \<Rightarrow> bool \<Rightarrow> ('s, u32 \<times> NdsWc list) pcomp" where
  "view_poll_cq v qp send_cq max_completions completions =
     when_sync v (\<lambda>l config. poll_cq_with_config l config qp send_cq max_completions completions)"

definition view_rdma_send :: "'s ConfiguredLauncherView \<Rightarrow> NdsTransportDescriptor \<Rightarrow> u32 \<Rightarrow> NdsSendWr \<Rightarrow> ('s, unit) pcomp" where
  "view_rdma_send v transport queue_index wr = when_sync v (\<lambda>l config. rdma_send_with_config l config transport queue_index wr)"

definition view_rdma_recv :: "'s ConfiguredLauncherView \<Rightarrow> NdsTransportDescriptor \<Rightarrow> u32 \<Rightarrow> NdsRecvWr \<Rightarrow> ('s, unit) pcomp" where
  "view_rdma_recv v transport queue_index wr = when_sync v (\<lambda>l config. rdma_recv_with_config l config transport queue_index wr)"

definition view_rdma_read :: "'s ConfiguredLauncherView \<Rightarrow> NdsTransportDescriptor \<Rightarrow> u32 \<Rightarrow> NdsSendWr \<Rightarrow> ('s, unit) pcomp" where
  "view_rdma_read v transport queue_index wr = when_sync v (\<lambda>l config. rdma_read_with_config l config transport queue_index wr)"

definition view_rdma_write :: "'s ConfiguredLauncherView \<Rightarrow> NdsTransportDescriptor \<Rightarrow> u32 \<Rightarrow> NdsSendWr \<Rightarrow> ('s, unit) pcomp" where
  "view_rdma_write v transport queue_index wr = when_sync v (\<lambda>l config. rdma_write_with_config l config transport queue_index wr)"

definition view_rdma_send_batch :: "'s ConfiguredLauncherView \<Rightarrow> NdsTransportDescriptor \<Rightarrow> u32 \<Rightarrow> NdsSendWr list \<Rightarrow>
    ('s, PostSendBatchResult) pcomp" where
  "view_rdma_send_batch v transport queue_index wrs =
     when_sync v (\<lambda>l config. rdma_send_batch_with_config l config transport queue_index wrs)"

definition view_storage_bootstrap :: "'s ConfiguredLauncherView \<Rightarrow> NdsStorageBootstrapDescriptor \<Rightarrow> ('s, unit) pcomp" where
  "view_storage_bootstrap v bootstrap = when_sync v (\<lambda>l config. storage_bootstrap_with_config l config bootstrap)"

definition view_storage_read :: "'s ConfiguredLauncherView \<Rightarrow> NdsStorageDescriptor \<Rightarrow> u32 \<Rightarrow> u64 \<Rightarrow> u64 \<Rightarrow> u32 \<Rightarrow> u32 \<Rightarrow> ('s, unit) pcomp" where
  "view_storage_read v storage slot_id server_offset buffer_address buffer_key len =
     when_launcher v (\<lambda>l config. storage_read_with_config l config storage slot_id server_offset buffer_address buffer_key len)"

definition view_storage_write :: "'s ConfiguredLauncherView \<Rightarrow> NdsStorageDescriptor \<Rightarrow> u32 \<Rightarrow> u64 \<Rightarrow> u64 \<Rightarrow> u32 \<Rightarrow> u32 \<Rightarrow> ('s, unit) pcomp" where
  "view_storage_write v storage slot_id server_offset buffer_address buffer_key len =
     when_launcher v (\<lambda>l config. storage_write_with_config l config storage slot_id server_offset buffer_address buffer_key len)"

definition view_storage_read_batch :: "'s ConfiguredLauncherView \<Rightarrow> NdsStorageDescriptor \<Rightarrow> u32 \<Rightarrow> u64 \<Rightarrow> u32 \<Rightarrow> u32 \<Rightarrow> ('s, unit) pcomp" where
  "view_storage_read_batch v storage slot_id entries_address entries_key entry_count =
     when_launcher v (\<lambda>l config. storage_read_batch_with_config l config storage slot_id entries_address entries_key entry_count)"

definition view_storage_write_batch :: "'s ConfiguredLauncherView \<Rightarrow> NdsStorageDescriptor \<Rightarrow> u32 \<Rightarrow> u64 \<Rightarrow> u32 \<Rightarrow> u32 \<Rightarrow> ('s, unit) pcomp" where
  "view_storage_write_batch v storage slot_id entries_address entries_key entry_count =
     when_launcher v (\<lambda>l config. storage_write_batch_with_config l config storage slot_id entries_address entries_key entry_count)"

definition view_storage_wait :: "'s ConfiguredLauncherView \<Rightarrow> NdsStorageDescriptor \<Rightarrow> u32 \<Rightarrow> ('s, unit) pcomp" where
  "view_storage_wait v storage slot_id = when_sync v (\<lambda>l config. storage_wait_with_config l config storage slot_id)"

section \<open>Argument records\<close>

text \<open>The argument records that every backend builds for its storage calls; what they say of the return value is left to the backends.\<close>

definition storage_operation_args :: "NdsStorageDescriptor \<Rightarrow> u32 \<Rightarrow> u64 \<Rightarrow> u64 \<Rightarrow> u32 \<Rightarrow> u32 \<Rightarrow> NdsStorageOperationArgs" where
  "storage_operation_args storage slot_id server_offset buffer_address buffer_key len =
     \<lparr>oa_storage = storage,
      oa_operation = \<lparr>so_slot_id = slot_id, so_reserved = 0, so_server_offset = server_offset,
        so_buffer_address = buffer_address, so_buffer_key = buffer_key, so_length = len\<rparr>\<rparr>"

definition storage_batch_args :: "NdsStorageDescriptor \<Rightarrow> u32 \<Rightarrow> u64 \<Rightarrow> u32 \<Rightarrow> u32 \<Rightarrow> NdsStorageBatchOperationArgs" where
  "storage_batch_args storage slot_id entries_address entries_key entry_count =
     \<lparr>ba_storage = storage,
      ba_operation = \<lparr>sb_slot_id = slot_id, sb_entry_count = entry_count, sb_entries_address = entries_address,
        sb_entries_key = entries_key, sb_reserved = 0\<rparr>\<rparr>"

end
