(* ===== verification/Shared_Library.thy ===== *)
theory Shared_Library
  imports Prelude
begin

text \<open>
  The dynamic loader, \<^verbatim>\<open>src/src/client/loaders/\<close>: the class \<open>SharedLibrary\<close> and the three libraries that are
  opened with it. The functions of \<^verbatim>\<open><dlfcn.h>\<close> are the fields of the parameter record \<open>dl\<close>. A library is its
  handle, 0 when it holds none; a resolved symbol is an address. A local object of the sources is destroyed
  on every early return, which the model writes out with \<open>library_scope\<close>.
\<close>

section \<open>Shared libraries\<close>

record 'w dl =
  dlopen :: "string \<Rightarrow> 'w \<Rightarrow> u64 \<times> 'w"
  dlclose :: "u64 \<Rightarrow> 'w \<Rightarrow> int \<times> 'w"
  dlsym :: "u64 \<Rightarrow> string \<Rightarrow> 'w \<Rightarrow> u64 \<times> 'w"
  dlerror :: "'w \<Rightarrow> string option \<times> 'w"

record SharedLibrary =
  shl_handle :: u64

definition library_open :: "'w dl \<Rightarrow> string \<Rightarrow> ('w, SharedLibrary) comp" where
  "library_open ld path w =
     (if path = [] then (Inl kInvalidArgument, w)
      else case dlopen ld path w of
        (handle, w) \<Rightarrow>
          if handle = 0 then (case dlerror ld w of (_, w) \<Rightarrow> (Inl kRuntime, w)) else (Inr \<lparr>shl_handle = handle\<rparr>, w))"

definition library_close :: "'w dl \<Rightarrow> SharedLibrary \<Rightarrow> 'w \<Rightarrow> SharedLibrary \<times> 'w" where
  "library_close ld l w =
     (let w = (if shl_handle l \<noteq> 0 then snd (dlclose ld (shl_handle l) w) else w) in (l\<lparr>shl_handle := 0\<rparr>, w))"

text \<open>The new object and what is left in the old one; an assignment is from another object.\<close>

definition library_move :: "SharedLibrary \<Rightarrow> SharedLibrary \<times> SharedLibrary" where
  "library_move other = (\<lparr>shl_handle = shl_handle other\<rparr>, other\<lparr>shl_handle := 0\<rparr>)"

definition library_move_assign :: "'w dl \<Rightarrow> SharedLibrary \<Rightarrow> SharedLibrary \<Rightarrow> 'w \<Rightarrow> (SharedLibrary \<times> SharedLibrary) \<times> 'w" where
  "library_move_assign ld self other w = (library_move other, snd (library_close ld self w))"

definition library_release :: "SharedLibrary \<Rightarrow> u64 \<times> SharedLibrary" where
  "library_release l = (shl_handle l, l\<lparr>shl_handle := 0\<rparr>)"

definition library_resolve :: "'w dl \<Rightarrow> SharedLibrary \<Rightarrow> string option \<Rightarrow> ('w, u64) comp" where
  "library_resolve ld l name w =
     (case name of
        None \<Rightarrow> (Inl kInvalidArgument, w)
      | Some n \<Rightarrow>
          if shl_handle l = 0 then (Inl kInvalidArgument, w)
          else case dlerror ld w of
            (_, w) \<Rightarrow>
              (case dlsym ld (shl_handle l) n w of
                 (symbol, w) \<Rightarrow>
                   (case dlerror ld w of
                      (loader_error, w) \<Rightarrow>
                        if loader_error \<noteq> None \<or> symbol = 0 then (Inl kRuntime, w) else (Inr symbol, w))))"

definition resolve_optional_symbol :: "'w dl \<Rightarrow> SharedLibrary \<Rightarrow> string option \<Rightarrow> 'w \<Rightarrow> u64 \<times> 'w" where
  "resolve_optional_symbol ld l name w =
     (case name of
        None \<Rightarrow> (0, w)
      | Some n \<Rightarrow>
          if shl_handle l = 0 then (0, w)
          else case dlerror ld w of
            (_, w) \<Rightarrow>
              (case dlsym ld (shl_handle l) n w of
                 (symbol, w) \<Rightarrow>
                   (case dlerror ld w of (loader_error, w) \<Rightarrow> (if loader_error = None then symbol else 0, w))))"

definition resolve_required :: "'w dl \<Rightarrow> SharedLibrary \<Rightarrow> string option \<Rightarrow> ('w, u64) comp" where
  "resolve_required ld l name = rbind (library_resolve ld l name) (\<lambda>symbol. rret symbol)"

text \<open>The overloads that store through a pointer; \<open>destination\<close> says whether it is set, the value is what is stored.\<close>

definition resolve_required_to :: "'w dl \<Rightarrow> SharedLibrary \<Rightarrow> string option \<Rightarrow> bool \<Rightarrow> ('w, u64) comp" where
  "resolve_required_to ld l name destination =
     (if \<not> destination then rfail kInvalidArgument else rbind (resolve_required ld l name) (\<lambda>function. rret function))"

definition resolve_optional :: "'w dl \<Rightarrow> SharedLibrary \<Rightarrow> string option \<Rightarrow> 'w \<Rightarrow> u64 \<times> 'w" where
  "resolve_optional ld l name w = (case resolve_optional_symbol ld l name w of (symbol, w) \<Rightarrow> (if symbol \<noteq> 0 then symbol else 0, w))"

definition resolve_optional_to :: "'w dl \<Rightarrow> SharedLibrary \<Rightarrow> string option \<Rightarrow> bool \<Rightarrow> 'w \<Rightarrow> (bool \<times> u64 option) \<times> 'w" where
  "resolve_optional_to ld l name destination w =
     (if \<not> destination then ((False, None), w)
      else case resolve_optional ld l name w of (function, w) \<Rightarrow> ((function \<noteq> 0, Some function), w))"

text \<open>The end of a scope: an early return destroys the library, success hands it on.\<close>

definition library_scope :: "'w dl \<Rightarrow> SharedLibrary \<Rightarrow> ('w, 'a) comp \<Rightarrow> ('w, 'a) comp" where
  "library_scope ld l body w =
     (case body w of (Inl err, w) \<Rightarrow> (Inl err, snd (library_close ld l w)) | (Inr x, w) \<Rightarrow> (Inr x, w))"

section \<open>The opened libraries\<close>

text \<open>
  A class of resolved functions is its library with the address of every function, in the order in which
  \<open>open\<close> resolves them.
\<close>

record Loaded =
  ld_library :: SharedLibrary
  ld_required :: "u64 list"
  ld_optional :: "u64 list"

fun resolve_optionals :: "'w dl \<Rightarrow> SharedLibrary \<Rightarrow> string list \<Rightarrow> 'w \<Rightarrow> u64 list \<times> 'w" where
  "resolve_optionals ld l [] w = ([], w)"
| "resolve_optionals ld l (n # ns) w =
     (case resolve_optional_to ld l (Some n) True w of
        ((_, stored), w) \<Rightarrow> (case resolve_optionals ld l ns w of (fs, w) \<Rightarrow> (the stored # fs, w)))"

definition open_with :: "string list \<Rightarrow> string list \<Rightarrow> 'w dl \<Rightarrow> string \<Rightarrow> ('w, Loaded) comp" where
  "open_with required optional ld library_path =
     rbind (library_open ld library_path) (\<lambda>library. library_scope ld library
       (rbind (rcollect required (\<lambda>name. resolve_required_to ld library (Some name) True)) (\<lambda>functions w.
         case resolve_optionals ld library optional w of
           (optionals, w) \<Rightarrow>
             (Inr \<lparr>ld_library = fst (library_move library), ld_required = functions, ld_optional = optionals\<rparr>, w))))"

definition libra_required :: "string list" where
  "libra_required =
     [''RaInit'', ''RaDeinit'', ''RaRdevInit'', ''RaRdevInitV2'', ''RaRdevDeinit'', ''RaRdevGetPortStatus'',
      ''RaRdevGetSupportLite'', ''RaQpCreate'', ''RaQpConnectAsync'', ''RaTypicalQpCreate'', ''RaTypicalQpModify'',
      ''RaQpDestroy'', ''RaGetQpAttr'', ''RaGetQpStatus'', ''RaRdevGetCqeErrInfoList'', ''RaRegisterMr'',
      ''RaDeregisterMr'', ''RaTypicalSendWr'', ''RaRecvWrlist'', ''RaPollCq'', ''RaGetIfnum'', ''RaGetIfaddrs'']"

definition libra_optional :: "string list" where
  "libra_optional = [''RaAiQpCreate'', ''RaSetQpAttrQos'', ''RaSetQpAttrTimeout'', ''RaSetQpAttrRetryCnt'']"

definition Libra_open :: "'w dl \<Rightarrow> string \<Rightarrow> ('w, Loaded) comp" where
  "Libra_open = open_with libra_required libra_optional"

definition Libruntime_open :: "'w dl \<Rightarrow> string \<Rightarrow> ('w, Loaded) comp" where
  "Libruntime_open = open_with [''rtSetDevice'', ''rtOpenNetService'', ''rtCloseNetService'', ''rtRDMADBSend''] []"

definition Libdsmi_open :: "'w dl \<Rightarrow> string \<Rightarrow> ('w, Loaded) comp" where
  "Libdsmi_open = open_with [''dsmi_get_device_ip_address''] []"

section \<open>Handles\<close>

text \<open>
  What the documentation of the loader says of handles, for an observation \<open>handles\<close> of the world: the open
  handles, with the number of times each was opened. Only a successful \<open>dlopen\<close> adds one and only \<open>dlclose\<close>
  takes one away.
\<close>

definition dl_laws :: "'w dl \<Rightarrow> ('w \<Rightarrow> u64 \<Rightarrow> nat) \<Rightarrow> bool" where
  "dl_laws ld handles \<longleftrightarrow>
     (\<forall>path w. case dlopen ld path w of
        (h, w') \<Rightarrow> handles w' = (if h = 0 then handles w else (handles w)(h := handles w h + 1))) \<and>
     (\<forall>h w. handles (snd (dlclose ld h w)) = (handles w)(h := handles w h - 1)) \<and>
     (\<forall>h n w. handles (snd (dlsym ld h n w)) = handles w) \<and>
     (\<forall>w. handles (snd (dlerror ld w)) = handles w)"

definition holds :: "SharedLibrary \<Rightarrow> (u64 \<Rightarrow> nat) \<Rightarrow> u64 \<Rightarrow> nat" where
  "holds l hs = (if shl_handle l = 0 then hs else hs(shl_handle l := hs (shl_handle l) + 1))"

text \<open>A computation that leaves the handles alone.\<close>

abbreviation neutral :: "('w \<Rightarrow> u64 \<Rightarrow> nat) \<Rightarrow> ('w, 'a) comp \<Rightarrow> bool" where
  "neutral handles m \<equiv> (\<forall>hs. keeps (\<lambda>w. handles w = hs) m)"

lemma neutralD: "neutral handles m \<Longrightarrow> m w = (r, w') \<Longrightarrow> handles w' = handles w"
  by (cases r) (auto simp: triple_def dest!: spec [of _ "handles w"] spec [of _ w])

lemma library_open_handles:
  assumes "dl_laws ld handles" and "library_open ld path w = (r, w')"
  shows "case r of Inl _ \<Rightarrow> handles w' = handles w | Inr l \<Rightarrow> shl_handle l \<noteq> 0 \<and> handles w' = holds l (handles w)"
proof -
  obtain h w1 where o: "dlopen ld path w = (h, w1)" by fastforce
  have "handles w1 = (if h = 0 then handles w else (handles w)(h := handles w h + 1))"
    using assms(1) o unfolding dl_laws_def by (metis (mono_tags, lifting) case_prod_conv)
  moreover have "handles (snd (dlerror ld w1)) = handles w1" using assms(1) by (simp add: dl_laws_def)
  ultimately show ?thesis
    using assms(2) o by (auto simp: library_open_def holds_def case_prod_beta split: if_splits)
qed

lemma library_close_handles:
  assumes "dl_laws ld handles" and "handles w = holds l hs"
  shows "handles (snd (library_close ld l w)) = hs"
  using assms by (auto simp: library_close_def dl_laws_def holds_def)

lemma symbol_lookup_handles:
  assumes "dl_laws ld handles" and "dlerror ld w = (e1, w1)" and "dlsym ld h n w1 = (symbol, w2)" and "dlerror ld w2 = (e2, w3)"
  shows "handles w3 = handles w"
proof -
  have s: "handles (snd (dlsym ld h n w)) = handles w" "handles (snd (dlerror ld w)) = handles w" for h n w
    using assms(1) by (simp_all add: dl_laws_def)
  from s(2) [of w] s(1) [of h n w1] s(2) [of w2] assms(2-4) show ?thesis by simp
qed

lemma library_resolve_handles:
  assumes "dl_laws ld handles"
  shows "handles (snd (library_resolve ld l name w)) = handles w"
  by (auto simp: library_resolve_def symbol_lookup_handles [OF assms] split: option.splits prod.splits)

lemma resolve_neutral:
  assumes "dl_laws ld handles"
  shows "neutral handles (resolve_required ld l name)" and "neutral handles (resolve_required_to ld l name d)"
    and "handles (snd (resolve_optional_to ld l name d w)) = handles w"
proof -
  have "neutral handles (library_resolve ld l name)"
    by (auto intro: keepsI simp: library_resolve_handles [OF assms])
  then show q: "neutral handles (resolve_required ld l name)"
    unfolding resolve_required_def by (auto intro!: keeps_bind triple_ret)
  then show "neutral handles (resolve_required_to ld l name d)"
    unfolding resolve_required_to_def by (cases d) (auto intro!: keeps_bind triple_ret triple_fail)
  show "handles (snd (resolve_optional_to ld l name d w)) = handles w"
    by (auto simp: resolve_optional_to_def resolve_optional_def resolve_optional_symbol_def symbol_lookup_handles [OF assms]
        split: option.splits prod.splits if_splits)
qed

lemma resolve_optionals_neutral:
  assumes "dl_laws ld handles"
  shows "handles (snd (resolve_optionals ld l ns w)) = handles w"
proof (induction ns arbitrary: w)
  case (Cons n ns)
  then show ?case using resolve_neutral(3) [OF assms, of l "Some n" True w]
    by (auto split: prod.splits) (metis snd_conv)
qed simp

text \<open>A scope: on success the library is handed on, on failure it is closed.\<close>

lemma library_scope_Inr: "library_scope ld l body w = (Inr x, w') \<longleftrightarrow> body w = (Inr x, w')"
  by (auto simp: library_scope_def split: prod.splits sum.splits)

lemma library_scope_handles:
  assumes "dl_laws ld handles" and "neutral handles body" and "handles w = holds l hs"
    and "library_scope ld l body w = (r, w')"
  shows "handles w' = (case r of Inl _ \<Rightarrow> hs | Inr _ \<Rightarrow> holds l hs)"
proof -
  obtain r1 w1 where b: "body w = (r1, w1)" by fastforce
  from neutralD [OF assms(2) b] assms(3) have h: "handles w1 = holds l hs" by simp
  from assms(4) b h library_close_handles [OF assms(1) h] show ?thesis
    by (cases r1) (auto simp: library_scope_def)
qed

lemma open_with_handles:
  assumes "dl_laws ld handles" and "open_with required optional ld path w = (r, w')"
  shows "case r of Inl _ \<Rightarrow> handles w' = handles w
    | Inr x \<Rightarrow> shl_handle (ld_library x) \<noteq> 0 \<and> handles w' = holds (ld_library x) (handles w)"
proof -
  obtain r1 w1 where o: "library_open ld path w = (r1, w1)" by fastforce
  note h = library_open_handles [OF assms(1) o]
  show ?thesis
  proof (cases r1)
    case (Inl e)
    with assms(2) o h show ?thesis by (auto simp: open_with_def rbind_def)
  next
    case (Inr l)
    let ?body = "rbind (rcollect required (\<lambda>name. resolve_required_to ld l (Some name) True)) (\<lambda>functions w.
         case resolve_optionals ld l optional w of
           (optionals, w) \<Rightarrow>
             (Inr \<lparr>ld_library = fst (library_move l), ld_required = functions, ld_optional = optionals\<rparr>, w))"
    from assms(2) o Inr have sc: "library_scope ld l ?body w1 = (r, w')" by (simp add: open_with_def rbind_def)
    have n: "neutral handles ?body"
    proof (rule allI, rule keeps_bind)
      show "keeps (\<lambda>w. handles w = hs) (rcollect required (\<lambda>name. resolve_required_to ld l (Some name) True))" for hs
        by (rule keeps_collect) (simp add: resolve_neutral(2) [OF assms(1)])
      show "keeps (\<lambda>w. handles w = hs) (\<lambda>w. case resolve_optionals ld l optional w of (optionals, w) \<Rightarrow>
          (Inr \<lparr>ld_library = fst (library_move l), ld_required = fs, ld_optional = optionals\<rparr>, w))" for hs fs
        by (rule keepsI) (simp add: case_prod_beta resolve_optionals_neutral [OF assms(1)])
    qed
    from h Inr have "handles w1 = holds l (handles w)" by simp
    from library_scope_handles [OF assms(1) n this sc]
    have f: "handles w' = (case r of Inl _ \<Rightarrow> handles w | Inr _ \<Rightarrow> holds l (handles w))" .
    have "ld_library x = l" if "r = Inr x" for x
      using sc that by (auto simp: library_scope_Inr rbind_eq_Inr_iff library_move_def case_prod_beta)
    with f h Inr show ?thesis by (auto split: sum.splits)
  qed
qed

lemma library_resolve_nonzero: "library_resolve ld l name w = (Inr a, w') \<Longrightarrow> a \<noteq> 0"
  by (auto simp: library_resolve_def split: option.splits if_splits prod.splits)

lemma resolve_required_nonzero:
  "resolve_required ld l name w = (Inr a, w') \<Longrightarrow> a \<noteq> 0"
  "resolve_required_to ld l name d w = (Inr a, w') \<Longrightarrow> a \<noteq> 0"
  using library_resolve_nonzero [of ld l name w a]
  by (auto simp: resolve_required_def resolve_required_to_def rbind_eq_Inr_iff split: if_splits)

lemma rcollect_all:
  assumes "rcollect xs body w = (Inr ys, w')" and "\<And>x w y w'. body x w = (Inr y, w') \<Longrightarrow> P y"
  shows "list_all P ys"
  using assms(1) by (induction xs arbitrary: w ys) (auto simp: rbind_eq_Inr_iff intro: assms(2))

lemma open_with_resolved:
  assumes "open_with required optional ld path w = (Inr x, w')"
  shows "length (ld_required x) = length required" and "list_all (\<lambda>a. a \<noteq> 0) (ld_required x)"
proof -
  from assms obtain l w1 fs w2 where c: "rcollect required (\<lambda>name. resolve_required_to ld l (Some name) True) w1 = (Inr fs, w2)"
    and "ld_required x = fs"
    by (auto simp: open_with_def rbind_eq_Inr_iff library_scope_Inr case_prod_beta)
  moreover have "list_all (\<lambda>a. a \<noteq> 0) fs" using c by (rule rcollect_all) (rule resolve_required_nonzero(2))
  ultimately show "length (ld_required x) = length required" and "list_all (\<lambda>a. a \<noteq> 0) (ld_required x)"
    using rcollect_length [OF c] by simp_all
qed

end
