(* ===== verification/Ra_Transport.thy ===== *)
theory Ra_Transport
  imports Client_Transport Send_Runs
begin

text \<open>
  The RA backend up to its transport layer: \<^verbatim>\<open>src/src/client/backends/ra/verbs.cc\<close> and
  \<^verbatim>\<open>transport.cc\<close>. This backend runs on the host and drives the queue pairs through the RA
  library, so its work is on host objects: the record \<open>RaHost\<close> holds them by address, 0 being
  the null pointer. The descriptors, which the other backends read in device memory, are the
  same records in host memory. All queue pairs share one RA library, the parameter \<open>ra\<close>.
\<close>

section \<open>Host objects\<close>

record RaHost =
  rh_mem :: dmem
  rh_runtime :: "u64 \<Rightarrow> Runtime"
  rh_qp :: "u64 \<Rightarrow> ClientQp"
  rh_sge :: "u64 \<Rightarrow> RaSge"

record RaConnection =
  rcn_runtime :: u64
  rcn_qp :: u64

definition transport_state :: "RaHost \<Rightarrow> u64 \<Rightarrow> NdsTransportQpState" where
  "transport_state h state = g_qp_state (rh_mem h) state"

definition store_transport_state :: "u64 \<Rightarrow> NdsTransportQpState \<Rightarrow> RaHost \<Rightarrow> RaHost" where
  "store_transport_state state s h = h\<lparr>rh_mem := put_qp_state state s (rh_mem h)\<rparr>"

section \<open>Verbs\<close>

definition RA_WR_RDMA_WRITE :: int where "RA_WR_RDMA_WRITE = 0"
definition RA_WR_SEND :: int where "RA_WR_SEND = 2"
definition RA_WR_RDMA_READ :: int where "RA_WR_RDMA_READ = 4"
definition RA_SEND_SIGNALED :: int where "RA_SEND_SIGNALED = 2"

lemmas ra_opcode_defs = RA_WR_RDMA_WRITE_def RA_WR_SEND_def RA_WR_RDMA_READ_def

definition ra_opcode :: "u32 \<Rightarrow> int" where
  "ra_opcode opcode =
     (if opcode = NDS_WR_SEND then RA_WR_SEND
      else if opcode = NDS_WR_RDMA_READ then RA_WR_RDMA_READ
      else if opcode = NDS_WR_RDMA_WRITE then RA_WR_RDMA_WRITE
      else -1)"

text \<open>The guard of \<open>post_unrung\<close>; \<open>qp->libra()\<close> is null when the queue pair has no endpoint.\<close>

definition ra_post_refused :: "RaHost \<Rightarrow> u64 \<Rightarrow> NdsSendWr \<Rightarrow> bool" where
  "ra_post_refused h qp request \<longleftrightarrow>
     qp = 0 \<or> \<not> cqp_connected (rh_qp h qp) \<or> cqp_endpoint (rh_qp h qp) = 0 \<or> cqp_handle (rh_qp h qp) = 0
     \<or> sg_address (sw_local request) = 0 \<or> sg_length (sw_local request) = 0 \<or> sg_local_key (sw_local request) = 0
     \<or> ra_opcode (sw_opcode request) < 0
     \<or> (sw_opcode request \<noteq> NDS_WR_SEND \<and> (sw_remote_address request = 0 \<or> sw_remote_key request = 0))
     \<or> (sw_opcode request = NDS_WR_SEND \<and> (sw_remote_address request \<noteq> 0 \<or> sw_remote_key request \<noteq> 0))"

definition ra_local_sge :: "NdsSge \<Rightarrow> RaSge" where
  "ra_local_sge s = \<lparr>rs_address = sg_address s, rs_length = sg_length s, rs_local_key = sg_local_key s\<rparr>"

definition ra_send_wr :: "NdsSendWr \<Rightarrow> RaSendWr" where
  "ra_send_wr request =
     \<lparr>rsw_buffers = [ra_local_sge (sw_local request)], rsw_buffer_count = 1,
      rsw_remote_address = sw_remote_address request, rsw_remote_key = sw_remote_key request,
      rsw_opcode = of_int (ra_opcode (sw_opcode request)),
      rsw_send_flags = (if sw_flags request AND NDS_SEND_SIGNALED \<noteq> 0 then RA_SEND_SIGNALED else 0)\<rparr>"

text \<open>The scatter entry is stored where the caller says, or in the queue pair.\<close>

definition store_sge :: "u64 \<Rightarrow> u64 \<Rightarrow> RaSge \<Rightarrow> RaHost \<Rightarrow> RaHost" where
  "store_sge qp sge entry h =
     (if sge = 0 then h\<lparr>rh_qp := (rh_qp h)(qp := (rh_qp h qp)\<lparr>cqp_posted_send_sge := entry\<rparr>)\<rparr>
      else h\<lparr>rh_sge := (rh_sge h)(sge := entry)\<rparr>)"

definition post_unrung :: "'w libra \<Rightarrow> u64 \<Rightarrow> NdsSendWr \<Rightarrow> u64 \<Rightarrow> (RaHost \<times> 'w, RaDoorbell) comp" where
  "post_unrung ra qp request sge = (\<lambda>(h, w).
     if ra_post_refused h qp request then (Inl kInvalidArgument, (h, w))
     else
       (let h = store_sge qp sge (ra_local_sge (sw_local request)) h
        in case ra_typical_send_wr ra (cqp_handle (rh_qp h qp)) (ra_send_wr request) w of
             ((result, response), w) \<Rightarrow> if result \<noteq> 0 then (Inl kRa, (h, w)) else (Inr response, (h, w))))"

definition NdsRaPrepareSend :: "'w libra \<Rightarrow> u64 \<Rightarrow> NdsSendWr \<Rightarrow> u64 \<Rightarrow> (RaHost \<times> 'w, RaDoorbell) comp" where
  "NdsRaPrepareSend ra qp request sge = post_unrung ra qp request sge"

definition NdsRaRingSend :: "'w cann \<Rightarrow> u64 \<Rightarrow> RaDoorbell \<Rightarrow> u64 \<Rightarrow> (RaHost \<times> 'w, unit) comp" where
  "NdsRaRingSend acl runtime response stream = (\<lambda>(h, w).
     if runtime = 0 then (Inl kInvalidArgument, (h, w))
     else case rtSetDevice acl (rc_logical_device_id (rt_config (rh_runtime h runtime))) w of
       (result, w) \<Rightarrow>
         if result \<noteq> 0 then (Inl kRuntime, (h, w))
         else case rtRDMADBSend acl (rd_db_index response) (rd_db_info response) stream w of
           (result, w) \<Rightarrow> if result \<noteq> 0 then (Inl kRuntime, (h, w)) else (Inr (), (h, w)))"

definition NdsRaPostSend :: "'w libra \<Rightarrow> 'w cann \<Rightarrow> u64 \<Rightarrow> u64 \<Rightarrow> NdsSendWr \<Rightarrow> u64 \<Rightarrow> (RaHost \<times> 'w, unit) comp" where
  "NdsRaPostSend ra acl runtime qp request stream =
     rbind (NdsRaPrepareSend ra qp request 0) (\<lambda>posted. NdsRaRingSend acl runtime posted stream)"

definition NdsRaPostRecv :: "'w libra \<Rightarrow> u64 \<Rightarrow> NdsRecvWr \<Rightarrow> (RaHost \<times> 'w, unit) comp" where
  "NdsRaPostRecv ra qp request = (\<lambda>(h, w).
     case ra_recv_wrlist ra of
       None \<Rightarrow> (Inl kInvalidArgument, (h, w))
     | Some recv_wrlist \<Rightarrow>
         if qp = 0 \<or> \<not> cqp_connected (rh_qp h qp) \<or> cqp_endpoint (rh_qp h qp) = 0 \<or> cqp_handle (rh_qp h qp) = 0
           \<or> sg_address (rw_local request) = 0 \<or> sg_length (rw_local request) = 0 \<or> sg_local_key (rw_local request) = 0
         then (Inl kInvalidArgument, (h, w))
         else case recv_wrlist (cqp_handle (rh_qp h qp))
                     [\<lparr>rrw_wr_id = rw_wr_id request, rrw_memory = ra_local_sge (rw_local request)\<rparr>] w of
           ((result, completed), w) \<Rightarrow>
             if result \<noteq> 0 \<or> completed \<noteq> 1 then (Inl kRa, (h, w)) else (Inr (), (h, w)))"

definition zero_ra_completion :: RaCompletion where
  "zero_ra_completion = \<lparr>rcp_wr_id = 0, rcp_status = 0, rcp_opcode = 0, rcp_vendor_error = 0, rcp_byte_length = 0,
     rcp_qp_number = 0, rcp_flags = 0, rcp_immediate_data_or_invalidated_rkey = 0\<rparr>"

definition ra_wc :: "RaCompletion \<Rightarrow> NdsWc" where
  "ra_wc source = \<lparr>wc_wr_id = rcp_wr_id source, wc_status = rcp_status source, wc_opcode = rcp_opcode source,
     wc_vendor_error = rcp_vendor_error source, wc_byte_length = rcp_byte_length source,
     wc_qp_number = rcp_qp_number source, wc_flags = rcp_flags source,
     wc_immediate_data_or_invalidated_rkey = rcp_immediate_data_or_invalidated_rkey source, wc_reserved = 0\<rparr>"

text \<open>
  The library writes into an array of zeroed completions; the first \<open>result\<close> of them go to the
  caller's array, whose pointer \<open>wc\<close> only says whether it is null. The value is the number
  with the entries written.
\<close>

definition NdsRaPollCq :: "'w libra \<Rightarrow> u64 \<Rightarrow> bool \<Rightarrow> u32 \<Rightarrow> bool \<Rightarrow> (RaHost \<times> 'w, u32 \<times> NdsWc list) comp" where
  "NdsRaPollCq ra qp is_send_cq max_completions wc = (\<lambda>(h, w).
     if qp = 0 \<or> \<not> wc \<or> max_completions = 0 \<or> max_completions > NDS_MAX_COMPLETIONS
       \<or> \<not> client_qp_created (rh_qp h qp) \<or> cqp_endpoint (rh_qp h qp) = 0 \<or> cqp_handle (rh_qp h qp) = 0
     then (Inl kInvalidArgument, (h, w))
     else case ra_poll_cq ra (cqp_handle (rh_qp h qp)) is_send_cq (unat max_completions) w of
       ((result, written), w) \<Rightarrow>
         if result < 0 \<or> result > int (unat max_completions) then (Inl kRa, (h, w))
         else (Inr (of_int result,
                    map ra_wc (take (nat result) (written @ replicate (unat NDS_MAX_COMPLETIONS) zero_ra_completion))), (h, w)))"

section \<open>Transport\<close>

definition kTransportPollBatch :: u32 where "kTransportPollBatch = NDS_MAX_COMPLETIONS"
definition kTransportCompletionTimeoutMs :: nat where "kTransportCompletionTimeoutMs = 5000"

definition ra_reclaim :: "'w libra \<Rightarrow> u64 \<Rightarrow> u64 \<Rightarrow> bool \<Rightarrow> (RaHost \<times> 'w, u32) comp" where
  "ra_reclaim ra qp state send_cq = (\<lambda>(h, w).
     if qp = 0 \<or> state = 0 then (Inl kInvalidArgument, (h, w))
     else rbind (NdsRaPollCq ra qp send_cq kTransportPollBatch True) (\<lambda>(n, completions) (h, w).
       let completion_failed = list_ex (\<lambda>wc. wc_status wc \<noteq> NDS_WC_SUCCESS) completions;
           s = Some (transport_state h state);
           s = (if send_cq then nds_transport_reclaim_send s n else nds_transport_reclaim_receive s n);
           h = store_transport_state state (the s) h
       in if completion_failed then (Inl kRa, (h, w)) else (Inr n, (h, w))) (h, w))"

text \<open>
  The loop of \<open>wait_for_send_completion\<close>: the clock is read only while credits are missing. After
  the loop the credits decide.
\<close>

partial_function (option) ra_wait_until :: "'w libra \<Rightarrow> 'w cann \<Rightarrow> u64 \<Rightarrow> u64 \<Rightarrow> u32 \<Rightarrow> nat \<Rightarrow> (RaHost \<times> 'w, unit) pcomp" where
  "ra_wait_until ra acl qp state target deadline s =
     (if \<not> st_send_credits (transport_state (fst s) state) < target then Some (Inr (), s)
      else case client_now acl (snd s) of
        (now, w) \<Rightarrow>
          if \<not> now < deadline then Some (Inl kRuntime, (fst s, w))
          else case ra_reclaim ra qp state True (fst s, w) of
            (Inl err, s) \<Rightarrow> Some (Inl err, s)
          | (Inr _, s) \<Rightarrow> ra_wait_until ra acl qp state target deadline s)"

definition ra_wait_for_send_completion :: "'w libra \<Rightarrow> 'w cann \<Rightarrow> u64 \<Rightarrow> u64 \<Rightarrow> u32 \<Rightarrow> (RaHost \<times> 'w, unit) pcomp" where
  "ra_wait_for_send_completion ra acl qp state target_credits = (\<lambda>(h, w).
     case client_now acl w of
       (now, w) \<Rightarrow> ra_wait_until ra acl qp state target_credits (now + kTransportCompletionTimeoutMs * 1000000) (h, w))"

definition ra_reclaim_if_needed :: "'w libra \<Rightarrow> u64 \<Rightarrow> u64 \<Rightarrow> bool \<Rightarrow> (RaHost \<times> 'w, unit) comp" where
  "ra_reclaim_if_needed ra qp state send_cq =
     rbind (\<lambda>(h, w).
         if send_cq \<and> st_send_credits (transport_state h state) = 0
         then rbind (ra_reclaim ra qp state True) (\<lambda>_. rret ()) (h, w) else (Inr (), (h, w))) (\<lambda>_ (h, w).
       if \<not> send_cq \<and> st_receive_credits (transport_state h state) = 0
       then rbind (ra_reclaim ra qp state False) (\<lambda>_. rret ()) (h, w) else (Inr (), (h, w)))"

text \<open>From the copy of the state on, with a credit at hand.\<close>

definition ra_post_scheduled :: "'w libra \<Rightarrow> 'w cann \<Rightarrow> u64 \<Rightarrow> u64 \<Rightarrow> u64 \<Rightarrow> NdsSendWr \<Rightarrow> (RaHost \<times> 'w, unit) pcomp" where
  "ra_post_scheduled ra acl runtime qp state request = (\<lambda>(h, w).
     let s = transport_state h state;
         signaled = nds_transport_should_signal (Some s);
         scheduled = request\<lparr>sw_flags := if signaled \<noteq> 0 then NDS_SEND_SIGNALED else 0\<rparr>
     in pbind (plift (NdsRaPostSend ra acl runtime qp scheduled 0)) (\<lambda>_ (h, w).
          case nds_transport_record_send (Some s) signaled of
            (recorded, s) \<Rightarrow>
              if recorded = 0 then Some (Inl kTransport, (h, w))
              else
                (let s = the s; h = store_transport_state state s h
                 in if signaled \<noteq> 0
                    then ra_wait_for_send_completion ra acl qp state (st_send_credits s + st_signal_interval s) (h, w)
                    else Some (Inr (), (h, w)))) (h, w))"

definition ra_post :: "'w libra \<Rightarrow> 'w cann \<Rightarrow> u64 \<Rightarrow> u64 \<Rightarrow> u64 \<Rightarrow> NdsSendWr \<Rightarrow> (RaHost \<times> 'w, unit) pcomp" where
  "ra_post ra acl runtime qp state request = (\<lambda>(h, w).
     if runtime = 0 \<or> qp = 0 \<or> state = 0 \<or> st_signal_interval (transport_state h state) = 0
     then Some (Inl kInvalidArgument, (h, w))
     else pbind (plift (ra_reclaim_if_needed ra qp state True)) (\<lambda>_ (h, w).
            if st_send_credits (transport_state h state) = 0 then Some (Inl kTransport, (h, w))
            else ra_post_scheduled ra acl runtime qp state request (h, w)) (h, w))"

definition NdsRaRdmaSend :: "'w libra \<Rightarrow> 'w cann \<Rightarrow> RaConnection \<Rightarrow> u64 \<Rightarrow> NdsSendWr \<Rightarrow> (RaHost \<times> 'w, unit) pcomp" where
  "NdsRaRdmaSend ra acl connection state request = ra_post ra acl (rcn_runtime connection) (rcn_qp connection) state request"

definition NdsRaRdmaRecv :: "'w libra \<Rightarrow> RaConnection \<Rightarrow> u64 \<Rightarrow> NdsRecvWr \<Rightarrow> (RaHost \<times> 'w, unit) comp" where
  "NdsRaRdmaRecv ra connection state request = (\<lambda>(h, w).
     if rcn_runtime connection = 0 \<or> rcn_qp connection = 0 \<or> state = 0 then (Inl kInvalidArgument, (h, w))
     else rbind (ra_reclaim_if_needed ra (rcn_qp connection) state False) (\<lambda>_ (h, w).
       if st_receive_credits (transport_state h state) = 0 then (Inl kTransport, (h, w))
       else rbind (NdsRaPostRecv ra (rcn_qp connection) request) (\<lambda>_ (h, w).
         case nds_transport_record_receive (Some (transport_state h state)) of
           (recorded, s) \<Rightarrow>
             if recorded = 0 then (Inl kTransport, (h, w))
             else (Inr (), (store_transport_state state (the s) h, w))) (h, w)) (h, w))"

definition NdsRaRdmaRead :: "'w libra \<Rightarrow> 'w cann \<Rightarrow> RaConnection \<Rightarrow> u64 \<Rightarrow> NdsSendWr \<Rightarrow> (RaHost \<times> 'w, unit) pcomp" where
  "NdsRaRdmaRead ra acl connection state request = ra_post ra acl (rcn_runtime connection) (rcn_qp connection) state request"

definition NdsRaRdmaWrite :: "'w libra \<Rightarrow> 'w cann \<Rightarrow> RaConnection \<Rightarrow> u64 \<Rightarrow> NdsSendWr \<Rightarrow> (RaHost \<times> 'w, unit) pcomp" where
  "NdsRaRdmaWrite ra acl connection state request = ra_post ra acl (rcn_runtime connection) (rcn_qp connection) state request"

section \<open>What an operation may change\<close>

text \<open>The transport layer changes no object of the storage layer, no descriptor and no runtime.\<close>

definition transport_only :: "RaHost \<Rightarrow> RaHost \<Rightarrow> bool" where
  "transport_only h h' \<longleftrightarrow> rh_runtime h' = rh_runtime h \<and> (\<exists>f. rh_mem h' = (rh_mem h)\<lparr>g_qp_state := f\<rparr>)"

lemma transport_only_refl [simp, intro]: "transport_only h h"
  by (auto simp: transport_only_def intro!: exI [of _ "g_qp_state (rh_mem h)"])

lemma transport_only_trans [trans]: "transport_only h h' \<Longrightarrow> transport_only h' h'' \<Longrightarrow> transport_only h h''"
  by (auto simp: transport_only_def)

lemma transport_only_store [simp, intro]: "transport_only h (store_transport_state a s h)"
  by (auto simp: transport_only_def store_transport_state_def put_qp_state_def)

lemma transport_only_sge [simp, intro]: "transport_only h (store_sge qp sge entry h)"
  by (auto simp: transport_only_def store_sge_def intro!: exI [of _ "g_qp_state (rh_mem h)"])

lemma transport_onlyD:
  assumes "transport_only h h'"
  shows "rh_runtime h' = rh_runtime h" "g_storage_state (rh_mem h') = g_storage_state (rh_mem h)"
    "g_slot (rh_mem h') = g_slot (rh_mem h)" "g_qp (rh_mem h') = g_qp (rh_mem h)" "g_byte (rh_mem h') = g_byte (rh_mem h)"
  using assms by (auto simp: transport_only_def)

lemma transport_state_store [simp]:
  "transport_state (store_transport_state a s h) b = (if b = a then s else transport_state h b)"
  by (simp add: transport_state_def store_transport_state_def)

lemma transport_state_sge [simp]: "transport_state (store_sge qp sge entry h) = transport_state h"
  by (simp add: transport_state_def store_sge_def fun_eq_iff)

lemma NdsRaPostSend_host:
  assumes "NdsRaPostSend ra acl runtime qp request stream (h, w) = (r, (h', w'))"
  shows "transport_state h' = transport_state h" and "transport_only h h'"
  using assms
  by (auto simp: NdsRaPostSend_def NdsRaPrepareSend_def post_unrung_def NdsRaRingSend_def rbind_def Let_def
      split: if_splits prod.splits)

lemma NdsRaPollCq_host:
  "NdsRaPollCq ra qp b n wc (h, w) = (r, (h', w')) \<Longrightarrow> h' = h"
  by (auto simp: NdsRaPollCq_def split: if_splits prod.splits)

lemma NdsRaPostRecv_host:
  "NdsRaPostRecv ra qp request (h, w) = (r, (h', w')) \<Longrightarrow> h' = h"
  by (auto simp: NdsRaPostRecv_def split: if_splits prod.splits option.splits)

section \<open>Sends as runs\<close>

text \<open>The RA verbs of one queue pair as the transport calls them: a post is accepted when it was prepared and its doorbell rung.\<close>

definition ra_send_ops :: "'w libra \<Rightarrow> 'w cann \<Rightarrow> u64 \<Rightarrow> u64 \<Rightarrow> u64 \<Rightarrow> (RaHost \<times> 'w) send_ops" where
  "ra_send_ops ra acl runtime qp a = \<lparr>
     so_state = (\<lambda>(h, w). transport_state h a),
     so_store = (\<lambda>s (h, w). (store_transport_state a s h, w)),
     so_poll = (\<lambda>s. case NdsRaPollCq ra qp True kTransportPollBatch True s of
        (Inl _, s1) \<Rightarrow> (None, s1) | (Inr (n, _), s1) \<Rightarrow> (Some n, s1)),
     so_post = (\<lambda>wr s. case NdsRaPostSend ra acl runtime qp wr 0 s of (r, s1) \<Rightarrow> (ok r, s1)),
     so_idle = (\<lambda>s s1. s1 = (fst s, snd (client_now acl (snd s))))\<rparr>"

lemma ra_send_ops_simps [simp]:
  "so_state (ra_send_ops ra acl runtime qp a) (h, w) = transport_state h a"
  "so_store (ra_send_ops ra acl runtime qp a) s (h, w) = (store_transport_state a s h, w)"
  "so_idle (ra_send_ops ra acl runtime qp a) m m1 \<longleftrightarrow> m1 = (fst m, snd (client_now acl (snd m)))"
  by (simp_all add: ra_send_ops_def)

lemma ra_ops_host:
  "so_poll (ra_send_ops ra acl runtime qp a) (h, w) = (n, (h1, w1)) \<Longrightarrow> h1 = h"
  "so_post (ra_send_ops ra acl runtime qp a) wr (h, w) = (b, (h1, w1)) \<Longrightarrow> transport_state h1 = transport_state h \<and> transport_only h h1"
  using NdsRaPollCq_host [of ra qp True kTransportPollBatch True h w _ h1 w1] NdsRaPostSend_host [of ra acl runtime qp wr 0 h w _ h1 w1]
  by (auto simp: ra_send_ops_def split: prod.splits sum.splits)

interpretation ra_queue: send_queue "ra_send_ops ra acl runtime qp a" for ra acl runtime qp a
proof
  fix s m r m1 wr b
  let ?ops = "ra_send_ops ra acl runtime qp a"
  show "so_state ?ops (so_store ?ops s m) = s" by (cases m) simp
  show "so_poll ?ops m = (r, m1) \<Longrightarrow> so_state ?ops m1 = so_state ?ops m"
    by (cases m; cases m1) (auto dest: ra_ops_host)
  show "so_post ?ops wr m = (b, m1) \<Longrightarrow> so_state ?ops m1 = so_state ?ops m"
    by (cases m; cases m1) (auto dest: ra_ops_host)
  show "so_idle ?ops m m1 \<Longrightarrow> so_state ?ops m1 = so_state ?ops m"
    by (cases m) auto
qed

lemma ra_run_transport_only: "send_run (ra_send_ops ra acl runtime qp a) request s es s' \<Longrightarrow> transport_only (fst s) (fst s')"
proof (induction rule: send_run.induct)
  case (run_polled m n m1 es m')
  with ra_ops_host(1) [of ra acl runtime qp a "fst m" "snd m" "Some n" "fst m1" "snd m1"] have "fst m1 = fst m" by simp
  with run_polled.IH show ?case using transport_only_trans [OF transport_only_store] by (cases m1) fastforce
next
  case (run_poll_failed m m1 es m')
  with ra_ops_host(1) [of ra acl runtime qp a "fst m" "snd m" None "fst m1" "snd m1"] show ?case by simp
next
  case (run_posted m wr m1 es m')
  with ra_ops_host(2) [of ra acl runtime qp a wr "fst m" "snd m" True "fst m1" "snd m1"] have "transport_only (fst m) (fst m1)" by simp
  moreover from run_posted.IH have "transport_only (fst m1) (fst m')"
    using transport_only_trans [OF transport_only_store] by (cases m1) fastforce
  ultimately show ?case by (rule transport_only_trans)
next
  case (run_refused m wr m1 es m')
  with ra_ops_host(2) [of ra acl runtime qp a wr "fst m" "snd m" False "fst m1" "snd m1"] have "transport_only (fst m) (fst m1)" by simp
  from this run_refused.IH show ?case by (rule transport_only_trans)
qed auto

lemma ra_reclaim_polls:
  assumes "ra_reclaim ra qp a True (h, w) = (r, s')"
  shows "\<exists>es. polling es \<and> length es \<le> 1 \<and> send_run (ra_send_ops ra acl runtime qp a) request (h, w) es s'"
proof (cases "qp = 0 \<or> a = 0")
  case True
  with assms have "s' = (h, w)" by (auto simp: ra_reclaim_def)
  then show ?thesis by (intro exI [of _ "[]"]) auto
next
  case False
  let ?ops = "ra_send_ops ra acl runtime qp a"
  obtain r1 h1 w1 where p: "NdsRaPollCq ra qp True kTransportPollBatch True (h, w) = (r1, (h1, w1))" by (metis prod_cases3)
  show ?thesis
  proof (cases r1)
    case (Inl e)
    with False assms p have "s' = (h1, w1)" by (auto simp: ra_reclaim_def rbind_def)
    moreover have "so_poll ?ops (h, w) = (None, (h1, w1))" using p Inl by (simp add: ra_send_ops_def)
    ultimately have "send_run ?ops request (h, w) [PollFailed] s'" by (auto intro: run_one)
    then show ?thesis by (intro exI [of _ "[PollFailed]"]) simp
  next
    case (Inr x)
    obtain n wcs where x: "x = (n, wcs)" by fastforce
    have "so_poll ?ops (h, w) = (Some n, (h1, w1))" using p Inr x by (simp add: ra_send_ops_def)
    moreover have "the (nds_transport_reclaim_send (Some s) n) = credited n s" for s
      by (simp add: nds_transport_reclaim_send_def credited_def)
    with False assms p Inr x have "s' = so_store ?ops (credited n (so_state ?ops (h1, w1))) (h1, w1)"
      by (auto simp: ra_reclaim_def rbind_def Let_def split: if_splits)
    ultimately have "send_run ?ops request (h, w) [Polled n] s'" by (rule run_one)
    then show ?thesis by (intro exI [of _ "[Polled n]"]) simp
  qed
qed

lemma ra_reclaim_if_needed_polls:
  assumes "ra_reclaim_if_needed ra qp a True (h, w) = (r, s')"
  shows "\<exists>es. polling es \<and> length es \<le> 1 \<and> send_run (ra_send_ops ra acl runtime qp a) request (h, w) es s'"
proof (cases "st_send_credits (transport_state h a) = 0")
  case True
  with assms obtain r1 where "ra_reclaim ra qp a True (h, w) = (r1, s')"
    by (auto simp: ra_reclaim_if_needed_def rbind_def split: prod.splits sum.splits)
  then show ?thesis by (rule ra_reclaim_polls)
next
  case False
  with assms have "s' = (h, w)" by (simp add: ra_reclaim_if_needed_def rbind_def)
  then show ?thesis by (intro exI [of _ "[]"]) auto
qed

text \<open>Waiting only polls and reads the clock.\<close>

lemma ra_wait_until_polls:
  assumes "ra_wait_until ra acl qp a target deadline s = Some (r, s')"
  shows "\<exists>es. polling es \<and> send_run (ra_send_ops ra acl runtime qp a) request s es s'"
proof -
  have "case x of (r, s') \<Rightarrow> \<exists>es. polling es \<and> send_run (ra_send_ops ra acl runtime qp a) request s es s'"
    if "ra_wait_until ra acl qp a target deadline s = Some x" for s x
    using that
  proof (induction rule: ra_wait_until.raw_induct [rotated, consumes 1, case_names step])
    case (step wait ra acl qp a target deadline s x)
    let ?ops = "ra_send_ops ra acl runtime qp a"
    obtain h w where s: "s = (h, w)" by fastforce
    obtain now w1 where n: "client_now acl w = (now, w1)" by fastforce
    obtain r1 s2 where rc: "ra_reclaim ra qp a True (h, w1) = (r1, s2)" by (metis surj_pair)
    have idle: "send_run ?ops request s [] (h, w1)"
      using s n by (intro send_run.run_idle [OF _ send_run.run_end]) simp
    obtain es where es: "polling es" "send_run ?ops request (h, w1) es s2" using ra_reclaim_polls [OF rc] by blast
    have two: "send_run ?ops request s es s2" using send_run_append [OF idle es(2)] by simp
    show ?case
    proof (cases "st_send_credits (transport_state h a) < target \<and> now < deadline \<and> ok r1")
      case False
      then have "snd x = s \<or> snd x = (h, w1) \<or> snd x = s2"
        using step.hyps s n rc by (cases r1) (auto split: if_splits)
      moreover have "polling []" "send_run ?ops request s [] s" by auto
      ultimately show ?thesis using idle two es(1) by (cases x) (auto simp del: polling_simps)
    next
      case True
      then obtain v where "r1 = Inr v" by (auto simp: ok_iff)
      with step.hyps True s n rc have "wait ra acl qp a target deadline s2 = Some x" by simp
      from step.IH [OF this] obtain fs where fs: "polling fs" "send_run ?ops request s2 fs (snd x)" by (cases x) auto
      with es(1) send_run_append [OF two fs(2)] have "polling (es @ fs)" "send_run ?ops request s (es @ fs) (snd x)" by auto
      then have "\<exists>es. polling es \<and> send_run ?ops request s es (snd x)" by blast
      then show ?thesis by (simp add: case_prod_beta)
    qed
  qed
  from this [OF assms] show ?thesis by simp
qed

lemma ra_wait_polls:
  assumes "ra_wait_for_send_completion ra acl qp a target (h, w) = Some (r, s')"
  shows "\<exists>es. polling es \<and> send_run (ra_send_ops ra acl runtime qp a) request (h, w) es s'"
proof -
  obtain now w1 where n: "client_now acl w = (now, w1)" by fastforce
  with assms have "ra_wait_until ra acl qp a target (now + kTransportCompletionTimeoutMs * 1000000) (h, w1) = Some (r, s')"
    by (simp add: ra_wait_for_send_completion_def)
  from ra_wait_until_polls [OF this] obtain es where
    es: "polling es" "send_run (ra_send_ops ra acl runtime qp a) request (h, w1) es s'" by blast
  have "send_run (ra_send_ops ra acl runtime qp a) request (h, w) [] (h, w1)"
    using n by (intro send_run.run_idle [OF _ send_run.run_end]) simp
  from send_run_append [OF this es(2)] es(1) show ?thesis by auto
qed

lemma ra_post_scheduled_run:
  assumes run: "ra_post_scheduled ra acl runtime qp a request (h, w) = Some (r, s')"
    and c: "st_send_credits (transport_state h a) \<noteq> 0" and i: "st_signal_interval (transport_state h a) \<noteq> 0"
    and pre: "send_run (ra_send_ops ra acl runtime qp a) request s0 pre (h, w)" "polling pre" "length pre \<le> 1"
  shows "\<exists>es. send_run (ra_send_ops ra acl runtime qp a) request s0 es s' \<and> single_send (ok r) es"
proof -
  let ?ops = "ra_send_ops ra acl runtime qp a" and ?s = "transport_state h a"
  let ?wr = "scheduled ?s request" and ?sig = "nds_transport_should_signal (Some ?s)"
  have sig: "?sig \<noteq> 0 \<longleftrightarrow> due ?s" using i by (simp add: nds_transport_should_signal_def due_def)
  have wr: "request\<lparr>sw_flags := if ?sig \<noteq> 0 then NDS_SEND_SIGNALED else 0\<rparr> = ?wr" by (simp add: scheduled_def sig)
  have rec: "nds_transport_record_send (Some ?s) ?sig = (1, Some (charged ?s))"
    using c sig by (auto simp: nds_transport_record_send_def charged_def)
  obtain r1 h1 w1 where p: "NdsRaPostSend ra acl runtime qp ?wr 0 (h, w) = (r1, (h1, w1))" by (metis prod_cases3)
  note run' = run [unfolded ra_post_scheduled_def Let_def prod.case wr]
  show ?thesis
  proof (cases r1)
    case (Inl e)
    with run' p have s': "s' = (h1, w1)" and r: "\<not> ok r" by auto
    have "so_post ?ops ?wr (h, w) = (False, (h1, w1))" using p Inl by (simp add: ra_send_ops_def)
    with refused_send [OF pre] c s' r show ?thesis by simp
  next
    case (Inr u)
    let ?s3 = "(store_transport_state a (charged ?s) h1, w1)"
    have "\<exists>post. polling post \<and> send_run ?ops request ?s3 post s' \<and> (due ?s \<or> post = [])"
    proof (cases "due ?s")
      case True
      with run' p Inr rec sig have "ra_wait_for_send_completion ra acl qp a (st_send_credits (charged ?s) + st_signal_interval (charged ?s))
          ?s3 = Some (r, s')" by simp
      from ra_wait_polls [OF this] True show ?thesis by blast
    next
      case False
      with run' p Inr rec sig have "send_run ?ops request ?s3 [] s'" by auto
      then show ?thesis by (intro exI [of _ "[]"]) auto
    qed
    then obtain post where post: "polling post" "send_run ?ops request ?s3 post s'" "due ?s \<or> post = []" by blast
    have "so_post ?ops ?wr (h, w) = (True, (h1, w1))" using p Inr by (simp add: ra_send_ops_def)
    with posted_send [OF pre] c post show ?thesis by simp
  qed
qed

lemma ra_post_run:
  assumes run: "ra_post ra acl runtime qp a request (h, w) = Some (r, s')"
  shows "\<exists>es. send_run (ra_send_ops ra acl runtime qp a) request (h, w) es s' \<and> single_send (ok r) es"
proof (cases "runtime \<noteq> 0 \<and> qp \<noteq> 0 \<and> a \<noteq> 0 \<and> st_signal_interval (transport_state h a) \<noteq> 0")
  case False
  with run have "s' = (h, w)" "\<not> ok r" by (auto simp: ra_post_def)
  with single_send_none [of "[]"] show ?thesis by (intro exI [of _ "[]"]) auto
next
  case guard: True
  obtain r1 h1 w1 where ri: "ra_reclaim_if_needed ra qp a True (h, w) = (r1, (h1, w1))" by (metis prod_cases3)
  obtain pre where pre: "polling pre" "length pre \<le> 1" "send_run (ra_send_ops ra acl runtime qp a) request (h, w) pre (h1, w1)"
    using ra_reclaim_if_needed_polls [OF ri] by blast
  have i: "st_signal_interval (transport_state h1 a) \<noteq> 0" using ra_queue.run_interval [OF pre(3)] guard by simp
  show ?thesis
  proof (cases "ok r1 \<and> st_send_credits (transport_state h1 a) \<noteq> 0")
    case False
    with run guard ri have "s' = (h1, w1)" "\<not> ok r" by (auto simp: ra_post_def split: sum.splits)
    with pre single_send_none show ?thesis by auto
  next
    case True
    with run guard ri have "ra_post_scheduled ra acl runtime qp a request (h1, w1) = Some (r, s')"
      by (auto simp: ra_post_def split: sum.splits)
    from ra_post_scheduled_run [OF this _ i pre(3,1,2)] True show ?thesis by simp
  qed
qed

lemma ra_post_host:
  assumes "ra_post ra acl runtime qp a request (h, w) = Some (r, (h', w'))"
  shows "transport_only h h'"
  using ra_post_run [OF assms] ra_run_transport_only by fastforce

section \<open>Termination\<close>

text \<open>
  What is relied on of the clock: no call sets it back, what \<open>steady_clock::now\<close> returns is not behind it,
  and polling the library takes time.
\<close>

definition ra_clock :: "'w libra \<Rightarrow> 'w cann \<Rightarrow> ('w \<Rightarrow> nat) \<Rightarrow> bool" where
  "ra_clock ra acl clock \<longleftrightarrow>
     (\<forall>w. clock w \<le> fst (client_now acl w) \<and> clock w \<le> clock (snd (client_now acl w)))
     \<and> (\<forall>handle b n w. clock w < clock (snd (ra_poll_cq ra handle b n w)))"

lemma ra_clock_now:
  "ra_clock ra acl clock \<Longrightarrow> client_now acl w = (now, w') \<Longrightarrow> clock w \<le> now \<and> clock w \<le> clock w'"
  unfolding ra_clock_def by (metis fst_conv snd_conv)

lemma ra_reclaim_clock:
  assumes "ra_clock ra acl clock" and "ra_reclaim ra qp a b (h, w) = (Inr n, (h', w'))"
  shows "clock w < clock w'"
  using assms
  by (auto simp: ra_reclaim_def NdsRaPollCq_def rbind_def Let_def ra_clock_def
      split: if_splits prod.splits sum.splits) (metis snd_conv)+

lemma ra_wait_until_returns:
  assumes "ra_clock ra acl clock"
  shows "ra_wait_until ra acl qp a target deadline (h, w) \<noteq> None"
proof (induction "deadline - clock w" arbitrary: h w rule: less_induct)
  case less
  obtain now w1 where n: "client_now acl w = (now, w1)" by fastforce
  note c1 = ra_clock_now [OF assms n]
  obtain r h1 w2 where rc: "ra_reclaim ra qp a True (h, w1) = (r, (h1, w2))" by (metis prod_cases3)
  show ?case
  proof (cases "st_send_credits (transport_state h a) < target \<and> now < deadline \<and> ok r")
    case False
    with n rc show ?thesis
      by (cases r) (auto simp: ra_wait_until.simps [of ra acl qp a target deadline "(h, w)"])
  next
    case True
    then obtain v where v: "r = Inr v" by (auto simp: ok_iff)
    with True n rc have "ra_wait_until ra acl qp a target deadline (h, w) = ra_wait_until ra acl qp a target deadline (h1, w2)"
      by (simp add: ra_wait_until.simps [of ra acl qp a target deadline "(h, w)"])
    moreover have "deadline - clock w2 < deadline - clock w"
      using ra_reclaim_clock [OF assms rc [unfolded v]] c1 True by linarith
    ultimately show ?thesis using less by metis
  qed
qed

lemma ra_post_returns:
  assumes "ra_clock ra acl clock"
  shows "ra_post ra acl runtime qp a request (h, w) \<noteq> None"
proof -
  have wait: "ra_wait_for_send_completion ra acl qp a target s \<noteq> None" for target s
    using ra_wait_until_returns [OF assms]
    by (cases s) (auto simp: ra_wait_for_send_completion_def split: prod.splits)
  have "ra_post_scheduled ra acl runtime qp a request s \<noteq> None" for s
    using wait by (cases s) (auto simp: ra_post_scheduled_def Let_def split: prod.splits sum.splits)
  then show ?thesis by (auto simp: ra_post_def split: prod.splits sum.splits)
qed

section \<open>Properties\<close>

text \<open>
  C24: the RA transport's send returns whenever polling takes time, and accounts for every credit. On success
  and on every error path what it did is a run of at most one poll, at most one post, and polls again after an
  accepted signaled post: a request is posted only with a credit in hand and signaled exactly when it is due,
  only a post whose doorbell was rung takes a credit and advances the signal counter, and only the completions
  a poll returned give a signal interval back each. Success is reported only for a posted request. So if the
  polls return no more completions than signaled requests are in flight, the credits stay conserved. No object
  of the storage layer changes.
\<close>

theorem ra_rdma_send_accounting:
  assumes "ra_clock ra acl clock"
  shows "\<exists>r h' w' es. NdsRaRdmaSend ra acl connection a request (h, w) = Some (r, (h', w')) \<and> transport_only h h' \<and>
    send_run (ra_send_ops ra acl (rcn_runtime connection) (rcn_qp connection) a) request (h, w) es (h', w') \<and> single_send (r = Inr ()) es \<and>
    (\<forall>D k k'. credit_inv D k (transport_state h a) \<longrightarrow> in_flight k es = Some k' \<longrightarrow> credit_inv D k' (transport_state h' a))"
proof -
  from ra_post_returns [OF assms(1)] obtain r h' w' where
    run: "ra_post ra acl (rcn_runtime connection) (rcn_qp connection) a request (h, w) = Some (r, (h', w'))" by fastforce
  from ra_post_run [OF run] obtain es where
    es: "send_run (ra_send_ops ra acl (rcn_runtime connection) (rcn_qp connection) a) request (h, w) es (h', w')" "single_send (ok r) es"
    by blast
  have "ok r \<longleftrightarrow> r = Inr ()" by (auto simp: ok_iff)
  with es run ra_post_host [OF run] ra_queue.run_inv [OF es(1)] show ?thesis unfolding NdsRaRdmaSend_def by auto
qed

definition sample_host_qp :: ClientQp where
  "sample_host_qp = (new_client_qp 0x30 \<lparr>qc_port_num = 1, qc_path_mtu = 4096, qc_traffic_class = 0, qc_service_level = 0,
       qc_retry_count = 7, qc_retry_timeout = 14, qc_ai_qp_mode = -1, qc_send_queue_depth = 64,
       qc_receive_queue_depth = 64, qc_control_flags = 0\<rparr> ModeRa)\<lparr>cqp_handle := 0x20, cqp_connected := True\<rparr>"

definition sample_host :: RaHost where
  "sample_host = \<lparr>rh_mem = sample_dmem, rh_runtime = (\<lambda>_. sample_runtime), rh_qp = (\<lambda>_. sample_host_qp),
     rh_sge = (\<lambda>_. zero_sge)\<rparr>"

text \<open>A world that counts nanoseconds: a poll takes one.\<close>

definition counting_ra :: "nat libra" where
  "counting_ra = sample_ra\<lparr>ra_poll_cq := (\<lambda>_ _ _ w. ((0, []), Suc w))\<rparr>"

definition counting_acl :: "nat cann" where
  "counting_acl = sample_acl\<lparr>client_now := (\<lambda>w. (w, w))\<rparr>"

lemma counting_clock: "ra_clock counting_ra counting_acl id"
  by (simp add: ra_clock_def counting_ra_def counting_acl_def)

theorem ra_rdma_send_accounting_witness:
  "\<exists>r h' w' es. NdsRaRdmaSend counting_ra counting_acl \<lparr>rcn_runtime = 0x40, rcn_qp = 0x50\<rparr> 0x6000 sample_send_wr (sample_host, 0)
     = Some (r, (h', w')) \<and> transport_only sample_host h' \<and>
     send_run (ra_send_ops counting_ra counting_acl 0x40 0x50 0x6000) sample_send_wr (sample_host, 0) es (h', w') \<and> single_send (r = Inr ()) es"
  using ra_rdma_send_accounting [OF counting_clock, of "\<lparr>rcn_runtime = 0x40, rcn_qp = 0x50\<rparr>" "0x6000" sample_send_wr sample_host 0]
  by auto

end
