(* ===== verification/Ra_Storage.thy ===== *)
theory Ra_Storage
  imports Ra_Transport
begin

text \<open>
  The RA backend's storage layer and its C entry points:
  \<^verbatim>\<open>src/src/client/backends/ra/storage.cc\<close> and \<^verbatim>\<open>entrypoints.cc\<close>. A command is built on the host,
  copied to the slot's buffers on the device and sent through the RA transport; the completion
  the server writes is copied back and judged. The template \<open>execute\<close> is a function of how the
  request is completed with the command id and slot index and of its serializer.
\<close>

section \<open>Contexts\<close>

record RaStorageContext =
  rsc_connection :: RaConnection
  rsc_transport_state :: u64
  rsc_storage_state :: u64
  rsc_command_device :: u64
  rsc_command_buffer :: RaSge
  rsc_completion_device :: u64
  rsc_completion :: RaSge
  rsc_capacity :: u64
  rsc_slot_index :: u32

definition storage_state :: "RaHost \<Rightarrow> u64 \<Rightarrow> NdsStorageState" where
  "storage_state h state = g_storage_state (rh_mem h) state"

definition store_storage_state :: "u64 \<Rightarrow> NdsStorageState \<Rightarrow> RaHost \<Rightarrow> RaHost" where
  "store_storage_state state s h = h\<lparr>rh_mem := put_storage_state state s (rh_mem h)\<rparr>"

definition ra_validate_context :: "RaHost \<Rightarrow> RaStorageContext \<Rightarrow> unit result" where
  "ra_validate_context h c =
     (if rcn_runtime (rsc_connection c) = 0 \<or> rcn_qp (rsc_connection c) = 0 \<or> rsc_transport_state c = 0
        \<or> rsc_command_device c = 0 \<or> rsc_completion_device c = 0
        \<or> rs_address (rsc_command_buffer c) = 0 \<or> rs_local_key (rsc_command_buffer c) = 0
        \<or> rs_length (rsc_command_buffer c) < kStorageCommandBytes
        \<or> rs_address (rsc_completion c) = 0 \<or> rs_local_key (rsc_completion c) = 0
        \<or> rs_length (rsc_completion c) < kStorageCompletionBytes \<or> rsc_capacity c = 0
        \<or> rsc_storage_state c = 0 \<or> ss_command_id (storage_state h (rsc_storage_state c)) = 0
        \<or> ss_status (storage_state h (rsc_storage_state c)) \<noteq> 0
      then Inl kInvalidArgument else Inr ())"

section \<open>Submitting\<close>

definition ra_claim :: "RaStorageContext \<Rightarrow> u64 \<Rightarrow> (RaHost \<times> 'w, u64) comp" where
  "ra_claim c expected_bytes = (\<lambda>(h, w).
     case ra_validate_context h c of
       Inl err \<Rightarrow> (Inl err, (h, w))
     | Inr _ \<Rightarrow>
         (let s = storage_state h (rsc_storage_state c)
          in if expected_bytes = 0 \<or> expected_bytes > 0xffffffff \<or> ss_in_flight s \<noteq> 0 then (Inl kTransport, (h, w))
             else (Inr (ss_command_id s),
                   (store_storage_state (rsc_storage_state c)
                      (s\<lparr>ss_expected_bytes := ucast expected_bytes, ss_in_flight := 1\<rparr>) h, w))))"

definition ra_abandon :: "RaStorageContext \<Rightarrow> RaHost \<Rightarrow> RaHost" where
  "ra_abandon c h =
     store_storage_state (rsc_storage_state c)
       ((storage_state h (rsc_storage_state c))\<lparr>ss_expected_bytes := 0, ss_in_flight := 0, ss_status := 0\<rparr>) h"

definition ra_command_transfer :: "RaStorageContext \<Rightarrow> u64 \<Rightarrow> NdsSendWr" where
  "ra_command_transfer c command_id =
     \<lparr>sw_wr_id = command_id, sw_opcode = NDS_WR_SEND, sw_flags = 0,
      sw_local = \<lparr>sg_address = rs_address (rsc_command_buffer c), sg_length = kStorageCommandBytes,
                  sg_local_key = rs_local_key (rsc_command_buffer c)\<rparr>,
      sw_remote_address = 0, sw_remote_key = 0\<rparr>"

text \<open>Between the claim and the send: the two records are encoded and copied to the slot's buffers.\<close>

definition ra_copy_in :: "'w cann \<Rightarrow> RaStorageContext \<Rightarrow> u64 \<Rightarrow> StorageSerdeResult \<times> u8 list option \<Rightarrow> (RaHost \<times> 'w, unit) comp" where
  "ra_copy_in acl c device encoded = (\<lambda>(h, w).
     case encoded of
       (SerdeOk, Some bytes) \<Rightarrow>
         (case copy_host_to_device acl (rh_runtime h (rcn_runtime (rsc_connection c))) device (HBytes bytes) w of
            (r, w) \<Rightarrow> (r, (h, w)))
     | _ \<Rightarrow> (Inl kProtocol, (h, w)))"

text \<open>Every failure after the claim abandons the slot.\<close>

definition ra_run_claimed :: "'w libra \<Rightarrow> 'w cann \<Rightarrow> RaStorageContext \<Rightarrow> (u64 \<Rightarrow> u32 \<Rightarrow> 'r) \<Rightarrow>
    ('r \<Rightarrow> u8 list option \<Rightarrow> u32 \<Rightarrow> StorageSerdeResult \<times> u8 list option) \<Rightarrow> u64 \<Rightarrow> (RaHost \<times> 'w, unit) pcomp" where
  "ra_run_claimed ra acl c request serialize command_id =
     pbind (plift (ra_copy_in acl c (rsc_completion_device c)
         (serialize_storage_completion
            \<lparr>c_command_id = command_id, c_state = StatePending, c_status = StatusSuccess, c_bytes_transferred = 0\<rparr>
            (Some (replicate (unat kStorageCompletionBytes) 0)) kStorageCompletionBytes))) (\<lambda>_.
     pbind (plift (ra_copy_in acl c (rsc_command_device c)
         (serialize (request command_id (rsc_slot_index c)) (Some (replicate (unat kStorageCommandBytes) 0))
            kStorageCommandBytes))) (\<lambda>_.
     NdsRaRdmaSend ra acl (rsc_connection c) (rsc_transport_state c) (ra_command_transfer c command_id)))"

definition ra_execute :: "'w libra \<Rightarrow> 'w cann \<Rightarrow> RaStorageContext \<Rightarrow> (u64 \<Rightarrow> u32 \<Rightarrow> 'r) \<Rightarrow>
    ('r \<Rightarrow> u8 list option \<Rightarrow> u32 \<Rightarrow> StorageSerdeResult \<times> u8 list option) \<Rightarrow> u64 \<Rightarrow> (RaHost \<times> 'w, unit) pcomp" where
  "ra_execute ra acl c request serialize expected_bytes =
     pbind (plift (ra_claim c expected_bytes)) (\<lambda>command_id s.
       case ra_run_claimed ra acl c request serialize command_id s of
         None \<Rightarrow> None
       | Some (Inl err, (h, w)) \<Rightarrow> Some (Inl err, (ra_abandon c h, w))
       | Some (Inr _, s) \<Rightarrow> Some (Inr (), s))"

text \<open>
  The two instances of an entry decoder, as offset, length and data. The entries themselves are
  dropped by the callers: only the total is kept.
\<close>

definition ra_decode_entry :: "bool \<Rightarrow> u8 list \<Rightarrow> (u64 \<times> u64 \<times> StorageMemory) option" where
  "ra_decode_entry is_write bytes =
     (if is_write
      then (case deserialize_storage_batch_write_entry (Some bytes) kStorageBatchEntryBytes
                   (Some \<lparr>bwe_offset = 0, bwe_length = 0, bwe_data = zero_memory\<rparr>) of
              (SerdeOk, Some entry) \<Rightarrow> Some (bwe_offset entry, bwe_length entry, bwe_data entry) | _ \<Rightarrow> None)
      else (case deserialize_storage_batch_read_entry (Some bytes) kStorageBatchEntryBytes
                   (Some \<lparr>bre_offset = 0, bre_length = 0, bre_data = zero_memory\<rparr>) of
              (SerdeOk, Some entry) \<Rightarrow> Some (bre_offset entry, bre_length entry, bre_data entry) | _ \<Rightarrow> None))"

fun ra_sum_entries :: "u64 \<Rightarrow> bool \<Rightarrow> u8 list \<Rightarrow> nat \<Rightarrow> nat \<Rightarrow> u64 \<Rightarrow> u64 result" where
  "ra_sum_entries capacity is_write encoded 0 index tot = Inr tot"
| "ra_sum_entries capacity is_write encoded (Suc n) index tot =
     (case ra_decode_entry is_write
             (take (unat kStorageBatchEntryBytes) (drop (index * unat kStorageBatchEntryBytes) encoded)) of
        None \<Rightarrow> Inl kProtocol
      | Some (offset, len, data) \<Rightarrow>
          if len = 0 \<or> m_address data = 0 \<or> m_remote_key data = 0 \<or> m_length data < len \<or> offset > capacity
            \<or> len > capacity - offset \<or> len > 0xffffffff \<or> tot > 0xffffffff - len
          then Inl kInvalidArgument
          else ra_sum_entries capacity is_write encoded n (Suc index) (tot + len))"

definition ra_decode_entries :: "'w cann \<Rightarrow> RaStorageContext \<Rightarrow> NdsStorageBatchOperationArgs \<Rightarrow> bool \<Rightarrow> (RaHost \<times> 'w, u64) comp" where
  "ra_decode_entries acl c args is_write = (\<lambda>(h, w).
     let operation = ba_operation args; n = sb_entry_count operation in
     if n = 0 \<or> n > kStorageMaxBatchEntries \<or> sb_entries_address operation = 0 \<or> sb_entries_key operation = 0
       \<or> (ucast n :: u64) > UINT64_MAX div ucast kStorageBatchEntryBytes
     then (Inl kInvalidArgument, (h, w))
     else case copy_device_to_host acl (rh_runtime h (rcn_runtime (rsc_connection c))) (sb_entries_address operation)
                 (unat n * unat kStorageBatchEntryBytes) w of
       (Inl err, w) \<Rightarrow> (Inl err, (h, w))
     | (Inr encoded, w) \<Rightarrow> (ra_sum_entries (rsc_capacity c) is_write encoded (unat n) 0 0, (h, w)))"

definition NdsRaStorageBootstrap :: "'w libra \<Rightarrow> 'w cann \<Rightarrow> RaConnection \<Rightarrow> u64 \<Rightarrow> NdsSge \<Rightarrow> (RaHost \<times> 'w, unit) pcomp" where
  "NdsRaStorageBootstrap ra acl connection state bootstrap =
     (if rcn_runtime connection = 0 \<or> rcn_qp connection = 0 \<or> state = 0 \<or> sg_address bootstrap = 0
        \<or> sg_local_key bootstrap = 0 \<or> sg_length bootstrap < kStorageBootstrapBytes
      then pfail kInvalidArgument
      else NdsRaRdmaSend ra acl connection state
             \<lparr>sw_wr_id = 1, sw_opcode = NDS_WR_SEND, sw_flags = 0, sw_local = bootstrap, sw_remote_address = 0, sw_remote_key = 0\<rparr>)"

definition ra_operation_refused :: "RaStorageContext \<Rightarrow> NdsStorageOperation \<Rightarrow> bool" where
  "ra_operation_refused c operation \<longleftrightarrow>
     so_server_offset operation > rsc_capacity c \<or> so_length operation = 0
     \<or> ucast (so_length operation) > rsc_capacity c - so_server_offset operation
     \<or> so_buffer_address operation = 0 \<or> so_buffer_key operation = 0"

definition NdsRaStorageRead :: "'w libra \<Rightarrow> 'w cann \<Rightarrow> RaStorageContext \<Rightarrow> NdsStorageOperationArgs \<Rightarrow> (RaHost \<times> 'w, unit) pcomp" where
  "NdsRaStorageRead ra acl c args =
     (if ra_operation_refused c (oa_operation args) then pfail kInvalidArgument
      else ra_execute ra acl c (read_request (oa_operation args)) serialize_storage_read (ucast (so_length (oa_operation args))))"

definition NdsRaStorageWrite :: "'w libra \<Rightarrow> 'w cann \<Rightarrow> RaStorageContext \<Rightarrow> NdsStorageOperationArgs \<Rightarrow> (RaHost \<times> 'w, unit) pcomp" where
  "NdsRaStorageWrite ra acl c args =
     (if ra_operation_refused c (oa_operation args) then pfail kInvalidArgument
      else ra_execute ra acl c (write_request (oa_operation args)) serialize_storage_write (ucast (so_length (oa_operation args))))"

definition NdsRaStorageBatchRead :: "'w libra \<Rightarrow> 'w cann \<Rightarrow> RaStorageContext \<Rightarrow> NdsStorageBatchOperationArgs \<Rightarrow>
    (RaHost \<times> 'w, unit) pcomp" where
  "NdsRaStorageBatchRead ra acl c args =
     pbind (plift (ra_decode_entries acl c args False)) (\<lambda>tot.
       ra_execute ra acl c
         (\<lambda>command_id slot_index. \<lparr>br_command_id = command_id, br_entry_count = ucast (sb_entry_count (ba_operation args)),
            br_total_length = tot, br_entries = entries_memory (ba_operation args), br_slot_index = slot_index\<rparr>)
         serialize_storage_batch_read tot)"

definition NdsRaStorageBatchWrite :: "'w libra \<Rightarrow> 'w cann \<Rightarrow> RaStorageContext \<Rightarrow> NdsStorageBatchOperationArgs \<Rightarrow>
    (RaHost \<times> 'w, unit) pcomp" where
  "NdsRaStorageBatchWrite ra acl c args =
     pbind (plift (ra_decode_entries acl c args True)) (\<lambda>tot.
       ra_execute ra acl c
         (\<lambda>command_id slot_index. \<lparr>bw_command_id = command_id, bw_entry_count = ucast (sb_entry_count (ba_operation args)),
            bw_total_length = tot, bw_entries = entries_memory (ba_operation args), bw_slot_index = slot_index\<rparr>)
         serialize_storage_batch_write tot)"

section \<open>Waiting\<close>

definition NdsRaStorageWait :: "'w cann \<Rightarrow> RaStorageContext \<Rightarrow> (RaHost \<times> 'w, StorageCompletion) comp" where
  "NdsRaStorageWait acl c = (\<lambda>(h, w).
     case ra_validate_context h c of
       Inl err \<Rightarrow> (Inl err, (h, w))
     | Inr _ \<Rightarrow>
         (case copy_device_to_host acl (rh_runtime h (rcn_runtime (rsc_connection c))) (rsc_completion_device c)
                 (unat kStorageCompletionBytes) w of
            (Inl err, w) \<Rightarrow> (Inl err, (h, w))
          | (Inr bytes, w) \<Rightarrow>
              (case deserialize_storage_completion (Some bytes) kStorageCompletionBytes (Some zero_completion) of
                 (SerdeOk, Some completion) \<Rightarrow>
                   (let s = storage_state h (rsc_storage_state c)
                    in if c_state completion \<noteq> StateComplete then (Inl kTransport, (h, w))
                       else if c_command_id completion \<noteq> ss_command_id s
                         \<or> c_bytes_transferred completion \<noteq> ucast (ss_expected_bytes s)
                       then (Inl kProtocol, (h, w))
                       else (Inr completion, (h, w)))
               | _ \<Rightarrow> (Inl kProtocol, (h, w)))))"

section \<open>Entry points\<close>

definition ra_status :: "unit result \<Rightarrow> int" where
  "ra_status r = (if ok r then 0 else -1)"

definition host_connection :: "NdsQpDescriptor \<Rightarrow> RaConnection result" where
  "host_connection qp =
     (if qd_host_runtime_address qp = 0 \<or> qd_host_qp_address qp = 0 then Inl kInvalidArgument
      else Inr \<lparr>rcn_runtime = qd_host_runtime_address qp, rcn_qp = qd_host_qp_address qp\<rparr>)"

text \<open>The pointer of an accessor's result, null for none.\<close>

definition raw_pointer :: "u64 option \<Rightarrow> u64" where
  "raw_pointer p = (case p of None \<Rightarrow> 0 | Some address \<Rightarrow> address)"

definition slot_context :: "RaConnection \<Rightarrow> u64 \<Rightarrow> u64 \<Rightarrow> NdsStorageSlotDescriptor \<Rightarrow> u64 \<Rightarrow> u32 \<Rightarrow> RaStorageContext" where
  "slot_context connection transport_address storage_address slot capacity slot_index =
     \<lparr>rsc_connection = connection, rsc_transport_state = transport_address, rsc_storage_state = storage_address,
      rsc_command_device = sg_address (sl_command_buffer slot), rsc_command_buffer = ra_local_sge (sl_command_buffer slot),
      rsc_completion_device = sg_address (sl_completion_buffer slot), rsc_completion = ra_local_sge (sl_completion_buffer slot),
      rsc_capacity = capacity, rsc_slot_index = slot_index\<rparr>"

definition rdma_operation :: "NdsTransportDescriptor option \<Rightarrow> u32 \<Rightarrow> 'r option \<Rightarrow>
    (RaConnection \<Rightarrow> u64 \<Rightarrow> 'r \<Rightarrow> (RaHost \<times> 'w, unit) pcomp) \<Rightarrow> RaHost \<times> 'w \<Rightarrow> (int \<times> RaHost \<times> 'w) option" where
  "rdma_operation transport queue_index wr operation = (\<lambda>(h, w).
     case (transport, wr) of
       (Some t, Some request) \<Rightarrow>
         (case (nds_transport_qp (Some t) queue_index, nds_transport_qp_state (Some t) queue_index) of
            (Some qp, Some state) \<Rightarrow>
              (case host_connection (g_qp (rh_mem h) qp) of
                 Inl _ \<Rightarrow> Some (-1, (h, w))
               | Inr connection \<Rightarrow>
                   (case operation connection state request (h, w) of
                      None \<Rightarrow> None
                    | Some (r, s) \<Rightarrow> Some (ra_status r, s)))
          | _ \<Rightarrow> Some (-1, (h, w)))
     | _ \<Rightarrow> Some (-1, (h, w)))"

definition storage_operation :: "('a \<Rightarrow> NdsStorageDescriptor) \<Rightarrow> ('a \<Rightarrow> u32) \<Rightarrow> 'a option \<Rightarrow>
    (RaStorageContext \<Rightarrow> 'a \<Rightarrow> (RaHost \<times> 'w, unit) pcomp) \<Rightarrow> RaHost \<times> 'w \<Rightarrow> (int \<times> RaHost \<times> 'w) option" where
  "storage_operation storage slot_id args operation = (\<lambda>(h, w).
     case args of
       None \<Rightarrow> Some (-1, (h, w))
     | Some a \<Rightarrow>
         (let d = storage a; slot_index = nds_storage_slot_id_index (slot_id a) in
          if \<not> nds_storage_descriptor_valid (Some d) \<or> \<not> nds_storage_slot_id_valid (rh_mem h) (Some d) (slot_id a)
          then Some (-1, (h, w))
          else case nds_storage_slot (Some d) slot_index of
            None \<Rightarrow> Some (-1, (h, w))
          | Some slot_address \<Rightarrow>
              (let slot = g_slot (rh_mem h) slot_address
               in case (nds_transport_qp (Some (sd_transport d)) (sl_qp_index slot),
                        nds_transport_qp_state (Some (sd_transport d)) (sl_qp_index slot),
                        nds_storage_state (Some d) slot_index) of
                    (Some qp, Some transport_address, Some storage_address) \<Rightarrow>
                      (case host_connection (g_qp (rh_mem h) qp) of
                         Inl _ \<Rightarrow> Some (-1, (h, w))
                       | Inr connection \<Rightarrow>
                           (case operation (slot_context connection transport_address storage_address slot (sd_capacity d) slot_index)
                                   a (h, w) of
                              None \<Rightarrow> None
                            | Some (r, s) \<Rightarrow> Some (ra_status r, s)))
                  | _ \<Rightarrow> Some (-1, (h, w)))))"

definition nds_ra_backend_post_send :: "'w libra \<Rightarrow> 'w cann \<Rightarrow> NdsQpDescriptor option \<Rightarrow> NdsSendWr option \<Rightarrow> u64 \<Rightarrow>
    RaHost \<times> 'w \<Rightarrow> int \<times> RaHost \<times> 'w" where
  "nds_ra_backend_post_send ra acl qp wr stream s =
     (case (qp, wr) of
        (Some qp, Some wr) \<Rightarrow>
          (case host_connection qp of
             Inl _ \<Rightarrow> (-1, s)
           | Inr connection \<Rightarrow>
               (case NdsRaPostSend ra acl (rcn_runtime connection) (rcn_qp connection) wr stream s of (r, s) \<Rightarrow> (ra_status r, s)))
      | _ \<Rightarrow> (-1, s))"

definition nds_ra_backend_post_recv :: "'w libra \<Rightarrow> NdsQpDescriptor option \<Rightarrow> NdsRecvWr option \<Rightarrow> RaHost \<times> 'w \<Rightarrow>
    int \<times> RaHost \<times> 'w" where
  "nds_ra_backend_post_recv ra qp wr s =
     (case (qp, wr) of
        (Some qp, Some wr) \<Rightarrow>
          (case host_connection qp of
             Inl _ \<Rightarrow> (-1, s)
           | Inr connection \<Rightarrow> (case NdsRaPostRecv ra (rcn_qp connection) wr s of (r, s) \<Rightarrow> (ra_status r, s)))
      | _ \<Rightarrow> (-1, s))"

definition nds_ra_backend_poll_cq :: "'w libra \<Rightarrow> NdsQpDescriptor option \<Rightarrow> u32 \<Rightarrow> u32 \<Rightarrow> bool \<Rightarrow> RaHost \<times> 'w \<Rightarrow>
    (int \<times> NdsWc list) \<times> RaHost \<times> 'w" where
  "nds_ra_backend_poll_cq ra qp send_cq max_completions wc s =
     (case qp of
        None \<Rightarrow> ((-1, []), s)
      | Some qp \<Rightarrow>
          if qd_host_qp_address qp = 0 then ((-1, []), s)
          else case NdsRaPollCq ra (qd_host_qp_address qp) (send_cq \<noteq> 0) max_completions wc s of
            (Inl _, s) \<Rightarrow> ((-1, []), s)
          | (Inr (n, completions), s) \<Rightarrow> ((sint n, completions), s))"

definition nds_ra_backend_rdma_send :: "'w libra \<Rightarrow> 'w cann \<Rightarrow> NdsTransportDescriptor option \<Rightarrow> u32 \<Rightarrow> NdsSendWr option \<Rightarrow>
    RaHost \<times> 'w \<Rightarrow> (int \<times> RaHost \<times> 'w) option" where
  "nds_ra_backend_rdma_send ra acl transport queue_index wr = rdma_operation transport queue_index wr (NdsRaRdmaSend ra acl)"

definition nds_ra_backend_rdma_recv :: "'w libra \<Rightarrow> NdsTransportDescriptor option \<Rightarrow> u32 \<Rightarrow> NdsRecvWr option \<Rightarrow>
    RaHost \<times> 'w \<Rightarrow> (int \<times> RaHost \<times> 'w) option" where
  "nds_ra_backend_rdma_recv ra transport queue_index wr =
     rdma_operation transport queue_index wr (\<lambda>connection state request. plift (NdsRaRdmaRecv ra connection state request))"

definition nds_ra_backend_rdma_read :: "'w libra \<Rightarrow> 'w cann \<Rightarrow> NdsTransportDescriptor option \<Rightarrow> u32 \<Rightarrow> NdsSendWr option \<Rightarrow>
    RaHost \<times> 'w \<Rightarrow> (int \<times> RaHost \<times> 'w) option" where
  "nds_ra_backend_rdma_read ra acl transport queue_index wr = rdma_operation transport queue_index wr (NdsRaRdmaRead ra acl)"

definition nds_ra_backend_rdma_write :: "'w libra \<Rightarrow> 'w cann \<Rightarrow> NdsTransportDescriptor option \<Rightarrow> u32 \<Rightarrow> NdsSendWr option \<Rightarrow>
    RaHost \<times> 'w \<Rightarrow> (int \<times> RaHost \<times> 'w) option" where
  "nds_ra_backend_rdma_write ra acl transport queue_index wr = rdma_operation transport queue_index wr (NdsRaRdmaWrite ra acl)"

definition nds_ra_backend_storage_bootstrap :: "'w libra \<Rightarrow> 'w cann \<Rightarrow> NdsStorageBootstrapDescriptor option \<Rightarrow>
    RaHost \<times> 'w \<Rightarrow> (int \<times> RaHost \<times> 'w) option" where
  "nds_ra_backend_storage_bootstrap ra acl bootstrap = (\<lambda>(h, w).
     case bootstrap of
       None \<Rightarrow> Some (-1, (h, w))
     | Some b \<Rightarrow>
         if td_qp_count (bd_transport b) = 0 \<or> sg_address (bd_bootstrap b) = 0 then Some (-1, (h, w))
         else case (nds_transport_qp (Some (bd_transport b)) 0, nds_transport_qp_state (Some (bd_transport b)) 0) of
           (Some qp, Some state) \<Rightarrow>
             (case host_connection (g_qp (rh_mem h) qp) of
                Inl _ \<Rightarrow> Some (-1, (h, w))
              | Inr connection \<Rightarrow>
                  (case NdsRaStorageBootstrap ra acl connection state (bd_bootstrap b) (h, w) of
                     None \<Rightarrow> None
                   | Some (r, s) \<Rightarrow> Some (ra_status r, s)))
         | _ \<Rightarrow> Some (-1, (h, w)))"

definition nds_ra_backend_storage_read :: "'w libra \<Rightarrow> 'w cann \<Rightarrow> NdsStorageOperationArgs option \<Rightarrow> RaHost \<times> 'w \<Rightarrow>
    (int \<times> RaHost \<times> 'w) option" where
  "nds_ra_backend_storage_read ra acl args =
     storage_operation oa_storage (\<lambda>a. so_slot_id (oa_operation a)) args (NdsRaStorageRead ra acl)"

definition nds_ra_backend_storage_write :: "'w libra \<Rightarrow> 'w cann \<Rightarrow> NdsStorageOperationArgs option \<Rightarrow> RaHost \<times> 'w \<Rightarrow>
    (int \<times> RaHost \<times> 'w) option" where
  "nds_ra_backend_storage_write ra acl args =
     storage_operation oa_storage (\<lambda>a. so_slot_id (oa_operation a)) args (NdsRaStorageWrite ra acl)"

definition nds_ra_backend_storage_batch_read :: "'w libra \<Rightarrow> 'w cann \<Rightarrow> NdsStorageBatchOperationArgs option \<Rightarrow> RaHost \<times> 'w \<Rightarrow>
    (int \<times> RaHost \<times> 'w) option" where
  "nds_ra_backend_storage_batch_read ra acl args =
     storage_operation ba_storage (\<lambda>a. sb_slot_id (ba_operation a)) args (NdsRaStorageBatchRead ra acl)"

definition nds_ra_backend_storage_batch_write :: "'w libra \<Rightarrow> 'w cann \<Rightarrow> NdsStorageBatchOperationArgs option \<Rightarrow> RaHost \<times> 'w \<Rightarrow>
    (int \<times> RaHost \<times> 'w) option" where
  "nds_ra_backend_storage_batch_write ra acl args =
     storage_operation ba_storage (\<lambda>a. sb_slot_id (ba_operation a)) args (NdsRaStorageBatchWrite ra acl)"

text \<open>
  The entry point tells a pending completion from other errors by its message; the error of that
  branch is the only one of \<open>NdsRaStorageWait\<close> with the code \<open>kTransport\<close>. The slot of a valid
  identifier exists.
\<close>

definition nds_ra_backend_storage_wait :: "'w cann \<Rightarrow> NdsStorageDescriptor option \<Rightarrow> u32 \<Rightarrow> RaHost \<times> 'w \<Rightarrow> int \<times> RaHost \<times> 'w" where
  "nds_ra_backend_storage_wait acl descriptor slot_id = (\<lambda>(h, w).
     case descriptor of
       None \<Rightarrow> (-1, (h, w))
     | Some d \<Rightarrow>
         if \<not> nds_storage_wait_valid (rh_mem h) (Some d) slot_id then (-1, (h, w))
         else
           (let slot_index = nds_storage_slot_id_index slot_id;
                slot = g_slot (rh_mem h) (the (nds_storage_slot (Some d) slot_index))
            in case nds_transport_qp (Some (sd_transport d)) (sl_qp_index slot) of
                 None \<Rightarrow> (-1, (h, w))
               | Some qp \<Rightarrow>
                   (case host_connection (g_qp (rh_mem h) qp) of
                      Inl _ \<Rightarrow> (-1, (h, w))
                    | Inr connection \<Rightarrow>
                        (case NdsRaStorageWait acl
                                (slot_context connection
                                   (raw_pointer (nds_transport_qp_state (Some (sd_transport d)) (sl_qp_index slot)))
                                   (raw_pointer (nds_storage_state (Some d) slot_index)) slot (sd_capacity d) slot_index) (h, w) of
                           (Inr completion, s) \<Rightarrow> (if c_status completion = StatusSuccess then 0 else -1, s)
                         | (Inl err, s) \<Rightarrow> (if err = kTransport then 1 else -1, s)))))"

section \<open>Slots\<close>

lemma storage_state_store [simp]:
  "storage_state (store_storage_state a s h) b = (if b = a then s else storage_state h b)"
  by (simp add: storage_state_def store_storage_state_def)

lemma transport_only_storage: "transport_only h h' \<Longrightarrow> storage_state h' = storage_state h"
  by (simp add: storage_state_def fun_eq_iff transport_onlyD)

lemma ra_copy_in_host: "ra_copy_in acl c device encoded (h, w) = (r, (h', w')) \<Longrightarrow> h' = h"
  by (auto simp: ra_copy_in_def split: prod.splits StorageSerdeResult.splits option.splits)

lemma ra_run_claimed_host:
  assumes "ra_run_claimed ra acl c request serialize command_id (h, w) = Some (r, (h', w'))"
  shows "transport_only h h'"
  using assms
  by (auto simp: ra_run_claimed_def NdsRaRdmaSend_def dest: ra_post_host ra_copy_in_host split: prod.splits sum.splits)

lemma ra_run_claimed_returns:
  assumes "ra_clock ra acl clock"
  shows "ra_run_claimed ra acl c request serialize command_id s \<noteq> None"
  using ra_post_returns [OF assms]
  by (cases s) (auto simp: ra_run_claimed_def NdsRaRdmaSend_def split: prod.splits sum.splits)

text \<open>
  What a submission of \<open>n\<close> bytes may do to the slots: only its own slot changes. Success claims a free
  slot. A failure leaves the slot as it was, or gives a slot it had claimed back.
\<close>

definition slot_settled :: "RaStorageContext \<Rightarrow> u32 \<Rightarrow> RaHost \<Rightarrow> unit result \<Rightarrow> RaHost \<Rightarrow> bool" where
  "slot_settled c n h r h' \<longleftrightarrow>
     (let a = rsc_storage_state c; s = storage_state h a; s' = storage_state h' a
      in (\<forall>b. b \<noteq> a \<longrightarrow> storage_state h' b = storage_state h b) \<and>
         (case r of
            Inr _ \<Rightarrow> n \<noteq> 0 \<and> ss_in_flight s = 0 \<and> s' = s\<lparr>ss_expected_bytes := n, ss_in_flight := 1\<rparr>
          | Inl _ \<Rightarrow> s' = s \<or> ss_in_flight s = 0 \<and> s' = s\<lparr>ss_expected_bytes := 0, ss_in_flight := 0, ss_status := 0\<rparr>))"

lemma slot_settled_refused [simp]: "slot_settled c n h (Inl e) h"
  by (simp add: slot_settled_def)

lemma ucast_u64_u32_nonzero: "(x :: u64) \<noteq> 0 \<Longrightarrow> x \<le> 0xffffffff \<Longrightarrow> (ucast x :: u32) \<noteq> 0"
proof
  assume "x \<noteq> 0" "x \<le> 0xffffffff" "(ucast x :: u32) = 0"
  then have "unat x mod 2 ^ 32 = 0" "unat x < 2 ^ 32" "0 < unat x"
    by (auto simp: word_le_nat_alt unat_gt_0 unsigned_ucast_eq take_bit_eq_mod dest!: arg_cong [where f = unat])
  then show False by simp
qed

lemma ra_execute_settles:
  assumes "ra_execute ra acl c request serialize expected_bytes (h, w) = Some (r, (h', w'))"
  shows "slot_settled c (ucast expected_bytes) h r h'"
proof -
  obtain r1 h1 w1 where cl: "ra_claim c expected_bytes (h, w) = (r1, (h1, w1))" by (metis prod_cases3)
  show ?thesis
  proof (cases r1)
    case (Inl e)
    with cl have "h1 = h" by (auto simp: ra_claim_def Let_def split: sum.splits if_splits)
    with assms cl Inl show ?thesis by (auto simp: ra_execute_def)
  next
    case (Inr command_id)
    let ?s = "storage_state h (rsc_storage_state c)"
    from cl Inr have free: "ss_in_flight ?s = 0" "expected_bytes \<noteq> 0" "expected_bytes \<le> 0xffffffff"
      and h1: "h1 = store_storage_state (rsc_storage_state c) (?s\<lparr>ss_expected_bytes := ucast expected_bytes, ss_in_flight := 1\<rparr>) h"
      by (auto simp: ra_claim_def Let_def not_less split: sum.splits if_splits)
    from assms cl Inr obtain r2 h2 w2 where
      run: "ra_run_claimed ra acl c request serialize command_id (h1, w1) = Some (r2, (h2, w2))"
      by (auto simp: ra_execute_def split: option.splits)
    have s2: "storage_state h2 = storage_state h1" by (rule transport_only_storage [OF ra_run_claimed_host [OF run]])
    show ?thesis
    proof (cases r2)
      case Inl': (Inl e)
      with assms cl Inr run have "r = Inl e" "h' = ra_abandon c h2" by (auto simp: ra_execute_def)
      then show ?thesis using free s2 h1 by (simp add: slot_settled_def ra_abandon_def)
    next
      case Inr': (Inr u)
      with assms cl Inr run have "r = Inr ()" "h' = h2" by (auto simp: ra_execute_def)
      then show ?thesis using free s2 h1 ucast_u64_u32_nonzero by (simp add: slot_settled_def)
    qed
  qed
qed

lemma ra_execute_returns:
  assumes "ra_clock ra acl clock"
  shows "ra_execute ra acl c request serialize expected_bytes s \<noteq> None"
  using ra_run_claimed_returns [OF assms, of c request serialize]
  by (cases s) (auto simp del: not_None_eq simp: ra_execute_def split: prod.splits sum.splits option.splits)

lemma ra_execute_outcome:
  assumes "ra_clock ra acl clock"
  obtains r h' w' where "ra_execute ra acl c request serialize expected_bytes (h, w) = Some (r, (h', w'))"
    "slot_settled c (ucast expected_bytes) h r h'"
proof -
  obtain r h' w' where "ra_execute ra acl c request serialize expected_bytes (h, w) = Some (r, (h', w'))"
    using ra_execute_returns [OF assms] by fastforce
  with ra_execute_settles [OF this] that show thesis by blast
qed

lemma ra_decode_entries_host: "ra_decode_entries acl c args b (h, w) = (r, (h', w')) \<Longrightarrow> h' = h"
  by (auto simp: ra_decode_entries_def Let_def split: if_splits prod.splits sum.splits)

section \<open>Batches\<close>

text \<open>An entry the loop lets pass lies inside the capacity and names memory for all its bytes.\<close>

definition ra_entry_ok :: "u64 \<Rightarrow> u64 \<times> u64 \<times> StorageMemory \<Rightarrow> bool" where
  "ra_entry_ok capacity = (\<lambda>(offset, len, data).
     len \<noteq> 0 \<and> m_address data \<noteq> 0 \<and> m_remote_key data \<noteq> 0 \<and> unat len \<le> unat (m_length data)
     \<and> unat offset + unat len \<le> unat capacity)"

definition ra_entries :: "bool \<Rightarrow> u8 list \<Rightarrow> nat \<Rightarrow> nat \<Rightarrow> (u64 \<times> u64 \<times> StorageMemory) option list" where
  "ra_entries is_write encoded index n =
     map (\<lambda>i. ra_decode_entry is_write (take 40 (drop (i * 40) encoded))) [index..<index + n]"

lemma ra_sum_entries_exact:
  assumes "ra_sum_entries capacity b encoded n index tot = Inr t" and "unat tot \<le> 0xffffffff"
  shows "\<exists>es. ra_entries b encoded index n = map Some es \<and> list_all (ra_entry_ok capacity) es
    \<and> unat t = unat tot + sum_list (map (\<lambda>e. unat (fst (snd e))) es) \<and> unat t \<le> 0xffffffff"
  using assms
proof (induction n arbitrary: index tot)
  case 0
  then show ?case by (simp add: ra_entries_def)
next
  case (Suc n)
  have forty: "unat kStorageBatchEntryBytes = 40" by (simp add: kStorageBatchEntryBytes_def)
  from Suc.prems(1) obtain offset len data where
    e: "ra_decode_entry b (take 40 (drop (index * 40) encoded)) = Some (offset, len, data)"
    and ok: "len \<noteq> 0" "m_address data \<noteq> 0" "m_remote_key data \<noteq> 0" "\<not> m_length data < len" "\<not> offset > capacity"
      "\<not> len > capacity - offset" "\<not> len > 0xffffffff" "\<not> tot > 0xffffffff - len"
    and rec: "ra_sum_entries capacity b encoded n (Suc index) (tot + len) = Inr t"
    by (auto simp: forty split: option.splits if_splits)
  have l: "unat len \<le> 0xffffffff" using ok(7) by (simp add: not_less word_le_nat_alt)
  have le: "unat tot + unat len \<le> 0xffffffff" using batch_sum_guard [OF Suc.prems(2) l] ok(8) by simp
  then have s: "unat (tot + len) = unat tot + unat len" by (intro unat_add_small) simp
  have "ra_entry_ok capacity (offset, len, data)"
    using ok range_guard_unat [of offset capacity len] by (simp add: ra_entry_ok_def not_less word_le_nat_alt)
  moreover from Suc.IH [OF rec] s le obtain es where
    "ra_entries b encoded (Suc index) n = map Some es" "list_all (ra_entry_ok capacity) es"
    "unat t = unat (tot + len) + sum_list (map (\<lambda>e. unat (fst (snd e))) es)" "unat t \<le> 0xffffffff" by auto
  ultimately show ?case
    using s e by (intro exI [of _ "(offset, len, data) # es"]) (simp add: ra_entries_def upt_conv_Cons del: upt_Suc)
qed

text \<open>The four submissions, each through \<open>execute\<close>.\<close>

lemma ucast_u32_u64_u32: "(ucast (ucast (x :: u32) :: u64) :: u32) = x"
  by (rule bit_word_eqI) (simp add: bit_ucast_iff)

lemma ra_submission_settles:
  assumes "ra_clock ra acl clock"
  shows "\<exists>r h' w'. (if refused then pfail e else ra_execute ra acl c request serialize (ucast n)) (h, w) = Some (r, (h', w'))
    \<and> slot_settled c n h r h'"
proof (cases refused)
  case False
  obtain r h' w' where "ra_execute ra acl c request serialize (ucast n) (h, w) = Some (r, (h', w'))"
    "slot_settled c (ucast (ucast n :: u64)) h r h'"
    by (rule ra_execute_outcome [OF assms])
  with False show ?thesis by (simp add: ucast_u32_u64_u32)
qed simp

lemma ra_decode_entries_exact:
  assumes "ra_decode_entries acl c args is_write (h, w) = (Inr tot, (h', w'))"
  shows "\<exists>encoded es. aclrtMemcpy_to_host acl (sb_entries_address (ba_operation args))
        (unat (sb_entry_count (ba_operation args)) * 40) w = ((0, encoded), w')
    \<and> ra_entries is_write encoded 0 (unat (sb_entry_count (ba_operation args))) = map Some es
    \<and> 0 < length es \<and> length es \<le> 1024 \<and> list_all (ra_entry_ok (rsc_capacity c)) es
    \<and> unat tot = sum_list (map (\<lambda>e. unat (fst (snd e))) es) \<and> unat tot \<le> 0xffffffff"
proof -
  let ?n = "sb_entry_count (ba_operation args)"
  from assms obtain encoded where
    e: "aclrtMemcpy_to_host acl (sb_entries_address (ba_operation args)) (unat ?n * 40) w = ((0, encoded), w')"
      "ra_sum_entries (rsc_capacity c) is_write encoded (unat ?n) 0 0 = Inr tot"
    and n: "?n \<noteq> 0" "\<not> ?n > kStorageMaxBatchEntries"
    by (auto simp: ra_decode_entries_def copy_device_to_host_def Let_def kStorageBatchEntryBytes_def
        split: if_splits prod.splits sum.splits)
  from ra_sum_entries_exact [OF e(2)] obtain es where
    es: "ra_entries is_write encoded 0 (unat ?n) = map Some es" "list_all (ra_entry_ok (rsc_capacity c)) es"
      "unat tot = sum_list (map (\<lambda>e. unat (fst (snd e))) es)" "unat tot \<le> 0xffffffff" by auto
  from arg_cong [OF es(1), of length] have "length es = unat ?n" by (simp add: ra_entries_def)
  moreover have "0 < unat ?n" "unat ?n \<le> 1024"
    using n by (auto simp: unat_gt_0 not_less word_le_nat_alt kStorageMaxBatchEntries_def)
  ultimately show ?thesis using e(1) es by (intro exI [of _ encoded] exI [of _ es]) simp
qed

text \<open>
  What a batch may do to the slots. If its entries do not decode, nothing; else what a submission of as many bytes may do as
  the entries read from the device have together, which fit 32 bits.
\<close>

definition batch_settled :: "'w cann \<Rightarrow> RaStorageContext \<Rightarrow> NdsStorageBatchOperationArgs \<Rightarrow> bool \<Rightarrow> RaHost \<times> 'w \<Rightarrow>
    unit result \<Rightarrow> RaHost \<Rightarrow> bool" where
  "batch_settled acl c batch is_write = (\<lambda>(h, w) r h'.
     case fst (ra_decode_entries acl c batch is_write (h, w)) of
       Inl e \<Rightarrow> r = Inl e \<and> h' = h
     | Inr _ \<Rightarrow> \<exists>encoded w1 es.
         aclrtMemcpy_to_host acl (sb_entries_address (ba_operation batch)) (unat (sb_entry_count (ba_operation batch)) * 40) w
           = ((0, encoded), w1) \<and>
         ra_entries is_write encoded 0 (unat (sb_entry_count (ba_operation batch))) = map Some es \<and>
         sum_list (map (\<lambda>e. unat (fst (snd e))) es) \<le> 0xffffffff \<and>
         slot_settled c (of_nat (sum_list (map (\<lambda>e. unat (fst (snd e))) es))) h r h')"

lemma ra_batch_submission_settles:
  assumes "ra_clock ra acl clock"
  shows "\<exists>r h' w'. pbind (plift (ra_decode_entries acl c args b)) (\<lambda>tot. ra_execute ra acl c (request tot) serialize tot) (h, w)
    = Some (r, (h', w')) \<and> batch_settled acl c args b (h, w) r h'"
proof -
  obtain r1 h1 w1 where d: "ra_decode_entries acl c args b (h, w) = (r1, (h1, w1))" by (metis prod_cases3)
  have h1: "h1 = h" by (rule ra_decode_entries_host [OF d])
  show ?thesis
  proof (cases r1)
    case (Inr tot)
    obtain r h' w' where run: "ra_execute ra acl c (request tot) serialize tot (h, w1) = Some (r, (h', w'))"
      "slot_settled c (ucast tot) h r h'"
      by (rule ra_execute_outcome [OF assms])
    let ?op = "ba_operation args"
    from ra_decode_entries_exact [OF d [unfolded Inr]] obtain encoded es where
      es: "aclrtMemcpy_to_host acl (sb_entries_address ?op) (unat (sb_entry_count ?op) * 40) w = ((0, encoded), w1)"
        "ra_entries b encoded 0 (unat (sb_entry_count ?op)) = map Some es"
      and t: "unat tot = sum_list (map (\<lambda>e. unat (fst (snd e))) es)" "unat tot \<le> 0xffffffff" by blast
    have "(ucast tot :: u32) = of_nat (unat tot)" by simp
    with run(2) have "slot_settled c (of_nat (sum_list (map (\<lambda>e. unat (fst (snd e))) es))) h r h'" unfolding t(1) by simp
    with es t have "batch_settled acl c args b (h, w) r h'"
      unfolding batch_settled_def d Inr prod.case fst_conv sum.case by metis
    with d h1 Inr run(1) show ?thesis by auto
  qed (use d h1 in \<open>auto simp: batch_settled_def\<close>)
qed

section \<open>Properties\<close>

text \<open>
  C6: the four RA submissions return when polling takes time, and settle their slot: success claims a free
  slot for exactly the submitted bytes, which for a batch is the sum of the lengths of the entries it read
  from the device; a failure leaves the slot as it was or gives it back, whatever call failed; a batch whose
  entries do not decode changes nothing; and no submission touches another slot or one in flight.
\<close>

theorem ra_submissions_settle_slot:
  assumes "ra_clock ra acl clock"
  shows "(\<exists>r h' w'. NdsRaStorageRead ra acl c args (h, w) = Some (r, (h', w'))
      \<and> slot_settled c (so_length (oa_operation args)) h r h')
    \<and> (\<exists>r h' w'. NdsRaStorageWrite ra acl c args (h, w) = Some (r, (h', w'))
      \<and> slot_settled c (so_length (oa_operation args)) h r h')
    \<and> (\<exists>r h' w'. NdsRaStorageBatchRead ra acl c batch (h, w) = Some (r, (h', w'))
      \<and> batch_settled acl c batch False (h, w) r h')
    \<and> (\<exists>r h' w'. NdsRaStorageBatchWrite ra acl c batch (h, w) = Some (r, (h', w'))
      \<and> batch_settled acl c batch True (h, w) r h')"
  unfolding NdsRaStorageRead_def NdsRaStorageWrite_def NdsRaStorageBatchRead_def NdsRaStorageBatchWrite_def
  by (intro conjI ra_submission_settles [OF assms] ra_batch_submission_settles [OF assms])

definition sample_context :: RaStorageContext where
  "sample_context = slot_context \<lparr>rcn_runtime = 0x40, rcn_qp = 0x50\<rparr> 0x6000 0xb000 (g_slot sample_dmem 0xa000) 0x100000 0"

text \<open>
  C25: the byte total of an RA batch is exact. When \<open>decode_entries\<close> succeeds it has read the
  whole descriptor array from the device, every entry decodes, lies inside the capacity and names memory for
  all its bytes, and the total is the sum of the lengths, without wrap-around, and fits 32 bits.
\<close>

theorem ra_batch_total_exact:
  assumes "ra_decode_entries acl c args is_write (h, w) = (Inr tot, (h', w'))"
  shows "\<exists>encoded es. aclrtMemcpy_to_host acl (sb_entries_address (ba_operation args))
        (unat (sb_entry_count (ba_operation args)) * 40) w = ((0, encoded), w')
    \<and> ra_entries is_write encoded 0 (unat (sb_entry_count (ba_operation args))) = map Some es
    \<and> 0 < length es \<and> length es \<le> 1024 \<and> list_all (ra_entry_ok (rsc_capacity c)) es
    \<and> unat tot = sum_list (map (\<lambda>e. unat (fst (snd e))) es) \<and> unat tot \<le> 0xffffffff"
  by (rule ra_decode_entries_exact [OF assms])

text \<open>A device that holds one batch entry of five bytes.\<close>

definition entry_acl :: "nat cann" where
  "entry_acl = counting_acl\<lparr>aclrtMemcpy_to_host := (\<lambda>_ _ w. ((0, put_read_entry (huge_entry 5) (replicate 40 0)), w))\<rparr>"

definition sample_batch :: NdsStorageBatchOperationArgs where
  "sample_batch = \<lparr>ba_storage = sample_storage,
     ba_operation = \<lparr>sb_slot_id = 0, sb_entry_count = 1, sb_entries_address = 0x100, sb_entries_key = 1, sb_reserved = 0\<rparr>\<rparr>"

lemma sample_batch_decodes:
  "ra_decode_entries entry_acl sample_context sample_batch False (sample_host, 0) = (Inr 5, (sample_host, 0))"
proof -
  let ?b = "put_read_entry (huge_entry 5) (replicate 40 0)"
  have v: "read_entry_valid (huge_entry 5)"
    by (simp add: read_entry_valid_def huge_entry_def memory_valid_def word_le_nat_alt)
  have "length ?b = 40" using put_batch_entry_frame by simp
  moreover have "ra_decode_entry False ?b = Some (0, 5, bre_data (huge_entry 5))"
    using read_entry_codec.dec_put [OF v, of "replicate 40 0" kStorageBatchEntryBytes]
    by (simp add: ra_decode_entry_def huge_entry_def kStorageBatchEntryBytes_def)
  ultimately show ?thesis
    by (simp add: ra_decode_entries_def copy_device_to_host_def entry_acl_def sample_batch_def Let_def storage_consts
        sample_host_def sample_runtime_def sample_context_def slot_context_def huge_entry_def numeral_eq_Suc [of num.One]
        word_less_nat_alt)
qed

lemma sample_batch_addresses: "sb_entries_address (ba_operation sample_batch) = 0x100" "sb_entry_count (ba_operation sample_batch) = 1"
  by (simp_all add: sample_batch_def)

theorem ra_submissions_settle_slot_witness:
  "(\<exists>r h' w'. NdsRaStorageRead counting_ra entry_acl sample_context \<lparr>oa_storage = sample_storage, oa_operation = sample_operation\<rparr>
      (sample_host, 0) = Some (r, (h', w')) \<and> slot_settled sample_context 256 sample_host r h') \<and>
   (\<exists>r h' w'. NdsRaStorageBatchRead counting_ra entry_acl sample_context sample_batch (sample_host, 0) = Some (r, (h', w')) \<and>
      slot_settled sample_context 5 sample_host r h')"
proof -
  have clock: "ra_clock counting_ra entry_acl id"
    using counting_clock by (simp add: ra_clock_def entry_acl_def)
  have "slot_settled sample_context 5 sample_host r h'" if "batch_settled entry_acl sample_context sample_batch False (sample_host, 0) r h'" for r h'
  proof -
    from that obtain encoded w1 es where
      "aclrtMemcpy_to_host entry_acl 0x100 40 0 = ((0, encoded), w1)" "ra_entries False encoded 0 1 = map Some es"
      and s: "slot_settled sample_context (of_nat (sum_list (map (\<lambda>e. unat (fst (snd e))) es))) sample_host r h'"
      using sample_batch_addresses by (auto simp: batch_settled_def sample_batch_decodes)
    moreover obtain encoded' es' where "aclrtMemcpy_to_host entry_acl 0x100 40 0 = ((0, encoded'), 0)"
      "ra_entries False encoded' 0 1 = map Some es'" "unat (5 :: u64) = sum_list (map (\<lambda>e. unat (fst (snd e))) es')"
      using ra_decode_entries_exact [OF sample_batch_decodes] sample_batch_addresses by auto
    ultimately have "sum_list (map (\<lambda>e. unat (fst (snd e))) es) = 5" by (auto dest: map_injective simp: inj_Some)
    with s show ?thesis by simp
  qed
  with ra_submissions_settle_slot [OF clock, of sample_context "\<lparr>oa_storage = sample_storage, oa_operation = sample_operation\<rparr>"
      sample_host 0 sample_batch]
  show ?thesis by (auto simp: sample_operation_def)
qed

theorem ra_batch_total_exact_witness:
  "\<exists>encoded es. aclrtMemcpy_to_host entry_acl 0x100 40 0 = ((0, encoded), 0)
    \<and> ra_entries False encoded 0 1 = map Some es
    \<and> 0 < length es \<and> length es \<le> 1024 \<and> list_all (ra_entry_ok 0x100000) es
    \<and> 5 = sum_list (map (\<lambda>e. unat (fst (snd e))) es)"
  using ra_batch_total_exact [OF sample_batch_decodes]
  by (simp add: sample_batch_def sample_context_def slot_context_def)

end
