(* ===== verification/Ra_Launcher.thy ===== *)
theory Ra_Launcher
  imports Launcher Shared_Library Ra_Storage
begin

text \<open>
  The host wrapper of the RA backend, \<^verbatim>\<open>src/src/client/backends/ra/launcher.cc\<close>: it loads the artifact and calls
  its C functions. \<open>RaImpl\<close> holds the library and the addresses of the functions; what a call does is that of
  the artifact, the record \<open>RaBackend\<close>, of which \<open>nds_ra_artifact\<close> is the one built from \<^verbatim>\<open>entrypoints.cc\<close>.
\<close>

section \<open>The artifact\<close>

record 's RaBackend =
  call_post_send :: "NdsQpDescriptor option \<Rightarrow> NdsSendWr option \<Rightarrow> u64 \<Rightarrow> 's \<Rightarrow> (int \<times> 's) option"
  call_post_recv :: "NdsQpDescriptor option \<Rightarrow> NdsRecvWr option \<Rightarrow> 's \<Rightarrow> (int \<times> 's) option"
  call_poll_cq :: "NdsQpDescriptor option \<Rightarrow> u32 \<Rightarrow> u32 \<Rightarrow> bool \<Rightarrow> 's \<Rightarrow> ((int \<times> NdsWc list) \<times> 's) option"
  call_rdma_send :: "NdsTransportDescriptor option \<Rightarrow> u32 \<Rightarrow> NdsSendWr option \<Rightarrow> 's \<Rightarrow> (int \<times> 's) option"
  call_rdma_recv :: "NdsTransportDescriptor option \<Rightarrow> u32 \<Rightarrow> NdsRecvWr option \<Rightarrow> 's \<Rightarrow> (int \<times> 's) option"
  call_rdma_read :: "NdsTransportDescriptor option \<Rightarrow> u32 \<Rightarrow> NdsSendWr option \<Rightarrow> 's \<Rightarrow> (int \<times> 's) option"
  call_rdma_write :: "NdsTransportDescriptor option \<Rightarrow> u32 \<Rightarrow> NdsSendWr option \<Rightarrow> 's \<Rightarrow> (int \<times> 's) option"
  call_storage_bootstrap :: "NdsStorageBootstrapDescriptor option \<Rightarrow> 's \<Rightarrow> (int \<times> 's) option"
  call_storage_read :: "NdsStorageOperationArgs option \<Rightarrow> 's \<Rightarrow> (int \<times> 's) option"
  call_storage_write :: "NdsStorageOperationArgs option \<Rightarrow> 's \<Rightarrow> (int \<times> 's) option"
  call_storage_read_batch :: "NdsStorageBatchOperationArgs option \<Rightarrow> 's \<Rightarrow> (int \<times> 's) option"
  call_storage_write_batch :: "NdsStorageBatchOperationArgs option \<Rightarrow> 's \<Rightarrow> (int \<times> 's) option"
  call_storage_wait :: "NdsStorageDescriptor option \<Rightarrow> u32 \<Rightarrow> 's \<Rightarrow> (int \<times> 's) option"

definition nds_ra_artifact :: "'w libra \<Rightarrow> 'w cann \<Rightarrow> (RaHost \<times> 'w) RaBackend" where
  "nds_ra_artifact ra acl =
     \<lparr>call_post_send = (\<lambda>qp wr stream s. Some (nds_ra_backend_post_send ra acl qp wr stream s)),
      call_post_recv = (\<lambda>qp wr s. Some (nds_ra_backend_post_recv ra qp wr s)),
      call_poll_cq = (\<lambda>qp send_cq max_completions wc s. Some (nds_ra_backend_poll_cq ra qp send_cq max_completions wc s)),
      call_rdma_send = nds_ra_backend_rdma_send ra acl, call_rdma_recv = nds_ra_backend_rdma_recv ra,
      call_rdma_read = nds_ra_backend_rdma_read ra acl, call_rdma_write = nds_ra_backend_rdma_write ra acl,
      call_storage_bootstrap = nds_ra_backend_storage_bootstrap ra acl,
      call_storage_read = nds_ra_backend_storage_read ra acl, call_storage_write = nds_ra_backend_storage_write ra acl,
      call_storage_read_batch = nds_ra_backend_storage_batch_read ra acl,
      call_storage_write_batch = nds_ra_backend_storage_batch_write ra acl,
      call_storage_wait = (\<lambda>descriptor slot_id s. Some (nds_ra_backend_storage_wait acl descriptor slot_id s))\<rparr>"

section \<open>Loading\<close>

record RaImpl =
  ri_library :: SharedLibrary
  ri_post_send :: u64
  ri_post_recv :: u64
  ri_poll_cq :: u64
  ri_rdma_send :: u64
  ri_rdma_recv :: u64
  ri_rdma_read :: u64
  ri_rdma_write :: u64
  ri_storage_bootstrap :: u64
  ri_storage_read :: u64
  ri_storage_write :: u64
  ri_storage_read_batch :: u64
  ri_storage_write_batch :: u64
  ri_storage_wait :: u64

record RaLauncher =
  rl_impl :: "RaImpl option"

definition ra_resolve_all :: "'w dl \<Rightarrow> SharedLibrary \<Rightarrow> ('w, RaImpl) comp" where
  "ra_resolve_all ld library =
     (let resolve = (\<lambda>name. resolve_required ld library (Some name)) in
      rbind (resolve ''nds_ra_backend_post_send'') (\<lambda>post_send.
      rbind (resolve ''nds_ra_backend_post_recv'') (\<lambda>post_recv.
      rbind (resolve ''nds_ra_backend_poll_cq'') (\<lambda>poll_cq.
      rbind (resolve ''nds_ra_backend_rdma_send'') (\<lambda>rdma_send.
      rbind (resolve ''nds_ra_backend_rdma_recv'') (\<lambda>rdma_recv.
      rbind (resolve ''nds_ra_backend_rdma_read'') (\<lambda>rdma_read.
      rbind (resolve ''nds_ra_backend_rdma_write'') (\<lambda>rdma_write.
      rbind (resolve ''nds_ra_backend_storage_bootstrap'') (\<lambda>storage_bootstrap.
      rbind (resolve ''nds_ra_backend_storage_read'') (\<lambda>storage_read.
      rbind (resolve ''nds_ra_backend_storage_write'') (\<lambda>storage_write.
      rbind (resolve ''nds_ra_backend_storage_batch_read'') (\<lambda>storage_read_batch.
      rbind (resolve ''nds_ra_backend_storage_batch_write'') (\<lambda>storage_write_batch.
      rbind (resolve ''nds_ra_backend_storage_wait'') (\<lambda>storage_wait.
      rret \<lparr>ri_library = fst (library_move library), ri_post_send = post_send, ri_post_recv = post_recv, ri_poll_cq = poll_cq,
        ri_rdma_send = rdma_send, ri_rdma_recv = rdma_recv, ri_rdma_read = rdma_read, ri_rdma_write = rdma_write,
        ri_storage_bootstrap = storage_bootstrap, ri_storage_read = storage_read, ri_storage_write = storage_write,
        ri_storage_read_batch = storage_read_batch, ri_storage_write_batch = storage_write_batch,
        ri_storage_wait = storage_wait\<rparr>))))))))))))))"

definition ra_launcher_load :: "'w dl \<Rightarrow> string \<Rightarrow> (RaLauncher \<times> 'w, unit) comp" where
  "ra_launcher_load ld backend_path = (\<lambda>(launcher, w).
     if rl_impl launcher \<noteq> None \<or> backend_path = [] then (Inl kInvalidArgument, (launcher, w))
     else case rbind (library_open ld backend_path) (\<lambda>library. library_scope ld library (ra_resolve_all ld library)) w of
       (Inl err, w) \<Rightarrow> (Inl err, (launcher, w))
     | (Inr impl, w) \<Rightarrow> (Inr (), (launcher\<lparr>rl_impl := Some impl\<rparr>, w)))"

text \<open>The destructor of the launcher and of the implementation object closes the library.\<close>

definition ra_launcher_delete :: "'w dl \<Rightarrow> RaLauncher \<Rightarrow> 'w \<Rightarrow> 'w" where
  "ra_launcher_delete ld launcher w =
     (case rl_impl launcher of None \<Rightarrow> w | Some impl \<Rightarrow> snd (library_close ld (ri_library impl) w))"

definition ra_launcher_open :: "'w dl \<Rightarrow> string \<Rightarrow> ('w, RaLauncher) comp" where
  "ra_launcher_open ld backend_path w =
     (case ra_launcher_load ld backend_path (\<lparr>rl_impl = None\<rparr>, w) of
        (Inl err, (launcher, w)) \<Rightarrow> (Inl err, ra_launcher_delete ld launcher w)
      | (Inr _, (launcher, w)) \<Rightarrow> (Inr launcher, w))"

section \<open>Calls\<close>

text \<open>The first test of every method: the implementation and its function pointer are set.\<close>

definition ra_loaded :: "RaLauncher \<Rightarrow> (RaImpl \<Rightarrow> u64) \<Rightarrow> bool" where
  "ra_loaded launcher function = (case rl_impl launcher of None \<Rightarrow> False | Some impl \<Rightarrow> function impl \<noteq> 0)"

definition ra_call :: "RaLauncher \<Rightarrow> (RaImpl \<Rightarrow> u64) \<Rightarrow> ('s \<Rightarrow> (int \<times> 's) option) \<Rightarrow> ('s, unit) pcomp" where
  "ra_call launcher function call s =
     (if \<not> ra_loaded launcher function then Some (Inl kRuntime, s)
      else case call s of None \<Rightarrow> None | Some (result, s) \<Rightarrow> Some (if result = 0 then Inr () else Inl kRa, s))"

definition ra_post_send_with_config :: "'s RaBackend \<Rightarrow> RaLauncher \<Rightarrow> LaunchConfig \<Rightarrow> NdsQpDescriptor \<Rightarrow> NdsSendWr \<Rightarrow> ('s, unit) pcomp" where
  "ra_post_send_with_config b l config qp wr = ra_call l ri_post_send (call_post_send b (Some qp) (Some wr) (lc_stream config))"

definition ra_post_recv_with_config :: "'s RaBackend \<Rightarrow> RaLauncher \<Rightarrow> LaunchConfig \<Rightarrow> NdsQpDescriptor \<Rightarrow> NdsRecvWr \<Rightarrow> ('s, unit) pcomp" where
  "ra_post_recv_with_config b l config qp wr = ra_call l ri_post_recv (call_post_recv b (Some qp) (Some wr))"

definition ra_poll_cq_with_config :: "'s RaBackend \<Rightarrow> RaLauncher \<Rightarrow> LaunchConfig \<Rightarrow> NdsQpDescriptor \<Rightarrow> bool \<Rightarrow> u32 \<Rightarrow> bool \<Rightarrow>
    ('s, u32 \<times> NdsWc list) pcomp" where
  "ra_poll_cq_with_config b l config qp send_cq max_completions wc s =
     (if \<not> ra_loaded l ri_poll_cq then Some (Inl kRuntime, s)
      else case call_poll_cq b (Some qp) (if send_cq then 1 else 0) max_completions wc s of
        None \<Rightarrow> None
      | Some ((result, completions), s) \<Rightarrow>
          Some (if result < 0 then Inl kRa else Inr (of_int result, completions), s))"

definition ra_rdma_send_with_config :: "'s RaBackend \<Rightarrow> RaLauncher \<Rightarrow> LaunchConfig \<Rightarrow> NdsTransportDescriptor \<Rightarrow> u32 \<Rightarrow> NdsSendWr \<Rightarrow>
    ('s, unit) pcomp" where
  "ra_rdma_send_with_config b l config transport queue_index wr =
     ra_call l ri_rdma_send (call_rdma_send b (Some transport) queue_index (Some wr))"

definition ra_rdma_recv_with_config :: "'s RaBackend \<Rightarrow> RaLauncher \<Rightarrow> LaunchConfig \<Rightarrow> NdsTransportDescriptor \<Rightarrow> u32 \<Rightarrow> NdsRecvWr \<Rightarrow>
    ('s, unit) pcomp" where
  "ra_rdma_recv_with_config b l config transport queue_index wr =
     ra_call l ri_rdma_recv (call_rdma_recv b (Some transport) queue_index (Some wr))"

definition ra_rdma_read_with_config :: "'s RaBackend \<Rightarrow> RaLauncher \<Rightarrow> LaunchConfig \<Rightarrow> NdsTransportDescriptor \<Rightarrow> u32 \<Rightarrow> NdsSendWr \<Rightarrow>
    ('s, unit) pcomp" where
  "ra_rdma_read_with_config b l config transport queue_index wr =
     ra_call l ri_rdma_read (call_rdma_read b (Some transport) queue_index (Some wr))"

definition ra_rdma_write_with_config :: "'s RaBackend \<Rightarrow> RaLauncher \<Rightarrow> LaunchConfig \<Rightarrow> NdsTransportDescriptor \<Rightarrow> u32 \<Rightarrow> NdsSendWr \<Rightarrow>
    ('s, unit) pcomp" where
  "ra_rdma_write_with_config b l config transport queue_index wr =
     ra_call l ri_rdma_write (call_rdma_write b (Some transport) queue_index (Some wr))"

definition ra_storage_bootstrap_with_config :: "'s RaBackend \<Rightarrow> RaLauncher \<Rightarrow> LaunchConfig \<Rightarrow> NdsStorageBootstrapDescriptor \<Rightarrow> ('s, unit) pcomp" where
  "ra_storage_bootstrap_with_config b l config bootstrap = ra_call l ri_storage_bootstrap (call_storage_bootstrap b (Some bootstrap))"

definition ra_storage_read_with_config :: "'s RaBackend \<Rightarrow> RaLauncher \<Rightarrow> LaunchConfig \<Rightarrow> NdsStorageDescriptor \<Rightarrow> u32 \<Rightarrow> u64 \<Rightarrow> u64 \<Rightarrow>
    u32 \<Rightarrow> u32 \<Rightarrow> ('s, unit) pcomp" where
  "ra_storage_read_with_config b l config storage slot_id server_offset buffer_address buffer_key len =
     ra_call l ri_storage_read
       (call_storage_read b (Some (storage_operation_args storage slot_id server_offset buffer_address buffer_key len)))"

definition ra_storage_write_with_config :: "'s RaBackend \<Rightarrow> RaLauncher \<Rightarrow> LaunchConfig \<Rightarrow> NdsStorageDescriptor \<Rightarrow> u32 \<Rightarrow> u64 \<Rightarrow> u64 \<Rightarrow>
    u32 \<Rightarrow> u32 \<Rightarrow> ('s, unit) pcomp" where
  "ra_storage_write_with_config b l config storage slot_id server_offset buffer_address buffer_key len =
     ra_call l ri_storage_write
       (call_storage_write b (Some (storage_operation_args storage slot_id server_offset buffer_address buffer_key len)))"

definition ra_storage_read_batch_with_config :: "'s RaBackend \<Rightarrow> RaLauncher \<Rightarrow> LaunchConfig \<Rightarrow> NdsStorageDescriptor \<Rightarrow> u32 \<Rightarrow> u64 \<Rightarrow>
    u32 \<Rightarrow> u32 \<Rightarrow> ('s, unit) pcomp" where
  "ra_storage_read_batch_with_config b l config storage slot_id entries_address entries_key entry_count =
     ra_call l ri_storage_read_batch
       (call_storage_read_batch b (Some (storage_batch_args storage slot_id entries_address entries_key entry_count)))"

definition ra_storage_write_batch_with_config :: "'s RaBackend \<Rightarrow> RaLauncher \<Rightarrow> LaunchConfig \<Rightarrow> NdsStorageDescriptor \<Rightarrow> u32 \<Rightarrow> u64 \<Rightarrow>
    u32 \<Rightarrow> u32 \<Rightarrow> ('s, unit) pcomp" where
  "ra_storage_write_batch_with_config b l config storage slot_id entries_address entries_key entry_count =
     ra_call l ri_storage_write_batch
       (call_storage_write_batch b (Some (storage_batch_args storage slot_id entries_address entries_key entry_count)))"

text \<open>The wait: the clock, in nanoseconds, is read once for the deadline and after every pending answer.\<close>

partial_function (option) ra_wait_loop :: "'s RaBackend \<Rightarrow> ('s \<Rightarrow> nat \<times> 's) \<Rightarrow> NdsStorageDescriptor \<Rightarrow> u32 \<Rightarrow> nat \<Rightarrow> ('s, unit) pcomp" where
  "ra_wait_loop b now storage slot_id deadline s =
     (case call_storage_wait b (Some storage) slot_id s of
        None \<Rightarrow> None
      | Some (result, s) \<Rightarrow>
          if result = 0 then Some (Inr (), s)
          else if result \<noteq> 1 then Some (Inl kProtocol, s)
          else case now s of
            (t, s) \<Rightarrow> if t \<ge> deadline then Some (Inl kProtocol, s) else ra_wait_loop b now storage slot_id deadline s)"

definition ra_storage_wait_with_config :: "'s RaBackend \<Rightarrow> ('s \<Rightarrow> nat \<times> 's) \<Rightarrow> RaLauncher \<Rightarrow> LaunchConfig \<Rightarrow> NdsStorageDescriptor \<Rightarrow>
    u32 \<Rightarrow> ('s, unit) pcomp" where
  "ra_storage_wait_with_config b now l config storage slot_id s =
     (if \<not> ra_loaded l ri_storage_wait then Some (Inl kRuntime, s)
      else if sint (lc_sync_timeout_ms config) \<le> 0 then Some (Inl kInvalidArgument, s)
      else case now s of
        (t, s) \<Rightarrow> ra_wait_loop b now storage slot_id (t + nat (sint (lc_sync_timeout_ms config)) * 1000000) s)"

text \<open>The object as a launcher; batches are those of the base class.\<close>

definition ra_launcher_ops :: "'s RaBackend \<Rightarrow> ('s \<Rightarrow> nat \<times> 's) \<Rightarrow> RaLauncher \<Rightarrow> 's LauncherOps" where
  "ra_launcher_ops b now l =
     \<lparr>post_send_with_config = ra_post_send_with_config b l,
      post_send_batch_with_config = launcher_post_send_batch_with_config,
      post_recv_with_config = ra_post_recv_with_config b l,
      poll_cq_with_config = ra_poll_cq_with_config b l,
      rdma_send_with_config = ra_rdma_send_with_config b l,
      rdma_recv_with_config = ra_rdma_recv_with_config b l,
      rdma_read_with_config = ra_rdma_read_with_config b l,
      rdma_write_with_config = ra_rdma_write_with_config b l,
      rdma_send_batch_with_config = launcher_rdma_send_batch_with_config,
      storage_bootstrap_with_config = ra_storage_bootstrap_with_config b l,
      storage_read_with_config = ra_storage_read_with_config b l,
      storage_write_with_config = ra_storage_write_with_config b l,
      storage_read_batch_with_config = ra_storage_read_batch_with_config b l,
      storage_write_batch_with_config = ra_storage_write_batch_with_config b l,
      storage_wait_with_config = ra_storage_wait_with_config b now l\<rparr>"

definition host_now :: "'w cann \<Rightarrow> RaHost \<times> 'w \<Rightarrow> nat \<times> (RaHost \<times> 'w)" where
  "host_now acl = (\<lambda>(h, w). case client_now acl w of (t, w) \<Rightarrow> (t, (h, w)))"

section \<open>Facts on loading\<close>

definition ra_functions :: "RaImpl \<Rightarrow> u64 list" where
  "ra_functions i = [ri_post_send i, ri_post_recv i, ri_poll_cq i, ri_rdma_send i, ri_rdma_recv i, ri_rdma_read i, ri_rdma_write i,
     ri_storage_bootstrap i, ri_storage_read i, ri_storage_write i, ri_storage_read_batch i, ri_storage_write_batch i,
     ri_storage_wait i]"

lemma ra_resolve_all_neutral:
  assumes "dl_laws ld handles"
  shows "neutral handles (ra_resolve_all ld l)"
  unfolding ra_resolve_all_def Let_def
  by (intro allI keeps_bind triple_ret resolve_neutral(1) [OF assms, rule_format])

lemma ra_resolve_all_result:
  assumes "ra_resolve_all ld l w = (Inr i, w')"
  shows "ri_library i = l" and "list_all (\<lambda>a. a \<noteq> 0) (ra_functions i)"
  using assms
  by (auto simp: ra_resolve_all_def Let_def rbind_eq_Inr_iff library_move_def ra_functions_def dest: resolve_required_nonzero(1))

lemma ra_launcher_open_handles:
  assumes laws: "dl_laws ld handles" and run: "ra_launcher_open ld path w = (r, w')"
  shows "case r of
      Inl _ \<Rightarrow> handles w' = handles w
    | Inr launcher \<Rightarrow> (\<exists>i. rl_impl launcher = Some i \<and> list_all (\<lambda>a. a \<noteq> 0) (ra_functions i)
        \<and> shl_handle (ri_library i) \<noteq> 0 \<and> handles w' = holds (ri_library i) (handles w))"
proof (cases "path = []")
  case True
  with run show ?thesis by (auto simp: ra_launcher_open_def ra_launcher_load_def ra_launcher_delete_def)
next
  case False
  obtain r1 w1 where o: "library_open ld path w = (r1, w1)" by fastforce
  note ho = library_open_handles [OF laws o]
  show ?thesis
  proof (cases r1)
    case (Inl e)
    with run False o ho show ?thesis
      by (auto simp: ra_launcher_open_def ra_launcher_load_def ra_launcher_delete_def rbind_def)
  next
    case (Inr l)
    obtain r2 w2 where s: "library_scope ld l (ra_resolve_all ld l) w1 = (r2, w2)" by fastforce
    from ho Inr have "handles w1 = holds l (handles w)" by simp
    note hs = library_scope_handles [OF laws ra_resolve_all_neutral [OF laws] this s]
    from run False o Inr s have "w' = w2 \<and> r = (case r2 of Inl e \<Rightarrow> Inl e | Inr i \<Rightarrow> Inr \<lparr>rl_impl = Some i\<rparr>)"
      by (cases r2) (auto simp: ra_launcher_open_def ra_launcher_load_def ra_launcher_delete_def rbind_def)
    with hs ho Inr ra_resolve_all_result [of ld l w1 _ w2] s show ?thesis
      by (cases r2) (auto simp: library_scope_Inr)
  qed
qed

text \<open>The outcomes of opening: nothing changed, or one more handle, owned by the new object, with all \<open>n\<close> required functions found.\<close>

definition library_opened :: "nat \<Rightarrow> ('w \<Rightarrow> u64 \<Rightarrow> nat) \<Rightarrow> 'w \<Rightarrow> Loaded result \<times> 'w \<Rightarrow> bool" where
  "library_opened n handles w out \<longleftrightarrow>
     (case out of
        (Inl _, w') \<Rightarrow> handles w' = handles w
      | (Inr x, w') \<Rightarrow> shl_handle (ld_library x) \<noteq> 0 \<and> length (ld_required x) = n \<and> list_all (\<lambda>a. a \<noteq> 0) (ld_required x)
          \<and> handles w' = holds (ld_library x) (handles w))"

definition launcher_opened :: "('w \<Rightarrow> u64 \<Rightarrow> nat) \<Rightarrow> 'w \<Rightarrow> RaLauncher result \<times> 'w \<Rightarrow> bool" where
  "launcher_opened handles w out \<longleftrightarrow>
     (case out of
        (Inl _, w') \<Rightarrow> handles w' = handles w
      | (Inr launcher, w') \<Rightarrow>
          (case rl_impl launcher of
             None \<Rightarrow> False
           | Some i \<Rightarrow> shl_handle (ri_library i) \<noteq> 0 \<and> list_all (\<lambda>a. a \<noteq> 0) (ra_functions i)
               \<and> handles w' = holds (ri_library i) (handles w)))"

lemma open_with_opened: "dl_laws ld handles \<Longrightarrow> library_opened (length required) handles w (open_with required optional ld path w)"
  using open_with_handles [of ld handles required optional path w] open_with_resolved [of required optional ld path w]
  by (auto simp: library_opened_def split: prod.splits sum.splits)

text \<open>
  C27: no handle of the dynamic loader leaks. Opening one of the three libraries or the RA artifact either
  fails with exactly the handles that were open before, or returns an object that owns one more, with every
  required function resolved; destroying an opened launcher closes its handle again.
\<close>

theorem loaders_release_handles:
  assumes "dl_laws ld handles"
  shows "library_opened (length libra_required) handles w (Libra_open ld path w) \<and> library_opened 4 handles w (Libruntime_open ld path w)
    \<and> library_opened 1 handles w (Libdsmi_open ld path w) \<and> launcher_opened handles w (ra_launcher_open ld path w)
    \<and> (case ra_launcher_open ld path w of
         (Inl _, w') \<Rightarrow> handles w' = handles w
       | (Inr launcher, w') \<Rightarrow> handles (ra_launcher_delete ld launcher w') = handles w)"
proof -
  obtain r w' where run: "ra_launcher_open ld path w = (r, w')" by fastforce
  note h = ra_launcher_open_handles [OF assms run]
  have "launcher_opened handles w (r, w')" using h by (auto simp: launcher_opened_def split: sum.splits)
  moreover have "case r of Inl _ \<Rightarrow> handles w' = handles w | Inr launcher \<Rightarrow> handles (ra_launcher_delete ld launcher w') = handles w"
    using h library_close_handles [OF assms, of w'] by (auto simp: ra_launcher_delete_def split: sum.splits)
  ultimately show ?thesis
    using open_with_opened [OF assms, of libra_required w libra_optional path]
      open_with_opened [OF assms, of "[''rtSetDevice'', ''rtOpenNetService'', ''rtCloseNetService'', ''rtRDMADBSend'']" w "[]" path]
      open_with_opened [OF assms, of "[''dsmi_get_device_ip_address'']" w "[]" path] run
    by (simp add: Libra_open_def Libruntime_open_def Libdsmi_open_def eval_nat_numeral)
qed

text \<open>A loader whose world counts the open handles; one symbol is missing.\<close>

definition counting_dl :: "(u64 \<Rightarrow> nat) dl" where
  "counting_dl = \<lparr>dlopen = (\<lambda>_ w. (7, w(7 := w 7 + 1))), dlclose = (\<lambda>h w. (0, w(h := w h - 1))),
     dlsym = (\<lambda>h n w. (if n = ''nds_ra_backend_poll_cq'' then 0 else 0x1000, w)), dlerror = (\<lambda>w. (None, w))\<rparr>"

lemma counting_dl_laws: "dl_laws counting_dl id"
  by (simp add: dl_laws_def counting_dl_def)

theorem loaders_release_handles_witness:
  "library_opened (length libra_required) id (\<lambda>_. 0) (Libra_open counting_dl ''libnds_ra.so'' (\<lambda>_. 0))
    \<and> library_opened 4 id (\<lambda>_. 0) (Libruntime_open counting_dl ''libnds_ra.so'' (\<lambda>_. 0))
    \<and> library_opened 1 id (\<lambda>_. 0) (Libdsmi_open counting_dl ''libnds_ra.so'' (\<lambda>_. 0))
    \<and> launcher_opened id (\<lambda>_. 0) (ra_launcher_open counting_dl ''libnds_ra.so'' (\<lambda>_. 0))
    \<and> (case ra_launcher_open counting_dl ''libnds_ra.so'' (\<lambda>_. 0) of
         (Inl _, w') \<Rightarrow> id w' = id (\<lambda>_. 0)
       | (Inr launcher, w') \<Rightarrow> id (ra_launcher_delete counting_dl launcher w') = id (\<lambda>_. 0))"
  by (rule loaders_release_handles [OF counting_dl_laws])

section \<open>Waiting\<close>

text \<open>A probe leaves the host's objects alone.\<close>

lemma nds_ra_backend_storage_wait_host:
  "nds_ra_backend_storage_wait acl d slot_id (h, w) = (v, (h', w')) \<Longrightarrow> h' = h"
  by (auto simp: nds_ra_backend_storage_wait_def NdsRaStorageWait_def Let_def
      split: option.splits if_splits sum.splits prod.splits StorageSerdeResult.splits)

text \<open>What the wait relies on: the clock is not set back by a probe, and reading it takes time.\<close>

definition reading_clock :: "'w cann \<Rightarrow> ('w \<Rightarrow> nat) \<Rightarrow> bool" where
  "reading_clock acl clock \<longleftrightarrow>
     (\<forall>w. clock w \<le> fst (client_now acl w) \<and> clock w < clock (snd (client_now acl w)))
     \<and> (\<forall>a n w. clock w \<le> clock (snd (aclrtMemcpy_to_host acl a n w)))"

lemma nds_ra_backend_storage_wait_clock:
  assumes "reading_clock acl clock" and "nds_ra_backend_storage_wait acl d slot_id (h, w) = (v, (h', w'))"
  shows "clock w \<le> clock w'"
proof -
  have "clock w \<le> clock w'" if "copy_device_to_host acl rt a n w = (r, w')" for rt a n r w w'
    using that assms(1) unfolding copy_device_to_host_def reading_clock_def
    by (auto split: if_splits prod.splits) (metis snd_conv)+
  with assms(2) show ?thesis
    by (auto simp: nds_ra_backend_storage_wait_def NdsRaStorageWait_def Let_def
        split: option.splits if_splits sum.splits prod.splits StorageSerdeResult.splits)
qed

lemma ra_wait_loop_outcome:
  assumes "reading_clock acl clock"
  shows "\<exists>r w' w1 w2 v. ra_wait_loop (nds_ra_artifact ra acl) (host_now acl) storage slot_id deadline (h, w) = Some (r, (h, w'))
    \<and> clock w \<le> clock w1 \<and> nds_ra_backend_storage_wait acl (Some storage) slot_id (h, w1) = (v, (h, w2))
    \<and> r = (if v = 0 then Inr () else Inl kProtocol) \<and> (v = 1 \<longrightarrow> deadline \<le> fst (client_now acl w2))"
proof (induction "deadline - clock w" arbitrary: w rule: less_induct)
  case less
  obtain v h1 w2 where p: "nds_ra_backend_storage_wait acl (Some storage) slot_id (h, w) = (v, (h1, w2))" by (metis prod_cases3)
  have h1: "h1 = h" by (rule nds_ra_backend_storage_wait_host [OF p])
  obtain t w3 where n: "client_now acl w2 = (t, w3)" by fastforce
  let ?loop = "ra_wait_loop (nds_ra_artifact ra acl) (host_now acl) storage slot_id deadline"
  have step: "?loop (h, w) = (if v = 0 then Some (Inr (), (h, w2)) else if v \<noteq> 1 then Some (Inl kProtocol, (h, w2))
      else if t \<ge> deadline then Some (Inl kProtocol, (h, w3)) else ?loop (h, w3))"
    using p h1 n by (subst ra_wait_loop.simps) (simp add: nds_ra_artifact_def host_now_def)
  show ?case
  proof (cases "v = 1 \<and> t < deadline")
    case False
    with step p h1 n show ?thesis
      by (intro exI [of _ "if v = 0 then Inr () else Inl kProtocol"] exI [of _ "if v = 1 then w3 else w2"]
          exI [of _ w] exI [of _ w2] exI [of _ v]) auto
  next
    case True
    have "clock w \<le> clock w2" by (rule nds_ra_backend_storage_wait_clock [OF assms p])
    moreover have "clock w2 \<le> t" "clock w2 < clock w3" using assms n unfolding reading_clock_def by (metis fst_conv snd_conv)+
    ultimately have "deadline - clock w3 < deadline - clock w" "clock w \<le> clock w3" using True by linarith+
    with less [OF this(1)] step True show ?thesis by (auto intro: order_trans) (metis order_trans)+
  qed
qed

text \<open>C26: waiting through a loaded RA launcher returns when reading the clock takes time, and changes no object of the
  host. Success means that a probe, made during the wait, judged the completion a success. A protocol error means
  that the last probe gave another verdict or, after a pending one, that the timeout had passed.\<close>

theorem ra_launcher_wait_settles:
  assumes "reading_clock acl clock" and "ra_loaded l ri_storage_wait" and "0 < sint (lc_sync_timeout_ms config)"
  shows "\<exists>r w' w1 w2 v.
    launcher_storage_wait (ra_launcher_ops (nds_ra_artifact ra acl) (host_now acl) l) config storage slot_id (h, w) = Some (r, (h, w'))
    \<and> clock w \<le> clock w1 \<and> nds_ra_backend_storage_wait acl (Some storage) slot_id (h, w1) = (v, (h, w2))
    \<and> r = (if v = 0 then Inr () else Inl kProtocol)
    \<and> (v = 1 \<longrightarrow> fst (client_now acl w) + nat (sint (lc_sync_timeout_ms config)) * 1000000 \<le> fst (client_now acl w2))"
proof -
  obtain t w0 where n: "client_now acl w = (t, w0)" by fastforce
  have c: "clock w \<le> clock w0" using assms(1) n unfolding reading_clock_def by (metis less_imp_le snd_conv)
  let ?d = "t + nat (sint (lc_sync_timeout_ms config)) * 1000000"
  from ra_wait_loop_outcome [OF assms(1), of ra storage slot_id ?d h w0] obtain r w' w1 w2 v where
    "ra_wait_loop (nds_ra_artifact ra acl) (host_now acl) storage slot_id ?d (h, w0) = Some (r, (h, w'))" "clock w0 \<le> clock w1"
    "nds_ra_backend_storage_wait acl (Some storage) slot_id (h, w1) = (v, (h, w2))"
    "r = (if v = 0 then Inr () else Inl kProtocol)" "v = 1 \<longrightarrow> ?d \<le> fst (client_now acl w2)" by blast
  with assms(2,3) n c show ?thesis
    by (intro exI [of _ r] exI [of _ w'] exI [of _ w1] exI [of _ w2] exI [of _ v])
      (auto simp: launcher_storage_wait_def ra_launcher_ops_def ra_storage_wait_with_config_def host_now_def)
qed

definition ticking_acl :: "nat cann" where
  "ticking_acl = sample_acl\<lparr>client_now := (\<lambda>w. (w, w + 1)), aclrtMemcpy_to_host := (\<lambda>_ n w. ((0, replicate n 0), w))\<rparr>"

definition sample_impl :: RaImpl where
  "sample_impl = \<lparr>ri_library = \<lparr>shl_handle = 7\<rparr>, ri_post_send = 1, ri_post_recv = 1, ri_poll_cq = 1, ri_rdma_send = 1, ri_rdma_recv = 1,
     ri_rdma_read = 1, ri_rdma_write = 1, ri_storage_bootstrap = 1, ri_storage_read = 1, ri_storage_write = 1,
     ri_storage_read_batch = 1, ri_storage_write_batch = 1, ri_storage_wait = 1\<rparr>"

definition sample_launcher :: RaLauncher where
  "sample_launcher = \<lparr>rl_impl = Some sample_impl\<rparr>"

lemma ticking_clock: "reading_clock ticking_acl id"
  by (simp add: reading_clock_def ticking_acl_def)

theorem ra_launcher_wait_settles_witness:
  "\<exists>r w' w1 w2 v.
    launcher_storage_wait (ra_launcher_ops (nds_ra_artifact counting_ra ticking_acl) (host_now ticking_acl) sample_launcher)
      default_launch_config sample_storage 0 (sample_host, 0) = Some (r, (sample_host, w'))
    \<and> id 0 \<le> id w1 \<and> nds_ra_backend_storage_wait ticking_acl (Some sample_storage) 0 (sample_host, w1) = (v, (sample_host, w2))
    \<and> r = (if v = 0 then Inr () else Inl kProtocol)
    \<and> (v = 1 \<longrightarrow> fst (client_now ticking_acl 0) + nat (sint (lc_sync_timeout_ms default_launch_config)) * 1000000
         \<le> fst (client_now ticking_acl w2))"
  by (rule ra_launcher_wait_settles [OF ticking_clock])
    (simp_all add: ra_loaded_def sample_launcher_def sample_impl_def default_launch_config_def)

section \<open>Submitting\<close>

text \<open>
  What a submission of \<open>n\<close> bytes through the descriptor \<open>d\<close> may do to the slots. Success claims the free slot that
  the identifier names; a failure changes nothing or gives a slot it had claimed back.
\<close>

definition slot_submitted :: "NdsStorageDescriptor \<Rightarrow> u32 \<Rightarrow> u32 \<Rightarrow> RaHost \<Rightarrow> bool \<Rightarrow> RaHost \<Rightarrow> bool" where
  "slot_submitted d slot_id n h success h' \<longleftrightarrow>
     (case nds_storage_state (Some d) (nds_storage_slot_id_index slot_id) of
        None \<Rightarrow> \<not> success \<and> storage_state h' = storage_state h
      | Some a \<Rightarrow>
          (let s = storage_state h a
           in if success
              then n \<noteq> 0 \<and> ss_in_flight s = 0 \<and> storage_state h' = (storage_state h)(a := s\<lparr>ss_expected_bytes := n, ss_in_flight := 1\<rparr>)
              else storage_state h' = storage_state h
                \<or> ss_in_flight s = 0
                  \<and> storage_state h' = (storage_state h)(a := s\<lparr>ss_expected_bytes := 0, ss_in_flight := 0, ss_status := 0\<rparr>)))"

lemma slot_submitted_refused [simp]: "slot_submitted d slot_id n h False h"
  by (simp add: slot_submitted_def split: option.splits)

lemma slot_settled_submitted:
  assumes "nds_storage_state (Some d) (nds_storage_slot_id_index slot_id) = Some a"
    and "slot_settled (slot_context connection transport_address a slot capacity i) n h r h'"
  shows "slot_submitted d slot_id n h (ok r) h'"
  using assms
  by (cases r) (auto simp: slot_submitted_def slot_settled_def slot_context_def Let_def fun_eq_iff)

lemma storage_operation_submits:
  assumes "\<And>c h w. \<exists>r h' w'. operation c args (h, w) = Some (r, (h', w')) \<and> slot_settled c n h r h'"
  shows "\<exists>v h' w'. storage_operation storage slot_id (Some args) operation (h, w) = Some (v, (h', w'))
    \<and> slot_submitted (storage args) (slot_id args) n h (v = 0) h'"
proof -
  let ?d = "storage args" and ?i = "nds_storage_slot_id_index (slot_id args)"
  have refused: ?thesis if "storage_operation storage slot_id (Some args) operation (h, w) = Some (-1, (h, w))"
    using that by auto
  show ?thesis
  proof (cases "nds_storage_descriptor_valid (Some ?d) \<and> nds_storage_slot_id_valid (rh_mem h) (Some ?d) (slot_id args)
      \<and> nds_storage_slot (Some ?d) ?i \<noteq> None")
    case False
    then show ?thesis by (intro refused) (auto simp: storage_operation_def Let_def split: option.splits)
  next
    case True
    then obtain p where p: "nds_storage_slot (Some ?d) ?i = Some p" by auto
    let ?slot = "g_slot (rh_mem h) p"
    show ?thesis
    proof (cases "nds_transport_qp (Some (sd_transport ?d)) (sl_qp_index ?slot) \<noteq> None
        \<and> nds_transport_qp_state (Some (sd_transport ?d)) (sl_qp_index ?slot) \<noteq> None
        \<and> nds_storage_state (Some ?d) ?i \<noteq> None
        \<and> ok (host_connection (g_qp (rh_mem h) (the (nds_transport_qp (Some (sd_transport ?d)) (sl_qp_index ?slot)))))")
      case False
      with True p show ?thesis
        by (intro refused) (auto simp: storage_operation_def Let_def split: option.splits sum.splits)
    next
      case ready: True
      then obtain qp ta a connection where
        q: "nds_transport_qp (Some (sd_transport ?d)) (sl_qp_index ?slot) = Some qp"
          "nds_transport_qp_state (Some (sd_transport ?d)) (sl_qp_index ?slot) = Some ta"
          "nds_storage_state (Some ?d) ?i = Some a" "host_connection (g_qp (rh_mem h) qp) = Inr connection"
        by (auto simp: ok_iff)
      let ?c = "slot_context connection ta a ?slot (sd_capacity ?d) ?i"
      from assms [of ?c h w] obtain r h' w' where
        run: "operation ?c args (h, w) = Some (r, (h', w'))" "slot_settled ?c n h r h'" by blast
      have "storage_operation storage slot_id (Some args) operation (h, w) = Some (ra_status r, (h', w'))"
        using True p q run(1) by (simp add: storage_operation_def Let_def)
      moreover have "ok r \<longleftrightarrow> ra_status r = 0" by (simp add: ra_status_def)
      ultimately show ?thesis using slot_settled_submitted [OF q(3) run(2)] by auto
    qed
  qed
qed

lemma ra_call_submits:
  assumes "ra_loaded l f" and "\<exists>v h' w'. call (h, w) = Some (v, (h', w')) \<and> slot_submitted d slot_id n h (v = 0) h'"
  shows "\<exists>r h' w'. ra_call l f call (h, w) = Some (r, (h', w')) \<and> r \<in> {Inr (), Inl kRa} \<and> slot_submitted d slot_id n h (ok r) h'"
proof -
  from assms(2) obtain v h' w' where "call (h, w) = Some (v, (h', w'))" "slot_submitted d slot_id n h (v = 0) h'" by blast
  with assms(1) show ?thesis by (cases "v = 0") (auto simp: ra_call_def)
qed

text \<open>A view of a launcher on the artifact.\<close>

definition ra_view :: "'w libra \<Rightarrow> 'w cann \<Rightarrow> RaLauncher \<Rightarrow> LaunchConfig \<Rightarrow> (RaHost \<times> 'w) ConfiguredLauncherView" where
  "ra_view ra acl l config = with_config (ra_launcher_ops (nds_ra_artifact ra acl) (host_now acl) l) config"

text \<open>C7: a storage read or write through a configured view of a loaded RA launcher, synchronous or not, returns when
  polling takes time, with success or with the error of the backend. Success claims exactly the slot that the
  identifier names, which was free, for the submitted length; after an error every slot is as before, or the
  named slot, which was free, is free again. An empty view is refused and nothing changes.\<close>

theorem ra_view_submits:
  assumes "ra_clock ra acl clock" and "ra_loaded l ri_storage_read" and "ra_loaded l ri_storage_write"
  shows "(\<exists>r h' w'. view_storage_read (ra_view ra acl l config) d slot_id offset address key n (h, w) = Some (r, (h', w'))
      \<and> r \<in> {Inr (), Inl kRa} \<and> slot_submitted d slot_id n h (ok r) h')
    \<and> (\<exists>r h' w'. view_storage_write (ra_view ra acl l config) d slot_id offset address key n (h, w) = Some (r, (h', w'))
      \<and> r \<in> {Inr (), Inl kRa} \<and> slot_submitted d slot_id n h (ok r) h')
    \<and> view_storage_read ((ra_view ra acl l config)\<lparr>clv_launcher := None\<rparr>) d slot_id offset address key n (h, w) = Some (Inl kInvalidArgument, (h, w))"
proof -
  let ?args = "storage_operation_args d slot_id offset address key n"
  have args: "oa_storage ?args = d" "so_slot_id (oa_operation ?args) = slot_id" "so_length (oa_operation ?args) = n"
    by (simp_all add: storage_operation_args_def)
  have "\<exists>r h' w'. NdsRaStorageRead ra acl c ?args (h, w) = Some (r, (h', w')) \<and> slot_settled c n h r h'"
    and "\<exists>r h' w'. NdsRaStorageWrite ra acl c ?args (h, w) = Some (r, (h', w')) \<and> slot_settled c n h r h'" for c h w
    unfolding NdsRaStorageRead_def NdsRaStorageWrite_def args(3) by (rule ra_submission_settles [OF assms(1)])+
  note sub = storage_operation_submits [where args = ?args and storage = oa_storage and slot_id = "\<lambda>a. so_slot_id (oa_operation a)",
      unfolded args(1,2)]
  have rd: "\<exists>v h' w'. nds_ra_backend_storage_read ra acl (Some ?args) (h, w) = Some (v, (h', w'))
      \<and> slot_submitted d slot_id n h (v = 0) h'"
    unfolding nds_ra_backend_storage_read_def by (rule sub) fact
  have wr: "\<exists>v h' w'. nds_ra_backend_storage_write ra acl (Some ?args) (h, w) = Some (v, (h', w'))
      \<and> slot_submitted d slot_id n h (v = 0) h'"
    unfolding nds_ra_backend_storage_write_def by (rule sub) fact
  show ?thesis
    using ra_call_submits [where call = "nds_ra_backend_storage_read ra acl (Some ?args)", OF assms(2) rd]
      ra_call_submits [where call = "nds_ra_backend_storage_write ra acl (Some ?args)", OF assms(3) wr]
    by (simp add: ra_view_def view_storage_read_def view_storage_write_def when_launcher_def with_config_def ra_launcher_ops_def
        ra_storage_read_with_config_def ra_storage_write_with_config_def nds_ra_artifact_def)
qed

theorem ra_view_submits_witness:
  "(\<exists>r h' w'. view_storage_read (ra_view counting_ra counting_acl sample_launcher default_launch_config) sample_storage 0 0 0x1000 1 5 (sample_host, 0) = Some (r, (h', w'))
      \<and> r \<in> {Inr (), Inl kRa} \<and> slot_submitted sample_storage 0 5 sample_host (ok r) h')
    \<and> (\<exists>r h' w'. view_storage_write (ra_view counting_ra counting_acl sample_launcher default_launch_config) sample_storage 0 0 0x1000 1 5 (sample_host, 0) = Some (r, (h', w'))
      \<and> r \<in> {Inr (), Inl kRa} \<and> slot_submitted sample_storage 0 5 sample_host (ok r) h')
    \<and> view_storage_read ((ra_view counting_ra counting_acl sample_launcher default_launch_config)\<lparr>clv_launcher := None\<rparr>) sample_storage 0 0 0x1000 1 5 (sample_host, 0) =
        Some (Inl kInvalidArgument, (sample_host, 0))"
  by (rule ra_view_submits [OF counting_clock]) (simp_all add: ra_loaded_def sample_launcher_def sample_impl_def)

end
