(* ===== verification/Device_Launch.thy ===== *)
theory Device_Launch
  imports Launcher Client_Runtime
begin

text \<open>
  What the launchers of the two device backends share, \<^verbatim>\<open>src/src/client/backends/aicpu/launcher.cc\<close> and
  \<^verbatim>\<open>aiv/launcher.cc\<close>: loading a binary, the cache of its functions, launching a kernel and waiting for its
  stream. The functions of AscendCL they call are the fields of the parameter record \<open>aclrt\<close>, next to the memory
  functions of \<open>cann\<close>. The byte order of the host is a parameter.
\<close>

section \<open>Errors with the status they report\<close>

text \<open>
  The wait loops of the launchers look into the text of an error, so that errors carry here what the text says: most end
  in a colon and the decimal text of a status, the others have no colon. None of the fixed parts contains a
  colon followed by a number.
\<close>

type_synonym launch_error = "ErrorCode \<times> int option"
type_synonym ('s, 'a) lcomp = "'s \<Rightarrow> (launch_error + 'a) \<times> 's"

definition lbind :: "('s, 'a) lcomp \<Rightarrow> ('a \<Rightarrow> ('s, 'b) lcomp) \<Rightarrow> ('s, 'b) lcomp" where
  "lbind m f s = (case m s of (Inl e, t) \<Rightarrow> (Inl e, t) | (Inr x, t) \<Rightarrow> f x t)"

text \<open>The test \<open>message.find(": -4")\<close>.\<close>

definition reports_pending :: "launch_error \<Rightarrow> bool" where
  "reports_pending e = (case snd e of None \<Rightarrow> False | Some n \<Rightarrow> take 2 (int_text n) = ''-4'')"

text \<open>The error without its text.\<close>

definition drop_status :: "launch_error + 'a \<Rightarrow> 'a result" where
  "drop_status r = (case r of Inl e \<Rightarrow> Inl (fst e) | Inr x \<Rightarrow> Inr x)"

definition as_method :: "('s, 'a) lcomp \<Rightarrow> ('s, 'a) pcomp" where
  "as_method m s = (case m s of (r, s) \<Rightarrow> Some (drop_status r, s))"

section \<open>AscendCL\<close>

datatype LoadOption = CpuKernelMode nat | LazyLoad nat
datatype KernelAttribute = AttrTimeout nat | AttrSchemMode nat | AttrEngineAiv
datatype KernelConfig = CallerConfig u64 | Attributes "KernelAttribute list"

text \<open>The handles that the C functions store through a pointer are returned next to the status.\<close>

record ('a, 'w) aclrt =
  aclrtBinaryLoadFromFile :: "string \<Rightarrow> LoadOption \<Rightarrow> 'w \<Rightarrow> (int \<times> u64) \<times> 'w"
  aclrtBinaryUnLoad :: "u64 \<Rightarrow> 'w \<Rightarrow> int \<times> 'w"
  aclrtBinaryGetFunction :: "u64 \<Rightarrow> string \<Rightarrow> 'w \<Rightarrow> (int \<times> u64) \<times> 'w"
  aclrtLaunchKernelWithHostArgs :: "u64 \<Rightarrow> u32 \<Rightarrow> u64 \<Rightarrow> KernelConfig \<Rightarrow> 'a \<Rightarrow> nat \<Rightarrow> u64 \<Rightarrow> u32 \<Rightarrow> 'w \<Rightarrow> int \<times> 'w"
  aclrtSynchronizeStreamWithTimeout :: "u64 \<Rightarrow> i32 \<Rightarrow> 'w \<Rightarrow> int \<times> 'w"
  aclrtCreateStream :: "'w \<Rightarrow> (int \<times> u64) \<times> 'w"
  aclrtDestroyStream :: "u64 \<Rightarrow> 'w \<Rightarrow> int \<times> 'w"

text \<open>The outside of a launcher: AscendCL, the runtime objects by address, the byte order.\<close>

record ('a, 'w) launch_host =
  lh_dev :: "('a, 'w) aclrt"
  lh_acl :: "'w cann"
  lh_runtime :: "u64 \<Rightarrow> Runtime"
  lh_endian :: endian

section \<open>The launcher object\<close>

record DeviceLauncher =
  dln_runtime :: u64
  dln_binary :: u64
  dln_functions :: "string \<rightharpoonup> u64"

definition device_loaded :: "'x DeviceLauncher_scheme \<Rightarrow> bool" where
  "device_loaded l \<longleftrightarrow> dln_binary l \<noteq> 0"

definition device_unload :: "('a, 'w) aclrt \<Rightarrow> 'x DeviceLauncher_scheme \<times> 'w \<Rightarrow> 'x DeviceLauncher_scheme \<times> 'w" where
  "device_unload dev = (\<lambda>(l, w).
     let l = l\<lparr>dln_functions := Map.empty\<rparr>;
         w = (if dln_binary l \<noteq> 0 then snd (aclrtBinaryUnLoad dev (dln_binary l) w) else w)
     in (l\<lparr>dln_binary := 0\<rparr>, w))"

definition device_load :: "('a, 'w) aclrt \<Rightarrow> ('x DeviceLauncher_scheme \<times> 'w \<Rightarrow> 'x DeviceLauncher_scheme \<times> 'w) \<Rightarrow> LoadOption \<Rightarrow>
    string \<Rightarrow> ('x DeviceLauncher_scheme \<times> 'w, unit) comp" where
  "device_load dev reset option kernel_path = (\<lambda>(l, w).
     if device_loaded l \<or> kernel_path = [] then (Inl kInvalidArgument, (l, w))
     else case aclrtBinaryLoadFromFile dev kernel_path option w of
       ((load_result, binary), w) \<Rightarrow>
         (let l = l\<lparr>dln_binary := binary\<rparr>
          in if load_result \<noteq> 0 \<or> binary = 0 then (Inl kRuntime, reset (l, w)) else (Inr (), (l, w))))"

text \<open>\<open>try_emplace\<close> in the cache, and the lookup for a new name; the status is that of the lookup.\<close>

definition find_function :: "('a, 'w) aclrt \<Rightarrow> string \<Rightarrow> 'x DeviceLauncher_scheme \<times> 'w \<Rightarrow> (int + u64) \<times> 'x DeviceLauncher_scheme \<times> 'w" where
  "find_function dev kernel_name = (\<lambda>(l, w).
     case dln_functions l kernel_name of
       Some f \<Rightarrow> (Inr f, (l, w))
     | None \<Rightarrow>
         (case aclrtBinaryGetFunction dev (dln_binary l) kernel_name w of
            ((result, f), w) \<Rightarrow>
              if result \<noteq> 0 \<or> f = 0 then (Inl result, (l, w))
              else (Inr f, (l\<lparr>dln_functions := (dln_functions l)(kernel_name \<mapsto> f)\<rparr>, w))))"

definition device_launch :: "('a, 'w) aclrt \<Rightarrow> KernelAttribute list \<Rightarrow> string option \<Rightarrow> LaunchConfig \<Rightarrow> 'a option \<Rightarrow> nat \<Rightarrow>
    'x DeviceLauncher_scheme \<times> 'w \<Rightarrow> int \<times> 'x DeviceLauncher_scheme \<times> 'w" where
  "device_launch dev default_attributes kernel_name config arguments argument_size s =
     (case (kernel_name, arguments) of
        (Some name, Some args) \<Rightarrow>
          if \<not> device_loaded (fst s) \<or> argument_size = 0 \<or> lc_stream config = 0 \<or> lc_block_dim config = 0 then (-1, s)
          else
            (case find_function dev name s of
               (Inl result, s) \<Rightarrow> (result, s)
             | (Inr f, (l, w)) \<Rightarrow>
                 (let kernel_config = (if lc_kernel_config config = 0 then Attributes default_attributes
                                       else CallerConfig (lc_kernel_config config))
                  in case aclrtLaunchKernelWithHostArgs dev f (lc_block_dim config) (lc_stream config) kernel_config args argument_size
                            (lc_l2ctrl config) (lc_flags config) w of
                       (result, w) \<Rightarrow> (result, (l, w))))
      | _ \<Rightarrow> (-1, s))"

definition device_launch_and_wait :: "('a, 'w) aclrt \<Rightarrow> KernelAttribute list \<Rightarrow> string option \<Rightarrow> 'a option \<Rightarrow> nat \<Rightarrow> u32 \<Rightarrow>
    ('x DeviceLauncher_scheme \<times> 'w, unit) lcomp" where
  "device_launch_and_wait dev default_attributes kernel_name arguments argument_size timeout_ms = (\<lambda>(l, w).
     if timeout_ms = 0 \<or> timeout_ms > INT32_MAX then (Inl (kInvalidArgument, None), (l, w))
     else case aclrtCreateStream dev w of
       ((create_result, stream), w) \<Rightarrow>
         if create_result \<noteq> 0 \<or> stream = 0 then (Inl (kRuntime, Some create_result), (l, w))
         else
           (let config = default_launch_config\<lparr>lc_stream := stream, lc_sync := True, lc_sync_timeout_ms := timeout_ms\<rparr>
            in case device_launch dev default_attributes kernel_name config arguments argument_size (l, w) of
                 (launch_result, (l, w)) \<Rightarrow>
                   if launch_result \<noteq> 0
                   then (Inl (kRuntime, Some launch_result), (l, snd (aclrtDestroyStream dev stream w)))
                   else case aclrtSynchronizeStreamWithTimeout dev stream (lc_sync_timeout_ms config) w of
                     (sync_result, w) \<Rightarrow>
                       (if sync_result = 0 then Inr () else Inl (kRuntime, Some sync_result),
                        (l, snd (aclrtDestroyStream dev stream w)))))"

text \<open>The part that every synchronous operation has: launch, then wait for the stream.\<close>

definition launch_and_sync :: "('a, 'w) aclrt \<Rightarrow> KernelAttribute list \<Rightarrow> LaunchConfig \<Rightarrow> string \<Rightarrow> 'a \<Rightarrow> nat \<Rightarrow>
    ('x DeviceLauncher_scheme \<times> 'w, unit) lcomp" where
  "launch_and_sync dev default_attributes config entry arguments argument_size s =
     (case device_launch dev default_attributes (Some entry) config (Some arguments) argument_size s of
        (launch_result, (l, w)) \<Rightarrow>
          if launch_result \<noteq> 0 then (Inl (kRuntime, Some launch_result), (l, w))
          else case aclrtSynchronizeStreamWithTimeout dev (lc_stream config) (lc_sync_timeout_ms config) w of
            (sync_result, w) \<Rightarrow>
              if sync_result \<noteq> 0 then (Inl (kRuntime, Some sync_result), (l, w)) else (Inr (), (l, w)))"

section \<open>Buffers of a launch\<close>

text \<open>
  The runtime's operations with the status in their error: the outside functions are pure on the world,
  so that the status is that of the call that the operation makes.
\<close>

definition launch_allocate :: "'w cann \<Rightarrow> Runtime \<Rightarrow> u64 \<Rightarrow> ('x \<times> 'w, MemoryBuffer) lcomp" where
  "launch_allocate acl rt sz = (\<lambda>(l, w).
     case runtime_allocate acl rt sz LocDevice w of
       (Inl e, w') \<Rightarrow> (Inl (e, if e = kRuntime then Some (fst (fst (aclrtMalloc acl sz w))) else None), (l, w'))
     | (Inr b, w') \<Rightarrow> (Inr b, (l, w')))"

definition launch_copy_to :: "'w cann \<Rightarrow> Runtime \<Rightarrow> MemoryBuffer \<Rightarrow> host_object \<Rightarrow> ('x \<times> 'w, unit) lcomp" where
  "launch_copy_to acl rt b object = (\<lambda>(l, w).
     case runtime_copy_to acl rt b object w of
       (Inl e, w') \<Rightarrow>
         (Inl (e, if e \<noteq> kRuntime then None
                  else if host_size object = 0 then Some (-1) else Some (fst (aclrtMemcpy_to_device acl (mb_data b) object w))), (l, w'))
     | (Inr u, w') \<Rightarrow> (Inr u, (l, w')))"

definition launch_copy_from :: "'w cann \<Rightarrow> Runtime \<Rightarrow> MemoryBuffer \<Rightarrow> nat \<Rightarrow> ('x \<times> 'w, u8 list) lcomp" where
  "launch_copy_from acl rt b n = (\<lambda>(l, w).
     case runtime_copy_from acl rt b n w of
       (Inl e, w') \<Rightarrow>
         (Inl (e, if e \<noteq> kRuntime then None
                  else if n = 0 then Some (-1) else Some (fst (fst (aclrtMemcpy_to_host acl (mb_data b) n w)))), (l, w'))
     | (Inr bytes, w') \<Rightarrow> (Inr bytes, (l, w')))"

text \<open>A device buffer for the rest of a function, released when the function returns.\<close>

definition with_device_buffer :: "'w cann \<Rightarrow> Runtime \<Rightarrow> u64 \<Rightarrow> (MemoryBuffer \<Rightarrow> ('x \<times> 'w, 'r) lcomp) \<Rightarrow> ('x \<times> 'w, 'r) lcomp" where
  "with_device_buffer acl rt sz body =
     lbind (launch_allocate acl rt sz) (\<lambda>b s. case body b s of (r, (l, w)) \<Rightarrow> (r, (l, snd (buffer_reset acl rt b w))))"

text \<open>The initial value of every status word.\<close>

definition INT32_MIN :: i32 where "INT32_MIN = 0x80000000"

text \<open>Where an asynchronous submission leaves its status: a slot's state takes 24 bytes, its status word is at byte 16.\<close>

definition slot_status_address :: "NdsStorageDescriptor \<Rightarrow> u32 \<Rightarrow> u64" where
  "slot_status_address d slot_id = sd_storage_states_address d + ucast (nds_storage_slot_id_index slot_id) * 24 + 16"

definition wc_of_bytes :: "endian \<Rightarrow> u8 list \<Rightarrow> NdsWc" where
  "wc_of_bytes e bs = \<lparr>wc_wr_id = load64 e bs 0, wc_status = load32 e bs 8, wc_opcode = load32 e bs 12,
     wc_vendor_error = load32 e bs 16, wc_byte_length = load32 e bs 20, wc_qp_number = load32 e bs 24, wc_flags = load32 e bs 28,
     wc_immediate_data_or_invalidated_rkey = load32 e bs 32, wc_reserved = load32 e bs 36\<rparr>"

definition wcs_of_bytes :: "endian \<Rightarrow> nat \<Rightarrow> u8 list \<Rightarrow> NdsWc list" where
  "wcs_of_bytes e n bs = map (\<lambda>i. wc_of_bytes e (take 40 (drop (40 * i) bs))) [0..<n]"

text \<open>The end of a poll: the status word is an error or the number of entries, which are copied to the caller.\<close>

definition collect_completions :: "'w cann \<Rightarrow> Runtime \<Rightarrow> endian \<Rightarrow> MemoryBuffer \<Rightarrow> i32 \<Rightarrow> ('x \<times> 'w, u32 \<times> NdsWc list) lcomp" where
  "collect_completions acl rt e device_completions return_value =
     (if sint return_value < 0 then (\<lambda>s. (Inl (kRuntime, Some (sint return_value)), s))
      else if return_value = 0 then (\<lambda>s. (Inr (0, []), s))
      else lbind (launch_copy_from acl rt device_completions (unat return_value * 40)) (\<lambda>bytes s.
             (Inr (return_value, wcs_of_bytes e (unat return_value) bytes), s)))"

section \<open>Waiting for a completion\<close>

text \<open>
  The loop of \<open>storage_wait_with_config\<close> with a probe for the backend. Pending probes are repeated until the
  deadline; the clock is in nanoseconds and a negative timeout puts the deadline in the past.
\<close>

partial_function (option) probe_until :: "'w cann \<Rightarrow> ('x \<times> 'w, unit) lcomp \<Rightarrow> int \<Rightarrow> ('x \<times> 'w, unit) pcomp" where
  "probe_until acl probe deadline s =
     (case probe s of
        (Inr _, s) \<Rightarrow> Some (Inr (), s)
      | (Inl e, (l, w)) \<Rightarrow>
          if \<not> reports_pending e then Some (Inl (fst e), (l, w))
          else case client_now acl w of
            (t, w) \<Rightarrow> if int t \<ge> deadline then Some (Inl kProtocol, (l, w)) else probe_until acl probe deadline (l, w))"

definition wait_with_deadline :: "'w cann \<Rightarrow> LaunchConfig \<Rightarrow> ('x \<times> 'w, unit) lcomp \<Rightarrow> ('x \<times> 'w, unit) pcomp" where
  "wait_with_deadline acl config probe = (\<lambda>(l, w).
     case client_now acl w of
       (t, w) \<Rightarrow> probe_until acl probe (int t + sint (lc_sync_timeout_ms config) * 1000000) (l, w))"

section \<open>What a call leaves behind\<close>

lemma lbind_eq_Inr_iff:
  "lbind m f s = (Inr y, t) \<longleftrightarrow> (\<exists>x s'. m s = (Inr x, s') \<and> f x s' = (Inr y, t))"
  by (auto simp: lbind_def split: prod.splits sum.splits)

lemma launch_allocate_Inr:
  "launch_allocate acl rt sz (l, w) = (Inr b, s') \<longleftrightarrow> (\<exists>w'. runtime_allocate acl rt sz LocDevice w = (Inr b, w') \<and> s' = (l, w'))"
  by (auto simp: launch_allocate_def split: prod.splits sum.splits)

lemma launch_copy_Inr:
  "launch_copy_to acl rt b x (l, w) = (Inr u, s') \<longleftrightarrow> (\<exists>w'. runtime_copy_to acl rt b x w = (Inr u, w') \<and> s' = (l, w'))"
  "launch_copy_from acl rt b n (l, w) = (Inr bs, s') \<longleftrightarrow> (\<exists>w'. runtime_copy_from acl rt b n w = (Inr bs, w') \<and> s' = (l, w'))"
  by (auto simp: launch_copy_to_def launch_copy_from_def split: prod.splits sum.splits)

lemma with_device_buffer_Inr:
  "with_device_buffer acl rt sz body (l, w) = (Inr y, t) \<longleftrightarrow>
     (\<exists>b w1 l2 w2. runtime_allocate acl rt sz LocDevice w = (Inr b, w1) \<and> body b (l, w1) = (Inr y, (l2, w2))
        \<and> t = (l2, snd (buffer_reset acl rt b w2)))"
  by (auto simp: with_device_buffer_def lbind_eq_Inr_iff launch_allocate_Inr case_prod_beta) (metis prod.collapse)+

lemma lbind_outcome: "lbind m f s = (r, t) \<Longrightarrow> (\<exists>e. m s = (Inl e, t) \<and> r = Inl e) \<or> (\<exists>x s'. m s = (Inr x, s') \<and> f x s' = (r, t))"
  by (auto simp: lbind_def split: prod.splits sum.splits)

text \<open>
  \<open>lsteps R m\<close>: the computation moves the world along the relation \<open>R\<close>, a preorder in all uses: equality of an
  observation, or a clock that does not go back.
\<close>

definition lsteps :: "('w \<Rightarrow> 'w \<Rightarrow> bool) \<Rightarrow> ('x \<times> 'w, 'a) lcomp \<Rightarrow> bool" where
  "lsteps R m \<longleftrightarrow> (\<forall>l w. R w (snd (snd (m (l, w)))))"

lemma lstepsD: "lsteps R m \<Longrightarrow> m (l, w) = (r, (l', w')) \<Longrightarrow> R w w'"
  unfolding lsteps_def by (metis snd_conv)

lemma lstepsI: "(\<And>l w r l' w'. m (l, w) = (r, (l', w')) \<Longrightarrow> R w w') \<Longrightarrow> lsteps R m"
  unfolding lsteps_def by (metis prod.collapse)

lemma lsteps_bind:
  assumes "transp R" and "lsteps R m" and "\<And>x. lsteps R (f x)"
  shows "lsteps R (lbind m f)"
proof (rule lstepsI)
  fix l w r l' w' assume "lbind m f (l, w) = (r, (l', w'))"
  then consider e where "m (l, w) = (Inl e, (l', w'))" | x l1 w1 where "m (l, w) = (Inr x, (l1, w1))" "f x (l1, w1) = (r, (l', w'))"
    by (fastforce dest!: lbind_outcome)
  then show "R w w'"
  proof cases
    case (2 x l1 w1)
    with assms show ?thesis by (metis lstepsD transpD)
  qed (use assms(2) lstepsD in metis)
qed

lemma lsteps_pure: "reflp R \<Longrightarrow> lsteps R (\<lambda>s. (r s, s))"
  by (simp add: lsteps_def reflpD)

text \<open>The calls of AscendCL between allocation and release.\<close>

definition calls_step :: "('w \<Rightarrow> 'w \<Rightarrow> bool) \<Rightarrow> ('a, 'w) aclrt \<Rightarrow> 'w cann \<Rightarrow> bool" where
  "calls_step R dev acl \<longleftrightarrow>
     (\<forall>p x w. R w (snd (aclrtMemcpy_to_device acl p x w))) \<and>
     (\<forall>p n w. R w (snd (aclrtMemcpy_to_host acl p n w))) \<and>
     (\<forall>b n w. R w (snd (aclrtBinaryGetFunction dev b n w))) \<and>
     (\<forall>f d s c a n x g w. R w (snd (aclrtLaunchKernelWithHostArgs dev f d s c a n x g w))) \<and>
     (\<forall>s t w. R w (snd (aclrtSynchronizeStreamWithTimeout dev s t w)))"

lemma calls_stepD:
  assumes "calls_step R dev acl"
  shows "aclrtMemcpy_to_device acl p x w = (r1, w1) \<Longrightarrow> R w w1"
    and "aclrtMemcpy_to_host acl p n w = (r2, w2) \<Longrightarrow> R w w2"
    and "aclrtBinaryGetFunction dev b nm w = (r4, w4) \<Longrightarrow> R w w4"
    and "aclrtLaunchKernelWithHostArgs dev f d s c a sz y g w = (r5, w5) \<Longrightarrow> R w w5"
    and "aclrtSynchronizeStreamWithTimeout dev s t w = (r6, w6) \<Longrightarrow> R w w6"
  using assms unfolding calls_step_def by (metis snd_conv)+

lemma launch_copy_steps:
  assumes "reflp R" and "calls_step R dev acl" and "mb_location b = LocDevice"
  shows "lsteps R (launch_copy_to acl rt b x)" and "lsteps R (launch_copy_from acl rt b n)"
  by (rule lstepsI; use assms(3) reflpD [OF assms(1)] in \<open>auto simp: launch_copy_to_def launch_copy_from_def runtime_copy_to_def
      runtime_copy_from_def copy_host_to_device_def copy_device_to_host_def dest: calls_stepD [OF assms(2)]
      split: prod.splits if_splits sum.splits\<close>)+

lemma device_launch_steps:
  assumes R: "reflp R" "transp R" and c: "calls_step R dev acl"
    and run: "device_launch dev attrs name config args sz (l, w) = (r, (l', w'))"
  shows "R w w'"
proof -
  have f: "R w w1" if "find_function dev n (l, w) = (q, (l1, w1))" for n q l1 w1
    using that reflpD [OF R(1)]
    by (auto simp: find_function_def dest: calls_stepD(3) [OF c] split: option.splits if_splits prod.splits)
  show ?thesis
    using run reflpD [OF R(1)]
    by (auto simp: device_launch_def Let_def dest: f split: option.splits if_splits prod.splits sum.splits)
      (metis f calls_stepD(4) [OF c] transpD [OF R(2)])+
qed

lemma launch_and_sync_steps:
  assumes R: "reflp R" "transp R" and c: "calls_step R dev acl"
  shows "lsteps R (launch_and_sync dev attrs config entry args sz)"
proof (rule lstepsI)
  fix l w r l' w' assume run: "launch_and_sync dev attrs config entry args sz (l, w) = (r, (l', w'))"
  obtain v l1 w1 where d: "device_launch dev attrs (Some entry) config (Some args) sz (l, w) = (v, (l1, w1))" by (metis prod_cases3)
  obtain v2 w2 where y: "aclrtSynchronizeStreamWithTimeout dev (lc_stream config) (lc_sync_timeout_ms config) w1 = (v2, w2)" by fastforce
  from run d y have "w' = w1 \<or> w' = w2" by (auto simp: launch_and_sync_def split: if_splits)
  with device_launch_steps [OF R c d] calls_stepD(5) [OF c y] show "R w w'" by (metis transpD [OF R(2)])
qed

lemma collect_completions_steps:
  assumes R: "reflp R" "transp R" and c: "calls_step R dev acl" and b: "mb_location b = LocDevice"
  shows "lsteps R (collect_completions acl rt e b v)"
  unfolding collect_completions_def
  by (auto intro!: lsteps_bind R launch_copy_steps(2) [OF R(1) c b] lsteps_pure)

text \<open>The caller's array is not overrun: no more entries than the device array has room for.\<close>

lemma collect_completions_bound:
  assumes "collect_completions acl rt e b v s = (Inr (n, wcs), s')" and "unat (mb_size b) = 40 * k"
  shows "n = v" and "length wcs = unat n" and "unat n \<le> k"
  using assms
  by (auto simp: collect_completions_def lbind_eq_Inr_iff launch_copy_from_def runtime_copy_from_def wcs_of_bytes_def
      split: if_splits prod.splits sum.splits)

lemma lsteps_guarded:
  assumes "reflp R" and "\<And>l. lsteps R (f l)"
  shows "lsteps R (\<lambda>(l, w). if b l then (Inl e, (l, w)) else f l (l, w))"
  using assms(2) reflpD [OF assms(1)] by (auto simp: lsteps_def)

lemma launch_body_steps:
  assumes R: "reflp R" "transp R" and c: "calls_step R dev acl" and b: "mb_location b = LocDevice"
    and f: "\<And>bytes. lsteps R (f bytes)"
  shows "lsteps R (lbind (launch_copy_to acl rt b x) (\<lambda>_. lbind (launch_and_sync dev attrs config entry args sz) (\<lambda>_.
    lbind (launch_copy_from acl rt b n) f)))"
  by (intro lsteps_bind R launch_copy_steps [OF R(1) c b] launch_and_sync_steps [OF R c] f)

section \<open>Device memory\<close>

text \<open>
  What the documentation of AscendCL says of device memory, for an observation \<open>blocks\<close>: how many live allocations
  start at an address. Only allocation and release change it.
\<close>

abbreviation same :: "('w \<Rightarrow> 'v) \<Rightarrow> 'w \<Rightarrow> 'w \<Rightarrow> bool" where
  "same v w w' \<equiv> v w' = v w"

lemma same_preorder: "reflp (\<lambda>w w'. same v w w')" "transp (\<lambda>w w'. same v w w')"
  by (auto intro: reflpI transpI)

definition memory_laws :: "('a, 'w) aclrt \<Rightarrow> 'w cann \<Rightarrow> ('w \<Rightarrow> u64 \<Rightarrow> nat) \<Rightarrow> bool" where
  "memory_laws dev acl blocks \<longleftrightarrow>
     (\<forall>n w. case aclrtMalloc acl n w of
        ((result, p), w') \<Rightarrow> blocks w' = (if result = 0 \<and> p \<noteq> 0 then (blocks w)(p := blocks w p + 1) else blocks w)) \<and>
     (\<forall>p w. blocks w p > 0 \<longrightarrow> blocks (snd (aclrtFree acl p w)) = (blocks w)(p := blocks w p - 1)) \<and>
     (\<forall>w. same blocks w (snd (client_now acl w))) \<and>
     calls_step (\<lambda>w w'. same blocks w w') dev acl"

lemma memory_laws_malloc:
  assumes "memory_laws dev acl blocks" and "aclrtMalloc acl n w = ((result, p), w')"
  shows "blocks w' = (if result = 0 \<and> p \<noteq> 0 then (blocks w)(p := blocks w p + 1) else blocks w)"
proof -
  from assms(1) have "case aclrtMalloc acl n w of
      ((result, p), w') \<Rightarrow> blocks w' = (if result = 0 \<and> p \<noteq> 0 then (blocks w)(p := blocks w p + 1) else blocks w)"
    unfolding memory_laws_def by (elim conjE) (drule spec, erule spec)
  with assms(2) show ?thesis by simp
qed

lemma memory_laws_free:
  "memory_laws dev acl blocks \<Longrightarrow> blocks w p > 0 \<Longrightarrow> blocks (snd (aclrtFree acl p w)) = (blocks w)(p := blocks w p - 1)"
  by (simp add: memory_laws_def)

lemma device_allocate_cases:
  assumes "runtime_allocate acl rt sz LocDevice w = (r, w')"
  obtains (refused) "w' = w" "r = Inl kInvalidArgument"
  | (failed) result p where "aclrtMalloc acl sz w = ((result, p), w')" "result \<noteq> 0 \<or> p = 0" "r = Inl kRuntime"
  | (granted) p where "aclrtMalloc acl sz w = ((0, p), w')" "p \<noteq> 0" "rt_initialized rt"
      "r = Inr \<lparr>mb_runtime = rt_this rt, mb_data = p, mb_rdma_data = p, mb_size = sz, mb_location = LocDevice\<rparr>"
proof -
  obtain result p w0 where m: "aclrtMalloc acl sz w = ((result, p), w0)" by (metis prod.collapse)
  show thesis
  proof (cases "\<not> rt_initialized rt \<or> sz = 0")
    case True
    with assms refused show thesis by (auto simp: runtime_allocate_def)
  next
    case False
    with assms m failed granted show thesis
      by (cases "result \<noteq> 0 \<or> p = 0") (auto simp: runtime_allocate_def allocate_device_memory_def)
  qed
qed

text \<open>A new buffer is one more allocation, and its release takes it back.\<close>

lemma fresh_buffer:
  assumes laws: "memory_laws dev acl blocks" and this_rt: "rt_this rt \<noteq> 0"
    and a: "runtime_allocate acl rt n LocDevice w = (Inr b, w1)"
  shows "blocks w1 = (blocks w)(mb_data b := blocks w (mb_data b) + 1)"
    and "blocks v = blocks w1 \<Longrightarrow> blocks (snd (buffer_reset acl rt b v)) = blocks w"
proof -
  from a obtain p where p: "aclrtMalloc acl n w = ((0, p), w1)" "p \<noteq> 0" "rt_initialized rt"
    and b: "b = \<lparr>mb_runtime = rt_this rt, mb_data = p, mb_rdma_data = p, mb_size = n, mb_location = LocDevice\<rparr>"
    by (cases rule: device_allocate_cases) auto
  show m: "blocks w1 = (blocks w)(mb_data b := blocks w (mb_data b) + 1)"
    using memory_laws_malloc [OF laws p(1)] p(2) b by simp
  have "snd (buffer_reset acl rt b v) = snd (aclrtFree acl p v)"
    using this_rt p b by (auto simp: buffer_reset_def free_device_memory_def split: prod.splits)
  then show "blocks (snd (buffer_reset acl rt b v)) = blocks w" if "blocks v = blocks w1"
    using memory_laws_free [OF laws, of v p] m that b by simp
qed

text \<open>A buffer of a launch is released on every path.\<close>

lemma with_device_buffer_keeps:
  assumes laws: "memory_laws dev acl blocks"
    and body: "\<And>b. mb_location b = LocDevice \<Longrightarrow> buffer_wf rt b \<Longrightarrow> lsteps (\<lambda>w w'. same blocks w w') (body b)"
    and this_rt: "rt_this rt \<noteq> 0"
  shows "lsteps (\<lambda>w w'. same blocks w w') (with_device_buffer acl rt sz body)"
proof (rule lstepsI)
  fix l w r l' w' assume run: "with_device_buffer acl rt sz body (l, w) = (r, (l', w'))"
  obtain ra w1 where a: "runtime_allocate acl rt sz LocDevice w = (ra, w1)" by fastforce
  from a show "blocks w' = blocks w"
  proof (cases rule: device_allocate_cases)
    case refused
    with run a show ?thesis by (auto simp: with_device_buffer_def lbind_def launch_allocate_def)
  next
    case (failed result p)
    with run a have "w' = w1" by (auto simp: with_device_buffer_def lbind_def launch_allocate_def)
    with failed memory_laws_malloc [OF laws failed(1)] show ?thesis by auto
  next
    case (granted p)
    define b where "b = \<lparr>mb_runtime = rt_this rt, mb_data = p, mb_rdma_data = p, mb_size = sz, mb_location = LocDevice\<rparr>"
    have r: "ra = Inr b" using granted(4) by (simp add: b_def)
    note wf = runtime_allocate_wf [OF a [unfolded r]]
    obtain r2 l2 w2 where bo: "body b (l, w1) = (r2, (l2, w2))" by (metis prod_cases3)
    have bl: "blocks w2 = (blocks w)(p := blocks w p + 1)"
      using lstepsD [OF body [OF wf(3,1)] bo] memory_laws_malloc [OF laws granted(1)] granted(2) by simp
    from run a r bo have "w' = snd (buffer_reset acl rt b w2)"
      by (auto simp: with_device_buffer_def lbind_def launch_allocate_def)
    also have "\<dots> = snd (aclrtFree acl p w2)"
      using this_rt granted by (auto simp: buffer_reset_def free_device_memory_def b_def split: prod.splits)
    finally show ?thesis using memory_laws_free [OF laws, of w2 p] bl by simp
  qed
qed

section \<open>The clock\<close>

text \<open>No call sets the clock back, and reading it takes time.\<close>

definition launch_clock :: "('a, 'w) aclrt \<Rightarrow> 'w cann \<Rightarrow> ('w \<Rightarrow> nat) \<Rightarrow> bool" where
  "launch_clock dev acl clock \<longleftrightarrow>
     calls_step (\<lambda>w w'. clock w \<le> clock w') dev acl \<and>
     (\<forall>n w. clock w \<le> clock (snd (aclrtMalloc acl n w))) \<and> (\<forall>p w. clock w \<le> clock (snd (aclrtFree acl p w))) \<and>
     (\<forall>p w. clock w \<le> clock (snd (aclrtHostUnregister acl p w))) \<and> (\<forall>p w. clock w \<le> clock (std_free acl p w)) \<and>
     (\<forall>p w. clock w \<le> clock (host_delete acl p w)) \<and>
     (\<forall>w. clock w \<le> fst (client_now acl w) \<and> clock w < clock (snd (client_now acl w)))"

lemma clock_preorder: "reflp (\<lambda>w w'. clock w \<le> (clock w' :: nat))" "transp (\<lambda>w w'. clock w \<le> clock w')"
  by (auto intro: reflpI transpI)

lemma buffer_reset_clock:
  assumes "launch_clock dev acl clock"
  shows "clock w \<le> clock (snd (buffer_reset acl rt b w))"
proof -
  have f: "clock w \<le> clock (snd (aclrtFree acl p w))" "clock w \<le> clock (snd (aclrtHostUnregister acl p w))"
    "clock w \<le> clock (std_free acl p w)" "clock w \<le> clock (host_delete acl p w)" for p w
    using assms by (simp_all add: launch_clock_def)
  have "clock w \<le> clock (snd (free_device_memory acl rt p w))" for p
    using f(1) [of w p] by (auto simp: free_device_memory_def split: prod.splits)
  moreover have "clock w \<le> clock (snd (free_host_pinned_memory acl rt p w))" for p
    using f(2) [of w p] f(3) [of "snd (aclrtHostUnregister acl p w)" p]
    by (auto simp: free_host_pinned_memory_def split: prod.splits)
  ultimately show ?thesis using f(4) by (cases "mb_location b") (auto simp: buffer_reset_def)
qed

lemma with_device_buffer_clock:
  assumes law: "launch_clock dev acl clock"
    and body: "\<And>b. mb_location b = LocDevice \<Longrightarrow> lsteps (\<lambda>w w'. clock w \<le> clock w') (body b)"
  shows "lsteps (\<lambda>w w'. clock w \<le> clock w') (with_device_buffer acl rt sz body)"
proof (rule lstepsI)
  fix l w r l' w' assume run: "with_device_buffer acl rt sz body (l, w) = (r, (l', w'))"
  obtain ra w1 where a: "runtime_allocate acl rt sz LocDevice w = (ra, w1)" by fastforce
  have m: "clock w \<le> clock w1"
    using a
  proof (cases rule: device_allocate_cases)
    case (failed result p)
    then show ?thesis using law unfolding launch_clock_def by (metis snd_conv)
  next
    case (granted p)
    then show ?thesis using law unfolding launch_clock_def by (metis snd_conv)
  qed simp
  show "clock w \<le> clock w'"
  proof (cases ra)
    case (Inl e)
    with run a m show ?thesis by (auto simp: with_device_buffer_def lbind_def launch_allocate_def)
  next
    case (Inr b)
    obtain r2 l2 w2 where bo: "body b (l, w1) = (r2, (l2, w2))" by (metis prod_cases3)
    have loc: "mb_location b = LocDevice" by (rule runtime_allocate_wf(3) [OF a [unfolded Inr]])
    from run a Inr bo have "w' = snd (buffer_reset acl rt b w2)"
      by (auto simp: with_device_buffer_def lbind_def launch_allocate_def)
    then have "clock w2 \<le> clock w'" using buffer_reset_clock [OF law] by simp
    with m lstepsD [OF body [OF loc] bo] show ?thesis by simp
  qed
qed

text \<open>
  The outcome of the wait loop: it returns, and what it returns is what its last probe says. An invariant of
  the probes holds whenever one starts.
\<close>

definition probes_keep :: "('x \<times> 'w \<Rightarrow> bool) \<Rightarrow> 'w cann \<Rightarrow> ('x \<times> 'w, unit) lcomp \<Rightarrow> bool" where
  "probes_keep J acl probe \<longleftrightarrow>
     (\<forall>s. J s \<longrightarrow> J (snd (probe s))) \<and> (\<forall>l w. J (l, w) \<longrightarrow> J (l, snd (client_now acl w)))"

lemma probes_keepD:
  assumes "probes_keep J acl probe" and "J (l, w)"
  shows "probe (l, w) = (r, s) \<Longrightarrow> J s" and "client_now acl w = (t, w') \<Longrightarrow> J (l, w')"
  using assms unfolding probes_keep_def by (metis snd_conv)+

lemma probe_until_outcome:
  assumes law: "launch_clock dev acl clock" and step: "lsteps (\<lambda>w w'. clock w \<le> clock w') probe"
    and inv: "J (l, w)" "probes_keep J acl probe"
  shows "\<exists>r t s1 p s2. probe_until acl probe deadline (l, w) = Some (r, t) \<and> J t \<and> J s1 \<and> probe s1 = (p, s2)
    \<and> (case p of
         Inr _ \<Rightarrow> r = Inr () \<and> t = s2
       | Inl e \<Rightarrow> if reports_pending e
                 then r = Inl kProtocol \<and> t = (fst s2, snd (client_now acl (snd s2))) \<and> deadline \<le> int (fst (client_now acl (snd s2)))
                 else r = Inl (fst e) \<and> t = s2)"
  using inv(1)
proof (induction "nat (deadline - int (clock w))" arbitrary: l w rule: less_induct)
  case less
  obtain p l2 w2 where p: "probe (l, w) = (p, (l2, w2))" by (metis prod_cases3)
  obtain t w3 where n: "client_now acl w2 = (t, w3)" by fastforce
  have J2: "J (l2, w2)" by (rule probes_keepD(1) [OF inv(2) less.prems p])
  have J3: "J (l2, w3)" by (rule probes_keepD(2) [OF inv(2) J2 n])
  have c: "clock w \<le> clock w2" "clock w2 \<le> t" "clock w2 < clock w3"
    using lstepsD [OF step p] law n unfolding launch_clock_def by (metis fst_conv snd_conv)+
  show ?case
  proof (cases "\<exists>e. p = Inl e \<and> reports_pending e \<and> int t < deadline")
    case True
    then have e: "probe_until acl probe deadline (l, w) = probe_until acl probe deadline (l2, w3)"
      using p n by (subst probe_until.simps) auto
    have "nat (deadline - int (clock w3)) < nat (deadline - int (clock w))" using True c by linarith
    from less.hyps [OF this] J3 show ?thesis unfolding e by simp
  next
    case False
    then show ?thesis
      using p n J2 J3 less.prems
      by (subst probe_until.simps; intro exI [of _ "case p of Inr _ \<Rightarrow> Inr () | Inl e \<Rightarrow> Inl (if reports_pending e then kProtocol else fst e)"]
          exI [of _ "case p of Inl e \<Rightarrow> if reports_pending e then (l2, w3) else (l2, w2) | _ \<Rightarrow> (l2, w2)"]
          exI [of _ "(l, w)"] exI [of _ p] exI [of _ "(l2, w2)"]) (auto split: sum.splits)
  qed
qed

lemma wait_with_deadline_outcome:
  assumes law: "launch_clock dev acl clock" and step: "lsteps (\<lambda>w w'. clock w \<le> clock w') probe"
    and inv: "J (l, w)" "probes_keep J acl probe"
  obtains r t s1 p s2 where "wait_with_deadline acl config probe (l, w) = Some (r, t)" "J t" "J s1" "probe s1 = (p, s2)"
    "case p of
       Inr _ \<Rightarrow> r = Inr () \<and> t = s2
     | Inl e \<Rightarrow>
         if reports_pending e
         then r = Inl kProtocol \<and> t = (fst s2, snd (client_now acl (snd s2)))
           \<and> int (fst (client_now acl w)) + sint (lc_sync_timeout_ms config) * 1000000 \<le> int (fst (client_now acl (snd s2)))
         else r = Inl (fst e) \<and> t = s2"
proof -
  obtain n w0 where n: "client_now acl w = (n, w0)" by fastforce
  have "J (l, w0)" by (rule probes_keepD(2) [OF inv(2,1) n])
  obtain r t s1 p s2 where *: "probe_until acl probe (int n + sint (lc_sync_timeout_ms config) * 1000000) (l, w0) = Some (r, t)"
      "J t" "J s1" "probe s1 = (p, s2)" "case p of
         Inr _ \<Rightarrow> r = Inr () \<and> t = s2
       | Inl e \<Rightarrow>
           if reports_pending e
           then r = Inl kProtocol \<and> t = (fst s2, snd (client_now acl (snd s2))) \<and> int n + sint (lc_sync_timeout_ms config) * 1000000 \<le> int (fst (client_now acl (snd s2)))
           else r = Inl (fst e) \<and> t = s2"
    using probe_until_outcome [where J = J, OF law step \<open>J (l, w0)\<close> inv(2)] by blast
  have n': "n = fst (client_now acl w)" using n by simp
  show thesis
    by (rule that [OF _ *(2-4) *(5) [unfolded n']]) (use *(1) n in \<open>simp add: wait_with_deadline_def\<close>)
qed

end
