(* ===== verification/Aicpu_Launcher.thy ===== *)
theory Aicpu_Launcher
  imports Device_Launch Aicpu_Storage Client_Transport
begin

text \<open>
  The launcher of the AICPU backend, \<^verbatim>\<open>src/src/client/backends/aicpu/launcher.cc\<close>. A call copies a request record into the
  arguments of one kernel, launches it and, when synchronous, waits for the stream and reads the status word that
  the kernel leaves in device memory. The runtime objects are a map from their addresses.
\<close>

section \<open>Requests\<close>

text \<open>The instances of the template \<open>NdsAicpuLaunchArgs\<close>; the \<open>return_value\<close> inside a request is not used.\<close>

datatype AicpuRequest =
  RqPostSend NdsPostSendArgs
| RqPostRecv NdsPostRecvArgs
| RqPollCq NdsPollCqArgs
| RqRdmaSend NdsRdmaSendArgs
| RqRdmaRecv NdsRdmaRecvArgs
| RqBootstrap NdsStorageBootstrapDescriptor
| RqStorage NdsStorageOperationArgs
| RqStorageBatch NdsStorageBatchOperationArgs
| RqStorageWait NdsStorageWaitArgs

record NdsAicpuLaunchArgs =
  ala_request :: AicpuRequest
  ala_return_value_address :: u64

text \<open>The sizes of the requests, from the \<open>static_assert\<close>s of the ABI headers, and of the argument record.\<close>

fun request_size :: "AicpuRequest \<Rightarrow> nat" where
  "request_size (RqPostSend _) = 304"
| "request_size (RqPostRecv _) = 280"
| "request_size (RqPollCq _) = 272"
| "request_size (RqRdmaSend _) = 80"
| "request_size (RqRdmaRecv _) = 56"
| "request_size (RqBootstrap _) = 48"
| "request_size (RqStorage _) = 96"
| "request_size (RqStorageBatch _) = 88"
| "request_size (RqStorageWait _) = 72"

definition launch_args_size :: "AicpuRequest \<Rightarrow> nat" where
  "launch_args_size request = request_size request + 8"

type_synonym 'w aicpu_state = "DeviceLauncher \<times> 'w"

type_synonym 'w aicpu_host = "(NdsAicpuLaunchArgs, 'w) launch_host"

section \<open>Loading and launching\<close>

definition aicpu_attributes :: "KernelAttribute list" where
  "aicpu_attributes = [AttrTimeout 5]"

definition aicpu_reset :: "'w aicpu_host \<Rightarrow> 'w aicpu_state \<Rightarrow> 'w aicpu_state" where
  "aicpu_reset host = device_unload (lh_dev host)"

definition aicpu_load :: "'w aicpu_host \<Rightarrow> string \<Rightarrow> ('w aicpu_state, unit) comp" where
  "aicpu_load host kernel_path = device_load (lh_dev host) (aicpu_reset host) (CpuKernelMode 0) kernel_path"

definition aicpu_launcher_open :: "'w aicpu_host \<Rightarrow> u64 \<Rightarrow> string \<Rightarrow> 'w \<Rightarrow> DeviceLauncher result \<times> 'w" where
  "aicpu_launcher_open host runtime kernel_path w =
     (if runtime = 0 then (Inl kInvalidArgument, w)
      else case aicpu_load host kernel_path (\<lparr>dln_runtime = runtime, dln_binary = 0, dln_functions = Map.empty\<rparr>, w) of
        (Inl err, s) \<Rightarrow> (Inl err, snd (aicpu_reset host s))
      | (Inr _, (l, w)) \<Rightarrow> (Inr l, w))"

definition aicpu_launch :: "'w aicpu_host \<Rightarrow> string option \<Rightarrow> LaunchConfig \<Rightarrow> NdsAicpuLaunchArgs option \<Rightarrow> nat \<Rightarrow>
    'w aicpu_state \<Rightarrow> int \<times> 'w aicpu_state" where
  "aicpu_launch host = device_launch (lh_dev host) aicpu_attributes"

definition aicpu_launch_and_wait :: "'w aicpu_host \<Rightarrow> string option \<Rightarrow> NdsAicpuLaunchArgs option \<Rightarrow> nat \<Rightarrow> u32 \<Rightarrow> ('w aicpu_state, unit) lcomp" where
  "aicpu_launch_and_wait host = device_launch_and_wait (lh_dev host) aicpu_attributes"

text \<open>A synchronous operation: a status word on the device, the launch, and the status read back.\<close>

definition launch_device_and_wait :: "'w aicpu_host \<Rightarrow> LaunchConfig \<Rightarrow> string \<Rightarrow> AicpuRequest \<Rightarrow> ('w aicpu_state, unit) lcomp" where
  "launch_device_and_wait host config entry request = (\<lambda>(l, w).
     if dln_runtime l = 0 then (Inl (kRuntime, None), (l, w))
     else
       (let rt = lh_runtime host (dln_runtime l); acl = lh_acl host
        in with_device_buffer acl rt 4 (\<lambda>status.
             lbind (launch_copy_to acl rt status (HBytes (mem32 (lh_endian host) INT32_MIN))) (\<lambda>_.
             lbind (launch_and_sync (lh_dev host) aicpu_attributes config entry
                      \<lparr>ala_request = request, ala_return_value_address = mb_data status\<rparr> (launch_args_size request)) (\<lambda>_.
             lbind (launch_copy_from acl rt status 4) (\<lambda>bytes s.
               let return_value = load32 (lh_endian host) bytes 0
               in (if return_value = 0 then Inr () else Inl (kRuntime, Some (sint return_value)), s))))) (l, w)))"

text \<open>
  A storage submission: asynchronous unless the configuration says otherwise, and then with the status word of the
  slot's state as its return value.
\<close>

definition launch_storage :: "'w aicpu_host \<Rightarrow> LaunchConfig \<Rightarrow> string \<Rightarrow> AicpuRequest \<Rightarrow> NdsStorageDescriptor \<Rightarrow> u32 \<Rightarrow>
    ('w aicpu_state, unit) lcomp" where
  "launch_storage host config entry request d slot_id = (\<lambda>(l, w).
     if dln_runtime l = 0 then (Inl (kRuntime, None), (l, w))
     else if lc_sync config then launch_device_and_wait host config entry request (l, w)
     else case aicpu_launch host (Some entry) config
                 (Some \<lparr>ala_request = request, ala_return_value_address = slot_status_address d slot_id\<rparr>)
                 (launch_args_size request) (l, w) of
       (launch_result, s) \<Rightarrow> (if launch_result = 0 then Inr () else Inl (kRuntime, Some launch_result), s))"

section \<open>The methods\<close>

definition aicpu_post_send_with_config :: "'w aicpu_host \<Rightarrow> LaunchConfig \<Rightarrow> NdsQpDescriptor \<Rightarrow> NdsSendWr \<Rightarrow> ('w aicpu_state, unit) lcomp" where
  "aicpu_post_send_with_config host config qp wr =
     launch_device_and_wait host config ''nds_aicpu_post_send_kernel'' (RqPostSend \<lparr>psa_qp = qp, psa_wr = wr\<rparr>)"

definition aicpu_post_recv_with_config :: "'w aicpu_host \<Rightarrow> LaunchConfig \<Rightarrow> NdsQpDescriptor \<Rightarrow> NdsRecvWr \<Rightarrow> ('w aicpu_state, unit) lcomp" where
  "aicpu_post_recv_with_config host config qp wr =
     launch_device_and_wait host config ''nds_aicpu_post_recv_kernel'' (RqPostRecv \<lparr>pra_qp = qp, pra_wr = wr\<rparr>)"

text \<open>The size of the completion array is computed in 64 bits.\<close>

definition aicpu_poll_cq_with_config :: "'w aicpu_host \<Rightarrow> LaunchConfig \<Rightarrow> NdsQpDescriptor \<Rightarrow> bool \<Rightarrow> u32 \<Rightarrow> bool \<Rightarrow>
    ('w aicpu_state, u32 \<times> NdsWc list) lcomp" where
  "aicpu_poll_cq_with_config host config qp send_cq max_completions completions = (\<lambda>(l, w).
     if dln_runtime l = 0 \<or> \<not> completions \<or> max_completions = 0 then (Inl (kInvalidArgument, None), (l, w))
     else
       (let rt = lh_runtime host (dln_runtime l); acl = lh_acl host
        in with_device_buffer acl rt (ucast max_completions * 40) (\<lambda>device_completions.
             let request = RqPollCq \<lparr>pca_qp = qp, pca_is_send_cq = (if send_cq then 1 else 0), pca_max_completions = max_completions,
                                     pca_wc_address = mb_data device_completions\<rparr>
             in with_device_buffer acl rt 4 (\<lambda>status.
                  lbind (launch_copy_to acl rt status (HBytes (mem32 (lh_endian host) INT32_MIN))) (\<lambda>_.
                  lbind (launch_and_sync (lh_dev host) aicpu_attributes config ''nds_aicpu_poll_cq_kernel''
                           \<lparr>ala_request = request, ala_return_value_address = mb_data status\<rparr> (launch_args_size request)) (\<lambda>_.
                  lbind (launch_copy_from acl rt status 4) (\<lambda>bytes.
                    collect_completions acl rt (lh_endian host) device_completions (load32 (lh_endian host) bytes 0)))))) (l, w)))"

definition aicpu_rdma_send_with_config :: "'w aicpu_host \<Rightarrow> LaunchConfig \<Rightarrow> NdsTransportDescriptor \<Rightarrow> u32 \<Rightarrow> NdsSendWr \<Rightarrow>
    ('w aicpu_state, unit) lcomp" where
  "aicpu_rdma_send_with_config host config transport queue_index wr =
     launch_device_and_wait host config ''nds_aicpu_rdma_send_kernel''
       (RqRdmaSend \<lparr>rsa_transport = transport, rsa_wr = wr, rsa_queue_index = queue_index\<rparr>)"

definition aicpu_rdma_recv_with_config :: "'w aicpu_host \<Rightarrow> LaunchConfig \<Rightarrow> NdsTransportDescriptor \<Rightarrow> u32 \<Rightarrow> NdsRecvWr \<Rightarrow>
    ('w aicpu_state, unit) lcomp" where
  "aicpu_rdma_recv_with_config host config transport queue_index wr =
     launch_device_and_wait host config ''nds_aicpu_rdma_recv_kernel''
       (RqRdmaRecv \<lparr>rra_transport = transport, rra_wr = wr, rra_queue_index = queue_index\<rparr>)"

definition aicpu_rdma_read_with_config :: "'w aicpu_host \<Rightarrow> LaunchConfig \<Rightarrow> NdsTransportDescriptor \<Rightarrow> u32 \<Rightarrow> NdsSendWr \<Rightarrow>
    ('w aicpu_state, unit) lcomp" where
  "aicpu_rdma_read_with_config host config transport queue_index wr =
     launch_device_and_wait host config ''nds_aicpu_rdma_read_kernel''
       (RqRdmaSend \<lparr>rsa_transport = transport, rsa_wr = wr, rsa_queue_index = queue_index\<rparr>)"

definition aicpu_rdma_write_with_config :: "'w aicpu_host \<Rightarrow> LaunchConfig \<Rightarrow> NdsTransportDescriptor \<Rightarrow> u32 \<Rightarrow> NdsSendWr \<Rightarrow>
    ('w aicpu_state, unit) lcomp" where
  "aicpu_rdma_write_with_config host config transport queue_index wr =
     launch_device_and_wait host config ''nds_aicpu_rdma_write_kernel''
       (RqRdmaSend \<lparr>rsa_transport = transport, rsa_wr = wr, rsa_queue_index = queue_index\<rparr>)"

definition aicpu_storage_bootstrap_with_config :: "'w aicpu_host \<Rightarrow> LaunchConfig \<Rightarrow> NdsStorageBootstrapDescriptor \<Rightarrow> ('w aicpu_state, unit) lcomp" where
  "aicpu_storage_bootstrap_with_config host config bootstrap =
     launch_device_and_wait host config ''nds_aicpu_storage_bootstrap_kernel'' (RqBootstrap bootstrap)"

definition aicpu_storage_read_with_config :: "'w aicpu_host \<Rightarrow> LaunchConfig \<Rightarrow> NdsStorageDescriptor \<Rightarrow> u32 \<Rightarrow> u64 \<Rightarrow> u64 \<Rightarrow> u32 \<Rightarrow> u32 \<Rightarrow>
    ('w aicpu_state, unit) lcomp" where
  "aicpu_storage_read_with_config host config storage slot_id server_offset buffer_address buffer_key len =
     launch_storage host config ''nds_aicpu_storage_read_kernel''
       (RqStorage (storage_operation_args storage slot_id server_offset buffer_address buffer_key len)) storage slot_id"

definition aicpu_storage_write_with_config :: "'w aicpu_host \<Rightarrow> LaunchConfig \<Rightarrow> NdsStorageDescriptor \<Rightarrow> u32 \<Rightarrow> u64 \<Rightarrow> u64 \<Rightarrow> u32 \<Rightarrow> u32 \<Rightarrow>
    ('w aicpu_state, unit) lcomp" where
  "aicpu_storage_write_with_config host config storage slot_id server_offset buffer_address buffer_key len =
     launch_storage host config ''nds_aicpu_storage_write_kernel''
       (RqStorage (storage_operation_args storage slot_id server_offset buffer_address buffer_key len)) storage slot_id"

definition aicpu_storage_read_batch_with_config :: "'w aicpu_host \<Rightarrow> LaunchConfig \<Rightarrow> NdsStorageDescriptor \<Rightarrow> u32 \<Rightarrow> u64 \<Rightarrow> u32 \<Rightarrow> u32 \<Rightarrow>
    ('w aicpu_state, unit) lcomp" where
  "aicpu_storage_read_batch_with_config host config storage slot_id entries_address entries_key entry_count =
     launch_storage host config ''nds_aicpu_storage_batch_read_kernel''
       (RqStorageBatch (storage_batch_args storage slot_id entries_address entries_key entry_count)) storage slot_id"

definition aicpu_storage_write_batch_with_config :: "'w aicpu_host \<Rightarrow> LaunchConfig \<Rightarrow> NdsStorageDescriptor \<Rightarrow> u32 \<Rightarrow> u64 \<Rightarrow> u32 \<Rightarrow> u32 \<Rightarrow>
    ('w aicpu_state, unit) lcomp" where
  "aicpu_storage_write_batch_with_config host config storage slot_id entries_address entries_key entry_count =
     launch_storage host config ''nds_aicpu_storage_batch_write_kernel''
       (RqStorageBatch (storage_batch_args storage slot_id entries_address entries_key entry_count)) storage slot_id"

definition aicpu_wait_probe :: "'w aicpu_host \<Rightarrow> LaunchConfig \<Rightarrow> NdsStorageDescriptor \<Rightarrow> u32 \<Rightarrow> ('w aicpu_state, unit) lcomp" where
  "aicpu_wait_probe host config storage slot_id =
     launch_device_and_wait host config ''nds_aicpu_storage_wait_kernel'' (RqStorageWait \<lparr>wa_storage = storage, wa_slot_id = slot_id\<rparr>)"

definition aicpu_storage_wait_with_config :: "'w aicpu_host \<Rightarrow> LaunchConfig \<Rightarrow> NdsStorageDescriptor \<Rightarrow> u32 \<Rightarrow> ('w aicpu_state, unit) pcomp" where
  "aicpu_storage_wait_with_config host config storage slot_id =
     wait_with_deadline (lh_acl host) config (aicpu_wait_probe host config storage slot_id)"

text \<open>The object as a launcher; batches of sends are those of the base class.\<close>

definition aicpu_launcher_ops :: "'w aicpu_host \<Rightarrow> ('w aicpu_state) LauncherOps" where
  "aicpu_launcher_ops host =
     \<lparr>post_send_with_config = (\<lambda>config qp wr. as_method (aicpu_post_send_with_config host config qp wr)),
      post_send_batch_with_config = launcher_post_send_batch_with_config,
      post_recv_with_config = (\<lambda>config qp wr. as_method (aicpu_post_recv_with_config host config qp wr)),
      poll_cq_with_config = (\<lambda>config qp send_cq n wc. as_method (aicpu_poll_cq_with_config host config qp send_cq n wc)),
      rdma_send_with_config = (\<lambda>config t i wr. as_method (aicpu_rdma_send_with_config host config t i wr)),
      rdma_recv_with_config = (\<lambda>config t i wr. as_method (aicpu_rdma_recv_with_config host config t i wr)),
      rdma_read_with_config = (\<lambda>config t i wr. as_method (aicpu_rdma_read_with_config host config t i wr)),
      rdma_write_with_config = (\<lambda>config t i wr. as_method (aicpu_rdma_write_with_config host config t i wr)),
      rdma_send_batch_with_config = launcher_rdma_send_batch_with_config,
      storage_bootstrap_with_config = (\<lambda>config b. as_method (aicpu_storage_bootstrap_with_config host config b)),
      storage_read_with_config = (\<lambda>config d i offset address key n.
        as_method (aicpu_storage_read_with_config host config d i offset address key n)),
      storage_write_with_config = (\<lambda>config d i offset address key n.
        as_method (aicpu_storage_write_with_config host config d i offset address key n)),
      storage_read_batch_with_config = (\<lambda>config d i address key n.
        as_method (aicpu_storage_read_batch_with_config host config d i address key n)),
      storage_write_batch_with_config = (\<lambda>config d i address key n.
        as_method (aicpu_storage_write_batch_with_config host config d i address key n)),
      storage_wait_with_config = aicpu_storage_wait_with_config host\<rparr>"

section \<open>No device memory is lost\<close>

lemma launch_device_and_wait_blocks:
  assumes "memory_laws (lh_dev host) (lh_acl host) blocks" and "\<And>a. rt_this (lh_runtime host a) \<noteq> 0"
  shows "lsteps (\<lambda>w w'. same blocks w w') (launch_device_and_wait host config entry request)"
proof -
  have c: "calls_step (\<lambda>w w'. same blocks w w') (lh_dev host) (lh_acl host)" using assms(1) by (simp add: memory_laws_def)
  show ?thesis
    unfolding launch_device_and_wait_def Let_def
    by (intro lsteps_guarded same_preorder with_device_buffer_keeps [OF assms(1)] launch_body_steps [OF same_preorder c]
        lsteps_pure assms(2))
qed

lemma launch_device_and_wait_clock:
  assumes "launch_clock (lh_dev host) (lh_acl host) clock"
  shows "lsteps (\<lambda>w w'. clock w \<le> clock w') (launch_device_and_wait host config entry request)"
proof -
  have c: "calls_step (\<lambda>w w'. clock w \<le> clock w') (lh_dev host) (lh_acl host)" using assms by (simp add: launch_clock_def)
  show ?thesis
    unfolding launch_device_and_wait_def Let_def
    by (intro lsteps_guarded clock_preorder with_device_buffer_clock [OF assms] launch_body_steps [OF clock_preorder c] lsteps_pure)
qed

lemma launch_storage_blocks:
  assumes "memory_laws (lh_dev host) (lh_acl host) blocks" and "\<And>a. rt_this (lh_runtime host a) \<noteq> 0"
  shows "lsteps (\<lambda>w w'. same blocks w w') (launch_storage host config entry request d slot_id)"
proof (rule lstepsI)
  have c: "calls_step (\<lambda>w w'. same blocks w w') (lh_dev host) (lh_acl host)" using assms(1) by (simp add: memory_laws_def)
  fix l w r l' w' assume "launch_storage host config entry request d slot_id (l, w) = (r, (l', w'))"
  then show "same blocks w w'"
    using lstepsD [OF launch_device_and_wait_blocks [OF assms]] device_launch_steps [OF same_preorder c]
    by (auto simp: launch_storage_def aicpu_launch_def split: if_splits prod.splits)
qed

lemma aicpu_poll_cq_blocks:
  assumes "memory_laws (lh_dev host) (lh_acl host) blocks" and "\<And>a. rt_this (lh_runtime host a) \<noteq> 0"
  shows "lsteps (\<lambda>w w'. same blocks w w') (aicpu_poll_cq_with_config host config qp send_cq n wc)"
proof -
  have c: "calls_step (\<lambda>w w'. same blocks w w') (lh_dev host) (lh_acl host)" using assms(1) by (simp add: memory_laws_def)
  show ?thesis
    unfolding aicpu_poll_cq_with_config_def Let_def
    by (intro lsteps_guarded same_preorder with_device_buffer_keeps [OF assms(1)] launch_body_steps [OF same_preorder c]
        collect_completions_steps [OF same_preorder c] assms(2))
qed

lemma aicpu_wait_keeps:
  assumes "memory_laws (lh_dev host) (lh_acl host) blocks" and "launch_clock (lh_dev host) (lh_acl host) clock"
    and "\<And>a. rt_this (lh_runtime host a) \<noteq> 0"
  shows "\<exists>r l' w'. aicpu_storage_wait_with_config host config d slot_id (l, w) = Some (r, (l', w')) \<and> blocks w' = blocks w"
proof -
  let ?probe = "aicpu_wait_probe host config d slot_id"
  let ?J = "\<lambda>s :: 'a aicpu_state. blocks (snd s) = blocks w"
  have n: "same blocks v (snd (client_now (lh_acl host) v))" for v using assms(1) by (simp add: memory_laws_def)
  have p: "probes_keep ?J (lh_acl host) ?probe"
    using launch_device_and_wait_blocks [OF assms(1,3)] n unfolding probes_keep_def aicpu_wait_probe_def lsteps_def by simp
  have clock: "lsteps (\<lambda>w w'. clock w \<le> clock w') ?probe"
    unfolding aicpu_wait_probe_def by (rule launch_device_and_wait_clock [OF assms(2)])
  obtain r s where "wait_with_deadline (lh_acl host) config ?probe (l, w) = Some (r, s)" "?J s"
    by (rule wait_with_deadline_outcome [OF assms(2) clock, where J = ?J and l = l and w = w and config = config])
      (use p in simp_all)
  then show ?thesis by (cases s) (simp add: aicpu_storage_wait_with_config_def)
qed

text \<open>No call of the AICPU launcher loses device memory. Whatever fails on the way, a synchronous operation, a storage
  submission and a poll leave exactly the allocations they found; so does a wait, which returns when reading the
  clock takes time.\<close>

theorem aicpu_launches_leak_nothing:
  assumes "memory_laws (lh_dev host) (lh_acl host) blocks" and "launch_clock (lh_dev host) (lh_acl host) clock"
    and "\<And>a. rt_this (lh_runtime host a) \<noteq> 0"
  shows "blocks (snd (snd (launch_device_and_wait host config entry request (l, w)))) = blocks w
    \<and> blocks (snd (snd (launch_storage host config entry request d slot_id (l, w)))) = blocks w
    \<and> blocks (snd (snd (aicpu_poll_cq_with_config host config qp send_cq n wc (l, w)))) = blocks w
    \<and> (\<exists>r l' w'. launcher_storage_wait (aicpu_launcher_ops host) config d slot_id (l, w) = Some (r, (l', w')) \<and> blocks w' = blocks w)"
  using launch_device_and_wait_blocks [OF assms(1,3)] launch_storage_blocks [OF assms(1,3)] aicpu_poll_cq_blocks [OF assms(1,3)]
    aicpu_wait_keeps [OF assms]
  by (simp add: lsteps_def launcher_storage_wait_def aicpu_launcher_ops_def)

section \<open>What a successful wait means\<close>

text \<open>
  What is relied on of a device that runs the wait kernel: \<open>word\<close> observes status words, \<open>fname\<close> the kernel behind a
  handle, and \<open>seen\<close> the device memory that the last kernel read. A lookup that succeeds gives the named kernel, a
  copy writes or reads a word, and a kernel whose launch and synchronization succeed has run.
\<close>

definition runs_wait_kernel :: "'w aicpu_host \<Rightarrow> ('w \<Rightarrow> u64 \<Rightarrow> i32) \<Rightarrow> (u64 \<Rightarrow> string) \<Rightarrow> ('w \<Rightarrow> dmem) \<Rightarrow> bool" where
  "runs_wait_kernel host word fname seen \<longleftrightarrow>
     (\<forall>b n w f w'. aclrtBinaryGetFunction (lh_dev host) b n w = ((0, f), w') \<longrightarrow> f \<noteq> 0 \<and> fname f = n \<and> word w' = word w) \<and>
     (\<forall>p bs w w'. length bs = 4 \<longrightarrow> aclrtMemcpy_to_device (lh_acl host) p (HBytes bs) w = (0, w') \<longrightarrow>
        word w' p = load32 (lh_endian host) bs 0) \<and>
     (\<forall>p bs w w'. aclrtMemcpy_to_host (lh_acl host) p 4 w = ((0, bs), w') \<longrightarrow>
        load32 (lh_endian host) bs 0 = word w p \<and> seen w' = seen w) \<and>
     (\<forall>p w. seen (snd (aclrtFree (lh_acl host) p w)) = seen w) \<and>
     (\<forall>f d s c args n x g w w1 t w2 r.
        aclrtLaunchKernelWithHostArgs (lh_dev host) f d s c args n x g w = (0, w1) \<longrightarrow>
        aclrtSynchronizeStreamWithTimeout (lh_dev host) s t w1 = (0, w2) \<longrightarrow>
        fname f = ''nds_aicpu_storage_wait_kernel'' \<longrightarrow> ala_request args = RqStorageWait r \<longrightarrow>
        (\<exists>status m. nds_aicpu_storage_wait_kernel (Some (r, Some (word w (ala_return_value_address args)))) (seen w2) =
           Some (status, Some (word w2 (ala_return_value_address args)), m)))"

lemma runs_wait_kernelD:
  assumes "runs_wait_kernel host word fname seen"
  shows "aclrtMemcpy_to_device (lh_acl host) p (HBytes (mem32 (lh_endian host) v)) w = (0, w1) \<Longrightarrow> word w1 p = v"
    and "aclrtMemcpy_to_host (lh_acl host) p 4 w = ((0, bs), w2) \<Longrightarrow> load32 (lh_endian host) bs 0 = word w p \<and> seen w2 = seen w"
    and "seen (snd (aclrtFree (lh_acl host) p w)) = seen w"
proof -
  have "\<forall>p bs w w'. length bs = 4 \<longrightarrow> aclrtMemcpy_to_device (lh_acl host) p (HBytes bs) w = (0, w') \<longrightarrow>
      word w' p = load32 (lh_endian host) bs 0"
    using assms by (simp add: runs_wait_kernel_def)
  moreover have "length (mem32 (lh_endian host) v) = 4" "load32 (lh_endian host) (mem32 (lh_endian host) v) 0 = v"
    using load32_mem [of _ v "[]"] by simp_all
  ultimately show "aclrtMemcpy_to_device (lh_acl host) p (HBytes (mem32 (lh_endian host) v)) w = (0, w1) \<Longrightarrow> word w1 p = v"
    by metis
qed (use assms in \<open>simp_all add: runs_wait_kernel_def\<close>)

lemma runs_wait_kernel_run:
  assumes "runs_wait_kernel host word fname seen"
    and "aclrtLaunchKernelWithHostArgs (lh_dev host) f d s c \<lparr>ala_request = RqStorageWait r, ala_return_value_address = p\<rparr> n x g w = (0, w1)"
    and "aclrtSynchronizeStreamWithTimeout (lh_dev host) s t w1 = (0, w2)" and "fname f = ''nds_aicpu_storage_wait_kernel''"
  shows "\<exists>status m. nds_aicpu_storage_wait_kernel (Some (r, Some (word w p))) (seen w2) = Some (status, Some (word w2 p), m)"
proof -
  from assms(1) have "\<forall>f d s c args n x g w w1 t w2 r.
        aclrtLaunchKernelWithHostArgs (lh_dev host) f d s c args n x g w = (0, w1) \<longrightarrow>
        aclrtSynchronizeStreamWithTimeout (lh_dev host) s t w1 = (0, w2) \<longrightarrow>
        fname f = ''nds_aicpu_storage_wait_kernel'' \<longrightarrow> ala_request args = RqStorageWait r \<longrightarrow>
        (\<exists>status m. nds_aicpu_storage_wait_kernel (Some (r, Some (word w (ala_return_value_address args)))) (seen w2) =
           Some (status, Some (word w2 (ala_return_value_address args)), m))"
    by (simp add: runs_wait_kernel_def)
  from this [rule_format, OF assms(2-4)] show ?thesis by simp
qed

text \<open>The completion of the slot's current command, as it lies in device memory.\<close>

definition slot_succeeded :: "NdsStorageDescriptor \<Rightarrow> u32 \<Rightarrow> dmem \<Rightarrow> bool" where
  "slot_succeeded d slot_id m \<longleftrightarrow>
     (\<exists>a sa. nds_storage_state (Some d) (nds_storage_slot_id_index slot_id) = Some a
        \<and> nds_storage_slot (Some d) (nds_storage_slot_id_index slot_id) = Some sa
        \<and> ss_in_flight (g_storage_state m a) \<noteq> 0 \<and> ss_status (g_storage_state m a) = 0
        \<and> completion_verdict (g_storage_state m a) (get_bytes m (sg_address (sl_completion_buffer (g_slot m sa))) 32) = NDS_OPERATION_SUCCESS)"

text \<open>Starting from the initial value, the kernel leaves zero only for such a slot.\<close>

lemma wait_kernel_zero:
  assumes "nds_aicpu_storage_wait_kernel (Some (r, Some INT32_MIN)) m = Some (status, Some 0, m')"
  shows "slot_succeeded (wa_storage r) (wa_slot_id r) m"
proof -
  have "INT32_MIN \<noteq> 0" by (simp add: INT32_MIN_def)
  moreover have "- x = (0 :: u32) \<longleftrightarrow> x = 0" for x by simp
  ultimately show ?thesis
    using assms
    by (auto simp: nds_aicpu_storage_wait_kernel_def aicpu_kernel_def nds_aicpu_storage_wait_def NdsAicpuSetReturnValue_def Let_def
        slot_succeeded_def NDS_OPERATION_SUCCESS_def NDS_OPERATION_INVALID_ARGUMENT_def kStorageCompletionBytes_def
        split: if_splits option.splits prod.splits)
qed

text \<open>The cached handles are those of the kernels they are cached for.\<close>

definition cache_ok :: "(u64 \<Rightarrow> string) \<Rightarrow> 'x DeviceLauncher_scheme \<Rightarrow> bool" where
  "cache_ok fname l \<longleftrightarrow> (\<forall>n f. dln_functions l n = Some f \<longrightarrow> fname f = n)"

lemma find_function_named:
  assumes law: "runs_wait_kernel host word fname seen" and "cache_ok fname l"
    and "find_function (lh_dev host) n (l, w) = (q, (l', w'))"
  shows "cache_ok fname l'" and "q = Inr f \<Longrightarrow> fname f = n \<and> word w' = word w" and "q \<noteq> Inl 0"
proof -
  have g: "f \<noteq> 0 \<and> fname f = n \<and> word w' = word w"
    if "aclrtBinaryGetFunction (lh_dev host) b n w = ((0, f), w')" for b n w f w'
    using law that by (simp add: runs_wait_kernel_def)
  obtain v f0 w0 where r: "aclrtBinaryGetFunction (lh_dev host) (dln_binary l) n w = ((v, f0), w0)" by (metis prod.collapse)
  have "cache_ok fname l' \<and> (q = Inr f \<longrightarrow> fname f = n \<and> word w' = word w) \<and> q \<noteq> Inl 0"
    using assms(2,3) r g [of "dln_binary l" n w f0 w0]
    by (auto simp: find_function_def cache_ok_def split: option.splits if_splits)
  then show "cache_ok fname l'" and "q = Inr f \<Longrightarrow> fname f = n \<and> word w' = word w" and "q \<noteq> Inl 0" by blast+
qed

lemma device_launch_cache:
  assumes "runs_wait_kernel host word fname seen" and "cache_ok fname l"
    and "device_launch (lh_dev host) attrs name config args sz (l, w) = (r, (l', w'))"
  shows "cache_ok fname l'"
  using assms(2,3) find_function_named(1) [OF assms(1,2)]
  by (fastforce simp: device_launch_def Let_def split: option.splits if_splits prod.splits sum.splits)

lemma launch_device_and_wait_cache:
  assumes "runs_wait_kernel host word fname seen" and "cache_ok fname (fst s)"
  shows "cache_ok fname (fst (snd (launch_device_and_wait host config entry request s)))"
proof -
  have "cache_ok fname (fst t)" if "launch_and_sync (lh_dev host) attrs config entry args sz s' = (r, t)" "cache_ok fname (fst s')"
    for attrs args sz s' r t
    using that device_launch_cache [OF assms(1)]
    by (cases s') (fastforce simp: launch_and_sync_def split: if_splits prod.splits)
  then show ?thesis
    using assms(2)
    by (cases s) (fastforce simp: launch_device_and_wait_def Let_def with_device_buffer_def lbind_def launch_allocate_def
        launch_copy_to_def launch_copy_from_def split: prod.splits sum.splits)
qed

text \<open>A synchronous launch that succeeds has run the kernel on the named request, from the initial value to zero.\<close>

lemma wait_probe_success:
  assumes law: "runs_wait_kernel host word fname seen" and cache: "cache_ok fname l"
    and run: "aicpu_wait_probe host config d slot_id (l, w) = (Inr (), (l', w'))"
  shows "slot_succeeded d slot_id (seen w')"
proof -
  let ?rt = "lh_runtime host (dln_runtime l)" and ?acl = "lh_acl host" and ?e = "lh_endian host"
  let ?r = "\<lparr>wa_storage = d, wa_slot_id = slot_id\<rparr>"
  from run obtain b w1 w2 l3 w3 bs w4 where
    a: "runtime_allocate ?acl ?rt 4 LocDevice w = (Inr b, w1)"
    and ct: "runtime_copy_to ?acl ?rt b (HBytes (mem32 ?e INT32_MIN)) w1 = (Inr (), w2)"
    and ls: "launch_and_sync (lh_dev host) aicpu_attributes config ''nds_aicpu_storage_wait_kernel''
      \<lparr>ala_request = RqStorageWait ?r, ala_return_value_address = mb_data b\<rparr> (launch_args_size (RqStorageWait ?r)) (l, w2) = (Inr (), (l3, w3))"
    and cf: "runtime_copy_from ?acl ?rt b 4 w3 = (Inr bs, w4)" and z: "load32 ?e bs 0 = 0"
    and w': "w' = snd (buffer_reset ?acl ?rt b w4)"
    by (auto simp: aicpu_wait_probe_def launch_device_and_wait_def Let_def with_device_buffer_Inr lbind_eq_Inr_iff launch_copy_Inr
        split: if_splits)
  have loc: "mb_location b = LocDevice" by (rule runtime_allocate_wf(3) [OF a])
  from ct loc have "aclrtMemcpy_to_device ?acl (mb_data b) (HBytes (mem32 ?e INT32_MIN)) w1 = (0, w2)"
    by (auto simp: runtime_copy_to_def copy_host_to_device_def split: if_splits prod.splits)
  then have i: "word w2 (mb_data b) = INT32_MIN" by (rule runs_wait_kernelD(1) [OF law])
  from cf loc have "aclrtMemcpy_to_host ?acl (mb_data b) 4 w3 = ((0, bs), w4)"
    by (auto simp: runtime_copy_from_def copy_device_to_host_def split: if_splits prod.splits)
  from runs_wait_kernelD(2) [OF law this] z have o: "word w3 (mb_data b) = 0" "seen w4 = seen w3" by simp_all
  have "snd (buffer_reset ?acl ?rt b w4) \<in> {w4, snd (aclrtFree ?acl (mb_data b) w4)}"
    using loc by (auto simp: buffer_reset_def free_device_memory_def split: prod.splits)
  then have s: "seen w' = seen w3" using runs_wait_kernelD(3) [OF law] o(2) w' by auto
  from ls obtain f wf wl where
    ff: "find_function (lh_dev host) ''nds_aicpu_storage_wait_kernel'' (l, w2) = (Inr f, (l3, wf))"
    and la: "\<exists>c n x g bd. aclrtLaunchKernelWithHostArgs (lh_dev host) f bd (lc_stream config) c
      \<lparr>ala_request = RqStorageWait ?r, ala_return_value_address = mb_data b\<rparr> n x g wf = (0, wl)"
    and sy: "aclrtSynchronizeStreamWithTimeout (lh_dev host) (lc_stream config) (lc_sync_timeout_ms config) wl = (0, w3)"
    using find_function_named(3) [OF law cache]
    by (fastforce simp: launch_and_sync_def device_launch_def Let_def split: if_splits prod.splits sum.splits)
  note fn = find_function_named(2) [OF law cache ff refl]
  from la obtain c n x g bd where "aclrtLaunchKernelWithHostArgs (lh_dev host) f bd (lc_stream config) c
      \<lparr>ala_request = RqStorageWait ?r, ala_return_value_address = mb_data b\<rparr> n x g wf = (0, wl)" by blast
  from runs_wait_kernel_run [OF law this sy] fn have
    "\<exists>status m. nds_aicpu_storage_wait_kernel (Some (?r, Some (word wf (mb_data b)))) (seen w3) = Some (status, Some (word w3 (mb_data b)), m)"
    by simp
  with wait_kernel_zero [of ?r "seen w3"] fn i o(1) s show ?thesis by auto
qed

text \<open>C8: the AICPU wait tells the truth through the launcher. On a device that runs what is launched, the wait returns
  when reading the clock takes time, keeps the function cache right, and reports success only if the last kernel
  found in device memory the slot in flight, without a launch error, and with the successful completion of its
  current command. A status word that no kernel has written is never taken for success.\<close>

theorem aicpu_launcher_wait_truthful:
  assumes "runs_wait_kernel host word fname seen" and "launch_clock (lh_dev host) (lh_acl host) clock" and "cache_ok fname l"
  shows "\<exists>r l' w'. launcher_storage_wait (aicpu_launcher_ops host) config d slot_id (l, w) = Some (r, (l', w'))
    \<and> cache_ok fname l' \<and> (r = Inr () \<longrightarrow> slot_succeeded d slot_id (seen w'))"
proof -
  let ?probe = "aicpu_wait_probe host config d slot_id" and ?J = "\<lambda>s :: 'a aicpu_state. cache_ok fname (fst s)"
  have keep: "probes_keep ?J (lh_acl host) ?probe"
    unfolding probes_keep_def aicpu_wait_probe_def using launch_device_and_wait_cache [OF assms(1)] by simp
  have clock: "lsteps (\<lambda>w w'. clock w \<le> clock w') ?probe"
    unfolding aicpu_wait_probe_def by (rule launch_device_and_wait_clock [OF assms(2)])
  have "?J (l, w)" using assms(3) by simp
  then obtain r t s1 p s2 where run: "wait_with_deadline (lh_acl host) config ?probe (l, w) = Some (r, t)" "?J t" "?J s1"
    "?probe s1 = (p, s2)"
    and out: "case p of
       Inr _ \<Rightarrow> r = Inr () \<and> t = s2
     | Inl e \<Rightarrow>
         if reports_pending e
         then r = Inl kProtocol \<and> t = (fst s2, snd (client_now (lh_acl host) (snd s2)))
           \<and> int (fst (client_now (lh_acl host) w)) + sint (lc_sync_timeout_ms config) * 1000000
           \<le> int (fst (client_now (lh_acl host) (snd s2)))
         else r = Inl (fst e) \<and> t = s2"
    using wait_with_deadline_outcome [OF assms(2) clock, where J = ?J and l = l and w = w and config = config] keep by blast
  have "slot_succeeded d slot_id (seen (snd t))" if "r = Inr ()"
  proof -
    from out that have "p = Inr ()" "t = s2" by (auto split: sum.splits if_splits)
    with run(3,4) show ?thesis
      by (cases s1; cases s2) (auto intro: wait_probe_success [OF assms(1), of "fst s1" config d slot_id "snd s1"])
  qed
  with run(1,2) show ?thesis
    by (cases t) (auto simp: launcher_storage_wait_def aicpu_launcher_ops_def aicpu_storage_wait_with_config_def)
qed

subsection \<open>A device\<close>

text \<open>A world with a clock, status words, memory and the launch that waits for its stream.\<close>

record aicpu_device =
  dv_time :: nat
  dv_word :: "u64 \<Rightarrow> i32"
  dv_mem :: dmem
  dv_launched :: "NdsAicpuLaunchArgs option"

definition run_launched :: "aicpu_device \<Rightarrow> aicpu_device" where
  "run_launched w =
     (case dv_launched w of
        Some a \<Rightarrow>
          (case ala_request a of
             RqStorageWait r \<Rightarrow>
               (case nds_aicpu_storage_wait_kernel (Some (r, Some (dv_word w (ala_return_value_address a)))) (dv_mem w) of
                  Some (_, Some v, _) \<Rightarrow> w\<lparr>dv_word := (dv_word w)(ala_return_value_address a := v), dv_launched := None\<rparr>
                | _ \<Rightarrow> w)
           | _ \<Rightarrow> w)
      | None \<Rightarrow> w)"

definition device_dev :: "(NdsAicpuLaunchArgs, aicpu_device) aclrt" where
  "device_dev = \<lparr>aclrtBinaryLoadFromFile = (\<lambda>_ _ w. ((0, 3), w)), aclrtBinaryUnLoad = (\<lambda>_ w. (0, w)),
     aclrtBinaryGetFunction = (\<lambda>_ n w. (if n = ''nds_aicpu_storage_wait_kernel'' then (0, 5) else (1, 0), w)),
     aclrtLaunchKernelWithHostArgs = (\<lambda>_ _ _ _ a _ _ _ w. (0, w\<lparr>dv_launched := Some a\<rparr>)),
     aclrtSynchronizeStreamWithTimeout = (\<lambda>_ _ w. (0, run_launched w)),
     aclrtCreateStream = (\<lambda>w. ((0, 1), w)), aclrtDestroyStream = (\<lambda>_ w. (0, w))\<rparr>"

definition device_acl :: "aicpu_device cann" where
  "device_acl = sample_acl\<lparr>
     aclrtMemcpy_to_device := (\<lambda>p x w. (0, case x of HBytes bs \<Rightarrow> w\<lparr>dv_word := (dv_word w)(p := load32 Little bs 0)\<rparr> | _ \<Rightarrow> w)),
     aclrtMemcpy_to_host := (\<lambda>p n w. ((0, mem32 Little (dv_word w p)), w)),
     client_now := (\<lambda>w. (dv_time w, w\<lparr>dv_time := dv_time w + 1\<rparr>))\<rparr>"

definition device_host :: "aicpu_device aicpu_host" where
  "device_host = \<lparr>lh_dev = device_dev, lh_acl = device_acl, lh_runtime = (\<lambda>_. sample_runtime), lh_endian = Little\<rparr>"

definition device_world :: "dmem \<Rightarrow> aicpu_device" where
  "device_world m = \<lparr>dv_time = 0, dv_word = (\<lambda>_. 0), dv_mem = m, dv_launched = None\<rparr>"

definition loaded_launcher :: DeviceLauncher where
  "loaded_launcher = \<lparr>dln_runtime = 0x40, dln_binary = 3, dln_functions = Map.empty\<rparr>"

lemma wait_kernel_returns: "\<exists>status v. nds_aicpu_storage_wait_kernel (Some (r, Some u)) m = Some (status, Some v, m)"
  by (auto simp: nds_aicpu_storage_wait_kernel_def aicpu_kernel_def nds_aicpu_storage_wait_def NdsAicpuSetReturnValue_def Let_def
      split: option.splits)

lemma run_launched_frame: "dv_mem (run_launched w) = dv_mem w" "dv_time (run_launched w) = dv_time w"
  by (auto simp: run_launched_def split: option.splits prod.splits AicpuRequest.splits)

lemma device_runs: "runs_wait_kernel device_host dv_word (\<lambda>_. ''nds_aicpu_storage_wait_kernel'') dv_mem"
proof -
  have "\<exists>status m'. nds_aicpu_storage_wait_kernel (Some (r, Some (dv_word w p))) (dv_mem w) =
      Some (status, Some (dv_word (run_launched (w\<lparr>dv_launched := Some a\<rparr>)) p), m')"
    if "ala_request a = RqStorageWait r" "ala_return_value_address a = p" for w r p a
    using that wait_kernel_returns [of r "dv_word w p" "dv_mem w"] by (auto simp: run_launched_def)
  then show ?thesis
    using load32_mem [of Little _ "[]"]
    by (auto simp: runs_wait_kernel_def device_host_def device_dev_def device_acl_def sample_acl_def run_launched_frame split: if_splits)
qed

lemma device_clock: "launch_clock (lh_dev device_host) (lh_acl device_host) dv_time"
  by (simp add: launch_clock_def calls_step_def device_host_def device_dev_def device_acl_def sample_acl_def run_launched_frame
      split: host_object.splits)

theorem aicpu_launcher_wait_truthful_witness:
  "\<exists>r l' w'. launcher_storage_wait (aicpu_launcher_ops device_host) (default_launch_config\<lparr>lc_stream := 1\<rparr>) sample_storage 0
      (loaded_launcher, device_world sample_done_dmem) = Some (r, (l', w'))
    \<and> cache_ok (\<lambda>_. ''nds_aicpu_storage_wait_kernel'') l' \<and> (r = Inr () \<longrightarrow> slot_succeeded sample_storage 0 (dv_mem w'))"
  by (rule aicpu_launcher_wait_truthful [OF device_runs device_clock]) (simp add: cache_ok_def loaded_launcher_def)

text \<open>A world with a clock and counted allocations, on which every other call does nothing.\<close>

definition counted_dev :: "(NdsAicpuLaunchArgs, nat \<times> (u64 \<Rightarrow> nat)) aclrt" where
  "counted_dev = \<lparr>aclrtBinaryLoadFromFile = (\<lambda>_ _ w. ((0, 3), w)), aclrtBinaryUnLoad = (\<lambda>_ w. (0, w)),
     aclrtBinaryGetFunction = (\<lambda>_ _ w. ((0, 5), w)), aclrtLaunchKernelWithHostArgs = (\<lambda>_ _ _ _ _ _ _ _ w. (0, w)),
     aclrtSynchronizeStreamWithTimeout = (\<lambda>_ _ w. (507, w)), aclrtCreateStream = (\<lambda>w. ((0, 1), w)),
     aclrtDestroyStream = (\<lambda>_ w. (0, w))\<rparr>"

definition counted_host :: "(nat \<times> (u64 \<Rightarrow> nat)) aicpu_host" where
  "counted_host = \<lparr>lh_dev = counted_dev,
     lh_acl = sample_acl\<lparr>aclrtMalloc := (\<lambda>_ (t, b). ((0, 0x1000), (t, b(0x1000 := b 0x1000 + 1)))),
       aclrtFree := (\<lambda>p (t, b). (0, (t, b(p := b p - 1)))), client_now := (\<lambda>(t, b). (t, (t + 1, b)))\<rparr>,
     lh_runtime = (\<lambda>_. sample_runtime), lh_endian = Little\<rparr>"

lemma counted_laws:
  "memory_laws (lh_dev counted_host) (lh_acl counted_host) snd" "launch_clock (lh_dev counted_host) (lh_acl counted_host) fst"
  "rt_this (lh_runtime counted_host a) \<noteq> 0"
  by (auto simp: memory_laws_def launch_clock_def calls_step_def counted_host_def counted_dev_def sample_acl_def sample_runtime_def)

definition sample_wait_request :: AicpuRequest where
  "sample_wait_request = RqStorageWait \<lparr>wa_storage = sample_storage, wa_slot_id = 0\<rparr>"

theorem aicpu_launches_leak_nothing_witness:
  "snd (snd (snd (launch_device_and_wait counted_host (default_launch_config\<lparr>lc_stream := 1\<rparr>) ''nds_aicpu_storage_wait_kernel''
        sample_wait_request (loaded_launcher, (0, \<lambda>_. 0))))) = snd (0 :: nat, \<lambda>_. 0)
    \<and> snd (snd (snd (launch_storage counted_host (default_launch_config\<lparr>lc_stream := 1\<rparr>) ''nds_aicpu_storage_wait_kernel''
        sample_wait_request sample_storage 0 (loaded_launcher, (0, \<lambda>_. 0))))) = snd (0 :: nat, \<lambda>_. 0)
    \<and> snd (snd (snd (aicpu_poll_cq_with_config counted_host (default_launch_config\<lparr>lc_stream := 1\<rparr>) sample_qp True 4 True
        (loaded_launcher, (0, \<lambda>_. 0))))) = snd (0 :: nat, \<lambda>_. 0)
    \<and> (\<exists>r l' w'. launcher_storage_wait (aicpu_launcher_ops counted_host) (default_launch_config\<lparr>lc_stream := 1\<rparr>) sample_storage 0
        (loaded_launcher, (0, \<lambda>_. 0)) = Some (r, (l', w')) \<and> snd w' = snd (0 :: nat, \<lambda>_. 0))"
  by (rule aicpu_launches_leak_nothing [OF counted_laws])

end
