(* ===== verification/Aiv_Launcher.thy ===== *)
theory Aiv_Launcher
  imports Device_Launch Aiv_Storage Client_Transport
begin

text \<open>
  The launcher of the AIV backend, \<^verbatim>\<open>src/src/client/backends/aiv/launcher.cc\<close>. Except for the two posts, a call places a
  request structure in device memory and passes the kernel the addresses of its members; when synchronous it waits for
  the stream and reads the structure back. The device memory of an asynchronous storage request is kept in the
  launcher. Offsets and sizes are those of the C structures on the 64-bit ABI.
\<close>

section \<open>Kernel arguments\<close>

datatype AivArguments =
  PostSendArguments NdsQpDescriptor NdsSendWr u64
| PostRecvArguments NdsQpDescriptor NdsRecvWr u64
| PollArguments u64 u32 u32 u64 u64
| BatchArguments u64 u64 u32 u64 u64
| TransportBatchArguments u64 u64 u32 u32 u64 u64
| TransportArguments u64 u64 u32 u32 u64
| BootstrapArguments u64 u64
| StorageOperationArguments u64 u64 u64
| StorageWaitArguments u64 u32 u32 u64

fun arguments_size :: "AivArguments \<Rightarrow> nat" where
  "arguments_size (PostSendArguments _ _ _) = 304"
| "arguments_size (PostRecvArguments _ _ _) = 280"
| "arguments_size (PollArguments _ _ _ _ _) = 32"
| "arguments_size (BatchArguments _ _ _ _ _) = 40"
| "arguments_size (TransportBatchArguments _ _ _ _ _ _) = 40"
| "arguments_size (TransportArguments _ _ _ _ _) = 32"
| "arguments_size (BootstrapArguments _ _) = 16"
| "arguments_size (StorageOperationArguments _ _ _) = 24"
| "arguments_size (StorageWaitArguments _ _ _ _) = 24"

record AivLauncher = DeviceLauncher +
  avl_async_storage_requests :: "MemoryBuffer list"

type_synonym 'w aiv_state = "AivLauncher \<times> 'w"
type_synonym 'w aiv_host = "(AivArguments, 'w) launch_host"

section \<open>Loading and launching\<close>

definition aiv_attributes :: "KernelAttribute list" where
  "aiv_attributes = [AttrSchemMode 1, AttrEngineAiv]"

definition retain_async_storage_request :: "MemoryBuffer \<Rightarrow> AivLauncher \<Rightarrow> AivLauncher" where
  "retain_async_storage_request request l = l\<lparr>avl_async_storage_requests := avl_async_storage_requests l @ [request]\<rparr>"

definition release_async_storage_requests :: "'w aiv_host \<Rightarrow> 'w aiv_state \<Rightarrow> 'w aiv_state" where
  "release_async_storage_requests host = (\<lambda>(l, w).
     (l\<lparr>avl_async_storage_requests := []\<rparr>,
      fold (\<lambda>b w. snd (buffer_reset (lh_acl host) (lh_runtime host (dln_runtime l)) b w)) (avl_async_storage_requests l) w))"

definition aiv_reset :: "'w aiv_host \<Rightarrow> 'w aiv_state \<Rightarrow> 'w aiv_state" where
  "aiv_reset host s = device_unload (lh_dev host) (release_async_storage_requests host s)"

definition aiv_load :: "'w aiv_host \<Rightarrow> string \<Rightarrow> ('w aiv_state, unit) comp" where
  "aiv_load host kernel_path = device_load (lh_dev host) (aiv_reset host) (LazyLoad 1) kernel_path"

definition aiv_launcher_open :: "'w aiv_host \<Rightarrow> u64 \<Rightarrow> string \<Rightarrow> 'w \<Rightarrow> AivLauncher result \<times> 'w" where
  "aiv_launcher_open host runtime kernel_path w =
     (if runtime = 0 then (Inl kInvalidArgument, w)
      else case aiv_load host kernel_path
                  (\<lparr>dln_runtime = runtime, dln_binary = 0, dln_functions = Map.empty, avl_async_storage_requests = []\<rparr>, w) of
        (Inl err, s) \<Rightarrow> (Inl err, snd (aiv_reset host s))
      | (Inr _, (l, w)) \<Rightarrow> (Inr l, w))"

definition aiv_launch :: "'w aiv_host \<Rightarrow> string option \<Rightarrow> LaunchConfig \<Rightarrow> AivArguments option \<Rightarrow> nat \<Rightarrow> 'w aiv_state \<Rightarrow> int \<times> 'w aiv_state" where
  "aiv_launch host = device_launch (lh_dev host) aiv_attributes"

definition aiv_launch_and_wait :: "'w aiv_host \<Rightarrow> string option \<Rightarrow> AivArguments option \<Rightarrow> nat \<Rightarrow> u32 \<Rightarrow> ('w aiv_state, unit) lcomp" where
  "aiv_launch_and_wait host = device_launch_and_wait (lh_dev host) aiv_attributes"

section \<open>Synchronous requests\<close>

text \<open>The first test of every function; the launcher itself is not null.\<close>

definition when_runtime :: "'w aiv_host \<Rightarrow> (Runtime \<Rightarrow> ('w aiv_state, 'r) lcomp) \<Rightarrow> ('w aiv_state, 'r) lcomp" where
  "when_runtime host body = (\<lambda>(l, w).
     if dln_runtime l = 0 then (Inl (kRuntime, None), (l, w)) else body (lh_runtime host (dln_runtime l)) (l, w))"

text \<open>Fill a device buffer, launch, wait, and read the buffer back.\<close>

definition exchange_request :: "'w aiv_host \<Rightarrow> LaunchConfig \<Rightarrow> string \<Rightarrow> Runtime \<Rightarrow> MemoryBuffer \<Rightarrow> host_object \<Rightarrow> AivArguments \<Rightarrow>
    (u8 list \<Rightarrow> ('w aiv_state, 'r) lcomp) \<Rightarrow> ('w aiv_state, 'r) lcomp" where
  "exchange_request host config entry rt b object arguments finish =
     lbind (launch_copy_to (lh_acl host) rt b object) (\<lambda>_.
     lbind (launch_and_sync (lh_dev host) aiv_attributes config entry arguments (arguments_size arguments)) (\<lambda>_.
     lbind (launch_copy_from (lh_acl host) rt b (host_size object)) finish))"

text \<open>The verdict on a status word.\<close>

definition status_result :: "i32 \<Rightarrow> ('s, unit) lcomp" where
  "status_result return_value s = (if return_value = 0 then Inr () else Inl (kRuntime, Some (sint return_value)), s)"

definition launch_post_and_wait :: "'w aiv_host \<Rightarrow> LaunchConfig \<Rightarrow> string \<Rightarrow> (u64 \<Rightarrow> AivArguments) \<Rightarrow> ('w aiv_state, unit) lcomp" where
  "launch_post_and_wait host config entry arguments =
     when_runtime host (\<lambda>rt. with_device_buffer (lh_acl host) rt 4 (\<lambda>status.
       exchange_request host config entry rt status (HBytes (mem32 (lh_endian host) INT32_MIN)) (arguments (mb_data status))
         (\<lambda>bytes. status_result (load32 (lh_endian host) bytes 0))))"

text \<open>The index of a failed request, from its address; \<open>none\<close> when the address is not that of a request of the array.\<close>

definition bad_index :: "nat \<Rightarrow> u64 \<Rightarrow> u64 \<Rightarrow> nat \<Rightarrow> nat" where
  "bad_index wr_count wrs_address bad_wr_address none =
     (if bad_wr_address \<ge> wrs_address \<and> unat (bad_wr_address - wrs_address) mod 48 = 0
         \<and> unat (bad_wr_address - wrs_address) div 48 < wr_count
      then unat (bad_wr_address - wrs_address) div 48 else none)"

definition batch_refused :: "NdsSendWr list \<Rightarrow> bool" where
  "batch_refused wrs \<longleftrightarrow> wrs = [] \<or> length wrs > unat UINT32_MAX \<or> length wrs > unat UINT64_MAX div 48"

definition post_batch_request :: "endian \<Rightarrow> NdsQpDescriptor \<Rightarrow> u64 \<Rightarrow> nat \<Rightarrow> host_object" where
  "post_batch_request e qp wrs_address wr_count = HStruct 272
     [(0, HQpDescriptors [qp]), (248, HBytes (mem64 e wrs_address)), (256, HBytes (mem32 e (of_nat wr_count))),
      (260, HBytes (mem32 e INT32_MIN)), (264, HBytes (mem64 e 0))]"

definition launch_post_batch_and_wait :: "'w aiv_host \<Rightarrow> LaunchConfig \<Rightarrow> NdsQpDescriptor \<Rightarrow> NdsSendWr list \<Rightarrow>
    ('w aiv_state, PostSendBatchResult) lcomp" where
  "launch_post_batch_and_wait host config qp wrs =
     when_runtime host (\<lambda>rt.
       if batch_refused wrs then (\<lambda>s. (Inl (kInvalidArgument, None), s))
       else with_device_buffer (lh_acl host) rt (of_nat (length wrs) * 48) (\<lambda>device_wrs.
         lbind (launch_copy_to (lh_acl host) rt device_wrs (HSendWrs wrs)) (\<lambda>_.
         with_device_buffer (lh_acl host) rt 272 (\<lambda>device_request.
           let request_address = mb_data device_request
           in exchange_request host config ''nds_aiv_post_send_batch_kernel'' rt device_request
                (post_batch_request (lh_endian host) qp (mb_data device_wrs) (length wrs))
                (BatchArguments request_address (mb_data device_wrs) (of_nat (length wrs)) (request_address + 264) (request_address + 260))
                (\<lambda>bytes s.
                   let return_value = load32 (lh_endian host) bytes 260
                   in (Inr \<lparr>pb_posted = (if return_value = 0 then length wrs
                                         else bad_index (length wrs) (load64 (lh_endian host) bytes 248) (load64 (lh_endian host) bytes 264) 0),
                            pb_status = return_value\<rparr>, s))))))"

text \<open>The selection of a queue pair is tested on the host.\<close>

definition qp_selection_invalid :: "NdsTransportDescriptor \<Rightarrow> u32 \<Rightarrow> bool" where
  "qp_selection_invalid transport queue_index \<longleftrightarrow> td_qp_descriptors_address transport = 0 \<or> queue_index \<ge> td_qp_count transport"

text \<open>The request of a transport operation: the descriptor, the work request, and the status behind it.\<close>

definition transport_request :: "endian \<Rightarrow> NdsTransportDescriptor \<Rightarrow> host_object \<Rightarrow> host_object" where
  "transport_request e transport work_request = HStruct (32 + host_size work_request)
     [(0, HTransport transport), (24, work_request), (24 + host_size work_request, HBytes (mem32 e INT32_MIN))]"

definition launch_transport_and_wait :: "'w aiv_host \<Rightarrow> LaunchConfig \<Rightarrow> string \<Rightarrow> NdsTransportDescriptor \<Rightarrow> u32 \<Rightarrow> host_object \<Rightarrow>
    ('w aiv_state, unit) lcomp" where
  "launch_transport_and_wait host config entry transport queue_index work_request =
     when_runtime host (\<lambda>rt.
       if qp_selection_invalid transport queue_index then (\<lambda>s. (Inl (kInvalidArgument, None), s))
       else
         (let request = transport_request (lh_endian host) transport work_request; status_offset = 24 + host_size work_request
          in with_device_buffer (lh_acl host) rt (of_nat (host_size request)) (\<lambda>device_request.
               exchange_request host config entry rt device_request request
                 (TransportArguments (mb_data device_request) (mb_data device_request + 24) queue_index 0
                    (mb_data device_request + of_nat status_offset))
                 (\<lambda>bytes. status_result (load32 (lh_endian host) bytes status_offset)))))"

definition transport_batch_request :: "endian \<Rightarrow> NdsTransportDescriptor \<Rightarrow> u64 \<Rightarrow> nat \<Rightarrow> host_object" where
  "transport_batch_request e transport wrs_address wr_count = HStruct 48
     [(0, HTransport transport), (24, HBytes (mem64 e wrs_address)), (32, HBytes (mem32 e (of_nat wr_count))),
      (36, HBytes (mem32 e INT32_MIN)), (40, HBytes (mem64 e 0))]"

definition transport_batch_posted :: "nat \<Rightarrow> i32 \<Rightarrow> u64 \<Rightarrow> u64 \<Rightarrow> nat" where
  "transport_batch_posted wr_count return_value wrs_address bad_wr_address =
     (if return_value \<noteq> 0 then bad_index wr_count wrs_address bad_wr_address wr_count else wr_count)"

definition launch_transport_batch_and_wait :: "'w aiv_host \<Rightarrow> LaunchConfig \<Rightarrow> NdsTransportDescriptor \<Rightarrow> u32 \<Rightarrow> NdsSendWr list \<Rightarrow>
    ('w aiv_state, PostSendBatchResult) lcomp" where
  "launch_transport_batch_and_wait host config transport queue_index wrs =
     when_runtime host (\<lambda>rt.
       if qp_selection_invalid transport queue_index then (\<lambda>s. (Inl (kInvalidArgument, None), s))
       else if batch_refused wrs then (\<lambda>s. (Inl (kInvalidArgument, None), s))
       else with_device_buffer (lh_acl host) rt (of_nat (length wrs) * 48) (\<lambda>device_wrs.
         lbind (launch_copy_to (lh_acl host) rt device_wrs (HSendWrs wrs)) (\<lambda>_.
         with_device_buffer (lh_acl host) rt 48 (\<lambda>device_request.
           let address = mb_data device_request
           in exchange_request host config ''nds_aiv_rdma_send_batch_kernel'' rt device_request
                (transport_batch_request (lh_endian host) transport (mb_data device_wrs) (length wrs))
                (TransportBatchArguments address (mb_data device_wrs) queue_index (of_nat (length wrs)) (address + 40) (address + 36))
                (\<lambda>bytes s.
                   let return_value = load32 (lh_endian host) bytes 36
                   in (Inr \<lparr>pb_posted = transport_batch_posted (length wrs) return_value (load64 (lh_endian host) bytes 24)
                                           (load64 (lh_endian host) bytes 40),
                            pb_status = return_value\<rparr>, s))))))"

section \<open>Storage requests\<close>

text \<open>
  A storage request is a structure with a return value at \<open>status_offset\<close>. The bootstrap passes its address and that of the
  return value; \<open>request_offset\<close> is 0 in every call.
\<close>

definition bootstrap_request :: "endian \<Rightarrow> NdsStorageBootstrapDescriptor \<Rightarrow> host_object" where
  "bootstrap_request e bootstrap = HStruct 48 [(0, HBootstrap bootstrap), (40, HBytes (mem32 e INT32_MIN))]"

definition operation_request :: "endian \<Rightarrow> NdsStorageOperationArgs \<Rightarrow> host_object" where
  "operation_request e a = HStruct 96 [(0, HStorage (oa_storage a)), (56, HOperation (oa_operation a)), (88, HBytes (mem32 e INT32_MIN))]"

definition batch_request :: "endian \<Rightarrow> NdsStorageBatchOperationArgs \<Rightarrow> host_object" where
  "batch_request e a = HStruct 88 [(0, HStorage (ba_storage a)), (56, HBatchOperation (ba_operation a)), (80, HBytes (mem32 e INT32_MIN))]"

definition wait_request :: "endian \<Rightarrow> NdsStorageDescriptor \<Rightarrow> u32 \<Rightarrow> host_object" where
  "wait_request e storage slot_id = HStruct 72
     [(0, HStorage storage), (56, HBytes (mem32 e slot_id)), (60, HBytes (mem32 e 0)), (64, HBytes (mem32 e INT32_MIN))]"

definition launch_storage_and_wait :: "'w aiv_host \<Rightarrow> LaunchConfig \<Rightarrow> string \<Rightarrow> host_object \<Rightarrow> nat \<Rightarrow> nat \<Rightarrow> ('w aiv_state, unit) lcomp" where
  "launch_storage_and_wait host config entry request status_offset request_offset =
     when_runtime host (\<lambda>rt. with_device_buffer (lh_acl host) rt (of_nat (host_size request)) (\<lambda>device_request.
       exchange_request host config entry rt device_request request
         (BootstrapArguments (mb_data device_request + of_nat request_offset) (mb_data device_request + of_nat status_offset))
         (\<lambda>bytes. status_result (load32 (lh_endian host) bytes status_offset))))"

text \<open>
  A storage submission. When asynchronous, a successful launch moves the request's memory into the launcher instead of
  releasing it, and the kernel reports to the status word of the slot.
\<close>

definition submit_async :: "'w aiv_host \<Rightarrow> LaunchConfig \<Rightarrow> string \<Rightarrow> Runtime \<Rightarrow> host_object \<Rightarrow> NdsStorageDescriptor \<Rightarrow> u32 \<Rightarrow>
    MemoryBuffer \<Rightarrow> ('w aiv_state, unit) lcomp" where
  "submit_async host config entry rt request storage slot_id device_request s =
     (case launch_copy_to (lh_acl host) rt device_request request s of
        (Inl e, (l, w)) \<Rightarrow> (Inl e, (l, snd (buffer_reset (lh_acl host) rt device_request w)))
      | (Inr _, s) \<Rightarrow>
          (let arguments = StorageOperationArguments (mb_data device_request) (mb_data device_request + 56) (slot_status_address storage slot_id)
           in case aiv_launch host (Some entry) config (Some arguments) (arguments_size arguments) s of
                (launch_result, (l, w)) \<Rightarrow>
                  if launch_result \<noteq> 0
                  then (Inl (kRuntime, Some launch_result), (l, snd (buffer_reset (lh_acl host) rt device_request w)))
                  else (Inr (), (retain_async_storage_request device_request l, w))))"

definition submit_sync :: "'w aiv_host \<Rightarrow> LaunchConfig \<Rightarrow> string \<Rightarrow> Runtime \<Rightarrow> host_object \<Rightarrow> nat \<Rightarrow> ('w aiv_state, unit) lcomp" where
  "submit_sync host config entry rt request status_offset =
     with_device_buffer (lh_acl host) rt (of_nat (host_size request)) (\<lambda>device_request.
       exchange_request host config entry rt device_request request
         (StorageOperationArguments (mb_data device_request) (mb_data device_request + 56) (mb_data device_request + of_nat status_offset))
         (\<lambda>bytes. status_result (load32 (lh_endian host) bytes status_offset)))"

definition launch_storage_operation_and_wait :: "'w aiv_host \<Rightarrow> LaunchConfig \<Rightarrow> string \<Rightarrow> host_object \<Rightarrow> nat \<Rightarrow>
    NdsStorageDescriptor \<Rightarrow> u32 \<Rightarrow> ('w aiv_state, unit) lcomp" where
  "launch_storage_operation_and_wait host config entry request status_offset storage slot_id =
     when_runtime host (\<lambda>rt.
       if lc_sync config then submit_sync host config entry rt request status_offset
       else lbind (launch_allocate (lh_acl host) rt (of_nat (host_size request)))
              (submit_async host config entry rt request storage slot_id))"

definition launch_storage_wait_and_wait :: "'w aiv_host \<Rightarrow> LaunchConfig \<Rightarrow> NdsStorageDescriptor \<Rightarrow> u32 \<Rightarrow> ('w aiv_state, unit) lcomp" where
  "launch_storage_wait_and_wait host config storage slot_id =
     when_runtime host (\<lambda>rt. with_device_buffer (lh_acl host) rt 72 (\<lambda>device_request.
       exchange_request host config ''nds_aiv_storage_wait_kernel'' rt device_request (wait_request (lh_endian host) storage slot_id)
         (StorageWaitArguments (mb_data device_request) slot_id 0 (mb_data device_request + 64))
         (\<lambda>bytes. status_result (load32 (lh_endian host) bytes 64))))"

section \<open>The methods\<close>

definition aiv_post_send_with_config :: "'w aiv_host \<Rightarrow> LaunchConfig \<Rightarrow> NdsQpDescriptor \<Rightarrow> NdsSendWr \<Rightarrow> ('w aiv_state, unit) lcomp" where
  "aiv_post_send_with_config host config qp wr = launch_post_and_wait host config ''nds_aiv_post_send_kernel'' (PostSendArguments qp wr)"

definition aiv_post_send_batch_with_config :: "'w aiv_host \<Rightarrow> LaunchConfig \<Rightarrow> NdsQpDescriptor \<Rightarrow> NdsSendWr list \<Rightarrow>
    ('w aiv_state, PostSendBatchResult) lcomp" where
  "aiv_post_send_batch_with_config host config qp wrs = launch_post_batch_and_wait host config qp wrs"

definition aiv_post_recv_with_config :: "'w aiv_host \<Rightarrow> LaunchConfig \<Rightarrow> NdsQpDescriptor \<Rightarrow> NdsRecvWr \<Rightarrow> ('w aiv_state, unit) lcomp" where
  "aiv_post_recv_with_config host config qp wr = launch_post_and_wait host config ''nds_aiv_post_recv_kernel'' (PostRecvArguments qp wr)"

definition poll_request :: "endian \<Rightarrow> NdsQpDescriptor \<Rightarrow> bool \<Rightarrow> u32 \<Rightarrow> u64 \<Rightarrow> host_object" where
  "poll_request e qp send_cq max_completions wc_address = HStruct 272
     [(0, HQpDescriptors [qp]), (248, HBytes (mem32 e (if send_cq then 1 else 0))), (252, HBytes (mem32 e max_completions)),
      (256, HBytes (mem64 e wc_address)), (264, HBytes (mem32 e INT32_MIN))]"

definition aiv_poll_cq_with_config :: "'w aiv_host \<Rightarrow> LaunchConfig \<Rightarrow> NdsQpDescriptor \<Rightarrow> bool \<Rightarrow> u32 \<Rightarrow> bool \<Rightarrow>
    ('w aiv_state, u32 \<times> NdsWc list) lcomp" where
  "aiv_poll_cq_with_config host config qp send_cq max_completions completions = (\<lambda>(l, w).
     if dln_runtime l = 0 \<or> \<not> completions \<or> max_completions = 0 then (Inl (kInvalidArgument, None), (l, w))
     else
       (let rt = lh_runtime host (dln_runtime l)
        in with_device_buffer (lh_acl host) rt (ucast max_completions * 40) (\<lambda>device_completions.
             with_device_buffer (lh_acl host) rt 272 (\<lambda>device_request.
               exchange_request host config ''nds_aiv_poll_cq_kernel'' rt device_request
                 (poll_request (lh_endian host) qp send_cq max_completions (mb_data device_completions))
                 (PollArguments (mb_data device_request) (if send_cq then 1 else 0) max_completions (mb_data device_completions)
                    (mb_data device_request + 264))
                 (\<lambda>bytes. collect_completions (lh_acl host) rt (lh_endian host) device_completions (load32 (lh_endian host) bytes 264))))
           (l, w)))"

definition aiv_rdma_send_with_config :: "'w aiv_host \<Rightarrow> LaunchConfig \<Rightarrow> NdsTransportDescriptor \<Rightarrow> u32 \<Rightarrow> NdsSendWr \<Rightarrow> ('w aiv_state, unit) lcomp" where
  "aiv_rdma_send_with_config host config transport queue_index wr =
     launch_transport_and_wait host config ''nds_aiv_rdma_send_kernel'' transport queue_index (HSendWrs [wr])"

definition aiv_rdma_recv_with_config :: "'w aiv_host \<Rightarrow> LaunchConfig \<Rightarrow> NdsTransportDescriptor \<Rightarrow> u32 \<Rightarrow> NdsRecvWr \<Rightarrow> ('w aiv_state, unit) lcomp" where
  "aiv_rdma_recv_with_config host config transport queue_index wr =
     launch_transport_and_wait host config ''nds_aiv_rdma_recv_kernel'' transport queue_index (HRecvWr wr)"

definition aiv_rdma_read_with_config :: "'w aiv_host \<Rightarrow> LaunchConfig \<Rightarrow> NdsTransportDescriptor \<Rightarrow> u32 \<Rightarrow> NdsSendWr \<Rightarrow> ('w aiv_state, unit) lcomp" where
  "aiv_rdma_read_with_config host config transport queue_index wr =
     launch_transport_and_wait host config ''nds_aiv_rdma_read_kernel'' transport queue_index (HSendWrs [wr])"

definition aiv_rdma_write_with_config :: "'w aiv_host \<Rightarrow> LaunchConfig \<Rightarrow> NdsTransportDescriptor \<Rightarrow> u32 \<Rightarrow> NdsSendWr \<Rightarrow> ('w aiv_state, unit) lcomp" where
  "aiv_rdma_write_with_config host config transport queue_index wr =
     launch_transport_and_wait host config ''nds_aiv_rdma_write_kernel'' transport queue_index (HSendWrs [wr])"

definition aiv_rdma_send_batch_with_config :: "'w aiv_host \<Rightarrow> LaunchConfig \<Rightarrow> NdsTransportDescriptor \<Rightarrow> u32 \<Rightarrow> NdsSendWr list \<Rightarrow>
    ('w aiv_state, PostSendBatchResult) lcomp" where
  "aiv_rdma_send_batch_with_config host config transport queue_index wrs = launch_transport_batch_and_wait host config transport queue_index wrs"

definition aiv_storage_bootstrap_with_config :: "'w aiv_host \<Rightarrow> LaunchConfig \<Rightarrow> NdsStorageBootstrapDescriptor \<Rightarrow> ('w aiv_state, unit) lcomp" where
  "aiv_storage_bootstrap_with_config host config bootstrap =
     launch_storage_and_wait host config ''nds_aiv_storage_bootstrap_kernel'' (bootstrap_request (lh_endian host) bootstrap) 40 0"

definition aiv_storage_read_with_config :: "'w aiv_host \<Rightarrow> LaunchConfig \<Rightarrow> NdsStorageDescriptor \<Rightarrow> u32 \<Rightarrow> u64 \<Rightarrow> u64 \<Rightarrow> u32 \<Rightarrow> u32 \<Rightarrow>
    ('w aiv_state, unit) lcomp" where
  "aiv_storage_read_with_config host config storage slot_id server_offset buffer_address buffer_key len =
     launch_storage_operation_and_wait host config ''nds_aiv_storage_read_kernel''
       (operation_request (lh_endian host) (storage_operation_args storage slot_id server_offset buffer_address buffer_key len)) 88 storage slot_id"

definition aiv_storage_write_with_config :: "'w aiv_host \<Rightarrow> LaunchConfig \<Rightarrow> NdsStorageDescriptor \<Rightarrow> u32 \<Rightarrow> u64 \<Rightarrow> u64 \<Rightarrow> u32 \<Rightarrow> u32 \<Rightarrow>
    ('w aiv_state, unit) lcomp" where
  "aiv_storage_write_with_config host config storage slot_id server_offset buffer_address buffer_key len =
     launch_storage_operation_and_wait host config ''nds_aiv_storage_write_kernel''
       (operation_request (lh_endian host) (storage_operation_args storage slot_id server_offset buffer_address buffer_key len)) 88 storage slot_id"

definition aiv_storage_read_batch_with_config :: "'w aiv_host \<Rightarrow> LaunchConfig \<Rightarrow> NdsStorageDescriptor \<Rightarrow> u32 \<Rightarrow> u64 \<Rightarrow> u32 \<Rightarrow> u32 \<Rightarrow>
    ('w aiv_state, unit) lcomp" where
  "aiv_storage_read_batch_with_config host config storage slot_id entries_address entries_key entry_count =
     launch_storage_operation_and_wait host config ''nds_aiv_storage_batch_read_kernel''
       (batch_request (lh_endian host) (storage_batch_args storage slot_id entries_address entries_key entry_count)) 80 storage slot_id"

definition aiv_storage_write_batch_with_config :: "'w aiv_host \<Rightarrow> LaunchConfig \<Rightarrow> NdsStorageDescriptor \<Rightarrow> u32 \<Rightarrow> u64 \<Rightarrow> u32 \<Rightarrow> u32 \<Rightarrow>
    ('w aiv_state, unit) lcomp" where
  "aiv_storage_write_batch_with_config host config storage slot_id entries_address entries_key entry_count =
     launch_storage_operation_and_wait host config ''nds_aiv_storage_batch_write_kernel''
       (batch_request (lh_endian host) (storage_batch_args storage slot_id entries_address entries_key entry_count)) 80 storage slot_id"

text \<open>One round of the wait: the probe, and the release of the asynchronous requests whatever it says.\<close>

definition aiv_wait_probe :: "'w aiv_host \<Rightarrow> LaunchConfig \<Rightarrow> NdsStorageDescriptor \<Rightarrow> u32 \<Rightarrow> ('w aiv_state, unit) lcomp" where
  "aiv_wait_probe host config storage slot_id s =
     (case launch_storage_wait_and_wait host config storage slot_id s of (r, s) \<Rightarrow> (r, release_async_storage_requests host s))"

definition aiv_storage_wait_with_config :: "'w aiv_host \<Rightarrow> LaunchConfig \<Rightarrow> NdsStorageDescriptor \<Rightarrow> u32 \<Rightarrow> ('w aiv_state, unit) pcomp" where
  "aiv_storage_wait_with_config host config storage slot_id =
     wait_with_deadline (lh_acl host) config (aiv_wait_probe host config storage slot_id)"

definition aiv_launcher_ops :: "'w aiv_host \<Rightarrow> ('w aiv_state) LauncherOps" where
  "aiv_launcher_ops host =
     \<lparr>post_send_with_config = (\<lambda>config qp wr. as_method (aiv_post_send_with_config host config qp wr)),
      post_send_batch_with_config = (\<lambda>config qp wrs. as_method (aiv_post_send_batch_with_config host config qp wrs)),
      post_recv_with_config = (\<lambda>config qp wr. as_method (aiv_post_recv_with_config host config qp wr)),
      poll_cq_with_config = (\<lambda>config qp send_cq n wc. as_method (aiv_poll_cq_with_config host config qp send_cq n wc)),
      rdma_send_with_config = (\<lambda>config t i wr. as_method (aiv_rdma_send_with_config host config t i wr)),
      rdma_recv_with_config = (\<lambda>config t i wr. as_method (aiv_rdma_recv_with_config host config t i wr)),
      rdma_read_with_config = (\<lambda>config t i wr. as_method (aiv_rdma_read_with_config host config t i wr)),
      rdma_write_with_config = (\<lambda>config t i wr. as_method (aiv_rdma_write_with_config host config t i wr)),
      rdma_send_batch_with_config = (\<lambda>config t i wrs. as_method (aiv_rdma_send_batch_with_config host config t i wrs)),
      storage_bootstrap_with_config = (\<lambda>config b. as_method (aiv_storage_bootstrap_with_config host config b)),
      storage_read_with_config = (\<lambda>config d i offset address key n.
        as_method (aiv_storage_read_with_config host config d i offset address key n)),
      storage_write_with_config = (\<lambda>config d i offset address key n.
        as_method (aiv_storage_write_with_config host config d i offset address key n)),
      storage_read_batch_with_config = (\<lambda>config d i address key n.
        as_method (aiv_storage_read_batch_with_config host config d i address key n)),
      storage_write_batch_with_config = (\<lambda>config d i address key n.
        as_method (aiv_storage_write_batch_with_config host config d i address key n)),
      storage_wait_with_config = aiv_storage_wait_with_config host\<rparr>"

section \<open>What a call changes in the launcher\<close>

text \<open>Only the function cache changes.\<close>

definition same_launcher :: "'x DeviceLauncher_scheme \<Rightarrow> 'x DeviceLauncher_scheme \<Rightarrow> bool" where
  "same_launcher l l' \<longleftrightarrow> (\<exists>fs. l' = l\<lparr>dln_functions := fs\<rparr>)"

lemma same_launcher_refl [simp, intro]: "same_launcher l l"
  unfolding same_launcher_def by (rule exI [of _ "dln_functions l"]) simp

lemma same_launcher_trans: "same_launcher l l' \<Longrightarrow> same_launcher l' l'' \<Longrightarrow> same_launcher l l''"
  by (auto simp: same_launcher_def)

lemma same_launcherD:
  "same_launcher l l' \<Longrightarrow> dln_runtime l' = dln_runtime l"
  by (auto simp: same_launcher_def)

lemma same_aiv_launcherD: "same_launcher l l' \<Longrightarrow> avl_async_storage_requests l' = avl_async_storage_requests l"
  by (auto simp: same_launcher_def)

definition lframes :: "('x DeviceLauncher_scheme \<times> 'w, 'a) lcomp \<Rightarrow> bool" where
  "lframes m \<longleftrightarrow> (\<forall>s. same_launcher (fst s) (fst (snd (m s))))"

lemma lframesD: "lframes m \<Longrightarrow> m (l, w) = (r, (l', w')) \<Longrightarrow> same_launcher l l'"
  unfolding lframes_def by (metis fst_conv snd_conv)

lemma lframesI: "(\<And>l w r l' w'. m (l, w) = (r, (l', w')) \<Longrightarrow> same_launcher l l') \<Longrightarrow> lframes m"
  unfolding lframes_def by (metis prod.collapse)

lemma lframes_bind:
  assumes "lframes m" and "\<And>x. lframes (f x)"
  shows "lframes (lbind m f)"
proof (rule lframesI)
  fix l w r l' w' assume "lbind m f (l, w) = (r, (l', w'))"
  then consider e where "m (l, w) = (Inl e, (l', w'))" | x l1 w1 where "m (l, w) = (Inr x, (l1, w1))" "f x (l1, w1) = (r, (l', w'))"
    by (fastforce dest!: lbind_outcome)
  then show "same_launcher l l'"
  proof cases
    case (2 x l1 w1)
    with assms show ?thesis by (metis lframesD same_launcher_trans)
  qed (use assms(1) lframesD in metis)
qed

lemma lframes_pure: "lframes (\<lambda>s. (r s, s))"
  by (simp add: lframes_def)

lemma lframes_world:
  "lframes (launch_allocate acl rt sz)" "lframes (launch_copy_to acl rt b x)" "lframes (launch_copy_from acl rt b n)"
  by (rule lframesI; auto simp: launch_allocate_def launch_copy_to_def launch_copy_from_def split: prod.splits sum.splits)+

lemma device_launch_frame:
  "device_launch dev attrs name config args sz (l, w) = (r, (l', w')) \<Longrightarrow> same_launcher l l'"
  by (auto simp: device_launch_def find_function_def same_launcher_def Let_def split: option.splits if_splits prod.splits)
    (metis same_launcher_def same_launcher_refl)+

lemma launch_and_sync_frames: "lframes (launch_and_sync dev attrs config entry args sz)"
  by (rule lframesI) (auto simp: launch_and_sync_def dest: device_launch_frame split: if_splits prod.splits)

lemma with_device_buffer_frames:
  assumes "\<And>b. lframes (body b)"
  shows "lframes (with_device_buffer acl rt sz body)"
  unfolding with_device_buffer_def
proof (rule lframes_bind [OF lframes_world(1)])
  show "lframes (\<lambda>s. case body b s of (r, l, w) \<Rightarrow> (r, l, snd (buffer_reset acl rt b w)))" for b
    by (rule lframesI) (auto dest: lframesD [OF assms] split: prod.splits)
qed

lemma exchange_request_frames:
  "(\<And>bytes. lframes (finish bytes)) \<Longrightarrow> lframes (exchange_request host config entry rt b object arguments finish)"
  unfolding exchange_request_def by (intro lframes_bind lframes_world launch_and_sync_frames)

lemma status_result_frames: "lframes (status_result v)"
  unfolding status_result_def by (rule lframes_pure)

lemma status_result_steps: "reflp R \<Longrightarrow> lsteps R (status_result v)"
  unfolding status_result_def by (rule lsteps_pure)

lemma exchange_request_steps:
  assumes R: "reflp R" "transp R" and c: "calls_step R (lh_dev host) (lh_acl host)" and b: "mb_location b = LocDevice"
    and f: "\<And>bytes. lsteps R (finish bytes)"
  shows "lsteps R (exchange_request host config entry rt b object arguments finish)"
  unfolding exchange_request_def by (rule launch_body_steps [OF R c b f])

section \<open>The memory of asynchronous requests\<close>

text \<open>
  The device memory in use is \<open>base\<close> and the retained requests, each a live buffer of the launcher's runtime.
\<close>

definition retains :: "'w aiv_host \<Rightarrow> ('w \<Rightarrow> u64 \<Rightarrow> nat) \<Rightarrow> (u64 \<Rightarrow> nat) \<Rightarrow> 'w aiv_state \<Rightarrow> bool" where
  "retains host blocks base = (\<lambda>(l, w).
     blocks w = (\<lambda>p. base p + length (filter (\<lambda>b. mb_data b = p) (avl_async_storage_requests l))) \<and>
     list_all (\<lambda>b. mb_location b = LocDevice \<and> buffer_wf (lh_runtime host (dln_runtime l)) b) (avl_async_storage_requests l) \<and>
     (avl_async_storage_requests l \<noteq> [] \<longrightarrow> rt_initialized (lh_runtime host (dln_runtime l))))"

lemma retains_same:
  assumes "retains host blocks base (l, w)" and "same_launcher l l'" and "blocks w' = blocks w"
  shows "retains host blocks base (l', w')"
  using assms same_launcherD [OF assms(2)] same_aiv_launcherD [OF assms(2)] by (simp add: retains_def)

text \<open>Releasing frees them all.\<close>

lemma release_requests:
  assumes laws: "memory_laws dev (lh_acl host) blocks" and this_rt: "rt_this (lh_runtime host (dln_runtime l)) \<noteq> 0"
    and "retains host blocks base (l, w)" and "release_async_storage_requests host (l, w) = (l', w')"
  shows "blocks w' = base" and "l' = l\<lparr>avl_async_storage_requests := []\<rparr>"
proof -
  let ?rt = "lh_runtime host (dln_runtime l)"
  have "blocks (fold (\<lambda>b w. snd (buffer_reset (lh_acl host) ?rt b w)) bs w) = base"
    if "blocks w = (\<lambda>p. base p + length (filter (\<lambda>b. mb_data b = p) bs))"
      "list_all (\<lambda>b. mb_location b = LocDevice \<and> buffer_wf ?rt b) bs" "bs \<noteq> [] \<longrightarrow> rt_initialized ?rt" for bs w
    using that
  proof (induction bs arbitrary: w)
    case (Cons b bs)
    then have "snd (buffer_reset (lh_acl host) ?rt b w) = snd (aclrtFree (lh_acl host) (mb_data b) w)"
      using this_rt by (auto simp: buffer_reset_def free_device_memory_def buffer_wf_def split: prod.splits)
    moreover have "blocks (snd (aclrtFree (lh_acl host) (mb_data b) w)) = (\<lambda>p. base p + length (filter (\<lambda>b. mb_data b = p) bs))"
      using memory_laws_free [OF laws, of w "mb_data b"] Cons.prems(1) by (auto simp: fun_eq_iff)
    ultimately show ?case using Cons by simp
  qed simp
  with assms(3,4) show "blocks w' = base" and "l' = l\<lparr>avl_async_storage_requests := []\<rparr>"
    by (auto simp: release_async_storage_requests_def retains_def)
qed

lemma storage_wait_steps:
  assumes "memory_laws (lh_dev host) (lh_acl host) blocks" and "\<And>a. rt_this (lh_runtime host a) \<noteq> 0"
  shows "lframes (launch_storage_wait_and_wait host config storage slot_id)"
    and "same blocks w (snd (snd (launch_storage_wait_and_wait host config storage slot_id (l, w))))"
proof -
  have c: "calls_step (\<lambda>w w'. same blocks w w') (lh_dev host) (lh_acl host)" using assms(1) by (simp add: memory_laws_def)
  show "lframes (launch_storage_wait_and_wait host config storage slot_id)"
    unfolding launch_storage_wait_and_wait_def when_runtime_def lframes_def
    using with_device_buffer_frames [OF exchange_request_frames [OF status_result_frames]] by (fastforce simp: lframes_def)
  have "lsteps (\<lambda>w w'. same blocks w w') (with_device_buffer (lh_acl host) (lh_runtime host a) n (\<lambda>b.
      exchange_request host config entry (lh_runtime host a) b x (args b) (\<lambda>bytes. status_result (v bytes))))" for a n entry x args v
    by (intro with_device_buffer_keeps [OF assms(1)] exchange_request_steps [OF same_preorder c] status_result_steps same_preorder assms(2))
  then show "same blocks w (snd (snd (launch_storage_wait_and_wait host config storage slot_id (l, w))))"
    by (auto simp: launch_storage_wait_and_wait_def when_runtime_def lsteps_def)
qed

lemma wait_probe_clock:
  assumes "launch_clock (lh_dev host) (lh_acl host) clock"
  shows "lsteps (\<lambda>w w'. clock w \<le> clock w') (aiv_wait_probe host config storage slot_id)"
proof (rule lstepsI)
  fix l w r l' w' assume run: "aiv_wait_probe host config storage slot_id (l, w) = (r, (l', w'))"
  have c: "calls_step (\<lambda>w w'. clock w \<le> clock w') (lh_dev host) (lh_acl host)" using assms by (simp add: launch_clock_def)
  have "lsteps (\<lambda>w w'. clock w \<le> clock w') (with_device_buffer (lh_acl host) (lh_runtime host a) n (\<lambda>b.
      exchange_request host config entry (lh_runtime host a) b x (args b) (\<lambda>bytes. status_result (v bytes))))" for a n entry x args v
    by (intro with_device_buffer_clock [OF assms] exchange_request_steps [OF clock_preorder c] status_result_steps clock_preorder)
  then have "clock w \<le> clock (snd (snd (launch_storage_wait_and_wait host config storage slot_id (l, w))))"
    by (auto simp: launch_storage_wait_and_wait_def when_runtime_def lsteps_def)
  moreover have "clock w1 \<le> clock (fold (\<lambda>b w. snd (buffer_reset (lh_acl host) rt b w)) bs w1)" for rt bs w1
    by (induction bs arbitrary: w1) (auto intro: order_trans [OF buffer_reset_clock [OF assms]])
  then have "clock (snd s) \<le> clock (snd (release_async_storage_requests host s))" for s
    by (cases s) (simp add: release_async_storage_requests_def)
  ultimately show "clock w \<le> clock w'"
    using run by (auto simp: aiv_wait_probe_def split: prod.splits) (metis order_trans snd_conv)
qed

text \<open>Memory that was allocated for a request and is either released or retained.\<close>

lemma submit_async_retains:
  assumes laws: "memory_laws (lh_dev host) (lh_acl host) blocks" and this_rt: "rt_this (lh_runtime host (dln_runtime l)) \<noteq> 0"
    and acc: "retains host blocks base (l, w)"
    and a: "runtime_allocate (lh_acl host) (lh_runtime host (dln_runtime l)) n LocDevice w = (Inr b, w1)"
    and run: "submit_async host config entry (lh_runtime host (dln_runtime l)) request storage slot_id b (l, w1) = (r, (l', w'))"
  shows "retains host blocks base (l', w')"
proof -
  have c: "calls_step (\<lambda>w w'. same blocks w w') (lh_dev host) (lh_acl host)" using laws by (simp add: memory_laws_def)
  let ?rt = "lh_runtime host (dln_runtime l)"
  note wf = runtime_allocate_wf [OF a] and fresh = fresh_buffer [OF laws this_rt a]
  obtain rc l2 w2 where cp: "launch_copy_to (lh_acl host) ?rt b request (l, w1) = (rc, (l2, w2))" by (metis prod_cases3)
  have w2: "blocks w2 = blocks w1" "same_launcher l l2"
    by (rule lstepsD [OF launch_copy_steps(1) [OF same_preorder(1) c wf(3)] cp], rule lframesD [OF lframes_world(2) cp])
  let ?args = "StorageOperationArguments (mb_data b) (mb_data b + 56) (slot_status_address storage slot_id)"
  obtain v l3 w3 where la: "aiv_launch host (Some entry) config (Some ?args) (arguments_size ?args) (l2, w2) = (v, (l3, w3))"
    by (metis prod_cases3)
  have l3: "same_launcher l l3" "blocks w3 = blocks w1"
    using same_launcher_trans [OF w2(2) device_launch_frame [OF la [unfolded aiv_launch_def]]]
      device_launch_steps [OF same_preorder c la [unfolded aiv_launch_def]] w2(1) by simp_all
  show ?thesis
  proof (cases "\<exists>u. rc = Inr u \<and> v = 0")
    case True
    with run cp la have l': "l' = retain_async_storage_request b l3" "w' = w3" by (auto simp: submit_async_def)
    show ?thesis
      using acc l3 fresh(1) wf same_launcherD [OF l3(1)] same_aiv_launcherD [OF l3(1)]
      unfolding l' retain_async_storage_request_def by (auto simp: retains_def fun_eq_iff)
  next
    case False
    with run cp la have "(l' = l2 \<and> w' = snd (buffer_reset (lh_acl host) ?rt b w2)) \<or> (l' = l3 \<and> w' = snd (buffer_reset (lh_acl host) ?rt b w3))"
      by (cases rc) (auto simp: submit_async_def split: if_splits)
    with retains_same [OF acc] w2(2) l3(1) fresh(2) [OF w2(1)] fresh(2) [OF l3(2)] show ?thesis by auto
  qed
qed

lemma submit_sync_steps:
  assumes "memory_laws (lh_dev host) (lh_acl host) blocks" and "rt_this rt \<noteq> 0"
  shows "lframes (submit_sync host config entry rt request off)"
    and "lsteps (\<lambda>w w'. same blocks w w') (submit_sync host config entry rt request off)"
proof -
  have c: "calls_step (\<lambda>w w'. same blocks w w') (lh_dev host) (lh_acl host)" using assms(1) by (simp add: memory_laws_def)
  show "lframes (submit_sync host config entry rt request off)"
    unfolding submit_sync_def by (intro with_device_buffer_frames exchange_request_frames status_result_frames)
  show "lsteps (\<lambda>w w'. same blocks w w') (submit_sync host config entry rt request off)"
    unfolding submit_sync_def
    by (intro with_device_buffer_keeps [OF assms(1)] exchange_request_steps [OF same_preorder c] status_result_steps same_preorder assms(2))
qed

text \<open>A storage submission, synchronous or not, keeps the account.\<close>

lemma storage_operation_retains:
  assumes laws: "memory_laws (lh_dev host) (lh_acl host) blocks" and this_rt: "\<And>a. rt_this (lh_runtime host a) \<noteq> 0"
    and acc: "retains host blocks base (l, w)"
    and run: "launch_storage_operation_and_wait host config entry request off storage slot_id (l, w) = (r, (l', w'))"
  shows "retains host blocks base (l', w')"
proof -
  let ?rt = "lh_runtime host (dln_runtime l)" and ?n = "of_nat (host_size request) :: u64"
  note run' = run [unfolded launch_storage_operation_and_wait_def when_runtime_def]
  consider "dln_runtime l = 0" | "dln_runtime l \<noteq> 0" "lc_sync config" | "dln_runtime l \<noteq> 0" "\<not> lc_sync config" by blast
  then show ?thesis
  proof cases
    case 1
    with run' acc show ?thesis by auto
  next
    case 2
    with run' have "submit_sync host config entry ?rt request off (l, w) = (r, (l', w'))" by simp
    note steps = lframesD [OF submit_sync_steps(1) [OF laws this_rt] this] lstepsD [OF submit_sync_steps(2) [OF laws this_rt] this]
    show ?thesis by (rule retains_same [OF acc steps])
  next
    case 3
    obtain ra w1 where a: "runtime_allocate (lh_acl host) ?rt ?n LocDevice w = (ra, w1)" by fastforce
    show ?thesis
    proof (cases ra)
      case (Inl e)
      with run' 3 a have "l' = l" "w' = w1" by (auto simp: lbind_def launch_allocate_def)
      moreover have "blocks w1 = blocks w"
        using a Inl memory_laws_malloc [OF laws] by (cases rule: device_allocate_cases) auto
      ultimately show ?thesis using retains_same [OF acc, of l w1] by simp
    next
      case (Inr b)
      with run' 3 a have "submit_async host config entry ?rt request storage slot_id b (l, w1) = (r, (l', w'))"
        by (auto simp: lbind_def launch_allocate_def)
      with submit_async_retains [OF laws this_rt acc a [unfolded Inr]] show ?thesis by blast
    qed
  qed
qed

text \<open>A round of the wait keeps the account and leaves nothing retained.\<close>

lemma wait_probe_releases:
  assumes laws: "memory_laws (lh_dev host) (lh_acl host) blocks" and this_rt: "\<And>a. rt_this (lh_runtime host a) \<noteq> 0"
    and acc: "retains host blocks base (l, w)"
    and run: "aiv_wait_probe host config storage slot_id (l, w) = (r, (l', w'))"
  shows "avl_async_storage_requests l' = []" and "blocks w' = base" and "retains host blocks base (l', w')"
proof -
  obtain r1 l1 w1 where p: "launch_storage_wait_and_wait host config storage slot_id (l, w) = (r1, (l1, w1))" by (metis prod_cases3)
  have "same_launcher l l1" by (rule lframesD [OF storage_wait_steps(1) [OF laws this_rt] p])
  moreover have "blocks w1 = blocks w" using storage_wait_steps(2) [OF laws this_rt, where w = w and config = config and storage = storage and slot_id = slot_id and l = l] p by simp
  ultimately have "retains host blocks base (l1, w1)" by (rule retains_same [OF acc])
  moreover have "release_async_storage_requests host (l1, w1) = (l', w')" using run p by (simp add: aiv_wait_probe_def)
  ultimately have "blocks w' = base" "l' = l1\<lparr>avl_async_storage_requests := []\<rparr>"
    using release_requests [OF laws this_rt] by blast+
  then show "avl_async_storage_requests l' = []" and "blocks w' = base" and "retains host blocks base (l', w')"
    by (simp_all add: retains_def)
qed

lemma wait_ends_with_probe:
  assumes "launch_clock dev acl clock" and "lsteps (\<lambda>w w'. clock w \<le> clock w') probe"
    and "J (l, w)" "probes_keep J acl probe"
  obtains r t s1 p s2 where "wait_with_deadline acl config probe (l, w) = Some (r, t)" "J s1" "probe s1 = (p, s2)"
    "t = s2 \<or> t = (fst s2, snd (client_now acl (snd s2)))"
proof (rule wait_with_deadline_outcome [where J = J and config = config, OF assms])
  fix r t s1 p s2
  assume run: "wait_with_deadline acl config probe (l, w) = Some (r, t)" "J s1" "probe s1 = (p, s2)"
    and out: "case p of
       Inr _ \<Rightarrow> r = Inr () \<and> t = s2
     | Inl e \<Rightarrow>
         if reports_pending e
         then r = Inl kProtocol \<and> t = (fst s2, snd (client_now acl (snd s2)))
           \<and> int (fst (client_now acl w)) + sint (lc_sync_timeout_ms config) * 1000000 \<le> int (fst (client_now acl (snd s2)))
         else r = Inl (fst e) \<and> t = s2"
  from out have "t = s2 \<or> t = (fst s2, snd (client_now acl (snd s2)))" by (cases p) (auto split: if_splits)
  with run show thesis by (rule that)
qed

lemma wait_releases:
  assumes laws: "memory_laws (lh_dev host) (lh_acl host) blocks" and clock: "launch_clock (lh_dev host) (lh_acl host) clock"
    and this_rt: "\<And>a. rt_this (lh_runtime host a) \<noteq> 0" and acc: "retains host blocks base (l, w)"
  shows "\<exists>r l' w'. aiv_storage_wait_with_config host config storage slot_id (l, w) = Some (r, (l', w'))
    \<and> avl_async_storage_requests l' = [] \<and> blocks w' = base"
proof -
  let ?probe = "aiv_wait_probe host config storage slot_id"
  have now: "blocks (snd (client_now (lh_acl host) w)) = blocks w" for w using laws by (simp add: memory_laws_def)
  have "probes_keep (retains host blocks base) (lh_acl host) ?probe"
    unfolding probes_keep_def
  proof (intro conjI allI impI)
    fix s assume "retains host blocks base s"
    then show "retains host blocks base (snd (?probe s))"
      using wait_probe_releases(3) [OF laws this_rt] by (cases s; cases "?probe s") (metis prod.collapse snd_conv)
  next
    show "retains host blocks base (l, snd (client_now (lh_acl host) w))" if "retains host blocks base (l, w)" for l w
      by (rule retains_same [OF that _ now]) simp
  qed
  from wait_ends_with_probe [where J = "retains host blocks base", OF clock wait_probe_clock [OF clock] acc this]
  obtain r t s1 p s2 where run: "wait_with_deadline (lh_acl host) config ?probe (l, w) = Some (r, t)"
    "retains host blocks base s1" "?probe s1 = (p, s2)"
    and t: "t = s2 \<or> t = (fst s2, snd (client_now (lh_acl host) (snd s2)))" .
  have "avl_async_storage_requests (fst s2) = []" "blocks (snd s2) = base"
    using wait_probe_releases [OF laws this_rt, of base "fst s1" "snd s1"] run(2,3) by (metis prod.collapse)+
  with t now have "avl_async_storage_requests (fst t) = []" "blocks (snd t) = base" by auto
  with run(1) show ?thesis unfolding aiv_storage_wait_with_config_def by (metis prod.collapse)
qed

text \<open>C9: the device memory of asynchronous storage requests is accounted for. The device memory in use is at any time
  what it was before and the requests that the launcher retains: a submission adds its request only if the launch was
  accepted and releases it on every other path, the wait returns (when reading the clock takes time) with nothing
  retained and the memory back at its base, whatever it reports, and so does unloading.\<close>

theorem aiv_requests_accounted:
  assumes laws: "memory_laws (lh_dev host) (lh_acl host) blocks" and clock: "launch_clock (lh_dev host) (lh_acl host) clock"
    and this_rt: "\<And>a. rt_this (lh_runtime host a) \<noteq> 0" and acc: "retains host blocks base s"
    and unload: "\<And>b w. blocks (snd (aclrtBinaryUnLoad (lh_dev host) b w)) = blocks w"
  shows "retains host blocks base (snd (aiv_storage_read_with_config host config d slot_id offset address key len s))
    \<and> retains host blocks base (snd (aiv_storage_write_with_config host config d slot_id offset address key len s))
    \<and> retains host blocks base (snd (aiv_storage_read_batch_with_config host config d slot_id address key n s))
    \<and> retains host blocks base (snd (aiv_storage_write_batch_with_config host config d slot_id address key n s))
    \<and> (\<exists>r l' w'. launcher_storage_wait (aiv_launcher_ops host) config d slot_id s = Some (r, (l', w'))
        \<and> avl_async_storage_requests l' = [] \<and> blocks w' = base)
    \<and> avl_async_storage_requests (fst (aiv_reset host s)) = [] \<and> blocks (snd (aiv_reset host s)) = base"
proof -
  obtain l w where s: "s = (l, w)" by fastforce
  have op: "retains host blocks base (snd (launch_storage_operation_and_wait host config entry request off d slot_id s))"
    for entry request off
    using storage_operation_retains [OF laws this_rt acc [unfolded s]] unfolding s by (metis prod.collapse)
  obtain l1 w1 where r: "release_async_storage_requests host (l, w) = (l1, w1)" by fastforce
  note rel = release_requests [OF laws this_rt acc [unfolded s] r]
  from unload have "avl_async_storage_requests (fst (aiv_reset host s)) = []" "blocks (snd (aiv_reset host s)) = base"
    using rel r by (auto simp: s aiv_reset_def device_unload_def Let_def)
  moreover have "\<exists>r l' w'. launcher_storage_wait (aiv_launcher_ops host) config d slot_id s = Some (r, (l', w'))
      \<and> avl_async_storage_requests l' = [] \<and> blocks w' = base"
    using wait_releases [OF laws clock this_rt acc [unfolded s]]
    by (simp add: s launcher_storage_wait_def aiv_launcher_ops_def)
  ultimately show ?thesis
    using op by (simp add: aiv_storage_read_with_config_def aiv_storage_write_with_config_def
        aiv_storage_read_batch_with_config_def aiv_storage_write_batch_with_config_def)
qed

section \<open>The result of a batch\<close>

lemma bad_index_cases:
  "bad_index n a bad none = none \<or> bad_index n a bad none < n"
  by (simp add: bad_index_def)

lemma bad_index_exact:
  assumes "unat a + 48 * n \<le> 2 ^ 64" and "i < n"
  shows "bad_index n a (a + of_nat (48 * i)) none = i"
proof -
  have u: "unat (of_nat (48 * i) :: u64) = 48 * i"
    using assms by (simp add: unat_of_nat take_bit_nat_eq_self_iff del: of_nat_mult)
  have "a \<le> a + of_nat (48 * i)"
    unfolding word_le_nat_alt using assms u by (subst unat_plus_if') simp
  with u assms(2) show ?thesis by (simp add: bad_index_def)
qed

lemma bad_index_none:
  assumes "unat a + 48 * n \<le> 2 ^ 64" and "\<And>i. i < n \<Longrightarrow> bad \<noteq> a + of_nat (48 * i)"
  shows "bad_index n a bad none = none"
proof (rule ccontr)
  let ?d = "unat (bad - a)"
  assume "bad_index n a bad none \<noteq> none"
  then have d: "?d mod 48 = 0" "?d div 48 < n" by (auto simp: bad_index_def split: if_splits)
  then have "48 * (?d div 48) = ?d" by (auto simp: mult.commute)
  then have "bad = a + of_nat (48 * (?d div 48))" by simp
  with assms(2) d(2) show False by blast
qed

text \<open>
  What a kernel reported: the request structure \<open>object\<close> was copied to the device at \<open>address\<close>, the kernel was launched on it and
  the stream synchronized, and the structure read back is \<open>bytes\<close>.
\<close>

definition kernel_replied :: "'w aiv_host \<Rightarrow> LaunchConfig \<Rightarrow> string \<Rightarrow> u64 \<Rightarrow> host_object \<Rightarrow> AivArguments \<Rightarrow> u8 list \<Rightarrow> bool" where
  "kernel_replied host config entry address object arguments bytes \<longleftrightarrow>
     (\<exists>w w0 l l1 w1 w2 w3.
        aclrtMemcpy_to_device (lh_acl host) address object w = (0, w0) \<and>
        device_launch (lh_dev host) aiv_attributes (Some entry) config (Some arguments) (arguments_size arguments)
          (l :: AivLauncher, w0) = (0, (l1, w1)) \<and>
        aclrtSynchronizeStreamWithTimeout (lh_dev host) (lc_stream config) (lc_sync_timeout_ms config) w1 = (0, w2) \<and>
        aclrtMemcpy_to_host (lh_acl host) address (host_size object) w2 = ((0, bytes), w3))"

lemma exchange_request_replied:
  assumes run: "exchange_request host config entry rt b object arguments finish (l, w) = (Inr x, t)"
    and b: "mb_location b = LocDevice"
  shows "\<exists>bytes s1. kernel_replied host config entry (mb_data b) object arguments bytes \<and> finish bytes s1 = (Inr x, t)"
proof -
  from run obtain w0 s1 bytes s2 where
    c: "runtime_copy_to (lh_acl host) rt b object w = (Inr (), w0)"
    and k: "launch_and_sync (lh_dev host) aiv_attributes config entry arguments (arguments_size arguments) (l, w0) = (Inr (), s1)"
    and f: "launch_copy_from (lh_acl host) rt b (host_size object) s1 = (Inr bytes, s2)" and fin: "finish bytes s2 = (Inr x, t)"
    by (auto simp: exchange_request_def lbind_eq_Inr_iff launch_copy_Inr)
  from c b have c': "aclrtMemcpy_to_device (lh_acl host) (mb_data b) object w = (0, w0)"
    by (auto simp: runtime_copy_to_def copy_host_to_device_def split: if_splits prod.splits)
  from k obtain l1 w1 w2 where
    k': "device_launch (lh_dev host) aiv_attributes (Some entry) config (Some arguments) (arguments_size arguments) (l, w0) = (0, (l1, w1))"
      "aclrtSynchronizeStreamWithTimeout (lh_dev host) (lc_stream config) (lc_sync_timeout_ms config) w1 = (0, w2)"
    and s1: "s1 = (l1, w2)"
    by (auto simp: launch_and_sync_def split: prod.splits if_splits)
  from f b obtain w3 where "aclrtMemcpy_to_host (lh_acl host) (mb_data b) (host_size object) w2 = ((0, bytes), w3)"
    by (auto simp: s1 launch_copy_Inr runtime_copy_from_def copy_device_to_host_def split: if_splits prod.splits)
  with c' k' have "kernel_replied host config entry (mb_data b) object arguments bytes" unfolding kernel_replied_def by blast
  with fin show ?thesis by blast
qed

lemma with_device_buffer_body:
  "with_device_buffer acl rt sz body (l, w) = (Inr x, t) \<Longrightarrow> \<exists>b w1 s1. mb_location b = LocDevice \<and> body b (l, w1) = (Inr x, s1)"
  by (auto simp: with_device_buffer_Inr dest: runtime_allocate_wf(3))

lemma copy_to_device:
  "runtime_copy_to acl rt b object w = (Inr u, w') \<Longrightarrow> mb_location b = LocDevice \<Longrightarrow> aclrtMemcpy_to_device acl (mb_data b) object w = (0, w')"
  by (auto simp: runtime_copy_to_def copy_host_to_device_def split: if_splits prod.splits)

text \<open>The request array is on the device, and a kernel ran on it.\<close>

definition batch_ran :: "'w aiv_host \<Rightarrow> LaunchConfig \<Rightarrow> string \<Rightarrow> NdsSendWr list \<Rightarrow> u64 \<Rightarrow> u64 \<Rightarrow> host_object \<Rightarrow> AivArguments \<Rightarrow> u8 list \<Rightarrow> bool" where
  "batch_ran host config entry wrs array address object arguments bytes \<longleftrightarrow>
     (\<exists>w w'. aclrtMemcpy_to_device (lh_acl host) array (HSendWrs wrs) w = (0, w')) \<and>
     kernel_replied host config entry address object arguments bytes"

lemma batch_exchange:
  assumes "with_device_buffer (lh_acl host) rt sz (\<lambda>device_wrs.
      lbind (launch_copy_to (lh_acl host) rt device_wrs (HSendWrs wrs)) (\<lambda>_.
      with_device_buffer (lh_acl host) rt sz2 (\<lambda>device_request.
        exchange_request host config entry rt device_request (object (mb_data device_wrs))
          (arguments (mb_data device_request) (mb_data device_wrs)) finish))) (l, w) = (Inr r, t)"
  shows "\<exists>array request bytes s1 s2. batch_ran host config entry wrs array request (object array) (arguments request array) bytes \<and>
    finish bytes s1 = (Inr r, s2)"
proof -
  from with_device_buffer_body [OF assms] obtain b w1 s1 where b: "mb_location b = LocDevice"
    and run: "lbind (launch_copy_to (lh_acl host) rt b (HSendWrs wrs)) (\<lambda>_. with_device_buffer (lh_acl host) rt sz2 (\<lambda>device_request.
        exchange_request host config entry rt device_request (object (mb_data b)) (arguments (mb_data device_request) (mb_data b)) finish))
        (l, w1) = (Inr r, s1)" by blast
  from run b obtain w2 where c: "aclrtMemcpy_to_device (lh_acl host) (mb_data b) (HSendWrs wrs) w1 = (0, w2)"
    and run2: "with_device_buffer (lh_acl host) rt sz2 (\<lambda>device_request.
        exchange_request host config entry rt device_request (object (mb_data b)) (arguments (mb_data device_request) (mb_data b)) finish)
        (l, w2) = (Inr r, s1)"
    by (auto simp: lbind_eq_Inr_iff launch_copy_Inr dest!: copy_to_device)
  from with_device_buffer_body [OF run2] obtain b2 w3 s3 where b2: "mb_location b2 = LocDevice"
    and ex: "exchange_request host config entry rt b2 (object (mb_data b)) (arguments (mb_data b2) (mb_data b)) finish (l, w3) = (Inr r, s3)"
    by blast
  from exchange_request_replied [OF ex b2] c show ?thesis unfolding batch_ran_def by blast
qed

text \<open>
  How many of \<open>n\<close> requests at \<open>array\<close> a launcher must count as posted after a kernel that left \<open>status\<close> and the address
  \<open>bad\<close>: all on success; on failure those before the request at \<open>bad\<close>, and \<open>none\<close> if there is no such request.
\<close>

definition stopped_at :: "nat \<Rightarrow> u64 \<Rightarrow> u64 \<Rightarrow> nat \<Rightarrow> i32 \<Rightarrow> nat \<Rightarrow> bool" where
  "stopped_at n array bad none status posted \<longleftrightarrow>
     posted \<le> n \<and> (status = 0 \<longrightarrow> posted = n) \<and>
     (status \<noteq> 0 \<and> unat array + 48 * n \<le> 2 ^ 64 \<longrightarrow>
        (\<forall>i < n. bad = array + of_nat (48 * i) \<longrightarrow> posted = i) \<and> ((\<forall>i < n. bad \<noteq> array + of_nat (48 * i)) \<longrightarrow> posted = none))"

lemma bad_index_stopped_at:
  "none \<le> n \<Longrightarrow> stopped_at n array bad none status (if status = 0 then n else bad_index n array bad none)"
  using bad_index_cases [of n array bad none] bad_index_exact [of array n _ none] bad_index_none [of array n bad none]
  by (auto simp: stopped_at_def)

lemma post_batch_result:
  assumes "launch_post_batch_and_wait host config qp wrs s = (Inr r, s')"
  shows "\<exists>array request bytes.
    batch_ran host config ''nds_aiv_post_send_batch_kernel'' wrs array request
      (post_batch_request (lh_endian host) qp array (length wrs))
      (BatchArguments request array (of_nat (length wrs)) (request + 264) (request + 260)) bytes \<and>
    pb_status r = load32 (lh_endian host) bytes 260 \<and>
    stopped_at (length wrs) (load64 (lh_endian host) bytes 248) (load64 (lh_endian host) bytes 264) 0 (pb_status r) (pb_posted r)"
proof -
  obtain l w where s: "s = (l, w)" by fastforce
  have ok: "(dln_runtime l = 0) = False" "batch_refused wrs = False"
    using assms by (auto simp: s launch_post_batch_and_wait_def when_runtime_def split: if_split_asm)
  from batch_exchange [OF assms [unfolded s launch_post_batch_and_wait_def when_runtime_def Let_def prod.case ok if_False]]
  obtain array request bytes s1 s2 where
    ran: "batch_ran host config ''nds_aiv_post_send_batch_kernel'' wrs array request
      (post_batch_request (lh_endian host) qp array (length wrs))
      (BatchArguments request array (of_nat (length wrs)) (request + 264) (request + 260)) bytes"
    and fin: "(Inr \<lparr>pb_posted = (if load32 (lh_endian host) bytes 260 = 0 then length wrs
         else bad_index (length wrs) (load64 (lh_endian host) bytes 248) (load64 (lh_endian host) bytes 264) 0),
         pb_status = load32 (lh_endian host) bytes 260\<rparr>, s1) = (Inr r :: launch_error + PostSendBatchResult, s2)" by blast
  from fin have st: "pb_status r = load32 (lh_endian host) bytes 260"
    and "pb_posted r = (if pb_status r = 0 then length wrs
       else bad_index (length wrs) (load64 (lh_endian host) bytes 248) (load64 (lh_endian host) bytes 264) 0)" by auto
  then have "stopped_at (length wrs) (load64 (lh_endian host) bytes 248) (load64 (lh_endian host) bytes 264) 0 (pb_status r) (pb_posted r)"
    by (simp only: bad_index_stopped_at [OF le0])
  with ran st show ?thesis by blast
qed

lemma transport_batch_result:
  assumes "launch_transport_batch_and_wait host config transport queue_index wrs s = (Inr r, s')"
  shows "\<exists>array request bytes.
    batch_ran host config ''nds_aiv_rdma_send_batch_kernel'' wrs array request
      (transport_batch_request (lh_endian host) transport array (length wrs))
      (TransportBatchArguments request array queue_index (of_nat (length wrs)) (request + 40) (request + 36)) bytes \<and>
    pb_status r = load32 (lh_endian host) bytes 36 \<and>
    stopped_at (length wrs) (load64 (lh_endian host) bytes 24) (load64 (lh_endian host) bytes 40) (length wrs) (pb_status r) (pb_posted r)"
proof -
  obtain l w where s: "s = (l, w)" by fastforce
  have ok: "(dln_runtime l = 0) = False" "batch_refused wrs = False" "qp_selection_invalid transport queue_index = False"
    using assms by (auto simp: s launch_transport_batch_and_wait_def when_runtime_def split: if_split_asm)
  from batch_exchange [OF assms [unfolded s launch_transport_batch_and_wait_def when_runtime_def Let_def prod.case ok if_False]]
  obtain array request bytes s1 s2 where
    ran: "batch_ran host config ''nds_aiv_rdma_send_batch_kernel'' wrs array request
      (transport_batch_request (lh_endian host) transport array (length wrs))
      (TransportBatchArguments request array queue_index (of_nat (length wrs)) (request + 40) (request + 36)) bytes"
    and fin: "(Inr \<lparr>pb_posted = transport_batch_posted (length wrs) (load32 (lh_endian host) bytes 36) (load64 (lh_endian host) bytes 24)
         (load64 (lh_endian host) bytes 40), pb_status = load32 (lh_endian host) bytes 36\<rparr>, s1)
         = (Inr r :: launch_error + PostSendBatchResult, s2)" by blast
  from fin have st: "pb_status r = load32 (lh_endian host) bytes 36"
    and "pb_posted r = (if pb_status r = 0 then length wrs
       else bad_index (length wrs) (load64 (lh_endian host) bytes 24) (load64 (lh_endian host) bytes 40) (length wrs))"
    by (auto simp: transport_batch_posted_def)
  then have "stopped_at (length wrs) (load64 (lh_endian host) bytes 24) (load64 (lh_endian host) bytes 40) (length wrs) (pb_status r) (pb_posted r)"
    by (simp only: bad_index_stopped_at [OF order_refl])
  with ran st show ?thesis by blast
qed

text \<open>
  C29: the result of an AIV batch is what the kernel reported. A batch that returns a result has copied its
  requests to an array on the device and a request structure that holds the array's address, has launched the
  kernel with the addresses of the structure's status word and failed-request word, waited for it, and read
  the structure back. The status is the word that the kernel was told to write. The number of posted requests
  is all of them on success; on failure it is the index of the request whose address is in the word for it, so
  that the caller can go on with that request, provided that the array does not wrap around the address space;
  and when there is no such request, it is none of a verbs batch but every one of a transport batch.
\<close>

theorem aiv_batch_posted:
  "(launch_post_batch_and_wait host config qp wrs s = (Inr r, s') \<longrightarrow>
      (\<exists>array request bytes.
         batch_ran host config ''nds_aiv_post_send_batch_kernel'' wrs array request
           (post_batch_request (lh_endian host) qp array (length wrs))
           (BatchArguments request array (of_nat (length wrs)) (request + 264) (request + 260)) bytes \<and>
         pb_status r = load32 (lh_endian host) bytes 260 \<and>
         stopped_at (length wrs) (load64 (lh_endian host) bytes 248) (load64 (lh_endian host) bytes 264) 0 (pb_status r) (pb_posted r)))
    \<and> (launch_transport_batch_and_wait host config transport queue_index wrs s = (Inr r2, s2) \<longrightarrow>
      (\<exists>array request bytes.
         batch_ran host config ''nds_aiv_rdma_send_batch_kernel'' wrs array request
           (transport_batch_request (lh_endian host) transport array (length wrs))
           (TransportBatchArguments request array queue_index (of_nat (length wrs)) (request + 40) (request + 36)) bytes \<and>
         pb_status r2 = load32 (lh_endian host) bytes 36 \<and>
         stopped_at (length wrs) (load64 (lh_endian host) bytes 24) (load64 (lh_endian host) bytes 40) (length wrs) (pb_status r2) (pb_posted r2)))"
  by (intro conjI impI post_batch_result transport_batch_result)

section \<open>A device\<close>

text \<open>A world with a clock and counted allocations, on which every other call does nothing.\<close>

definition counting_dev :: "(AivArguments, nat \<times> (u64 \<Rightarrow> nat)) aclrt" where
  "counting_dev = \<lparr>aclrtBinaryLoadFromFile = (\<lambda>_ _ w. ((0, 3), w)), aclrtBinaryUnLoad = (\<lambda>_ w. (0, w)),
     aclrtBinaryGetFunction = (\<lambda>_ _ w. ((0, 5), w)), aclrtLaunchKernelWithHostArgs = (\<lambda>_ _ _ _ _ _ _ _ w. (0, w)),
     aclrtSynchronizeStreamWithTimeout = (\<lambda>_ _ w. (507, w)), aclrtCreateStream = (\<lambda>w. ((0, 1), w)),
     aclrtDestroyStream = (\<lambda>_ w. (0, w))\<rparr>"

definition counting_host :: "(nat \<times> (u64 \<Rightarrow> nat)) aiv_host" where
  "counting_host = \<lparr>lh_dev = counting_dev,
     lh_acl = sample_acl\<lparr>aclrtMalloc := (\<lambda>_ (t, b). ((0, 0x1000), (t, b(0x1000 := b 0x1000 + 1)))),
       aclrtFree := (\<lambda>p (t, b). (0, (t, b(p := b p - 1)))), client_now := (\<lambda>(t, b). (t, (t + 1, b)))\<rparr>,
     lh_runtime = (\<lambda>_. sample_runtime), lh_endian = Little\<rparr>"

text \<open>A launcher that retains the request of an accepted submission.\<close>

definition retaining_launcher :: AivLauncher where
  "retaining_launcher = \<lparr>dln_runtime = 0x40, dln_binary = 3, dln_functions = Map.empty, avl_async_storage_requests =
     [\<lparr>mb_runtime = rt_this sample_runtime, mb_data = 0x1000, mb_rdma_data = 0x1000, mb_size = 96, mb_location = LocDevice\<rparr>]\<rparr>"

definition counting_state :: "(nat \<times> (u64 \<Rightarrow> nat)) aiv_state" where
  "counting_state = (retaining_launcher, (0, (\<lambda>_. 0)(0x1000 := 1)))"

lemma counting_laws:
  "memory_laws (lh_dev counting_host) (lh_acl counting_host) snd" "launch_clock (lh_dev counting_host) (lh_acl counting_host) fst"
  "rt_this (lh_runtime counting_host a) \<noteq> 0" "retains counting_host snd (\<lambda>_. 0) counting_state"
  "snd (snd (aclrtBinaryUnLoad (lh_dev counting_host) b w)) = snd w"
  by (auto simp: memory_laws_def launch_clock_def calls_step_def counting_host_def counting_dev_def sample_acl_def sample_runtime_def
      retains_def counting_state_def retaining_launcher_def buffer_wf_def)

abbreviation async_config :: LaunchConfig where
  "async_config \<equiv> default_launch_config\<lparr>lc_stream := 1, lc_sync := False\<rparr>"

theorem aiv_requests_accounted_witness:
  "retains counting_host snd (\<lambda>_. 0) (snd (aiv_storage_read_with_config counting_host async_config sample_storage 0 0 0x2000 7 4096 counting_state))
    \<and> retains counting_host snd (\<lambda>_. 0) (snd (aiv_storage_write_with_config counting_host async_config sample_storage 0 0 0x2000 7 4096 counting_state))
    \<and> retains counting_host snd (\<lambda>_. 0) (snd (aiv_storage_read_batch_with_config counting_host async_config sample_storage 0 0x2000 7 2 counting_state))
    \<and> retains counting_host snd (\<lambda>_. 0) (snd (aiv_storage_write_batch_with_config counting_host async_config sample_storage 0 0x2000 7 2 counting_state))
    \<and> (\<exists>r l' w'. launcher_storage_wait (aiv_launcher_ops counting_host) async_config sample_storage 0 counting_state = Some (r, (l', w'))
        \<and> avl_async_storage_requests l' = [] \<and> snd w' = (\<lambda>_. 0))
    \<and> avl_async_storage_requests (fst (aiv_reset counting_host counting_state)) = [] \<and> snd (snd (aiv_reset counting_host counting_state)) = (\<lambda>_. 0)"
proof -
  note all = aiv_requests_accounted [OF counting_laws, where config = async_config and d = sample_storage and slot_id = 0 and address = "0x2000" and key = 7]
  from all [where len = 4096 and offset = 0 and n = 2] show ?thesis by blast
qed

text \<open>A device on which the kernel of a batch stops at its second request.\<close>

definition stopping_host :: "(nat \<times> (u64 \<Rightarrow> nat)) aiv_host" where
  "stopping_host = counting_host\<lparr>lh_dev := counting_dev\<lparr>aclrtSynchronizeStreamWithTimeout := (\<lambda>_ _ w. (0, w))\<rparr>,
     lh_acl := (lh_acl counting_host)\<lparr>aclrtMemcpy_to_host := (\<lambda>_ n w. ((0,
       if n = 272 then replicate 248 0 @ mem64 Little 0x1000 @ mem32 Little 2 @ mem32 Little (-1) @ mem64 Little 0x1030
       else replicate 24 0 @ mem64 Little 0x1000 @ mem32 Little 2 @ mem32 Little (-1) @ mem64 Little 0x1030), w))\<rparr>\<rparr>"

lemma stopping_bytes:
  "load32 Little (replicate 248 0 @ mem64 Little 0x1000 @ mem32 Little 2 @ mem32 Little (-1) @ mem64 Little 0x1030) 260 = -1"
  "load64 Little (replicate 248 0 @ mem64 Little 0x1000 @ mem32 Little 2 @ mem32 Little (-1) @ mem64 Little 0x1030) 248 = 0x1000"
  "load64 Little (replicate 248 0 @ mem64 Little 0x1000 @ mem32 Little 2 @ mem32 Little (-1) @ mem64 Little 0x1030) 264 = 0x1030"
  "load32 Little (replicate 24 0 @ mem64 Little 0x1000 @ mem32 Little 2 @ mem32 Little (-1) @ mem64 Little 0x1030) 36 = -1"
  "load64 Little (replicate 24 0 @ mem64 Little 0x1000 @ mem32 Little 2 @ mem32 Little (-1) @ mem64 Little 0x1030) 24 = 0x1000"
  "load64 Little (replicate 24 0 @ mem64 Little 0x1000 @ mem32 Little 2 @ mem32 Little (-1) @ mem64 Little 0x1030) 40 = 0x1030"
  by code_simp+

lemma stopping_runs:
  "fst (launch_post_batch_and_wait stopping_host async_config sample_qp [sample_send_wr, sample_send_wr] counting_state) =
     Inr \<lparr>pb_posted = 1, pb_status = -1\<rparr>"
  "fst (launch_transport_batch_and_wait stopping_host async_config sample_transport 0 [sample_send_wr, sample_send_wr] counting_state) =
     Inr \<lparr>pb_posted = 1, pb_status = -1\<rparr>"
  by (simp_all add: launch_post_batch_and_wait_def launch_transport_batch_and_wait_def when_runtime_def batch_refused_def
      qp_selection_invalid_def sample_transport_def counting_state_def retaining_launcher_def stopping_host_def counting_host_def
      counting_dev_def sample_acl_def sample_runtime_def with_device_buffer_def lbind_def launch_allocate_def runtime_allocate_def
      allocate_device_memory_def launch_copy_to_def runtime_copy_to_def copy_host_to_device_def exchange_request_def launch_and_sync_def
      device_launch_def device_loaded_def find_function_def default_launch_config_def launch_copy_from_def runtime_copy_from_def
      copy_device_to_host_def post_batch_request_def transport_batch_request_def stopping_bytes bad_index_def transport_batch_posted_def
      arguments_size.simps)

theorem aiv_batch_posted_witness:
  "(\<exists>s' array request bytes.
      launch_post_batch_and_wait stopping_host async_config sample_qp [sample_send_wr, sample_send_wr] counting_state =
        (Inr \<lparr>pb_posted = 1, pb_status = -1\<rparr>, s') \<and>
      batch_ran stopping_host async_config ''nds_aiv_post_send_batch_kernel'' [sample_send_wr, sample_send_wr] array request
        (post_batch_request Little sample_qp array 2) (BatchArguments request array 2 (request + 264) (request + 260)) bytes \<and>
      load32 Little bytes 260 = -1 \<and>
      stopped_at 2 (load64 Little bytes 248) (load64 Little bytes 264) 0 (-1) 1) \<and>
   (\<exists>s' array request bytes.
      launch_transport_batch_and_wait stopping_host async_config sample_transport 0 [sample_send_wr, sample_send_wr] counting_state =
        (Inr \<lparr>pb_posted = 1, pb_status = -1\<rparr>, s') \<and>
      batch_ran stopping_host async_config ''nds_aiv_rdma_send_batch_kernel'' [sample_send_wr, sample_send_wr] array request
        (transport_batch_request Little sample_transport array 2)
        (TransportBatchArguments request array 0 2 (request + 40) (request + 36)) bytes \<and>
      load32 Little bytes 36 = -1 \<and>
      stopped_at 2 (load64 Little bytes 24) (load64 Little bytes 40) 2 (-1) 1)"
proof -
  let ?wrs = "[sample_send_wr, sample_send_wr]" and ?r = "\<lparr>pb_posted = 1, pb_status = -1\<rparr> :: PostSendBatchResult"
  obtain s1 where s1: "launch_post_batch_and_wait stopping_host async_config sample_qp ?wrs counting_state = (Inr ?r, s1)"
    using stopping_runs(1) by (metis prod.collapse)
  obtain s2 where s2: "launch_transport_batch_and_wait stopping_host async_config sample_transport 0 ?wrs counting_state = (Inr ?r, s2)"
    using stopping_runs(2) by (metis prod.collapse)
  note all = aiv_batch_posted [where host = stopping_host and config = async_config and qp = sample_qp and wrs = ?wrs and s = counting_state
      and transport = sample_transport and queue_index = 0 and s' = s1 and ?s2.0 = s2 and r = ?r and ?r2.0 = ?r]
  have e: "lh_endian stopping_host = Little" by (simp add: stopping_host_def counting_host_def)
  have two: "length ?wrs = 2" "(of_nat 2 :: u32) = 2" by simp_all
  note posted = all [THEN conjunct1, THEN mp, OF s1] all [THEN conjunct2, THEN mp, OF s2]
  note posted' = posted [unfolded e two PostSendBatchResult.select_convs]
  show ?thesis
  proof (intro conjI)
    from posted'(1) obtain array request bytes where "batch_ran stopping_host async_config ''nds_aiv_post_send_batch_kernel'' ?wrs array request
        (post_batch_request Little sample_qp array 2) (BatchArguments request array 2 (request + 264) (request + 260)) bytes"
      "-1 = load32 Little bytes 260" "stopped_at 2 (load64 Little bytes 248) (load64 Little bytes 264) 0 (-1) 1" by blast
    with s1 show "\<exists>s' array request bytes.
      launch_post_batch_and_wait stopping_host async_config sample_qp ?wrs counting_state = (Inr ?r, s') \<and>
      batch_ran stopping_host async_config ''nds_aiv_post_send_batch_kernel'' ?wrs array request
        (post_batch_request Little sample_qp array 2) (BatchArguments request array 2 (request + 264) (request + 260)) bytes \<and>
      load32 Little bytes 260 = -1 \<and>
      stopped_at 2 (load64 Little bytes 248) (load64 Little bytes 264) 0 (-1) 1" by metis
  next
    from posted'(2) obtain array request bytes where "batch_ran stopping_host async_config ''nds_aiv_rdma_send_batch_kernel'' ?wrs array request
        (transport_batch_request Little sample_transport array 2)
        (TransportBatchArguments request array 0 2 (request + 40) (request + 36)) bytes"
      "-1 = load32 Little bytes 36" "stopped_at 2 (load64 Little bytes 24) (load64 Little bytes 40) 2 (-1) 1" by blast
    with s2 show "\<exists>s' array request bytes.
      launch_transport_batch_and_wait stopping_host async_config sample_transport 0 ?wrs counting_state = (Inr ?r, s') \<and>
      batch_ran stopping_host async_config ''nds_aiv_rdma_send_batch_kernel'' ?wrs array request
        (transport_batch_request Little sample_transport array 2)
        (TransportBatchArguments request array 0 2 (request + 40) (request + 36)) bytes \<and>
      load32 Little bytes 36 = -1 \<and>
      stopped_at 2 (load64 Little bytes 24) (load64 Little bytes 40) 2 (-1) 1" by metis
  qed
qed

end
