(* ===== verification/Launcher_Open.thy ===== *)
theory Launcher_Open
  imports Ra_Launcher Aicpu_Launcher Aiv_Launcher
begin

text \<open>
  Choosing the backend, \<^verbatim>\<open>Launcher::open\<close> of \<^verbatim>\<open>src/src/client/backends/launcher.cc\<close>. The mode is one of the three
  enumerators, so that the function's last statement, for other values, has no counterpart.
\<close>

datatype OpenedLauncher =
  OpenedRa RaLauncher
| OpenedAiv AivLauncher
| OpenedAicpu DeviceLauncher

text \<open>A null runtime has address 0; both device backends see the same runtime objects.\<close>

definition launcher_open :: "'w dl \<Rightarrow> 'w aiv_host \<Rightarrow> 'w aicpu_host \<Rightarrow> u64 \<Rightarrow> BackendMode \<Rightarrow> string \<Rightarrow> ('w, OpenedLauncher) comp" where
  "launcher_open ld aiv aicpu runtime mode artifact w =
     (if runtime = 0 \<or> \<not> rt_initialized (lh_runtime aiv runtime) then (Inl kInvalidArgument, w)
      else case mode of
        ModeRa \<Rightarrow> (case ra_launcher_open ld artifact w of (r, w) \<Rightarrow> (map_sum id OpenedRa r, w))
      | ModeAiv \<Rightarrow> (case aiv_launcher_open aiv runtime artifact w of (r, w) \<Rightarrow> (map_sum id OpenedAiv r, w))
      | ModeAicpu \<Rightarrow> (case aicpu_launcher_open aicpu runtime artifact w of (r, w) \<Rightarrow> (map_sum id OpenedAicpu r, w)))"

section \<open>Binaries on the device\<close>

text \<open>
  What is documented of kernel binaries, for an observation \<open>binaries\<close>: how often a handle is loaded. Loading sets the
  handle only when it succeeds, and unloading gives it up.
\<close>

definition binary_laws :: "('a, 'w) aclrt \<Rightarrow> ('w \<Rightarrow> u64 \<Rightarrow> nat) \<Rightarrow> bool" where
  "binary_laws dev binaries \<longleftrightarrow>
     (\<forall>path option w. case aclrtBinaryLoadFromFile dev path option w of
        ((result, b), w') \<Rightarrow> (result \<noteq> 0 \<longrightarrow> b = 0) \<and>
          binaries w' = (if b = 0 then binaries w else (binaries w)(b := binaries w b + 1))) \<and>
     (\<forall>b w. binaries w b > 0 \<longrightarrow> binaries (snd (aclrtBinaryUnLoad dev b w)) = (binaries w)(b := binaries w b - 1))"

lemma binary_laws_load:
  assumes "binary_laws dev binaries" and "aclrtBinaryLoadFromFile dev path option w = ((result, b), w')"
  shows "result \<noteq> 0 \<Longrightarrow> b = 0" and "binaries w' = (if b = 0 then binaries w else (binaries w)(b := binaries w b + 1))"
proof -
  from assms(1) have "case aclrtBinaryLoadFromFile dev path option w of
      ((result, b), w') \<Rightarrow> (result \<noteq> 0 \<longrightarrow> b = 0) \<and> binaries w' = (if b = 0 then binaries w else (binaries w)(b := binaries w b + 1))"
    unfolding binary_laws_def by (elim conjE) (drule spec, drule spec, erule spec)
  with assms(2) show "result \<noteq> 0 \<Longrightarrow> b = 0" and "binaries w' = (if b = 0 then binaries w else (binaries w)(b := binaries w b + 1))"
    by simp_all
qed

text \<open>Loading into a fresh launcher, whatever resetting it does besides.\<close>

lemma device_load_fresh:
  assumes laws: "binary_laws dev binaries" and fresh: "dln_binary l = 0"
    and idle: "\<And>w. binaries (snd (reset (l, w))) = binaries w"
    and run: "device_load dev reset option path (l, w) = (r, (l', w'))"
  shows "case r of Inl _ \<Rightarrow> binaries w' = binaries w \<and> (l' = l \<or> (\<exists>w. l' = fst (reset (l, w))))
    | Inr _ \<Rightarrow> l' = l\<lparr>dln_binary := dln_binary l'\<rparr> \<and> dln_binary l' \<noteq> 0 \<and> path \<noteq> [] \<and>
        binaries w' = (binaries w)(dln_binary l' := binaries w (dln_binary l') + 1)"
proof (cases "path = []")
  case True
  with run fresh show ?thesis by (auto simp: device_load_def device_loaded_def)
next
  case False
  obtain v b w1 where ld: "aclrtBinaryLoadFromFile dev path option w = ((v, b), w1)" by (metis prod.collapse)
  note laws1 = binary_laws_load [OF laws ld]
  show ?thesis
  proof (cases "b = 0")
    case True
    have "l\<lparr>dln_binary := 0\<rparr> = l" using fresh by (cases l) simp
    with run fresh ld True \<open>path \<noteq> []\<close> have r: "r = Inl kRuntime" and e: "reset (l, w1) = (l', w')"
      by (auto simp: device_load_def device_loaded_def)
    have "l' = fst (reset (l, w1))" "binaries w' = binaries w" using e idle [of w1] laws1(2) True by simp_all
    then show ?thesis unfolding r by auto
  next
    case False
    with laws1(1) have "v = 0" by blast
    with run fresh ld \<open>path \<noteq> []\<close> False have "r = Inr ()" "l' = l\<lparr>dln_binary := b\<rparr>" "w' = w1"
      by (auto simp: device_load_def device_loaded_def)
    with laws1(2) False \<open>path \<noteq> []\<close> show ?thesis by simp
  qed
qed

lemma device_unload_binaries:
  assumes "binary_laws dev binaries" and "dln_binary l \<noteq> 0 \<Longrightarrow> binaries w (dln_binary l) > 0"
  shows "binaries (snd (device_unload dev (l, w))) = (if dln_binary l = 0 then binaries w
    else (binaries w)(dln_binary l := binaries w (dln_binary l) - 1))"
  using assms by (auto simp: device_unload_def Let_def binary_laws_def)

lemma aiv_open_binaries:
  assumes laws: "binary_laws (lh_dev host) binaries" and run: "aiv_launcher_open host runtime path w = (r, w')"
  shows "case r of Inl _ \<Rightarrow> binaries w' = binaries w
    | Inr l \<Rightarrow> dln_runtime l = runtime \<and> device_loaded l \<and> avl_async_storage_requests l = [] \<and>
        binaries (snd (aiv_reset host (l, w'))) = binaries w"
proof (cases "runtime = 0")
  case True
  with run show ?thesis by (auto simp: aiv_launcher_open_def)
next
  case False
  let ?l = "\<lparr>dln_runtime = runtime, dln_binary = 0, dln_functions = Map.empty, avl_async_storage_requests = []\<rparr>"
  have idle: "binaries (snd (aiv_reset host (l, w))) = binaries w"
    if "dln_binary l = 0" "avl_async_storage_requests l = []" for l w
    using that by (simp add: aiv_reset_def release_async_storage_requests_def device_unload_def Let_def)
  obtain r1 l1 w1 where ld: "aiv_load host path (?l, w) = (r1, (l1, w1))" by (metis prod_cases3)
  note fresh = device_load_fresh [OF laws _ idle ld [unfolded aiv_load_def], simplified]
  show ?thesis
  proof (cases r1)
    case (Inl e)
    with fresh have l1: "dln_binary l1 = 0" "avl_async_storage_requests l1 = []" and b: "binaries w1 = binaries w"
      by (auto simp: aiv_reset_def release_async_storage_requests_def device_unload_def Let_def)
    from run False ld Inl have "r = Inl e" "w' = snd (aiv_reset host (l1, w1))" by (auto simp: aiv_launcher_open_def)
    with idle [OF l1] b show ?thesis by simp
  next
    case (Inr u)
    with run False ld have r: "r = Inr l1" "w' = w1" by (auto simp: aiv_launcher_open_def)
    from fresh Inr have l1: "l1 = ?l\<lparr>dln_binary := dln_binary l1\<rparr>" "dln_binary l1 \<noteq> 0"
      and b: "binaries w1 = (binaries w)(dln_binary l1 := binaries w (dln_binary l1) + 1)" by auto
    have "avl_async_storage_requests l1 = []" "dln_runtime l1 = runtime" by (subst l1(1), simp)+
    with l1(2) b r device_unload_binaries [OF laws, of "l1\<lparr>avl_async_storage_requests := []\<rparr>" w1] show ?thesis
      by (simp add: device_loaded_def aiv_reset_def release_async_storage_requests_def)
  qed
qed

lemma aicpu_open_binaries:
  assumes laws: "binary_laws (lh_dev host) binaries" and run: "aicpu_launcher_open host runtime path w = (r, w')"
  shows "case r of Inl _ \<Rightarrow> binaries w' = binaries w
    | Inr l \<Rightarrow> dln_runtime l = runtime \<and> device_loaded l \<and> binaries (snd (aicpu_reset host (l, w'))) = binaries w"
proof (cases "runtime = 0")
  case True
  with run show ?thesis by (auto simp: aicpu_launcher_open_def)
next
  case False
  let ?l = "\<lparr>dln_runtime = runtime, dln_binary = 0, dln_functions = Map.empty\<rparr>"
  have idle: "binaries (snd (aicpu_reset host (l, w))) = binaries w" if "dln_binary l = 0" for l w
    using that by (simp add: aicpu_reset_def device_unload_def Let_def)
  obtain r1 l1 w1 where ld: "aicpu_load host path (?l, w) = (r1, (l1, w1))" by (metis prod_cases3)
  note fresh = device_load_fresh [OF laws _ idle ld [unfolded aicpu_load_def], simplified]
  show ?thesis
  proof (cases r1)
    case (Inl e)
    with fresh have l1: "dln_binary l1 = 0" and b: "binaries w1 = binaries w"
      by (auto simp: aicpu_reset_def device_unload_def Let_def)
    from run False ld Inl have "r = Inl e" "w' = snd (aicpu_reset host (l1, w1))" by (auto simp: aicpu_launcher_open_def)
    with idle [OF l1] b show ?thesis by simp
  next
    case (Inr u)
    with run False ld have r: "r = Inr l1" "w' = w1" by (auto simp: aicpu_launcher_open_def)
    from fresh Inr have l1: "l1 = ?l\<lparr>dln_binary := dln_binary l1\<rparr>" "dln_binary l1 \<noteq> 0"
      and b: "binaries w1 = (binaries w)(dln_binary l1 := binaries w (dln_binary l1) + 1)" by auto
    have "dln_runtime l1 = runtime" by (subst l1(1), simp)
    with l1(2) b r device_unload_binaries [OF laws, of l1 w1] show ?thesis by (simp add: device_loaded_def aicpu_reset_def)
  qed
qed

section \<open>Opening and destroying\<close>

text \<open>The destructors of the three classes.\<close>

definition launcher_delete :: "'w dl \<Rightarrow> 'w aiv_host \<Rightarrow> 'w aicpu_host \<Rightarrow> OpenedLauncher \<Rightarrow> 'w \<Rightarrow> 'w" where
  "launcher_delete ld aiv aicpu opened w =
     (case opened of
        OpenedRa l \<Rightarrow> ra_launcher_delete ld l w
      | OpenedAiv l \<Rightarrow> snd (aiv_reset aiv (l, w))
      | OpenedAicpu l \<Rightarrow> snd (aicpu_reset aicpu (l, w)))"

lemma ra_open_close:
  assumes "dl_laws ld handles" and "ra_launcher_open ld path w = (r, w')"
  shows "case r of Inl _ \<Rightarrow> handles w' = handles w | Inr l \<Rightarrow> handles (ra_launcher_delete ld l w') = handles w"
  using ra_launcher_open_handles [OF assms] library_close_handles [OF assms(1), of w']
  by (auto simp: ra_launcher_delete_def split: sum.splits)

text \<open>The backend of an opened launcher.\<close>

fun opened_mode :: "OpenedLauncher \<Rightarrow> BackendMode" where
  "opened_mode (OpenedRa _) = ModeRa"
| "opened_mode (OpenedAiv _) = ModeAiv"
| "opened_mode (OpenedAicpu _) = ModeAicpu"

text \<open>What the backend's artifact occupies: a handle of the dynamic loader, or a binary on the device.\<close>

definition artifacts :: "BackendMode \<Rightarrow> ('w \<Rightarrow> u64 \<Rightarrow> nat) \<Rightarrow> ('w \<Rightarrow> u64 \<Rightarrow> nat) \<Rightarrow> 'w \<Rightarrow> u64 \<Rightarrow> nat" where
  "artifacts mode handles binaries = (case mode of ModeRa \<Rightarrow> handles | _ \<Rightarrow> binaries)"

text \<open>C30: opening a backend needs an initialized runtime and an artifact, gives a launcher of the requested mode, and
  neither a failed open nor an opened launcher that is destroyed leaves its library or binary loaded.\<close>

theorem launcher_open_owns:
  assumes "dl_laws ld handles" and "binary_laws (lh_dev aiv) binaries" and "binary_laws (lh_dev aicpu) binaries"
    and run: "launcher_open ld aiv aicpu runtime mode artifact w = (r, w')"
  shows "case r of
      Inl _ \<Rightarrow> artifacts mode handles binaries w' = artifacts mode handles binaries w
    | Inr opened \<Rightarrow> runtime \<noteq> 0 \<and> rt_initialized (lh_runtime aiv runtime) \<and> opened_mode opened = mode
        \<and> artifacts mode handles binaries (launcher_delete ld aiv aicpu opened w') = artifacts mode handles binaries w"
proof (cases "runtime = 0 \<or> \<not> rt_initialized (lh_runtime aiv runtime)")
  case True
  with run show ?thesis by (auto simp: launcher_open_def)
next
  case False
  note run' = run [unfolded launcher_open_def if_not_P [OF False]]
  show ?thesis
  proof (cases mode)
    case ModeRa
    obtain q v where o: "ra_launcher_open ld artifact w = (q, v)" by fastforce
    with run' ModeRa have "r = map_sum id OpenedRa q" "w' = v" by simp_all
    with ra_open_close [OF assms(1) o] False ModeRa show ?thesis by (auto simp: artifacts_def launcher_delete_def split: sum.splits)
  next
    case ModeAicpu
    obtain q v where o: "aicpu_launcher_open aicpu runtime artifact w = (q, v)" by fastforce
    with run' ModeAicpu have "r = map_sum id OpenedAicpu q" "w' = v" by simp_all
    with aicpu_open_binaries [OF assms(3) o] False ModeAicpu show ?thesis
      by (auto simp: artifacts_def launcher_delete_def split: sum.splits)
  next
    case ModeAiv
    obtain q v where o: "aiv_launcher_open aiv runtime artifact w = (q, v)" by fastforce
    with run' ModeAiv have "r = map_sum id OpenedAiv q" "w' = v" by simp_all
    with aiv_open_binaries [OF assms(2) o] False ModeAiv show ?thesis
      by (auto simp: artifacts_def launcher_delete_def split: sum.splits)
  qed
qed

text \<open>A device that counts the loaded binaries, next to the loader that counts handles.\<close>

definition binary_dev :: "('a, u64 \<Rightarrow> nat) aclrt" where
  "binary_dev = \<lparr>aclrtBinaryLoadFromFile = (\<lambda>_ _ w. ((0, 3), w(3 := w 3 + 1))), aclrtBinaryUnLoad = (\<lambda>b w. (0, w(b := w b - 1))),
     aclrtBinaryGetFunction = (\<lambda>_ _ w. ((0, 5), w)), aclrtLaunchKernelWithHostArgs = (\<lambda>_ _ _ _ _ _ _ _ w. (0, w)),
     aclrtSynchronizeStreamWithTimeout = (\<lambda>_ _ w. (0, w)), aclrtCreateStream = (\<lambda>w. ((0, 1), w)),
     aclrtDestroyStream = (\<lambda>_ w. (0, w))\<rparr>"

definition binary_host :: "('a, u64 \<Rightarrow> nat) launch_host" where
  "binary_host = \<lparr>lh_dev = binary_dev, lh_acl = sample_acl, lh_runtime = (\<lambda>_. sample_runtime), lh_endian = Little\<rparr>"

lemma binary_host_laws: "binary_laws (lh_dev binary_host) id"
  by (simp add: binary_laws_def binary_host_def binary_dev_def)

theorem launcher_open_owns_witness:
  "\<exists>l w'. launcher_open counting_dl binary_host binary_host 0x40 ModeAiv ''nds_aiv.o'' (\<lambda>_. 0) = (Inr (OpenedAiv l), w')
    \<and> opened_mode (OpenedAiv l) = ModeAiv
    \<and> artifacts ModeAiv id id (launcher_delete counting_dl binary_host binary_host (OpenedAiv l) w') = artifacts ModeAiv id id (\<lambda>_. 0)"
proof -
  have "\<exists>l w'. launcher_open counting_dl binary_host binary_host 0x40 ModeAiv ''nds_aiv.o'' (\<lambda>_. 0) = (Inr (OpenedAiv l), w')"
    by (simp add: launcher_open_def binary_host_def binary_dev_def sample_runtime_def aiv_launcher_open_def aiv_load_def device_load_def
        device_loaded_def)
  then obtain l w' where o: "launcher_open counting_dl binary_host binary_host 0x40 ModeAiv ''nds_aiv.o'' (\<lambda>_. 0) = (Inr (OpenedAiv l), w')"
    by blast
  from launcher_open_owns [OF counting_dl_laws binary_host_laws binary_host_laws o] o show ?thesis by auto
qed

end
