(* ===== verification/Client_Session.thy ===== *)
theory Client_Session
  imports Launcher_Open Client_Storage
begin

text \<open>
  What the programs on top of the client share: a storage client and an opened launcher on one world. A launcher is what
  a backend opens, with its methods and its destructor; the programs work with any of them. Objects
  of a block are destroyed on every way out of it, as in C++.
\<close>

section \<open>Backends\<close>

text \<open>An opened backend: \<open>'l\<close> is the launcher object.\<close>

record ('l, 'w) Backend =
  bk_open :: "u64 \<Rightarrow> BackendMode \<Rightarrow> string \<Rightarrow> ('w, 'l) comp"
  bk_ops :: "('l \<times> 'w) LauncherOps"
  bk_delete :: "'l \<Rightarrow> 'w \<Rightarrow> 'w"

text \<open>The two kernel backends; \<open>Launcher::open\<close> with another mode is not reached through them.\<close>

definition aicpu_backend :: "'w aicpu_host \<Rightarrow> (DeviceLauncher, 'w) Backend" where
  "aicpu_backend host =
     \<lparr>bk_open = (\<lambda>runtime mode artifact w.
        if runtime = 0 \<or> \<not> rt_initialized (lh_runtime host runtime) then (Inl kInvalidArgument, w)
        else aicpu_launcher_open host runtime artifact w),
      bk_ops = aicpu_launcher_ops host, bk_delete = (\<lambda>l w. snd (aicpu_reset host (l, w)))\<rparr>"

definition aiv_backend :: "'w aiv_host \<Rightarrow> (AivLauncher, 'w) Backend" where
  "aiv_backend host =
     \<lparr>bk_open = (\<lambda>runtime mode artifact w.
        if runtime = 0 \<or> \<not> rt_initialized (lh_runtime host runtime) then (Inl kInvalidArgument, w)
        else aiv_launcher_open host runtime artifact w),
      bk_ops = aiv_launcher_ops host, bk_delete = (\<lambda>l w. snd (aiv_reset host (l, w)))\<rparr>"

section \<open>Calls of the parts\<close>

type_synonym ('l, 'w) session_state = "StorageClient \<times> 'l \<times> 'w"

definition on_storage :: "(StorageClient \<times> 'w, 'a) comp \<Rightarrow> (('l, 'w) session_state, 'a) pcomp" where
  "on_storage m = (\<lambda>(c, l, w). case m (c, w) of (r, (c, w)) \<Rightarrow> Some (r, (c, l, w)))"

definition on_launcher :: "(StorageClient \<Rightarrow> ('l \<times> 'w, 'a) pcomp) \<Rightarrow> (('l, 'w) session_state, 'a) pcomp" where
  "on_launcher m = (\<lambda>(c, s). case m c s of None \<Rightarrow> None | Some (r, s) \<Rightarrow> Some (r, (c, s)))"

definition on_runtime :: "('w, 'a) comp \<Rightarrow> (('l, 'w) session_state, 'a) pcomp" where
  "on_runtime m = (\<lambda>(c, l, w). case m w of (r, w) \<Rightarrow> Some (r, (c, l, w)))"

text \<open>A buffer and a region of a block.\<close>

definition in_buffer :: "'w cann \<Rightarrow> Runtime \<Rightarrow> u64 \<Rightarrow> (MemoryBuffer \<Rightarrow> (('l, 'w) session_state, 'a) pcomp) \<Rightarrow> (('l, 'w) session_state, 'a) pcomp" where
  "in_buffer acl rt sz body =
     pbind (on_runtime (runtime_allocate acl rt sz LocDevice)) (\<lambda>b s.
       case body b s of
         None \<Rightarrow> None
       | Some (r, (c, l, w)) \<Rightarrow> Some (r, (c, l, snd (buffer_reset acl rt b w))))"

definition in_region :: "'w libra \<Rightarrow> Runtime \<Rightarrow> ClientTransport \<Rightarrow> MemoryBuffer \<Rightarrow> int \<Rightarrow>
    (ClientRegion \<Rightarrow> (('l, 'w) session_state, 'a) pcomp) \<Rightarrow> (('l, 'w) session_state, 'a) pcomp" where
  "in_region ra rt t b access body =
     pbind (on_storage (\<lambda>(c, w). case storage_register_memory ra rt t c b access w of (r, w) \<Rightarrow> (r, (c, w)))) (\<lambda>region s.
       case body region s of
         None \<Rightarrow> None
       | Some (r, (c, l, w)) \<Rightarrow> Some (r, (c, l, snd (client_region_reset ra (ctp_endpoint t) region w))))"

section \<open>The default destructor\<close>

text \<open>The members of a storage client, in the reverse order of their declaration.\<close>

definition storage_client_destroy :: "'w libra \<Rightarrow> 'w cann \<Rightarrow> Runtime \<Rightarrow> ClientTransport \<Rightarrow> StorageClient \<Rightarrow> 'w \<Rightarrow> 'w" where
  "storage_client_destroy ra acl rt t c w =
     (let region = (\<lambda>g w. snd (client_region_reset ra (ctp_endpoint t) g w)); buffer = (\<lambda>b w. snd (buffer_reset acl rt b w));
          w = region (stc_slot_table_region c) w; w = buffer (stc_slot_table_buffer c) w;
          w = buffer (stc_storage_states_buffer c) w; w = buffer (stc_slot_descriptors_buffer c) w;
          w = region (stc_completion_region c) w; w = buffer (stc_completion_buffer c) w;
          w = region (stc_command_region c) w; w = buffer (stc_command_buffer c) w;
          w = region (stc_namespace_region c) w; w = buffer (stc_namespace_buffer c) w;
          w = region (stc_bootstrap_region c) w
      in buffer (stc_bootstrap_buffer c) w)"

section \<open>Default configurations\<close>

definition default_qp_config :: QueuePairConfig where
  "default_qp_config =
     \<lparr>qc_port_num = 1, qc_path_mtu = 1024, qc_traffic_class = 0, qc_service_level = 0, qc_retry_count = 7, qc_retry_timeout = 14,
      qc_ai_qp_mode = -1, qc_send_queue_depth = 32768, qc_receive_queue_depth = 128, qc_control_flags = 0\<rparr>"

definition default_transport_config :: "string \<Rightarrow> ClientTransportConfig" where
  "default_transport_config server_address =
     \<lparr>ctc_hdc_type = kHdcDefault, ctc_qp = default_qp_config, ctc_qp_count = 1, ctc_server_address = server_address,
      ctc_tcp_timeout_ms = 5000\<rparr>"

definition default_runtime_config :: RuntimeConfig where
  "default_runtime_config = \<lparr>rc_logical_device_id = 0, rc_hdc_type = kHdcDefault, rc_adopt_existing_context = False\<rparr>"

text \<open>A runtime at an address, not yet opened.\<close>

definition new_runtime :: "u64 \<Rightarrow> Runtime" where
  "new_runtime this = \<lparr>rt_this = this, rt_config = default_runtime_config, rt_acl_initialized = False, rt_net_service_open = False,
     rt_initialized = False\<rparr>"

section \<open>The objects of a client\<close>

text \<open>
  The objects that a program keeps while it works: runtime, transport, storage client, launcher and stream, in the order in
  which they are declared. A program with more of them extends the record.
\<close>

record 'l Session =
  ses_runtime :: Runtime
  ses_transport :: ClientTransport
  ses_storage :: StorageClient
  ses_launcher :: "'l option"
  ses_stream :: u64

text \<open>The outside of a program: \<open>sh_this\<close> are the addresses of the runtime and of the endpoint among the objects.\<close>

record ('a, 'l, 'w) session_host =
  sh_pton :: "string \<Rightarrow> u32 option"
  sh_endian :: endian
  sh_os :: "'w posix"
  sh_ra :: "'w libra"
  sh_acl :: "'w cann"
  sh_dev :: "('a, 'w) aclrt"
  sh_backend :: "('l, 'w) Backend"
  sh_current_device :: "'w \<Rightarrow> int \<times> 'w"
  sh_this :: "u64 \<times> u64"
  sh_addresses :: object_addresses

definition new_session :: "('a, 'l, 'w) session_host \<Rightarrow> 'l Session" where
  "new_session h =
     \<lparr>ses_runtime = new_runtime (fst (sh_this h)), ses_transport = empty_client_transport (snd (sh_this h)) (default_transport_config []),
      ses_storage = empty_storage_client, ses_launcher = None, ses_stream = 0\<rparr>"

text \<open>A call of one of the objects.\<close>

definition on_part :: "(('l, 'x) Session_scheme \<Rightarrow> 'm) \<Rightarrow> ('m \<Rightarrow> ('l, 'x) Session_scheme \<Rightarrow> ('l, 'x) Session_scheme) \<Rightarrow>
    ('m \<times> 'w, 'a) pcomp \<Rightarrow> (('l, 'x) Session_scheme \<times> 'w, 'a) pcomp" where
  "on_part get put m = (\<lambda>(s, w). case m (get s, w) of None \<Rightarrow> None | Some (r, (x, w)) \<Rightarrow> Some (r, (put x s, w)))"

definition open_runtime_part :: "('a, 'l, 'w) session_host \<Rightarrow> RuntimeConfig \<Rightarrow> (('l, 'x) Session_scheme \<times> 'w, unit) pcomp" where
  "open_runtime_part h config = on_part ses_runtime (\<lambda>x s. s\<lparr>ses_runtime := x\<rparr>) (plift (runtime_open (sh_acl h) config))"

definition open_transport_part :: "('a, 'l, 'w) session_host \<Rightarrow> ClientTransportConfig \<Rightarrow> BackendMode \<Rightarrow>
    (('l, 'x) Session_scheme \<times> 'w, unit) pcomp" where
  "open_transport_part h config mode = (\<lambda>(s, w).
     on_part ses_transport (\<lambda>x s. s\<lparr>ses_transport := x\<rparr>)
       (client_transport_open (sh_endian h) (sh_os h) (sh_ra h) (sh_acl h) (sh_addresses h) (Some (ses_runtime s)) config mode) (s, w))"

definition open_storage_part :: "('a, 'l, 'w) session_host \<Rightarrow> (('l, 'x) Session_scheme \<times> 'w, unit) pcomp" where
  "open_storage_part h = (\<lambda>(s, w).
     on_part ses_storage (\<lambda>x s. s\<lparr>ses_storage := x\<rparr>)
       (plift (storage_client_open (sh_ra h) (sh_acl h) (Some (ses_runtime s)) (Some (ses_transport s)))) (s, w))"

definition open_launcher_part :: "('a, 'l, 'w) session_host \<Rightarrow> BackendMode \<Rightarrow> string \<Rightarrow> (('l, 'x) Session_scheme \<times> 'w, unit) pcomp" where
  "open_launcher_part h mode artifact = (\<lambda>(s, w).
     case bk_open (sh_backend h) (rt_this (ses_runtime s)) mode artifact w of
       (Inl e, w) \<Rightarrow> Some (Inl e, (s, w))
     | (Inr l, w) \<Rightarrow> Some (Inr (), (s\<lparr>ses_launcher := Some l\<rparr>, w)))"

text \<open>The launcher is set when it is called; the stream of the configuration is that of the program.\<close>

definition bootstrap_part :: "('a, 'l, 'w) session_host \<Rightarrow> LaunchConfig \<Rightarrow> (('l, 'x) Session_scheme \<times> 'w, unit) pcomp" where
  "bootstrap_part h config = (\<lambda>(s, w).
     on_part (\<lambda>s. the (ses_launcher s)) (\<lambda>x s. s\<lparr>ses_launcher := Some x\<rparr>)
       (view_storage_bootstrap (with_config (bk_ops (sh_backend h)) (config\<lparr>lc_stream := ses_stream s\<rparr>))
         (stc_bootstrap_descriptor (ses_storage s))) (s, w))"

definition complete_bootstrap_part :: "('a, 'l, 'w) session_host \<Rightarrow> u32 \<Rightarrow> (('l, 'x) Session_scheme \<times> 'w, unit) pcomp" where
  "complete_bootstrap_part h timeout_ms = (\<lambda>(s, w).
     on_part ses_storage (\<lambda>x s. s\<lparr>ses_storage := x\<rparr>) (complete_bootstrap (sh_acl h) (ses_runtime s) timeout_ms) (s, w))"

text \<open>The objects are destroyed from the last to the first; a stream is destroyed by its owner, when it is set.\<close>

definition session_members_destroy :: "('a, 'l, 'w) session_host \<Rightarrow> ('l, 'x) Session_scheme \<Rightarrow> 'w \<Rightarrow> 'w" where
  "session_members_destroy h s w =
     (let w = (case ses_launcher s of None \<Rightarrow> w | Some l \<Rightarrow> bk_delete (sh_backend h) l w);
          w = storage_client_destroy (sh_ra h) (sh_acl h) (ses_runtime s) (ses_transport s) (ses_storage s) w;
          w = client_transport_destroy (sh_os h) (sh_ra h) (sh_acl h) (ses_runtime s) (ses_transport s) w
      in snd (runtime_reset (sh_acl h) (ses_runtime s) w))"

definition session_destroy :: "('a, 'l, 'w) session_host \<Rightarrow> ('l, 'x) Session_scheme \<Rightarrow> 'w \<Rightarrow> 'w" where
  "session_destroy h s w =
     session_members_destroy h s (if ses_stream s \<noteq> 0 then snd (aclrtDestroyStream (sh_dev h) (ses_stream s) w) else w)"

text \<open>
  A call with an element of a vector among the objects of a program; a result may be assigned to a member of the
  element. Members that own something are assigned once, when they are empty.
\<close>

definition with_element :: "('s \<Rightarrow> 'e list) \<Rightarrow> ('e list \<Rightarrow> 's \<Rightarrow> 's) \<Rightarrow> nat \<Rightarrow> ('s \<Rightarrow> 'e \<Rightarrow> ('w, 'a) comp) \<Rightarrow> ('a \<Rightarrow> 'e \<Rightarrow> 'e) \<Rightarrow>
    ('s \<times> 'w, unit) comp" where
  "with_element get put i m assign = (\<lambda>(s, w).
     case m s (get s ! i) w of
       (Inl e, w) \<Rightarrow> (Inl e, (s, w))
     | (Inr x, w) \<Rightarrow> (Inr (), (put ((get s)[i := assign x (get s ! i)]) s, w)))"

text \<open>The command line parser reports the options it set, with the name of the backend, a request for help, or an error.\<close>

datatype 'c CliOutcome = CliParsed 'c string | CliHelp int | CliError int

end
