(* ===== verification/Torch_Session.thy ===== *)
theory Torch_Session
  imports Client_Session
begin

text \<open>
  The session that the torch extension exports, \<^verbatim>\<open>src/src/torch/nds_torch.cc\<close>: its constructor and destructor, and a read
  and a write of a tensor, each through one slot. A failed \<open>TORCH_CHECK\<close> throws; the exception is the error of a
  call here, with the error code of the NDS result it wraps. PyTorch's tensors are records with what the
  session asks of them. The registration of the module with Python is not modelled.
\<close>

section \<open>Exceptions and tensors\<close>

datatype TorchError =
  ServerAddressInvalid | NoActiveDevice | UnsupportedBackend | ArtifactMissing | StreamCreationFailed
| TensorNotOnCpu | TensorNotContiguous | TensorEmpty | TensorTooLarge | NegativeOffset
| NdsError ErrorCode

type_synonym ('s, 'a) tcomp = "'s \<Rightarrow> ((TorchError + 'a) \<times> 's) option"

text \<open>\<open>check\<close> and \<open>value_or_throw\<close>.\<close>

definition value_or_throw :: "('s, 'a) pcomp \<Rightarrow> ('s, 'a) tcomp" where
  "value_or_throw m s = (case m s of None \<Rightarrow> None | Some (Inl e, s) \<Rightarrow> Some (Inl (NdsError e), s) | Some (Inr x, s) \<Rightarrow> Some (Inr x, s))"

record Tensor =
  tn_is_cpu :: bool
  tn_is_contiguous :: bool
  tn_bytes :: "u8 list"

definition tn_nbytes :: "Tensor \<Rightarrow> nat" where
  "tn_nbytes tensor = length (tn_bytes tensor)"

definition check_tensor :: "Tensor \<Rightarrow> TorchError option" where
  "check_tensor tensor =
     (if \<not> tn_is_cpu tensor then Some TensorNotOnCpu
      else if \<not> tn_is_contiguous tensor then Some TensorNotContiguous
      else if tn_nbytes tensor = 0 then Some TensorEmpty
      else if tn_nbytes tensor > unat UINT32_MAX then Some TensorTooLarge
      else None)"

definition backend_mode :: "string \<Rightarrow> BackendMode option" where
  "backend_mode backend_name =
     (if backend_name = ''ra'' then Some ModeRa
      else if backend_name = ''aiv'' then Some ModeAiv
      else if backend_name = ''aicpu'' then Some ModeAicpu
      else None)"

section \<open>Reading and writing\<close>

text \<open>The launch configuration of every call of a session.\<close>

definition session_config :: "u64 \<Rightarrow> LaunchConfig" where
  "session_config stream = default_launch_config\<lparr>lc_stream := stream, lc_sync := True, lc_sync_timeout_ms := 5000\<rparr>"

text \<open>What a session keeps that its reads and writes do not change.\<close>

record ('l, 'w) SessionParts =
  se_ra :: "'w libra"
  se_acl :: "'w cann"
  se_runtime :: Runtime
  se_transport :: ClientTransport
  se_ops :: "('l \<times> 'w) LauncherOps"
  se_stream :: u64

definition session_view :: "('l, 'w) SessionParts \<Rightarrow> ('l \<times> 'w) ConfiguredLauncherView" where
  "session_view p = with_config (se_ops p) (session_config (se_stream p))"

text \<open>One command in a slot: allocate, submit, wait, release. No way out before the end gives the slot back.\<close>

definition slot_command :: "('l, 'w) SessionParts \<Rightarrow> (NdsStorageDescriptor \<Rightarrow> u32 \<Rightarrow> ('l \<times> 'w, unit) pcomp) \<Rightarrow>
    (('l, 'w) session_state, unit) pcomp" where
  "slot_command p submit =
     pbind (on_storage (allocate_slot (se_acl p) (se_runtime p))) (\<lambda>slot.
     pbind (on_launcher (\<lambda>c. submit (stc_storage_descriptor c) slot)) (\<lambda>_.
     pbind (on_launcher (\<lambda>c. view_storage_wait (session_view p) (stc_storage_descriptor c) slot)) (\<lambda>_.
     on_storage (release_slot (se_acl p) (se_runtime p) slot))))"

text \<open>The parts of a read and of a write behind the checks of their arguments.\<close>

definition read_transfer :: "('l, 'w) SessionParts \<Rightarrow> nat \<Rightarrow> u64 \<Rightarrow> (('l, 'w) session_state, u8 list) pcomp" where
  "read_transfer p nbytes offset =
     in_buffer (se_acl p) (se_runtime p) (of_nat nbytes) (\<lambda>buffer.
     in_region (se_ra p) (se_runtime p) (se_transport p) buffer LocalWrite_RemoteWrite_RemoteRead (\<lambda>region.
     pbind (slot_command p (\<lambda>d slot.
       view_storage_read (session_view p) d slot offset (mi_address (crg_info region)) (mi_remote_key (crg_info region)) (of_nat nbytes))) (\<lambda>_.
     on_runtime (runtime_copy_from (se_acl p) (se_runtime p) buffer nbytes))))"

definition write_transfer :: "('l, 'w) SessionParts \<Rightarrow> u8 list \<Rightarrow> u64 \<Rightarrow> (('l, 'w) session_state, unit) pcomp" where
  "write_transfer p bytes offset =
     in_buffer (se_acl p) (se_runtime p) (of_nat (length bytes)) (\<lambda>buffer.
     pbind (on_runtime (runtime_copy_to (se_acl p) (se_runtime p) buffer (HBytes bytes))) (\<lambda>_.
     in_region (se_ra p) (se_runtime p) (se_transport p) buffer LocalWrite_RemoteWrite_RemoteRead (\<lambda>region.
     slot_command p (\<lambda>d slot.
       view_storage_write (session_view p) d slot offset (mi_address (crg_info region)) (mi_remote_key (crg_info region))
         (of_nat (length bytes))))))"

text \<open>A read stores the bytes it returns in the tensor.\<close>

definition session_read :: "('l, 'w) SessionParts \<Rightarrow> Tensor \<Rightarrow> u64 \<Rightarrow> (('l, 'w) session_state, u8 list) tcomp" where
  "session_read p output offset s =
     (case check_tensor output of
        Some e \<Rightarrow> Some (Inl e, s)
      | None \<Rightarrow> if sint offset < 0 then Some (Inl NegativeOffset, s) else value_or_throw (read_transfer p (tn_nbytes output) offset) s)"

definition session_write :: "('l, 'w) SessionParts \<Rightarrow> Tensor \<Rightarrow> u64 \<Rightarrow> (('l, 'w) session_state, unit) tcomp" where
  "session_write p input offset s =
     (case check_tensor input of
        Some e \<Rightarrow> Some (Inl e, s)
      | None \<Rightarrow> if sint offset < 0 then Some (Inl NegativeOffset, s) else value_or_throw (write_transfer p (tn_bytes input) offset) s)"

text \<open>The conversion to a signed integer.\<close>

definition session_capacity :: "StorageClient \<Rightarrow> int" where
  "session_capacity c = sint (stc_capacity c)"

section \<open>The session object\<close>

definition tbind :: "('s, 'a) tcomp \<Rightarrow> ('a \<Rightarrow> ('s, 'b) tcomp) \<Rightarrow> ('s, 'b) tcomp" where
  "tbind m f s = (case m s of None \<Rightarrow> None | Some (Inl e, s) \<Rightarrow> Some (Inl e, s) | Some (Inr x, s) \<Rightarrow> f x s)"

definition torch_check :: "bool \<Rightarrow> TorchError \<Rightarrow> ('s, unit) tcomp" where
  "torch_check b e s = Some (if b then Inr () else Inl e, s)"

definition create_session_stream :: "('a, 'l, 'w) session_host \<Rightarrow> BackendMode \<Rightarrow> ('l Session \<times> 'w, unit) tcomp" where
  "create_session_stream h mode = (\<lambda>(s, w).
     if mode = ModeRa then Some (Inr (), (s, w))
     else case aclrtCreateStream (sh_dev h) w of
       ((result, stream), w) \<Rightarrow>
         Some (if result = 0 then Inr () else Inl StreamCreationFailed, (s\<lparr>ses_stream := stream\<rparr>, w)))"

text \<open>The body of the constructor.\<close>

definition session_construct :: "('a, 'l, 'w) session_host \<Rightarrow> string \<Rightarrow> string \<Rightarrow> string \<Rightarrow> ('l Session \<times> 'w, unit) tcomp" where
  "session_construct h server backend_name artifact =
     tbind (torch_check (ok (parse_tcp_address (sh_pton h) server)) ServerAddressInvalid) (\<lambda>_.
     tbind (\<lambda>(s, w). case sh_current_device h w of (device, w) \<Rightarrow> Some (Inr device, (s, w))) (\<lambda>device.
     tbind (torch_check (device \<ge> 0) NoActiveDevice) (\<lambda>_.
     tbind (value_or_throw (open_runtime_part h
              (default_runtime_config\<lparr>rc_logical_device_id := word_of_int device, rc_adopt_existing_context := True\<rparr>))) (\<lambda>_.
     tbind (torch_check (backend_mode backend_name \<noteq> None) UnsupportedBackend) (\<lambda>_.
     let mode = the (backend_mode backend_name) in
     tbind (torch_check (artifact \<noteq> []) ArtifactMissing) (\<lambda>_.
     tbind (value_or_throw (open_transport_part h (default_transport_config server) mode)) (\<lambda>_.
     tbind (value_or_throw (open_storage_part h)) (\<lambda>_.
     tbind (value_or_throw (open_launcher_part h mode artifact)) (\<lambda>_.
     tbind (create_session_stream h mode) (\<lambda>_.
     tbind (value_or_throw (bootstrap_part h (session_config 0))) (\<lambda>_.
     value_or_throw (complete_bootstrap_part h 5000))))))))))))"

text \<open>A constructor that throws destroys the members but does not run the destructor's body.\<close>

definition session_open :: "('a, 'l, 'w) session_host \<Rightarrow> string \<Rightarrow> string \<Rightarrow> string \<Rightarrow> ('w, 'l Session) tcomp" where
  "session_open h server backend_name artifact w =
     (case session_construct h server backend_name artifact (new_session h, w) of
        None \<Rightarrow> None
      | Some (Inl e, (s, w)) \<Rightarrow> Some (Inl e, session_members_destroy h s w)
      | Some (Inr _, (s, w)) \<Rightarrow> Some (Inr s, w))"

definition session_parts :: "('a, 'l, 'w) session_host \<Rightarrow> 'l Session \<Rightarrow> ('l, 'w) SessionParts" where
  "session_parts h s =
     \<lparr>se_ra = sh_ra h, se_acl = sh_acl h, se_runtime = ses_runtime s, se_transport = ses_transport s, se_ops = bk_ops (sh_backend h),
      se_stream = ses_stream s\<rparr>"

section \<open>What a command does to the slots\<close>

text \<open>
  What a command does to the allocator: nothing in the end when it succeeds; when it fails, at most one slot that was free
  stays held.
\<close>

definition transfer_effect :: "StorageClient \<Rightarrow> bool \<Rightarrow> StorageClient \<Rightarrow> bool" where
  "transfer_effect c good c' \<longleftrightarrow> slots_wf c' \<and> client_slot_ids c' = client_slot_ids c \<and>
     (client_held c' = client_held c \<or> (\<not> good \<and> (\<exists>i \<in> client_slot_ids c - client_held c. client_held c' = insert i (client_held c))))"

definition slot_effect :: "(('l, 'w) session_state, 'a) pcomp \<Rightarrow> bool" where
  "slot_effect m \<longleftrightarrow> (\<forall>c l w r c' l' w'. slots_wf c \<longrightarrow> m (c, l, w) = Some (r, (c', l', w')) \<longrightarrow> transfer_effect c (ok r) c')"

lemma slot_effectD: "slot_effect m \<Longrightarrow> slots_wf c \<Longrightarrow> m (c, l, w) = Some (r, (c', l', w')) \<Longrightarrow> transfer_effect c (ok r) c'"
  unfolding slot_effect_def by blast

lemma transfer_effect_refl: "slots_wf c \<Longrightarrow> transfer_effect c b c"
  by (simp add: transfer_effect_def)

lemma transfer_effect_weaken: "transfer_effect c True c' \<Longrightarrow> transfer_effect c b c'"
  by (auto simp: transfer_effect_def)

text \<open>Calls that leave the storage client alone, before and after.\<close>

definition client_const :: "(('l, 'w) session_state, 'a) pcomp \<Rightarrow> bool" where
  "client_const m \<longleftrightarrow> (\<forall>c l w r c' l' w'. m (c, l, w) = Some (r, (c', l', w')) \<longrightarrow> c' = c)"

lemma client_constD: "client_const m \<Longrightarrow> m (c, l, w) = Some (r, (c', l', w')) \<Longrightarrow> c' = c"
  unfolding client_const_def by blast

lemma client_const_calls: "client_const (on_runtime m)" "client_const (on_launcher f)"
  by (auto simp: client_const_def on_runtime_def on_launcher_def split: prod.splits option.splits)

lemma register_const: "client_const (on_storage (\<lambda>(c, w). case storage_register_memory ra rt t c b access w of (r, w) \<Rightarrow> (r, (c, w))))"
  by (auto simp: client_const_def on_storage_def split: prod.splits)

lemma pbind_cases:
  assumes "pbind m f s = Some (r, t)"
  obtains e where "m s = Some (Inl e, t)" "r = Inl e" | x s1 where "m s = Some (Inr x, s1)" "f x s1 = Some (r, t)"
  using assms by (auto simp: pbind_def split: option.splits prod.splits sum.splits)

lemma slot_effect_after:
  assumes "client_const m" and "\<And>x. slot_effect (f x)"
  shows "slot_effect (pbind m f)"
  unfolding slot_effect_def
proof (intro allI impI)
  fix c l w r c' l' w' assume wf: "slots_wf c" and run: "pbind m f (c, l, w) = Some (r, (c', l', w'))"
  from run show "transfer_effect c (ok r) c'"
  proof (cases rule: pbind_cases)
    case (1 e)
    from client_constD [OF assms(1) 1(1)] have "c' = c" .
    then show ?thesis by (simp add: transfer_effect_refl [OF wf])
  next
    case (2 x s1)
    obtain c1 l1 w1 where s1: "s1 = (c1, l1, w1)" by (metis prod_cases3)
    from client_constD [OF assms(1) 2(1) [unfolded s1]] have "c1 = c" .
    with slot_effectD [OF assms(2) wf] 2(2) s1 show ?thesis by blast
  qed
qed

lemma slot_effect_before:
  assumes "slot_effect m" and "\<And>x. client_const (f x)"
  shows "slot_effect (pbind m f)"
  unfolding slot_effect_def
proof (intro allI impI)
  fix c l w r c' l' w' assume wf: "slots_wf c" and run: "pbind m f (c, l, w) = Some (r, (c', l', w'))"
  from run show "transfer_effect c (ok r) c'"
  proof (cases rule: pbind_cases)
    case (1 e)
    from slot_effectD [OF assms(1) wf 1(1)] show ?thesis using 1(2) by simp
  next
    case (2 x s1)
    obtain c1 l1 w1 where s1: "s1 = (c1, l1, w1)" by (metis prod_cases3)
    from client_constD [OF assms(2) 2(2) [unfolded s1]] have "c' = c1" .
    moreover have "transfer_effect c True c1" using slot_effectD [OF assms(1) wf 2(1) [unfolded s1]] by simp
    ultimately show ?thesis by (simp add: transfer_effect_weaken)
  qed
qed

lemma slot_effect_scope:
  "slot_effect m \<Longrightarrow> slot_effect (\<lambda>s. case m s of None \<Rightarrow> None | Some (r, (c, l, w)) \<Rightarrow> Some (r, (c, l, g w)))"
  by (fastforce simp: slot_effect_def split: option.splits prod.splits)

lemma slot_effect_buffer: "(\<And>x. slot_effect (body x)) \<Longrightarrow> slot_effect (in_buffer acl rt sz body)"
  unfolding in_buffer_def by (rule slot_effect_after [OF client_const_calls(1)], rule slot_effect_scope)

lemma slot_effect_region: "(\<And>x. slot_effect (body x)) \<Longrightarrow> slot_effect (in_region ra rt t b access body)"
  unfolding in_region_def by (rule slot_effect_after [OF register_const], rule slot_effect_scope)

text \<open>The allocator through the contract of the pool.\<close>

lemma allocated:
  assumes "slots_wf c" and "allocate_slot acl rt (c, w) = (r, (c', w'))"
  shows "slots_wf c'" and "client_slot_ids c' = client_slot_ids c"
    and "r = Inl e \<Longrightarrow> client_held c' = client_held c"
    and "r = Inr i \<Longrightarrow> i \<in> client_slot_ids c - client_held c \<and> client_held c' = insert i (client_held c)"
proof -
  have a: "allocate_any acl rt t None (c, w) = (r, (c', w'))" for t using assms(2) by (simp add: allocate_any_def)
  show "slots_wf c'" and "client_slot_ids c' = client_slot_ids c" using client_pool.alloc_wf [OF _ a] assms(1) by simp_all
  show "client_held c' = client_held c" if "r = Inl e" using client_pool.alloc_refuses [OF _ a [unfolded that]] assms(1) by simp
  show "i \<in> client_slot_ids c - client_held c \<and> client_held c' = insert i (client_held c)" if "r = Inr i"
    using client_pool.alloc_grants [OF _ a [unfolded that]] assms(1) by simp
qed

lemma released:
  assumes "slots_wf c" and "release_slot acl rt i (c, w) = (r, (c', w'))"
  shows "slots_wf c'" and "client_slot_ids c' = client_slot_ids c"
    and "r = Inl e \<Longrightarrow> client_held c' = client_held c" and "r = Inr u \<Longrightarrow> i \<in> client_held c \<and> client_held c' = client_held c - {i}"
  using client_pool.release_wf [OF _ assms(2)] client_pool.release_refuses [of "(c, w)" acl rt i e "(c', w')"]
    client_pool.release_takes [of "(c, w)" acl rt i u "(c', w')"] assms by auto

lemma slot_command_effect: "slot_effect (slot_command p submit)"
  unfolding slot_effect_def
proof (intro allI impI)
  fix c l w r c' l' w' assume wf: "slots_wf c" and run: "slot_command p submit (c, l, w) = Some (r, (c', l', w'))"
  obtain ra c1 w1 where a: "allocate_slot (se_acl p) (se_runtime p) (c, w) = (ra, (c1, w1))" by (metis prod_cases3)
  note al = allocated [OF wf a]
  show "transfer_effect c (ok r) c'"
  proof (cases ra)
    case (Inl e)
    with run a al show ?thesis by (auto simp: slot_command_def on_storage_def pbind_def transfer_effect_def)
  next
    case (Inr i)
    have g: "i \<in> client_slot_ids c - client_held c" "client_held c1 = insert i (client_held c)" using al(4) [OF Inr] by simp_all
    let ?rest = "pbind (on_launcher (\<lambda>c. submit (stc_storage_descriptor c) i)) (\<lambda>_.
      pbind (on_launcher (\<lambda>c. view_storage_wait (session_view p) (stc_storage_descriptor c) i)) (\<lambda>_.
      on_storage (release_slot (se_acl p) (se_runtime p) i)))"
    have rest: "?rest (c1, l, w1) = Some (r, (c', l', w'))"
      using run a Inr by (simp add: slot_command_def on_storage_def pbind_def)
    have "(\<exists>e. r = Inl e \<and> c' = c1) \<or> (\<exists>w2 w3. release_slot (se_acl p) (se_runtime p) i (c1, w2) = (r, (c', w3)))"
      using rest by (fastforce simp: pbind_def on_launcher_def on_storage_def split: option.splits prod.splits sum.splits)
    then show ?thesis
    proof (elim disjE exE conjE)
      fix e assume "r = Inl e" "c' = c1"
      with al(1,2) g show ?thesis by (auto simp: transfer_effect_def)
    next
      fix w2 w3 assume rl: "release_slot (se_acl p) (se_runtime p) i (c1, w2) = (r, (c', w3))"
      note re = released [OF al(1) rl]
      show ?thesis using re(1,2) re(3) [where e = "projl r"] re(4) [where u = "()"] al(2) g by (cases r) (auto simp: transfer_effect_def)
    qed
  qed
qed

lemma value_or_throw_Some:
  "value_or_throw m s = Some (r, t) \<longleftrightarrow> (\<exists>q. m s = Some (q, t) \<and> r = map_sum NdsError id q)"
  by (auto simp: value_or_throw_def split: option.splits prod.splits sum.splits)

lemma transfers_effect: "slot_effect (read_transfer p n offset)" "slot_effect (write_transfer p bytes offset)"
  unfolding read_transfer_def write_transfer_def
  by (rule slot_effect_buffer, rule slot_effect_region, rule slot_effect_before [OF slot_command_effect client_const_calls(1)],
      rule slot_effect_buffer, rule slot_effect_after [OF client_const_calls(1)], rule slot_effect_region, rule slot_command_effect)

lemma session_effect:
  assumes "slots_wf c"
  shows "session_read p tensor offset (c, l, w) = Some (r, (c', l', w')) \<Longrightarrow> transfer_effect c (r \<in> range Inr) c'"
    and "session_write p tensor offset (c, l, w) = Some (r', (c', l', w')) \<Longrightarrow> transfer_effect c (r' \<in> range Inr) c'"
proof -
  have t: "transfer_effect c (map_sum NdsError id q \<in> range Inr) c'"
    if "slot_effect m" "m (c, l, w) = Some (q, (c', l', w'))" for m and q :: "'c result"
    using slot_effectD [OF that(1) assms that(2)] by (cases q) (auto simp: image_iff)
  show "transfer_effect c (r \<in> range Inr) c'" if "session_read p tensor offset (c, l, w) = Some (r, (c', l', w'))"
    using that t [OF transfers_effect(1)] transfer_effect_refl [OF assms]
    by (auto simp: session_read_def value_or_throw_Some split: option.splits if_splits)
  show "transfer_effect c (r' \<in> range Inr) c'" if "session_write p tensor offset (c, l, w) = Some (r', (c', l', w'))"
    using that t [OF transfers_effect(2)] transfer_effect_refl [OF assms]
    by (auto simp: session_write_def value_or_throw_Some split: option.splits if_splits)
qed

section \<open>Device memory\<close>

text \<open>What the session's calls besides those of a launcher leave of the device memory: what is documented of them.\<close>

definition session_laws :: "'w libra \<Rightarrow> ('a, 'w) aclrt \<Rightarrow> 'w cann \<Rightarrow> ('w \<Rightarrow> u64 \<Rightarrow> nat) \<Rightarrow> bool" where
  "session_laws ra dev acl blocks \<longleftrightarrow> memory_laws dev acl blocks \<and>
     (\<forall>p x w. same blocks w (host_store acl p x w)) \<and>
     (\<forall>f h info w. ra_register_mr ra = Some f \<longrightarrow> same blocks w (snd (f h info w))) \<and>
     (\<forall>f h k w. ra_deregister_mr ra = Some f \<longrightarrow> same blocks w (snd (f h k w)))"

text \<open>A computation that returns, with the device memory as it was.\<close>

definition restores :: "('w \<Rightarrow> 'b) \<Rightarrow> (('l, 'w) session_state, 'a) pcomp \<Rightarrow> bool" where
  "restores blocks m \<longleftrightarrow> (\<forall>c l w. \<exists>r c' l' w'. m (c, l, w) = Some (r, (c', l', w')) \<and> blocks w' = blocks w)"

lemma restoresE:
  assumes "restores blocks m"
  obtains r c' l' w' where "m (c, l, w) = Some (r, (c', l', w'))" "blocks w' = blocks w"
  using assms unfolding restores_def by blast

lemma restores_bind:
  assumes "restores blocks m" and "\<And>x. restores blocks (f x)"
  shows "restores blocks (pbind m f)"
  unfolding restores_def
proof (intro allI)
  fix c l w
  obtain r c1 l1 w1 where m: "m (c, l, w) = Some (r, (c1, l1, w1))" "blocks w1 = blocks w" by (rule restoresE [OF assms(1)])
  show "\<exists>r c' l' w'. pbind m f (c, l, w) = Some (r, (c', l', w')) \<and> blocks w' = blocks w"
  proof (cases r)
    case (Inl e)
    with m show ?thesis by (simp add: pbind_def)
  next
    case (Inr x)
    obtain r2 c2 l2 w2 where "f x (c1, l1, w1) = Some (r2, (c2, l2, w2))" "blocks w2 = blocks w1" by (rule restoresE [OF assms(2)])
    with m Inr show ?thesis by (simp add: pbind_def)
  qed
qed

lemma restores_runtime: "(\<And>w. same blocks w (snd (m w))) \<Longrightarrow> restores blocks (on_runtime m)"
  by (auto simp: restores_def on_runtime_def split: prod.splits) (metis snd_conv)

lemma restores_storage: "(\<And>c w. same blocks w (snd (snd (m (c, w))))) \<Longrightarrow> restores blocks (on_storage m)"
  by (auto simp: restores_def on_storage_def split: prod.splits) (metis snd_conv)

lemma restores_launcher:
  "(\<And>c l w. \<exists>r l' w'. f c (l, w) = Some (r, (l', w')) \<and> blocks w' = blocks w) \<Longrightarrow> restores blocks (on_launcher f)"
  unfolding restores_def on_launcher_def by (fastforce split: option.splits prod.splits)

lemma restores_buffer:
  assumes laws: "memory_laws dev acl blocks" and "rt_this rt \<noteq> 0" and body: "\<And>b. restores blocks (body b)"
  shows "restores blocks (in_buffer acl rt n body)"
  unfolding restores_def
proof (intro allI)
  fix c l w
  obtain ra w1 where a: "runtime_allocate acl rt n LocDevice w = (ra, w1)" by fastforce
  show "\<exists>r c' l' w'. in_buffer acl rt n body (c, l, w) = Some (r, (c', l', w')) \<and> blocks w' = blocks w"
  proof (cases ra)
    case (Inl e)
    have "blocks w1 = blocks w" using a Inl by (cases rule: device_allocate_cases) (auto dest: memory_laws_malloc [OF laws])
    with a Inl show ?thesis by (simp add: in_buffer_def pbind_def on_runtime_def)
  next
    case (Inr b)
    obtain r c2 l2 w2 where "body b (c, l, w1) = Some (r, (c2, l2, w2))" "blocks w2 = blocks w1" by (rule restoresE [OF body])
    with a Inr fresh_buffer(2) [OF laws assms(2) a [unfolded Inr]] show ?thesis by (simp add: in_buffer_def pbind_def on_runtime_def)
  qed
qed

text \<open>The calls of the runtime and of the storage client.\<close>

lemma session_calls_same:
  assumes "session_laws ra dev acl blocks"
  shows "same blocks w (snd (runtime_copy_to acl rt b x w))" and "same blocks w (snd (runtime_copy_from acl rt b n w))"
    and "same blocks w (snd (store_state acl rt c i st w))" and "same blocks w (snd (clear_state acl rt c i w))"
    and "same blocks w (snd (client_reg_mr ra ep b access w))" and "same blocks w (snd (client_region_reset ra ep region w))"
proof -
  have laws: "\<And>p x w. same blocks w (host_store acl p x w)" "\<And>p x w. same blocks w (snd (aclrtMemcpy_to_device acl p x w))"
    "\<And>p n w. same blocks w (snd (aclrtMemcpy_to_host acl p n w))"
    "\<And>f h info w. ra_register_mr ra = Some f \<Longrightarrow> same blocks w (snd (f h info w))"
    "\<And>f h k w. ra_deregister_mr ra = Some f \<Longrightarrow> same blocks w (snd (f h k w))"
    using assms by (auto simp: session_laws_def memory_laws_def calls_step_def)
  have to: "same blocks w (snd (copy_host_to_device acl rt p x w))" for p x w
    using laws(2) [where p = p and x = x and w = w] by (auto simp: copy_host_to_device_def split: prod.splits)
  have fr: "same blocks w (snd (copy_device_to_host acl rt p n w))" for p n w
    using laws(3) [where p = p and n = n and w = w] by (auto simp: copy_device_to_host_def split: prod.splits)
  show "same blocks w (snd (runtime_copy_to acl rt b x w))" by (simp add: runtime_copy_to_def to laws(1))
  show "same blocks w (snd (runtime_copy_from acl rt b n w))" by (simp add: runtime_copy_from_def fr)
  show st: "same blocks w (snd (store_state acl rt c i st w))" for st by (simp add: store_state_def Let_def to laws(1))
  show "same blocks w (snd (clear_state acl rt c i w))" by (simp add: clear_state_def st)
  show "same blocks w (snd (client_reg_mr ra ep b access w))"
    using laws(4) by (auto simp: client_reg_mr_def split: option.splits prod.splits) (metis snd_conv)+
  show "same blocks w (snd (client_region_reset ra ep region w))"
    using laws(5) by (auto simp: client_region_reset_def client_deregister_def split: option.splits prod.splits) (metis snd_conv)+
qed

lemma restores_slots:
  assumes "session_laws ra dev acl blocks"
  shows "restores blocks (on_storage (allocate_slot acl rt))" and "restores blocks (on_storage (release_slot acl rt i))"
proof -
  note s = session_calls_same [OF assms]
  show "restores blocks (on_storage (allocate_slot acl rt))"
  proof (rule restores_storage)
    fix c w show "same blocks w (snd (snd (allocate_slot acl rt (c, w))))"
      using s(3,4) by (auto simp: allocate_slot_def split: option.splits prod.splits sum.splits) (metis snd_conv)+
  qed
  show "restores blocks (on_storage (release_slot acl rt i))"
  proof (rule restores_storage)
    fix c w show "same blocks w (snd (snd (release_slot acl rt i (c, w))))"
      using s(4) by (auto simp: release_slot_def Let_def split: option.splits prod.splits sum.splits) (metis snd_conv)+
  qed
qed

lemma restores_region:
  assumes "session_laws ra dev acl blocks" and body: "\<And>g. restores blocks (body g)"
  shows "restores blocks (in_region ra rt t b access body)"
  unfolding in_region_def
proof (rule restores_bind)
  note s = session_calls_same [OF assms(1)]
  show "restores blocks (on_storage (\<lambda>(c, w). case storage_register_memory ra rt t c b access w of (r, w) \<Rightarrow> (r, (c, w))))"
  proof (rule restores_storage)
    fix c w
    show "same blocks w (snd (snd (case (c, w) of (c, w) \<Rightarrow> case storage_register_memory ra rt t c b access w of (r, w) \<Rightarrow> (r, (c, w)))))"
      using s(5) by (auto simp: storage_register_memory_def client_register_memory_def rfail_def split: prod.splits if_splits) (metis snd_conv)+
  qed
  show "restores blocks (\<lambda>s. case body g s of None \<Rightarrow> None
      | Some (r, (c, l, w)) \<Rightarrow> Some (r, (c, l, snd (client_region_reset ra (ctp_endpoint t) g w))))" for g
    unfolding restores_def
  proof (intro allI)
    fix c l w
    obtain r c1 l1 w1 where "body g (c, l, w) = Some (r, (c1, l1, w1))" "blocks w1 = blocks w" by (rule restoresE [OF body])
    with s(6) show "\<exists>r c' l' w'. (case body g (c, l, w) of None \<Rightarrow> None
      | Some (r, (c, l, w)) \<Rightarrow> Some (r, (c, l, snd (client_region_reset ra (ctp_endpoint t) g w)))) = Some (r, (c', l', w')) \<and> blocks w' = blocks w"
      by simp
  qed
qed

section \<open>On the AICPU backend\<close>

text \<open>The calls of the AICPU launcher that a session makes return, and leave the device memory as it was.\<close>

lemma aicpu_calls_restore:
  assumes laws: "memory_laws (lh_dev host) (lh_acl host) blocks" "launch_clock (lh_dev host) (lh_acl host) clock"
    "\<And>a. rt_this (lh_runtime host a) \<noteq> 0"
    and p: "se_ops p = aicpu_launcher_ops host"
  shows "restores blocks (on_launcher (\<lambda>c. view_storage_read (session_view p) (d c) i offset address key n))"
    and "restores blocks (on_launcher (\<lambda>c. view_storage_write (session_view p) (d c) i offset address key n))"
    and "restores blocks (on_launcher (\<lambda>c. view_storage_wait (session_view p) (d c) i))"
proof -
  note v = session_view_def with_config_def when_launcher_def p aicpu_launcher_ops_def as_method_def
  have s: "\<exists>r l' w'. as_method (launch_storage host config entry request d i) (l, w) = Some (r, (l', w')) \<and> blocks w' = blocks w"
    for config entry request d l w
    using lstepsD [OF launch_storage_blocks [OF laws(1,3)]] by (auto simp: as_method_def split: prod.splits)
  show "restores blocks (on_launcher (\<lambda>c. view_storage_read (session_view p) (d c) i offset address key n))"
    by (rule restores_launcher) (use s in \<open>simp add: v view_storage_read_def aicpu_storage_read_with_config_def\<close>)
  show "restores blocks (on_launcher (\<lambda>c. view_storage_write (session_view p) (d c) i offset address key n))"
    by (rule restores_launcher) (use s in \<open>simp add: v view_storage_write_def aicpu_storage_write_with_config_def\<close>)
  show "restores blocks (on_launcher (\<lambda>c. view_storage_wait (session_view p) (d c) i))"
    by (rule restores_launcher)
      (use aicpu_wait_keeps [OF laws] in \<open>simp add: session_view_def with_config_def when_launcher_def p aicpu_launcher_ops_def
        view_storage_wait_def when_sync_def session_config_def\<close>)
qed

lemma slot_command_restores:
  assumes laws: "session_laws ra (lh_dev host) (lh_acl host) blocks" "launch_clock (lh_dev host) (lh_acl host) clock"
    "\<And>a. rt_this (lh_runtime host a) \<noteq> 0"
    and p: "se_ops p = aicpu_launcher_ops host" "se_acl p = lh_acl host"
    and submit: "\<And>i. restores blocks (on_launcher (\<lambda>c. submit (stc_storage_descriptor c) i))"
  shows "restores blocks (slot_command p submit)"
proof -
  have m: "memory_laws (lh_dev host) (lh_acl host) blocks" using laws(1) by (simp add: session_laws_def)
  show ?thesis
    unfolding slot_command_def p(2)
    by (intro restores_bind restores_slots [OF laws(1)] submit aicpu_calls_restore(3) [OF m laws(2,3) p(1)])
qed

lemma transfers_restore:
  assumes laws: "session_laws ra (lh_dev host) (lh_acl host) blocks" "launch_clock (lh_dev host) (lh_acl host) clock"
    "\<And>a. rt_this (lh_runtime host a) \<noteq> 0"
    and p: "se_ops p = aicpu_launcher_ops host" "se_acl p = lh_acl host" "se_ra p = ra" "rt_this (se_runtime p) \<noteq> 0"
  shows "restores blocks (read_transfer p n offset)" and "restores blocks (write_transfer p bytes offset)"
proof -
  have m: "memory_laws (lh_dev host) (lh_acl host) blocks" using laws(1) by (simp add: session_laws_def)
  note c = aicpu_calls_restore [OF m laws(2,3) p(1)] and s = session_calls_same [OF laws(1)]
  show "restores blocks (read_transfer p n offset)" and "restores blocks (write_transfer p bytes offset)"
    unfolding read_transfer_def write_transfer_def p(2,3)
    by (intro restores_buffer [OF m p(4)] restores_region [OF laws(1)] restores_bind restores_runtime s
        slot_command_restores [OF laws(1,2) _ p(1,2)] laws(3) c)+
qed

lemma torch_restores:
  assumes "restores blocks m"
  shows "\<exists>r c' l' w'. value_or_throw m (c, l, w) = Some (r, (c', l', w')) \<and> blocks w' = blocks w"
proof -
  obtain r c' l' w' where "m (c, l, w) = Some (r, (c', l', w'))" "blocks w' = blocks w" by (rule restoresE [OF assms])
  then show ?thesis by (cases r) (auto simp: value_or_throw_def)
qed

lemma session_calls_return:
  assumes laws: "session_laws ra (lh_dev host) (lh_acl host) blocks" "launch_clock (lh_dev host) (lh_acl host) clock"
    "\<And>a. rt_this (lh_runtime host a) \<noteq> 0"
    and p: "se_ops p = aicpu_launcher_ops host" "se_acl p = lh_acl host" "se_ra p = ra" "rt_this (se_runtime p) \<noteq> 0"
  shows "\<exists>r c' l' w'. session_read p tensor offset (c, l, w) = Some (r, (c', l', w')) \<and> blocks w' = blocks w"
    and "\<exists>r c' l' w'. session_write p tensor offset (c, l, w) = Some (r, (c', l', w')) \<and> blocks w' = blocks w"
  using torch_restores [OF transfers_restore(1) [OF assms]] torch_restores [OF transfers_restore(2) [OF assms]]
  by (auto simp: session_read_def session_write_def split: option.splits)

section \<open>Properties\<close>

text \<open>C28: a session on the AICPU backend always comes back from a read or a write, whatever fails on the way, and device
  memory is as before: the buffer of the call is freed on every path. The slots of the storage client stay
  well formed; a call that succeeds leaves exactly the slots held that were held before, and one that throws leaves at most
  one more slot held.\<close>

theorem session_transfers_balanced:
  assumes "session_laws (se_ra p) (lh_dev host) (lh_acl host) blocks" and "launch_clock (lh_dev host) (lh_acl host) clock"
    and "\<And>a. rt_this (lh_runtime host a) \<noteq> 0"
    and "se_ops p = aicpu_launcher_ops host" and "se_acl p = lh_acl host" and "rt_this (se_runtime p) \<noteq> 0" and "slots_wf c"
  shows "(\<exists>r c' l' w'. session_read p tensor offset (c, l, w) = Some (r, (c', l', w')) \<and> blocks w' = blocks w
      \<and> transfer_effect c (r \<in> range Inr) c')
    \<and> (\<exists>r c' l' w'. session_write p tensor offset (c, l, w) = Some (r, (c', l', w')) \<and> blocks w' = blocks w
      \<and> transfer_effect c (r \<in> range Inr) c')"
  using session_calls_return [OF assms(1-5) refl assms(6)] session_effect [OF assms(7)] by meson

definition counted_session :: "(DeviceLauncher, nat \<times> (u64 \<Rightarrow> nat)) SessionParts" where
  "counted_session = \<lparr>se_ra = sample_ra, se_acl = lh_acl counted_host, se_runtime = sample_runtime, se_transport = sample_storage_transport,
     se_ops = aicpu_launcher_ops counted_host, se_stream = 1\<rparr>"

definition sample_tensor :: Tensor where
  "sample_tensor = \<lparr>tn_is_cpu = True, tn_is_contiguous = True, tn_bytes = [1, 2, 3]\<rparr>"

lemma counted_session_laws: "session_laws (se_ra counted_session) (lh_dev counted_host) (lh_acl counted_host) snd"
  using counted_laws(1) by (auto simp: session_laws_def counted_session_def sample_ra_def counted_host_def sample_acl_def)

lemma sample_slots: "slots_wf sample_storage_client" "client_held sample_storage_client = {}"
  using storage_client_open_wf [OF sample_storage_opens]
  by (simp_all add: storage_client_wf_def client_held_def empty_storage_client_def)

theorem session_transfers_balanced_witness:
  "(\<exists>r c' l' w'. session_read counted_session sample_tensor 8 (sample_storage_client, loaded_launcher, (0, \<lambda>_. 0)) = Some (r, (c', l', w'))
      \<and> snd w' = snd (0 :: nat, \<lambda>_. 0) \<and> transfer_effect sample_storage_client (r \<in> range Inr) c')
    \<and> (\<exists>r c' l' w'. session_write counted_session sample_tensor 8 (sample_storage_client, loaded_launcher, (0, \<lambda>_. 0)) = Some (r, (c', l', w'))
      \<and> snd w' = snd (0 :: nat, \<lambda>_. 0) \<and> transfer_effect sample_storage_client (r \<in> range Inr) c')"
  by (rule session_transfers_balanced [OF counted_session_laws counted_laws(2,3) _ _ _ sample_slots(1)])
    (simp_all add: counted_session_def sample_runtime_def)

text \<open>C37: a session loses the slot of a command that fails. When a slot was granted and the launcher then reports an error for
  the submission or for the wait, the exception leaves the call with the slot still held; no
  handler gives it back, and the session has no operation that does.\<close>

theorem session_failure_keeps_slot:
  assumes "slots_wf c" and "allocate_slot (se_acl p) (se_runtime p) (c, w) = (Inr i, (c1, w1))"
    and "pbind (submit (stc_storage_descriptor c1) i) (\<lambda>_. view_storage_wait (session_view p) (stc_storage_descriptor c1) i) (l, w1)
      = Some (Inl e, (l', w'))"
  shows "slot_command p submit (c, l, w) = Some (Inl e, (c1, l', w')) \<and> i \<notin> client_held c \<and> client_held c1 = insert i (client_held c)"
proof
  show "slot_command p submit (c, l, w) = Some (Inl e, (c1, l', w'))"
    using assms(2,3) by (auto simp: slot_command_def on_storage_def on_launcher_def pbind_def split: option.splits prod.splits sum.splits)
  show "i \<notin> client_held c \<and> client_held c1 = insert i (client_held c)"
    using allocated(4) [OF assms(1,2) refl] by simp
qed

text \<open>A launcher without a runtime, as after a move, refuses the submission.\<close>

lemma sample_fields:
  "stc_opened sample_storage_client" "stc_transport sample_storage_client" "stc_next_slot sample_storage_client = 0"
  "stc_slots sample_storage_client = map (slot_resources 1) [0..<16]" "stc_allocated_slots sample_storage_client = replicate 16 False"
  "stc_storage_states_buffer sample_storage_client = sample_block 0x18f0 384" "stc_runtime sample_storage_client = 0x40"
  by (simp_all add: sample_storage_client_def finish_open_def Let_def sample_with_tables_def sample_with_memory_def empty_storage_client_def
      del: upt_Suc)

lemma refused_submission:
  "pbind (view_storage_write (session_view counted_session) d i 8 0x1000 4 3)
     (\<lambda>_. view_storage_wait (session_view counted_session) d i) (loaded_launcher\<lparr>dln_runtime := 0\<rparr>, w) =
     Some (Inl kRuntime, (loaded_launcher\<lparr>dln_runtime := 0\<rparr>, w))"
  by (simp add: pbind_def view_storage_write_def session_view_def with_config_def when_launcher_def counted_session_def
      aicpu_launcher_ops_def as_method_def aicpu_storage_write_with_config_def launch_storage_def drop_status_def)

lemma sample_allocates:
  "allocate_slot (se_acl counted_session) (se_runtime counted_session) (sample_storage_client, w) =
     (Inr 0, (snd (take_slot sample_storage_client 0), w))"
proof -
  have "slot_order 0 16 = 0 # map (\<lambda>attempt. attempt mod 16) [1..<16]"
    by (simp add: slot_order_def upt_conv_Cons)
  then have find: "find_slot sample_storage_client (\<lambda>_. True) = Some 0"
    by (simp add: find_slot_def sample_fields)
  let ?c = "snd (take_slot sample_storage_client 0)"
  have c: "stc_slots ?c = map (slot_resources 1) [0..<16]" "stc_storage_states_buffer ?c = sample_block 0x18f0 384" "stc_runtime ?c = 0x40"
    by (simp_all add: take_slot_def sample_fields split: prod.split)
  then have store: "store_state (se_acl counted_session) (se_runtime counted_session) ?c 0 x v = (Inr (), v)" for x v
    by (simp add: store_state_def Let_def sample_block_def copy_host_to_device_def counted_session_def counted_host_def
        sample_acl_def sample_runtime_def)
  have "nds_storage_slot_id (sr_qp_index (stc_slots ?c ! 0)) (of_nat 0) = 0"
    by (simp add: c slot_resources_def nds_storage_slot_id_def)
  then show ?thesis
    by (simp add: allocate_slot_def sample_fields find clear_state_def c store case_prod_beta)
qed

theorem session_failure_keeps_slot_witness:
  "slot_command counted_session (\<lambda>d i. view_storage_write (session_view counted_session) d i 8 0x1000 4 3)
     (sample_storage_client, loaded_launcher\<lparr>dln_runtime := 0\<rparr>, (0, \<lambda>_. 0)) =
     Some (Inl kRuntime, (snd (take_slot sample_storage_client 0), loaded_launcher\<lparr>dln_runtime := 0\<rparr>, (0, \<lambda>_. 0)))
   \<and> 0 \<notin> client_held sample_storage_client \<and> client_held (snd (take_slot sample_storage_client 0)) = insert 0 (client_held sample_storage_client)"
  by (rule session_failure_keeps_slot [where p = counted_session, OF sample_slots(1)]) (rule sample_allocates refused_submission)+

end
