(* ===== verification/Logging.thy ===== *)
theory Logging
  imports Prelude
begin

text \<open>
  The named loggers of \<^verbatim>\<open>src/src/common/logging.cc\<close>: a registry from names to loggers, filled by the
  application or on first use. The library behind it, spdlog, is a parameter: a sink is what its constructor
  makes, and a constructor may throw. Memory is never exhausted. The lock of the registry makes each function
  one step.
\<close>

section \<open>Loggers\<close>

datatype Level = LevelTrace | LevelDebug | LevelInfo | LevelWarn | LevelErr | LevelCritical | LevelOff

datatype SinkKind = StderrColorSink | StdoutColorSink | SyslogSink string | NullSink

text \<open>\<open>'k\<close> are spdlog's sinks; \<open>None\<close> is the default pattern.\<close>

record 'k Logger =
  lg_name :: string
  lg_sink :: 'k
  lg_level :: Level
  lg_pattern :: "string option"

type_synonym 'k registry = "string \<rightharpoonup> 'k Logger"

text \<open>What is used of spdlog: the null sink, and the constructors of the others, which throw with \<open>None\<close>.\<close>

record ('k, 'w) spdlog =
  spd_null_sink :: 'k
  spd_make_sink :: "SinkKind \<Rightarrow> 'w \<Rightarrow> 'k option \<times> 'w"

definition null_logger :: "('k, 'w) spdlog \<Rightarrow> string \<Rightarrow> 'k Logger" where
  "null_logger spd name = \<lparr>lg_name = name, lg_sink = spd_null_sink spd, lg_level = LevelOff, lg_pattern = None\<rparr>"

text \<open>The output is a pointer, \<open>None\<close> when it is null.\<close>

definition parse_level :: "string \<Rightarrow> Level option \<Rightarrow> bool \<times> Level option" where
  "parse_level name level =
     (if level = None then (False, level)
      else if name = ''trace'' then (True, Some LevelTrace)
      else if name = ''debug'' then (True, Some LevelDebug)
      else if name = ''info'' then (True, Some LevelInfo)
      else if name = ''warn'' then (True, Some LevelWarn)
      else if name = ''error'' then (True, Some LevelErr)
      else if name = ''critical'' then (True, Some LevelCritical)
      else if name = ''off'' then (True, Some LevelOff)
      else (False, level))"

section \<open>The registry\<close>

definition set_logger :: "('k, 'w) spdlog \<Rightarrow> string \<Rightarrow> 'k Logger option \<Rightarrow> 'k registry \<Rightarrow> 'k registry" where
  "set_logger spd name logger registry = registry(name \<mapsto> (case logger of None \<Rightarrow> null_logger spd name | Some l \<Rightarrow> l))"

definition logger :: "('k, 'w) spdlog \<Rightarrow> string \<Rightarrow> 'k registry \<Rightarrow> 'k Logger \<times> 'k registry" where
  "logger spd name registry =
     (case registry name of
        Some l \<Rightarrow> (l, registry)
      | None \<Rightarrow> (let l = null_logger spd name in (l, registry(name \<mapsto> l))))"

definition sink_kind :: "string \<Rightarrow> string \<Rightarrow> SinkKind option" where
  "sink_kind name sink_name =
     (if sink_name = ''stderr'' then Some StderrColorSink
      else if sink_name = ''stdout'' then Some StdoutColorSink
      else if sink_name = ''syslog'' then Some (SyslogSink name)
      else if sink_name = ''none'' then Some NullSink
      else None)"

definition log_pattern :: string where
  "log_pattern = ''%Y-%m-%dT%H:%M:%S.%e%z [%n] [%^%l%$] %v''"

text \<open>The level that is not set before it is parsed is never read: any value stands for it.\<close>

definition configure :: "('k, 'w) spdlog \<Rightarrow> string \<Rightarrow> string \<Rightarrow> string \<Rightarrow> ('k registry \<times> 'w, unit) comp" where
  "configure spd name sink_name level_name = (\<lambda>(registry, w).
     case sink_kind name sink_name of
       None \<Rightarrow> (Inl kInvalidArgument, (registry, w))
     | Some kind \<Rightarrow>
         (case spd_make_sink spd kind w of
            (None, w) \<Rightarrow> (Inl kRuntime, (registry, w))
          | (Some sink, w) \<Rightarrow>
              (case parse_level level_name (Some LevelOff) of
                 (True, Some level) \<Rightarrow>
                   (Inr (), (set_logger spd name
                     (Some \<lparr>lg_name = name, lg_sink = sink, lg_level = level, lg_pattern = Some log_pattern\<rparr>) registry, w))
               | _ \<Rightarrow> (Inl kInvalidArgument, (registry, w)))))"

section \<open>Facts\<close>

text \<open>A lookup after a change; the first lookup of a name settles its logger for good.\<close>

lemma logger_after_set:
  "logger spd name (set_logger spd name l registry) =
     ((case l of None \<Rightarrow> null_logger spd name | Some l \<Rightarrow> l), set_logger spd name l registry)"
  "name' \<noteq> name \<Longrightarrow> fst (logger spd name' (set_logger spd name l registry)) = fst (logger spd name' registry)"
  by (auto simp: logger_def set_logger_def Let_def split: option.splits)

lemma logger_settled: "logger spd name (snd (logger spd name registry)) = logger spd name registry"
  by (auto simp: logger_def Let_def split: option.splits)

lemma logger_keeps_others: "name' \<noteq> name \<Longrightarrow> snd (logger spd name registry) name' = registry name'"
  by (auto simp: logger_def Let_def split: option.splits)

lemma parse_level_known:
  "fst (parse_level name (Some l)) \<longleftrightarrow> name \<in> {''trace'', ''debug'', ''info'', ''warn'', ''error'', ''critical'', ''off''}"
  by (auto simp: parse_level_def)

lemma parse_level_sets: "parse_level name (Some l) \<noteq> (True, None)"
  by (simp add: parse_level_def)

text \<open>
  A configuration installs its logger or changes nothing. It fails exactly when the sink or the level has no known name, or
  when the constructor of the sink throws; afterwards the logger of that name has the requested
  sink, level and the common pattern, and every other name is as before.
\<close>

theorem configure_all_or_nothing:
  "case configure spd name sink_name level_name (registry, w) of
     (Inl e, (registry', w')) \<Rightarrow> registry' = registry \<and>
       (sink_kind name sink_name = None \<or> (\<exists>kind. sink_kind name sink_name = Some kind \<and>
          (fst (spd_make_sink spd kind w) = None \<or> \<not> fst (parse_level level_name (Some LevelOff)))))
   | (Inr _, (registry', w')) \<Rightarrow>
       (\<exists>kind sink level. sink_kind name sink_name = Some kind \<and> spd_make_sink spd kind w = (Some sink, w')
          \<and> parse_level level_name (Some LevelOff) = (True, Some level)
          \<and> fst (logger spd name registry') = \<lparr>lg_name = name, lg_sink = sink, lg_level = level, lg_pattern = Some log_pattern\<rparr>)
       \<and> (\<forall>other. other \<noteq> name \<longrightarrow> registry' other = registry other)"
  by (auto simp: configure_def logger_after_set set_logger_def split: option.splits prod.splits bool.splits)
    (auto simp: logger_def parse_level_sets)

end
