(* ===== verification/Storage_Benchmark.thy ===== *)
theory Storage_Benchmark
  imports Torch_Session Logging
begin

text \<open>
  The throughput benchmark of the storage client, \<^verbatim>\<open>src/benchmarks/storage_client.cc\<close>: the layout of its working
  set, the batch entries of each queue pair, and the windows of commands it runs. The
  command line parser is a parameter, with the outcome of parsing as its result; the measured numbers are
  returned instead of printed.
\<close>

section \<open>Configuration\<close>

definition kTransferBytes :: u32 where "kTransferBytes = 256 * 1024"
definition kBatchEntries :: u32 where "kBatchEntries = 8"
definition kLaunchTimeoutMs :: i32 where "kLaunchTimeoutMs = 30000"

record BenchmarkConfig =
  bmc_runtime :: RuntimeConfig
  bmc_transport :: ClientTransportConfig
  bmc_mode :: BackendMode
  bmc_artifact :: string
  bmc_operation :: string
  bmc_warmup_windows :: u32
  bmc_measured_windows :: u32
  bmc_log_sink :: string
  bmc_log_level :: string

text \<open>The defaults before the command line is parsed.\<close>

definition default_benchmark_config :: BenchmarkConfig where
  "default_benchmark_config =
     \<lparr>bmc_runtime = default_runtime_config, bmc_transport = (default_transport_config [])\<lparr>ctc_qp_count := 16\<rparr>, bmc_mode = ModeRa,
      bmc_artifact = [], bmc_operation = ''write'', bmc_warmup_windows = 2, bmc_measured_windows = 100,
      bmc_log_sink = ''stderr'', bmc_log_level = ''info''\<rparr>"

text \<open>The flag for an exit is set by a request for help only; the pointer to it is never null.\<close>

definition benchmark_parse_args :: "(BenchmarkConfig \<Rightarrow> string \<Rightarrow> BenchmarkConfig CliOutcome) \<Rightarrow> (BenchmarkConfig \<times> bool) result" where
  "benchmark_parse_args cli =
     (case cli default_benchmark_config ''ra'' of
        CliHelp _ \<Rightarrow> Inr (default_benchmark_config, True)
      | CliError _ \<Rightarrow> Inl kInvalidArgument
      | CliParsed config backend \<Rightarrow>
          (let config = config\<lparr>bmc_mode := (if backend = ''aicpu'' then ModeAicpu
                                           else if backend = ''aiv'' then ModeAiv else ModeRa)\<rparr>
           in if bmc_artifact config = [] then Inl kInvalidArgument else Inr (config, False)))"

section \<open>A window\<close>

record QueueResources =
  qr_buffer :: MemoryBuffer
  qr_region :: ClientRegion
  qr_entries :: MemoryBuffer
  qr_entries_region :: ClientRegion

record SlotWork =
  sw_slot_id :: u32
  sw_entries_address :: u64
  sw_entries_key :: u32
  sw_entry_count :: u32

definition benchmark_config :: "u64 \<Rightarrow> bool \<Rightarrow> LaunchConfig" where
  "benchmark_config stream sync = default_launch_config\<lparr>lc_stream := stream, lc_sync := sync, lc_sync_timeout_ms := kLaunchTimeoutMs\<rparr>"

definition benchmark_submit :: "'s LauncherOps option \<Rightarrow> NdsStorageDescriptor \<Rightarrow> SlotWork \<Rightarrow> bool \<Rightarrow> u64 \<Rightarrow> ('s, unit) pcomp" where
  "benchmark_submit launcher storage work read stream =
     (case launcher of
        None \<Rightarrow> pfail kInvalidArgument
      | Some ops \<Rightarrow>
          (let v = with_config ops (benchmark_config stream False)
           in if read
              then view_storage_read_batch v storage (sw_slot_id work) (sw_entries_address work) (sw_entries_key work) (sw_entry_count work)
              else view_storage_write_batch v storage (sw_slot_id work) (sw_entries_address work) (sw_entries_key work) (sw_entry_count work)))"

text \<open>The work of a slot, or nothing when the slot is not where the benchmark expects it.\<close>

definition slot_work :: "QueueResources list \<Rightarrow> u64 \<Rightarrow> u32 \<Rightarrow> SlotWork result" where
  "slot_work queues slots_per_qp slot_id =
     (let queue_index = unat (nds_storage_slot_id_queue slot_id); slot_index = unat (nds_storage_slot_id_index slot_id) in
      if queue_index \<ge> length queues \<or> slot_index mod length queues \<noteq> queue_index \<or> slot_index div length queues \<ge> unat slots_per_qp
      then Inl kProtocol
      else
        (let entries_offset = of_nat (slot_index div length queues) * ucast kBatchEntries * ucast kStorageBatchEntryBytes;
             info = crg_info (qr_entries_region (queues ! queue_index))
         in Inr \<lparr>sw_slot_id = slot_id, sw_entries_address = mi_address info + entries_offset, sw_entries_key = mi_remote_key info,
                 sw_entry_count = kBatchEntries\<rparr>))"

definition allocate_work :: "'w cann \<Rightarrow> Runtime \<Rightarrow> QueueResources list \<Rightarrow> u64 \<Rightarrow> (StorageClient \<times> 'w, SlotWork) comp" where
  "allocate_work acl rt queues slots_per_qp =
     rbind (allocate_slot acl rt) (\<lambda>slot_id s. (slot_work queues slots_per_qp slot_id, s))"

text \<open>The client and the launcher are pointers of the caller; \<open>client\<close> tells whether the first is set.\<close>

definition run_window :: "'w cann \<Rightarrow> Runtime \<Rightarrow> bool \<Rightarrow> ('l \<times> 'w) LauncherOps option \<Rightarrow> QueueResources list \<Rightarrow> u64 \<Rightarrow> bool \<Rightarrow> u64 \<Rightarrow>
    (('l, 'w) session_state, unit) pcomp" where
  "run_window acl rt client launcher queues slots_per_qp read stream =
     (if \<not> client \<or> launcher = None \<or> queues = [] \<or> slots_per_qp = 0 then pfail kInvalidArgument
      else
        pbind (on_storage (rcollect [0..<unat (of_nat (length queues) * slots_per_qp)]
                 (\<lambda>_. allocate_work acl rt queues slots_per_qp))) (\<lambda>work.
        pbind (pfor work (\<lambda>request. on_launcher (\<lambda>c. benchmark_submit launcher (stc_storage_descriptor c) request read stream))) (\<lambda>_.
        pfor work (\<lambda>request.
          pbind (on_launcher (\<lambda>c.
                   view_storage_wait (with_config (the launcher) (benchmark_config stream True)) (stc_storage_descriptor c)
                     (sw_slot_id request))) (\<lambda>_.
          on_storage (release_slot acl rt (sw_slot_id request)))))))"

section \<open>The working set\<close>

record BenchmarkLayout =
  bl_slots_per_qp :: u64
  bl_transfers_per_qp :: u64
  bl_buffer_bytes :: u64
  bl_entries_bytes :: u64
  bl_required_namespace :: u64

text \<open>The limits of the guards divide the largest \<open>size_t\<close>.\<close>

definition benchmark_layout :: "u64 \<Rightarrow> u64 \<Rightarrow> u64 \<Rightarrow> BenchmarkLayout result" where
  "benchmark_layout qp_count slot_count capacity =
     (if qp_count = 0 \<or> slot_count mod qp_count \<noteq> 0 then Inl kTransport
      else
        (let slots_per_qp = slot_count div qp_count in
         if slots_per_qp = 0 \<or> slots_per_qp > UINT64_MAX div ucast kBatchEntries
           \<or> slots_per_qp * ucast kBatchEntries > UINT64_MAX div ucast kTransferBytes
           \<or> slots_per_qp * ucast kBatchEntries > UINT64_MAX div ucast kStorageBatchEntryBytes
         then Inl kInvalidArgument
         else
           (let transfers_per_qp = slots_per_qp * ucast kBatchEntries;
                required_namespace = qp_count * transfers_per_qp * ucast kTransferBytes
            in if required_namespace > capacity then Inl kProtocol
               else Inr \<lparr>bl_slots_per_qp = slots_per_qp, bl_transfers_per_qp = transfers_per_qp,
                         bl_buffer_bytes = transfers_per_qp * ucast kTransferBytes,
                         bl_entries_bytes = transfers_per_qp * ucast kStorageBatchEntryBytes,
                         bl_required_namespace = required_namespace\<rparr>)))"

definition entry_offset :: "BenchmarkLayout \<Rightarrow> nat \<Rightarrow> nat \<Rightarrow> u64" where
  "entry_offset layout queue_index transfer_index =
     (of_nat queue_index * bl_transfers_per_qp layout + of_nat transfer_index) * ucast kTransferBytes"

definition entry_memory :: "ClientRegion \<Rightarrow> nat \<Rightarrow> StorageMemory" where
  "entry_memory region transfer_index =
     \<lparr>m_address = mi_address (crg_info region) + of_nat transfer_index * ucast kTransferBytes, m_length = ucast kTransferBytes,
      m_remote_key = mi_remote_key (crg_info region)\<rparr>"

text \<open>The bytes of one entry; each of them is written to its place of the array of zeros.\<close>

definition encode_entry :: "BenchmarkLayout \<Rightarrow> nat \<Rightarrow> ClientRegion \<Rightarrow> bool \<Rightarrow> nat \<Rightarrow> u8 list result" where
  "encode_entry layout queue_index region read transfer_index =
     (let offset = entry_offset layout queue_index transfer_index; memory = entry_memory region transfer_index;
          bytes = Some (replicate 40 0);
          serialized = (if read
            then serialize_storage_batch_read_entry \<lparr>bre_offset = offset, bre_length = ucast kTransferBytes, bre_data = memory\<rparr>
                   bytes kStorageBatchEntryBytes
            else serialize_storage_batch_write_entry \<lparr>bwe_offset = offset, bwe_length = ucast kTransferBytes, bwe_data = memory\<rparr>
                   bytes kStorageBatchEntryBytes)
      in case serialized of (SerdeOk, Some bytes) \<Rightarrow> Inr bytes | _ \<Rightarrow> Inl kProtocol)"

definition encode_entries :: "BenchmarkLayout \<Rightarrow> nat \<Rightarrow> ClientRegion \<Rightarrow> bool \<Rightarrow> u8 list result" where
  "encode_entries layout queue_index region read =
     (case rcollect [0..<unat (bl_transfers_per_qp layout)] (\<lambda>i s. (encode_entry layout queue_index region read i, s)) () of
        (Inl e, _) \<Rightarrow> Inl e
      | (Inr chunks, _) \<Rightarrow> Inr (concat chunks))"

section \<open>Setting up the queues\<close>

record 'l BenchmarkState = "'l Session" +
  bms_queues :: "QueueResources list"

definition empty_queue :: QueueResources where
  "empty_queue = \<lparr>qr_buffer = empty_buffer, qr_region = empty_client_region, qr_entries = empty_buffer, qr_entries_region = empty_client_region\<rparr>"

definition with_queue :: "nat \<Rightarrow> ('l BenchmarkState \<Rightarrow> QueueResources \<Rightarrow> ('w, 'a) comp) \<Rightarrow> ('a \<Rightarrow> QueueResources \<Rightarrow> QueueResources) \<Rightarrow>
    ('l BenchmarkState \<times> 'w, unit) comp" where
  "with_queue = with_element bms_queues (\<lambda>qs s. s\<lparr>bms_queues := qs\<rparr>)"

definition setup_queue :: "('a, 'l, 'w) session_host \<Rightarrow> BenchmarkLayout \<Rightarrow> bool \<Rightarrow> nat \<Rightarrow> ('l BenchmarkState \<times> 'w, unit) comp" where
  "setup_queue h layout read i =
     (let allocate = (\<lambda>n s (_ :: QueueResources). runtime_allocate (sh_acl h) (ses_runtime s) n LocDevice);
          register = (\<lambda>s. storage_register_memory (sh_ra h) (ses_runtime s) (ses_transport s) (ses_storage s));
          copy_to = (\<lambda>s. runtime_copy_to (sh_acl h) (ses_runtime s))
      in rbind (with_queue i (allocate (bl_buffer_bytes layout)) (\<lambda>b q. q\<lparr>qr_buffer := b\<rparr>)) (\<lambda>_.
         rbind (with_queue i (\<lambda>s q. register s (qr_buffer q) LocalWrite_RemoteWrite_RemoteRead) (\<lambda>g q. q\<lparr>qr_region := g\<rparr>)) (\<lambda>_.
         rbind (if read then rret ()
                else with_queue i (\<lambda>s q. copy_to s (qr_buffer q) (HBytes (replicate (unat (bl_buffer_bytes layout)) 0x5a))) (\<lambda>_ q. q)) (\<lambda>_.
         rbind (with_queue i (allocate (bl_entries_bytes layout)) (\<lambda>b q. q\<lparr>qr_entries := b\<rparr>)) (\<lambda>_.
         rbind (with_queue i (\<lambda>s q. register s (qr_entries q) LocalWrite_RemoteRead) (\<lambda>g q. q\<lparr>qr_entries_region := g\<rparr>)) (\<lambda>_.
         with_queue i (\<lambda>s q w.
           case encode_entries layout i (qr_region q) read of
             Inl e \<Rightarrow> (Inl e, w)
           | Inr bytes \<Rightarrow> copy_to s (qr_entries q) (HBytes bytes) w) (\<lambda>_ q. q)))))))"

text \<open>The members of a queue are destroyed from the last to the first.\<close>

definition destroy_queue :: "('a, 'l, 'w) session_host \<Rightarrow> 'l BenchmarkState \<Rightarrow> QueueResources \<Rightarrow> 'w \<Rightarrow> 'w" where
  "destroy_queue h s q w =
     (let region = (\<lambda>g w. snd (client_region_reset (sh_ra h) (ctp_endpoint (ses_transport s)) g w));
          buffer = (\<lambda>b w. snd (buffer_reset (sh_acl h) (ses_runtime s) b w));
          w = region (qr_entries_region q) w; w = buffer (qr_entries q) w; w = region (qr_region q) w
      in buffer (qr_buffer q) w)"

section \<open>The program\<close>

definition benchmark_stream :: "('a, 'l, 'w) session_host \<Rightarrow> BackendMode \<Rightarrow> (('l, 'x) Session_scheme \<times> 'w, unit) pcomp" where
  "benchmark_stream h mode = (\<lambda>(s, w).
     if mode = ModeRa then Some (Inr (), (s, w))
     else case aclrtCreateStream (sh_dev h) w of
       ((result, stream), w) \<Rightarrow>
         if result \<noteq> 0 \<or> stream = 0 then Some (Inl kRuntime, (s, w)) else Some (Inr (), (s\<lparr>ses_stream := stream\<rparr>, w)))"

text \<open>A window on the objects of the program; the launcher is set.\<close>

definition benchmark_window :: "('a, 'l, 'w) session_host \<Rightarrow> BenchmarkLayout \<Rightarrow> bool \<Rightarrow> ('l BenchmarkState \<times> 'w, unit) pcomp" where
  "benchmark_window h layout read = (\<lambda>(s, w).
     case run_window (sh_acl h) (ses_runtime s) True (Some (bk_ops (sh_backend h))) (bms_queues s) (bl_slots_per_qp layout) read
            (ses_stream s) (ses_storage s, the (ses_launcher s), w) of
       None \<Rightarrow> None
     | Some (r, (c, l, w)) \<Rightarrow> Some (r, (s\<lparr>ses_storage := c, ses_launcher := Some l\<rparr>, w)))"

text \<open>The measured numbers: bytes, commands and the two readings of the clock.\<close>

definition benchmark_measure :: "('a, 'l, 'w) session_host \<Rightarrow> BenchmarkConfig \<Rightarrow> BenchmarkLayout \<Rightarrow> ('l BenchmarkState \<times> 'w, u64 \<times> u64 \<times> nat \<times> nat) pcomp" where
  "benchmark_measure h config layout =
     (let read = (bmc_operation config = ''read''); now = (\<lambda>(s, w). case client_now (sh_acl h) w of (t, w) \<Rightarrow> Some (Inr t, (s, w)))
      in pbind (pfor [0..<unat (bmc_warmup_windows config)] (\<lambda>_. benchmark_window h layout read)) (\<lambda>_.
         pbind now (\<lambda>start.
         pbind (pfor [0..<unat (bmc_measured_windows config)] (\<lambda>_. benchmark_window h layout read)) (\<lambda>_.
         pbind now (\<lambda>stop (s, w).
           Some (Inr (ucast (bmc_measured_windows config) * bl_required_namespace layout,
                      ucast (bmc_measured_windows config) * of_nat (length (stc_slots (ses_storage s))), start, stop), (s, w)))))))"

definition benchmark_body :: "('a, 'l, 'w) session_host \<Rightarrow> BenchmarkConfig \<Rightarrow> ('l BenchmarkState \<times> 'w, u64 \<times> u64 \<times> nat \<times> nat) pcomp" where
  "benchmark_body h config =
     pbind (open_runtime_part h (bmc_runtime config)) (\<lambda>_.
     pbind (open_transport_part h (bmc_transport config) (bmc_mode config)) (\<lambda>_.
     pbind (open_storage_part h) (\<lambda>_.
     pbind (open_launcher_part h (bmc_mode config) (bmc_artifact config)) (\<lambda>_.
     pbind (benchmark_stream h (bmc_mode config)) (\<lambda>_.
     pbind (bootstrap_part h (benchmark_config 0 True)) (\<lambda>_.
     pbind (complete_bootstrap_part h 30000) (\<lambda>_ (s, w).
       case benchmark_layout (of_nat (client_qp_count (ses_transport s))) (of_nat (length (stc_slots (ses_storage s))))
              (stc_capacity (ses_storage s)) of
         Inl e \<Rightarrow> Some (Inl e, (s, w))
       | Inr layout \<Rightarrow>
           pbind (plift (rfor [0..<client_qp_count (ses_transport s)] (setup_queue h layout (bmc_operation config = ''read'')))) (\<lambda>_.
           benchmark_measure h config layout)
             (s\<lparr>bms_queues := replicate (client_qp_count (ses_transport s)) empty_queue\<rparr>, w))))))))"

text \<open>The body in its scope: every object is destroyed on the way out, the queues first.\<close>

definition benchmark_run :: "('k, 'w) spdlog \<Rightarrow> ('a, 'l, 'w) session_host \<Rightarrow> (BenchmarkConfig \<Rightarrow> string \<Rightarrow> BenchmarkConfig CliOutcome) \<Rightarrow>
    ('k registry \<times> 'w, (u64 \<times> u64 \<times> nat \<times> nat) option) pcomp" where
  "benchmark_run spd h cli rw =
     (case configure spd ''storage-benchmark'' ''stderr'' ''info'' rw of
        (_, rw) \<Rightarrow>
          (case benchmark_parse_args cli of
             Inl e \<Rightarrow> Some (Inl e, rw)
           | Inr (_, True) \<Rightarrow> Some (Inr None, rw)
           | Inr (config, False) \<Rightarrow>
               (case configure spd ''storage-benchmark'' (bmc_log_sink config) (bmc_log_level config) rw of
                  (Inl e, rw) \<Rightarrow> Some (Inl e, rw)
                | (Inr _, (registry, w)) \<Rightarrow>
                    (case benchmark_body h config (Session.extend (new_session h) (BenchmarkState.fields []), w) of
                       None \<Rightarrow> None
                     | Some (r, (s, w)) \<Rightarrow>
                         Some (map_sum id Some r, (registry, session_destroy h s (fold (destroy_queue h s) (bms_queues s) w)))))))"

text \<open>An error is written to the logger of the program, which is looked up for it.\<close>

definition benchmark_main :: "('k, 'w) spdlog \<Rightarrow> ('a, 'l, 'w) session_host \<Rightarrow> (BenchmarkConfig \<Rightarrow> string \<Rightarrow> BenchmarkConfig CliOutcome) \<Rightarrow>
    'k registry \<times> 'w \<Rightarrow> (int \<times> 'k registry \<times> 'w) option" where
  "benchmark_main spd h cli rw =
     (case benchmark_run spd h cli rw of
        None \<Rightarrow> None
      | Some (Inl _, (registry, w)) \<Rightarrow> Some (1, (snd (logger spd ''storage-benchmark'' registry), w))
      | Some (Inr _, rw) \<Rightarrow> Some (0, rw))"

section \<open>The layout\<close>

lemma benchmark_constants [simp]:
  "(ucast kTransferBytes :: u64) = of_nat (2 ^ 18)" "(ucast kBatchEntries :: u64) = of_nat 8" "(ucast kStorageBatchEntryBytes :: u64) = of_nat 40"
  by (simp_all add: kTransferBytes_def kBatchEntries_def kStorageBatchEntryBytes_def)

text \<open>The numbers of an accepted layout, without wrap-around.\<close>

lemma benchmark_layout_numbers:
  assumes l: "benchmark_layout qp_count slot_count capacity = Inr layout" and n: "unat slot_count < 2 ^ 16"
  shows "0 < unat qp_count" and "unat (bl_slots_per_qp layout) * unat qp_count = unat slot_count"
    and "unat (bl_transfers_per_qp layout) = 8 * unat (bl_slots_per_qp layout)"
    and "unat (bl_buffer_bytes layout) = unat (bl_transfers_per_qp layout) * 2 ^ 18"
    and "unat (bl_entries_bytes layout) = unat (bl_transfers_per_qp layout) * 40"
    and "unat (bl_required_namespace layout) = unat qp_count * unat (bl_transfers_per_qp layout) * 2 ^ 18"
    and "unat (bl_required_namespace layout) \<le> unat capacity" and "0 < unat (bl_slots_per_qp layout)"
    and "unat qp_count * unat (bl_transfers_per_qp layout) < 2 ^ 19"
proof -
  let ?s = "slot_count div qp_count"
  from l have q: "qp_count \<noteq> 0" "slot_count mod qp_count = 0" "?s \<noteq> 0"
    and f: "bl_slots_per_qp layout = ?s" "bl_transfers_per_qp layout = ?s * of_nat 8"
      "bl_buffer_bytes layout = ?s * of_nat 8 * of_nat (2 ^ 18)" "bl_entries_bytes layout = ?s * of_nat 8 * of_nat 40"
      "bl_required_namespace layout = qp_count * (?s * of_nat 8) * of_nat (2 ^ 18)"
    and cap: "bl_required_namespace layout \<le> capacity"
    by (auto simp: benchmark_layout_def Let_def split: if_splits)
  show pos: "0 < unat qp_count" using q(1) by (simp add: unat_gt_0)
  have "unat slot_count mod unat qp_count = 0" using q(2) by (simp flip: unat_mod)
  then have s: "unat ?s * unat qp_count = unat slot_count" by (simp add: unat_div mult.commute) (metis mult_div_mod_eq add.right_neutral)
  then show "unat (bl_slots_per_qp layout) * unat qp_count = unat slot_count" by (simp add: f)
  have le: "unat ?s \<le> unat slot_count" using s pos by (metis le_add_same_cancel1 less_eq_nat.simps(1) mult.commute mult_le_mono2 nat_mult_1_right Suc_leI One_nat_def)
  have t: "unat (?s * of_nat 8) = 8 * unat ?s" using le n by (simp add: unat_word_ariths)
  then show "unat (bl_transfers_per_qp layout) = 8 * unat (bl_slots_per_qp layout)" by (simp add: f)
  show "unat (bl_buffer_bytes layout) = unat (bl_transfers_per_qp layout) * 2 ^ 18"
    "unat (bl_entries_bytes layout) = unat (bl_transfers_per_qp layout) * 40"
    using t le n by (simp_all add: f unat_word_ariths)
  show small: "unat qp_count * unat (bl_transfers_per_qp layout) < 2 ^ 19" using t s n by (simp add: f mult.left_commute mult.commute)
  show "unat (bl_required_namespace layout) = unat qp_count * unat (bl_transfers_per_qp layout) * 2 ^ 18"
  proof -
    have "bl_required_namespace layout = qp_count * bl_transfers_per_qp layout * of_nat (2 ^ 18)" by (simp only: f)
    moreover have "unat (qp_count * bl_transfers_per_qp layout) = unat qp_count * unat (bl_transfers_per_qp layout)"
      using small by (subst unat_word_ariths(2)) simp
    ultimately show ?thesis using small by (simp only: unat_word_ariths(2) [of "qp_count * bl_transfers_per_qp layout"]) simp
  qed
  show "unat (bl_required_namespace layout) \<le> unat capacity" using cap by (simp add: word_le_nat_alt)
  show "0 < unat (bl_slots_per_qp layout)" using q(3) by (simp add: f unat_gt_0)
qed

lemma entry_index_less: "i < q \<Longrightarrow> j < t \<Longrightarrow> i * t + j < q * (t :: nat)"
proof -
  assume "i < q" "j < t"
  then have "i * t + j < Suc i * t" "Suc i * t \<le> q * t" by (simp_all only: mult_le_mono1 Suc_leI) simp
  then show ?thesis by simp
qed

lemma entry_offset_exact:
  assumes l: "benchmark_layout qp_count slot_count capacity = Inr layout" and n: "unat slot_count < 2 ^ 16"
    and i: "i < unat qp_count" and j: "j < unat (bl_transfers_per_qp layout)"
  shows "unat (entry_offset layout i j) = (i * unat (bl_transfers_per_qp layout) + j) * 2 ^ 18"
    and "unat (entry_offset layout i j) + 2 ^ 18 \<le> unat capacity"
proof -
  note b = benchmark_layout_numbers [OF l n]
  let ?t = "unat (bl_transfers_per_qp layout)" and ?k = "i * unat (bl_transfers_per_qp layout) + j"
  have k: "?k < unat qp_count * ?t" by (rule entry_index_less [OF i j])
  have "entry_offset layout i j = of_nat (?k * 2 ^ 18)" by (simp add: entry_offset_def)
  then show e: "unat (entry_offset layout i j) = ?k * 2 ^ 18"
    using k b(9) by (simp only: unat_of_nat) (simp add: take_bit_eq_mod)
  have "(?k + 1) * 2 ^ 18 \<le> unat qp_count * ?t * 2 ^ 18" using k by (intro mult_le_mono1) simp
  then show "unat (entry_offset layout i j) + 2 ^ 18 \<le> unat capacity" using e b(6,7) by simp
qed

section \<open>The entries\<close>

lemma rcollect_pure:
  assumes "rcollect xs (\<lambda>x s. (f x, s)) s = (Inr ys, t)" and "k < length xs"
  shows "f (xs ! k) = Inr (ys ! k)"
  using assms by (induction xs arbitrary: s ys k) (auto simp: rbind_eq_Inr_iff nth_Cons split: nat.splits)

lemma concat_chunk:
  assumes "list_all (\<lambda>y. length y = m) ys" and "k < length ys"
  shows "take m (drop (m * k) (concat ys)) = ys ! k"
  using assms
proof (induction ys arbitrary: k)
  case (Cons y ys)
  then show ?case by (cases k) simp_all
qed simp

lemma concat_chunks_length: "list_all (\<lambda>y. length y = m) ys \<Longrightarrow> length (concat ys) = m * length ys"
  by (induction ys) simp_all

lemma encode_entry_decodes:
  assumes "encode_entry layout i region read j = Inr bytes"
  defines "mem \<equiv> entry_memory region j" and "off \<equiv> entry_offset layout i j"
  shows "length bytes = 40"
    and "read \<Longrightarrow> deserialize_storage_batch_read_entry (Some bytes) kStorageBatchEntryBytes (Some old) =
      (SerdeOk, Some \<lparr>bre_offset = off, bre_length = of_nat (2 ^ 18), bre_data = mem\<rparr>)"
    and "\<not> read \<Longrightarrow> deserialize_storage_batch_write_entry (Some bytes) kStorageBatchEntryBytes (Some old') =
      (SerdeOk, Some \<lparr>bwe_offset = off, bwe_length = of_nat (2 ^ 18), bwe_data = mem\<rparr>)"
proof -
  let ?r = "\<lparr>bre_offset = off, bre_length = of_nat (2 ^ 18), bre_data = mem\<rparr>"
  let ?w = "\<lparr>bwe_offset = off, bwe_length = of_nat (2 ^ 18), bwe_data = mem\<rparr>"
  have n: "unat kStorageBatchEntryBytes \<le> length (replicate 40 (0 :: u8))" by (simp add: kStorageBatchEntryBytes_def)
  have s: "read \<Longrightarrow> serialize_storage_batch_read_entry ?r (Some (replicate 40 0)) kStorageBatchEntryBytes = (SerdeOk, Some bytes)"
    "\<not> read \<Longrightarrow> serialize_storage_batch_write_entry ?w (Some (replicate 40 0)) kStorageBatchEntryBytes = (SerdeOk, Some bytes)"
    using assms(1) by (auto simp: encode_entry_def Let_def mem_def off_def split: prod.splits StorageSerdeResult.splits option.splits)
  show "read \<Longrightarrow> deserialize_storage_batch_read_entry (Some bytes) kStorageBatchEntryBytes (Some old) = (SerdeOk, Some ?r)"
    by (rule read_entry_codec.roundtrip [OF s(1) n])
  show "\<not> read \<Longrightarrow> deserialize_storage_batch_write_entry (Some bytes) kStorageBatchEntryBytes (Some old') = (SerdeOk, Some ?w)"
    by (rule write_entry_codec.roundtrip [OF s(2) n])
  show "length bytes = 40"
  proof (cases read)
    case True
    from s(1) [OF True] show ?thesis
      by (rule read_entry_codec.enc_okD) (use read_entry_codec.put_frame [of ?r "replicate 40 0"] in auto)
  next
    case False
    from s(2) [OF False] show ?thesis
      by (rule write_entry_codec.enc_okD) (use write_entry_codec.put_frame [of ?w "replicate 40 0"] in auto)
  qed
qed

lemma encode_entries_chunk:
  assumes "encode_entries layout i region read = Inr bytes"
  shows "length bytes = 40 * unat (bl_transfers_per_qp layout)"
    and "j < unat (bl_transfers_per_qp layout) \<Longrightarrow> encode_entry layout i region read j = Inr (take 40 (drop (40 * j) bytes))"
proof -
  from assms obtain chunks where c: "rcollect [0..<unat (bl_transfers_per_qp layout)] (\<lambda>i' s. (encode_entry layout i region read i', s)) () = (Inr chunks, ())"
    and b: "bytes = concat chunks"
    by (auto simp: encode_entries_def split: prod.splits sum.splits)
  have len: "length chunks = unat (bl_transfers_per_qp layout)" using rcollect_length [OF c] by simp
  have e: "encode_entry layout i region read k = Inr (chunks ! k)" if "k < length chunks" for k
    using rcollect_pure [OF c, of k] that len by simp
  then have all: "list_all (\<lambda>y. length y = 40) chunks"
    using encode_entry_decodes(1) by (fastforce simp: list_all_length)
  show "length bytes = 40 * unat (bl_transfers_per_qp layout)" using concat_chunks_length [OF all] b len by simp
  show "encode_entry layout i region read j = Inr (take 40 (drop (40 * j) bytes))" if "j < unat (bl_transfers_per_qp layout)"
    using e [of j] concat_chunk [OF all, of j] that len b by simp
qed

lemma blocks_apart: "(k :: nat) \<noteq> k' \<Longrightarrow> k * n + n \<le> k' * n \<or> k' * n + n \<le> k * n"
proof -
  have "a * n + n \<le> b * n" if "a < b" for a b :: nat using mult_le_mono1 [of "Suc a" b n] that by simp
  then show "k \<noteq> k' \<Longrightarrow> ?thesis" by (metis nat_neq_iff)
qed

lemma entry_index_inj:
  assumes "i * t + j = i' * t + j'" and "j < t" and "j' < (t :: nat)"
  shows "i = i' \<and> j = j'"
proof -
  have "i = (i * t + j) div t" "j = (i * t + j) mod t" using assms(2) by simp_all
  moreover have "i' = (i' * t + j') div t" "j' = (i' * t + j') mod t" using assms(3) by simp_all
  ultimately show ?thesis using assms(1) by metis
qed

text \<open>The working set of the benchmark. For a storage client with fewer than 65536 slots, an accepted layout wraps nowhere: each
  entry that is encoded for a queue decodes to a transfer inside the namespace and
  inside the buffer of the queue, and the ranges of the namespace of any two entries, of the same or of different queues, are
  disjoint.\<close>

theorem benchmark_entries_fit:
  assumes "benchmark_layout qp_count slot_count capacity = Inr layout" and "unat slot_count < 2 ^ 16"
    and "i < unat qp_count" and "j < unat (bl_transfers_per_qp layout)" and "encode_entries layout i region read = Inr bytes"
  shows "length bytes = unat (bl_entries_bytes layout)
    \<and> (read \<longrightarrow> deserialize_storage_batch_read_entry (Some (take 40 (drop (40 * j) bytes))) kStorageBatchEntryBytes (Some old) =
        (SerdeOk, Some \<lparr>bre_offset = entry_offset layout i j, bre_length = of_nat (2 ^ 18), bre_data = entry_memory region j\<rparr>))
    \<and> (\<not> read \<longrightarrow> deserialize_storage_batch_write_entry (Some (take 40 (drop (40 * j) bytes))) kStorageBatchEntryBytes (Some old') =
        (SerdeOk, Some \<lparr>bwe_offset = entry_offset layout i j, bwe_length = of_nat (2 ^ 18), bwe_data = entry_memory region j\<rparr>))
    \<and> unat (entry_offset layout i j) + 2 ^ 18 \<le> unat capacity \<and> j * 2 ^ 18 + 2 ^ 18 \<le> unat (bl_buffer_bytes layout)
    \<and> (\<forall>i' j'. i' < unat qp_count \<longrightarrow> j' < unat (bl_transfers_per_qp layout) \<longrightarrow> (i', j') \<noteq> (i, j) \<longrightarrow>
        unat (entry_offset layout i j) + 2 ^ 18 \<le> unat (entry_offset layout i' j')
        \<or> unat (entry_offset layout i' j') + 2 ^ 18 \<le> unat (entry_offset layout i j))"
proof -
  note b = benchmark_layout_numbers [OF assms(1,2)] and o = entry_offset_exact [OF assms(1,2)]
  note c = encode_entries_chunk [OF assms(5)]
  note e = encode_entry_decodes [OF c(2) [OF assms(4)]]
  have "j * 2 ^ 18 + 2 ^ 18 \<le> unat (bl_transfers_per_qp layout) * 2 ^ 18" using mult_le_mono1 [OF Suc_leI [OF assms(4)], of "2 ^ 18"] by simp
  moreover have "unat (entry_offset layout i j) + 2 ^ 18 \<le> unat (entry_offset layout i' j')
      \<or> unat (entry_offset layout i' j') + 2 ^ 18 \<le> unat (entry_offset layout i j)"
    if "i' < unat qp_count" "j' < unat (bl_transfers_per_qp layout)" "(i', j') \<noteq> (i, j)" for i' j'
    unfolding o(1) [OF assms(3,4)] o(1) [OF that(1,2)]
    by (rule blocks_apart) (use entry_index_inj [OF _ assms(4) that(2)] that(3) in auto)
  ultimately show ?thesis
    using c(1) b(4,5) e(2,3) o(2) [OF assms(3,4)] by (simp add: mult.commute)
qed

section \<open>What a window does to the slots\<close>

text \<open>A step of the allocator that touches no slot of \<open>H\<close>.\<close>

definition around :: "u32 set \<Rightarrow> StorageClient \<Rightarrow> StorageClient \<Rightarrow> bool" where
  "around H c c' \<longleftrightarrow> slots_wf c' \<and> client_slot_ids c' = client_slot_ids c \<and> (H \<subseteq> client_held c \<longrightarrow> H \<subseteq> client_held c')"

lemma around_refl: "slots_wf c \<Longrightarrow> around H c c"
  by (simp add: around_def)

lemma around_trans: "around H c c1 \<Longrightarrow> around H c1 c2 \<Longrightarrow> around H c c2"
  by (simp add: around_def)

lemma allocate_work_taken:
  assumes "slots_wf c" and "allocate_work acl rt queues n (c, w) = (r, (c', w'))"
  shows "around H c c'"
    and "r = Inr x \<Longrightarrow> sw_slot_id x \<in> client_slot_ids c - client_held c \<and> client_held c' = insert (sw_slot_id x) (client_held c)"
proof -
  obtain ra c1 w1 where a: "allocate_slot acl rt (c, w) = (ra, (c1, w1))" by (metis prod_cases3)
  note al = allocated [OF assms(1) a]
  have r: "c' = c1" "r = (case ra of Inl e \<Rightarrow> Inl e | Inr i \<Rightarrow> slot_work queues n i)"
    using assms(2) a by (auto simp: allocate_work_def rbind_def split: sum.splits)
  show "around H c c'"
  proof (cases ra)
    case (Inl e)
    with al(1,2) al(3) [OF Inl] r(1) show ?thesis by (simp add: around_def)
  next
    case (Inr i)
    with al(1,2) al(4) [OF Inr] r(1) show ?thesis by (auto simp: around_def)
  qed
  show "sw_slot_id x \<in> client_slot_ids c - client_held c \<and> client_held c' = insert (sw_slot_id x) (client_held c)" if "r = Inr x"
  proof -
    from that r(2) obtain i where i: "ra = Inr i" "slot_work queues n i = Inr x" by (cases ra) simp_all
    then have "sw_slot_id x = i" by (auto simp: slot_work_def Let_def split: if_splits)
    with al(4) [OF i(1)] r(1) show ?thesis by simp
  qed
qed

lemma rcollect_Cons_cases:
  assumes "rcollect (x # xs) body s = (r, t)"
  obtains (first) e where "body x s = (Inl e, t)" "r = Inl e"
  | (rest) y s1 e where "body x s = (Inr y, s1)" "rcollect xs body s1 = (Inl e, t)" "r = Inl e"
  | (all) y s1 ys where "body x s = (Inr y, s1)" "rcollect xs body s1 = (Inr ys, t)" "r = Inr (y # ys)"
  using assms by (auto simp: rbind_def split: prod.splits sum.splits)

lemma allocations_taken:
  assumes "slots_wf c" and "rcollect xs (\<lambda>_. allocate_work acl rt queues n) (c, w) = (r, (c', w'))"
  shows "around (client_held c) c c'"
    and "r = Inr work \<Longrightarrow> client_held c' = client_held c \<union> sw_slot_id ` set work \<and> client_held c \<inter> sw_slot_id ` set work = {}"
  using assms
proof (induction xs arbitrary: c w r work)
  case Nil
  { case 1 then show ?case by (simp add: around_refl) }
  { case 2 then show ?case by simp }
next
  case (Cons x xs)
  have next_wf: "slots_wf c1" if "allocate_work acl rt queues n (c, w) = (rx, (c1, w1))" "slots_wf c" for c w rx c1 w1
    using allocate_work_taken(1) [OF that(2,1)] by (simp add: around_def)
  have after: "around (client_held c) c c'"
    if "allocate_work acl rt queues n (c, w) = (Inr y, (c1, w1))" "slots_wf c" "around (client_held c1) c1 c'" for c w y c1 w1
    using allocate_work_taken [OF that(2,1)] that(3) by (simp add: around_def)
  { case 1
    from 1(2) show ?case
    proof (cases rule: rcollect_Cons_cases)
      case (first e)
      show ?thesis by (rule allocate_work_taken(1) [OF 1(1) first(1)])
    next
      case (rest y s1 e)
      obtain c1 w1 where s1: "s1 = (c1, w1)" by fastforce
      show ?thesis
        by (rule after [OF rest(1) [unfolded s1] 1(1) Cons.IH(1) [OF next_wf [OF rest(1) [unfolded s1] 1(1)] rest(2) [unfolded s1]]])
    next
      case (all y s1 ys)
      obtain c1 w1 where s1: "s1 = (c1, w1)" by fastforce
      show ?thesis
        by (rule after [OF all(1) [unfolded s1] 1(1) Cons.IH(1) [OF next_wf [OF all(1) [unfolded s1] 1(1)] all(2) [unfolded s1]]])
    qed }
  { case 2
    from 2(3) show ?case
    proof (cases rule: rcollect_Cons_cases)
      case (all y s1 ys)
      obtain c1 w1 where s1: "s1 = (c1, w1)" by fastforce
      note first = allocate_work_taken(2) [OF 2(2) all(1) [unfolded s1] refl]
      from Cons.IH(2) [OF refl next_wf [OF all(1) [unfolded s1] 2(2)] all(2) [unfolded s1]] first all(3) 2(1) show ?thesis by auto
    qed (use 2(1) in simp_all) }
qed

lemma client_const_pfor: "(\<And>x. client_const (body x)) \<Longrightarrow> client_const (pfor xs body)"
proof (induction xs)
  case Nil
  show ?case by (simp add: client_const_def)
next
  case (Cons x xs)
  show ?case
    unfolding client_const_def pfor.simps
  proof (intro allI impI)
    fix c l w r c' l' w' assume "pbind (body x) (\<lambda>_. pfor xs body) (c, l, w) = Some (r, (c', l', w'))"
    then show "c' = c"
    proof (cases rule: pbind_cases)
      case (1 e)
      from client_constD [OF Cons.prems 1(1)] show ?thesis .
    next
      case (2 u s1)
      obtain c1 l1 w1 where s1: "s1 = (c1, l1, w1)" by (metis prod_cases3)
      from client_constD [OF Cons.prems 2(1) [unfolded s1]] client_constD [OF Cons.IH [OF Cons.prems] 2(2) [unfolded s1]] show ?thesis by simp
    qed
  qed
qed

lemma release_step:
  assumes "slots_wf c" and "i \<notin> H"
    and "pbind (on_launcher f) (\<lambda>_. on_storage (release_slot acl rt i)) (c, l, w) = Some (r, (c', l', w'))"
  shows "around H c c'" and "ok r \<Longrightarrow> client_held c' = client_held c - {i}"
proof -
  from assms(3) consider e where "r = Inl e" "c' = c" | w1 w2 where "release_slot acl rt i (c, w1) = (r, (c', w2))"
    by (fastforce simp: pbind_def on_launcher_def on_storage_def split: option.splits prod.splits sum.splits)
  then have "around H c c' \<and> (ok r \<longrightarrow> client_held c' = client_held c - {i})"
  proof cases
    case 1
    with around_refl [OF assms(1)] show ?thesis by simp
  next
    case 2
    note re = released [OF assms(1) 2]
    show ?thesis using re(1,2) re(3) [where e = "projl r"] re(4) [where u = "()"] assms(2) by (cases r) (auto simp: around_def)
  qed
  then show "around H c c'" and "ok r \<Longrightarrow> client_held c' = client_held c - {i}" by simp_all
qed

lemma releases_given_back:
  assumes "slots_wf c" and "H \<inter> sw_slot_id ` set work = {}"
    and "pfor work (\<lambda>x. pbind (on_launcher (f x)) (\<lambda>_. on_storage (release_slot acl rt (sw_slot_id x)))) (c, l, w) = Some (r, (c', l', w'))"
  shows "around H c c' \<and> (ok r \<longrightarrow> client_held c' = client_held c - sw_slot_id ` set work)"
  using assms
proof (induction work arbitrary: c l w)
  case Nil
  then show ?case by (simp add: around_refl)
next
  case (Cons x xs)
  have x: "sw_slot_id x \<notin> H" "H \<inter> sw_slot_id ` set xs = {}" using Cons.prems(2) by auto
  from Cons.prems(3) show ?case
    unfolding pfor.simps
  proof (cases rule: pbind_cases)
    case (1 e)
    from release_step(1) [OF Cons.prems(1) x(1) 1(1)] 1(2) show ?thesis by simp
  next
    case (2 u s1)
    obtain c1 l1 w1 where s1: "s1 = (c1, l1, w1)" by (metis prod_cases3)
    note st = release_step [OF Cons.prems(1) x(1) 2(1) [unfolded s1]]
    have "slots_wf c1" using st(1) by (simp add: around_def)
    from Cons.IH [OF this x(2) 2(2) [unfolded s1]] st around_trans show ?thesis by auto
  qed
qed

lemma on_storage_bind: "m (c, w) = (Inr x, (c1, w1)) \<Longrightarrow> pbind (on_storage m) f (c, l, w) = f x (c1, l, w1)"
  by (simp add: pbind_def on_storage_def)

lemma run_window_settles:
  assumes wf: "slots_wf c"
    and run: "run_window acl rt client launcher queues slots_per_qp read stream (c, l, w) = Some (r, (c', l', w'))"
  shows "around (client_held c) c c' \<and> (ok r \<longrightarrow> client_held c' = client_held c)"
proof (cases "\<not> client \<or> launcher = None \<or> queues = [] \<or> slots_per_qp = 0")
  case True
  with run wf show ?thesis by (auto simp: run_window_def around_refl)
next
  case False
  let ?xs = "[0..<unat (of_nat (length queues) * slots_per_qp)]"
  let ?submit = "\<lambda>request. on_launcher (\<lambda>c. benchmark_submit launcher (stc_storage_descriptor c) request read stream)"
  obtain ra c1 w1 where a: "rcollect ?xs (\<lambda>_. allocate_work acl rt queues slots_per_qp) (c, w) = (ra, (c1, w1))" by (metis prod_cases3)
  note al = allocations_taken [OF wf a]
  show ?thesis
  proof (cases ra)
    case (Inl e)
    with False run a have "c' = c1" "r = Inl e" by (auto simp: run_window_def pbind_def on_storage_def)
    with al(1) show ?thesis by simp
  next
    case (Inr work)
    have wf1: "slots_wf c1" using al(1) by (simp add: around_def)
    note taken = al(2) [OF Inr]
    let ?rest = "\<lambda>_ :: unit. pfor work (\<lambda>request. pbind (on_launcher (\<lambda>c.
          view_storage_wait (with_config (the launcher) (benchmark_config stream True)) (stc_storage_descriptor c) (sw_slot_id request)))
          (\<lambda>_. on_storage (release_slot acl rt (sw_slot_id request))))"
    have "pbind (pfor work ?submit) ?rest (c1, l, w1) = Some (r, (c', l', w'))"
      using run unfolding run_window_def if_not_P [OF False]
        on_storage_bind [where m = "rcollect ?xs (\<lambda>_. allocate_work acl rt queues slots_per_qp)", OF a [unfolded Inr]] .
    then show ?thesis
    proof (cases rule: pbind_cases)
      case (1 e)
      from client_constD [OF client_const_pfor [OF client_const_calls(2)] 1(1)] al(1) 1(2) show ?thesis by simp
    next
      case (2 u s1)
      obtain c2 l2 w2 where s1: "s1 = (c2, l2, w2)" by (metis prod_cases3)
      from client_constD [OF client_const_pfor [OF client_const_calls(2)] 2(1) [unfolded s1]] have c2: "c2 = c1" .
      from releases_given_back [OF wf1, where H = "client_held c", OF conjunct2 [OF taken] 2(2) [unfolded s1 c2]] taken al(1)
      show ?thesis by (auto intro: around_trans)
    qed
  qed
qed

text \<open>Where an opened client puts its slots, the benchmark finds them.\<close>

lemma slot_work_found:
  assumes wf: "slots_wf c" and slots: "stc_slots c = map (slot_resources (length queues)) [0..<unat slots_per_qp * length queues]"
    and i: "i < length (stc_slots c)"
  shows "\<exists>work. slot_work queues slots_per_qp (slot_id_at c i) = Inr work \<and> sw_slot_id work = slot_id_at c i
    \<and> sw_entries_address work = mi_address (crg_info (qr_entries_region (queues ! (i mod length queues)))) + of_nat (i div length queues * 320)"
proof -
  have n: "i < unat slots_per_qp * length queues" using i slots by simp
  then have q: "0 < length queues" by (cases "length queues") simp_all
  have "length (stc_slots c) < 2 ^ 16" using wf by (simp add: slots_wf_def)
  then have "i < 2 ^ 16" using i by simp
  then have "i mod length queues < 2 ^ 32" by (rule le_less_trans [OF mod_less_eq_dividend, THEN less_trans]) simp
  then have m: "unat (of_nat (i mod length queues) :: u32) = i mod length queues" by (simp add: unat_of_nat take_bit_nat_eq_self)
  have "i div length queues < unat slots_per_qp" using n by (simp add: less_mult_imp_div_less)
  then show ?thesis
    using slot_id_at_parts [OF wf i] n m mod_less_divisor [OF q, of i] by (simp add: slot_work_def slots slot_resources_def Let_def)
qed

section \<open>Windows on the AICPU backend\<close>

lemma returns_calls [total_rules]:
  "returns (on_storage m)" "(\<And>c. returns (f c)) \<Longrightarrow> returns (on_launcher f)"
  by (auto simp: returns_def on_storage_def on_launcher_def split: prod.splits option.splits)

lemma returns_aicpu:
  assumes laws: "memory_laws (lh_dev host) (lh_acl host) blocks" "launch_clock (lh_dev host) (lh_acl host) clock"
    "\<And>a. rt_this (lh_runtime host a) \<noteq> 0"
  shows "returns (benchmark_submit (Some (aicpu_launcher_ops host)) d x read stream)"
    and "returns (view_storage_wait (with_config (aicpu_launcher_ops host) config) d i)"
proof -
  have m: "returns (as_method f)" for f :: "('a aicpu_state, unit) lcomp" by (simp add: returns_def as_method_def split: prod.splits)
  show "returns (benchmark_submit (Some (aicpu_launcher_ops host)) d x read stream)"
    by (simp add: benchmark_submit_def Let_def view_storage_read_batch_def view_storage_write_batch_def when_launcher_def with_config_def
        aicpu_launcher_ops_def m)
  have "returns (aicpu_storage_wait_with_config host config d i)"
    unfolding returns_def using aicpu_wait_keeps [OF laws] by (metis option.distinct(1) surj_pair)
  then show "returns (view_storage_wait (with_config (aicpu_launcher_ops host) config) d i)"
    by (simp add: view_storage_wait_def when_sync_def when_launcher_def with_config_def aicpu_launcher_ops_def returns_lift)
qed

text \<open>C38: a window of the benchmark on the AICPU backend returns and settles its slots. The slots of an opened client are where the
  benchmark expects them, each with its own block of entries in the array of its queue; slots
  held before the window stay held, and a window that succeeds leaves exactly those held.\<close>

theorem benchmark_window_settles:
  assumes "slots_wf c" and "stc_slots c = map (slot_resources (length queues)) [0..<unat slots_per_qp * length queues]"
    and "memory_laws (lh_dev host) (lh_acl host) blocks" and "launch_clock (lh_dev host) (lh_acl host) clock"
    and "\<And>a. rt_this (lh_runtime host a) \<noteq> 0"
  shows "(\<forall>i < length (stc_slots c). \<exists>work. slot_work queues slots_per_qp (slot_id_at c i) = Inr work \<and> sw_slot_id work = slot_id_at c i
      \<and> sw_entries_address work = mi_address (crg_info (qr_entries_region (queues ! (i mod length queues)))) + of_nat (i div length queues * 320))
    \<and> (\<exists>r c' l' w'. run_window acl rt client (Some (aicpu_launcher_ops host)) queues slots_per_qp read stream (c, l, w) = Some (r, (c', l', w'))
      \<and> slots_wf c' \<and> client_slot_ids c' = client_slot_ids c \<and> client_held c \<subseteq> client_held c' \<and> (ok r \<longrightarrow> client_held c' = client_held c))"
proof
  have "returns (run_window acl rt client (Some (aicpu_launcher_ops host)) queues slots_per_qp read stream)"
    unfolding run_window_def option.sel by (intro total_rules returns_aicpu [OF assms(3-5)])
  then obtain r c' l' w' where run: "run_window acl rt client (Some (aicpu_launcher_ops host)) queues slots_per_qp read stream (c, l, w) = Some (r, (c', l', w'))"
    unfolding returns_def by (metis not_None_eq prod_cases4)
  with run_window_settles [OF assms(1) run]
  show "\<exists>r c' l' w'. run_window acl rt client (Some (aicpu_launcher_ops host)) queues slots_per_qp read stream (c, l, w) = Some (r, (c', l', w'))
      \<and> slots_wf c' \<and> client_slot_ids c' = client_slot_ids c \<and> client_held c \<subseteq> client_held c' \<and> (ok r \<longrightarrow> client_held c' = client_held c)"
    by (auto simp: around_def)
qed (use slot_work_found [OF assms(1,2)] in blast)

definition sample_region_queue :: QueueResources where
  "sample_region_queue = empty_queue\<lparr>qr_region := sample_region 0x1000 0x2000000 0, qr_entries_region := sample_region 0x1000 5120 0\<rparr>"

theorem benchmark_window_settles_witness:
  "(\<exists>work. slot_work [sample_region_queue] 16 (slot_id_at sample_storage_client 3) = Inr work \<and> sw_slot_id work = slot_id_at sample_storage_client 3)
    \<and> (\<exists>r c' l' w'. run_window (lh_acl counted_host) sample_runtime True (Some (aicpu_launcher_ops counted_host)) [sample_region_queue] 16 False 1
        (sample_storage_client, loaded_launcher, (0, \<lambda>_. 0)) = Some (r, (c', l', w'))
      \<and> slots_wf c' \<and> client_slot_ids c' = client_slot_ids sample_storage_client
      \<and> (if ok r then client_held c' = client_held sample_storage_client else client_held sample_storage_client \<subseteq> client_held c'))"
proof -
  have s: "stc_slots sample_storage_client = map (slot_resources (length [sample_region_queue])) [0..<unat (16 :: u64) * length [sample_region_queue]]"
    and n: "3 < length (stc_slots sample_storage_client)" by (simp_all add: sample_fields)
  note w = benchmark_window_settles [OF sample_slots(1) s counted_laws, where read = False and stream = 1 and client = True
      and acl = "lh_acl counted_host" and rt = sample_runtime and l = loaded_launcher and w = "(0, \<lambda>_. 0)"]
  show ?thesis
  proof
    show "\<exists>work. slot_work [sample_region_queue] 16 (slot_id_at sample_storage_client 3) = Inr work \<and> sw_slot_id work = slot_id_at sample_storage_client 3"
      using conjunct1 [OF w] n by blast
  qed (use conjunct2 [OF w] in meson)
qed

definition sample_layout :: BenchmarkLayout where
  "sample_layout = \<lparr>bl_slots_per_qp = 16, bl_transfers_per_qp = 128, bl_buffer_bytes = 0x2000000, bl_entries_bytes = 5120,
     bl_required_namespace = 0x4000000\<rparr>"

lemma sample_layout_ok: "benchmark_layout 2 32 0x5000000 = Inr sample_layout"
  by (simp add: benchmark_layout_def Let_def sample_layout_def)

text \<open>Entries are encoded whenever the addresses and the key of the region are set.\<close>

lemma rcollect_pure_ok: "(\<And>x. x \<in> set xs \<Longrightarrow> ok (f x)) \<Longrightarrow> \<exists>ys. rcollect xs (\<lambda>x s. (f x, s)) s = (Inr ys, s)"
proof (induction xs)
  case (Cons x xs)
  then obtain y where "f x = Inr y" using ok_iff by (metis list.set_intros(1))
  with Cons show ?case by (auto simp: rbind_def)
qed simp

lemma encode_entries_ok:
  assumes "mi_remote_key (crg_info region) \<noteq> 0"
    and "\<And>j. j < unat (bl_transfers_per_qp layout) \<Longrightarrow> mi_address (crg_info region) + of_nat j * of_nat (2 ^ 18) \<noteq> 0"
  shows "\<exists>bytes. encode_entries layout i region read = Inr bytes"
proof -
  have "ok (encode_entry layout i region read j)" if "j < unat (bl_transfers_per_qp layout)" for j
  proof -
    have v: "memory_valid (entry_memory region j) (of_nat (2 ^ 18))" using assms that by (simp add: memory_valid_def entry_memory_def)
    let ?r = "\<lparr>bre_offset = entry_offset layout i j, bre_length = of_nat (2 ^ 18), bre_data = entry_memory region j\<rparr>"
    let ?w = "\<lparr>bwe_offset = entry_offset layout i j, bwe_length = of_nat (2 ^ 18), bwe_data = entry_memory region j\<rparr>"
    have "\<exists>b. serialize_storage_batch_read_entry ?r (Some (replicate 40 0)) kStorageBatchEntryBytes = (SerdeOk, Some b)"
      using read_entry_codec.enc_some [of ?r kStorageBatchEntryBytes "replicate 40 0"] v by (simp add: read_entry_valid_def)
    moreover have "\<exists>b. serialize_storage_batch_write_entry ?w (Some (replicate 40 0)) kStorageBatchEntryBytes = (SerdeOk, Some b)"
      using write_entry_codec.enc_some [of ?w kStorageBatchEntryBytes "replicate 40 0"] v by (simp add: write_entry_valid_def)
    ultimately show ?thesis unfolding encode_entry_def Let_def benchmark_constants by (cases read) auto
  qed
  then have "\<exists>chunks. rcollect [0..<unat (bl_transfers_per_qp layout)] (\<lambda>j s. (encode_entry layout i region read j, s)) () = (Inr chunks, ())"
    by (intro rcollect_pure_ok) simp
  then show ?thesis by (auto simp: encode_entries_def)
qed

lemma sample_entries: "\<exists>bytes. encode_entries sample_layout 1 (qr_region sample_region_queue) read = Inr bytes"
proof (rule encode_entries_ok)
  show "mi_remote_key (crg_info (qr_region sample_region_queue)) \<noteq> 0" by (simp add: sample_region_queue_def sample_region_def)
  fix j assume "j < unat (bl_transfers_per_qp sample_layout)"
  then have j: "j < 128" by (simp add: sample_layout_def)
  have "mi_address (crg_info (qr_region sample_region_queue)) + of_nat j * of_nat (2 ^ 18) = (of_nat (0x1000 + j * 2 ^ 18) :: u64)"
    by (simp add: sample_region_queue_def sample_region_def)
  moreover have "unat (of_nat (0x1000 + j * 2 ^ 18) :: u64) = 0x1000 + j * 2 ^ 18"
    using j by (simp only: unat_of_nat) (simp add: take_bit_eq_mod)
  ultimately show "mi_address (crg_info (qr_region sample_region_queue)) + of_nat j * of_nat (2 ^ 18) \<noteq> 0"
    by (metis add_is_0 unat_0 zero_neq_numeral)
qed

theorem benchmark_entries_fit_witness:
  "\<exists>bytes. encode_entries sample_layout 1 (qr_region sample_region_queue) False = Inr bytes \<and> length bytes = 5120
    \<and> deserialize_storage_batch_write_entry (Some (take 40 (drop (40 * 5) bytes))) kStorageBatchEntryBytes
        (Some \<lparr>bwe_offset = 0, bwe_length = 0, bwe_data = \<lparr>m_address = 0, m_length = 0, m_remote_key = 0\<rparr>\<rparr>) =
      (SerdeOk, Some \<lparr>bwe_offset = entry_offset sample_layout 1 5, bwe_length = of_nat (2 ^ 18),
        bwe_data = entry_memory (qr_region sample_region_queue) 5\<rparr>)
    \<and> unat (entry_offset sample_layout 1 5) + 2 ^ 18 \<le> 0x5000000"
proof -
  obtain bytes where b: "encode_entries sample_layout 1 (qr_region sample_region_queue) False = Inr bytes" using sample_entries by blast
  have "1 < unat (2 :: u64)" "5 < unat (bl_transfers_per_qp sample_layout)" "unat (32 :: u64) < 2 ^ 16" by (simp_all add: sample_layout_def)
  from benchmark_entries_fit [OF sample_layout_ok this(3,1,2) b] b show ?thesis by (simp add: sample_layout_def)
qed

end
