(* ===== verification/Storage_Example.thy ===== *)
theory Storage_Example
  imports Storage_Benchmark Server_Storage
begin

text \<open>
  The two storage example programs, \<^verbatim>\<open>src/examples/storage/client.cc\<close> and \<^verbatim>\<open>server.cc\<close>. The client writes or reads
  a pattern with 32 commands in windows of as many commands as it has slots; the server seeds its namespace
  with the pattern or verifies it. The command line parser is a parameter, as in the benchmark.
\<close>

section \<open>The pattern\<close>

text \<open>The byte of the pattern at a place of the namespace.\<close>

definition pattern_byte :: "u64 \<Rightarrow> u8" where
  "pattern_byte position = ucast (position XOR 0x5a)"

definition example_payload :: "u64 \<Rightarrow> u32 \<Rightarrow> u8 list" where
  "example_payload operation_offset bytes = map (\<lambda>index. pattern_byte (operation_offset + of_nat index)) [0..<unat bytes]"

definition verify_read :: "u64 \<Rightarrow> u8 list \<Rightarrow> bool" where
  "verify_read offset observed \<longleftrightarrow> list_all (\<lambda>index. observed ! index = pattern_byte (offset + of_nat index)) [0..<length observed]"

section \<open>The client\<close>

definition kStorageStressCommandCount :: u32 where "kStorageStressCommandCount = 32"

record CommandResources =
  cmr_buffers :: "MemoryBuffer list"
  cmr_regions :: "ClientRegion list"
  cmr_requests :: "(u64 \<times> u32) list"
  cmr_entries :: MemoryBuffer
  cmr_entries_region :: ClientRegion
  cmr_slot_id :: u32

definition empty_command :: CommandResources where
  "empty_command = \<lparr>cmr_buffers = [], cmr_regions = [], cmr_requests = [], cmr_entries = empty_buffer,
     cmr_entries_region = empty_client_region, cmr_slot_id = 0\<rparr>"

record ExampleConfig =
  exc_runtime :: RuntimeConfig
  exc_transport :: ClientTransportConfig
  exc_mode :: BackendMode
  exc_artifact :: string
  exc_operation :: string
  exc_offset :: u64
  exc_bytes :: u32
  exc_batch_count :: u32
  exc_log_sink :: string
  exc_log_level :: string

definition default_example_config :: ExampleConfig where
  "default_example_config =
     \<lparr>exc_runtime = default_runtime_config, exc_transport = (default_transport_config [])\<lparr>ctc_tcp_timeout_ms := 10000\<rparr>, exc_mode = ModeRa,
      exc_artifact = [], exc_operation = ''write'', exc_offset = 0, exc_bytes = 4096, exc_batch_count = 2,
      exc_log_sink = ''stderr'', exc_log_level = ''info''\<rparr>"

text \<open>The status of the parser with the flag for an exit; the pointers are never null.\<close>

definition example_parse_args :: "(ExampleConfig \<Rightarrow> string \<Rightarrow> ExampleConfig CliOutcome) \<Rightarrow> (ExampleConfig \<times> int \<times> bool) result" where
  "example_parse_args cli =
     (case cli default_example_config ''ra'' of
        CliHelp status \<Rightarrow> Inr (default_example_config, status, True)
      | CliError status \<Rightarrow> Inr (default_example_config, status, False)
      | CliParsed config backend \<Rightarrow>
          (let config = (if backend = ''aicpu'' then config\<lparr>exc_mode := ModeAicpu\<rparr> else config);
               config = (if backend = ''aiv'' then config\<lparr>exc_mode := ModeAiv\<rparr> else config)
           in if exc_artifact config = [] then Inl kInvalidArgument else Inr (config, 0, False)))"

definition is_batch :: "ExampleConfig \<Rightarrow> bool" where
  "is_batch config \<longleftrightarrow> exc_operation config = ''batch-read'' \<or> exc_operation config = ''batch-write''"

definition is_read :: "ExampleConfig \<Rightarrow> bool" where
  "is_read config \<longleftrightarrow> exc_operation config = ''read'' \<or> exc_operation config = ''batch-read''"

definition entries_per_command :: "ExampleConfig \<Rightarrow> u32" where
  "entries_per_command config = (if is_batch config then exc_batch_count config else 1)"

definition workload_overflows :: "ExampleConfig \<Rightarrow> bool" where
  "workload_overflows config \<longleftrightarrow>
     (let total_entry_count = ucast kStorageStressCommandCount * ucast (entries_per_command config) :: u64
      in total_entry_count = 0 \<or> total_entry_count - 1 > UINT64_MAX div ucast (exc_bytes config)
        \<or> exc_offset config > UINT64_MAX - (total_entry_count - 1) * ucast (exc_bytes config))"

definition operation_offset :: "ExampleConfig \<Rightarrow> nat \<Rightarrow> nat \<Rightarrow> u64" where
  "operation_offset config command_index entry_index =
     (let entry_number = of_nat command_index * ucast (entries_per_command config) + of_nat entry_index
      in exc_offset config + entry_number * ucast (exc_bytes config))"

record 'l ExampleState = "'l Session" +
  exs_commands :: "CommandResources list"

definition with_command :: "nat \<Rightarrow> ('l ExampleState \<Rightarrow> CommandResources \<Rightarrow> ('w, 'a) comp) \<Rightarrow> ('a \<Rightarrow> CommandResources \<Rightarrow> CommandResources) \<Rightarrow>
    ('l ExampleState \<times> 'w, unit) comp" where
  "with_command = with_element exs_commands (\<lambda>cs s. s\<lparr>exs_commands := cs\<rparr>)"

text \<open>One entry of a command.\<close>

definition prepare_entry :: "('a, 'l, 'w) session_host \<Rightarrow> ExampleConfig \<Rightarrow> nat \<Rightarrow> nat \<Rightarrow> ('l ExampleState \<times> 'w, unit) comp" where
  "prepare_entry h config i entry_index =
     (let offset = operation_offset config i entry_index
      in rbind (with_command i (\<lambda>s _. runtime_allocate (sh_acl h) (ses_runtime s) (ucast (exc_bytes config)) LocDevice)
                  (\<lambda>b r. r\<lparr>cmr_buffers := cmr_buffers r @ [b]\<rparr>)) (\<lambda>_.
         rbind (with_command i (\<lambda>s r. storage_register_memory (sh_ra h) (ses_runtime s) (ses_transport s) (ses_storage s)
                                  (last (cmr_buffers r)) LocalWrite_RemoteWrite_RemoteRead)
                  (\<lambda>g r. r\<lparr>cmr_regions := cmr_regions r @ [g], cmr_requests := cmr_requests r @ [(offset, exc_bytes config)]\<rparr>)) (\<lambda>_.
         if is_read config then rret ()
         else with_command i (\<lambda>s r. runtime_copy_to (sh_acl h) (ses_runtime s) (last (cmr_buffers r))
                                (HBytes (example_payload offset (exc_bytes config)))) (\<lambda>_ r. r))))"

definition prepare_commands :: "('a, 'l, 'w) session_host \<Rightarrow> ExampleConfig \<Rightarrow> ('l ExampleState \<times> 'w, unit) comp" where
  "prepare_commands h config =
     rfor [0..<unat kStorageStressCommandCount] (\<lambda>i. rfor [0..<unat (entries_per_command config)] (prepare_entry h config i))"

text \<open>The entries of a batch: the bytes of each of them, one after the other.\<close>

definition encode_request :: "bool \<Rightarrow> (u64 \<times> u32) \<times> ClientRegion \<Rightarrow> u8 list result" where
  "encode_request read = (\<lambda>((offset, n), region).
     let memory = \<lparr>m_address = mi_address (crg_info region), m_length = mi_size (crg_info region), m_remote_key = mi_remote_key (crg_info region)\<rparr>;
         bytes = Some (replicate 40 0);
         serialized = (if read
           then serialize_storage_batch_read_entry \<lparr>bre_offset = offset, bre_length = ucast n, bre_data = memory\<rparr> bytes kStorageBatchEntryBytes
           else serialize_storage_batch_write_entry \<lparr>bwe_offset = offset, bwe_length = ucast n, bwe_data = memory\<rparr> bytes kStorageBatchEntryBytes)
     in case serialized of (SerdeOk, Some bytes) \<Rightarrow> Inr bytes | _ \<Rightarrow> Inl kProtocol)"

definition encode_requests :: "bool \<Rightarrow> CommandResources \<Rightarrow> u8 list result" where
  "encode_requests read r =
     (case rcollect (zip (cmr_requests r) (cmr_regions r)) (\<lambda>x s. (encode_request read x, s)) () of
        (Inl e, _) \<Rightarrow> Inl e
      | (Inr chunks, _) \<Rightarrow> Inr (concat chunks))"

definition example_config :: "u64 \<Rightarrow> bool \<Rightarrow> LaunchConfig" where
  "example_config stream sync = default_launch_config\<lparr>lc_stream := stream, lc_sync := sync, lc_sync_timeout_ms := 5000\<rparr>"

text \<open>A call of the launcher for a command; the launcher is set.\<close>

definition launch_command :: "('a, 'l, 'w) session_host \<Rightarrow> nat \<Rightarrow> bool \<Rightarrow>
    (('l \<times> 'w) ConfiguredLauncherView \<Rightarrow> NdsStorageDescriptor \<Rightarrow> CommandResources \<Rightarrow> ('l \<times> 'w, unit) pcomp) \<Rightarrow> ('l ExampleState \<times> 'w, unit) pcomp" where
  "launch_command h i sync f = (\<lambda>(s, w).
     on_part (\<lambda>s. the (ses_launcher s)) (\<lambda>x s. s\<lparr>ses_launcher := Some x\<rparr>)
       (f (with_config (bk_ops (sh_backend h)) (example_config (ses_stream s) sync)) (stc_storage_descriptor (ses_storage s)) (exs_commands s ! i)) (s, w))"

definition take_command_slot :: "('a, 'l, 'w) session_host \<Rightarrow> nat \<Rightarrow> ('l ExampleState \<times> 'w, unit) pcomp" where
  "take_command_slot h i = (\<lambda>(s, w).
     case allocate_slot (sh_acl h) (ses_runtime s) (ses_storage s, w) of
       (Inl e, (c, w)) \<Rightarrow> Some (Inl e, (s\<lparr>ses_storage := c\<rparr>, w))
     | (Inr slot_id, (c, w)) \<Rightarrow>
         Some (Inr (), (s\<lparr>ses_storage := c, exs_commands := (exs_commands s)[i := (exs_commands s ! i)\<lparr>cmr_slot_id := slot_id\<rparr>]\<rparr>, w)))"

definition submit_command :: "('a, 'l, 'w) session_host \<Rightarrow> ExampleConfig \<Rightarrow> nat \<Rightarrow> ('l ExampleState \<times> 'w, unit) pcomp" where
  "submit_command h config i =
     pbind (take_command_slot h i) (\<lambda>_.
     if is_batch config then
       pbind (\<lambda>(s, w). Some (encode_requests (is_read config) (exs_commands s ! i), (s, w))) (\<lambda>entries_bytes.
       pbind (plift (with_command i (\<lambda>s _. runtime_allocate (sh_acl h) (ses_runtime s) (of_nat (length entries_bytes)) LocDevice)
                       (\<lambda>b r. r\<lparr>cmr_entries := b\<rparr>))) (\<lambda>_.
       pbind (plift (with_command i (\<lambda>s r. runtime_copy_to (sh_acl h) (ses_runtime s) (cmr_entries r) (HBytes entries_bytes)) (\<lambda>_ r. r))) (\<lambda>_.
       pbind (plift (with_command i (\<lambda>s r. storage_register_memory (sh_ra h) (ses_runtime s) (ses_transport s) (ses_storage s) (cmr_entries r)
                                       LocalWrite_RemoteRead)
                       (\<lambda>g r. r\<lparr>cmr_entries_region := g\<rparr>))) (\<lambda>_.
       launch_command h i False (\<lambda>v d r.
         let info = crg_info (cmr_entries_region r); n = of_nat (length (cmr_requests r))
         in if is_read config then view_storage_read_batch v d (cmr_slot_id r) (mi_address info) (mi_remote_key info) n
            else view_storage_write_batch v d (cmr_slot_id r) (mi_address info) (mi_remote_key info) n)))))
     else
       launch_command h i False (\<lambda>v d r.
         let info = crg_info (hd (cmr_regions r)); offset = fst (hd (cmr_requests r))
         in if is_read config then view_storage_read v d (cmr_slot_id r) offset (mi_address info) (mi_remote_key info) (exc_bytes config)
            else view_storage_write v d (cmr_slot_id r) offset (mi_address info) (mi_remote_key info) (exc_bytes config)))"

definition verify_request :: "('a, 'l, 'w) session_host \<Rightarrow> nat \<Rightarrow> nat \<Rightarrow> ('l ExampleState \<times> 'w, unit) comp" where
  "verify_request h i index =
     with_command i (\<lambda>s r w.
       case runtime_copy_from (sh_acl h) (ses_runtime s) (cmr_buffers r ! index) (unat (snd (cmr_requests r ! index))) w of
         (Inl e, w) \<Rightarrow> (Inl e, w)
       | (Inr observed, w) \<Rightarrow> (if verify_read (fst (cmr_requests r ! index)) observed then Inr () else Inl kProtocol, w)) (\<lambda>_ r. r)"

definition finish_command :: "('a, 'l, 'w) session_host \<Rightarrow> ExampleConfig \<Rightarrow> nat \<Rightarrow> ('l ExampleState \<times> 'w, unit) pcomp" where
  "finish_command h config i =
     pbind (launch_command h i True (\<lambda>v d r. view_storage_wait v d (cmr_slot_id r))) (\<lambda>_.
     pbind (\<lambda>(s, w). on_part ses_storage (\<lambda>x s. s\<lparr>ses_storage := x\<rparr>)
              (plift (release_slot (sh_acl h) (ses_runtime s) (cmr_slot_id (exs_commands s ! i)))) (s, w)) (\<lambda>_ (s, w).
     if is_read config then plift (rfor [0..<length (cmr_requests (exs_commands s ! i))] (verify_request h i)) (s, w)
     else Some (Inr (), (s, w))))"

text \<open>The loop over the windows; the step is the number of slots, cut to 32 bits, and nothing stops it when that is 0.\<close>

partial_function (option) example_windows :: "(nat \<Rightarrow> nat \<Rightarrow> ('s, unit) pcomp) \<Rightarrow> u64 \<Rightarrow> u32 \<Rightarrow> ('s, unit) pcomp" where
  "example_windows body submission_window window_start s =
     (if window_start < kStorageStressCommandCount
      then (case body (unat window_start) (unat (min kStorageStressCommandCount (ucast (ucast window_start + submission_window)))) s of
              None \<Rightarrow> None
            | Some (Inl e, s) \<Rightarrow> Some (Inl e, s)
            | Some (Inr _, s) \<Rightarrow> example_windows body submission_window (window_start + ucast submission_window) s)
      else Some (Inr (), s))"

definition example_window :: "('a, 'l, 'w) session_host \<Rightarrow> ExampleConfig \<Rightarrow> nat \<Rightarrow> nat \<Rightarrow> ('l ExampleState \<times> 'w, unit) pcomp" where
  "example_window h config window_start window_end =
     pbind (pfor [window_start..<window_end] (submit_command h config)) (\<lambda>_. pfor [window_start..<window_end] (finish_command h config))"

text \<open>The stream belongs to its owner before the result is tested.\<close>

definition example_stream :: "('a, 'l, 'w) session_host \<Rightarrow> BackendMode \<Rightarrow> (('l, 'x) Session_scheme \<times> 'w, unit) pcomp" where
  "example_stream h mode = (\<lambda>(s, w).
     if mode = ModeRa then Some (Inr (), (s, w))
     else case aclrtCreateStream (sh_dev h) w of
       ((result, stream), w) \<Rightarrow> Some (if result \<noteq> 0 \<or> stream = 0 then Inl kRuntime else Inr (), (s\<lparr>ses_stream := stream\<rparr>, w)))"

definition example_body :: "('a, 'l, 'w) session_host \<Rightarrow> ExampleConfig \<Rightarrow> ('l ExampleState \<times> 'w, unit) pcomp" where
  "example_body h config =
     pbind (open_runtime_part h (exc_runtime config)) (\<lambda>_.
     pbind (open_transport_part h (exc_transport config) (exc_mode config)) (\<lambda>_.
     pbind (open_storage_part h) (\<lambda>_.
     pbind (open_launcher_part h (exc_mode config) (exc_artifact config)) (\<lambda>_.
     pbind (example_stream h (exc_mode config)) (\<lambda>_.
     pbind (bootstrap_part h (example_config 0 True)) (\<lambda>_.
     pbind (complete_bootstrap_part h 5000) (\<lambda>_ (s, w).
       if workload_overflows config then Some (Inl kInvalidArgument, (s, w))
       else if client_qp_count (ses_transport s) = 0 then Some (Inl kTransport, (s, w))
       else
         pbind (plift (prepare_commands h config)) (\<lambda>_.
         example_windows (example_window h config) (of_nat (length (stc_slots (ses_storage s)))) 0)
           (s\<lparr>exs_commands := replicate (unat kStorageStressCommandCount) empty_command\<rparr>, w))))))))"

text \<open>The members of a command are destroyed from the last to the first.\<close>

definition destroy_command :: "('a, 'l, 'w) session_host \<Rightarrow> 'l ExampleState \<Rightarrow> CommandResources \<Rightarrow> 'w \<Rightarrow> 'w" where
  "destroy_command h s r w =
     (let region = (\<lambda>g w. snd (client_region_reset (sh_ra h) (ctp_endpoint (ses_transport s)) g w));
          buffer = (\<lambda>b w. snd (buffer_reset (sh_acl h) (ses_runtime s) b w));
          w = region (cmr_entries_region r) w; w = buffer (cmr_entries r) w; w = fold region (cmr_regions r) w
      in fold buffer (cmr_buffers r) w)"

definition example_run :: "('k, 'w) spdlog \<Rightarrow> ('a, 'l, 'w) session_host \<Rightarrow> (ExampleConfig \<Rightarrow> string \<Rightarrow> ExampleConfig CliOutcome) \<Rightarrow>
    ('k registry \<times> 'w, int) pcomp" where
  "example_run spd h cli rw =
     (case configure spd ''npu-client'' ''stderr'' ''info'' rw of
        (_, rw) \<Rightarrow>
          (case example_parse_args cli of
             Inl e \<Rightarrow> Some (Inl e, rw)
           | Inr (config, parse_status, exit_requested) \<Rightarrow>
               if exit_requested \<or> parse_status \<noteq> 0 then Some (Inr parse_status, rw)
               else
                 (case configure spd ''npu-client'' (exc_log_sink config) (exc_log_level config) rw of
                    (Inl e, rw) \<Rightarrow> Some (Inl e, rw)
                  | (Inr _, (registry, w)) \<Rightarrow>
                      (case example_body h config (Session.extend (new_session h) (ExampleState.fields []), w) of
                         None \<Rightarrow> None
                       | Some (r, (s, w)) \<Rightarrow>
                           Some (map_sum id (\<lambda>_. 0) r, (registry, session_destroy h s (fold (destroy_command h s) (exs_commands s) w)))))))"

definition example_main :: "('k, 'w) spdlog \<Rightarrow> ('a, 'l, 'w) session_host \<Rightarrow> (ExampleConfig \<Rightarrow> string \<Rightarrow> ExampleConfig CliOutcome) \<Rightarrow>
    'k registry \<times> 'w \<Rightarrow> (int \<times> 'k registry \<times> 'w) option" where
  "example_main spd h cli rw =
     (case example_run spd h cli rw of
        None \<Rightarrow> None
      | Some (Inl _, (registry, w)) \<Rightarrow> Some (1, (snd (logger spd ''npu-client'' registry), w))
      | Some (Inr status, rw) \<Rightarrow> Some (status, rw))"

section \<open>The server\<close>

record ServerConfig =
  svc_transport :: TransportConfig
  svc_clients :: u32
  svc_namespace_bytes :: u32
  svc_storage_commands :: u32
  svc_seed_pattern :: bool
  svc_verify_write_bytes :: u32
  svc_log_sink :: string
  svc_log_level :: string

definition default_server_config :: ServerConfig where
  "default_server_config =
     \<lparr>svc_transport = \<lparr>tcf_endpoint = \<lparr>ec_device_name = [], ec_port = 1, ec_gid_index = 0\<rparr>, tcf_max_qp_count = kMaxQpInfoBatch,
        tcf_completion_timeout_ms = 5000, tcf_listen_address = ''0.0.0.0:18515''\<rparr>,
      svc_clients = 1, svc_namespace_bytes = 1024 * 1024, svc_storage_commands = 1, svc_seed_pattern = False,
      svc_verify_write_bytes = 0, svc_log_sink = ''stderr'', svc_log_level = ''info''\<rparr>"

definition server_parse :: "(ServerConfig \<Rightarrow> ServerConfig CliOutcome) \<Rightarrow> ServerConfig \<times> int \<times> bool" where
  "server_parse cli =
     (case cli default_server_config of
        CliHelp status \<Rightarrow> (default_server_config, status, True)
      | CliError status \<Rightarrow> (default_server_config, status, False)
      | CliParsed config _ \<Rightarrow> (config, 0, False))"

text \<open>The namespace with the pattern, and the final test of its first bytes.\<close>

definition seed_pattern :: "nat \<Rightarrow> u8 list" where
  "seed_pattern n = map (\<lambda>index. pattern_byte (of_nat index)) [0..<n]"

definition verify_write :: "nat \<Rightarrow> u8 list \<Rightarrow> bool" where
  "verify_write n storage \<longleftrightarrow> list_all (\<lambda>index. storage ! index = pattern_byte (of_nat index)) [0..<n]"

text \<open>The default destructor of a transport of the server: the channel, the queue pairs and the endpoint.\<close>

definition transport_destroy :: "'w posix \<Rightarrow> 'w ibverbs \<Rightarrow> Transport \<Rightarrow> 'w \<Rightarrow> 'w" where
  "transport_destroy os lib t w =
     (let w = tcp_destroy os (tpt_exchange_channel t) w; w = fold (\<lambda>q w. snd (qp_reset lib q w)) (tpt_qps t) w
      in snd (endpoint_reset lib (tpt_endpoint t) w))"

text \<open>The outside of the server: \<open>svh_transport_this\<close> is the address of the endpoint of a transport on the stack.\<close>

record 'w server_host =
  svh_endian :: endian
  svh_os :: "'w posix"
  svh_lib :: "'w ibverbs"
  svh_process :: "'w process"
  svh_schedule :: "Worker list \<Rightarrow> Worker list"
  svh_transport_this :: u64

definition serve_client :: "'w server_host \<Rightarrow> ServerConfig \<Rightarrow> TransportListener \<Rightarrow> u64 \<Rightarrow> ('w, unit) pcomp" where
  "serve_client h config listener storage w =
     (case listener_accept (svh_endian h) (svh_os h) (svh_lib h) listener (Some (empty_transport (svh_transport_this h)), w) of
        None \<Rightarrow> None
      | Some (Inl e, (t, w)) \<Rightarrow> Some (Inl e, transport_destroy (svh_os h) (svh_lib h) (the t) w)
      | Some (Inr _, (t, w)) \<Rightarrow>
          (case serve_commands (svh_endian h) (svh_process h) (svh_lib h) (svh_schedule h) storage (ucast (svc_namespace_bytes config))
                  (svc_storage_commands config) (tcf_completion_timeout_ms (svc_transport config)) (the t, w) of
             None \<Rightarrow> None
           | Some (r, (t, w)) \<Rightarrow> Some (r, transport_destroy (svh_os h) (svh_lib h) t w)))"

text \<open>The part of \<open>main\<close> with the listener, which is destroyed on every way out; the result is the exit code.\<close>

definition server_body :: "'w server_host \<Rightarrow> ServerConfig \<Rightarrow> (TransportListener \<times> 'w, int) pcomp" where
  "server_body h config =
     pbind (plift (listener_open (svh_endian h) (svh_os h) (svc_transport config))) (\<lambda>_ (listener, w).
       case new_buffer (svh_process h) (unat (svc_namespace_bytes config)) w of
         (storage, w) \<Rightarrow>
           (let w = (if svc_seed_pattern config
                     then mem_put (svh_process h) storage (seed_pattern (unat (svc_namespace_bytes config))) w else w)
            in case pfor [0..<unat (svc_clients config)] (\<lambda>_. serve_client h config listener storage) w of
                 None \<Rightarrow> None
               | Some (Inl e, w) \<Rightarrow> Some (Inl e, (listener, w))
               | Some (Inr _, w) \<Rightarrow>
                   Some (Inr (if svc_verify_write_bytes config > svc_namespace_bytes config then 1
                              else if verify_write (unat (svc_verify_write_bytes config))
                                        (mem_get (svh_process h) storage (unat (svc_namespace_bytes config)) w) then 0 else 1), (listener, w))))"

definition server_main :: "('k, 'w) spdlog \<Rightarrow> 'w server_host \<Rightarrow> (ServerConfig \<Rightarrow> ServerConfig CliOutcome) \<Rightarrow> 'k registry \<times> 'w \<Rightarrow>
    (int \<times> 'k registry \<times> 'w) option" where
  "server_main spd h cli rw =
     (case configure spd ''cpu-server'' ''stderr'' ''info'' rw of
        (_, rw) \<Rightarrow>
          (case server_parse cli of
             (config, result, exit_requested) \<Rightarrow>
               if exit_requested \<or> result \<noteq> 0 then Some (result, rw)
               else
                 (case configure spd ''cpu-server'' (svc_log_sink config) (svc_log_level config) rw of
                    (Inl _, rw) \<Rightarrow> Some (1, rw)
                  | (Inr _, (registry, w)) \<Rightarrow>
                      (case server_body h config (\<lparr>tln_tcp_listener = \<lparr>tl_fd = -1\<rparr>, tln_config = svc_transport default_server_config\<rparr>, w) of
                         None \<Rightarrow> None
                       | Some (r, (listener, w)) \<Rightarrow>
                           Some (case r of Inl _ \<Rightarrow> 1 | Inr status \<Rightarrow> status,
                                 (registry, listener_destroy (svh_os h) (tln_tcp_listener listener) w))))))"

section \<open>Facts\<close>

lemma example_payload_nth: "k < unat n \<Longrightarrow> example_payload offset n ! k = pattern_byte (offset + of_nat k)"
  by (simp add: example_payload_def)

lemma verify_read_iff: "verify_read offset observed \<longleftrightarrow> (\<forall>k < length observed. observed ! k = pattern_byte (offset + of_nat k))"
  by (auto simp: verify_read_def list_all_iff)

lemma verify_write_iff: "verify_write n storage \<longleftrightarrow> (\<forall>k < n. storage ! k = pattern_byte (of_nat k))"
  by (auto simp: verify_write_def list_all_iff)

text \<open>The total of the guard does not wrap, since both factors have 32 bits.\<close>

lemma workload_total:
  "unat (ucast kStorageStressCommandCount * ucast (entries_per_command config) :: u64) = 32 * unat (entries_per_command config)"
proof -
  have "32 * unat (entries_per_command config) < 2 ^ 64" using unat_less_32 [of "entries_per_command config"] by simp
  then show ?thesis by (simp add: unat_word_ariths kStorageStressCommandCount_def)
qed

lemma operation_offset_exact:
  assumes "\<not> workload_overflows config" and "exc_bytes config \<noteq> 0" and "i < 32" and "e < unat (entries_per_command config)"
  shows "unat (operation_offset config i e) = unat (exc_offset config) + (i * unat (entries_per_command config) + e) * unat (exc_bytes config)"
proof -
  let ?n = "unat (entries_per_command config)" and ?b = "unat (exc_bytes config)"
  let ?total = "ucast kStorageStressCommandCount * ucast (entries_per_command config) :: u64"
  have t: "unat ?total = 32 * ?n" by (rule workload_total)
  have n: "0 < ?n" using assms(4) by simp
  then have t1: "unat (?total - 1) = 32 * ?n - 1" using t by (metis unat_minus_one unat_0 mult_eq_0_iff not_gr_zero zero_neq_numeral)
  have b: "unat (ucast (exc_bytes config) :: u64) = ?b" by simp
  have "?total - 1 \<le> UINT64_MAX div ucast (exc_bytes config)" and off: "exc_offset config \<le> UINT64_MAX - (?total - 1) * ucast (exc_bytes config)"
    using assms(1) by (auto simp: workload_overflows_def Let_def)
  then have "32 * ?n - 1 \<le> (2 ^ 64 - 1) div ?b" using t1 b by (simp add: word_le_nat_alt unat_div)
  then have fits: "(32 * ?n - 1) * ?b \<le> 2 ^ 64 - 1" using assms(2) by (meson div_times_less_eq_dividend le_trans mult_le_mono1)
  have m: "unat ((?total - 1) * ucast (exc_bytes config)) = (32 * ?n - 1) * ?b"
    using fits t1 by (subst unat_word_ariths(2)) (simp only: b, simp)
  have "unat (UINT64_MAX - (?total - 1) * ucast (exc_bytes config)) = 2 ^ 64 - 1 - (32 * ?n - 1) * ?b"
    using m fits by (subst unat_sub) (simp_all add: word_le_nat_alt)
  then have sum: "unat (exc_offset config) + (32 * ?n - 1) * ?b \<le> 2 ^ 64 - 1" using off fits by (simp add: word_le_nat_alt)
  have k: "i * ?n + e < 32 * ?n" by (rule entry_index_less [OF assms(3,4)])
  then have "(i * ?n + e) * ?b \<le> (32 * ?n - 1) * ?b" by (intro mult_le_mono1) simp
  from order_trans [OF add_left_mono [OF this] sum] have lt: "unat (exc_offset config) + (i * ?n + e) * ?b < 2 ^ 64" by simp
  have "operation_offset config i e = of_nat (unat (exc_offset config) + (i * ?n + e) * ?b)"
    by (simp add: operation_offset_def Let_def)
  then show ?thesis using lt by (simp only: unat_of_nat) (simp add: take_bit_eq_mod)
qed

text \<open>C39: what the example client writes is what it and the server verify. A workload that passes the guard computes every offset
  without wrap-around, and no two of its entries overlap. The payload of an entry passes the verification of a
  read at the same offset; so does every range read from a namespace that the server seeded, and such a namespace passes the
  server's own verification.\<close>

theorem example_workload_verifies:
  assumes "\<not> workload_overflows config" and "exc_bytes config \<noteq> 0" and "i < 32" and "e < unat (entries_per_command config)"
  shows "unat (operation_offset config i e) = unat (exc_offset config) + (i * unat (entries_per_command config) + e) * unat (exc_bytes config)
    \<and> (\<forall>i' e'. i' < 32 \<longrightarrow> e' < unat (entries_per_command config) \<longrightarrow> (i', e') \<noteq> (i, e) \<longrightarrow>
        unat (operation_offset config i e) + unat (exc_bytes config) \<le> unat (operation_offset config i' e')
        \<or> unat (operation_offset config i' e') + unat (exc_bytes config) \<le> unat (operation_offset config i e))
    \<and> verify_read (operation_offset config i e) (example_payload (operation_offset config i e) (exc_bytes config))
    \<and> (\<forall>n. unat (operation_offset config i e) + unat (exc_bytes config) \<le> n \<longrightarrow>
        verify_read (operation_offset config i e) (take (unat (exc_bytes config)) (drop (unat (operation_offset config i e)) (seed_pattern n)))
        \<and> verify_write n (seed_pattern n))"
proof -
  let ?o = "operation_offset config i e" and ?b = "unat (exc_bytes config)"
  note exact = operation_offset_exact [OF assms(1,2)]
  have "unat ?o + ?b \<le> unat (operation_offset config i' e') \<or> unat (operation_offset config i' e') + ?b \<le> unat ?o"
    if "i' < 32" "e' < unat (entries_per_command config)" "(i', e') \<noteq> (i, e)" for i' e'
    using blocks_apart [of "i * unat (entries_per_command config) + e" "i' * unat (entries_per_command config) + e'" ?b]
      entry_index_inj [OF _ assms(4) that(2)] that(3)
    unfolding exact [OF assms(3,4)] exact [OF that(1,2)] by auto
  moreover have "verify_read ?o (example_payload ?o (exc_bytes config))"
    by (simp add: verify_read_iff example_payload_nth) (simp add: example_payload_def)
  moreover have "verify_read ?o (take ?b (drop (unat ?o) (seed_pattern n)))" if "unat ?o + ?b \<le> n" for n
    using that by (simp add: verify_read_iff seed_pattern_def)
  moreover have "verify_write n (seed_pattern n)" for n by (simp add: verify_write_iff seed_pattern_def)
  ultimately show ?thesis using exact [OF assms(3,4)] by blast
qed

definition sample_example_config :: ExampleConfig where
  "sample_example_config = default_example_config\<lparr>exc_operation := ''batch-write'', exc_offset := 100\<rparr>"

lemma sample_workload: "\<not> workload_overflows sample_example_config" "exc_bytes sample_example_config \<noteq> 0"
  "entries_per_command sample_example_config = 2"
  by (simp_all add: workload_overflows_def Let_def entries_per_command_def is_batch_def sample_example_config_def default_example_config_def
      kStorageStressCommandCount_def)

theorem example_workload_verifies_witness:
  "unat (operation_offset sample_example_config 3 1) = 100 + 7 * 4096
    \<and> verify_read (operation_offset sample_example_config 3 1) (example_payload (operation_offset sample_example_config 3 1) 4096)"
  using example_workload_verifies [OF sample_workload(1,2), of 3 1, unfolded sample_workload(3)]
  by (simp add: sample_example_config_def default_example_config_def)

section \<open>The windows\<close>

text \<open>The windows of a step: where each begins and ends.\<close>

definition window_bounds :: "nat \<Rightarrow> nat \<Rightarrow> nat \<times> nat" where
  "window_bounds n k = (k * n, min 32 (k * n + n))"

lemma windows_cover:
  assumes "0 < n"
  shows "concat (map (\<lambda>k. [fst (window_bounds n k)..<snd (window_bounds n k)]) [0..<m]) = [0..<min 32 (m * n)]"
proof (induction m)
  case (Suc m)
  have "[0..<min 32 (m * n)] @ [m * n..<min 32 (m * n + n)] = [0..<min 32 (Suc m * n)]"
  proof (cases "m * n \<le> 32")
    case True
    then have "min 32 (m * n) = m * n" "m * n \<le> min 32 (m * n + n)" by simp_all
    then show ?thesis using upt_add_eq_append [of 0 "m * n" "min 32 (m * n + n) - m * n"] by (simp add: add.commute)
  qed simp
  with Suc show ?case by (simp add: window_bounds_def)
qed simp

lemma ucast_of_nat_u32: "ucast (of_nat m :: u64) = (of_nat m :: u32)"
  by (simp add: word_unat_eq_iff unat_of_nat unsigned_ucast_eq take_bit_eq_mod mod_mod_cancel)

lemma ucast_of_nat_u64: "m < 2 ^ 32 \<Longrightarrow> ucast (of_nat m :: u32) = (of_nat m :: u64)"
  by (simp add: word_unat_eq_iff unat_of_nat unsigned_ucast_eq take_bit_nat_eq_self)

lemma example_windows_from:
  assumes n: "0 < n" "n < 2 ^ 16" and k: "k * n < 32 + n"
  shows "example_windows body (of_nat n) (of_nat (k * n)) s =
    pfor [k..<(31 + n) div n] (\<lambda>k. body (fst (window_bounds n k)) (snd (window_bounds n k))) s"
  using k
proof (induction "(31 + n) div n - k" arbitrary: k s)
  case 0
  have "\<not> k < (31 + n) div n" using 0 by simp
  moreover have "k < (31 + n) div n \<longleftrightarrow> k * n \<le> 31" using less_eq_div_iff_mult_less_eq [OF n(1), of "Suc k" "31 + n"] by (simp add: Suc_le_eq)
  ultimately have ge: "32 \<le> k * n" by simp
  have "unat (of_nat (k * n) :: u32) = k * n" using 0(2) n(2) by (intro unat_of_small(1)) simp
  with ge have "\<not> (of_nat (k * n) :: u32) < kStorageStressCommandCount" by (simp add: word_less_nat_alt kStorageStressCommandCount_def)
  with 0 show ?case by (subst example_windows.simps) simp
next
  case (Suc m)
  have lt: "k < (31 + n) div n" using Suc.hyps(2) by simp
  then have le: "k * n \<le> 31" using less_eq_div_iff_mult_less_eq [OF n(1), of "Suc k" "31 + n"] by (simp add: Suc_le_eq)
  have u: "unat (of_nat (k * n) :: u32) = k * n" using le by (intro unat_of_small(1)) simp
  then have s: "(of_nat (k * n) :: u32) < kStorageStressCommandCount" using le by (simp add: word_less_nat_alt kStorageStressCommandCount_def)
  have e: "ucast (ucast (of_nat (k * n) :: u32) + of_nat n :: u64) = (of_nat (k * n + n) :: u32)"
  proof -
    have "ucast (of_nat (k * n) :: u32) = (of_nat (k * n) :: u64)" by (rule ucast_of_nat_u64) (use le in simp)
    then have "ucast (of_nat (k * n) :: u32) + of_nat n = (of_nat (k * n + n) :: u64)" by simp
    then show ?thesis by (simp only: ucast_of_nat_u32)
  qed
  have "unat (of_nat (k * n + n) :: u32) = k * n + n" using le n(2) by (intro unat_of_small(1)) simp
  then have b: "unat (min kStorageStressCommandCount (of_nat (k * n + n))) = min 32 (k * n + n)"
    by (simp add: min_def word_le_nat_alt kStorageStressCommandCount_def)
  have nx: "(of_nat (k * n) :: u32) + ucast (of_nat n :: u64) = of_nat (Suc k * n)" by (simp add: ucast_of_nat_u32)
  have rest: "example_windows body (of_nat n) (of_nat (Suc k * n)) t =
      pfor [Suc k..<(31 + n) div n] (\<lambda>k. body (fst (window_bounds n k)) (snd (window_bounds n k))) t" for t
    by (rule Suc.hyps(1)) (use Suc.hyps(2) le in simp_all)
  have up: "[k..<(31 + n) div n] = k # [Suc k..<(31 + n) div n]" using lt by (rule upt_conv_Cons)
  show ?case
    unfolding example_windows.simps [of body _ "of_nat (k * n)"] if_P [OF s] e b u nx rest up pfor.simps
    by (simp only: window_bounds_def fst_conv snd_conv pbind_def)
qed

text \<open>
  The loop of the example client ends: with at least one slot, it runs its windows one after the other, each command
  of the workload is in exactly one of them, and they are in the order of the commands.
\<close>

theorem example_windows_run:
  assumes "0 < n" and "n < 2 ^ 16"
  shows "example_windows body (of_nat n) 0 s =
      pfor [0..<(31 + n) div n] (\<lambda>k. body (fst (window_bounds n k)) (snd (window_bounds n k))) s
    \<and> concat (map (\<lambda>k. [fst (window_bounds n k)..<snd (window_bounds n k)]) [0..<(31 + n) div n]) = [0..<32]"
proof
  show "example_windows body (of_nat n) 0 s = pfor [0..<(31 + n) div n] (\<lambda>k. body (fst (window_bounds n k)) (snd (window_bounds n k))) s"
    using example_windows_from [OF assms, of 0 body s] by simp
  have "(31 + n) div n * n + (31 + n) mod n = 31 + n" by (rule div_mult_mod_eq)
  with mod_less_divisor [OF assms(1), of "31 + n"] have "32 \<le> (31 + n) div n * n" by linarith
  then show "concat (map (\<lambda>k. [fst (window_bounds n k)..<snd (window_bounds n k)]) [0..<(31 + n) div n]) = [0..<32]"
    using windows_cover [OF assms(1)] by simp
qed

end
