(* ===== verification/Transport_Example.thy ===== *)
theory Transport_Example
  imports Storage_Example
begin

text \<open>
  The transport example programs, \<^verbatim>\<open>src/examples/transport/client.cc\<close> and \<^verbatim>\<open>server.cc\<close>, and the records that they and the
  verbs examples exchange over TCP (\<^verbatim>\<open>src/examples/verbs/wire.hh\<close>). The client runs one kind of request 65536 times
  on queue 0 and the server is its peer; signals of one byte on the exchange channel keep the two in step.
\<close>

section \<open>Records on the exchange channel\<close>

definition remote_memory_of_bytes :: "endian \<Rightarrow> u8 list \<Rightarrow> WireRemoteMemory" where
  "remote_memory_of_bytes e bs = \<lparr>wm_magic = load32 e bs 0, wm_version = load16 e bs 4, wm_reserved0 = load16 e bs 6,
     wm_address = load64 e bs 8, wm_length = load32 e bs 16, wm_remote_key = load32 e bs 20, wm_reserved = take 8 (drop 24 bs)\<rparr>"

definition send_qp_record :: "endian \<Rightarrow> 'w posix \<Rightarrow> TcpConnection \<Rightarrow> QpInfo \<Rightarrow> ('w, unit) pcomp" where
  "send_qp_record e os channel info =
     (case encode_qp_info e (Some info) (Some zero_wire_qp_info) of
        (result, encoded) \<Rightarrow> if result \<noteq> CodecOk then pfail kTransport else tcp_send os channel (qp_info_bytes e (the encoded)))"

definition decode_qp_record :: "endian \<Rightarrow> u8 list \<Rightarrow> ('w, QpInfo) pcomp" where
  "decode_qp_record e bytes =
     (case decode_qp_info e (Some (qp_info_of_bytes e bytes)) (Some zero_qp_info) of
        (result, info) \<Rightarrow> if result \<noteq> CodecOk then pfail kTransport else pret (the info))"

definition exchange_client_qp :: "endian \<Rightarrow> 'w posix \<Rightarrow> TcpConnection \<Rightarrow> QpInfo \<Rightarrow> ('w, QpInfo) pcomp" where
  "exchange_client_qp e os channel info =
     pbind (send_qp_record e os channel info) (\<lambda>_. pbind (tcp_receive os channel 80) (decode_qp_record e))"

definition exchange_server_qp :: "endian \<Rightarrow> 'w posix \<Rightarrow> TcpConnection \<Rightarrow> QpInfo \<Rightarrow> ('w, QpInfo) pcomp" where
  "exchange_server_qp e os channel info =
     pbind (tcp_receive os channel 80) (\<lambda>bytes. pbind (send_qp_record e os channel info) (\<lambda>_. decode_qp_record e bytes))"

definition send_barrier :: "'w posix \<Rightarrow> TcpConnection \<Rightarrow> ('w, unit) pcomp" where
  "send_barrier os channel = tcp_send os channel [1]"

definition wait_barrier :: "'w posix \<Rightarrow> TcpConnection \<Rightarrow> ('w, unit) pcomp" where
  "wait_barrier os channel = pbind (tcp_receive os channel 1) (\<lambda>bytes. if bytes = [1] then pret () else pfail kTransport)"

definition zero_remote_memory :: RemoteMemory where
  "zero_remote_memory = \<lparr>rm_address = 0, rm_length = 0, rm_remote_key = 0\<rparr>"

definition receive_remote_memory :: "endian \<Rightarrow> 'w posix \<Rightarrow> TcpConnection \<Rightarrow> ('w, RemoteMemory) pcomp" where
  "receive_remote_memory e os channel =
     pbind (tcp_receive os channel 32) (\<lambda>bytes.
       case decode_remote_memory e (Some (remote_memory_of_bytes e bytes)) (Some zero_remote_memory) of
         (result, memory) \<Rightarrow> if result \<noteq> CodecOk then pfail kTransport else pret (the memory))"

definition send_remote_memory :: "endian \<Rightarrow> 'w posix \<Rightarrow> TcpConnection \<Rightarrow> RemoteMemory \<Rightarrow> ('w, unit) pcomp" where
  "send_remote_memory e os channel memory =
     (case encode_remote_memory e (Some memory) (Some zero_wire_remote_memory) of
        (result, encoded) \<Rightarrow> if result \<noteq> CodecOk then pfail kTransport else tcp_send os channel (remote_memory_bytes e (the encoded)))"

text \<open>The same functions of the transport examples take the channel by pointer.\<close>

definition by_pointer :: "(TcpConnection \<Rightarrow> ('w, 'a) pcomp) \<Rightarrow> TcpConnection option \<Rightarrow> ('w, 'a) pcomp" where
  "by_pointer f channel = (case channel of None \<Rightarrow> pfail kInvalidArgument | Some ch \<Rightarrow> f ch)"

definition send_control_signal :: "'w posix \<Rightarrow> TcpConnection option \<Rightarrow> ('w, unit) pcomp" where
  "send_control_signal os = by_pointer (send_barrier os)"

definition wait_control_signal :: "'w posix \<Rightarrow> TcpConnection option \<Rightarrow> ('w, unit) pcomp" where
  "wait_control_signal os = by_pointer (wait_barrier os)"

definition receive_published_memory :: "endian \<Rightarrow> 'w posix \<Rightarrow> TcpConnection option \<Rightarrow> ('w, RemoteMemory) pcomp" where
  "receive_published_memory e os = by_pointer (receive_remote_memory e os)"

definition publish_memory :: "endian \<Rightarrow> 'w posix \<Rightarrow> TcpConnection option \<Rightarrow> MemoryRegion \<Rightarrow> ('w, unit) pcomp" where
  "publish_memory e os channel region =
     (if channel = None \<or> region_address region = 0 \<or> region_length region = 0 \<or> region_length region > ucast UINT32_MAX
        \<or> region_remote_key region = 0
      then pfail kInvalidArgument
      else send_remote_memory e os (the channel)
             \<lparr>rm_address = region_address region, rm_length = ucast (region_length region), rm_remote_key = region_remote_key region\<rparr>)"

section \<open>The payload\<close>

definition kTransportBytes :: nat where "kTransportBytes = 64"
definition kTransportStressWrCount :: u32 where "kTransportStressWrCount = 65536"
definition kTransportReceiveWindow :: u32 where "kTransportReceiveWindow = 16"

definition payload_byte :: "nat \<Rightarrow> u8" where
  "payload_byte index = ucast ((of_nat (index mod kTransportBytes) :: u64) XOR 0x5a)"

definition expected_payload :: "nat \<Rightarrow> u8 list" where
  "expected_payload bytes = map payload_byte [0..<bytes]"

definition verify_received :: "u8 list \<Rightarrow> bool" where
  "verify_received bytes \<longleftrightarrow> bytes = expected_payload (length bytes)"

datatype TransportOperation = TransportSend | TransportRecv | TransportRead | TransportWrite

text \<open>The programs test the operation name after the parser accepted it; anything else is a send.\<close>

definition transport_operation :: "string \<Rightarrow> TransportOperation" where
  "transport_operation operation =
     (if operation = ''recv'' then TransportRecv else if operation = ''read'' then TransportRead
      else if operation = ''write'' then TransportWrite else TransportSend)"

text \<open>Parsing ends with a request for help, which is an error with a message of its own, with an error, or with a configuration.\<close>

datatype 'c Parsed = ParsedHelp | ParsedInvalid | ParsedConfig 'c

definition parse_failure :: "int \<Rightarrow> 'c Parsed" where
  "parse_failure status = (if status = 0 then ParsedHelp else ParsedInvalid)"

section \<open>The client\<close>

record TransportClientConfig =
  tcc_runtime :: RuntimeConfig
  tcc_transport :: ClientTransportConfig
  tcc_mode :: BackendMode
  tcc_artifact :: string
  tcc_operation :: TransportOperation

definition default_transport_client_config :: TransportClientConfig where
  "default_transport_client_config = \<lparr>tcc_runtime = default_runtime_config, tcc_transport = default_transport_config [], tcc_mode = ModeRa,
     tcc_artifact = [], tcc_operation = TransportSend\<rparr>"

text \<open>The parser sets the names of the backend and of the operation.\<close>

definition transport_client_parse :: "(TransportClientConfig \<Rightarrow> (TransportClientConfig \<times> string) CliOutcome) \<Rightarrow> TransportClientConfig Parsed" where
  "transport_client_parse cli =
     (case cli default_transport_client_config of
        CliHelp status \<Rightarrow> parse_failure status
      | CliError status \<Rightarrow> parse_failure status
      | CliParsed (config, operation) backend \<Rightarrow>
          (let config = config\<lparr>tcc_mode := (if backend = ''aiv'' then ModeAiv else if backend = ''aicpu'' then ModeAicpu else tcc_mode config)\<rparr>
           in if tcc_artifact config = [] then ParsedInvalid else ParsedConfig (config\<lparr>tcc_operation := transport_operation operation\<rparr>)))"

record 'l TransportClientState = "'l Session" +
  tcs_buffer :: MemoryBuffer
  tcs_region :: ClientRegion

definition prepare_payload :: "'w cann \<Rightarrow> Runtime option \<Rightarrow> bool \<Rightarrow> ('w, MemoryBuffer) comp" where
  "prepare_payload acl runtime initialize =
     (case runtime of
        None \<Rightarrow> rfail kInvalidArgument
      | Some rt \<Rightarrow>
          rbind (runtime_allocate acl rt (of_nat kTransportBytes) LocDevice) (\<lambda>buffer w.
            if initialize then
              (case runtime_copy_to acl rt buffer (HBytes (expected_payload kTransportBytes)) w of
                 (Inl e, w) \<Rightarrow> (Inl e, snd (buffer_reset acl rt buffer w))
               | (Inr _, w) \<Rightarrow> (Inr buffer, w))
            else (Inr buffer, w)))"

definition verify_payload :: "'w cann \<Rightarrow> Runtime option \<Rightarrow> MemoryBuffer \<Rightarrow> ('w, unit) comp" where
  "verify_payload acl runtime buffer =
     (case runtime of
        None \<Rightarrow> rfail kInvalidArgument
      | Some rt \<Rightarrow>
          rbind (runtime_copy_from acl rt buffer (unat (mb_size buffer))) (\<lambda>observed.
            if verify_received observed then rret () else rfail kRuntime))"

text \<open>What the operations share: the view of the launcher, the queue and the one registered buffer.\<close>

record ('l, 'w) transport_run =
  trn_endian :: endian
  trn_os :: "'w posix"
  trn_acl :: "'w cann"
  trn_runtime :: Runtime
  trn_transport :: ClientTransport
  trn_view :: "('l \<times> 'w) ConfiguredLauncherView"
  trn_queue :: u32
  trn_region :: ClientRegion
  trn_buffer :: MemoryBuffer

definition transport_view :: "('l \<times> 'w) LauncherOps \<Rightarrow> u64 \<Rightarrow> ('l \<times> 'w) ConfiguredLauncherView" where
  "transport_view ops stream = with_config ops (default_launch_config\<lparr>lc_block_dim := 1, lc_stream := stream, lc_sync := True, lc_sync_timeout_ms := 5000\<rparr>)"

definition local_sge :: "('l, 'w) transport_run \<Rightarrow> nat \<Rightarrow> NdsSge" where
  "local_sge t n = \<lparr>sg_address = mi_address (crg_info (trn_region t)), sg_length = of_nat n, sg_local_key = mi_local_key (crg_info (trn_region t))\<rparr>"

definition stress_wr :: "('l, 'w) transport_run \<Rightarrow> u32 \<Rightarrow> nat \<Rightarrow> RemoteMemory \<Rightarrow> nat \<Rightarrow> NdsSendWr" where
  "stress_wr t opcode n remote wr_id = \<lparr>sw_wr_id = of_nat wr_id, sw_opcode = opcode, sw_flags = 0, sw_local = local_sge t n,
     sw_remote_address = rm_address remote, sw_remote_key = rm_remote_key remote\<rparr>"

definition device_transport :: "('l, 'w) transport_run \<Rightarrow> NdsTransportDescriptor" where
  "device_transport t = ctp_device_transport (trn_transport t)"

definition run_channel :: "('l, 'w) transport_run \<Rightarrow> TcpConnection option" where
  "run_channel t = Some (ctp_exchange_channel (trn_transport t))"

definition on_net :: "('w, 'a) pcomp \<Rightarrow> ('l \<times> 'w, 'a) pcomp" where
  "on_net m = (\<lambda>(l, w). case m w of None \<Rightarrow> None | Some (r, w) \<Rightarrow> Some (r, (l, w)))"

definition run_send :: "('l, 'w) transport_run \<Rightarrow> ('l \<times> 'w, unit) pcomp" where
  "run_send t =
     pbind (pfor [0..<unat kTransportStressWrCount] (\<lambda>index.
       view_rdma_send (trn_view t) (device_transport t) (trn_queue t)
         (stress_wr t NDS_WR_SEND kTransportBytes zero_remote_memory (index + 1)))) (\<lambda>_.
     on_net (wait_control_signal (trn_os t) (run_channel t)))"

text \<open>The windows of the receiving side: both programs count them alike.\<close>

definition receive_windows :: "(nat \<times> nat) list" where
  "receive_windows = map (\<lambda>k. (k * 16, min 16 (unat kTransportStressWrCount - k * 16))) [0..<unat (kTransportStressWrCount div kTransportReceiveWindow)]"

definition run_receive :: "('l, 'w) transport_run \<Rightarrow> ('l \<times> 'w, unit) pcomp" where
  "run_receive t =
     pbind (pfor receive_windows (\<lambda>(start, count).
       pbind (pfor [0..<count] (\<lambda>index.
         view_rdma_recv (trn_view t) (device_transport t) (trn_queue t)
           \<lparr>rw_wr_id = of_nat (start + index + 1), rw_local = local_sge t kTransportBytes\<rparr>)) (\<lambda>_.
       pbind (on_net (send_control_signal (trn_os t) (run_channel t))) (\<lambda>_.
       on_net (wait_control_signal (trn_os t) (run_channel t)))))) (\<lambda>_.
     on_net (plift (verify_payload (trn_acl t) (Some (trn_runtime t)) (trn_buffer t))))"

definition run_read :: "('l, 'w) transport_run \<Rightarrow> ('l \<times> 'w, unit) pcomp" where
  "run_read t =
     pbind (on_net (receive_published_memory (trn_endian t) (trn_os t) (run_channel t))) (\<lambda>remote.
     pbind (pfor [0..<unat kTransportStressWrCount] (\<lambda>index.
       view_rdma_read (trn_view t) (device_transport t) (trn_queue t) (stress_wr t NDS_WR_RDMA_READ kTransportBytes remote (index + 1)))) (\<lambda>_.
     pbind (on_net (send_control_signal (trn_os t) (run_channel t))) (\<lambda>_.
     on_net (plift (verify_payload (trn_acl t) (Some (trn_runtime t)) (trn_buffer t))))))"

definition run_write :: "('l, 'w) transport_run \<Rightarrow> ('l \<times> 'w, unit) pcomp" where
  "run_write t =
     pbind (on_net (receive_published_memory (trn_endian t) (trn_os t) (run_channel t))) (\<lambda>remote.
     pbind (pfor [0..<unat kTransportStressWrCount] (\<lambda>index.
       view_rdma_write (trn_view t) (device_transport t) (trn_queue t) (stress_wr t NDS_WR_RDMA_WRITE kTransportBytes remote (index + 1)))) (\<lambda>_.
     view_rdma_send (trn_view t) (device_transport t) (trn_queue t)
       (stress_wr t NDS_WR_SEND 1 zero_remote_memory (unat kTransportStressWrCount + 1))))"

definition run_operation :: "TransportOperation \<Rightarrow> ('l, 'w) transport_run \<Rightarrow> ('l \<times> 'w, unit) pcomp" where
  "run_operation operation t =
     (case operation of TransportSend \<Rightarrow> run_send t | TransportRecv \<Rightarrow> run_receive t | TransportRead \<Rightarrow> run_read t | TransportWrite \<Rightarrow> run_write t)"

text \<open>The stream is guarded once it is made; the storage client of the record is not used.\<close>

definition transport_client_body :: "('a, 'l, 'w) session_host \<Rightarrow> TransportClientConfig \<Rightarrow> ('l TransportClientState \<times> 'w, unit) pcomp" where
  "transport_client_body h config =
     pbind (open_runtime_part h (tcc_runtime config)) (\<lambda>_.
     pbind (open_transport_part h (tcc_transport config) (tcc_mode config)) (\<lambda>_.
     pbind (open_launcher_part h (tcc_mode config) (tcc_artifact config)) (\<lambda>_.
     pbind (\<lambda>(s, w). case prepare_payload (sh_acl h) (Some (ses_runtime s)) (tcc_operation config \<in> {TransportSend, TransportWrite}) w of
              (Inl e, w) \<Rightarrow> Some (Inl e, (s, w)) | (Inr b, w) \<Rightarrow> Some (Inr (), (s\<lparr>tcs_buffer := b\<rparr>, w))) (\<lambda>_.
     pbind (\<lambda>(s, w). case client_register_memory (sh_ra h) (ses_runtime s) (ses_transport s) (tcs_buffer s) LocalWrite_RemoteWrite_RemoteRead w of
              (Inl e, w) \<Rightarrow> Some (Inl e, (s, w)) | (Inr g, w) \<Rightarrow> Some (Inr (), (s\<lparr>tcs_region := g\<rparr>, w))) (\<lambda>_.
     pbind (benchmark_stream h (tcc_mode config)) (\<lambda>_ (s, w).
       on_part (\<lambda>s. the (ses_launcher s)) (\<lambda>x s. s\<lparr>ses_launcher := Some x\<rparr>)
         (run_operation (tcc_operation config)
            \<lparr>trn_endian = sh_endian h, trn_os = sh_os h, trn_acl = sh_acl h, trn_runtime = ses_runtime s, trn_transport = ses_transport s,
             trn_view = transport_view (bk_ops (sh_backend h)) (ses_stream s), trn_queue = 0, trn_region = tcs_region s,
             trn_buffer = tcs_buffer s\<rparr>) (s, w)))))))"

definition transport_client_destroy :: "('a, 'l, 'w) session_host \<Rightarrow> 'l TransportClientState \<Rightarrow> 'w \<Rightarrow> 'w" where
  "transport_client_destroy h s w =
     (let w = (if ses_stream s \<noteq> 0 then snd (aclrtDestroyStream (sh_dev h) (ses_stream s) w) else w);
          w = snd (client_region_reset (sh_ra h) (ctp_endpoint (ses_transport s)) (tcs_region s) w);
          w = snd (buffer_reset (sh_acl h) (ses_runtime s) (tcs_buffer s) w)
      in session_members_destroy h s w)"

definition transport_client_main :: "('k, 'w) spdlog \<Rightarrow> ('a, 'l, 'w) session_host \<Rightarrow>
    (TransportClientConfig \<Rightarrow> (TransportClientConfig \<times> string) CliOutcome) \<Rightarrow> 'k registry \<times> 'w \<Rightarrow> (int \<times> 'k registry \<times> 'w) option" where
  "transport_client_main spd h cli rw =
     (case configure spd ''transport-client'' ''stderr'' ''info'' rw of
        (_, (registry, w)) \<Rightarrow>
          (let logged = snd (logger spd ''transport-client'' registry) in
           case transport_client_parse cli of
             ParsedHelp \<Rightarrow> Some (0, (registry, w))
           | ParsedInvalid \<Rightarrow> Some (1, (logged, w))
           | ParsedConfig config \<Rightarrow>
               (case transport_client_body h config
                       (Session.extend (new_session h) (TransportClientState.fields empty_buffer empty_client_region), w) of
                  None \<Rightarrow> None
                | Some (r, (s, w)) \<Rightarrow> Some (if ok r then 0 else 1, (logged, transport_client_destroy h s w)))))"

section \<open>The server\<close>

record TransportServerConfig =
  tsc_transport :: TransportConfig
  tsc_operation :: TransportOperation
  tsc_log_sink :: string
  tsc_log_level :: string

definition default_transport_server_config :: TransportServerConfig where
  "default_transport_server_config = \<lparr>tsc_transport = svc_transport default_server_config, tsc_operation = TransportSend,
     tsc_log_sink = ''stderr'', tsc_log_level = ''info''\<rparr>"

definition transport_server_parse :: "(TransportServerConfig \<Rightarrow> TransportServerConfig CliOutcome) \<Rightarrow> TransportServerConfig Parsed" where
  "transport_server_parse cli =
     (case cli default_transport_server_config of
        CliHelp status \<Rightarrow> parse_failure status
      | CliError status \<Rightarrow> parse_failure status
      | CliParsed config operation \<Rightarrow> ParsedConfig (config\<lparr>tsc_operation := transport_operation operation\<rparr>))"

text \<open>A buffer of the stack or of a vector with its registration, which ends with the function.\<close>

definition with_region :: "'w server_host \<Rightarrow> u8 list \<Rightarrow> MemoryAccess \<Rightarrow> (u64 \<Rightarrow> MemoryRegion \<Rightarrow> (Transport \<times> 'w, 'a) pcomp) \<Rightarrow> (Transport \<times> 'w, 'a) pcomp" where
  "with_region h bytes access f = (\<lambda>(t, w).
     case new_object (svh_process h) (length bytes) w of
       (address, w) \<Rightarrow>
         (case register_memory (svh_lib h) address (of_nat (length bytes)) access (t, mem_put (svh_process h) address bytes w) of
            (Inl e, s) \<Rightarrow> Some (Inl e, s)
          | (Inr region, s) \<Rightarrow> scoped_region (svh_lib h) region (f address region) s))"

definition verify_buffer :: "'w server_host \<Rightarrow> u64 \<Rightarrow> (Transport \<times> 'w, unit) pcomp" where
  "verify_buffer h address = (\<lambda>(t, w).
     Some (if verify_received (mem_get (svh_process h) address kTransportBytes w) then Inr () else Inl kRuntime, (t, w)))"

definition on_channel :: "(TcpConnection option \<Rightarrow> ('w, 'a) pcomp) \<Rightarrow> (Transport \<times> 'w, 'a) pcomp" where
  "on_channel f = (\<lambda>(t, w). on_world (f (Some (tpt_exchange_channel t))) (t, w))"

definition serve_send :: "'w server_host \<Rightarrow> u32 \<Rightarrow> (Transport \<times> 'w, unit) pcomp" where
  "serve_send h timeout_ms =
     with_region h (replicate kTransportBytes 0) LocalWrite (\<lambda>address region.
       pbind (pfor [0..<unat kTransportStressWrCount] (\<lambda>_.
         pbind (transport_post_receive0 (svh_lib h) region) (\<lambda>_.
         pbind (transport_wait_receive0 (svh_lib h) timeout_ms) (\<lambda>_. verify_buffer h address)))) (\<lambda>_.
       on_channel (send_control_signal (svh_os h))))"

definition serve_receive :: "'w server_host \<Rightarrow> (Transport \<times> 'w, unit) pcomp" where
  "serve_receive h =
     with_region h (expected_payload kTransportBytes) LocalRead (\<lambda>_ region.
       pfor receive_windows (\<lambda>(_, count).
         pbind (on_channel (wait_control_signal (svh_os h))) (\<lambda>_.
         pbind (pfor [0..<count] (\<lambda>_. transport_send0 (svh_lib h) region (of_nat kTransportBytes))) (\<lambda>_.
         on_channel (send_control_signal (svh_os h))))))"

definition serve_read :: "'w server_host \<Rightarrow> (Transport \<times> 'w, unit) pcomp" where
  "serve_read h =
     with_region h (expected_payload kTransportBytes) RemoteRead (\<lambda>_ region.
       pbind (on_channel (\<lambda>channel. publish_memory (svh_endian h) (svh_os h) channel region)) (\<lambda>_.
       on_channel (wait_control_signal (svh_os h))))"

definition serve_write :: "'w server_host \<Rightarrow> u32 \<Rightarrow> (Transport \<times> 'w, unit) pcomp" where
  "serve_write h timeout_ms =
     with_region h [0] LocalWrite (\<lambda>_ control_region.
       pbind (transport_post_receive0 (svh_lib h) control_region) (\<lambda>_.
       with_region h (replicate kTransportBytes 0) RemoteWrite (\<lambda>address region.
         pbind (on_channel (\<lambda>channel. publish_memory (svh_endian h) (svh_os h) channel region)) (\<lambda>_.
         pbind (transport_wait_receive0 (svh_lib h) timeout_ms) (\<lambda>_. verify_buffer h address)))))"

text \<open>The pointer to the transport is never null.\<close>

definition serve_operation :: "'w server_host \<Rightarrow> TransportOperation \<Rightarrow> u32 \<Rightarrow> (Transport \<times> 'w, unit) pcomp" where
  "serve_operation h operation timeout_ms =
     (case operation of
        TransportSend \<Rightarrow> serve_send h timeout_ms | TransportRecv \<Rightarrow> serve_receive h
      | TransportRead \<Rightarrow> serve_read h | TransportWrite \<Rightarrow> serve_write h timeout_ms)"

definition transport_server_body :: "'w server_host \<Rightarrow> TransportServerConfig \<Rightarrow> (TransportListener \<times> 'w, unit) pcomp" where
  "transport_server_body h config =
     pbind (plift (listener_open (svh_endian h) (svh_os h) (tsc_transport config))) (\<lambda>_ (listener, w).
       case listener_accept (svh_endian h) (svh_os h) (svh_lib h) listener (Some (empty_transport (svh_transport_this h)), w) of
         None \<Rightarrow> None
       | Some (Inl e, (t, w)) \<Rightarrow> Some (Inl e, (listener, transport_destroy (svh_os h) (svh_lib h) (the t) w))
       | Some (Inr _, (t, w)) \<Rightarrow>
           (case serve_operation h (tsc_operation config) (tcf_completion_timeout_ms (tsc_transport config)) (the t, w) of
              None \<Rightarrow> None
            | Some (r, (t, w)) \<Rightarrow> Some (r, (listener, transport_destroy (svh_os h) (svh_lib h) t w))))"

definition transport_server_main :: "('k, 'w) spdlog \<Rightarrow> 'w server_host \<Rightarrow> (TransportServerConfig \<Rightarrow> TransportServerConfig CliOutcome) \<Rightarrow>
    'k registry \<times> 'w \<Rightarrow> (int \<times> 'k registry \<times> 'w) option" where
  "transport_server_main spd h cli rw =
     (case configure spd ''transport-server'' ''stderr'' ''info'' rw of
        (_, (registry, w)) \<Rightarrow>
          (let log = (\<lambda>registry. snd (logger spd ''transport-server'' registry)) in
           case transport_server_parse cli of
             ParsedHelp \<Rightarrow> Some (0, (registry, w))
           | ParsedInvalid \<Rightarrow> Some (1, (log registry, w))
           | ParsedConfig config \<Rightarrow>
               (case configure spd ''transport-server'' (tsc_log_sink config) (tsc_log_level config) (registry, w) of
                  (Inl _, (registry, w)) \<Rightarrow> Some (1, (log registry, w))
                | (Inr _, (registry, w)) \<Rightarrow>
                    (case transport_server_body h config
                            (\<lparr>tln_tcp_listener = \<lparr>tl_fd = -1\<rparr>, tln_config = svc_transport default_server_config\<rparr>, w) of
                       None \<Rightarrow> None
                     | Some (r, (listener, w)) \<Rightarrow>
                         Some (if ok r then 0 else 1,
                               (log registry, listener_destroy (svh_os h) (tln_tcp_listener listener) w))))))"

section \<open>Delivery\<close>

definition wire_remote :: "endian \<Rightarrow> RemoteMemory \<Rightarrow> WireRemoteMemory" where
  "wire_remote e m = zero_wire_remote_memory\<lparr>wm_magic := htonl e kRemoteMemoryMagic, wm_version := htons e kRemoteMemoryVersion,
     wm_address := host_to_network_u64 e (rm_address m), wm_length := htonl e (rm_length m), wm_remote_key := htonl e (rm_remote_key m)\<rparr>"

lemma load16_mem [serde]: "load16 e (mem16 e v @ ys) 0 = v"
  by (metis load_be(1) mem16_htons htons_htons)

lemma remote_memory_image:
  assumes "length (wm_reserved x) = 8"
  shows "length (remote_memory_bytes e x) = 32" and "remote_memory_of_bytes e (remote_memory_bytes e x) = x"
proof -
  have m: "length (mem64 e v) = 8" for v by (simp add: mem64_def be64_def split: endian.split)
  show "length (remote_memory_bytes e x) = 32" using assms by (simp add: remote_memory_bytes_def m)
  show "remote_memory_of_bytes e (remote_memory_bytes e x) = x"
    using assms by (simp add: remote_memory_of_bytes_def remote_memory_bytes_def m serde)
qed

lemma remote_memory_codec:
  assumes "validate_remote_memory (Some m) = CodecOk"
  shows "encode_remote_memory e (Some m) (Some zero_wire_remote_memory) = (CodecOk, Some (wire_remote e m))"
    and "decode_remote_memory e (Some (wire_remote e m)) (Some old) = (CodecOk, Some m)"
proof -
  show enc: "encode_remote_memory e (Some m) (Some zero_wire_remote_memory) = (CodecOk, Some (wire_remote e m))"
    using assms by (simp add: encode_remote_memory_def wire_remote_def)
  from remote_memory_roundtrip_lemma [OF assms, of e zero_wire_remote_memory old] enc
  show "decode_remote_memory e (Some (wire_remote e m)) (Some old) = (CodecOk, Some m)" by (metis option.inject prod.inject)
qed

definition published :: "MemoryRegion \<Rightarrow> RemoteMemory" where
  "published region = \<lparr>rm_address = region_address region, rm_length = ucast (region_length region), rm_remote_key = region_remote_key region\<rparr>"

text \<open>
  The memory that the server publishes is the memory that the client reads and writes. Between hosts of the same byte order and on
  an intact channel, a region that the record can describe is received as its address, length and key, and a
  signal is received as a signal; nothing is left on the channel.
\<close>

theorem published_memory_delivered:
  assumes "reads_stream os (tc_fd c2) stream intr" and "reads_reliably os (tc_fd c2) stream"
    and "writes_stream os (tc_fd c1) stream intr" and "tcp_is_open c1" and "tcp_is_open c2" and "stream w = []"
    and "validate_remote_memory (Some (published region)) = CodecOk" and "region_length region \<le> ucast UINT32_MAX"
    and "region_address region \<noteq> 0" and "region_length region \<noteq> 0" and "region_remote_key region \<noteq> 0"
  shows "(\<exists>r w1. publish_memory e os (Some c1) region w = Some (r, w1) \<and>
      (r = Inr () \<longrightarrow> (\<exists>w2. receive_published_memory e os (Some c2) w1 = Some (Inr (published region), w2) \<and> stream w2 = [])))
    \<and> (\<exists>r w1. send_control_signal os (Some c1) w = Some (r, w1) \<and>
      (r = Inr () \<longrightarrow> (\<exists>w2. wait_control_signal os (Some c2) w1 = Some (Inr (), w2) \<and> stream w2 = [])))"
proof
  let ?bytes = "remote_memory_bytes e (wire_remote e (published region))"
  have i: "length ?bytes = 32" "remote_memory_of_bytes e ?bytes = wire_remote e (published region)"
    by (rule remote_memory_image, simp add: wire_remote_def zero_wire_remote_memory_def)+
  note codec = remote_memory_codec [OF assms(7)]
  have p: "publish_memory e os (Some c1) region = tcp_send os c1 ?bytes"
    using leD [OF assms(8)] assms(9-11) codec(1) [of e]
    by (simp add: publish_memory_def send_remote_memory_def published_def del: not_less)
  from send_receive_whole [OF assms(1-6), of ?bytes]
  show "\<exists>r w1. publish_memory e os (Some c1) region w = Some (r, w1) \<and>
      (r = Inr () \<longrightarrow> (\<exists>w2. receive_published_memory e os (Some c2) w1 = Some (Inr (published region), w2) \<and> stream w2 = []))"
    by (auto simp: p i receive_published_memory_def by_pointer_def receive_remote_memory_def pbind_def codec(2))
  from send_receive_whole [OF assms(1-6), of "[1]"]
  show "\<exists>r w1. send_control_signal os (Some c1) w = Some (r, w1) \<and>
      (r = Inr () \<longrightarrow> (\<exists>w2. wait_control_signal os (Some c2) w1 = Some (Inr (), w2) \<and> stream w2 = []))"
    by (auto simp: send_control_signal_def wait_control_signal_def by_pointer_def send_barrier_def wait_barrier_def pbind_def)
qed

text \<open>The payload of one side is the payload that the other expects, and the windows hold every receive once.\<close>

lemma expected_payload_verifies: "verify_received (expected_payload n)"
  by (simp add: verify_received_def expected_payload_def)

lemma receive_windows_cover: "sum_list (map snd receive_windows) = unat kTransportStressWrCount"
proof -
  have "map snd receive_windows = map (\<lambda>_. 16) [0..<4096]"
    by (auto simp: receive_windows_def kTransportStressWrCount_def kTransportReceiveWindow_def)
  then have "sum_list (map snd receive_windows) = 4096 * 16" by (simp add: sum_list_triv)
  then show ?thesis by (simp add: kTransportStressWrCount_def)
qed

end
