(* ===== verification/Verbs_Example.thy ===== *)
theory Verbs_Example
  imports Transport_Example
begin

text \<open>
  The verbs example programs, \<^verbatim>\<open>src/examples/verbs/client.cc\<close> and \<^verbatim>\<open>server.cc\<close>: one queue pair on each side, whose
  addresses are exchanged over TCP, a send, a receive, a read and a write, in step by barriers on the channel. The
  records are those of \<^verbatim>\<open>wire.hh\<close> (\<open>Transport_Example\<close>).
\<close>

section \<open>The client\<close>

record VerbsClientConfig =
  vcc_runtime :: RuntimeConfig
  vcc_hdc_type :: int
  vcc_backend :: BackendMode
  vcc_artifact :: string
  vcc_server :: string

definition default_verbs_client_config :: VerbsClientConfig where
  "default_verbs_client_config = \<lparr>vcc_runtime = default_runtime_config, vcc_hdc_type = kHdcDefault, vcc_backend = ModeRa,
     vcc_artifact = [], vcc_server = []\<rparr>"

datatype VerbsOperation = VerbsSend | VerbsReceive | VerbsRead | VerbsWrite

text \<open>A request for help is an error like any other here.\<close>

definition verbs_client_parse :: "(VerbsClientConfig \<Rightarrow> VerbsClientConfig CliOutcome) \<Rightarrow> VerbsClientConfig result" where
  "verbs_client_parse cli =
     (case cli default_verbs_client_config of
        CliHelp _ \<Rightarrow> Inl kInvalidArgument
      | CliError _ \<Rightarrow> Inl kInvalidArgument
      | CliParsed config backend_mode_name \<Rightarrow>
          (let mode = (if backend_mode_name = ''ra'' then Some ModeRa else if backend_mode_name = ''aiv'' then Some ModeAiv
                       else if backend_mode_name = ''aicpu'' then Some ModeAicpu else None)
           in case mode of
                None \<Rightarrow> Inl kInvalidArgument
              | Some m \<Rightarrow> if vcc_artifact config = [] then Inl kInvalidArgument else Inr (config\<lparr>vcc_backend := m\<rparr>)))"

text \<open>
  The loop of \<open>poll_completion\<close>, on the launcher and the world; the clock counts nanoseconds. A completion that the
  poll did not write is zero.
\<close>

partial_function (option) poll_completion_until :: "'w cann \<Rightarrow> ('l \<times> 'w) ConfiguredLauncherView \<Rightarrow> NdsQpDescriptor \<Rightarrow> bool \<Rightarrow> nat \<Rightarrow>
    ('l \<times> 'w, unit) pcomp" where
  "poll_completion_until acl view qp send_cq deadline s =
     (case s of (l, w) \<Rightarrow>
      case client_now acl w of (now, w) \<Rightarrow>
        if \<not> now < deadline then Some (Inl kRuntime, (l, w))
        else case view_poll_cq view qp send_cq 1 True (l, w) of
          None \<Rightarrow> None
        | Some (Inl e, s) \<Rightarrow> Some (Inl e, s)
        | Some (Inr (completion_count, completions), s) \<Rightarrow>
            if completion_count = 0 then poll_completion_until acl view qp send_cq deadline s
            else if (case completions of [] \<Rightarrow> 0 | c # _ \<Rightarrow> wc_status c) \<noteq> NDS_WC_SUCCESS then Some (Inl kRa, s)
            else Some (Inr (), s))"

definition poll_completion :: "'w cann \<Rightarrow> ('l \<times> 'w) ConfiguredLauncherView \<Rightarrow> NdsQpDescriptor \<Rightarrow> bool \<Rightarrow> ('l \<times> 'w, unit) pcomp" where
  "poll_completion acl view qp send_cq = (\<lambda>(l, w).
     case client_now acl w of (now, w) \<Rightarrow> poll_completion_until acl view qp send_cq (now + 5 * 1000000000) (l, w))"

text \<open>What the operations share; the view is that of the transport example.\<close>

record ('l, 'w) verbs_run =
  vrn_endian :: endian
  vrn_os :: "'w posix"
  vrn_acl :: "'w cann"
  vrn_view :: "('l \<times> 'w) ConfiguredLauncherView"
  vrn_qp :: NdsQpDescriptor
  vrn_region :: ClientRegion
  vrn_length :: u32
  vrn_connection :: TcpConnection

definition payload_sge :: "('l, 'w) verbs_run \<Rightarrow> NdsSge" where
  "payload_sge t = \<lparr>sg_address = mi_address (crg_info (vrn_region t)), sg_length = vrn_length t,
     sg_local_key = mi_local_key (crg_info (vrn_region t))\<rparr>"

definition signaled_wr :: "('l, 'w) verbs_run \<Rightarrow> u64 \<Rightarrow> u32 \<Rightarrow> RemoteMemory \<Rightarrow> NdsSendWr" where
  "signaled_wr t wr_id opcode remote = \<lparr>sw_wr_id = wr_id, sw_opcode = opcode, sw_flags = NDS_SEND_SIGNALED, sw_local = payload_sge t,
     sw_remote_address = rm_address remote, sw_remote_key = rm_remote_key remote\<rparr>"

definition verbs_send :: "('l, 'w) verbs_run \<Rightarrow> ('l \<times> 'w, unit) pcomp" where
  "verbs_send t =
     pbind (view_post_send (vrn_view t) (vrn_qp t) (signaled_wr t 1 NDS_WR_SEND zero_remote_memory)) (\<lambda>_.
     pbind (poll_completion (vrn_acl t) (vrn_view t) (vrn_qp t) True) (\<lambda>_.
     on_net (wait_barrier (vrn_os t) (vrn_connection t))))"

definition verbs_receive :: "('l, 'w) verbs_run \<Rightarrow> ('l \<times> 'w, unit) pcomp" where
  "verbs_receive t =
     pbind (view_post_recv (vrn_view t) (vrn_qp t) \<lparr>rw_wr_id = 2, rw_local = payload_sge t\<rparr>) (\<lambda>_.
     pbind (on_net (send_barrier (vrn_os t) (vrn_connection t))) (\<lambda>_.
     pbind (poll_completion (vrn_acl t) (vrn_view t) (vrn_qp t) False) (\<lambda>_.
     on_net (wait_barrier (vrn_os t) (vrn_connection t)))))"

definition verbs_write :: "('l, 'w) verbs_run \<Rightarrow> ('l \<times> 'w, unit) pcomp" where
  "verbs_write t =
     pbind (on_net (receive_remote_memory (vrn_endian t) (vrn_os t) (vrn_connection t))) (\<lambda>remote_memory.
     pbind (view_post_send (vrn_view t) (vrn_qp t) (signaled_wr t 3 NDS_WR_RDMA_WRITE remote_memory)) (\<lambda>_.
     pbind (poll_completion (vrn_acl t) (vrn_view t) (vrn_qp t) True) (\<lambda>_.
     on_net (send_barrier (vrn_os t) (vrn_connection t)))))"

definition verbs_read :: "('l, 'w) verbs_run \<Rightarrow> ('l \<times> 'w, unit) pcomp" where
  "verbs_read t =
     pbind (on_net (receive_remote_memory (vrn_endian t) (vrn_os t) (vrn_connection t))) (\<lambda>remote_memory.
     pbind (view_post_send (vrn_view t) (vrn_qp t) (signaled_wr t 4 NDS_WR_RDMA_READ remote_memory)) (\<lambda>_.
     pbind (poll_completion (vrn_acl t) (vrn_view t) (vrn_qp t) True) (\<lambda>_.
     on_net (send_barrier (vrn_os t) (vrn_connection t)))))"

definition verbs_operation :: "('l, 'w) verbs_run \<Rightarrow> VerbsOperation \<Rightarrow> ('l \<times> 'w, unit) pcomp" where
  "verbs_operation t operation =
     (case operation of VerbsSend \<Rightarrow> verbs_send t | VerbsReceive \<Rightarrow> verbs_receive t | VerbsRead \<Rightarrow> verbs_read t | VerbsWrite \<Rightarrow> verbs_write t)"

definition verbs_qp_config :: "BackendMode \<Rightarrow> QueuePairConfig" where
  "verbs_qp_config backend =
     \<lparr>qc_port_num = 1, qc_path_mtu = 1024, qc_traffic_class = 0, qc_service_level = 0, qc_retry_count = 7, qc_retry_timeout = 14,
      qc_ai_qp_mode = -1, qc_send_queue_depth = 32768, qc_receive_queue_depth = 128,
      qc_control_flags = (if backend = ModeAiv \<or> backend = ModeAicpu then QueuePairCallerPollsCq else 0)\<rparr>"

text \<open>
  The objects of the program. The transport and the storage client of the record are not used; \<open>sh_this\<close> are the addresses
  of the runtime and of the endpoint, \<open>oa_qp\<close> at 0 that of the queue pair.
\<close>

record 'l VerbsState = "'l Session" +
  vbs_endpoint :: ClientEndpoint
  vbs_qp :: "ClientQp option"
  vbs_buffer :: MemoryBuffer
  vbs_region :: ClientRegion
  vbs_connection :: TcpConnection

text \<open>A call whose result becomes an object of the program.\<close>

definition make_part :: "(('l, 'x) Session_scheme \<Rightarrow> ('w, 'a) comp) \<Rightarrow> ('a \<Rightarrow> ('l, 'x) Session_scheme \<Rightarrow> ('l, 'x) Session_scheme) \<Rightarrow>
    (('l, 'x) Session_scheme \<times> 'w, unit) pcomp" where
  "make_part m put = (\<lambda>(s, w). case m s w of (Inl e, w) \<Rightarrow> Some (Inl e, (s, w)) | (Inr x, w) \<Rightarrow> Some (Inr (), (put x s, w)))"

definition verbs_open :: "('a, 'l, 'w) session_host \<Rightarrow> VerbsClientConfig \<Rightarrow> ('l VerbsState \<times> 'w, unit) pcomp" where
  "verbs_open h config =
     pbind (open_runtime_part h (vcc_runtime config)) (\<lambda>_.
     pbind (make_part (\<lambda>s. create_endpoint (sh_ra h) (ses_runtime s) (vcc_hdc_type config))
              (\<lambda>x s. s\<lparr>vbs_endpoint := x\<lparr>cep_this := snd (sh_this h)\<rparr>\<rparr>)) (\<lambda>_.
     pbind (make_part (\<lambda>s. client_create_qp (sh_ra h) (sh_acl h) (ses_runtime s) (vbs_endpoint s) (verbs_qp_config (vcc_backend config)) (vcc_backend config))
              (\<lambda>x s. s\<lparr>vbs_qp := Some x\<rparr>)) (\<lambda>_.
     pbind (make_part (\<lambda>s. runtime_allocate (sh_acl h) (ses_runtime s) 64 LocDevice) (\<lambda>x s. s\<lparr>vbs_buffer := x\<rparr>)) (\<lambda>_.
     pbind (make_part (\<lambda>s. runtime_copy_to (sh_acl h) (ses_runtime s) (vbs_buffer s) (HBytes (replicate 64 0x5a))) (\<lambda>_ s. s)) (\<lambda>_.
     pbind (make_part (\<lambda>s. client_reg_mr (sh_ra h) (vbs_endpoint s) (vbs_buffer s) LocalWrite_RemoteWrite_RemoteRead)
              (\<lambda>x s. s\<lparr>vbs_region := x\<rparr>)) (\<lambda>_.
     open_launcher_part h (vcc_backend config) (vcc_artifact config)))))))"

definition on_verbs_channel :: "(TcpConnection \<Rightarrow> ('w, 'b) pcomp) \<Rightarrow> ('l VerbsState \<times> 'w, 'b) pcomp" where
  "on_verbs_channel f = (\<lambda>(s, w). on_world (f (vbs_connection s)) (s, w))"

definition verbs_connect :: "('a, 'l, 'w) session_host \<Rightarrow> TcpAddress \<Rightarrow> ('l VerbsState \<times> 'w, unit) pcomp" where
  "verbs_connect h address =
     pbind (make_part (\<lambda>_. tcp_connect (sh_endian h) (sh_os h) (ta_ipv4 address) (ta_port address) 5000)
              (\<lambda>x s. s\<lparr>vbs_connection := x\<rparr>)) (\<lambda>_.
     pbind (\<lambda>(s, w). Some (client_local_qp_info (the (vbs_qp s)), (s, w))) (\<lambda>local_qp_info.
     pbind (on_verbs_channel (\<lambda>channel. exchange_client_qp (sh_endian h) (sh_os h) channel local_qp_info)) (\<lambda>peer_qp_info.
     pbind (on_part (\<lambda>s. the (vbs_qp s)) (\<lambda>x s. s\<lparr>vbs_qp := Some x\<rparr>) (plift (client_qp_connect (sh_ra h) peer_qp_info))) (\<lambda>_.
     on_verbs_channel (wait_barrier (sh_os h))))))"

text \<open>The stream is made for every backend.\<close>

definition verbs_stream :: "('a, 'l, 'w) session_host \<Rightarrow> (('l, 'x) Session_scheme \<times> 'w, unit) pcomp" where
  "verbs_stream h =
     make_part (\<lambda>_ w. case aclrtCreateStream (sh_dev h) w of
       ((result, stream), w) \<Rightarrow> if result \<noteq> 0 \<or> stream = 0 then (Inl kRuntime, w) else (Inr stream, w)) (\<lambda>x s. s\<lparr>ses_stream := x\<rparr>)"

definition verbs_client_body :: "('a, 'l, 'w) session_host \<Rightarrow> VerbsClientConfig \<Rightarrow> TcpAddress \<Rightarrow> ('l VerbsState \<times> 'w, unit) pcomp" where
  "verbs_client_body h config address =
     pbind (verbs_open h config) (\<lambda>_.
     pbind (\<lambda>(s, w). Some (device_qp (vbs_endpoint s) (oa_qp (sh_addresses h) 0) (the (vbs_qp s)), (s, w))) (\<lambda>qp.
     pbind (verbs_connect h address) (\<lambda>_.
     pbind (verbs_stream h) (\<lambda>_ (s, w).
       on_part (\<lambda>s. the (ses_launcher s)) (\<lambda>x s. s\<lparr>ses_launcher := Some x\<rparr>)
         (pfor [VerbsSend, VerbsReceive, VerbsRead, VerbsWrite] (verbs_operation
            \<lparr>vrn_endian = sh_endian h, vrn_os = sh_os h, vrn_acl = sh_acl h, vrn_view = transport_view (bk_ops (sh_backend h)) (ses_stream s),
             vrn_qp = qp, vrn_region = vbs_region s, vrn_length = 64, vrn_connection = vbs_connection s\<rparr>)) (s, w)))))"

definition verbs_client_destroy :: "('a, 'l, 'w) session_host \<Rightarrow> 'l VerbsState \<Rightarrow> 'w \<Rightarrow> 'w" where
  "verbs_client_destroy h s w =
     (let w = (if ses_stream s \<noteq> 0 then snd (aclrtDestroyStream (sh_dev h) (ses_stream s) w) else w);
          w = tcp_destroy (sh_os h) (vbs_connection s) w;
          w = (case ses_launcher s of None \<Rightarrow> w | Some l \<Rightarrow> bk_delete (sh_backend h) l w);
          w = snd (client_region_reset (sh_ra h) (vbs_endpoint s) (vbs_region s) w);
          w = snd (buffer_reset (sh_acl h) (ses_runtime s) (vbs_buffer s) w);
          w = (case vbs_qp s of None \<Rightarrow> w | Some qp \<Rightarrow> client_qp_destroy (sh_ra h) (sh_acl h) (ses_runtime s) qp w);
          w = snd (client_endpoint_reset (sh_ra h) (vbs_endpoint s) w)
      in snd (runtime_reset (sh_acl h) (ses_runtime s) w))"

definition new_verbs_state :: "('a, 'l, 'w) session_host \<Rightarrow> 'l VerbsState" where
  "new_verbs_state h = Session.extend (new_session h)
     (VerbsState.fields (empty_client_endpoint (snd (sh_this h))) None empty_buffer empty_client_region \<lparr>tc_fd = -1\<rparr>)"

definition verbs_client_main :: "('k, 'w) spdlog \<Rightarrow> ('a, 'l, 'w) session_host \<Rightarrow> (VerbsClientConfig \<Rightarrow> VerbsClientConfig CliOutcome) \<Rightarrow>
    'k registry \<times> 'w \<Rightarrow> (int \<times> 'k registry \<times> 'w) option" where
  "verbs_client_main spd h cli rw =
     (case configure spd ''verbs-client'' ''stderr'' ''info'' rw of
        (_, (registry, w)) \<Rightarrow>
          (let logged = snd (logger spd ''verbs-client'' registry) in
           case verbs_client_parse cli of
             Inl _ \<Rightarrow> Some (1, (logged, w))
           | Inr config \<Rightarrow>
               (case parse_tcp_address (sh_pton h) (vcc_server config) of
                  Inl _ \<Rightarrow> Some (1, (logged, w))
                | Inr address \<Rightarrow>
                    (case verbs_client_body h config address (new_verbs_state h, w) of
                       None \<Rightarrow> None
                     | Some (r, (s, w)) \<Rightarrow> Some (if ok r then 0 else 1, (logged, verbs_client_destroy h s w))))))"

section \<open>The server\<close>

record VerbsServerConfig =
  vsc_endpoint :: EndpointConfig
  vsc_listen :: string

definition default_verbs_server_config :: VerbsServerConfig where
  "default_verbs_server_config = \<lparr>vsc_endpoint = zero_endpoint_config, vsc_listen = ''0.0.0.0:18515''\<rparr>"

definition payload_matches :: "u8 list \<Rightarrow> u8 \<Rightarrow> bool" where
  "payload_matches payload expected = list_all (\<lambda>v. v = expected) payload"

partial_function (option) wait_for_payload_until :: "'w server_host \<Rightarrow> u64 \<Rightarrow> u8 \<Rightarrow> nat \<Rightarrow> 'w \<Rightarrow> (bool \<times> 'w) option" where
  "wait_for_payload_until h payload expected deadline w =
     (case steady_now (svh_lib h) w of (now, w) \<Rightarrow>
        (let matches = payload_matches (mem_get (svh_process h) payload 64 w) expected
         in if \<not> now < deadline then Some (matches, w)
            else if matches then Some (True, w)
            else wait_for_payload_until h payload expected deadline w))"

definition wait_for_payload :: "'w server_host \<Rightarrow> u64 \<Rightarrow> u8 \<Rightarrow> u32 \<Rightarrow> 'w \<Rightarrow> (bool \<times> 'w) option" where
  "wait_for_payload h payload expected timeout_ms w =
     (case steady_now (svh_lib h) w of (now, w) \<Rightarrow> wait_for_payload_until h payload expected (now + unat timeout_ms * 1000000) w)"

definition verbs_server_parse :: "(VerbsServerConfig \<Rightarrow> VerbsServerConfig CliOutcome) \<Rightarrow> VerbsServerConfig result" where
  "verbs_server_parse cli =
     (case cli default_verbs_server_config of CliHelp _ \<Rightarrow> Inl kInvalidArgument | CliError _ \<Rightarrow> Inl kInvalidArgument | CliParsed config _ \<Rightarrow> Inr config)"

text \<open>An object of a block: it is destroyed in its last state on every way out.\<close>

definition within_object :: "('x \<Rightarrow> 'w \<Rightarrow> 'w) \<Rightarrow> 'x \<Rightarrow> ('x \<times> 'w, 'a) pcomp \<Rightarrow> ('w, 'a) pcomp" where
  "within_object destroy x m = (\<lambda>w. case m (x, w) of None \<Rightarrow> None | Some (r, (x, w)) \<Rightarrow> Some (r, destroy x w))"

text \<open>A constant object in a block with a queue pair.\<close>

definition beside_qp :: "('w \<Rightarrow> 'w) \<Rightarrow> (QueuePair \<times> 'w, 'a) pcomp \<Rightarrow> (QueuePair \<times> 'w, 'a) pcomp" where
  "beside_qp destroy m = (\<lambda>s. case m s of None \<Rightarrow> None | Some (r, (qp, w)) \<Rightarrow> Some (r, (qp, destroy w)))"

definition fill_payload :: "'w server_host \<Rightarrow> u64 \<Rightarrow> u8 \<Rightarrow> (QueuePair \<times> 'w, unit) pcomp" where
  "fill_payload h payload v = (\<lambda>(qp, w). Some (Inr (), (qp, mem_put (svh_process h) payload (replicate 64 v) w)))"

text \<open>The part of \<open>main\<close> with the connection; the result is the exit code.\<close>

definition verbs_serve :: "'w server_host \<Rightarrow> EndpointConfig \<Rightarrow> u64 \<Rightarrow> MemoryRegion \<Rightarrow> TcpConnection \<Rightarrow> (QueuePair \<times> 'w, int) pcomp" where
  "verbs_serve h config payload region channel =
     (let e = svh_endian h; os = svh_os h; lib = svh_lib h;
          remote_memory = \<lparr>rm_address = region_address region, rm_length = ucast (region_length region), rm_remote_key = region_remote_key region\<rparr>
      in pbind (\<lambda>(qp, w). on_world (exchange_server_qp e os channel (qpr_local qp)) (qp, w)) (\<lambda>peer.
         pbind (plift (qp_connect lib config peer)) (\<lambda>_.
         pbind (on_world (send_barrier os channel)) (\<lambda>_.
         pbind (qp_wait_receive lib 5000) (\<lambda>_.
         pbind (on_world (send_barrier os channel)) (\<lambda>_.
         pbind (on_world (wait_barrier os channel)) (\<lambda>_.
         pbind (fill_payload h payload 0xa5) (\<lambda>_.
         pbind (qp_send lib region 64 5000) (\<lambda>_.
         pbind (on_world (send_barrier os channel)) (\<lambda>_.
         pbind (on_world (send_remote_memory e os channel remote_memory)) (\<lambda>_.
         pbind (on_world (wait_barrier os channel)) (\<lambda>_.
         pbind (on_world (send_remote_memory e os channel remote_memory)) (\<lambda>_.
         pbind (on_world (wait_barrier os channel)) (\<lambda>_ (qp, w).
           case wait_for_payload h payload 0xa5 5000 w of
             None \<Rightarrow> None
           | Some (matches, w) \<Rightarrow> Some (Inr (if matches then 0 else 1), (qp, w))))))))))))))))"

definition verbs_accept :: "'w server_host \<Rightarrow> TcpAddress \<Rightarrow> (TcpConnection \<Rightarrow> (QueuePair \<times> 'w, int) pcomp) \<Rightarrow> (QueuePair \<times> 'w, int) pcomp" where
  "verbs_accept h address serve =
     pbind (on_world (plift (tcp_listen (svh_endian h) (svh_os h) (ta_ipv4 address) (ta_port address) 1))) (\<lambda>listener.
       beside_qp (listener_destroy (svh_os h) listener)
         (pbind (on_world (tcp_accept (svh_os h) listener)) (\<lambda>channel. beside_qp (tcp_destroy (svh_os h) channel) (serve channel))))"

definition verbs_endpoint_body :: "'w server_host \<Rightarrow> VerbsServerConfig \<Rightarrow> TcpAddress \<Rightarrow> (Endpoint \<times> 'w, int) pcomp" where
  "verbs_endpoint_body h config address =
     pbind (plift (endpoint_open (svh_lib h) (vsc_endpoint config))) (\<lambda>_.
     pbind (plift (create_qp (svh_lib h))) (\<lambda>qp (ep, w).
       case new_object (svh_process h) 64 w of
         (payload, w) \<Rightarrow>
           (case reg_mr (svh_lib h) payload 64 (IBV_ACCESS_LOCAL_WRITE OR IBV_ACCESS_REMOTE_WRITE OR IBV_ACCESS_REMOTE_READ)
                   (ep, mem_put (svh_process h) payload (replicate 64 0) w) of
              (Inl e, (ep, w)) \<Rightarrow> Some (Inl e, (ep, snd (qp_reset (svh_lib h) qp w)))
            | (Inr region, (ep, w)) \<Rightarrow>
                (case within_object (\<lambda>qp w. snd (qp_reset (svh_lib h) qp w)) qp
                        (beside_qp (region_destroy (svh_lib h) region)
                          (pbind (plift (qp_post_receive (svh_lib h) region)) (\<lambda>_.
                           verbs_accept h address (verbs_serve h (ep_config ep) payload region)))) w of
                   None \<Rightarrow> None
                 | Some (r, w) \<Rightarrow> Some (r, (ep, w))))))"

definition verbs_server_main :: "('k, 'w) spdlog \<Rightarrow> 'w server_host \<Rightarrow> (VerbsServerConfig \<Rightarrow> VerbsServerConfig CliOutcome) \<Rightarrow>
    'k registry \<times> 'w \<Rightarrow> (int \<times> 'k registry \<times> 'w) option" where
  "verbs_server_main spd h cli rw =
     (case configure spd ''verbs-server'' ''stderr'' ''info'' rw of
        (_, (registry, w)) \<Rightarrow>
          (let logged = snd (logger spd ''verbs-server'' registry) in
           case verbs_server_parse cli of
             Inl _ \<Rightarrow> Some (1, (logged, w))
           | Inr config \<Rightarrow>
               (case parse_tcp_address (inet_pton (svh_os h)) (vsc_listen config) of
                  Inl _ \<Rightarrow> Some (1, (logged, w))
                | Inr address \<Rightarrow>
                    (case within_object (\<lambda>ep w. snd (endpoint_reset (svh_lib h) ep w)) (empty_endpoint (svh_transport_this h))
                            (verbs_endpoint_body h config address) w of
                       None \<Rightarrow> None
                     | Some (r, w) \<Rightarrow> Some (case r of Inl _ \<Rightarrow> 1 | Inr code \<Rightarrow> code, (logged, w))))))"

section \<open>The server never serves\<close>

text \<open>A queue pair is created unconnected, and a receive is posted on a connected one only.\<close>

lemma create_qp_unconnected:
  "create_qp lib (ep, w) = (Inr qp, s) \<Longrightarrow> \<not> qpr_connected qp"
  by (auto simp: create_qp_def make_queue_pair_def empty_queue_pair_def Let_def split: prod.splits if_splits)

lemma unconnected_receive_refused:
  "\<not> qpr_connected qp \<Longrightarrow> qp_post_receive lib region (qp, w) = (Inl kInvalidArgument, (qp, w))"
  by (simp add: qp_post_receive_def valid_local_region_def)

lemma verbs_endpoint_body_fails:
  "\<exists>e ep' w'. verbs_endpoint_body h config address (ep, w) = Some (Inl e, (ep', w'))"
  by (auto simp: verbs_endpoint_body_def within_object_def beside_qp_def pbind_def unconnected_receive_refused
      dest!: create_qp_unconnected split: prod.splits sum.splits)

lemma verbs_endpoint_body_no_socket:
  "verbs_endpoint_body (h\<lparr>svh_os := os'\<rparr>) config address = verbs_endpoint_body h config address"
  by (rule ext) (auto simp: verbs_endpoint_body_def within_object_def beside_qp_def pbind_def unconnected_receive_refused
      dest!: create_qp_unconnected split: prod.splits sum.splits)

text \<open>
  C40: The verbs example server fails on every command line and on every host: it posts a receive before
  it connects its queue pair, which the queue pair refuses, so that the program ends with an error before it makes a
  socket (the result is the same whatever \<open>socket\<close> does).
\<close>

theorem verbs_server_fails:
  "(\<exists>rw'. verbs_server_main spd h cli rw = Some (1, rw'))
   \<and> verbs_server_main spd (h\<lparr>svh_os := (svh_os h)\<lparr>sys_socket := make_socket\<rparr>\<rparr>) cli rw = verbs_server_main spd h cli rw"
proof
  show "\<exists>rw'. verbs_server_main spd h cli rw = Some (1, rw')"
  proof -
    obtain e ep' w' where "verbs_endpoint_body h config address (ep, w) = Some (Inl (e config address ep w), (ep' config address ep w, w' config address ep w))"
      for config address ep w using verbs_endpoint_body_fails [of h] by metis
    then show ?thesis
      by (auto simp: verbs_server_main_def within_object_def Let_def split: prod.splits sum.splits)
  qed
  show "verbs_server_main spd (h\<lparr>svh_os := (svh_os h)\<lparr>sys_socket := make_socket\<rparr>\<rparr>) cli rw = verbs_server_main spd h cli rw"
    by (simp add: verbs_server_main_def verbs_endpoint_body_no_socket Let_def split: prod.split sum.split)
qed

text \<open>The pattern that the write is to bring is there before it: the last check passes if nothing is written.\<close>

lemma payload_check_passes_unwritten:
  assumes "\<And>w. mem_get (svh_process h) payload 64 (snd (steady_now (svh_lib h) w)) = mem_get (svh_process h) payload 64 w"
    and "mem_get (svh_process h) payload 64 w = replicate 64 v"
  shows "\<exists>w'. wait_for_payload h payload v timeout_ms w = Some (True, w')"
proof -
  obtain now w1 where w1: "steady_now (svh_lib h) w = (now, w1)" by fastforce
  obtain t w2 where w2: "steady_now (svh_lib h) w1 = (t, w2)" by fastforce
  have "mem_get (svh_process h) payload 64 w2 = replicate 64 v"
    using assms(1) [of w] assms(1) [of w1] assms(2) by (simp add: w1 w2)
  then have "payload_matches (mem_get (svh_process h) payload 64 w2) v" by (simp add: payload_matches_def list_all_iff)
  then have "wait_for_payload_until h payload v deadline w1 = Some (True, w2)" for deadline
    by (subst wait_for_payload_until.simps) (simp add: w2 Let_def)
  then show ?thesis by (simp add: wait_for_payload_def w1)
qed

section \<open>Polling\<close>

text \<open>
  With a launcher whose poll returns, on a clock that reading advances and polling does not set back, the wait for a
  completion returns, and with success only if the last poll gave a completion with the status of success.
\<close>

definition polls :: "('l \<times> 'w) ConfiguredLauncherView \<Rightarrow> NdsQpDescriptor \<Rightarrow> bool \<Rightarrow> ('w \<Rightarrow> nat) \<Rightarrow> bool" where
  "polls view qp send_cq clock \<longleftrightarrow>
     (\<forall>l w. \<exists>r l' w'. view_poll_cq view qp send_cq 1 True (l, w) = Some (r, (l', w')) \<and> clock w \<le> clock w')"

theorem poll_completion_outcome:
  assumes "polls view qp send_cq clock"
    and "\<And>w. clock w \<le> fst (client_now acl w) \<and> clock w < clock (snd (client_now acl w))"
  shows "\<exists>r s'. poll_completion_until acl view qp send_cq deadline (l, w) = Some (r, s') \<and>
    (r = Inr () \<longrightarrow> (\<exists>s n cs. view_poll_cq view qp send_cq 1 True s = Some (Inr (n, cs), s') \<and> n \<noteq> 0
       \<and> (cs = [] \<or> wc_status (hd cs) = NDS_WC_SUCCESS)))"
proof (induction "deadline - clock w" arbitrary: l w rule: less_induct)
  case less
  obtain now w1 where now: "client_now acl w = (now, w1)" by fastforce
  with assms(2) [of w] have c: "clock w \<le> now" "clock w < clock w1" by simp_all
  obtain r l2 w2 where p: "view_poll_cq view qp send_cq 1 True (l, w1) = Some (r, (l2, w2))" "clock w1 \<le> clock w2"
    using assms(1) unfolding polls_def by metis
  have "deadline - clock w2 < deadline - clock w" if "now < deadline" using that c p(2) by linarith
  note IH = less [OF this, of l2]
  show ?case
  proof (cases "now < deadline \<and> (\<exists>cs. r = Inr (0, cs))")
    case True
    then have "poll_completion_until acl view qp send_cq deadline (l, w) = poll_completion_until acl view qp send_cq deadline (l2, w2)"
      by (subst poll_completion_until.simps) (auto simp: now p)
    with True IH show ?thesis by presburger
  next
    case False
    then show ?thesis using p(1)
      by (subst poll_completion_until.simps)
        (auto simp: now NDS_WC_SUCCESS_def neq_Nil_conv split: sum.splits list.splits intro!: exI [of _ l] exI [of _ w1])
  qed
qed

end
