(* ===== verification/Spec2Isabelle.thy ===== *)
theory Spec2Isabelle
  imports Aicpu_Storage Aiv_Storage Server_Storage Client_Storage Launcher_Open Torch_Session Verbs_Example
begin

text \<open>
  \<^bold>\<open>NDS: network data storage over RDMA\<close>

  The program. A client on a host with an Ascend accelerator reads and writes ranges of a memory
  namespace that a server keeps, by RDMA. Client and server first talk over TCP: the client asks for a
  number of queue pairs, both sides exchange endpoint records and connect the queue pairs. The client
  then allocates command slots, each with a command and a completion buffer, and sends the server a
  bootstrap record that names the slot table; the server answers with the capacity of the namespace.
  After that the device code of the client (or, in RA mode, the host) fills a slot with an encoded
  command and sends it; a worker of the server decodes it, moves the payload by RDMA and writes an
  encoded completion into the slot, which the client's wait judges. Three backends implement the
  client's side of the data path: AICPU and AIV kernels on the device and the RA library on the host.

  \<^bold>\<open>Theories and sources\<close> (paths under \<^verbatim>\<open>src/src/\<close>)

  \<^item> \<open>Prelude\<close>: \<^verbatim>\<open>include/result.hh\<close>. Results are sums of an error code and a value; functions with effects are
    computations on an explicit state (\<open>comp\<close>), those with a loop that may not end partial computations
    (\<open>pcomp\<close>, where \<open>None\<close> means not returning). \<open>rbind\<close> and \<open>pbind\<close> are the propagation macros; \<open>triple\<close>,
    \<open>ptriple\<close>, \<open>keeps\<close> and \<open>returns\<close> are the judgements the component proofs use, with rules per combinator.
  \<^item> \<open>Storage_Wire\<close>, \<open>Storage_Protocol\<close>, \<open>Storage_Codec\<close>: \<^verbatim>\<open>include/storage_protocol.hh\<close>. Byte access, the nine
    records and their serializers, and the locales \<open>wire_codec\<close> and \<open>strict_codec\<close>, interpreted for every record.
  \<^item> \<open>Transport_Protocol\<close>, \<open>Tcp_Socket\<close>: \<^verbatim>\<open>common/transport_protocol.cc\<close>, \<^verbatim>\<open>common/tcp_socket.cc\<close>.
  \<^item> \<open>Device_Abi\<close>, \<open>Device_Queues\<close>, \<open>Device_Storage\<close>: \<^verbatim>\<open>client/include/backend_*.h\<close>, \<^verbatim>\<open>client/backends/common/hns_hw.h\<close>.
    Descriptors in typed device memory, credit and slot functions, the locale \<open>send_credits\<close>, and what the
    storage layers share.
  \<^item> \<open>Send_Runs\<close>: the sends of the backends as runs of events, each a poll or a post with its outcome (\<open>send_run\<close>), with the
    locales \<open>send_queue\<close> and \<open>credit_wait\<close>, which the three transports interpret.
  \<^item> \<open>Aicpu_Verbs\<close>, \<open>Aicpu_Transport\<close>, \<open>Aicpu_Storage\<close>: \<^verbatim>\<open>client/backends/aicpu/device/\<close>.
  \<^item> \<open>Aiv_Verbs\<close>, \<open>Aiv_Transport\<close>, \<open>Aiv_Storage\<close>: \<^verbatim>\<open>client/backends/aiv/device/\<close>.
  \<^item> \<open>Ra_Transport\<close>, \<open>Ra_Storage\<close>: \<^verbatim>\<open>client/backends/ra/\<close> verbs, transport, storage and entry points.
  \<^item> \<open>Launcher\<close>, \<open>Shared_Library\<close>, \<open>Ra_Launcher\<close>: \<^verbatim>\<open>client/backends/launcher.cc\<close>, \<^verbatim>\<open>client/loaders/\<close> and
    \<^verbatim>\<open>client/backends/ra/launcher.cc\<close>: the backend interface, the dynamic loader, the RA host wrapper.
  \<^item> \<open>Device_Launch\<close>, \<open>Aicpu_Launcher\<close>, \<open>Aiv_Launcher\<close>, \<open>Launcher_Open\<close>: \<^verbatim>\<open>client/backends/aicpu/launcher.cc\<close>,
    \<^verbatim>\<open>aiv/launcher.cc\<close> and \<open>Launcher::open\<close>. What the two kernel launchers share is in \<open>Device_Launch\<close>.
  \<^item> \<open>Server_Endpoint\<close>, \<open>Server_Transport\<close>, \<open>Storage_Slots\<close>, \<open>Server_Storage\<close>: \<^verbatim>\<open>server/\<close>.
  \<^item> \<open>Client_Runtime\<close>, \<open>Client_Endpoint\<close>, \<open>Client_Transport\<close>, \<open>Client_Storage\<close>: \<^verbatim>\<open>client/runtime.cc\<close>,
    \<^verbatim>\<open>endpoint.cc\<close>, \<^verbatim>\<open>transport.cc\<close>, \<^verbatim>\<open>storage.cc\<close>.
  \<^item> \<open>Client_Session\<close>, \<open>Torch_Session\<close>: \<^verbatim>\<open>torch/nds_torch.cc\<close>, on what the programs over the client share.
  \<^item> \<open>Logging\<close>, \<open>Storage_Benchmark\<close>, \<open>Storage_Example\<close>: \<^verbatim>\<open>common/logging.cc\<close>, \<^verbatim>\<open>../benchmarks/storage_client.cc\<close> and
    \<^verbatim>\<open>../examples/storage/\<close>, client and server.
  \<^item> \<open>Transport_Example\<close>, \<open>Verbs_Example\<close>: \<^verbatim>\<open>../examples/transport/\<close> and \<^verbatim>\<open>../examples/verbs/\<close>, clients and servers.
  \<^item> this theory: the properties that need both ends of a connection or several backends.

  Definitions keep the names of the sources; a name used on both sides has the prefix \<open>client_\<close> for the
  client, and a static function used by several backends the prefix of its backend (\<open>aicpu_\<close>, \<open>ra_\<close>). A
  class is a record with its data members, a constructor or move a function on records; pointers are
  addresses with 0 for null, or options where only the null test matters. Integers have the width of the
  C++ type, so that wrap-around is that of the program.

  \<^bold>\<open>Outside code\<close> is a parameter. The operating system's sockets (\<open>os\<close> records), libibverbs (\<open>ibverbs\<close>), the
  server process (\<open>process\<close>), AscendCL with the runtime library (\<open>cann\<close>, and \<open>aclrt\<close> for kernels), the RA library (\<open>libra\<close>), the dynamic loader (\<open>dl\<close>), the vendor
  provider of the AICPU (\<open>aicpu_env\<close>) and the network adapter (\<open>adapter\<close>) are records of functions on an
  outside world of any type. Hypotheses on them are named predicates and documented behaviour: a clock
  that advances (\<open>clock_ok\<close>, \<open>client_clock\<close>, \<open>ra_clock\<close>), a reliable byte stream, memory registration that keeps
  its range (\<open>registers_range\<close>), counted device memory, binaries and handles (\<open>memory_laws\<close>, \<open>binary_laws\<close>,
  \<open>dl_laws\<close>), a device that runs what is launched on it (\<open>runs_wait_kernel\<close>), allocations that do not wrap around the address space (\<open>blocks_fit\<close>). Each
  theorem with such a hypothesis has a witness with a concrete instance.

  \<^bold>\<open>What is shown\<close>

  \<^item> Wire formats: encoding and decoding are inverse for well-formed records, in both byte orders where the
    protocol allows them; what a decoder accepts from arbitrary bytes is safe to use.
  \<^item> TCP: what is sent is what is received whatever the chunks; connecting, listening and accepting leave no
    descriptor open but the one they return; address parsing.
  \<^item> Credits: a send of any of the three backends, failed or not, is a run of polls and at most one post, in which
    only an accepted post takes a credit and only a polled completion gives some back; a batch writes into the ring
    the requests that its doorbell announces, no more than fit; a completion entry is consumed once per lap;
    completions move the tail to the request they name.
  \<^item> Slots: a submission posts the encoded command with a pending completion in place; a wait reports
    success exactly for the completion of the slot's command; failed RA submissions give the slot back, and
    successful ones claim it for the bytes of the request, summed over the entries of a batch;
    the client's allocator refines a set of held slots (locale \<open>slot_pool\<close>); identifiers do not repeat.
  \<^item> Launching: a submission through a configured view claims exactly the named slot; a wait returns with the
    verdict of its last probe, and the AICPU wait with what its kernel found in device memory; no handle of the
    dynamic loader, no kernel binary and no device memory leaks, the requests that asynchronous AIV submissions
    retain included; a batch reports the status its kernel wrote and the index of the request it stopped at.
  \<^item> Sessions: a read or write of the torch session returns, frees its device memory on every path and, when it
    succeeds, gives its slot back; when it fails the slot stays held. The windows of the benchmark settle their slots.
  \<^item> Programs: the working sets of the benchmark and of the example client wrap nowhere and do not overlap, and the
    patterns that client and server write are those they verify; logging installs a logger or changes nothing.
    Memory that a transport example publishes arrives as it was sent, and the wait for a completion returns; the
    verbs example server fails on every host.
  \<^item> Server: every transfer lies in the namespace, completions tell the truth, windows and workers divide
    the commands exactly, waiting loses no completion, and the service returns when the clock advances.
  \<^item> Connection: a successful open or accept leaves connected, valid queue pairs, as many as negotiated.
  \<^item> Here: a command from encoder to verdict across both sides, the acceptance of everything an opened
    client hands out, whose command and completion buffers share no byte, and the agreement of the three backends' waits.

  Some theorems state behaviour that the manifest reports as a finding: batch totals that wrap or are
  cut to 32 bits, decoders that take empty batches, errors that surface under another code.

  \<^bold>\<open>Loops and termination.\<close> Bounded loops are recursion on lists or counters. Polling loops are
  \<open>partial_function (option)\<close> without fuel; that they return is proved from the clock hypotheses, or stated
  for the runs that do return (\<open>ptriple\<close>) where the source has no deadline, as in the device waits.

  \<^bold>\<open>Simplifications.\<close> Error messages are dropped, error codes kept; the kernel launchers
  look for a status in the text of an error, and there errors keep that status. Device memory is one heap per type of
  object; agents that write to it act at polls. The server's worker threads run one after another in an
  order that is a parameter: the namespace is written by RDMA only, and workers own disjoint slots and
  queue pairs, so the interleaving of their local steps is not observable in the model's state.

  \<^bold>\<open>Not modelled\<close>: what is written to a logger; the registration of the session with Python; command line
  parsing, which is a library and enters as a parameter.
\<close>

section \<open>From the client's command to its completion\<close>

text \<open>
  A client state judges the completion of a served command: the two sides agree on the encoding, the
  identifier and the bytes.
\<close>

lemma verdict_of_completion:
  assumes "completion_valid completion" and "c_state completion = StateComplete" and "length buffer = 32"
    and "c_command_id completion = ss_command_id state"
  shows "completion_verdict state (put_completion completion buffer) =
    (if c_bytes_transferred completion \<noteq> ucast (ss_expected_bytes state) then NDS_OPERATION_INVALID_ARGUMENT
     else if c_status completion = StatusSuccess then NDS_OPERATION_SUCCESS else NDS_OPERATION_PROVIDER_FAILED)"
proof -
  have "deserialize_storage_completion (Some (put_completion completion buffer)) kStorageCompletionBytes (Some zero_completion)
      = (SerdeOk, Some completion)"
    by (rule completion_codec.dec_put) (use assms in \<open>simp_all add: kStorageCompletionBytes_def\<close>)
  with assms show ?thesis by (simp add: completion_verdict_def)
qed

text \<open>What the server makes of the command a client operation describes.\<close>

lemma decode_request:
  assumes "\<not> operation_refused operation" and "cid \<noteq> 0" and "unat i = wsl_slot_index slot" and "64 \<le> length buffer"
  shows "decode_command slot region capacity (put_read (read_request operation cid i) buffer) =
      Inr (range_command slot region capacity True cid (so_server_offset operation) (ucast (so_length operation))
             (operation_memory operation), None)"
    and "decode_command slot region capacity (put_write (write_request operation cid i) buffer) =
      Inr (range_command slot region capacity False cid (so_server_offset operation) (ucast (so_length operation))
             (operation_memory operation), None)"
proof -
  note v = request_valid [OF assms(1,2), of i]
  have b: "unat kStorageCommandBytes \<le> length buffer" "kStorageCommandBytes \<le> 64"
    using assms(4) by (simp_all add: kStorageCommandBytes_def)
  have rd: "deserialize_storage_read (Some (put_read (read_request operation cid i) buffer)) 64 (Some old) =
      (SerdeOk, Some (read_request operation cid i))" for old
    by (rule read_codec.dec_put [OF v(1) b])
  have wr: "deserialize_storage_write (Some (put_write (write_request operation cid i) buffer)) 64 (Some old) =
      (SerdeOk, Some (write_request operation cid i))" for old
    by (rule write_codec.dec_put [OF v(2) b])
  show "decode_command slot region capacity (put_read (read_request operation cid i) buffer) =
      Inr (range_command slot region capacity True cid (so_server_offset operation) (ucast (so_length operation))
             (operation_memory operation), None)"
    using assms(3) rd operation_of_put_command [OF assms(4) b(2), of OpRead]
    by (simp add: decode_command_def read_request_def range_command_def Let_def)
  show "decode_command slot region capacity (put_write (write_request operation cid i) buffer) =
      Inr (range_command slot region capacity False cid (so_server_offset operation) (ucast (so_length operation))
             (operation_memory operation), None)"
    using assms(3) wr operation_of_put_command [OF assms(4) b(2), of OpWrite]
    by (simp add: decode_command_def write_request_def range_command_def Let_def new_pending_def with_command_id_def)
qed

text \<open>The answer to a command on one range, as the slot that issued it judges it.\<close>

definition slot_issued :: "u64 \<Rightarrow> u32 \<Rightarrow> NdsStorageState" where
  "slot_issued cid n = \<lparr>ss_command_id = cid, ss_expected_bytes = n, ss_in_flight = 1, ss_status = 0\<rparr>"

lemma out_of_range_u32:
  "out_of_range capacity offset (ucast (n :: u32)) \<longleftrightarrow> \<not> unat offset + unat n \<le> unat capacity"
proof -
  have "\<not> (ucast n :: u64) > ucast UINT32_MAX" using unat_less_32 [of n] by (simp add: word_less_nat_alt)
  then have "out_of_range capacity offset (ucast n) \<longleftrightarrow> \<not> (offset \<le> capacity \<and> ucast n \<le> capacity - offset)"
    by (auto simp: out_of_range_def not_less)
  then show ?thesis by (simp add: range_guard_unat)
qed

lemma range_command_answer:
  assumes "cid \<noteq> 0" and "n \<noteq> 0" and "length reply = 32"
    and c: "c = range_command slot region capacity rd cid offset (ucast n) data"
  shows "\<exists>answer. serialize_storage_completion (pc_completion c) (Some reply) 32 = (SerdeOk, Some answer) \<and>
    (if unat offset + unat n \<le> unat capacity
     then pc_requests c = [\<lparr>tr_local = Some region, tr_local_offset = offset, tr_remote_address = m_address data,
              tr_remote_key = m_remote_key data, tr_length = n\<rparr>]
       \<and> completion_verdict (slot_issued cid n) answer = NDS_OPERATION_SUCCESS
     else pc_requests c = [] \<and> completion_verdict (slot_issued cid n) answer = NDS_OPERATION_INVALID_ARGUMENT)"
proof -
  have served: "served region capacity (c\<lparr>pc_payload_pending := (c_status (pc_completion c) = StatusSuccess)\<rparr>)"
    using range_command_decoded [OF assms(1)] c unfolding decoded_def by simp
  then have v: "completion_valid (pc_completion c)" "c_state (pc_completion c) = StateComplete"
    by (simp_all add: served_def)
  have id: "c_command_id (pc_completion c) = ss_command_id (slot_issued cid n)"
    by (simp add: c range_command_def single_range_def with_command_id_def new_pending_def slot_issued_def)
  have enc: "serialize_storage_completion (pc_completion c) (Some reply) 32 = (SerdeOk, Some (put_completion (pc_completion c) reply))"
    by (rule completion_codec.enc_some [OF v(1)]) (simp add: kStorageCompletionBytes_def)
  note verdict = verdict_of_completion [OF v assms(3) id]
  show ?thesis
  proof (cases "unat offset + unat n \<le> unat capacity")
    case True
    with enc show ?thesis
      by (simp add: verdict) (simp add: c range_command_def single_range_def out_of_range_u32 with_command_id_def new_pending_def
          namespace_transfer_def slot_issued_def ucast_u32_u64_u32)
  next
    case False
    with enc assms(2) show ?thesis
      by (simp add: verdict) (simp add: c range_command_def single_range_def out_of_range_u32 with_command_id_def new_pending_def
          slot_issued_def ucast_nonzero_u32_u64 eq_commute [of 0])
  qed
qed

text \<open>C2: a read or write from the client's encoder to the client's verdict. The server decodes the command that a
  device operation describes for its slot; when the range lies inside the namespace the one transfer it
  prepares moves exactly the client's buffer at the requested offset and the completion it encodes is
  judged a success by the slot that issued the command; otherwise nothing is transferred and the slot
  reports an invalid argument.\<close>

theorem storage_command_end_to_end:
  assumes "\<not> operation_refused operation" and "cid \<noteq> 0" and "unat i = wsl_slot_index slot"
    and "length buffer = 64" and "length reply = 32"
  shows "\<exists>bytes bytes' c c' answer answer'.
      serialize_storage_read (read_request operation cid i) (Some buffer) kStorageCommandBytes = (SerdeOk, Some bytes)
    \<and> serialize_storage_write (write_request operation cid i) (Some buffer) kStorageCommandBytes = (SerdeOk, Some bytes')
    \<and> decode_command slot region capacity bytes = Inr (c, None) \<and> pc_storage_read c
    \<and> decode_command slot region capacity bytes' = Inr (c', None) \<and> \<not> pc_storage_read c'
    \<and> serialize_storage_completion (pc_completion c) (Some reply) 32 = (SerdeOk, Some answer)
    \<and> serialize_storage_completion (pc_completion c') (Some reply) 32 = (SerdeOk, Some answer')
    \<and> pc_requests c' = pc_requests c
    \<and> completion_verdict (slot_issued cid (so_length operation)) answer' = completion_verdict (slot_issued cid (so_length operation)) answer
    \<and> (if unat (so_server_offset operation) + unat (so_length operation) \<le> unat capacity
       then pc_requests c = [\<lparr>tr_local = Some region, tr_local_offset = so_server_offset operation,
              tr_remote_address = so_buffer_address operation, tr_remote_key = so_buffer_key operation,
              tr_length = so_length operation\<rparr>]
         \<and> completion_verdict (slot_issued cid (so_length operation)) answer = NDS_OPERATION_SUCCESS
       else pc_requests c = [] \<and> completion_verdict (slot_issued cid (so_length operation)) answer = NDS_OPERATION_INVALID_ARGUMENT)"
proof -
  define command where "command rd = range_command slot region capacity rd cid (so_server_offset operation)
    (ucast (so_length operation)) (operation_memory operation)" for rd
  note v = request_valid [OF assms(1,2), of i]
  have n: "so_length operation \<noteq> 0" using assms(1) by (simp add: operation_refused_def)
  have mem: "m_address (operation_memory operation) = so_buffer_address operation"
    "m_remote_key (operation_memory operation) = so_buffer_key operation" by (simp_all add: operation_memory_def)
  note answer = range_command_answer [OF assms(2) n assms(5) command_def, unfolded mem]
  from answer [of True] answer [of False] obtain a a' where
    "serialize_storage_completion (pc_completion (command True)) (Some reply) 32 = (SerdeOk, Some a)"
    "serialize_storage_completion (pc_completion (command False)) (Some reply) 32 = (SerdeOk, Some a')" by blast
  moreover have "pc_storage_read (command rd) = rd" for rd
    by (simp add: command_def range_command_def single_range_def with_command_id_def new_pending_def)
  ultimately show ?thesis
    using decode_request [OF assms(1-3), of buffer region capacity] assms(4) answer [of True] answer [of False]
      read_codec.enc_some [OF v(1) order.refl, of buffer] write_codec.enc_some [OF v(2) order.refl, of buffer]
    unfolding command_def [symmetric]
    by (auto split: if_splits)
qed

theorem storage_command_end_to_end_witness:
  "\<exists>bytes c answer.
      serialize_storage_read (read_request sample_operation 77 0) (Some (replicate 64 0)) kStorageCommandBytes = (SerdeOk, Some bytes)
    \<and> decode_command (empty_worker_slot 0) empty_region 0x100000 bytes = Inr (c, None)
    \<and> serialize_storage_completion (pc_completion c) (Some (replicate 32 0)) 32 = (SerdeOk, Some answer)
    \<and> length (pc_requests c) = 1 \<and> completion_verdict (slot_issued 77 256) answer = NDS_OPERATION_SUCCESS"
proof -
  have r: "\<not> operation_refused sample_operation" by (simp add: operation_refused_def sample_operation_def)
  have i: "unat (0 :: u32) = wsl_slot_index (empty_worker_slot 0)" by (simp add: empty_worker_slot_def)
  have f: "unat (so_server_offset sample_operation) + unat (so_length sample_operation) \<le> unat (0x100000 :: u64)"
    "so_length sample_operation = 256" by (simp_all add: sample_operation_def)
  have b: "(77 :: u64) \<noteq> 0" "length (replicate 64 (0 :: u8)) = 64" "length (replicate 32 (0 :: u8)) = 32" by simp_all
  from storage_command_end_to_end [OF r b(1) i b(2,3), of empty_region "0x100000"] show ?thesis
    unfolding if_P [OF f(1)] unfolding f(2) by (elim exE conjE) (intro exI conjI, assumption+, simp, assumption)
qed

section \<open>The three backends\<close>

lemma return_values_eq: "NdsAicpuSetReturnValue = NdsAivSetReturnValue"
  by (simp add: fun_eq_iff NdsAicpuSetReturnValue_def NdsAivSetReturnValue_def)

lemma waits_of_device_backends:
  assumes valid: "nds_storage_slot_id_valid m (Some d) slot_id"
    and a: "nds_storage_state (Some d) (nds_storage_slot_id_index slot_id) = Some a"
    and sa: "nds_storage_slot (Some d) (nds_storage_slot_id_index slot_id) = Some sa"
    and s: "ss_command_id (g_storage_state m a) \<noteq> 0" "ss_expected_bytes (g_storage_state m a) \<noteq> 0"
      "ss_in_flight (g_storage_state m a) \<noteq> 0"
  shows "nds_aicpu_storage_wait (Some d) slot_id (Some v) m = (kNdsAicpuSuccess, nds_aiv_storage_wait (Some d) slot_id (Some v) m)"
    and "nds_aiv_storage_wait (Some d) slot_id (Some v) m =
      NdsAivSetReturnValue (Some v)
        (if ss_status (g_storage_state m a) \<noteq> 0 then - ss_status (g_storage_state m a)
         else completion_verdict (g_storage_state m a) (get_bytes m (sg_address (sl_completion_buffer (g_slot m sa))) 32))"
proof -
  have dv: "nds_storage_descriptor_valid (Some d)" using slot_id_valid_parts [OF valid] by metis
  have g: "nds_storage_state_global (Some d) (slot_id AND 0xffff) = Some a"
    "nds_storage_slot_global (Some d) (slot_id AND 0xffff) = Some sa"
    using a sa by (simp_all add: global_accessors [OF dv] nds_storage_slot_id_index_def)
  show "nds_aiv_storage_wait (Some d) slot_id (Some v) m =
      NdsAivSetReturnValue (Some v)
        (if ss_status (g_storage_state m a) \<noteq> 0 then - ss_status (g_storage_state m a)
         else completion_verdict (g_storage_state m a) (get_bytes m (sg_address (sl_completion_buffer (g_slot m sa))) 32))"
    using g dv valid s by (simp add: nds_aiv_storage_wait_def ContextValid_eq SlotIdValid_eq Let_def kStorageCompletionBytes_def)
  then show "nds_aicpu_storage_wait (Some d) slot_id (Some v) m = (kNdsAicpuSuccess, nds_aiv_storage_wait (Some d) slot_id (Some v) m)"
    using valid a sa s by (simp add: nds_aicpu_storage_wait_def return_values_eq Let_def kStorageCompletionBytes_def)
qed

text \<open>The verdict of the RA wait on the same bytes.\<close>

definition ra_verdict :: "NdsStorageState \<Rightarrow> u8 list \<Rightarrow> int" where
  "ra_verdict s bytes =
     (if ss_status s \<noteq> 0 then -1
      else case deserialize_storage_completion (Some bytes) kStorageCompletionBytes (Some zero_completion) of
        (SerdeOk, Some completion) \<Rightarrow>
          if c_state completion \<noteq> StateComplete then 1
          else if completion_verdict s bytes = NDS_OPERATION_SUCCESS then 0 else -1
      | _ \<Rightarrow> -1)"

lemma ra_wait_verdict:
  assumes valid: "nds_storage_slot_id_valid (rh_mem h) (Some d) slot_id"
    and a: "nds_storage_state (Some d) (nds_storage_slot_id_index slot_id) = Some a" "a \<noteq> 0"
    and sa: "nds_storage_slot (Some d) (nds_storage_slot_id_index slot_id) = Some sa"
    and s: "ss_command_id (g_storage_state (rh_mem h) a) \<noteq> 0"
    and q: "nds_transport_qp (Some (sd_transport d)) (sl_qp_index (g_slot (rh_mem h) sa)) = Some q"
      "qd_host_runtime_address (g_qp (rh_mem h) q) \<noteq> 0" "qd_host_qp_address (g_qp (rh_mem h) q) \<noteq> 0"
    and ts: "nds_transport_qp_state (Some (sd_transport d)) (sl_qp_index (g_slot (rh_mem h) sa)) = Some ts" "ts \<noteq> 0"
    and rt: "rt_initialized (rh_runtime h (qd_host_runtime_address (g_qp (rh_mem h) q)))"
    and copy: "aclrtMemcpy_to_host acl (sg_address (sl_completion_buffer (g_slot (rh_mem h) sa))) 32 w = ((0, bytes), w')"
  shows "fst (nds_ra_backend_storage_wait acl (Some d) slot_id (h, w)) = ra_verdict (g_storage_state (rh_mem h) a) bytes"
proof -
  have dv: "nds_storage_descriptor_valid (Some d)" using slot_id_valid_parts [OF valid] by metis
  have rec: "slot_record_valid d (g_slot (rh_mem h) sa)"
    using valid sa by (simp add: nds_storage_slot_id_valid_def nds_storage_slot_valid_def Let_def)
  let ?con = "\<lparr>rcn_runtime = qd_host_runtime_address (g_qp (rh_mem h) q), rcn_qp = qd_host_qp_address (g_qp (rh_mem h) q)\<rparr>"
  let ?c = "slot_context ?con ts a (g_slot (rh_mem h) sa) (sd_capacity d) (nds_storage_slot_id_index slot_id)"
  have ctx: "ra_validate_context h ?c = (if ss_status (g_storage_state (rh_mem h) a) \<noteq> 0 then Inl kInvalidArgument else Inr ())"
    using rec dv q ts a s
    by (auto simp: ra_validate_context_def slot_context_def ra_local_sge_def slot_record_valid_def storage_state_def
        nds_storage_descriptor_valid_def not_less)
  have run: "nds_ra_backend_storage_wait acl (Some d) slot_id (h, w) =
      (case NdsRaStorageWait acl ?c (h, w) of
         (Inr completion, s) \<Rightarrow> (if c_status completion = StatusSuccess then 0 else -1, s)
       | (Inl err, s) \<Rightarrow> (if err = kTransport then 1 else -1, s))"
    using valid a sa q ts
    by (simp add: nds_ra_backend_storage_wait_def nds_storage_wait_valid_def host_connection_def raw_pointer_def Let_def)
  have dev: "copy_device_to_host acl (rh_runtime h (qd_host_runtime_address (g_qp (rh_mem h) q)))
      (sg_address (sl_completion_buffer (g_slot (rh_mem h) sa))) 32 w = (Inr bytes, w')"
    using rec rt copy by (simp add: copy_device_to_host_def slot_record_valid_def)
  have f: "rcn_runtime (rsc_connection ?c) = qd_host_runtime_address (g_qp (rh_mem h) q)"
    "rsc_completion_device ?c = sg_address (sl_completion_buffer (g_slot (rh_mem h) sa))" "rsc_storage_state ?c = a"
    by (simp_all add: slot_context_def)
  obtain result out where out: "deserialize_storage_completion (Some bytes) kStorageCompletionBytes (Some zero_completion) = (result, out)"
    by fastforce
  show ?thesis
    unfolding run NdsRaStorageWait_def prod.case ctx f kStorageCompletionBytes_def
    by (cases result; cases out)
      (simp_all add: dev out [unfolded kStorageCompletionBytes_def] ra_verdict_def completion_verdict_def storage_state_def
        kStorageCompletionBytes_def op_status_defs Let_def)
qed

text \<open>C5: the three backends agree on a completion. For a slot in flight that all of them find in the same memory, the
  AICPU and the AIV wait report the same status whatever the completion buffer holds; the RA wait, which
  reads the completion buffer through the runtime, reports success exactly when they do, and when it
  reports that the command is pending, so do they.\<close>

theorem wait_backends_agree:
  assumes "nds_storage_slot_id_valid (rh_mem h) (Some d) slot_id"
    and "nds_storage_state (Some d) (nds_storage_slot_id_index slot_id) = Some a" and "a \<noteq> 0"
    and "nds_storage_slot (Some d) (nds_storage_slot_id_index slot_id) = Some sa"
    and "ss_command_id (g_storage_state (rh_mem h) a) \<noteq> 0" and "ss_expected_bytes (g_storage_state (rh_mem h) a) \<noteq> 0"
    and "ss_in_flight (g_storage_state (rh_mem h) a) \<noteq> 0"
    and "nds_transport_qp (Some (sd_transport d)) (sl_qp_index (g_slot (rh_mem h) sa)) = Some q"
    and "qd_host_runtime_address (g_qp (rh_mem h) q) \<noteq> 0" and "qd_host_qp_address (g_qp (rh_mem h) q) \<noteq> 0"
    and "nds_transport_qp_state (Some (sd_transport d)) (sl_qp_index (g_slot (rh_mem h) sa)) = Some ts" and "ts \<noteq> 0"
    and "rt_initialized (rh_runtime h (qd_host_runtime_address (g_qp (rh_mem h) q)))"
    and "aclrtMemcpy_to_host acl (sg_address (sl_completion_buffer (g_slot (rh_mem h) sa))) 32 w =
      ((0, get_bytes (rh_mem h) (sg_address (sl_completion_buffer (g_slot (rh_mem h) sa))) 32), w')"
  shows "nds_aicpu_storage_wait (Some d) slot_id (Some v) (rh_mem h) =
      (kNdsAicpuSuccess, nds_aiv_storage_wait (Some d) slot_id (Some v) (rh_mem h))
    \<and> (fst (nds_ra_backend_storage_wait acl (Some d) slot_id (h, w)) = 0 \<longleftrightarrow>
        nds_aiv_storage_wait (Some d) slot_id (Some v) (rh_mem h) = Some 0)
    \<and> (fst (nds_ra_backend_storage_wait acl (Some d) slot_id (h, w)) = 1 \<longrightarrow>
        nds_aiv_storage_wait (Some d) slot_id (Some v) (rh_mem h) = Some (- NDS_OPERATION_QUEUE_FULL))"
proof -
  note device = waits_of_device_backends [OF assms(1,2,4-7), of v]
  note host = ra_wait_verdict [OF assms(1-5,8-14)]
  have nz: "- x = NDS_OPERATION_SUCCESS \<longleftrightarrow> x = 0" for x :: u32 by (simp add: NDS_OPERATION_SUCCESS_def)
  show ?thesis
    unfolding device(1) host
    by (auto simp: device(2) NdsAivSetReturnValue_def ra_verdict_def completion_verdict_def op_status_defs
        split: prod.splits StorageSerdeResult.splits option.splits)
qed

definition agreeing_host :: RaHost where
  "agreeing_host = sample_host\<lparr>rh_mem := sample_done_dmem\<lparr>g_qp := (\<lambda>_. sample_qp\<lparr>qd_host_runtime_address := 0x40,
     qd_host_qp_address := 0x50\<rparr>)\<rparr>\<rparr>"

definition mirror_acl :: "unit cann" where
  "mirror_acl = sample_acl\<lparr>aclrtMemcpy_to_host := (\<lambda>a n w. ((0, get_bytes (rh_mem agreeing_host) a n), w))\<rparr>"

lemma agreeing_host_mem:
  "g_slot (rh_mem agreeing_host) = g_slot sample_dmem" "g_byte (rh_mem agreeing_host) = g_byte sample_done_dmem"
  "g_storage_state (rh_mem agreeing_host) = g_storage_state sample_done_dmem"
  by (simp_all add: agreeing_host_def sample_done_dmem_def)

theorem wait_backends_agree_witness:
  "nds_aiv_storage_wait (Some sample_storage) 0 (Some 9) (rh_mem agreeing_host) = Some 0
   \<and> fst (nds_ra_backend_storage_wait mirror_acl (Some sample_storage) 0 (agreeing_host, ())) = 0"
proof -
  have i: "nds_storage_slot_id_index 0 = 0" by (simp add: nds_storage_slot_id_index_def)
  have v: "nds_storage_slot_id_valid (rh_mem agreeing_host) (Some sample_storage) 0"
    using sample_slot_valid
    by (simp add: nds_storage_slot_id_valid_def nds_storage_slot_valid_def agreeing_host_mem Let_def split: option.splits)
  have slot: "nds_storage_state (Some sample_storage) (nds_storage_slot_id_index 0) = Some 0xb000"
    "nds_storage_slot (Some sample_storage) (nds_storage_slot_id_index 0) = Some 0xa000"
    by (simp_all add: i nds_storage_state_def nds_storage_slot_def nds_storage_descriptor_valid_def sample_storage_def
        Device_Queues.sample_transport_def)
  have qp: "sl_qp_index (g_slot sample_dmem 0xa000) = 0" "sg_address (sl_completion_buffer (g_slot sample_dmem 0xa000)) = 0x9000"
    "nds_transport_qp (Some (sd_transport sample_storage)) 0 = Some 0x5000"
    "nds_transport_qp_state (Some (sd_transport sample_storage)) 0 = Some 0x6000"
    by (simp_all add: sample_dmem_def sample_sge_def nds_transport_qp_def nds_transport_qp_state_def sample_storage_def
        Device_Queues.sample_transport_def)
  have host: "qd_host_runtime_address (g_qp (rh_mem agreeing_host) 0x5000) = 0x40"
    "qd_host_qp_address (g_qp (rh_mem agreeing_host) 0x5000) = 0x50" "rt_initialized (rh_runtime agreeing_host 0x40)"
    by (simp_all add: agreeing_host_def sample_host_def sample_runtime_def)
  have s: "g_storage_state sample_done_dmem 0xb000 = \<lparr>ss_command_id = 77, ss_expected_bytes = 256, ss_in_flight = 1, ss_status = 0\<rparr>"
    by (simp add: sample_done_dmem_def)
  have copy: "aclrtMemcpy_to_host mirror_acl a n () = ((0, get_bytes (rh_mem agreeing_host) a n), ())" for a n
    by (simp add: mirror_acl_def)
  have bytes: "get_bytes (rh_mem agreeing_host) = get_bytes sample_done_dmem"
    by (simp add: get_bytes_def fun_eq_iff agreeing_host_mem)
  have "completion_verdict (g_storage_state sample_done_dmem 0xb000) (get_bytes sample_done_dmem 0x9000 32) = NDS_OPERATION_SUCCESS"
    by (simp add: completion_verdict_def sample_done_decodes s sample_done_def)
  then have w: "nds_aiv_storage_wait (Some sample_storage) 0 (Some 9) (rh_mem agreeing_host) = Some 0"
    using waits_of_device_backends(2) [OF v slot, of 9] qp
    by (simp add: agreeing_host_mem s bytes NdsAivSetReturnValue_def)
  with wait_backends_agree [OF v slot(1) _ slot(2), of "0x5000" "0x6000" mirror_acl "()" "()" 9] show ?thesis
    by (simp add: agreeing_host_mem qp host s copy)
qed

section \<open>An opened client\<close>

text \<open>Consecutive blocks of a range share no byte.\<close>

lemma concat_blocks:
  "concat (map (\<lambda>i. map (\<lambda>k. (base :: u64) + of_nat i * of_nat b + of_nat k) [0..<b]) [0..<n]) =
   map (\<lambda>k. base + of_nat k) [0..<n * b]"
proof (induction n)
  case (Suc n)
  have "[0..<Suc n * b] = [0..<n * b] @ map (\<lambda>k. n * b + k) [0..<b]"
    using upt_add_eq_append [of 0 "n * b" b] map_add_upt [of "n * b" b] by (simp add: add.commute)
  with Suc show ?case by (simp add: add.assoc)
qed simp

lemma distinct_blocks:
  assumes "n * b < 2 ^ 64"
  shows "distinct (concat (map (\<lambda>i. map (\<lambda>k. (base :: u64) + of_nat i * of_nat b + of_nat k) [0..<b]) [0..<n]))"
proof -
  have "inj_on (\<lambda>k. base + of_nat k) (set [0..<n * b])"
  proof (rule inj_onI)
    fix k l assume "k \<in> set [0..<n * b]" "l \<in> set [0..<n * b]" "base + of_nat k = base + of_nat l"
    with assms have "unat (of_nat k :: u64) = unat (of_nat l :: u64)" "k < 2 ^ 64" "l < 2 ^ 64" by auto
    then show "k = l" by (simp add: unat_of_nat)
  qed
  then show ?thesis unfolding concat_blocks by (simp add: distinct_map)
qed

text \<open>A block inside a range that does not wrap around is not at the null address.\<close>

lemma block_address:
  assumes "base \<noteq> 0" and "unat base + n * b \<le> 2 ^ 64" and "i < n" and "0 < b"
  shows "(base :: u64) + of_nat i * of_nat b \<noteq> 0"
proof -
  have "i * b < n * b" using assms(3,4) by (rule mult_less_mono1)
  with assms(2) have lt: "unat base + i * b < 2 ^ 64" by linarith
  then have "i * b < 2 ^ LENGTH(64)" by simp
  then have "unat (of_nat (i * b) :: u64) = i * b" unfolding unat_of_nat by (rule mod_less)
  with lt have "unat (base + of_nat (i * b)) = unat base + i * b"
    using unat_add_small [of base "of_nat (i * b)"] by (simp del: of_nat_mult)
  moreover have "0 < unat base" using assms(1) by (simp add: unat_gt_0)
  ultimately have "base + of_nat (i * b) \<noteq> 0" by (metis add_is_0 less_irrefl unat_0)
  then show ?thesis by simp
qed

lemma bootstrap_table_accepted: "bootstrap_valid b \<Longrightarrow> \<not> slot_table_refused b"
proof -
  assume v: "bootstrap_valid b"
  have "(ucast (b_slot_count b) :: u64) \<le> UINT64_MAX div 56"
    using unat_less_32 [of "b_slot_count b"] by (simp add: word_le_nat_alt)
  with v show ?thesis
    by (auto simp: bootstrap_valid_def slot_table_refused_def memory_valid_def kStorageSlotDescriptorBytes_def not_less)
qed

lemma region_size:
  assumes "registers_range ra"
    and b: "block_of acl rt (16 * q * k) LocDevice b" and r: "region_of ra b region" and "0 < q" "q < 4096" "0 < k" "k \<le> 64"
  shows "unat (mi_size (crg_info region)) = 16 * q * k"
proof -
  have "q * k \<le> 4096 * 64" using assms(5,7) by (intro mult_le_mono) simp_all
  then have "16 * (q * k) \<le> 16 * (4096 * 64)" by (rule mult_le_mono2)
  then have "16 * q * k < 2 ^ 32" unfolding mult.assoc by (rule le_less_trans) simp
  then have "unat (of_nat (16 * q * k) :: u64) = 16 * q * k" using unat_of_small(2) [of "16 * q * k"] by (simp del: of_nat_mult)
  with assms show ?thesis by (simp add: block_of_def region_of_def del: of_nat_mult)
qed

lemma region_blocks:
  assumes "registers_range ra" and "blocks_fit acl"
    and b: "block_of acl rt (16 * q * k) LocDevice b" and r: "region_of ra b region" and "0 < q" "q < 4096" "0 < k" "k \<le> 64"
  shows "mi_address (crg_info region) \<noteq> 0 \<and> mi_local_key (crg_info region) \<noteq> 0 \<and> mi_remote_key (crg_info region) \<noteq> 0
    \<and> unat (mi_address (crg_info region)) + 16 * q * k \<le> 2 ^ 64"
proof -
  have "mi_size (crg_info region) = mb_size b" using assms(1) r by (simp add: region_of_def)
  with region_size [OF assms(1,3,4,5,6,7,8)] have "unat (mb_size b) = 16 * q * k" by simp
  with assms show ?thesis by (auto simp: block_of_def region_of_def buffer_wf_def)
qed

lemma list_all_slots:
  "list_all P (map f (map (slot_resources q) [0..<n])) \<longleftrightarrow> (\<forall>i < n. P (f (slot_resources q i)))"
  by (auto simp: list_all_iff)

text \<open>Lists of pairwise distinct blocks from two disjoint sets interleave to distinct blocks.\<close>

lemma distinct_interleave:
  assumes "distinct (concat (map f xs))" and "distinct (concat (map g xs))"
    and "set (concat (map f xs)) \<inter> set (concat (map g xs)) = {}"
  shows "distinct (concat (map (\<lambda>x. f x @ g x) xs))"
proof -
  have "mset (concat (map (\<lambda>x. f x @ g x) xs)) = mset (concat (map f xs) @ concat (map g xs))"
    by (induction xs) (simp_all add: ac_simps)
  then have "distinct (concat (map (\<lambda>x. f x @ g x) xs)) \<longleftrightarrow> distinct (concat (map f xs) @ concat (map g xs))"
    by (rule mset_eq_imp_distinct_iff)
  with assms show ?thesis by simp
qed

definition slot_bytes :: "StorageClient \<Rightarrow> SlotResources \<Rightarrow> u64 list" where
  "slot_bytes c r =
     map (\<lambda>k. sg_address (sl_command_buffer (slot_descriptor c r)) + of_nat k) [0..<64] @
     map (\<lambda>k. sg_address (sl_completion_buffer (slot_descriptor c r)) + of_nat k) [0..<32]"

lemma slot_bytes_distinct:
  assumes slots: "stc_slots c = map (slot_resources q) [0..<16 * q]" and q: "q < 4096"
    and sizes: "unat (mi_size (crg_info (stc_command_region c))) = 16 * q * 64"
      "unat (mi_size (crg_info (stc_completion_region c))) = 16 * q * 32"
    and apart: "region_bytes (stc_command_region c) \<inter> region_bytes (stc_completion_region c) = {}"
  shows "distinct (concat (map (slot_bytes c) (stc_slots c)))"
proof -
  let ?cmd = "crg_info (stc_command_region c)" and ?com = "crg_info (stc_completion_region c)"
  let ?f = "\<lambda>r. map (\<lambda>k. sg_address (sl_command_buffer (slot_descriptor c r)) + of_nat k) [0..<64]"
  let ?g = "\<lambda>r. map (\<lambda>k. sg_address (sl_completion_buffer (slot_descriptor c r)) + of_nat k) [0..<32]"
  have lt: "16 * q * 64 < 2 ^ 64" "16 * q * 32 < 2 ^ 64" using q by simp_all
  have bytes: "(ucast kStorageCommandBytes :: u64) = of_nat 64" "(ucast kStorageCompletionBytes :: u64) = of_nat 32"
    by (simp_all add: kStorageCommandBytes_def kStorageCompletionBytes_def)
  have "map ?f (stc_slots c) = map (\<lambda>i. map (\<lambda>k. mi_address ?cmd + of_nat i * of_nat 64 + of_nat k) [0..<64]) [0..<16 * q]"
    "map ?g (stc_slots c) = map (\<lambda>i. map (\<lambda>k. mi_address ?com + of_nat i * of_nat 32 + of_nat k) [0..<32]) [0..<16 * q]"
    by (simp_all add: slots comp_def slot_descriptor_def slot_resources_def bytes del: of_nat_numeral upt.simps)
  then have f: "concat (map ?f (stc_slots c)) = map (\<lambda>k. mi_address ?cmd + of_nat k) [0..<16 * q * 64]"
    and g: "concat (map ?g (stc_slots c)) = map (\<lambda>k. mi_address ?com + of_nat k) [0..<16 * q * 32]"
    by (simp_all only: concat_blocks)
  have "distinct (concat (map ?f (stc_slots c)))" "distinct (concat (map ?g (stc_slots c)))"
    unfolding f g using distinct_blocks [OF lt(1), of "mi_address ?cmd"] distinct_blocks [OF lt(2), of "mi_address ?com"]
    by (simp_all only: concat_blocks)
  moreover have "set (concat (map ?f (stc_slots c))) \<inter> set (concat (map ?g (stc_slots c))) = {}"
    using apart unfolding f g region_bytes_def block_bytes_def sizes set_map set_upt atLeast0LessThan .
  ultimately show ?thesis unfolding slot_bytes_def by (rule distinct_interleave)
qed

text \<open>
  C3: what a successful \<open>open\<close> of the client's storage hands out is accepted by its readers. The
  server decodes the bootstrap record and takes the slot table, whose entries are all usable for it; on the
  device every slot descriptor passes the validity checks; and no byte belongs to two of the command and
  completion buffers of all the slots. The client held no command memory before, as a new one does not, and
  the device hands out memory that is not in use.
\<close>

theorem opened_storage_accepted:
  assumes o: "storage_client_open ra acl (Some rt) (Some t) (c, w) = (Inr u, (c', w'))" and z: "stc_next_slot c = 0"
    and new: "mb_data (stc_command_buffer c) = 0"
    and laws: "registers_range ra" "blocks_fit acl" "device_blocks ra acl held"
    and dt: "unat (td_qp_count (ctp_device_transport t)) = client_qp_count t"
  shows "(\<exists>bytes. serialize_storage_bootstrap (bootstrap_record c') (Some (replicate 96 0)) kStorageBootstrapBytes = (SerdeOk, Some bytes)
       \<and> deserialize_storage_bootstrap (Some bytes) 96 (Some zero_bootstrap) = (SerdeOk, Some (bootstrap_record c')))
    \<and> \<not> slot_table_refused (bootstrap_record c') \<and> unat (b_slot_count (bootstrap_record c')) = 16 * client_qp_count t
    \<and> list_all (\<lambda>slot. \<not> slot_invalid (client_qp_count t) slot) (map (slot_table_entry c') (stc_slots c'))
    \<and> list_all (slot_record_valid (stc_storage_descriptor c')) (map (slot_descriptor c') (stc_slots c'))
    \<and> distinct (concat (map (slot_bytes c') (stc_slots c')))"
proof -
  let ?q = "client_qp_count t"
  let ?cmd = "crg_info (stc_command_region c')" and ?com = "crg_info (stc_completion_region c')"
  have wf: "storage_client_wf ra acl rt t c'" using storage_client_open_wf [OF o z] by blast
  then have v: "bootstrap_valid (bootstrap_record c')" and slots: "stc_slots c' = map (slot_resources ?q) [0..<16 * ?q]"
    and q: "0 < ?q" "?q < 4096" and desc: "sd_transport (stc_storage_descriptor c') = ctp_device_transport t"
    by (simp_all add: storage_client_wf_def)
  from wf obtain cb mb where "block_of acl rt (16 * ?q * 64) LocDevice cb" "region_of ra cb (stc_command_region c')"
    "block_of acl rt (16 * ?q * 32) LocDevice mb" "region_of ra mb (stc_completion_region c')"
    by (auto simp: storage_client_wf_def ac_simps)
  note blocks = this
  note cmd = region_blocks [OF laws(1,2) blocks(1,2) q, simplified] and com = region_blocks [OF laws(1,2) blocks(3,4) q, simplified]
  have bytes: "(ucast kStorageCommandBytes :: u64) = of_nat 64" "(ucast kStorageCompletionBytes :: u64) = of_nat 32"
    by (simp_all add: kStorageCommandBytes_def kStorageCompletionBytes_def)
  have addr: "mi_address ?cmd + of_nat i * of_nat 64 \<noteq> 0" "mi_address ?com + of_nat i * of_nat 32 \<noteq> 0" if "i < 16 * ?q" for i
    using cmd com that by (intro block_address [where n = "16 * ?q"]; simp)+
  have qi: "unat (of_nat (i mod ?q) :: u32) < ?q" for i
  proof -
    have "i mod ?q < ?q" using q by simp
    with q unat_of_small(1) [of "i mod ?q"] show ?thesis by simp
  qed
  have count: "unat (b_slot_count (bootstrap_record c')) = 16 * ?q"
    using q slots unat_of_small(1) [of "16 * ?q"] by (simp add: bootstrap_record_def Let_def)
  have table: "list_all (\<lambda>slot. \<not> slot_invalid ?q slot) (map (slot_table_entry c') (stc_slots c'))"
    unfolding slots list_all_slots
    using addr cmd com qi
    by (simp add: slot_invalid_def slot_table_entry_def slot_resources_def bytes not_le del: of_nat_numeral)
  have descs: "list_all (slot_record_valid (stc_storage_descriptor c')) (map (slot_descriptor c') (stc_slots c'))"
    unfolding slots list_all_slots
    using addr cmd com qi dt
    by (simp add: slot_record_valid_def slot_descriptor_def slot_resources_def bytes desc word_less_nat_alt del: of_nat_numeral)
  have "unat (mi_size ?cmd) = 16 * ?q * 64" "unat (mi_size ?com) = 16 * ?q * 32"
    using region_size [OF laws(1) blocks(1,2) q] region_size [OF laws(1) blocks(3,4) q] by simp_all
  from slot_bytes_distinct [OF slots q(2) this storage_client_open_apart [OF laws(3,1) o new]]
  have "distinct (concat (map (slot_bytes c') (stc_slots c')))" .
  moreover have "\<exists>bytes. serialize_storage_bootstrap (bootstrap_record c') (Some (replicate 96 0)) kStorageBootstrapBytes = (SerdeOk, Some bytes)
       \<and> deserialize_storage_bootstrap (Some bytes) 96 (Some zero_bootstrap) = (SerdeOk, Some (bootstrap_record c'))"
    using bootstrap_codec.enc_some [OF v order.refl] bootstrap_codec.dec_put [OF v, of "replicate 96 0" 96]
    by (simp add: kStorageBootstrapBytes_def)
  ultimately show ?thesis using bootstrap_table_accepted [OF v] count table descs by blast
qed

theorem opened_storage_accepted_witness:
  "storage_client_open sample_ra sample_storage_acl (Some sample_runtime) (Some sample_storage_transport) (empty_storage_client, 0x1000)
     = (Inr (), (sample_storage_client, 0x1df0))
   \<and> \<not> slot_table_refused (bootstrap_record sample_storage_client)
   \<and> list_all (\<lambda>slot. \<not> slot_invalid 1 slot) (map (slot_table_entry sample_storage_client) (stc_slots sample_storage_client))
   \<and> list_all (slot_record_valid (stc_storage_descriptor sample_storage_client))
       (map (slot_descriptor sample_storage_client) (stc_slots sample_storage_client))
   \<and> distinct (concat (map (slot_bytes sample_storage_client) (stc_slots sample_storage_client)))"
proof -
  have new: "stc_next_slot empty_storage_client = 0" "mb_data (stc_command_buffer empty_storage_client) = 0"
    by (simp_all add: empty_storage_client_def empty_buffer_def)
  have "unat (td_qp_count (ctp_device_transport sample_storage_transport)) = client_qp_count sample_storage_transport"
    unfolding sample_qp_count by (simp add: sample_storage_transport_def)
  from opened_storage_accepted [OF sample_storage_opens new sample_laws sample_device_blocks this] sample_storage_opens
  show ?thesis unfolding sample_qp_count by blast
qed

end
